(* ===== verification/Prelude.thy ===== *)
theory Prelude
  imports Main "HOL-Library.AList" "HOL-Library.Monad_Syntax" "HOL-Library.Multiset"
begin

text \<open>
  Shared vocabulary of the development: the reading of Go's basic data in HOL, and the generic
  lemmas on lists, association lists and the option monad that the components use.

  \<^item> A Go \<^verbatim>\<open>int\<close> that only carries an identifier, a counter or an instant is an
    \<^typ>\<open>int\<close>; where the width matters the wrap-around is written out in the component.
  \<^item> A pointer that may be nil is an \<open>option\<close>.
  \<^item> A Go map is an association list with distinct keys. The order of the list stands for one
    of the iteration orders that Go may choose; statements quantify over all lists.
  \<^item> A function that may panic returns an \<open>option\<close>, with \<^const>\<open>None\<close> for the panic.
\<close>

named_theorems store_simps \<open>effect of the task state store operations\<close>
named_theorems frame_simps \<open>fields an operation leaves alone\<close>
named_theorems status_simps \<open>the status predicates as equations\<close>

type_synonym go_time = int
type_synonym ident = int
type_synonym tref = nat

subsection \<open>Lists\<close>

text \<open>Removing the first element that satisfies a test: \<^verbatim>\<open>append(q[:i], q[i+1:]...)\<close>.\<close>

definition removeFirst :: "('a \<Rightarrow> bool) \<Rightarrow> 'a list \<Rightarrow> 'a list" where
  "removeFirst P xs = (case List.extract P xs of None \<Rightarrow> xs | Some (ys, y, zs) \<Rightarrow> ys @ zs)"

lemma removeFirst_Nil [simp]: "removeFirst P [] = []"
  by (simp add: removeFirst_def List.extract_Nil_code)

lemma removeFirst_Cons [simp]:
  "removeFirst P (x # xs) = (if P x then xs else x # removeFirst P xs)"
  by (simp add: removeFirst_def List.extract_Cons_code split: option.splits)

lemma set_removeFirst_subset: "set (removeFirst P xs) \<subseteq> set xs"
  by (induction xs) auto

lemma removeFirst_id: "\<forall>x\<in>set xs. \<not> P x \<Longrightarrow> removeFirst P xs = xs"
  by (induction xs) auto

lemma length_removeFirst:
  "length (removeFirst P xs) = (if \<exists>x\<in>set xs. P x then length xs - 1 else length xs)"
proof (induction xs)
  case (Cons a xs)
  then show ?case by (cases xs) auto
qed simp

lemma mset_removeFirst:
  "find P xs = Some x \<Longrightarrow> mset xs = add_mset x (mset (removeFirst P xs))"
  by (induction xs) (auto split: if_splits)

lemma distinct_map_removeFirst: "distinct (map f xs) \<Longrightarrow> distinct (map f (removeFirst P xs))"
proof (induction xs)
  case (Cons a xs)
  then show ?case using set_removeFirst_subset [of P xs] by auto
qed simp

lemma removeFirst_distinct_key:
  assumes "distinct (map f xs)"
  shows "removeFirst (\<lambda>x. f x = k) xs = filter (\<lambda>x. f x \<noteq> k) xs"
  using assms
proof (induction xs)
  case (Cons a xs)
  then have "f a = k \<Longrightarrow> filter (\<lambda>x. f x \<noteq> k) xs = xs"
    by (intro filter_True) (auto simp: image_iff)
  with Cons show ?case by auto
qed simp

lemma find_Some_in: "find P xs = Some x \<Longrightarrow> x \<in> set xs \<and> P x"
  by (induction xs) (auto split: if_splits)

lemma find_None_iff_ball: "find P xs = None \<longleftrightarrow> (\<forall>x\<in>set xs. \<not> P x)"
  by (induction xs) auto

lemma find_append: "find P (xs @ ys) = (case find P xs of Some x \<Rightarrow> Some x | None \<Rightarrow> find P ys)"
  by (induction xs) auto

lemma find_Some_ex: "x \<in> set xs \<Longrightarrow> P x \<Longrightarrow> \<exists>y. find P xs = Some y"
  using find_None_iff_ball [of P xs] by (cases "find P xs") auto

subsection \<open>Association lists\<close>

lemma map_of_update [simp]: "map_of (AList.update k v m) = (map_of m)(k \<mapsto> v)"
  by (rule update_conv')

lemma map_of_delete [simp]: "map_of (AList.delete k m) = (map_of m)(k := None)"
  by (rule delete_conv')

lemma distinct_keys_update [simp, intro]:
  "distinct (map fst m) \<Longrightarrow> distinct (map fst (AList.update k v m))"
  by (rule distinct_update)

lemma distinct_keys_delete [simp, intro]:
  "distinct (map fst m) \<Longrightarrow> distinct (map fst (AList.delete k m))"
  by (rule distinct_delete)

lemma length_update:
  "length (AList.update k v m) = (if k \<in> fst ` set m then length m else Suc (length m))"
  by (induction m) auto

lemma delete_id: "k \<notin> fst ` set m \<Longrightarrow> AList.delete k m = m"
  by (induction m) (auto simp: AList.delete_eq)

lemma length_delete:
  "distinct (map fst m) \<Longrightarrow>
     length (AList.delete k m) = (if k \<in> fst ` set m then length m - 1 else length m)"
proof (induction m)
  case (Cons p m)
  obtain a b where p: "p = (a, b)" by (cases p)
  show ?case
  proof (cases "a = k")
    case True
    with Cons.prems p have "AList.delete k m = m" by (intro delete_id) auto
    with True p show ?thesis by (simp add: AList.delete_eq)
  next
    case False
    with Cons p show ?thesis by (cases m) (auto simp: AList.delete_eq)
  qed
qed simp

lemma set_delete: "set (AList.delete k m) = {p \<in> set m. fst p \<noteq> k}"
  by (auto simp: AList.delete_eq)

lemma set_update_subset: "set (AList.update k v m) \<subseteq> insert (k, v) (set m)"
  by (induction m) auto

lemma ball_update: "\<forall>x\<in>set m. P x \<Longrightarrow> P (k, v) \<Longrightarrow> \<forall>x\<in>set (AList.update k v m). P x"
  using set_update_subset [of k v m] by blast

lemma ball_delete: "\<forall>x\<in>set m. P x \<Longrightarrow> \<forall>x\<in>set (AList.delete k m). P x"
  by (auto simp: set_delete)

lemma update_mem: "(k, v) \<in> set (AList.update k v m)"
  by (induction m) auto

lemma set_update_distinct:
  "distinct (map fst m) \<Longrightarrow> set (AList.update k v m) = insert (k, v) {p \<in> set m. fst p \<noteq> k}"
  by (induction m) (auto simp: image_iff)

lemma map_of_eq_None_fst: "map_of m k = None \<longleftrightarrow> k \<notin> fst ` set m"
  by (rule map_of_eq_None_iff)

subsection \<open>Strings\<close>

text \<open>\<^verbatim>\<open>strings.Split\<close> with a separator of one byte; the empty string has one (empty) part.\<close>

fun splitOn :: "char \<Rightarrow> string \<Rightarrow> string list" where
  "splitOn sep [] = [[]]"
| "splitOn sep (c # cs) =
     (if c = sep then [] # splitOn sep cs
      else case splitOn sep cs of [] \<Rightarrow> [[c]] | p # ps \<Rightarrow> (c # p) # ps)"

text \<open>\<^verbatim>\<open>strings.Join\<close> with a separator of one byte.\<close>

fun joinWith :: "char \<Rightarrow> string list \<Rightarrow> string" where
  "joinWith sep [] = []"
| "joinWith sep [p] = p"
| "joinWith sep (p # q # ps) = p @ sep # joinWith sep (q # ps)"

lemma splitOn_not_Nil [simp]: "splitOn sep s \<noteq> []"
  by (induction s) (auto split: list.splits)

lemma joinWith_splitOn: "joinWith sep (splitOn sep s) = s"
proof (induction s)
  case (Cons c cs)
  obtain p ps where "splitOn sep cs = p # ps" by (cases "splitOn sep cs") auto
  with Cons show ?case by (cases ps) auto
qed simp

lemma splitOn_parts: "p \<in> set (splitOn sep s) \<Longrightarrow> sep \<notin> set p"
proof (induction s arbitrary: p)
  case (Cons c cs)
  then show ?case by (cases "splitOn sep cs") (auto split: if_splits)
qed simp

lemma splitOn_no_sep: "sep \<notin> set s \<Longrightarrow> splitOn sep s = [s]"
  by (induction s) auto

lemma splitOn_append_sep: "splitOn sep (p @ sep # s) = splitOn sep p @ splitOn sep s"
proof (induction p)
  case (Cons c cs)
  obtain q qs where "splitOn sep cs = q # qs" by (cases "splitOn sep cs") auto
  with Cons show ?case by auto
qed simp

lemma splitOn_joinWith:
  "ps \<noteq> [] \<Longrightarrow> \<forall>p\<in>set ps. sep \<notin> set p \<Longrightarrow> splitOn sep (joinWith sep ps) = ps"
  by (induction sep ps rule: joinWith.induct) (auto simp: splitOn_no_sep splitOn_append_sep)

text \<open>\<^verbatim>\<open>strings.TrimSpace\<close> on ASCII white space.\<close>

definition isSpace :: "char \<Rightarrow> bool" where
  "isSpace c \<longleftrightarrow> of_char c \<in> {9, 10, 11, 12, 13, 32 :: nat}"

definition trimSpace :: "string \<Rightarrow> string" where
  "trimSpace s = rev (dropWhile isSpace (rev (dropWhile isSpace s)))"

text \<open>\<^verbatim>\<open>strconv.Itoa\<close>: decimal digits, with a minus sign for negative numbers.\<close>

definition digitChar :: "nat \<Rightarrow> char" where
  "digitChar d = char_of (48 + d)"

fun natDigits :: "nat \<Rightarrow> string" where
  "natDigits n = (if n < 10 then [digitChar n] else natDigits (n div 10) @ [digitChar (n mod 10)])"

declare natDigits.simps [simp del]

definition itoa :: "int \<Rightarrow> string" where
  "itoa i = (if i < 0 then CHR ''-'' # natDigits (nat (- i)) else natDigits (nat i))"

text \<open>\<^verbatim>\<open>strings.ToUpper\<close> on ASCII letters.\<close>

definition toUpperChar :: "char \<Rightarrow> char" where
  "toUpperChar c =
     (let n = of_char c :: nat in if 97 \<le> n \<and> n \<le> 122 then char_of (n - 32) else c)"

definition toUpper :: "string \<Rightarrow> string" where
  "toUpper s = map toUpperChar s"

subsection \<open>Panicking state transformers\<close>

text \<open>
  A loop \<^verbatim>\<open>for _, x := range xs\<close> whose body may panic.
\<close>

fun foldM :: "('a \<Rightarrow> 's \<Rightarrow> 's option) \<Rightarrow> 'a list \<Rightarrow> 's \<Rightarrow> 's option" where
  "foldM f [] s = Some s"
| "foldM f (x # xs) s = do { s' \<leftarrow> f x s; foldM f xs s' }"

lemma foldM_append: "foldM f (xs @ ys) s = Option.bind (foldM f xs s) (foldM f ys)"
proof (induction xs arbitrary: s)
  case (Cons x xs)
  then show ?case by (cases "f x s") auto
qed simp

lemma foldM_invariant:
  assumes "foldM f xs s = Some s'" and "P s"
    and step: "\<And>x t t'. x \<in> set xs \<Longrightarrow> P t \<Longrightarrow> f x t = Some t' \<Longrightarrow> P t'"
  shows "P s'"
  using assms
proof (induction xs arbitrary: s)
  case (Cons x xs)
  from Cons.prems(1) obtain t where t: "f x s = Some t" "foldM f xs t = Some s'"
    by (auto simp: bind_eq_Some_conv)
  have "P t" using Cons.prems(2) t(1) by (rule Cons.prems(3) [rotated]) simp
  with Cons.IH [OF t(2)] Cons.prems(3) show ?case by auto
qed simp

lemma foldM_total:
  assumes "P s"
    and step: "\<And>x t. x \<in> set xs \<Longrightarrow> P t \<Longrightarrow> \<exists>t'. f x t = Some t' \<and> P t'"
  shows "\<exists>s'. foldM f xs s = Some s' \<and> P s'"
  using assms
proof (induction xs arbitrary: s)
  case (Cons x xs)
  then obtain t where t: "f x s = Some t" "P t" by fastforce
  with Cons.IH [OF t(2)] Cons.prems(2) obtain s' where "foldM f xs t = Some s'" "P s'"
    by fastforce
  with t show ?case by simp
qed simp

lemma bind_SomeD: "Option.bind m f = Some y \<Longrightarrow> \<exists>x. m = Some x \<and> f x = Some y"
  by (cases m) auto

end
