(* ===== verification/Task_Status.thy ===== *)
theory Task_Status
  imports Prelude
begin

text \<open>
  Package \<^verbatim>\<open>pkg/task_logger\<close>: the status of a task, its predicates, and the order that compares
  how far two statuses have progressed. In Go the type is a string; every value that is not one
  of the ten constants is an \<open>OtherStatus\<close>.
\<close>

datatype TaskStatus =
    TaskWaitingStatus
  | TaskStartingStatus
  | TaskWaitingConfirmation
  | TaskConfirmed
  | TaskRejected
  | TaskRunningStatus
  | TaskStoppingStatus
  | TaskStoppedStatus
  | TaskSuccessStatus
  | TaskFailStatus
  | OtherStatus string

fun TaskStatus_string :: "TaskStatus \<Rightarrow> string" where
  "TaskStatus_string TaskWaitingStatus = ''waiting''"
| "TaskStatus_string TaskStartingStatus = ''starting''"
| "TaskStatus_string TaskWaitingConfirmation = ''waiting_confirmation''"
| "TaskStatus_string TaskConfirmed = ''confirmed''"
| "TaskStatus_string TaskRejected = ''rejected''"
| "TaskStatus_string TaskRunningStatus = ''running''"
| "TaskStatus_string TaskStoppingStatus = ''stopping''"
| "TaskStatus_string TaskStoppedStatus = ''stopped''"
| "TaskStatus_string TaskSuccessStatus = ''success''"
| "TaskStatus_string TaskFailStatus = ''error''"
| "TaskStatus_string (OtherStatus s) = s"

definition knownStatuses :: "TaskStatus list" where
  "knownStatuses =
     [TaskWaitingStatus, TaskStartingStatus, TaskWaitingConfirmation, TaskConfirmed, TaskRejected,
      TaskRunningStatus, TaskStoppingStatus, TaskStoppedStatus, TaskSuccessStatus, TaskFailStatus]"

text \<open>The value that a status string read from the database or from a runner stands for.\<close>

definition TaskStatus_of_string :: "string \<Rightarrow> TaskStatus" where
  "TaskStatus_of_string s =
     (case find (\<lambda>k. TaskStatus_string k = s) knownStatuses of
        Some k \<Rightarrow> k | None \<Rightarrow> OtherStatus s)"

definition UnfinishedTaskStatuses :: "TaskStatus list" where
  "UnfinishedTaskStatuses =
     [TaskWaitingStatus, TaskStartingStatus, TaskWaitingConfirmation, TaskConfirmed, TaskRejected,
      TaskRunningStatus, TaskStoppingStatus]"

fun TaskStatus_IsValid :: "TaskStatus \<Rightarrow> bool" where
  "TaskStatus_IsValid (OtherStatus _) = False"
| "TaskStatus_IsValid _ = True"

definition IsNotifiable :: "TaskStatus \<Rightarrow> bool" where
  "IsNotifiable s \<longleftrightarrow>
     s = TaskSuccessStatus \<or> s = TaskFailStatus \<or> s = TaskWaitingConfirmation"

definition IsFinished :: "TaskStatus \<Rightarrow> bool" where
  "IsFinished s \<longleftrightarrow> s = TaskStoppedStatus \<or> s = TaskSuccessStatus \<or> s = TaskFailStatus"

text \<open>
  \<^verbatim>\<open>Format\<close> prefixes the upper-case name with an icon; the icon is the UTF-8 encoding of the
  emoji, written as bytes.
\<close>

definition utf8 :: "nat list \<Rightarrow> string" where
  "utf8 bs = map char_of bs"

fun FormatIcon :: "TaskStatus \<Rightarrow> string" where
  "FormatIcon TaskFailStatus = utf8 [0xE2, 0x9D, 0x8C]"
| "FormatIcon TaskSuccessStatus = utf8 [0xE2, 0x9C, 0x85]"
| "FormatIcon TaskStoppedStatus = utf8 [0xE2, 0x8F, 0xB9, 0xEF, 0xB8, 0x8F]"
| "FormatIcon TaskWaitingConfirmation = utf8 [0xE2, 0x9A, 0xA0, 0xEF, 0xB8, 0x8F]"
| "FormatIcon _ = utf8 [0xE2, 0x9D, 0x93]"

fun FormatName :: "TaskStatus \<Rightarrow> string" where
  "FormatName TaskWaitingStatus = '' WAITING''"
| "FormatName TaskStartingStatus = '' STARTING''"
| "FormatName TaskWaitingConfirmation = '' WAITING_CONFIRMATION''"
| "FormatName TaskConfirmed = '' CONFIRMED''"
| "FormatName TaskRejected = '' REJECTED''"
| "FormatName TaskRunningStatus = '' RUNNING''"
| "FormatName TaskStoppingStatus = '' STOPPING''"
| "FormatName TaskStoppedStatus = '' STOPPED''"
| "FormatName TaskSuccessStatus = '' SUCCESS''"
| "FormatName TaskFailStatus = '' ERROR''"
| "FormatName (OtherStatus _) = '' UNKNOWN''"

definition TaskStatus_Format :: "TaskStatus \<Rightarrow> string" where
  "TaskStatus_Format s = FormatIcon s @ FormatName s"

fun TaskStatusProgressRank :: "TaskStatus \<Rightarrow> int" where
  "TaskStatusProgressRank TaskWaitingStatus = 10"
| "TaskStatusProgressRank TaskStartingStatus = 20"
| "TaskStatusProgressRank TaskWaitingConfirmation = 25"
| "TaskStatusProgressRank TaskConfirmed = 26"
| "TaskStatusProgressRank TaskRejected = 26"
| "TaskStatusProgressRank TaskRunningStatus = 40"
| "TaskStatusProgressRank TaskStoppingStatus = 50"
| "TaskStatusProgressRank TaskStoppedStatus = 100"
| "TaskStatusProgressRank TaskSuccessStatus = 100"
| "TaskStatusProgressRank TaskFailStatus = 100"
| "TaskStatusProgressRank (OtherStatus _) = 0"

subsection \<open>Facts the other components use\<close>

lemma IsFinished_simps [simp, status_simps]:
  "IsFinished TaskStoppedStatus" "IsFinished TaskSuccessStatus" "IsFinished TaskFailStatus"
  "\<not> IsFinished TaskWaitingStatus" "\<not> IsFinished TaskStartingStatus"
  "\<not> IsFinished TaskWaitingConfirmation" "\<not> IsFinished TaskConfirmed"
  "\<not> IsFinished TaskRejected" "\<not> IsFinished TaskRunningStatus" "\<not> IsFinished TaskStoppingStatus"
  by (simp_all add: IsFinished_def)

lemma known_status_of_string: "TaskStatus_IsValid s \<Longrightarrow> TaskStatus_of_string (TaskStatus_string s) = s"
  by (cases s) (simp_all add: TaskStatus_of_string_def knownStatuses_def)

lemma TaskStatus_string_of_string: "TaskStatus_string (TaskStatus_of_string s) = s"
proof (cases "find (\<lambda>k. TaskStatus_string k = s) knownStatuses")
  case None
  then show ?thesis by (simp add: TaskStatus_of_string_def)
next
  case (Some k)
  then show ?thesis using find_Some_in [OF Some] by (simp add: TaskStatus_of_string_def)
qed

lemma TaskStatus_IsValid_known: "TaskStatus_IsValid s \<longleftrightarrow> s \<in> set knownStatuses"
  by (cases s) (simp_all add: knownStatuses_def)

end
