(* ===== verification/Task_State_Store.thy ===== *)
theory Task_State_Store
  imports Task_Status
begin

text \<open>
  The in-memory task state store of \<^verbatim>\<open>services/tasks/task_state_store.go\<close>: the waiting queue, the
  map of running tasks, the active tasks of each project, the aliases and the finalization locks.

  A \<^verbatim>\<open>*TaskRunner\<close> is a \<^typ>\<open>tref\<close>; the store reads \<^verbatim>\<open>t.Task.ID\<close> through the pointer, so the
  operations that do take the reading function \<open>idof\<close>. Queue entries and aliases may be nil in
  the code and are options; the two maps only ever hold pointers that were dereferenced.

  The locale at the end is the interface \<^verbatim>\<open>TaskStateStore\<close> with the laws that the pool relies on;
  the in-memory store interprets it.
\<close>

subsection \<open>State and operations\<close>

record MemoryTaskStateStore =
  queue :: "tref option list"
  running :: "(ident \<times> tref) list"
  activeProj :: "(ident \<times> (ident \<times> tref) list) list"
  aliases :: "(string \<times> tref option) list"
  finalizing :: "ident list"

definition NewMemoryTaskStateStore :: MemoryTaskStateStore where
  "NewMemoryTaskStateStore =
     \<lparr>queue = [], running = [], activeProj = [], aliases = [], finalizing = []\<rparr>"

definition TryClaim :: "ident \<Rightarrow> MemoryTaskStateStore \<Rightarrow> bool \<times> MemoryTaskStateStore" where
  "TryClaim _ s = (True, s)"

definition DeleteClaim :: "ident \<Rightarrow> MemoryTaskStateStore \<Rightarrow> MemoryTaskStateStore" where
  "DeleteClaim _ s = s"

definition TryFinalize :: "ident \<Rightarrow> MemoryTaskStateStore \<Rightarrow> bool \<times> MemoryTaskStateStore" where
  "TryFinalize taskID s =
     (if taskID \<in> set (finalizing s) then (False, s)
      else (True, s\<lparr>finalizing := taskID # finalizing s\<rparr>))"

definition DeleteFinalize :: "ident \<Rightarrow> MemoryTaskStateStore \<Rightarrow> MemoryTaskStateStore" where
  "DeleteFinalize taskID s = s\<lparr>finalizing := filter (\<lambda>i. i \<noteq> taskID) (finalizing s)\<rparr>"

definition Enqueue :: "tref option \<Rightarrow> MemoryTaskStateStore \<Rightarrow> MemoryTaskStateStore" where
  "Enqueue task s = s\<lparr>queue := queue s @ [task]\<rparr>"

definition DequeueAt :: "int \<Rightarrow> MemoryTaskStateStore \<Rightarrow> MemoryTaskStateStore" where
  "DequeueAt index s =
     (if index < 0 \<or> int (length (queue s)) \<le> index then s
      else s\<lparr>queue := take (nat index) (queue s) @ drop (nat index + 1) (queue s)\<rparr>)"

text \<open>The test \<^verbatim>\<open>t != nil && t.Task.ID == taskID\<close> of the two queue searches.\<close>

fun hasID :: "(tref \<Rightarrow> ident) \<Rightarrow> ident \<Rightarrow> tref option \<Rightarrow> bool" where
  "hasID idof taskID None = False"
| "hasID idof taskID (Some t) = (idof t = taskID)"

definition ClaimAndDequeue ::
  "(tref \<Rightarrow> ident) \<Rightarrow> ident \<Rightarrow> MemoryTaskStateStore \<Rightarrow> bool \<times> MemoryTaskStateStore" where
  "ClaimAndDequeue idof taskID s =
     (case List.extract (hasID idof taskID) (queue s) of
        Some (ys, Some t, zs) \<Rightarrow>
          (True, s\<lparr>queue := ys @ zs, running := AList.update (idof t) t (running s)\<rparr>)
      | _ \<Rightarrow> (False, s))"

definition DequeueByID ::
  "(tref \<Rightarrow> ident) \<Rightarrow> ident \<Rightarrow> MemoryTaskStateStore \<Rightarrow> MemoryTaskStateStore" where
  "DequeueByID idof taskID s = s\<lparr>queue := removeFirst (hasID idof taskID) (queue s)\<rparr>"

definition QueueRange :: "MemoryTaskStateStore \<Rightarrow> tref option list" where
  "QueueRange s = queue s"

definition QueueGet :: "int \<Rightarrow> MemoryTaskStateStore \<Rightarrow> tref option" where
  "QueueGet index s =
     (if index < 0 \<or> int (length (queue s)) \<le> index then None else queue s ! nat index)"

definition QueueLen :: "MemoryTaskStateStore \<Rightarrow> int" where
  "QueueLen s = int (length (queue s))"

definition SetRunning ::
  "(tref \<Rightarrow> ident) \<Rightarrow> tref \<Rightarrow> MemoryTaskStateStore \<Rightarrow> MemoryTaskStateStore" where
  "SetRunning idof task s = s\<lparr>running := AList.update (idof task) task (running s)\<rparr>"

definition DeleteRunning :: "ident \<Rightarrow> MemoryTaskStateStore \<Rightarrow> MemoryTaskStateStore" where
  "DeleteRunning taskID s = s\<lparr>running := AList.delete taskID (running s)\<rparr>"

definition RunningRange :: "MemoryTaskStateStore \<Rightarrow> tref list" where
  "RunningRange s = map snd (running s)"

definition OwnedRunningRange :: "MemoryTaskStateStore \<Rightarrow> tref list" where
  "OwnedRunningRange s = RunningRange s"

definition RunningCount :: "MemoryTaskStateStore \<Rightarrow> int" where
  "RunningCount s = int (length (running s))"

definition AddActive ::
  "(tref \<Rightarrow> ident) \<Rightarrow> ident \<Rightarrow> tref \<Rightarrow> MemoryTaskStateStore \<Rightarrow> MemoryTaskStateStore" where
  "AddActive idof projectID task s =
     (let m = (case map_of (activeProj s) projectID of Some m \<Rightarrow> m | None \<Rightarrow> [])
      in s\<lparr>activeProj :=
             AList.update projectID (AList.update (idof task) task m) (activeProj s)\<rparr>)"

definition RemoveActive ::
  "ident \<Rightarrow> ident \<Rightarrow> MemoryTaskStateStore \<Rightarrow> MemoryTaskStateStore" where
  "RemoveActive projectID taskID s =
     (case map_of (activeProj s) projectID of
        None \<Rightarrow> s
      | Some m \<Rightarrow>
          (let m' = AList.delete taskID m
           in if m' = [] then s\<lparr>activeProj := AList.delete projectID (activeProj s)\<rparr>
              else s\<lparr>activeProj := AList.update projectID m' (activeProj s)\<rparr>))"

definition GetActive :: "ident \<Rightarrow> MemoryTaskStateStore \<Rightarrow> tref list" where
  "GetActive projectID s =
     (case map_of (activeProj s) projectID of Some m \<Rightarrow> map snd m | None \<Rightarrow> [])"

definition ActiveCount :: "ident \<Rightarrow> MemoryTaskStateStore \<Rightarrow> int" where
  "ActiveCount projectID s =
     (case map_of (activeProj s) projectID of Some m \<Rightarrow> int (length m) | None \<Rightarrow> 0)"

definition SetAlias ::
  "string \<Rightarrow> tref option \<Rightarrow> MemoryTaskStateStore \<Rightarrow> MemoryTaskStateStore" where
  "SetAlias alias task s = s\<lparr>aliases := AList.update alias task (aliases s)\<rparr>"

definition GetByAlias :: "string \<Rightarrow> MemoryTaskStateStore \<Rightarrow> tref option" where
  "GetByAlias alias s = (case map_of (aliases s) alias of Some t \<Rightarrow> t | None \<Rightarrow> None)"

definition DeleteAlias :: "string \<Rightarrow> MemoryTaskStateStore \<Rightarrow> MemoryTaskStateStore" where
  "DeleteAlias alias s = s\<lparr>aliases := AList.delete alias (aliases s)\<rparr>"

subsection \<open>The inspector: snapshot and clearing\<close>

record TaskRecord =
  rec_TaskID :: ident
  rec_ProjectID :: ident
  rec_TemplateID :: ident
  rec_Status :: string
  rec_RunnerID :: ident
  rec_Username :: string
  rec_Alias :: string
  rec_NodeID :: string

record TaskStateSnapshot =
  snap_Queue :: "TaskRecord list"
  snap_Running :: "TaskRecord list"
  snap_ActiveByProj :: "(ident \<times> TaskRecord list) list"
  snap_Aliases :: "(string \<times> ident) list"
  snap_Claims :: "ident list"

text \<open>\<open>recOf\<close> is \<^verbatim>\<open>taskToRecord\<close>, which reads the task runner behind the pointer.\<close>

definition Snapshot ::
  "(tref \<Rightarrow> ident) \<Rightarrow> (tref option \<Rightarrow> TaskRecord) \<Rightarrow> MemoryTaskStateStore \<Rightarrow> TaskStateSnapshot" where
  "Snapshot idof recOf s =
     \<lparr>snap_Queue = map recOf (queue s),
      snap_Running = map (\<lambda>(_, t). recOf (Some t)) (running s),
      snap_ActiveByProj =
        map (\<lambda>(p, m). (p, map (\<lambda>(_, t). recOf (Some t)) m)) (activeProj s),
      snap_Aliases =
        List.map_filter (\<lambda>(a, t). map_option (\<lambda>r. (a, idof r)) t) (aliases s),
      snap_Claims = []\<rparr>"

record ClearScope =
  scope_Queue :: bool
  scope_Running :: bool
  scope_Active :: bool
  scope_Aliases :: bool
  scope_Claims :: bool
  scope_RuntimeFields :: bool

record ClearResult =
  DeletedKeys :: int
  PerGroup :: "(string \<times> int) list"

definition clearGroup :: "string \<Rightarrow> int \<Rightarrow> ClearResult \<Rightarrow> ClearResult" where
  "clearGroup g n r =
     r\<lparr>PerGroup := AList.update g n (PerGroup r), DeletedKeys := DeletedKeys r + n\<rparr>"

definition ClearTasks ::
  "ClearScope \<Rightarrow> MemoryTaskStateStore \<Rightarrow> ClearResult \<times> MemoryTaskStateStore" where
  "ClearTasks scope s0 =
     (let res0 = \<lparr>DeletedKeys = 0, PerGroup = []\<rparr>;
          (res1, s1) =
            (if scope_Queue scope
             then (clearGroup ''queue'' (int (length (queue s0))) res0, s0\<lparr>queue := []\<rparr>)
             else (res0, s0));
          (res2, s2) =
            (if scope_Running scope
             then (clearGroup ''running'' (int (length (running s1))) res1, s1\<lparr>running := []\<rparr>)
             else (res1, s1));
          (res3, s3) =
            (if scope_Active scope
             then (clearGroup ''active'' (\<Sum>(p, m)\<leftarrow>activeProj s2. int (length m)) res2,
                   s2\<lparr>activeProj := []\<rparr>)
             else (res2, s2));
          (res4, s4) =
            (if scope_Aliases scope
             then (clearGroup ''aliases'' (int (length (aliases s3))) res3, s3\<lparr>aliases := []\<rparr>)
             else (res3, s3));
          res5 = (if scope_Claims scope
                  then res4\<lparr>PerGroup := AList.update ''claims'' 0 (PerGroup res4)\<rparr> else res4);
          res6 = (if scope_RuntimeFields scope
                  then res5\<lparr>PerGroup := AList.update ''runtime_fields'' 0 (PerGroup res5)\<rparr>
                  else res5)
      in (res6, s4))"

subsection \<open>Well-formedness\<close>

text \<open>
  The maps have distinct keys, each key is the ID of the task behind the pointer, and the store
  keeps no empty inner map (\<^verbatim>\<open>RemoveActive\<close> deletes it).
\<close>

definition keyedByID :: "(tref \<Rightarrow> ident) \<Rightarrow> (ident \<times> tref) list \<Rightarrow> bool" where
  "keyedByID idof m \<longleftrightarrow> distinct (map fst m) \<and> (\<forall>(k, t)\<in>set m. idof t = k)"

definition store_inv :: "(tref \<Rightarrow> ident) \<Rightarrow> MemoryTaskStateStore \<Rightarrow> bool" where
  "store_inv idof s \<longleftrightarrow>
     keyedByID idof (running s) \<and>
     distinct (map fst (activeProj s)) \<and>
     (\<forall>(p, m)\<in>set (activeProj s). m \<noteq> [] \<and> keyedByID idof m) \<and>
     distinct (map fst (aliases s)) \<and> distinct (finalizing s)"

lemma keyedByID_Nil [simp]: "keyedByID idof []"
  by (simp add: keyedByID_def)

lemma keyedByID_update: "keyedByID idof m \<Longrightarrow> keyedByID idof (AList.update (idof t) t m)"
  using ball_update [of m "\<lambda>(k, t). idof t = k" "idof t" t] by (simp add: keyedByID_def)

lemma keyedByID_delete: "keyedByID idof m \<Longrightarrow> keyedByID idof (AList.delete k m)"
  by (auto simp: keyedByID_def set_delete)

text \<open>The abstract view of the active tasks: a set of (project, task) pairs with their pointers.\<close>

definition activeMap :: "MemoryTaskStateStore \<Rightarrow> ident \<Rightarrow> ident \<rightharpoonup> tref" where
  "activeMap s p =
     (case map_of (activeProj s) p of Some m \<Rightarrow> map_of m | None \<Rightarrow> Map.empty)"

lemma store_inv_active:
  "store_inv idof s \<Longrightarrow> map_of (activeProj s) p = Some m \<Longrightarrow> m \<noteq> [] \<and> keyedByID idof m"
  unfolding store_inv_def by (blast dest: map_of_SomeD)

lemma store_inv_New [simp]: "store_inv idof NewMemoryTaskStateStore"
  by (simp add: store_inv_def NewMemoryTaskStateStore_def)

lemma AddActive_activeMap [store_simps]:
  "activeMap (AddActive idof p t s) = (activeMap s)(p := (activeMap s p)(idof t \<mapsto> t))"
  by (auto simp: activeMap_def AddActive_def fun_eq_iff Let_def split: option.splits)

lemma RemoveActive_activeMap [store_simps]:
  assumes "store_inv idof s"
  shows "activeMap (RemoveActive p i s) = (activeMap s)(p := (activeMap s p)(i := None))"
proof (cases "map_of (activeProj s) p")
  case None
  then show ?thesis by (auto simp: activeMap_def RemoveActive_def fun_eq_iff)
next
  case (Some m)
  have empty: "AList.delete i m = [] \<Longrightarrow> (map_of m)(i := None) = Map.empty"
    using map_of_delete [of i m] by simp
  show ?thesis
  proof (cases "AList.delete i m = []")
    case True
    with empty Some show ?thesis
      by (auto simp: activeMap_def RemoveActive_def Let_def fun_eq_iff)
  next
    case False
    with Some show ?thesis
      by (auto simp: activeMap_def RemoveActive_def Let_def fun_eq_iff)
  qed
qed

lemma AddActive_inv:
  assumes "store_inv idof s" shows "store_inv idof (AddActive idof p t s)"
proof -
  let ?m = "case map_of (activeProj s) p of Some m \<Rightarrow> m | None \<Rightarrow> []"
  have "keyedByID idof ?m"
    using store_inv_active [OF assms] by (auto split: option.splits)
  then have "keyedByID idof (AList.update (idof t) t ?m)" by (rule keyedByID_update)
  moreover have "AList.update (idof t) t ?m \<noteq> []"
    using update_mem [of "idof t" t ?m] by fastforce
  ultimately have "\<forall>(q, m)\<in>set (AList.update p (AList.update (idof t) t ?m) (activeProj s)).
      m \<noteq> [] \<and> keyedByID idof m"
    using assms by (intro ball_update) (simp_all add: store_inv_def)
  with assms show ?thesis by (simp add: store_inv_def AddActive_def Let_def)
qed

lemma RemoveActive_inv:
  assumes "store_inv idof s" shows "store_inv idof (RemoveActive p i s)"
proof (cases "map_of (activeProj s) p")
  case None
  with assms show ?thesis by (simp add: RemoveActive_def)
next
  case (Some m)
  then have m: "keyedByID idof (AList.delete i m)"
    using store_inv_active [OF assms] keyedByID_delete by blast
  let ?P = "\<lambda>(q :: ident, m). m \<noteq> [] \<and> keyedByID idof m"
  have all: "\<forall>x\<in>set (activeProj s). ?P x" using assms by (simp add: store_inv_def)
  show ?thesis
  proof (cases "AList.delete i m = []")
    case True
    have "\<forall>x\<in>set (AList.delete p (activeProj s)). ?P x" using all by (rule ball_delete)
    with assms Some True show ?thesis by (simp add: store_inv_def RemoveActive_def)
  next
    case False
    have "\<forall>x\<in>set (AList.update p (AList.delete i m) (activeProj s)). ?P x"
      using all m False by (intro ball_update) simp_all
    with assms Some False show ?thesis by (simp add: store_inv_def RemoveActive_def)
  qed
qed

lemma SetRunning_inv: "store_inv idof s \<Longrightarrow> store_inv idof (SetRunning idof t s)"
  by (simp add: store_inv_def SetRunning_def keyedByID_update)

lemma DeleteRunning_inv: "store_inv idof s \<Longrightarrow> store_inv idof (DeleteRunning i s)"
  by (simp add: store_inv_def DeleteRunning_def keyedByID_delete)

lemma Enqueue_inv: "store_inv idof s \<Longrightarrow> store_inv idof (Enqueue t s)"
  by (simp add: store_inv_def Enqueue_def)

lemma DequeueByID_inv: "store_inv idof s \<Longrightarrow> store_inv idof (DequeueByID idof i s)"
  by (simp add: store_inv_def DequeueByID_def)

lemma DequeueAt_inv: "store_inv idof s \<Longrightarrow> store_inv idof (DequeueAt k s)"
  by (simp add: store_inv_def DequeueAt_def)

lemma SetAlias_inv: "store_inv idof s \<Longrightarrow> store_inv idof (SetAlias a t s)"
  by (simp add: store_inv_def SetAlias_def)

lemma DeleteAlias_inv: "store_inv idof s \<Longrightarrow> store_inv idof (DeleteAlias a s)"
  by (simp add: store_inv_def DeleteAlias_def)

lemma TryFinalize_inv: "store_inv idof s \<Longrightarrow> store_inv idof (snd (TryFinalize i s))"
  by (auto simp: store_inv_def TryFinalize_def)

lemma DeleteFinalize_inv: "store_inv idof s \<Longrightarrow> store_inv idof (DeleteFinalize i s)"
  by (auto simp: store_inv_def DeleteFinalize_def)

text \<open>
  What claiming does, in one equation: it succeeds exactly when the ID is queued, takes the first
  such entry out of the queue and records it as running.
\<close>

lemma ClaimAndDequeue_eq:
  "ClaimAndDequeue idof i s =
     (case find (hasID idof i) (queue s) of
        Some (Some t) \<Rightarrow>
          (True, s\<lparr>queue := removeFirst (hasID idof i) (queue s),
                   running := AList.update i t (running s)\<rparr>)
      | _ \<Rightarrow> (False, s))"
proof (cases "List.extract (hasID idof i) (queue s)")
  case None
  then have "find (hasID idof i) (queue s) = None"
    by (simp add: extract_None_iff find_None_iff_ball)
  with None show ?thesis by (simp add: ClaimAndDequeue_def)
next
  case (Some x)
  obtain ys y zs where x: "x = (ys, y, zs)" by (cases x) auto
  with Some have ext: "queue s = ys @ y # zs" "hasID idof i y" "\<not> (\<exists>y\<in>set ys. hasID idof i y)"
    by (simp_all add: extract_Some_iff)
  obtain t where t: "y = Some t" "idof t = i" using ext(2) by (cases y) auto
  have "find (hasID idof i) (queue s) = Some y"
    using ext(1,2) find_None_iff_ball [of "hasID idof i" ys] ext(3) by (simp add: find_append)
  moreover have "removeFirst (hasID idof i) (queue s) = ys @ zs"
    using Some x by (simp add: removeFirst_def)
  ultimately show ?thesis using Some x t by (simp add: ClaimAndDequeue_def)
qed

lemma ClaimAndDequeue_inv:
  assumes "store_inv idof s" shows "store_inv idof (snd (ClaimAndDequeue idof i s))"
proof (cases "find (hasID idof i) (queue s)")
  case None
  with assms show ?thesis by (simp add: ClaimAndDequeue_eq)
next
  case (Some e)
  then have "hasID idof i e" by (simp add: find_Some_in)
  then obtain t where "e = Some t" "idof t = i" by (cases e) auto
  with Some assms keyedByID_update [of idof "running s" t] show ?thesis
    by (simp add: ClaimAndDequeue_eq store_inv_def)
qed

lemmas store_inv_intros =
  AddActive_inv RemoveActive_inv SetRunning_inv DeleteRunning_inv Enqueue_inv DequeueByID_inv
  DequeueAt_inv SetAlias_inv DeleteAlias_inv TryFinalize_inv DeleteFinalize_inv ClaimAndDequeue_inv

lemma ActiveCount_card:
  assumes "store_inv idof s"
  shows "ActiveCount p s = int (card (dom (activeMap s p)))"
proof (cases "map_of (activeProj s) p")
  case (Some m)
  then have "distinct (map fst m)"
    using store_inv_active [OF assms] by (simp add: keyedByID_def)
  then have "card (fst ` set m) = length m"
    by (metis distinct_card length_map set_map)
  with Some show ?thesis by (simp add: ActiveCount_def activeMap_def dom_map_of_conv_image_fst)
qed (simp add: ActiveCount_def activeMap_def)

lemma GetActive_ran:
  assumes "store_inv idof s"
  shows "set (GetActive p s) = ran (activeMap s p)"
proof (cases "map_of (activeProj s) p")
  case (Some m)
  then have "distinct (map fst m)"
    using store_inv_active [OF assms] by (simp add: keyedByID_def)
  with Some show ?thesis by (simp add: GetActive_def activeMap_def ran_distinct)
qed (simp add: GetActive_def activeMap_def)

lemma RunningCount_card:
  "store_inv idof s \<Longrightarrow> RunningCount s = int (card (dom (map_of (running s))))"
  by (metis RunningCount_def distinct_card dom_map_of_conv_image_fst keyedByID_def length_map
      set_map store_inv_def)

lemma RunningRange_ran:
  "store_inv idof s \<Longrightarrow> set (RunningRange s) = ran (map_of (running s))"
  by (simp add: RunningRange_def store_inv_def keyedByID_def ran_distinct)

text \<open>The views of the store after each operation.\<close>

lemma store_views [simp, store_simps]:
  "queue (SetRunning idof t s) = queue s"
  "map_of (running (SetRunning idof t s)) = (map_of (running s))(idof t \<mapsto> t)"
  "activeMap (SetRunning idof t s) = activeMap s"
  "queue (DeleteRunning i s) = queue s"
  "map_of (running (DeleteRunning i s)) = (map_of (running s))(i := None)"
  "activeMap (DeleteRunning i s) = activeMap s"
  "queue (AddActive idof p t s) = queue s"
  "running (AddActive idof p t s) = running s"
  "activeMap (AddActive idof p t s) = (activeMap s)(p := (activeMap s p)(idof t \<mapsto> t))"
  "queue (RemoveActive p i s) = queue s"
  "running (RemoveActive p i s) = running s"
  "queue (Enqueue e s) = queue s @ [e]"
  "running (Enqueue e s) = running s"
  "activeMap (Enqueue e s) = activeMap s"
  "queue (DequeueByID idof i s) = removeFirst (hasID idof i) (queue s)"
  "running (DequeueByID idof i s) = running s"
  "activeMap (DequeueByID idof i s) = activeMap s"
  "queue (SetAlias a e s) = queue s"
  "running (SetAlias a e s) = running s"
  "activeMap (SetAlias a e s) = activeMap s"
  "queue (DeleteAlias a s) = queue s"
  "running (DeleteAlias a s) = running s"
  "activeMap (DeleteAlias a s) = activeMap s"
  "DeleteClaim i s = s"
  "fst (TryFinalize i s) = (i \<notin> set (finalizing s))"
  "set (finalizing (snd (TryFinalize i s))) = insert i (set (finalizing s))"
  "queue (snd (TryFinalize i s)) = queue s"
  "running (snd (TryFinalize i s)) = running s"
  "activeProj (snd (TryFinalize i s)) = activeProj s"
  "set (finalizing (DeleteFinalize i s)) = set (finalizing s) - {i}"
  "queue (DeleteFinalize i s) = queue s"
  "running (DeleteFinalize i s) = running s"
  "activeProj (DeleteFinalize i s) = activeProj s"
  by (auto simp: SetRunning_def DeleteRunning_def AddActive_activeMap Enqueue_def DequeueByID_def
      SetAlias_def DeleteAlias_def DeleteClaim_def TryFinalize_def DeleteFinalize_def)
     (auto simp: activeMap_def AddActive_def RemoveActive_def Let_def split: option.splits)

subsection \<open>The interface and its laws\<close>

text \<open>
  \<^verbatim>\<open>TaskStateStore\<close> as the pool sees it. \<open>qs\<close>, \<open>rn\<close>, \<open>ac\<close> and \<open>fz\<close> are the views of a store
  (queue, running tasks, active tasks per project, held finalization locks); the laws say what
  each operation does to the views and that it keeps the invariant.
\<close>

locale task_state_store =
  fixes idof :: "tref \<Rightarrow> ident"
    and inv :: "'s \<Rightarrow> bool"
    and qs :: "'s \<Rightarrow> tref option list"
    and rn :: "'s \<Rightarrow> ident \<rightharpoonup> tref"
    and ac :: "'s \<Rightarrow> ident \<Rightarrow> ident \<rightharpoonup> tref"
    and fz :: "'s \<Rightarrow> ident set"
    and claim :: "ident \<Rightarrow> 's \<Rightarrow> bool \<times> 's"
    and setRunning :: "tref \<Rightarrow> 's \<Rightarrow> 's"
    and deleteRunning :: "ident \<Rightarrow> 's \<Rightarrow> 's"
    and addActive :: "ident \<Rightarrow> tref \<Rightarrow> 's \<Rightarrow> 's"
    and removeActive :: "ident \<Rightarrow> ident \<Rightarrow> 's \<Rightarrow> 's"
    and tryFinalize :: "ident \<Rightarrow> 's \<Rightarrow> bool \<times> 's"
    and deleteFinalize :: "ident \<Rightarrow> 's \<Rightarrow> 's"
  assumes claim_iff: "inv s \<Longrightarrow> fst (claim i s) \<longleftrightarrow> (\<exists>t. Some t \<in> set (qs s) \<and> idof t = i)"
    and claim_fail: "inv s \<Longrightarrow> \<not> fst (claim i s) \<Longrightarrow> snd (claim i s) = s"
    and claim_ok: "inv s \<Longrightarrow> fst (claim i s) \<Longrightarrow>
       \<exists>ys t zs. qs s = ys @ Some t # zs \<and> idof t = i \<and> qs (snd (claim i s)) = ys @ zs \<and>
         rn (snd (claim i s)) = (rn s)(i \<mapsto> t)"
    and claim_active: "inv s \<Longrightarrow> ac (snd (claim i s)) = ac s"
    and claim_inv: "inv s \<Longrightarrow> inv (snd (claim i s))"
    and set_running: "inv s \<Longrightarrow> rn (setRunning t s) = (rn s)(idof t \<mapsto> t)"
    and set_running_frame: "inv s \<Longrightarrow> qs (setRunning t s) = qs s \<and> ac (setRunning t s) = ac s"
    and set_running_inv: "inv s \<Longrightarrow> inv (setRunning t s)"
    and delete_running: "inv s \<Longrightarrow> rn (deleteRunning i s) = (rn s)(i := None)"
    and delete_running_frame:
      "inv s \<Longrightarrow> qs (deleteRunning i s) = qs s \<and> ac (deleteRunning i s) = ac s"
    and delete_running_inv: "inv s \<Longrightarrow> inv (deleteRunning i s)"
    and add_active: "inv s \<Longrightarrow> ac (addActive p t s) = (ac s)(p := (ac s p)(idof t \<mapsto> t))"
    and add_active_frame: "inv s \<Longrightarrow> qs (addActive p t s) = qs s \<and> rn (addActive p t s) = rn s"
    and add_active_inv: "inv s \<Longrightarrow> inv (addActive p t s)"
    and remove_active: "inv s \<Longrightarrow> ac (removeActive p i s) = (ac s)(p := (ac s p)(i := None))"
    and remove_active_frame:
      "inv s \<Longrightarrow> qs (removeActive p i s) = qs s \<and> rn (removeActive p i s) = rn s"
    and remove_active_inv: "inv s \<Longrightarrow> inv (removeActive p i s)"
    and try_finalize: "inv s \<Longrightarrow> fst (tryFinalize i s) \<longleftrightarrow> i \<notin> fz s"
    and try_finalize_locks: "inv s \<Longrightarrow> fz (snd (tryFinalize i s)) = insert i (fz s)"
    and try_finalize_inv: "inv s \<Longrightarrow> inv (snd (tryFinalize i s))"
    and delete_finalize: "inv s \<Longrightarrow> fz (deleteFinalize i s) = fz s - {i}"
    and delete_finalize_inv: "inv s \<Longrightarrow> inv (deleteFinalize i s)"
begin

text \<open>Two claims of one ID both succeed only when the ID is queued twice.\<close>

lemma claim_exclusive:
  assumes "inv s" and once: "length (filter (hasID idof i) (qs s)) \<le> 1"
    and "fst (claim i s)"
  shows "\<not> fst (claim i (snd (claim i s)))"
proof -
  from claim_ok [OF assms(1,3)] obtain ys t zs
    where q: "qs s = ys @ Some t # zs" "idof t = i" "qs (snd (claim i s)) = ys @ zs"
    by blast
  from once q(1,2) have "filter (hasID idof i) (ys @ zs) = []" by simp
  then have "\<And>t. Some t \<in> set (ys @ zs) \<Longrightarrow> idof t \<noteq> i"
    by (fastforce simp: filter_empty_conv)
  with claim_iff [OF claim_inv [OF assms(1)], of i i] q(3) show ?thesis by metis
qed

text \<open>Starting a task and stopping it again leaves no trace in the running and active maps.\<close>

lemma run_stop:
  fixes t :: tref and p :: ident
  assumes "inv s"
  defines "s1 \<equiv> setRunning t (addActive p t s)"
  defines "s2 \<equiv> deleteRunning (idof t) (removeActive p (idof t) s1)"
  shows "rn s2 = (rn s)(idof t := None)"
    and "ac s2 = (ac s)(p := (ac s p)(idof t := None))"
    and "qs s2 = qs s" and "inv s2"
proof -
  have i0: "inv (addActive p t s)" using assms(1) by (rule add_active_inv)
  have i1: "inv s1" unfolding s1_def using i0 by (rule set_running_inv)
  have i2: "inv (removeActive p (idof t) s1)" using i1 by (rule remove_active_inv)
  show "inv s2" unfolding s2_def using i2 by (rule delete_running_inv)
  show "rn s2 = (rn s)(idof t := None)"
    using assms(1) i0 i1 i2
    by (simp add: s1_def s2_def delete_running remove_active_frame set_running add_active_frame)
  show "qs s2 = qs s"
    using assms(1) i0 i1 i2
    by (simp add: s1_def s2_def delete_running_frame remove_active_frame set_running_frame
        add_active_frame)
  show "ac s2 = (ac s)(p := (ac s p)(idof t := None))"
    using assms(1) i0 i1 i2
    by (simp add: s1_def s2_def delete_running_frame remove_active set_running_frame add_active)
qed

text \<open>The finalization lock is exclusive until it is released.\<close>

lemma finalize_exclusive: "inv s \<Longrightarrow> \<not> fst (tryFinalize i (snd (tryFinalize i s)))"
  using try_finalize [OF try_finalize_inv, of s i i] try_finalize_locks [of s i] by simp

lemma finalize_reacquire:
  assumes "inv s"
  shows "fst (tryFinalize i (deleteFinalize i s))"
  using try_finalize [OF delete_finalize_inv [OF assms]] delete_finalize [OF assms] by simp

end

interpretation ms: task_state_store idof "store_inv idof" queue "\<lambda>s. map_of (running s)" activeMap
    "\<lambda>s. set (finalizing s)" "ClaimAndDequeue idof" "SetRunning idof" DeleteRunning
    "AddActive idof" RemoveActive TryFinalize DeleteFinalize
  for idof :: "tref \<Rightarrow> ident"
proof (unfold_locales, goal_cases)
  case (1 s i)
  show ?case
  proof
    assume "fst (ClaimAndDequeue idof i s)"
    then obtain t where "find (hasID idof i) (queue s) = Some (Some t)"
      by (auto simp: ClaimAndDequeue_eq split: option.splits)
    then show "\<exists>t. Some t \<in> set (queue s) \<and> idof t = i"
      using find_Some_in by fastforce
  next
    assume "\<exists>t. Some t \<in> set (queue s) \<and> idof t = i"
    then obtain e where "find (hasID idof i) (queue s) = Some e"
      using find_Some_ex [of _ "queue s" "hasID idof i"] by fastforce
    moreover from this have "hasID idof i e" by (simp add: find_Some_in)
    ultimately show "fst (ClaimAndDequeue idof i s)"
      by (cases e) (simp_all add: ClaimAndDequeue_eq)
  qed
next
  case (2 s i)
  then show ?case by (auto simp: ClaimAndDequeue_eq split: option.splits)
next
  case (3 s i)
  then obtain ys y zs where x: "List.extract (hasID idof i) (queue s) = Some (ys, y, zs)"
    by (auto simp: ClaimAndDequeue_def split: option.splits)
  then have e: "queue s = ys @ y # zs" "hasID idof i y" by (simp_all add: extract_Some_iff)
  then obtain t where "y = Some t" "idof t = i" by (cases y) auto
  with x e show ?case by (auto simp: ClaimAndDequeue_def)
next
  case (4 s i)
  then show ?case
    by (auto simp: ClaimAndDequeue_eq activeMap_def fun_eq_iff split: option.splits)
qed (simp_all add: store_inv_intros store_views RemoveActive_activeMap)


subsection \<open>Properties\<close>

text \<open>C10. A waiting task is handed out once: claiming an ID that is queued once takes exactly that entry out
  of the queue, records it as running, and a second claim of the ID fails.\<close>

theorem claim_hands_out_once:
  assumes "store_inv f s" and "length (filter (hasID f i) (queue s)) \<le> 1" and "fst (ClaimAndDequeue f i s)"
  shows "\<not> fst (ClaimAndDequeue f i (snd (ClaimAndDequeue f i s))) \<and>
    (\<exists>ys t zs. queue s = ys @ Some t # zs \<and> f t = i \<and> queue (snd (ClaimAndDequeue f i s)) = ys @ zs \<and>
       map_of (running (snd (ClaimAndDequeue f i s))) = (map_of (running s))(i \<mapsto> t))"
  using ms.claim_exclusive [OF assms] ms.claim_ok [OF assms(1,3)] by blast

definition sampleStore :: MemoryTaskStateStore where
  "sampleStore = \<lparr>queue = [Some 5, None, Some 6], running = [(7, 7)], activeProj = [(1, [(7, 7)])],
     aliases = [(''a'', Some 7)], finalizing = []\<rparr>"

lemma sampleStore_inv: "store_inv int sampleStore"
  by (simp add: store_inv_def sampleStore_def keyedByID_def)

theorem claim_hands_out_once_witness:
  "fst (ClaimAndDequeue int 6 sampleStore) \<and> \<not> fst (ClaimAndDequeue int 6 (snd (ClaimAndDequeue int 6 sampleStore)))"
proof -
  have "fst (ClaimAndDequeue int 6 sampleStore)" "length (filter (hasID int 6) (queue sampleStore)) \<le> 1"
    by code_simp+
  with claim_hands_out_once [OF sampleStore_inv] show ?thesis by blast
qed

text \<open>The finalization lock of a task is exclusive and is not lost: it is granted exactly when nobody
  holds it, while it is held it is not granted again, and once it is released it can be taken again.\<close>

lemma finalize_lock:
  assumes "store_inv f s"
  shows "(fst (TryFinalize i s) \<longleftrightarrow> i \<notin> set (finalizing s)) \<and>
    \<not> fst (TryFinalize i (snd (TryFinalize i s))) \<and> fst (TryFinalize i (DeleteFinalize i s)) \<and>
    (j \<noteq> i \<longrightarrow> fst (TryFinalize j (snd (TryFinalize i s))) = fst (TryFinalize j s))"
  using ms.try_finalize [OF assms] ms.finalize_exclusive [OF assms] ms.finalize_reacquire [OF assms]
    ms.try_finalize [OF ms.try_finalize_inv [OF assms]] ms.try_finalize_locks [OF assms]
  by auto

text \<open>C32. The active tasks refine a map from projects and task IDs to tasks: adding and removing a task
  are updates of that map, the count is the number of its entries, and the list of active tasks is its
  range, without duplicates of an ID.\<close>

theorem active_refines_map:
  assumes "store_inv f s"
  shows "activeMap (AddActive f p t s) = (activeMap s)(p := (activeMap s p)(f t \<mapsto> t)) \<and>
    activeMap (RemoveActive p i s) = (activeMap s)(p := (activeMap s p)(i := None)) \<and>
    ActiveCount p s = int (card (dom (activeMap s p))) \<and> set (GetActive p s) = ran (activeMap s p) \<and>
    distinct (map f (GetActive p s))"
proof -
  have "distinct (map f (GetActive p s))"
  proof (cases "map_of (activeProj s) p")
    case (Some m)
    then have k: "keyedByID f m" using store_inv_active [OF assms] by blast
    then have "map (f \<circ> snd) m = map fst m" by (auto simp: keyedByID_def)
    moreover from k have "distinct (map fst m)" by (simp add: keyedByID_def)
    ultimately have "distinct (map (f \<circ> snd) m)" by (simp only:)
    with Some show ?thesis by (simp add: GetActive_def)
  qed (simp add: GetActive_def)
  with assms show ?thesis
    by (simp add: AddActive_activeMap RemoveActive_activeMap ActiveCount_card GetActive_ran)
qed

theorem active_refines_map_witness: "ActiveCount 1 sampleStore = int (card (dom (activeMap sampleStore 1)))"
  using active_refines_map [OF sampleStore_inv, of 1 7 7] by blast

text \<open>Every operation of the store keeps it well formed: the running and active maps have one entry
  per task ID, each keyed by the ID of the task it holds, no project keeps an empty map of active tasks,
  and aliases and locks are held once.\<close>

lemma operations_keep_inv:
  assumes "store_inv f s"
  shows "store_inv f (Enqueue e s) \<and> store_inv f (DequeueAt n s) \<and> store_inv f (DequeueByID f i s) \<and>
    store_inv f (snd (ClaimAndDequeue f i s)) \<and> store_inv f (SetRunning f t s) \<and> store_inv f (DeleteRunning i s) \<and>
    store_inv f (AddActive f p t s) \<and> store_inv f (RemoveActive p i s) \<and> store_inv f (SetAlias a e s) \<and>
    store_inv f (DeleteAlias a s) \<and> store_inv f (snd (TryFinalize i s)) \<and> store_inv f (DeleteFinalize i s) \<and>
    store_inv f (snd (ClearTasks scope s))"
proof -
  have "store_inv f (snd (ClearTasks scope s))"
    using assms by (simp add: ClearTasks_def Let_def store_inv_def split: prod.splits)
  with assms show ?thesis by (simp add: store_inv_intros)
qed

text \<open>Clearing empties exactly the groups in scope, leaves the others as they were, and reports as
  deleted the number of entries that were in the groups it emptied.\<close>

lemma clear_exact:
  "(let (res, s') = ClearTasks scope s in
    queue s' = (if scope_Queue scope then [] else queue s) \<and>
    running s' = (if scope_Running scope then [] else running s) \<and>
    activeProj s' = (if scope_Active scope then [] else activeProj s) \<and>
    aliases s' = (if scope_Aliases scope then [] else aliases s) \<and> finalizing s' = finalizing s \<and>
    DeletedKeys res = (if scope_Queue scope then QueueLen s else 0) + (if scope_Running scope then RunningCount s else 0) +
      (if scope_Active scope then (\<Sum>(p, m)\<leftarrow>activeProj s. int (length m)) else 0) +
      (if scope_Aliases scope then int (length (aliases s)) else 0))"
  by (simp add: ClearTasks_def clearGroup_def Let_def QueueLen_def RunningCount_def)

end
