(* ===== verification/Db_Model.thy ===== *)
theory Db_Model
  imports Task_Status
begin

text \<open>
  The rows that the task pool works on (\<^verbatim>\<open>db/Task.go\<close>, \<^verbatim>\<open>db/Template.go\<close>, \<^verbatim>\<open>db/Runner.go\<close> and
  their neighbours) and the queries of \<^verbatim>\<open>db/sql\<close> that read and write them. A table is a list of
  rows. Every query may fail in the SQL driver: \<open>db_faults\<close> says which calls do, so that each
  error branch of the callers is reachable. Columns that no modelled operation touches (descriptions,
  UI fields) are left out of the records.
\<close>

subsection \<open>Errors\<close>

datatype go_error =
    ErrNotFound
  | ErrSql string
  | ErrAllRunnersBusy
  | ErrAccessKeyExpired
  | ValidationError string
  | ErrOther string

text \<open>\<^verbatim>\<open>err.Error()\<close>.\<close>

fun errorString :: "go_error \<Rightarrow> string" where
  "errorString ErrNotFound = ''no rows in result set''"
| "errorString (ErrSql s) = s"
| "errorString ErrAllRunnersBusy = ''all runners busy''"
| "errorString ErrAccessKeyExpired = ''access key expired''"
| "errorString (ValidationError s) = s"
| "errorString (ErrOther s) = s"

subsection \<open>Rows\<close>

datatype json =
    JNull | JBool bool | JNumber int | JString string
  | JArray "json list" | JObject "(string \<times> json) list"

type_synonym MapStringAny = "(string \<times> json) list"

record Task =
  Task_ID :: ident
  Task_TemplateID :: ident
  Task_ProjectID :: ident
  Task_Status :: TaskStatus
  Task_Playbook :: string
  Task_Environment :: string
  Task_Secret :: string
  Task_Arguments :: "string option"
  Task_GitBranch :: "string option"
  Task_UserID :: "ident option"
  Task_IntegrationID :: "ident option"
  Task_ScheduleID :: "ident option"
  Task_RunnerID :: "ident option"
  Task_Created :: go_time
  Task_Start :: "go_time option"
  Task_End :: "go_time option"
  Task_Message :: string
  Task_CommitHash :: "string option"
  Task_CommitMessage :: string
  Task_BuildTaskID :: "ident option"
  Task_WorkflowRunID :: "ident option"
  Task_WorkflowNodeID :: "ident option"
  Task_Version :: "string option"
  Task_InventoryID :: "ident option"
  Task_Params :: "MapStringAny option"
  Task_Limit :: string

text \<open>The composite literal \<^verbatim>\<open>db.Task{}\<close>: every field has its zero value.\<close>

definition zeroTask :: Task where
  "zeroTask =
     \<lparr>Task_ID = 0, Task_TemplateID = 0, Task_ProjectID = 0, Task_Status = OtherStatus [],
      Task_Playbook = [], Task_Environment = [], Task_Secret = [], Task_Arguments = None,
      Task_GitBranch = None, Task_UserID = None, Task_IntegrationID = None,
      Task_ScheduleID = None, Task_RunnerID = None, Task_Created = 0, Task_Start = None,
      Task_End = None, Task_Message = [], Task_CommitHash = None, Task_CommitMessage = [],
      Task_BuildTaskID = None, Task_WorkflowRunID = None, Task_WorkflowNodeID = None,
      Task_Version = None, Task_InventoryID = None, Task_Params = None,
      Task_Limit = []\<rparr>"

record LoginPassword =
  LP_Login :: string
  LP_Password :: string

record SshKey =
  Ssh_Login :: string
  Ssh_Passphrase :: string
  Ssh_PrivateKey :: string

record AccessKey =
  Key_ID :: ident
  Key_Name :: string
  Key_Type :: string
  Key_ProjectID :: "ident option"
  Key_Secret :: "string option"
  Key_Plain :: "string option"
  Key_IgnorePlain :: bool
  Key_String :: string
  Key_LoginPassword :: LoginPassword
  Key_SshKey :: SshKey
  Key_OverrideSecret :: bool
  Key_StorageID :: "ident option"
  Key_EnvironmentID :: "ident option"
  Key_UserID :: "ident option"
  Key_TaskID :: "ident option"
  Key_ExpireAt :: "go_time option"
  Key_Owner :: string
  Key_SourceStorageID :: "ident option"
  Key_SourceStorageKey :: "string option"
  Key_SourceStorageType :: "string option"
  Key_Synchronized :: bool

definition zeroAccessKey :: AccessKey where
  "zeroAccessKey =
     \<lparr>Key_ID = 0, Key_Name = [], Key_Type = [], Key_ProjectID = None, Key_Secret = None,
      Key_Plain = None, Key_IgnorePlain = False, Key_String = [],
      Key_LoginPassword = \<lparr>LP_Login = [], LP_Password = []\<rparr>,
      Key_SshKey = \<lparr>Ssh_Login = [], Ssh_Passphrase = [], Ssh_PrivateKey = []\<rparr>, Key_OverrideSecret = False,
      Key_StorageID = None, Key_EnvironmentID = None, Key_UserID = None, Key_TaskID = None,
      Key_ExpireAt = None, Key_Owner = [], Key_SourceStorageID = None, Key_SourceStorageKey = None,
      Key_SourceStorageType = None, Key_Synchronized = False\<rparr>"

record Repository =
  Repository_ID :: ident
  Repository_Name :: string
  Repository_ProjectID :: ident
  Repository_GitURL :: string
  Repository_GitBranch :: string
  Repository_SSHKeyID :: ident
  Repository_SSHKey :: AccessKey

record Inventory =
  Inventory_ID :: ident
  Inventory_Name :: string
  Inventory_ProjectID :: ident
  Inventory_Inventory :: string
  Inventory_SSHKeyID :: "ident option"
  Inventory_SSHKey :: AccessKey
  Inventory_BecomeKeyID :: "ident option"
  Inventory_BecomeKey :: AccessKey
  Inventory_Type :: string
  Inventory_TemplateID :: "ident option"
  Inventory_RepositoryID :: "ident option"
  Inventory_Repository :: "Repository option"
  Inventory_RunnerTag :: "string option"

record EnvironmentSecret =
  EnvSecret_Type :: string
  EnvSecret_Name :: string
  EnvSecret_Secret :: string

record Environment =
  Environment_ID :: ident
  Environment_Name :: string
  Environment_ProjectID :: ident
  Environment_JSON :: string
  Environment_ENV :: "string option"
  Environment_Secrets :: "EnvironmentSecret list"

definition zeroInventory :: Inventory where
  "zeroInventory =
     \<lparr>Inventory_ID = 0, Inventory_Name = [], Inventory_ProjectID = 0, Inventory_Inventory = [],
      Inventory_SSHKeyID = None, Inventory_SSHKey = zeroAccessKey, Inventory_BecomeKeyID = None,
      Inventory_BecomeKey = zeroAccessKey, Inventory_Type = [], Inventory_TemplateID = None,
      Inventory_RepositoryID = None, Inventory_Repository = None, Inventory_RunnerTag = None\<rparr>"

definition zeroRepository :: Repository where
  "zeroRepository =
     \<lparr>Repository_ID = 0, Repository_Name = [], Repository_ProjectID = 0, Repository_GitURL = [],
      Repository_GitBranch = [], Repository_SSHKeyID = 0, Repository_SSHKey = zeroAccessKey\<rparr>"

definition zeroEnvironment :: Environment where
  "zeroEnvironment =
     \<lparr>Environment_ID = 0, Environment_Name = [], Environment_ProjectID = 0, Environment_JSON = [],
      Environment_ENV = None, Environment_Secrets = []\<rparr>"

text \<open>\<^verbatim>\<open>TemplateType\<close> and \<^verbatim>\<open>TemplateApp\<close> are open string types with named constants.\<close>

abbreviation (input) TemplateTask :: string where "TemplateTask \<equiv> []"
abbreviation (input) TemplateBuild :: string where "TemplateBuild \<equiv> ''build''"
abbreviation (input) TemplateDeploy :: string where "TemplateDeploy \<equiv> ''deploy''"
abbreviation (input) AppAnsible :: string where "AppAnsible \<equiv> ''ansible''"
abbreviation (input) AppTerraform :: string where "AppTerraform \<equiv> ''terraform''"
abbreviation (input) AppTofu :: string where "AppTofu \<equiv> ''tofu''"
abbreviation (input) AppTerragrunt :: string where "AppTerragrunt \<equiv> ''terragrunt''"

definition IsTerraform :: "string \<Rightarrow> bool" where
  "IsTerraform app \<longleftrightarrow> app = AppTerraform \<or> app = AppTofu \<or> app = AppTerragrunt"

definition NeedTaskAlias :: "string \<Rightarrow> bool" where
  "NeedTaskAlias app = IsTerraform app"

record TemplateJWTParams =
  JWT_Enabled :: bool
  JWT_Audience :: "string list"
  JWT_TTL :: string

text \<open>
  A survey variable of a template. The default value remembers whether it was decoded from a JSON
  array.
\<close>

record SurveyVarEnumValue =
  EnumValue_Name :: string
  EnumValue_Value :: string

record SurveyVarDefaultValue =
  Default_Values :: "string list option"
  originalWasArray :: bool

record SurveyVar =
  Survey_Name :: string
  Survey_Type :: string
  Survey_Target :: string
  Survey_Values :: "SurveyVarEnumValue list"
  Survey_DefaultValue :: "SurveyVarDefaultValue option"

record TemplateVault =
  TVault_ID :: ident
  TVault_VaultKeyID :: "ident option"
  TVault_Name :: "string option"
  TVault_Type :: string
  TVault_Script :: "string option"
  TVault_Vault :: "AccessKey option"

record Template =
  Template_ID :: ident
  Template_ProjectID :: ident
  Template_InventoryID :: "ident option"
  Template_RepositoryID :: ident
  Template_EnvironmentIDs :: "ident list"
  Template_Name :: string
  Template_Playbook :: string
  Template_Arguments :: "string option"
  Template_Vaults :: "TemplateVault list"
  Template_Type :: string
  Template_StartVersion :: "string option"
  Template_BuildTemplateID :: "ident option"
  Template_Autorun :: bool
  Template_GitBranch :: "string option"
  Template_SurveyVars :: "SurveyVar list"
  Template_SuppressSuccessAlerts :: bool
  Template_App :: string
  Template_TaskParams :: "MapStringAny option"
  Template_RunnerTag :: "string option"
  Template_ExecutorImage :: "string option"
  Template_AllowOverrideArgsInTask :: bool
  Template_AllowOverrideBranchInTask :: bool
  Template_AllowParallelTasks :: bool
  Template_JWTParams :: "TemplateJWTParams option"

definition zeroTemplate :: Template where
  "zeroTemplate =
     \<lparr>Template_ID = 0, Template_ProjectID = 0, Template_InventoryID = None,
      Template_RepositoryID = 0, Template_EnvironmentIDs = [], Template_Name = [],
      Template_Playbook = [], Template_Arguments = None,
      Template_Vaults = [], Template_Type = [], Template_StartVersion = None, Template_BuildTemplateID = None,
      Template_Autorun = False, Template_GitBranch = None, Template_SurveyVars = [],
      Template_SuppressSuccessAlerts = False, Template_App = [],
      Template_TaskParams = None, Template_RunnerTag = None, Template_ExecutorImage = None,
      Template_AllowOverrideArgsInTask = False, Template_AllowOverrideBranchInTask = False, Template_AllowParallelTasks = False,
      Template_JWTParams = None\<rparr>"

record Project =
  Project_ID :: ident
  Project_Alert :: bool
  Project_AlertChat :: "string option"
  Project_MaxParallelTasks :: int

record User =
  User_ID :: ident
  User_Username :: string
  User_Admin :: bool

record Runner =
  Runner_ID :: ident
  Runner_Token :: string
  Runner_ProjectID :: "ident option"
  Runner_Webhook :: string
  Runner_MaxParallelTasks :: int
  Runner_Active :: bool
  Runner_IsDefault :: bool
  Runner_Name :: string
  Runner_Tags :: "string list"
  Runner_Touched :: "go_time option"
  Runner_CleaningRequested :: "go_time option"
  Runner_StartedAt :: "go_time option"
  Runner_PublicKey :: "string option"
  Runner_RegistrationTokenHash :: "string option"
  Runner_RegistrationTokenExpiresAt :: "go_time option"

record Event =
  Event_UserID :: "ident option"
  Event_ProjectID :: ident
  Event_ObjectID :: ident
  Event_Description :: string

record TaskOutput =
  Output_TaskID :: ident
  Output_Output :: string
  Output_Time :: go_time
  Output_StageID :: "ident option"

subsection \<open>Predicates of a runner\<close>

definition IsRegistered :: "Runner \<Rightarrow> bool" where
  "IsRegistered r \<longleftrightarrow> Runner_Token r \<noteq> []"

definition HasTag :: "Runner \<Rightarrow> string \<Rightarrow> bool" where
  "HasTag r tag \<longleftrightarrow> tag \<in> set (Runner_Tags r)"

definition IsOnline :: "Runner \<Rightarrow> go_time \<Rightarrow> int \<Rightarrow> bool" where
  "IsOnline r now offlineTimeout \<longleftrightarrow>
     (if Runner_Webhook r \<noteq> [] then True
      else case Runner_Touched r of
             None \<Rightarrow> False
           | Some touched \<Rightarrow> now - touched \<le> offlineTimeout)"

subsection \<open>The database\<close>

datatype db_call =
    Q_GetTemplate | Q_GetTemplates | Q_GetProject | Q_GetProjectUsers | Q_GetAllAdmins
  | Q_GetRepository | Q_GetEnvironment | Q_GetUser | Q_GetTask | Q_GetTaskByID | Q_UpdateTask
  | Q_CreateTask | Q_SetWaitingTasksToStopped | Q_GetTemplateTasks | Q_GetProjectTasks
  | Q_GetRunner | Q_GetGlobalRunner | Q_GetRunners | Q_GetAllRunners | Q_CreateEvent
  | Q_InsertTaskOutputBatch | Q_GetRunnerByToken | Q_TouchRunner | Q_SelectRegistration
  | Q_RegisterRunner | Q_ResetRunnerRegistration | Q_CreateRunner | Q_DeleteGlobalRunner
  | Q_UpdateRunner | Q_ClearRunnerCache | Q_CountTask

record Database =
  tbl_task :: "Task list"
  tbl_template :: "Template list"
  tbl_project :: "Project list"
  tbl_projectUser :: "(ident \<times> User) list"
  tbl_user :: "User list"
  tbl_inventory :: "Inventory list"
  tbl_repository :: "Repository list"
  tbl_environment :: "Environment list"
  tbl_runner :: "Runner list"
  tbl_event :: "Event list"
  tbl_output :: "TaskOutput list"
  next_task_id :: ident
  next_runner_id :: ident
  db_faults :: "db_call \<Rightarrow> bool"

definition sqlErr :: go_error where
  "sqlErr = ErrSql ''driver''"

text \<open>\<^verbatim>\<open>selectOne\<close> / \<^verbatim>\<open>getObject\<close>: the first matching row, or \<^verbatim>\<open>ErrNotFound\<close>.\<close>

definition selectOne :: "db_call \<Rightarrow> ('r \<Rightarrow> bool) \<Rightarrow> (Database \<Rightarrow> 'r list) \<Rightarrow> Database \<Rightarrow> go_error + 'r" where
  "selectOne q P tbl d =
     (if db_faults d q then Inl sqlErr
      else case find P (tbl d) of None \<Rightarrow> Inl ErrNotFound | Some r \<Rightarrow> Inr r)"

definition selectAll :: "db_call \<Rightarrow> ('r \<Rightarrow> bool) \<Rightarrow> (Database \<Rightarrow> 'r list) \<Rightarrow> Database \<Rightarrow> go_error + 'r list" where
  "selectAll q P tbl d = (if db_faults d q then Inl sqlErr else Inr (filter P (tbl d)))"

definition GetTemplate :: "ident \<Rightarrow> ident \<Rightarrow> Database \<Rightarrow> go_error + Template" where
  "GetTemplate projectID templateID =
     selectOne Q_GetTemplate
       (\<lambda>t. Template_ProjectID t = projectID \<and> Template_ID t = templateID) tbl_template"

text \<open>\<^verbatim>\<open>GetTemplates\<close> with the filter of autorun children of a build template.\<close>

definition GetAutorunTemplates :: "ident \<Rightarrow> ident \<Rightarrow> Database \<Rightarrow> go_error + Template list" where
  "GetAutorunTemplates projectID buildTemplateID =
     selectAll Q_GetTemplates
       (\<lambda>t. Template_ProjectID t = projectID \<and>
            Template_BuildTemplateID t = Some buildTemplateID \<and> Template_Autorun t) tbl_template"

definition GetProject :: "ident \<Rightarrow> Database \<Rightarrow> go_error + Project" where
  "GetProject projectID = selectOne Q_GetProject (\<lambda>p. Project_ID p = projectID) tbl_project"

definition GetProjectUsers :: "ident \<Rightarrow> Database \<Rightarrow> go_error + User list" where
  "GetProjectUsers projectID d =
     map_sum id (map snd) (selectAll Q_GetProjectUsers (\<lambda>(p, _). p = projectID) tbl_projectUser d)"

definition GetAllAdmins :: "Database \<Rightarrow> go_error + User list" where
  "GetAllAdmins = selectAll Q_GetAllAdmins User_Admin tbl_user"

definition GetUser :: "ident \<Rightarrow> Database \<Rightarrow> go_error + User" where
  "GetUser userID = selectOne Q_GetUser (\<lambda>u. User_ID u = userID) tbl_user"

definition GetRepository :: "ident \<Rightarrow> ident \<Rightarrow> Database \<Rightarrow> go_error + Repository" where
  "GetRepository projectID repositoryID =
     selectOne Q_GetRepository
       (\<lambda>r. Repository_ProjectID r = projectID \<and> Repository_ID r = repositoryID) tbl_repository"

definition GetEnvironment :: "ident \<Rightarrow> ident \<Rightarrow> Database \<Rightarrow> go_error + Environment" where
  "GetEnvironment projectID environmentID =
     selectOne Q_GetEnvironment
       (\<lambda>e. Environment_ProjectID e = projectID \<and> Environment_ID e = environmentID)
       tbl_environment"

text \<open>
  \<^verbatim>\<open>GetTask\<close> joins the task with its template and tests the project of the \<^emph>\<open>template\<close>;
  \<^verbatim>\<open>GetTaskByID\<close> reads the row alone.
\<close>

definition tplInProject :: "Database \<Rightarrow> ident \<Rightarrow> Task \<Rightarrow> bool" where
  "tplInProject d projectID t \<longleftrightarrow>
     (\<exists>tpl\<in>set (tbl_template d). Template_ID tpl = Task_TemplateID t \<and> Template_ProjectID tpl = projectID)"

definition db_GetTask :: "ident \<Rightarrow> ident \<Rightarrow> Database \<Rightarrow> go_error + Task" where
  "db_GetTask projectID taskID d =
     selectOne Q_GetTask (\<lambda>t. Task_ID t = taskID \<and> tplInProject d projectID t) tbl_task d"

definition GetTaskByID :: "ident \<Rightarrow> Database \<Rightarrow> go_error + Task" where
  "GetTaskByID taskID = selectOne Q_GetTaskByID (\<lambda>t. Task_ID t = taskID) tbl_task"

text \<open>
  \<^verbatim>\<open>UpdateTask\<close> writes the status, the two instants and the runner, and the commit only when one is
  set; a missing row is not an error.
\<close>

definition updateRow :: "Task \<Rightarrow> Task \<Rightarrow> Task" where
  "updateRow task row =
     (let row' = row\<lparr>Task_Status := Task_Status task, Task_Start := Task_Start task,
                     Task_End := Task_End task, Task_RunnerID := Task_RunnerID task\<rparr>
      in if Task_CommitHash task \<noteq> None
         then row'\<lparr>Task_CommitHash := Task_CommitHash task,
                   Task_CommitMessage := Task_CommitMessage task\<rparr>
         else row')"

definition UpdateTask :: "Task \<Rightarrow> Database \<Rightarrow> go_error + Database" where
  "UpdateTask task d =
     (if db_faults d Q_UpdateTask then Inl sqlErr
      else Inr (d\<lparr>tbl_task :=
                    map (\<lambda>row. if Task_ID row = Task_ID task then updateRow task row else row)
                      (tbl_task d)\<rparr>))"

text \<open>
  The insert hook \<^verbatim>\<open>PreInsert\<close>: a deprecated \<^verbatim>\<open>Limit\<close> becomes the parameter \<^verbatim>\<open>limit\<close> unless one is
  given. (\<^verbatim>\<open>tz.In\<close> changes the zone of an instant, not the instant.)
\<close>

definition PreInsert :: "Task \<Rightarrow> Task" where
  "PreInsert task =
     (let params = (case Task_Params task of Some m \<Rightarrow> m | None \<Rightarrow> [])
      in if map_of params ''limit'' \<noteq> None then task
         else if Task_Limit task \<noteq> []
         then task\<lparr>Task_Params :=
                Some (AList.update ''limit''
                  (JArray (map (JString \<circ> trimSpace) (splitOn CHR '','' (Task_Limit task)))) params)\<rparr>
         else task\<lparr>Task_Params := Some params\<rparr>)"

text \<open>
  \<^verbatim>\<open>CreateTask\<close> inserts the row under a fresh primary key, and counts it in the template (the counter is not
  modelled); when the counting fails the error is returned and the row stays. The trimming of old tasks
  (\<^verbatim>\<open>clearTasks\<close>, partly random) only removes other rows; \<open>clear\<close> is the set it removes.
\<close>

definition db_CreateTask :: "(Task \<Rightarrow> bool) \<Rightarrow> Task \<Rightarrow> int \<Rightarrow> Database \<Rightarrow> (Task \<times> go_error option) \<times> Database" where
  "db_CreateTask clear task maxTasks d =
     (if db_faults d Q_CreateTask then ((PreInsert task, Some sqlErr), d)
      else let newTask = (PreInsert task)\<lparr>Task_ID := next_task_id d\<rparr>;
               d1 = d\<lparr>tbl_task := tbl_task d @ [newTask], next_task_id := next_task_id d + 1\<rparr>;
               kept = (if maxTasks > 0
                       then filter (\<lambda>t. \<not> (Task_TemplateID t = Task_TemplateID task \<and> clear t))
                              (tbl_task d)
                       else tbl_task d)
           in if db_faults d Q_CountTask then ((newTask, Some sqlErr), d1)
              else ((newTask, None), d1\<lparr>tbl_task := kept @ [newTask]\<rparr>))"

definition SetWaitingTasksToStopped ::
  "ident \<Rightarrow> ident \<Rightarrow> go_time \<Rightarrow> Database \<Rightarrow> go_error + Database" where
  "SetWaitingTasksToStopped projectID templateID now d =
     (if db_faults d Q_SetWaitingTasksToStopped then Inl sqlErr
      else Inr (d\<lparr>tbl_task :=
                    map (\<lambda>row. if Task_TemplateID row = templateID \<and> Task_ProjectID row = projectID \<and>
                                   Task_Status row = TaskWaitingStatus
                               then row\<lparr>Task_Status := TaskStoppedStatus, Task_End := Some now\<rparr>
                               else row) (tbl_task d)\<rparr>))"

text \<open>
  \<^verbatim>\<open>getTasks\<close>: newest first, with an optional template, an optional status filter and a limit
  (0 for none).
\<close>

definition getTasks ::
  "db_call \<Rightarrow> ident \<Rightarrow> ident option \<Rightarrow> TaskStatus list \<Rightarrow> nat \<Rightarrow> Database \<Rightarrow> go_error + Task list" where
  "getTasks q projectID templateID statuses lim d =
     (if db_faults d q then Inl sqlErr
      else let rows = filter (\<lambda>t. tplInProject d projectID t \<and>
                                 (case templateID of None \<Rightarrow> True | Some i \<Rightarrow> Task_TemplateID t = i) \<and>
                                 (statuses \<noteq> [] \<longrightarrow> Task_Status t \<in> set statuses)) (tbl_task d);
               sorted = rev (sort_key Task_ID rows)
           in Inr (if lim > 0 then take lim sorted else sorted))"

definition GetTemplateTasks ::
  "ident \<Rightarrow> ident \<Rightarrow> TaskStatus list \<Rightarrow> nat \<Rightarrow> Database \<Rightarrow> go_error + Task list" where
  "GetTemplateTasks projectID templateID = getTasks Q_GetTemplateTasks projectID (Some templateID)"

definition GetProjectTasks ::
  "ident \<Rightarrow> TaskStatus list \<Rightarrow> nat \<Rightarrow> Database \<Rightarrow> go_error + Task list" where
  "GetProjectTasks projectID = getTasks Q_GetProjectTasks projectID None"

definition GetRunner :: "ident \<Rightarrow> ident \<Rightarrow> Database \<Rightarrow> go_error + Runner" where
  "GetRunner projectID runnerID =
     selectOne Q_GetRunner
       (\<lambda>r. Runner_ProjectID r = Some projectID \<and> Runner_ID r = runnerID) tbl_runner"

definition GetGlobalRunner :: "ident \<Rightarrow> Database \<Rightarrow> go_error + Runner" where
  "GetGlobalRunner runnerID =
     selectOne Q_GetGlobalRunner (\<lambda>r. Runner_ID r = runnerID \<and> Runner_ProjectID r = None) tbl_runner"

datatype RunnerTagFilterMode =
  RunnerFilterTagCompleteMatch | RunnerFilterHasAnyTag | RunnerFilterIgnoreTags | RunnerFilterIsDefault

text \<open>
  The tag clause of the two runner queries; \<^verbatim>\<open>GetRunners\<close> panics on \<^verbatim>\<open>RunnerFilterHasAnyTag\<close>
  (\<^const>\<open>None\<close>), which \<^verbatim>\<open>GetAllRunners\<close> supports.
\<close>

fun tagClause :: "bool \<Rightarrow> RunnerTagFilterMode \<Rightarrow> string option \<Rightarrow> (Runner \<Rightarrow> bool) option" where
  "tagClause _ RunnerFilterTagCompleteMatch tag =
     Some (\<lambda>r. case tag of Some g \<Rightarrow> HasTag r g | None \<Rightarrow> False)"
| "tagClause _ RunnerFilterIsDefault _ = Some Runner_IsDefault"
| "tagClause _ RunnerFilterIgnoreTags _ = Some (\<lambda>_. True)"
| "tagClause anyTag RunnerFilterHasAnyTag _ =
     (if anyTag then Some (\<lambda>r. Runner_Tags r \<noteq> []) else None)"

text \<open>The runner table is read newest first.\<close>

definition newestRunners :: "Runner list \<Rightarrow> Runner list" where
  "newestRunners rs = rev (sort_key Runner_ID rs)"

lemma set_newestRunners [simp]: "set (newestRunners rs) = set rs"
  by (simp add: newestRunners_def)

definition GetRunners ::
  "ident \<Rightarrow> bool \<Rightarrow> RunnerTagFilterMode \<Rightarrow> string option \<Rightarrow> Database \<Rightarrow> (go_error + Runner list) option" where
  "GetRunners projectID activeOnly mode tag d =
     (if tag = None \<and> mode = RunnerFilterTagCompleteMatch
      then Some (Inl (ErrOther ''tag filter mode is complete match but no tag was provided''))
      else map_option
        (\<lambda>clause. map_sum id newestRunners (selectAll Q_GetRunners
           (\<lambda>r. Runner_ProjectID r = Some projectID \<and> clause r \<and>
                (activeOnly \<longrightarrow> Runner_Active r \<and> IsRegistered r)) tbl_runner d))
        (tagClause False mode tag))"

definition GetAllRunners ::
  "bool \<Rightarrow> bool \<Rightarrow> RunnerTagFilterMode \<Rightarrow> string option \<Rightarrow> Database \<Rightarrow> (go_error + Runner list) option" where
  "GetAllRunners activeAndRegisteredOnly globalOnly mode tag d =
     (if tag = None \<and> mode = RunnerFilterTagCompleteMatch
      then Some (Inl (ErrOther ''tag filter mode is complete match but no tag was provided''))
      else map_option
        (\<lambda>clause. map_sum id newestRunners (selectAll Q_GetAllRunners
           (\<lambda>r. (globalOnly \<longrightarrow> Runner_ProjectID r = None) \<and>
                (activeAndRegisteredOnly \<longrightarrow> Runner_Active r \<and> IsRegistered r) \<and> clause r)
           tbl_runner d))
        (tagClause True mode tag))"

definition CreateEvent :: "Event \<Rightarrow> Database \<Rightarrow> go_error + Database" where
  "CreateEvent e d =
     (if db_faults d Q_CreateEvent then Inl sqlErr else Inr (d\<lparr>tbl_event := tbl_event d @ [e]\<rparr>))"

definition InsertTaskOutputBatch :: "TaskOutput list \<Rightarrow> Database \<Rightarrow> go_error + Database" where
  "InsertTaskOutputBatch output d =
     (if output = [] then Inr d
      else if db_faults d Q_InsertTaskOutputBatch then Inl sqlErr
      else Inr (d\<lparr>tbl_output := tbl_output d @ output\<rparr>))"

subsection \<open>Facts about the queries\<close>

lemma updateRow_frame [simp, frame_simps]:
  "Task_ID (updateRow t r) = Task_ID r" "Task_TemplateID (updateRow t r) = Task_TemplateID r"
  "Task_ProjectID (updateRow t r) = Task_ProjectID r"
  "Task_WorkflowRunID (updateRow t r) = Task_WorkflowRunID r"
  by (simp_all add: updateRow_def Let_def)

lemma updateRow_fields [simp]:
  "Task_Status (updateRow t r) = Task_Status t" "Task_Start (updateRow t r) = Task_Start t"
  "Task_End (updateRow t r) = Task_End t" "Task_RunnerID (updateRow t r) = Task_RunnerID t"
  by (simp_all add: updateRow_def Let_def)

lemma selectOne_Inr: "selectOne q P tbl d = Inr r \<Longrightarrow> r \<in> set (tbl d) \<and> P r"
  by (auto simp: selectOne_def split: if_splits option.splits dest: find_Some_in)

lemma selectOne_NotFound:
  "\<not> db_faults d q \<Longrightarrow> selectOne q P tbl d = Inl ErrNotFound \<longleftrightarrow> (\<forall>r\<in>set (tbl d). \<not> P r)"
  using find_None_iff_ball [of P "tbl d"] by (cases "find P (tbl d)") (auto simp: selectOne_def)

lemma UpdateTask_Inr:
  "UpdateTask t d = Inr d' \<Longrightarrow>
     tbl_task d' = map (\<lambda>row. if Task_ID row = Task_ID t then updateRow t row else row) (tbl_task d)"
  by (auto simp: UpdateTask_def split: if_splits)

lemma UpdateTask_GetTaskByID:
  assumes "UpdateTask t d = Inr d'" and "GetTaskByID i d = Inr row"
  shows "GetTaskByID i d' = Inr (if i = Task_ID t then updateRow t row else row)"
proof -
  have d': "d' = d\<lparr>tbl_task := map (\<lambda>row. if Task_ID row = Task_ID t then updateRow t row else row) (tbl_task d)\<rparr>"
    using assms(1) by (auto simp: UpdateTask_def split: if_splits)
  have find_map: "find (\<lambda>r. Task_ID r = i) (map (\<lambda>row. if Task_ID row = Task_ID t then updateRow t row else row) xs)
      = map_option (\<lambda>row. if i = Task_ID t then updateRow t row else row) (find (\<lambda>r. Task_ID r = i) xs)"
    for xs by (induction xs) auto
  show ?thesis
    using assms(2) unfolding d'
    by (auto simp: GetTaskByID_def selectOne_def find_map split: if_splits option.splits)
qed

end
