(* ===== verification/Task_Runner.thy ===== *)
theory Task_Runner
  imports Task_State_Store Db_Model
begin

text \<open>
  The task runner object of \<^verbatim>\<open>services/tasks/TaskRunner.go\<close> and \<^verbatim>\<open>TaskRunner_logging.go\<close>, and the
  world that the methods of the runner and of the pool change.

  A \<^verbatim>\<open>*TaskRunner\<close> is shared by the queue, the running map, the active map and the goroutines, so
  the objects live in a heap and the pool stores addresses: a status change through one pointer is
  seen through all of them. The unbuffered channels are lists of the values that senders have
  put on them, a \<^verbatim>\<open>go\<close> statement appends to a list of spawned goroutines, and what the code tells the outside
  (web sockets, alerts, webhooks, killed processes) is appended to a trace.
\<close>

subsection \<open>Objects\<close>

text \<open>
  A job is a local executor or a remote job. Of the executor only the fields that the pool reads
  and writes are kept.
\<close>

datatype Job =
    LocalExecutor (le_killed: bool) (le_Secret: string) (le_JWT: string)
  | RemoteJob (rj_RunnerTag: "string option") (rj_Task: Task) (rj_killed: bool)

fun Job_Async :: "Job \<Rightarrow> bool" where
  "Job_Async (LocalExecutor _ _ _) = False"
| "Job_Async (RemoteJob _ _ _) = True"

fun Job_IsKilled :: "Job \<Rightarrow> bool" where
  "Job_IsKilled (LocalExecutor k _ _) = k"
| "Job_IsKilled (RemoteJob _ _ k) = k"

record TaskRunner =
  TR_Task :: Task
  TR_Template :: Template
  TR_Inventory :: Inventory
  TR_Repository :: Repository
  TR_Environment :: Environment
  TR_currentStage :: "ident option"
  TR_currentOutput :: "TaskOutput option"
  TR_users :: "ident list"
  TR_alert :: bool
  TR_alertChat :: "string option"
  TR_job :: "Job option"
  TR_Username :: string
  TR_IncomingVersion :: "string option"
  TR_statusListeners :: "nat list"
  TR_logListeners :: "nat list"
  TR_Alias :: string
  TR_dispatching :: bool

definition newTaskRunnerObj :: "Task \<Rightarrow> string \<Rightarrow> TaskRunner" where
  "newTaskRunnerObj newTask username =
     \<lparr>TR_Task = newTask, TR_Template = zeroTemplate, TR_Inventory = zeroInventory,
      TR_Repository = zeroRepository, TR_Environment = zeroEnvironment, TR_currentStage = None,
      TR_currentOutput = None, TR_users = [], TR_alert = False, TR_alertChat = None, TR_job = None,
      TR_Username = username, TR_IncomingVersion = None, TR_statusListeners = [],
      TR_logListeners = [], TR_Alias = [], TR_dispatching = False\<rparr>"

subsection \<open>The world\<close>

datatype AlertChannel =
  MailAlert | TelegramAlert | SlackAlert | RocketChatAlert | MicrosoftTeamsAlert | DingTalkAlert | GotifyAlert

datatype effect =
    SocketUpdate (su_user: ident) "go_time option" "go_time option" TaskStatus ident ident ident "string option"
  | SocketLog ident string go_time ident ident
  | AlertSent AlertChannel ident TaskStatus
  | StatusCallback nat TaskStatus
  | LogCallback nat go_time string
  | KillProcess ident
  | HookEnd ident ident
  | WriteTaskLog ident TaskStatus string
  | RunnerWebhook ident string ident
  | SurveySecretsCreated ident ident string go_time
  | SurveySecretsDeleted ident ident
  | WorkflowCompletion Task
  | AfterFunc int ident Runner

datatype EventType =
  EventTypeNew | EventTypeFinished | EventTypeFailed | EventTypeEmpty | EventTypeRequeued

record PoolEvent =
  eventType :: EventType
  eventTask :: "tref option"

record logRecord =
  log_task :: tref
  log_output :: string
  log_time :: go_time

datatype goroutine =
    GoRun tref
  | GoFinalizeRemoteTask tref "Runner option"

record Metrics =
  tasksRunning :: int
  tasksTotal :: "(TaskStatus \<times> nat) list"

record World =
  heap :: "tref \<Rightarrow> TaskRunner"
  nextRef :: tref
  state :: MemoryTaskStateStore
  db :: Database
  queueEvents :: "PoolEvent list"
  register :: "tref list"
  logger :: "logRecord list"
  spawned :: "goroutine list"
  metrics :: Metrics
  now :: go_time
  trace :: "effect list"

text \<open>
  The collaborators that the pool is built with and the configuration it reads. The services are
  interfaces in the code (\<^verbatim>\<open>InventoryService\<close>, \<^verbatim>\<open>AccessKeyEncryptionService\<close>, \<^verbatim>\<open>jwt.Signer\<close>,
  \<^verbatim>\<open>WorkflowService\<close>) and are functions here; so are the JSON codec, the HTTP client of the
  runner webhook and the random source.
\<close>

record PoolEnv =
  HAEnabled :: bool
  IsUseRemoteRunner :: bool
  MaxParallelTasks :: int
  MaxTasksPerTemplate :: int
  MaxTaskDurationSec :: int
  RunnersOfflineTimeout :: int
  RunnersTaskFailTimeout :: int
  alertEnabled :: "AlertChannel \<Rightarrow> bool"
  TelegramChat :: string
  svc_GetInventory :: "ident \<Rightarrow> ident \<Rightarrow> go_error + Inventory"
  svc_DeserializeSecret :: "AccessKey \<Rightarrow> go_error + AccessKey"
  svc_FillEnvironmentSecrets :: "Environment \<Rightarrow> go_error + Environment"
  svc_CreateTaskSurveySecrets :: "ident \<Rightarrow> ident \<Rightarrow> string \<Rightarrow> go_time \<Rightarrow> go_error option"
  svc_GetTaskSurveySecrets :: "ident \<Rightarrow> ident \<Rightarrow> go_error + string"
  svc_Sign :: "(Task \<Rightarrow> Template \<Rightarrow> int \<Rightarrow> go_error + string) option"
  time_ParseDuration :: "string \<Rightarrow> int option"
  svc_Workflow :: "(Task \<Rightarrow> go_error option) option"
  git_validRef :: "string \<Rightarrow> bool"
  json_UnmarshalAny :: "string \<Rightarrow> MapStringAny option"
  json_MarshalAny :: "MapStringAny \<Rightarrow> string"
  json_UnmarshalStr :: "string \<Rightarrow> (string \<times> string) list option"
  json_MarshalStr :: "(string \<times> string) list \<Rightarrow> string"
  http_Post :: "Runner \<Rightarrow> string \<Rightarrow> ident \<Rightarrow> go_error + int"
  random_String :: string
  random_Int :: "nat \<Rightarrow> nat option"
  clear_Old :: "Task \<Rightarrow> bool"

definition idof :: "World \<Rightarrow> tref \<Rightarrow> ident" where
  "idof w r = Task_ID (TR_Task (heap w r))"

definition statusOf :: "World \<Rightarrow> tref \<Rightarrow> TaskStatus" where
  "statusOf w r = Task_Status (TR_Task (heap w r))"

definition projectOf :: "World \<Rightarrow> tref \<Rightarrow> ident" where
  "projectOf w r = Task_ProjectID (TR_Task (heap w r))"

definition modRunner :: "tref \<Rightarrow> (TaskRunner \<Rightarrow> TaskRunner) \<Rightarrow> World \<Rightarrow> World" where
  "modRunner r f w = w\<lparr>heap := (heap w)(r := f (heap w r))\<rparr>"

definition modTask :: "tref \<Rightarrow> (Task \<Rightarrow> Task) \<Rightarrow> World \<Rightarrow> World" where
  "modTask r f = modRunner r (\<lambda>t. t\<lparr>TR_Task := f (TR_Task t)\<rparr>)"

definition modState :: "(MemoryTaskStateStore \<Rightarrow> MemoryTaskStateStore) \<Rightarrow> World \<Rightarrow> World" where
  "modState f w = w\<lparr>state := f (state w)\<rparr>"

definition emit :: "effect list \<Rightarrow> World \<Rightarrow> World" where
  "emit es w = w\<lparr>trace := trace w @ es\<rparr>"

definition sendEvent :: "EventType \<Rightarrow> tref option \<Rightarrow> World \<Rightarrow> World" where
  "sendEvent e r w = w\<lparr>queueEvents := queueEvents w @ [\<lparr>eventType = e, eventTask = r\<rparr>]\<rparr>"

definition spawn :: "goroutine \<Rightarrow> World \<Rightarrow> World" where
  "spawn g w = w\<lparr>spawned := spawned w @ [g]\<rparr>"

definition NewTaskRunner :: "Task \<Rightarrow> string \<Rightarrow> World \<Rightarrow> tref \<times> World" where
  "NewTaskRunner newTask username w =
     (nextRef w,
      w\<lparr>heap := (heap w)(nextRef w := newTaskRunnerObj newTask username), nextRef := Suc (nextRef w)\<rparr>)"

definition AddStatusListener :: "tref \<Rightarrow> nat \<Rightarrow> World \<Rightarrow> World" where
  "AddStatusListener r l = modRunner r (\<lambda>t. t\<lparr>TR_statusListeners := TR_statusListeners t @ [l]\<rparr>)"

definition AddLogListener :: "tref \<Rightarrow> nat \<Rightarrow> World \<Rightarrow> World" where
  "AddLogListener r l = modRunner r (\<lambda>t. t\<lparr>TR_logListeners := TR_logListeners t @ [l]\<rparr>)"

definition taskToRecord :: "World \<Rightarrow> tref option \<Rightarrow> TaskRecord" where
  "taskToRecord w p =
     (case p of
        None \<Rightarrow> \<lparr>rec_TaskID = 0, rec_ProjectID = 0, rec_TemplateID = 0, rec_Status = [],
                 rec_RunnerID = 0, rec_Username = [], rec_Alias = [], rec_NodeID = []\<rparr>
      | Some r \<Rightarrow>
          (let t = heap w r in
           \<lparr>rec_TaskID = Task_ID (TR_Task t), rec_ProjectID = Task_ProjectID (TR_Task t),
            rec_TemplateID = Task_TemplateID (TR_Task t),
            rec_Status = TaskStatus_string (Task_Status (TR_Task t)),
            rec_RunnerID = (case Task_RunnerID (TR_Task t) of Some i \<Rightarrow> i | None \<Rightarrow> 0),
            rec_Username = TR_Username t, rec_Alias = TR_Alias t, rec_NodeID = []\<rparr>))"

subsection \<open>Logging\<close>

definition LogWithTime :: "tref \<Rightarrow> go_time \<Rightarrow> string \<Rightarrow> World \<Rightarrow> World" where
  "LogWithTime r at msg w =
     (let t = heap w r;
          w1 = emit (map (\<lambda>u. SocketLog u msg at (Task_ID (TR_Task t)) (Task_ProjectID (TR_Task t)))
                       (TR_users t)) w;
          w2 = w1\<lparr>logger := logger w1 @ [\<lparr>log_task = r, log_output = msg, log_time = at\<rparr>]\<rparr>
      in emit (map (\<lambda>l. LogCallback l at msg) (TR_logListeners t)) w2)"

definition Log :: "tref \<Rightarrow> string \<Rightarrow> World \<Rightarrow> World" where
  "Log r msg w = LogWithTime r (now w) msg w"

subsection \<open>Persisting and changing the status\<close>

text \<open>
  \<^verbatim>\<open>saveStatus\<close> tells the web sockets of the project's users and writes the row; it panics when the
  row cannot be written. The in-memory store has no runtime fields to update.
\<close>

definition saveStatus :: "tref \<Rightarrow> World \<Rightarrow> World option" where
  "saveStatus r w =
     (let t = TR_Task (heap w r);
          w1 = emit (map (\<lambda>u. SocketUpdate u (Task_Start t) (Task_End t) (Task_Status t) (Task_ID t)
                                (Task_TemplateID t) (Task_ProjectID t) (Task_Version t))
                       (TR_users (heap w r))) w
      in case UpdateTask t (db w1) of
           Inl _ \<Rightarrow> None
         | Inr d \<Rightarrow> Some (w1\<lparr>db := d\<rparr>))"

definition RecordTaskStatusChange :: "TaskStatus \<Rightarrow> TaskStatus \<Rightarrow> Metrics \<Rightarrow> Metrics" where
  "RecordTaskStatusChange oldStatus newStatus m =
     (let m1 = (if oldStatus = TaskRunningStatus then m\<lparr>tasksRunning := tasksRunning m - 1\<rparr> else m);
          m2 = (if newStatus = TaskRunningStatus then m1\<lparr>tasksRunning := tasksRunning m1 + 1\<rparr> else m1)
      in if IsFinished newStatus \<and> \<not> IsFinished oldStatus
         then m2\<lparr>tasksTotal :=
                AList.update newStatus
                  (Suc (case map_of (tasksTotal m2) newStatus of Some n \<Rightarrow> n | None \<Rightarrow> 0))
                  (tasksTotal m2)\<rparr>
         else m2)"

text \<open>
  The transitions that \<^verbatim>\<open>SetStatus\<close> refuses. The cases of the Go \<^verbatim>\<open>switch\<close> do not fall through,
  so the empty cases for success and failure refuse nothing.
\<close>

fun refusesTransition :: "TaskStatus \<Rightarrow> TaskStatus \<Rightarrow> bool" where
  "refusesTransition TaskConfirmed status = (status = TaskWaitingConfirmation)"
| "refusesTransition TaskRunningStatus status = (status = TaskWaitingStatus)"
| "refusesTransition TaskStoppingStatus status =
     (status = TaskWaitingStatus \<or> status = TaskRunningStatus \<or> status = TaskWaitingConfirmation)"
| "refusesTransition TaskSuccessStatus status = False"
| "refusesTransition TaskFailStatus status = False"
| "refusesTransition TaskStoppedStatus status = True"
| "refusesTransition _ status = False"

text \<open>
  The guards of the alert senders: the channel is configured, the project has alerts on, success
  alerts are not suppressed (mail has no such test), and Telegram has a chat to send to. The
  rendering of the message is not modelled.
\<close>

definition sendAlert :: "PoolEnv \<Rightarrow> AlertChannel \<Rightarrow> tref \<Rightarrow> World \<Rightarrow> World" where
  "sendAlert env ch r w =
     (let t = heap w r;
          chatID = (case TR_alertChat t of
                      Some c \<Rightarrow> if c \<noteq> [] then c else TelegramChat env
                    | None \<Rightarrow> TelegramChat env)
      in if \<not> alertEnabled env ch \<or> \<not> TR_alert t then w
         else if ch \<noteq> MailAlert \<and> Template_SuppressSuccessAlerts (TR_Template t) \<and>
                 Task_Status (TR_Task t) = TaskSuccessStatus then w
         else if ch = TelegramAlert \<and> chatID = [] then w
         else emit [AlertSent ch (Task_ID (TR_Task t)) (Task_Status (TR_Task t))] w)"

definition notifyAll :: "PoolEnv \<Rightarrow> tref \<Rightarrow> World \<Rightarrow> World" where
  "notifyAll env r w =
     fold (\<lambda>ch. sendAlert env ch r)
       [TelegramAlert, SlackAlert, RocketChatAlert, MicrosoftTeamsAlert, DingTalkAlert, GotifyAlert] w"

text \<open>The tail of \<^verbatim>\<open>SetStatus\<close>: alerts, then the status listeners.\<close>

definition announceStatus :: "PoolEnv \<Rightarrow> tref \<Rightarrow> TaskStatus \<Rightarrow> World \<Rightarrow> World" where
  "announceStatus env r status w =
     (let w5 = (if status = TaskFailStatus then sendAlert env MailAlert r w else w);
          w6 = (if IsNotifiable status then notifyAll env r w5 else w5)
      in emit (map (\<lambda>l. StatusCallback l status) (TR_statusListeners (heap w6 r))) w6)"

text \<open>
  \<^verbatim>\<open>SetStatus\<close>. Forwarding the status to a local executor calls \<^verbatim>\<open>SetStatus\<close> of the same runner
  with the status it now has, which returns at the first test.
\<close>

definition SetStatus :: "PoolEnv \<Rightarrow> tref \<Rightarrow> TaskStatus \<Rightarrow> World \<Rightarrow> World option" where
  "SetStatus env r status w =
     (let oldStatus = statusOf w r in
      if status = oldStatus then Some w
      else if refusesTransition oldStatus status then Some w
      else
        let w1 = modTask r (\<lambda>t. t\<lparr>Task_Status := status\<rparr>) w;
            w2 = w1\<lparr>metrics := RecordTaskStatusChange oldStatus status (metrics w1)\<rparr>;
            w3 = (if status = TaskRunningStatus
                  then modTask r (\<lambda>t. t\<lparr>Task_Start := Some (now w2)\<rparr>) w2 else w2)
        in case saveStatus r w3 of
             None \<Rightarrow> None
           | Some w4 \<Rightarrow> Some (announceStatus env r status w4))"

definition SetCommit :: "tref \<Rightarrow> string \<Rightarrow> string \<Rightarrow> World \<Rightarrow> World option" where
  "SetCommit r hash message w =
     (let w1 = modTask r (\<lambda>t. t\<lparr>Task_CommitHash := Some hash, Task_CommitMessage := message\<rparr>) w
      in case UpdateTask (TR_Task (heap w1 r)) (db w1) of
           Inl _ \<Rightarrow> None
         | Inr d \<Rightarrow> Some (w1\<lparr>db := d\<rparr>))"

text \<open>
  \<^verbatim>\<open>kill\<close>: a remote job only records that it was killed; a local executor also kills its process.
  A runner without a job panics (nil interface).
\<close>

definition kill :: "tref \<Rightarrow> World \<Rightarrow> World option" where
  "kill r w =
     (case TR_job (heap w r) of
        None \<Rightarrow> None
      | Some (LocalExecutor _ s j) \<Rightarrow>
          Some (emit [KillProcess (idof w r)]
                 (modRunner r (\<lambda>t. t\<lparr>TR_job := Some (LocalExecutor True s j)\<rparr>) w))
      | Some (RemoteJob tag t _) \<Rightarrow>
          Some (modRunner r (\<lambda>tr. tr\<lparr>TR_job := Some (RemoteJob tag t True)\<rparr>) w))"

definition createTaskEvent :: "tref \<Rightarrow> World \<Rightarrow> World" where
  "createTaskEvent r w =
     (let t = TR_Task (heap w r);
          tpl = TR_Template (heap w r);
          fin = IsFinished (Task_Status t);
          st = toUpper (TaskStatus_string (Task_Status t));
          desc = ''Task ID '' @ itoa (Task_ID t) @ '' ('' @ Template_Name tpl @ '')'' @
                 (if fin then '' finished with status '' @ st else '' '' @ st);
          w1 = (if fin \<and> Template_App tpl = AppAnsible
                then emit [HookEnd (Task_ProjectID t) (Task_ID t)] w else w);
          w2 = emit [WriteTaskLog (Task_ID t) (Task_Status t) desc] w1;
          ev = \<lparr>Event_UserID = Task_UserID t, Event_ProjectID = Task_ProjectID t,
                Event_ObjectID = Task_ID t, Event_Description = desc\<rparr>
      in case CreateEvent ev (db w2) of
           Inl _ \<Rightarrow> Log r ''Fatal error inserting an event'' w2
         | Inr d \<Rightarrow> w2\<lparr>db := d\<rparr>)"

text \<open>
  \<^verbatim>\<open>finishRun\<close>: record the end, persist it, drop the survey secrets, write the event, tell the
  queue loop, and let the workflow service progress the run.
\<close>

definition finishRun :: "PoolEnv \<Rightarrow> tref \<Rightarrow> World \<Rightarrow> World option" where
  "finishRun env r w =
     (let w1 = modTask r (\<lambda>t. t\<lparr>Task_End := Some (now w)\<rparr>) w
      in case saveStatus r w1 of
           None \<Rightarrow> None
         | Some w2 \<Rightarrow>
             (let w3 = emit [SurveySecretsDeleted (projectOf w2 r) (idof w2 r)] w2;
                  w4 = createTaskEvent r w3;
                  w5 = sendEvent EventTypeFinished (Some r) w4
              in case svc_Workflow env of
                   None \<Rightarrow> Some w5
                 | Some f \<Rightarrow>
                     (let w6 = emit [WorkflowCompletion (TR_Task (heap w5 r))] w5
                      in case f (TR_Task (heap w6 r)) of
                           None \<Rightarrow> Some w6
                         | Some e \<Rightarrow> Some (Log r (''Workflow progression failed: '' @ errorString e) w6))))"

subsection \<open>What the operations leave alone\<close>

lemma emit_frame [simp, frame_simps]:
  "heap (emit es w) = heap w" "nextRef (emit es w) = nextRef w" "state (emit es w) = state w"
  "db (emit es w) = db w" "queueEvents (emit es w) = queueEvents w"
  "register (emit es w) = register w" "logger (emit es w) = logger w"
  "spawned (emit es w) = spawned w" "metrics (emit es w) = metrics w" "now (emit es w) = now w"
  "trace (emit es w) = trace w @ es"
  by (simp_all add: emit_def)

lemma LogWithTime_frame [simp, frame_simps]:
  "heap (LogWithTime r at msg w) = heap w" "nextRef (LogWithTime r at msg w) = nextRef w"
  "state (LogWithTime r at msg w) = state w" "db (LogWithTime r at msg w) = db w"
  "queueEvents (LogWithTime r at msg w) = queueEvents w"
  "register (LogWithTime r at msg w) = register w"
  "spawned (LogWithTime r at msg w) = spawned w" "metrics (LogWithTime r at msg w) = metrics w"
  "now (LogWithTime r at msg w) = now w"
  "logger (LogWithTime r at msg w) = logger w @ [\<lparr>log_task = r, log_output = msg, log_time = at\<rparr>]"
  by (simp_all add: LogWithTime_def Let_def)

lemma Log_frame [simp, frame_simps]:
  "heap (Log r msg w) = heap w" "nextRef (Log r msg w) = nextRef w"
  "state (Log r msg w) = state w" "db (Log r msg w) = db w"
  "queueEvents (Log r msg w) = queueEvents w" "register (Log r msg w) = register w"
  "spawned (Log r msg w) = spawned w" "metrics (Log r msg w) = metrics w"
  "now (Log r msg w) = now w"
  by (simp_all add: Log_def)

lemma modRunner_frame [simp, frame_simps]:
  "heap (modRunner r f w) = (heap w)(r := f (heap w r))" "nextRef (modRunner r f w) = nextRef w"
  "state (modRunner r f w) = state w" "db (modRunner r f w) = db w"
  "queueEvents (modRunner r f w) = queueEvents w" "register (modRunner r f w) = register w"
  "logger (modRunner r f w) = logger w" "spawned (modRunner r f w) = spawned w"
  "metrics (modRunner r f w) = metrics w" "now (modRunner r f w) = now w"
  "trace (modRunner r f w) = trace w"
  by (simp_all add: modRunner_def)

lemma modTask_frame [simp, frame_simps]:
  "heap (modTask r f w) = (heap w)(r := (heap w r)\<lparr>TR_Task := f (TR_Task (heap w r))\<rparr>)"
  "nextRef (modTask r f w) = nextRef w"
  "state (modTask r f w) = state w" "db (modTask r f w) = db w"
  "queueEvents (modTask r f w) = queueEvents w" "register (modTask r f w) = register w"
  "logger (modTask r f w) = logger w" "spawned (modTask r f w) = spawned w"
  "metrics (modTask r f w) = metrics w" "now (modTask r f w) = now w"
  "trace (modTask r f w) = trace w"
  by (simp_all add: modTask_def)

lemma modState_frame [simp, frame_simps]:
  "heap (modState f w) = heap w" "nextRef (modState f w) = nextRef w"
  "state (modState f w) = f (state w)" "db (modState f w) = db w"
  "queueEvents (modState f w) = queueEvents w" "register (modState f w) = register w"
  "logger (modState f w) = logger w" "spawned (modState f w) = spawned w"
  "metrics (modState f w) = metrics w" "now (modState f w) = now w" "trace (modState f w) = trace w"
  by (simp_all add: modState_def)

lemma sendEvent_frame [simp, frame_simps]:
  "heap (sendEvent e r w) = heap w" "nextRef (sendEvent e r w) = nextRef w"
  "state (sendEvent e r w) = state w" "db (sendEvent e r w) = db w"
  "queueEvents (sendEvent e r w) = queueEvents w @ [\<lparr>eventType = e, eventTask = r\<rparr>]"
  "register (sendEvent e r w) = register w" "logger (sendEvent e r w) = logger w"
  "spawned (sendEvent e r w) = spawned w"
  "metrics (sendEvent e r w) = metrics w" "now (sendEvent e r w) = now w"
  "trace (sendEvent e r w) = trace w"
  by (simp_all add: sendEvent_def)

lemma sendAlert_frame [simp, frame_simps]:
  "heap (sendAlert env ch r w) = heap w" "nextRef (sendAlert env ch r w) = nextRef w"
  "state (sendAlert env ch r w) = state w" "db (sendAlert env ch r w) = db w"
  "queueEvents (sendAlert env ch r w) = queueEvents w"
  "register (sendAlert env ch r w) = register w" "logger (sendAlert env ch r w) = logger w"
  "spawned (sendAlert env ch r w) = spawned w" "metrics (sendAlert env ch r w) = metrics w"
  "now (sendAlert env ch r w) = now w"
  by (simp_all add: sendAlert_def Let_def)

lemma notifyAll_frame [simp, frame_simps]:
  "heap (notifyAll env r w) = heap w" "nextRef (notifyAll env r w) = nextRef w"
  "state (notifyAll env r w) = state w" "db (notifyAll env r w) = db w"
  "queueEvents (notifyAll env r w) = queueEvents w"
  "register (notifyAll env r w) = register w" "logger (notifyAll env r w) = logger w"
  "spawned (notifyAll env r w) = spawned w" "metrics (notifyAll env r w) = metrics w"
  "now (notifyAll env r w) = now w"
  by (simp_all add: notifyAll_def)

lemma announceStatus_frame [simp, frame_simps]:
  "heap (announceStatus env r s w) = heap w" "nextRef (announceStatus env r s w) = nextRef w"
  "state (announceStatus env r s w) = state w" "db (announceStatus env r s w) = db w"
  "queueEvents (announceStatus env r s w) = queueEvents w"
  "register (announceStatus env r s w) = register w" "logger (announceStatus env r s w) = logger w"
  "spawned (announceStatus env r s w) = spawned w" "metrics (announceStatus env r s w) = metrics w"
  "now (announceStatus env r s w) = now w"
  by (simp_all add: announceStatus_def Let_def)

text \<open>
  What \<^const>\<open>saveStatus\<close> and \<^const>\<open>SetStatus\<close> do when they return: everything but the row, the
  trace and the object itself is untouched.
\<close>

definition sameRest :: "World \<Rightarrow> World \<Rightarrow> bool" where
  "sameRest w w' \<longleftrightarrow>
     nextRef w' = nextRef w \<and> state w' = state w \<and> queueEvents w' = queueEvents w \<and>
     register w' = register w \<and> spawned w' = spawned w \<and> now w' = now w"

lemma sameRest_refl [simp]: "sameRest w w"
  by (simp add: sameRest_def)

lemma sameRest_trans: "sameRest a b \<Longrightarrow> sameRest b c \<Longrightarrow> sameRest a c"
  by (simp add: sameRest_def)

lemma saveStatus_Some:
  assumes "saveStatus r w = Some w'"
  shows "heap w' = heap w" "sameRest w w'" "metrics w' = metrics w" "logger w' = logger w"
    "UpdateTask (TR_Task (heap w r)) (db w) = Inr (db w')"
  using assms by (auto simp: saveStatus_def Let_def sameRest_def split: sum.splits)

lemma saveStatus_total: "\<not> db_faults (db w) Q_UpdateTask \<Longrightarrow> \<exists>w'. saveStatus r w = Some w'"
  by (simp add: saveStatus_def Let_def UpdateTask_def)

lemma UpdateTask_faults: "UpdateTask t d = Inr d' \<Longrightarrow> db_faults d' = db_faults d"
  by (auto simp: UpdateTask_def split: if_splits)

definition acceptsTransition :: "TaskStatus \<Rightarrow> TaskStatus \<Rightarrow> bool" where
  "acceptsTransition old new \<longleftrightarrow> new \<noteq> old \<and> \<not> refusesTransition old new"

definition setStatusTask :: "TaskStatus \<Rightarrow> go_time \<Rightarrow> Task \<Rightarrow> Task" where
  "setStatusTask status at t =
     (let t1 = t\<lparr>Task_Status := status\<rparr>
      in if status = TaskRunningStatus then t1\<lparr>Task_Start := Some at\<rparr> else t1)"

lemma setStatusTask_fields [simp]:
  "Task_Status (setStatusTask s at t) = s" "Task_ID (setStatusTask s at t) = Task_ID t"
  "Task_ProjectID (setStatusTask s at t) = Task_ProjectID t"
  "Task_TemplateID (setStatusTask s at t) = Task_TemplateID t"
  "Task_RunnerID (setStatusTask s at t) = Task_RunnerID t"
  "Task_End (setStatusTask s at t) = Task_End t"
  "Task_WorkflowRunID (setStatusTask s at t) = Task_WorkflowRunID t"
  "Task_Start (setStatusTask s at t) = (if s = TaskRunningStatus then Some at else Task_Start t)"
  by (simp_all add: setStatusTask_def Let_def)

lemma SetStatus_refused:
  "\<not> acceptsTransition (statusOf w r) s \<Longrightarrow> SetStatus env r s w = Some w"
  by (auto simp: SetStatus_def acceptsTransition_def Let_def)

lemma SetStatus_accepted:
  assumes "SetStatus env r s w = Some w'" and acc: "acceptsTransition (statusOf w r) s"
  shows "heap w' = (heap w)(r := (heap w r)\<lparr>TR_Task := setStatusTask s (now w) (TR_Task (heap w r))\<rparr>)"
    and "sameRest w w'" and "logger w' = logger w"
    and "metrics w' = RecordTaskStatusChange (statusOf w r) s (metrics w)"
    and "UpdateTask (setStatusTask s (now w) (TR_Task (heap w r))) (db w) = Inr (db w')"
proof -
  define w1 where "w1 = modTask r (\<lambda>t. t\<lparr>Task_Status := s\<rparr>) w"
  define w2 where "w2 = w1\<lparr>metrics := RecordTaskStatusChange (statusOf w r) s (metrics w1)\<rparr>"
  define w3 where "w3 = (if s = TaskRunningStatus
      then modTask r (\<lambda>t. t\<lparr>Task_Start := Some (now w2)\<rparr>) w2 else w2)"
  have h3: "heap w3 = (heap w)(r := (heap w r)\<lparr>TR_Task := setStatusTask s (now w) (TR_Task (heap w r))\<rparr>)"
    by (auto simp: w3_def w2_def w1_def setStatusTask_def Let_def)
  have r3: "sameRest w w3" "logger w3 = logger w" "db w3 = db w"
    "metrics w3 = RecordTaskStatusChange (statusOf w r) s (metrics w)"
    by (auto simp: w3_def w2_def w1_def sameRest_def)
  have "SetStatus env r s w = map_option (announceStatus env r s) (saveStatus r w3)"
    using acc by (simp add: SetStatus_def acceptsTransition_def Let_def w3_def w2_def w1_def
        option.case_eq_if map_option_case)
  with assms obtain w4 where w4: "saveStatus r w3 = Some w4" and eq: "w' = announceStatus env r s w4"
    by auto
  have w': "heap w' = heap w4" "sameRest w4 w'" "logger w' = logger w4" "metrics w' = metrics w4"
      "db w' = db w4"
    by (simp_all add: eq sameRest_def)
  note sv = saveStatus_Some [OF w4]
  show "heap w' = (heap w)(r := (heap w r)\<lparr>TR_Task := setStatusTask s (now w) (TR_Task (heap w r))\<rparr>)"
    using w'(1) sv(1) h3 by simp
  show "sameRest w w'" using sameRest_trans [OF r3(1) sameRest_trans [OF sv(2) w'(2)]] .
  show "logger w' = logger w" using w'(3) sv(4) r3(2) by simp
  show "metrics w' = RecordTaskStatusChange (statusOf w r) s (metrics w)"
    using w'(4) sv(3) r3(4) by simp
  show "UpdateTask (setStatusTask s (now w) (TR_Task (heap w r))) (db w) = Inr (db w')"
    using sv(5) h3 r3(3) w'(5) by simp
qed

lemma SetStatus_total: "\<not> db_faults (db w) Q_UpdateTask \<Longrightarrow> \<exists>w'. SetStatus env r s w = Some w'"
  by (auto simp: SetStatus_def Let_def saveStatus_def UpdateTask_def)

end
