(* ===== verification/Build_Version.thy ===== *)
theory Build_Version
  imports Prelude
begin

text \<open>
  Build versions, \<^verbatim>\<open>db/version.go\<close>: the next version of a build template (and of a workflow run)
  is the version of the last build with the last number in it bumped.

  \<^verbatim>\<open>buildVersionRE\<close> is \<^verbatim>\<open>^(.*[^\d])?(\d+)([^\d].*)?$\<close>; a match splits the string into prefix,
  body and suffix. Go's matcher prefers the longest prefix, and a dot matches every byte but the
  newline. \<^verbatim>\<open>strconv.Atoi\<close> accepts a sign and fails outside the 64-bit range, and the increment
  wraps around at that range.
\<close>

subsection \<open>Numbers in strings\<close>

definition isDigit :: "char \<Rightarrow> bool" where
  "isDigit c \<longleftrightarrow> (48::nat) \<le> of_char c \<and> of_char c \<le> (57::nat)"

definition digitVal :: "char \<Rightarrow> nat" where
  "digitVal c = of_char c - 48"

definition digitsVal :: "string \<Rightarrow> nat" where
  "digitsVal s = foldl (\<lambda>a c. 10 * a + digitVal c) 0 s"

definition inInt64 :: "int \<Rightarrow> bool" where
  "inInt64 i \<longleftrightarrow> - (2 ^ 63) \<le> i \<and> i < 2 ^ 63"

definition wrap64 :: "int \<Rightarrow> int" where
  "wrap64 i = (i + 2 ^ 63) mod 2 ^ 64 - 2 ^ 63"

definition atoiBody :: "bool \<Rightarrow> string \<Rightarrow> int option" where
  "atoiBody neg s =
     (if s = [] \<or> \<not> list_all isDigit s then None
      else let v = (if neg then - int (digitsVal s) else int (digitsVal s))
           in if inInt64 v then Some v else None)"

definition Atoi :: "string \<Rightarrow> int option" where
  "Atoi s =
     (case s of
        [] \<Rightarrow> None
      | c # cs \<Rightarrow> if c = CHR ''-'' then atoiBody True cs
                  else if c = CHR ''+'' then atoiBody False cs
                  else atoiBody False s)"

text \<open>\<^verbatim>\<open>fmt.Sprintf("%0*d", width, v)\<close>.\<close>

definition padZero :: "nat \<Rightarrow> int \<Rightarrow> string" where
  "padZero width v =
     (let sign = (if v < 0 then ''-'' else []); ds = natDigits (nat \<bar>v\<bar>)
      in sign @ replicate (width - length sign - length ds) CHR ''0'' @ ds)"

subsection \<open>The version pattern\<close>

definition newline :: char where
  "newline = char_of (10 :: nat)"

text \<open>The split after the first \<open>i\<close> bytes, when the pattern accepts it.\<close>

definition versionSplit :: "string \<Rightarrow> nat \<Rightarrow> (string \<times> string \<times> string) option" where
  "versionSplit s i =
     (let pre = take i s; rest = drop i s;
          body = takeWhile isDigit rest; suf = dropWhile isDigit rest
      in if (i = 0 \<or> (pre \<noteq> [] \<and> \<not> isDigit (last pre) \<and> newline \<notin> set (butlast pre))) \<and>
            body \<noteq> [] \<and> (suf = [] \<or> newline \<notin> set (tl suf))
         then Some (pre, body, suf) else None)"

fun firstSome :: "('a \<Rightarrow> 'b option) \<Rightarrow> 'a list \<Rightarrow> 'b option" where
  "firstSome f [] = None"
| "firstSome f (x # xs) = (case f x of Some y \<Rightarrow> Some y | None \<Rightarrow> firstSome f xs)"

definition buildVersionRE :: "string \<Rightarrow> (string \<times> string \<times> string) option" where
  "buildVersionRE s = firstSome (versionSplit s) (rev [0..<length s + 1])"

subsection \<open>The next version\<close>

text \<open>
  \<^const>\<open>None\<close> is a panic: the slice between prefix and suffix is out of range, or the body of the
  start version does not fit an \<^verbatim>\<open>int\<close>. A match always has three groups, so the other cases of
  the source's \<^verbatim>\<open>switch\<close> are unreachable.
\<close>

definition GetNextBuildVersion :: "string \<Rightarrow> string \<Rightarrow> string option" where
  "GetNextBuildVersion startVersion currentVersion =
     (case buildVersionRE startVersion of
        None \<Rightarrow> Some startVersion
      | Some (pre, body, suf) \<Rightarrow>
          (if \<not> (take (length pre) currentVersion = pre \<and> length pre \<le> length currentVersion) \<or>
              \<not> (length suf \<le> length currentVersion \<and>
                 drop (length currentVersion - length suf) currentVersion = suf)
           then Some startVersion
           else if length currentVersion - length suf < length pre then None
           else (case Atoi (drop (length pre)
                             (take (length currentVersion - length suf) currentVersion)) of
                   None \<Rightarrow> Some startVersion
                 | Some cur \<Rightarrow>
                     (case Atoi body of
                        None \<Rightarrow> None
                      | Some start \<Rightarrow>
                          (let newVer = (if start > cur then start else wrap64 (cur + 1))
                           in Some (pre @ padZero (length body) newVer @ suf))))))"

subsection \<open>Printing and reading numbers\<close>

lemma digitChar_digit: "d < 10 \<Longrightarrow> isDigit (digitChar d) \<and> digitVal (digitChar d) = d"
  by (simp add: isDigit_def digitVal_def digitChar_def)

lemma natDigits_not_Nil [simp]: "natDigits n \<noteq> []"
  by (subst natDigits.simps) simp

lemma digitsVal_snoc: "digitsVal (s @ [c]) = 10 * digitsVal s + digitVal c"
  by (simp add: digitsVal_def)

lemma natDigits_parse: "list_all isDigit (natDigits n) \<and> digitsVal (natDigits n) = n"
proof (induction n rule: natDigits.induct)
  case (1 n)
  show ?case
  proof (cases "n < 10")
    case True
    then show ?thesis
      using digitChar_digit [of n] by (subst (1 2) natDigits.simps) (simp add: digitsVal_def)
  next
    case False
    with "1.IH" have IH: "list_all isDigit (natDigits (n div 10))"
      "digitsVal (natDigits (n div 10)) = n div 10" by auto
    have "natDigits n = natDigits (n div 10) @ [digitChar (n mod 10)]"
      using False by (subst natDigits.simps) simp
    with IH digitChar_digit [of "n mod 10"] show ?thesis
      by (simp add: digitsVal_snoc)
  qed
qed

lemma digitsVal_zeros: "digitsVal (replicate k CHR ''0'' @ s) = digitsVal s"
  by (induction k) (simp_all add: digitsVal_def digitVal_def)

lemma padZero_nonneg:
  assumes "0 \<le> v"
  shows "padZero k v \<noteq> []" "list_all isDigit (padZero k v)" "digitsVal (padZero k v) = nat v"
proof -
  have eq: "padZero k v = replicate (k - length (natDigits (nat v))) CHR ''0'' @ natDigits (nat v)"
    using assms by (simp add: padZero_def Let_def)
  show "padZero k v \<noteq> []" by (simp add: eq)
  show "list_all isDigit (padZero k v)"
    using natDigits_parse [of "nat v"] by (auto simp: eq list_all_iff isDigit_def)
  show "digitsVal (padZero k v) = nat v"
    using natDigits_parse [of "nat v"] by (simp add: eq digitsVal_zeros)
qed

lemma Atoi_digits:
  assumes "s \<noteq> []" and "list_all isDigit s"
  shows "Atoi s = (if int (digitsVal s) < 2 ^ 63 then Some (int (digitsVal s)) else None)"
proof (cases s)
  case (Cons c cs)
  have "c \<noteq> CHR ''-''" "c \<noteq> CHR ''+''" using assms Cons by (auto simp: isDigit_def)
  with assms Cons show ?thesis by (simp add: Atoi_def atoiBody_def inInt64_def Let_def)
qed (use assms in simp)

lemma Atoi_padZero: "0 \<le> v \<Longrightarrow> v < 2 ^ 63 \<Longrightarrow> Atoi (padZero k v) = Some v"
  using padZero_nonneg [of v k] Atoi_digits [of "padZero k v"] by simp

subsection \<open>The pattern\<close>

lemma firstSome_Some: "firstSome f xs = Some y \<Longrightarrow> \<exists>x\<in>set xs. f x = Some y"
  by (induction xs) (auto split: option.splits)

lemma firstSome_None: "firstSome f xs = None \<longleftrightarrow> (\<forall>x\<in>set xs. f x = None)"
  by (induction xs) (auto split: option.splits)

lemma versionSplit_Some:
  assumes "versionSplit s i = Some (pre, body, suf)"
  shows "s = pre @ body @ suf" "body \<noteq> []" "list_all isDigit body"
    "suf = [] \<or> \<not> isDigit (hd suf)" "pre = [] \<or> \<not> isDigit (last pre)" "pre = take i s"
proof -
  from assms have eqs: "pre = take i s" "body = takeWhile isDigit (drop i s)"
    "suf = dropWhile isDigit (drop i s)" and ok: "body \<noteq> []" "i = 0 \<or> pre \<noteq> [] \<and> \<not> isDigit (last pre)"
    by (auto simp: versionSplit_def Let_def split: if_splits)
  show "s = pre @ body @ suf" unfolding eqs by simp
  show "body \<noteq> []" by (fact ok(1))
  show "list_all isDigit body" unfolding eqs by (auto simp: list_all_iff dest: set_takeWhileD)
  show "suf = [] \<or> \<not> isDigit (hd suf)" unfolding eqs using hd_dropWhile by blast
  show "pre = [] \<or> \<not> isDigit (last pre)" using ok(2) eqs(1) by auto
  show "pre = take i s" by (fact eqs(1))
qed

lemma buildVersionRE_Some:
  assumes "buildVersionRE s = Some (pre, body, suf)"
  shows "s = pre @ body @ suf" "body \<noteq> []" "list_all isDigit body"
    "suf = [] \<or> \<not> isDigit (hd suf)" "pre = [] \<or> \<not> isDigit (last pre)"
proof -
  from firstSome_Some [OF assms [unfolded buildVersionRE_def]]
  obtain i where "versionSplit s i = Some (pre, body, suf)" ..
  note v = versionSplit_Some [OF this]
  show "s = pre @ body @ suf" by (fact v(1))
  show "body \<noteq> []" by (fact v(2))
  show "list_all isDigit body" by (fact v(3))
  show "suf = [] \<or> \<not> isDigit (hd suf)" by (fact v(4))
  show "pre = [] \<or> \<not> isDigit (last pre)" by (fact v(5))
qed

lemma versionSplit_digit: "versionSplit s i \<noteq> None \<Longrightarrow> \<exists>c\<in>set s. isDigit c"
proof -
  assume "versionSplit s i \<noteq> None"
  then obtain pre body suf where "versionSplit s i = Some (pre, body, suf)" by auto
  note v = versionSplit_Some [OF this]
  obtain c cs where "body = c # cs" using v(2) by (cases body) auto
  with v(3) have "isDigit c" by simp
  moreover have "c \<in> set s" using \<open>body = c # cs\<close> by (subst v(1)) simp
  ultimately show ?thesis by blast
qed

lemma wrap64_id: "inInt64 i \<Longrightarrow> wrap64 i = i"
  by (simp add: wrap64_def inInt64_def)

text \<open>One step from a version of the right shape.\<close>

lemma GetNextBuildVersion_shape:
  assumes m: "buildVersionRE start = Some (pre, body, suf)"
    and st: "int (digitsVal body) < 2 ^ 63"
    and n: "0 \<le> n" "n < 2 ^ 63 - 1"
  shows "GetNextBuildVersion start (pre @ padZero (length body) n @ suf) =
           Some (pre @ padZero (length body) (max (int (digitsVal body)) (n + 1)) @ suf)"
proof -
  note b = buildVersionRE_Some [OF m]
  have body: "Atoi body = Some (int (digitsVal body))"
    using Atoi_digits [OF b(2,3)] st by simp
  have num: "Atoi (padZero (length body) n) = Some n" using n by (intro Atoi_padZero) auto
  have wrap: "wrap64 (n + 1) = n + 1" using n by (intro wrap64_id) (simp add: inInt64_def)
  have mid: "drop (length pre) (take (length (pre @ padZero (length body) n @ suf) - length suf)
      (pre @ padZero (length body) n @ suf)) = padZero (length body) n" by simp
  have new: "(if int (digitsVal body) > n then int (digitsVal body) else n + 1) =
      max (int (digitsVal body)) (n + 1)" by auto
  have "GetNextBuildVersion start (pre @ padZero (length body) n @ suf) =
      Some (pre @ padZero (length body)
        (if int (digitsVal body) > n then int (digitsVal body) else n + 1) @ suf)"
    using m body num wrap by (simp add: GetNextBuildVersion_def mid Let_def)
  then show ?thesis unfolding new .
qed

end
