(* ===== verification/Validation.thy ===== *)
theory Validation
  imports Db_Model Build_Version "HOL-Library.List_Lexorder" "HOL-Library.Char_ord"
begin

text \<open>
  What the server checks of the values that a user gives: playbook paths (\<^verbatim>\<open>db/playbook_path.go\<close>),
  branches and commit hashes (\<^verbatim>\<open>pkg/git/git_branch.go\<close>), task parameters (\<^verbatim>\<open>db/Task.go\<close>), templates
  and survey variables (\<^verbatim>\<open>db/Template.go\<close>, \<^verbatim>\<open>db/TemplateJWT.go\<close>). A validation error is the value
  \<^const>\<open>ValidationError\<close>; \<^const>\<open>None\<close> is \<^verbatim>\<open>nil\<close>.
\<close>

subsection \<open>Playbook paths\<close>

text \<open>
  \<^verbatim>\<open>path.Clean\<close> of the standard library, on the components between slashes. The stack has the last
  component first; in a rooted path a leading \<^verbatim>\<open>..\<close> is dropped.
\<close>

definition cleanStep :: "bool \<Rightarrow> string \<Rightarrow> string list \<Rightarrow> string list" where
  "cleanStep rooted c st =
     (if c = [] \<or> c = ''.'' then st
      else if c = ''..'' then
        (case st of
           [] \<Rightarrow> if rooted then [] else [''..'']
         | d # ds \<Rightarrow> if d = ''..'' then ''..'' # st else ds)
      else c # st)"

definition isAbs :: "string \<Rightarrow> bool" where
  "isAbs p \<longleftrightarrow> (case p of c # _ \<Rightarrow> c = CHR ''/'' | [] \<Rightarrow> False)"

definition cleanComps :: "bool \<Rightarrow> string list \<Rightarrow> string list" where
  "cleanComps rooted comps = fold (cleanStep rooted) comps []"

definition path_Clean :: "string \<Rightarrow> string" where
  "path_Clean p =
     (let body = joinWith CHR ''/'' (rev (cleanComps (isAbs p) (splitOn CHR ''/'' p)))
      in if isAbs p then CHR ''/'' # body
         else if body = [] then ''.'' else body)"

definition slashed :: "string \<Rightarrow> string" where
  "slashed playbook = map (\<lambda>c. if c = CHR 0x5C then CHR ''/'' else c) playbook"

definition ValidatePlaybookPath :: "string \<Rightarrow> string \<Rightarrow> go_error option" where
  "ValidatePlaybookPath playbook objectName =
     (if playbook = [] then None
      else let p = slashed playbook in
        if isAbs p
        then Some (ValidationError (objectName @ '' playbook must be a relative path inside the repository''))
        else if length p \<ge> 2 \<and> p ! 1 = CHR '':''
        then Some (ValidationError (objectName @ '' playbook must be a relative path inside the repository''))
        else let cleaned = path_Clean p in
          if cleaned = ''..'' \<or> take 3 cleaned = ''../''
          then Some (ValidationError (objectName @ '' playbook must not point outside the repository''))
          else None)"

subsection \<open>Branches and commits\<close>

text \<open>
  The reference-name rules are those of the go-git package, the argument \<open>validRef\<close>.
\<close>

definition ValidateGitBranch :: "(string \<Rightarrow> bool) \<Rightarrow> string \<Rightarrow> string \<Rightarrow> go_error option" where
  "ValidateGitBranch validRef branch objectName =
     (if branch = [] then None
      else if \<not> validRef branch then Some (ValidationError (objectName @ '' branch name is invalid''))
      else None)"

definition isHex :: "char \<Rightarrow> bool" where
  "isHex c \<longleftrightarrow>
     c \<in> set ''0123456789abcdefABCDEF''"

definition commitHashPattern :: "string \<Rightarrow> bool" where
  "commitHashPattern h \<longleftrightarrow> 7 \<le> length h \<and> length h \<le> 64 \<and> list_all isHex h"

definition ValidateCommitHash :: "string \<Rightarrow> string \<Rightarrow> go_error option" where
  "ValidateCommitHash hash objectName =
     (if hash = [] then None
      else if \<not> commitHashPattern hash
      then Some (ValidationError (objectName @ '' commit hash is invalid''))
      else None)"

subsection \<open>Decoding parameters into a struct\<close>

text \<open>
  \<^verbatim>\<open>json.Unmarshal\<close> of a JSON object into a struct of flat fields: a key selects a field by its exact name
  or else ignoring case, \<^verbatim>\<open>null\<close> leaves the field alone, and a value of another type is an error.
\<close>

datatype fieldType = FBool | FInt | FString | FStrings

fun fits :: "fieldType \<Rightarrow> json \<Rightarrow> bool" where
  "fits _ JNull = True"
| "fits FBool (JBool _) = True"
| "fits FInt (JNumber n) = inInt64 n"
| "fits FString (JString _) = True"
| "fits FStrings (JArray js) = list_all (\<lambda>j. case j of JNull \<Rightarrow> True | JString _ \<Rightarrow> True | _ \<Rightarrow> False) js"
| "fits _ _ = False"

type_synonym structType = "(string \<times> fieldType) list"

definition fieldFor :: "structType \<Rightarrow> string \<Rightarrow> (string \<times> fieldType) option" where
  "fieldFor flds k =
     (case find (\<lambda>(n, _). n = k) flds of
        Some f \<Rightarrow> Some f
      | None \<Rightarrow> find (\<lambda>(n, _). toUpper n = toUpper k) flds)"

definition unmarshalStruct :: "structType \<Rightarrow> MapStringAny option \<Rightarrow> go_error option" where
  "unmarshalStruct flds params =
     (if list_all (\<lambda>(k, v). case fieldFor flds k of None \<Rightarrow> True | Some (_, ty) \<Rightarrow> fits ty v)
           (case params of Some m \<Rightarrow> m | None \<Rightarrow> [])
      then None else Some (ErrOther ''json: cannot unmarshal''))"

text \<open>The value of a boolean field: the keys are written in order, so the last one wins.\<close>

definition boolField :: "structType \<Rightarrow> string \<Rightarrow> MapStringAny option \<Rightarrow> bool" where
  "boolField flds name params =
     fold (\<lambda>(k, v) b. case (fieldFor flds k, v) of
                        (Some (n, _), JBool x) \<Rightarrow> if n = name then x else b
                      | _ \<Rightarrow> b)
       (sort_key fst (case params of Some m \<Rightarrow> m | None \<Rightarrow> [])) False"

definition TerraformTaskParams :: structType where
  "TerraformTaskParams =
     [(''plan'', FBool), (''destroy'', FBool), (''auto_approve'', FBool), (''upgrade'', FBool),
      (''reconfigure'', FBool)]"

definition AnsibleTaskParams :: structType where
  "AnsibleTaskParams =
     [(''debug'', FBool), (''debug_level'', FInt), (''dry_run'', FBool), (''diff'', FBool),
      (''limit'', FStrings), (''tags'', FStrings), (''skip_tags'', FStrings),
      (''skip_galaxy_install'', FBool)]"

definition AnsibleTemplateParams :: structType where
  "AnsibleTemplateParams =
     [(''allow_debug'', FBool), (''allow_override_inventory'', FBool),
      (''allow_override_limit'', FBool), (''allow_override_tags'', FBool),
      (''allow_override_skip_tags'', FBool), (''limit'', FStrings), (''tags'', FStrings),
      (''skip_tags'', FStrings), (''skip_galaxy_install'', FBool),
      (''allow_override_skip_galaxy_install'', FBool)]"

definition ValidateNewTask :: "(string \<Rightarrow> bool) \<Rightarrow> Task \<Rightarrow> Template \<Rightarrow> go_error option" where
  "ValidateNewTask validRef task template =
     (case (case Task_GitBranch task of None \<Rightarrow> None | Some b \<Rightarrow> ValidateGitBranch validRef b ''task'') of
        Some err \<Rightarrow> Some err
      | None \<Rightarrow>
          (case (case Task_CommitHash task of None \<Rightarrow> None | Some h \<Rightarrow> ValidateCommitHash h ''task'') of
             Some err \<Rightarrow> Some err
           | None \<Rightarrow>
               (case ValidatePlaybookPath (Task_Playbook task) ''task'' of
                  Some err \<Rightarrow> Some err
                | None \<Rightarrow>
                    unmarshalStruct
                      (if Template_App template = AppAnsible then AnsibleTaskParams
                       else if IsTerraform (Template_App template) then TerraformTaskParams
                       else [])
                      (Task_Params task))))"

definition CanOverrideInventory :: "Template \<Rightarrow> go_error + bool" where
  "CanOverrideInventory tpl =
     (if Template_App tpl = AppAnsible \<or> Template_App tpl = [] then
        (case unmarshalStruct AnsibleTemplateParams (Template_TaskParams tpl) of
           Some err \<Rightarrow> Inl err
         | None \<Rightarrow>
             Inr (boolField AnsibleTemplateParams ''allow_override_inventory'' (Template_TaskParams tpl)))
      else Inr False)"

subsection \<open>Templates\<close>

definition surveyDefaults :: "SurveyVarDefaultValue \<Rightarrow> string list" where
  "surveyDefaults d = (case Default_Values d of Some vs \<Rightarrow> vs | None \<Rightarrow> [])"

definition surveyAllowed :: "SurveyVar \<Rightarrow> string \<Rightarrow> bool" where
  "surveyAllowed v dv \<longleftrightarrow> dv \<in> set (map EnumValue_Value (Survey_Values v))"

definition quoted :: "string \<Rightarrow> string" where
  "quoted s = [CHR 0x22] @ s @ [CHR 0x22]"

definition surveyError :: "SurveyVar \<Rightarrow> string \<Rightarrow> go_error" where
  "surveyError v msg = ValidationError (''survey variable '' @ quoted (Survey_Name v) @ '': '' @ msg)"

definition ValidateSurveyVar :: "SurveyVar \<Rightarrow> go_error option" where
  "ValidateSurveyVar v =
     (case Survey_DefaultValue v of
        None \<Rightarrow> None
      | Some d \<Rightarrow>
          if Survey_Type v = ''select'' then
            (if \<not> originalWasArray d \<and> length (surveyDefaults d) > 1
             then Some (surveyError v ''default_value must be an array for select type'')
             else case find (\<lambda>dv. dv \<noteq> [] \<and> \<not> surveyAllowed v dv) (surveyDefaults d) of
                    None \<Rightarrow> None
                  | Some dv \<Rightarrow> Some (surveyError v (''default_value '' @ quoted dv @ '' is not in values list'')))
          else if Survey_Type v = ''enum'' then
            (if originalWasArray d \<and> length (surveyDefaults d) > 1
             then Some (surveyError v ''default_value must be a string for enum type'')
             else case surveyDefaults d of
                    [] \<Rightarrow> None
                  | dv # _ \<Rightarrow>
                      if dv \<noteq> [] \<and> \<not> surveyAllowed v dv
                      then Some (surveyError v (''default_value '' @ quoted dv @ '' is not in values list''))
                      else None)
          else if originalWasArray d \<and> length (surveyDefaults d) > 1
          then Some (surveyError v (''default_value must be a string for type '' @ quoted (Survey_Type v)))
          else None)"

text \<open>
  \<^verbatim>\<open>time.ParseDuration\<close> is the argument \<open>parseDuration\<close>; \<open>cfg\<close> is the configured maximum, \<^const>\<open>None\<close> when
  there is no configuration. The durations printed in the messages are left out.
\<close>

definition ParsedTTL :: "(string \<Rightarrow> int option) \<Rightarrow> string \<Rightarrow> go_error + int" where
  "ParsedTTL parseDuration ttl =
     (if ttl = [] then Inr 0
      else case parseDuration ttl of
             None \<Rightarrow> Inl (ErrOther (''invalid JWT TTL '' @ ttl))
           | Some d \<Rightarrow> Inr d)"

definition globalJWTMaxTTL :: "(string \<Rightarrow> int option) \<Rightarrow> string option \<Rightarrow> int" where
  "globalJWTMaxTTL parseDuration cfg =
     (let day = 24 * 3600 * 1000000000 in
      case cfg of
        None \<Rightarrow> 0
      | Some s \<Rightarrow>
          if s = [] then day
          else case parseDuration s of None \<Rightarrow> day | Some d \<Rightarrow> if d \<le> 0 then day else d)"

definition maxJWTAudienceEntries :: nat where
  "maxJWTAudienceEntries = 32"

definition JWT_Validate ::
  "(string \<Rightarrow> int option) \<Rightarrow> string option \<Rightarrow> TemplateJWTParams option \<Rightarrow> go_error option" where
  "JWT_Validate parseDuration cfg params =
     (case params of
        None \<Rightarrow> None
      | Some p \<Rightarrow>
          if \<not> JWT_Enabled p then None
          else if length (JWT_Audience p) > maxJWTAudienceEntries
          then Some (ValidationError ''JWT audience must contain at most 32 entries'')
          else if [] \<in> set (JWT_Audience p)
          then Some (ValidationError ''JWT audience entries must not be empty'')
          else if JWT_TTL p = [] then None
          else case ParsedTTL parseDuration (JWT_TTL p) of
                 Inl err \<Rightarrow> Some (ValidationError (errorString err))
               | Inr ttl \<Rightarrow>
                   if ttl \<le> 0 then Some (ValidationError ''JWT TTL must be positive'')
                   else let maxTTL = globalJWTMaxTTL parseDuration cfg in
                        if maxTTL > 0 \<and> ttl > maxTTL
                        then Some (ValidationError ''JWT TTL exceeds configured maximum'')
                        else None)"

text \<open>
  \<^verbatim>\<open>Template.Validate\<close>: the checks in order, the first error is returned. \<open>apps\<close> are the configured
  applications, \<open>jsonValid\<close> is \<^verbatim>\<open>json.Valid\<close>.
\<close>

definition orElse :: "go_error option \<Rightarrow> go_error option \<Rightarrow> go_error option" where
  "orElse a b = (case a of Some e \<Rightarrow> Some e | None \<Rightarrow> b)"

definition failIf :: "bool \<Rightarrow> string \<Rightarrow> go_error option" where
  "failIf c msg = (if c then Some (ValidationError msg) else None)"

fun validateSurveyVars :: "SurveyVar list \<Rightarrow> go_error option" where
  "validateSurveyVars [] = None"
| "validateSurveyVars (v # vs) =
     orElse (failIf (Survey_Target v \<noteq> [] \<and> Survey_Target v \<noteq> ''env'')
               (''invalid survey variable target: '' @ Survey_Target v))
       (orElse (ValidateSurveyVar v) (validateSurveyVars vs))"

definition Template_Validate ::
  "string list \<Rightarrow> (string \<Rightarrow> bool) \<Rightarrow> (string \<Rightarrow> bool) \<Rightarrow> (string \<Rightarrow> int option) \<Rightarrow> string option \<Rightarrow>
     Template \<Rightarrow> go_error option" where
  "Template_Validate apps jsonValid validRef parseDuration cfg tpl =
     orElse (failIf (Template_RunnerTag tpl = Some []) ''template runner tag can not be empty'')
    (orElse (failIf (Template_App tpl \<noteq> [] \<and> Template_App tpl \<notin> set apps) (''invalid app: '' @ Template_App tpl))
    (orElse (failIf (Template_App tpl = AppAnsible \<and> Template_InventoryID tpl = None)
               ''template inventory can not be empty'')
    (orElse (failIf (Template_Name tpl = []) ''template name can not be empty'')
    (orElse (failIf (\<not> IsTerraform (Template_App tpl) \<and> Template_Playbook tpl = [])
               ''template playbook can not be empty'')
    (orElse (ValidatePlaybookPath (Template_Playbook tpl) ''template'')
    (orElse (failIf (case Template_Arguments tpl of None \<Rightarrow> False | Some a \<Rightarrow> \<not> jsonValid a)
               ''template arguments must be valid JSON'')
    (orElse (case Template_GitBranch tpl of None \<Rightarrow> None | Some b \<Rightarrow> ValidateGitBranch validRef b ''template'')
    (orElse (JWT_Validate parseDuration cfg (Template_JWTParams tpl))
            (validateSurveyVars (Template_SurveyVars tpl))))))))))"

definition NormalizedExecutorImage :: "Template \<Rightarrow> string option" where
  "NormalizedExecutorImage tpl =
     (case Template_ExecutorImage tpl of
        None \<Rightarrow> None
      | Some s \<Rightarrow> (let img = trimSpace s in if img = [] then None else Some img))"

text \<open>
  \<^verbatim>\<open>ApplyLegacyEnvironmentField\<close>: a client that sent no list of groups (a nil slice) but a single
  group gets the list of that group.
\<close>

definition ApplyLegacyEnvironmentField :: "ident list option \<Rightarrow> ident \<Rightarrow> ident list option" where
  "ApplyLegacyEnvironmentField environmentIDs environmentID =
     (if environmentIDs = None \<and> environmentID > 0 then Some [environmentID] else environmentIDs)"


subsection \<open>Where a path leads\<close>

text \<open>
  Following a path from a directory: the directory is the list of its components, the last first, and
  \<^verbatim>\<open>..\<close> leaves it for its parent.
\<close>

definition resolveStep :: "string \<Rightarrow> string list \<Rightarrow> string list" where
  "resolveStep c st =
     (if c = [] \<or> c = ''.'' then st else if c = ''..'' then tl st else c # st)"

definition resolve :: "string list \<Rightarrow> string list \<Rightarrow> string list" where
  "resolve base comps = fold resolveStep comps base"

text \<open>
  Cleaning a relative path separates the names that stay from the number of times that the path
  climbs above its start.
\<close>

lemma cleanComps_shape:
  assumes "\<forall>c\<in>set comps. sep \<notin> set c"
  obtains names k where "cleanComps False comps = names @ replicate k ''..''"
    "''..'' \<notin> set names" "\<forall>c\<in>set names. c \<noteq> [] \<and> sep \<notin> set c" "\<And>base. resolve base comps = names @ drop k base"
proof -
  have "\<exists>names k. cleanComps False comps = names @ replicate k ''..'' \<and> ''..'' \<notin> set names \<and>
      (\<forall>c\<in>set names. c \<noteq> [] \<and> sep \<notin> set c) \<and> (\<forall>base. resolve base comps = names @ drop k base)"
    using assms
  proof (induction comps rule: rev_induct)
    case Nil
    show ?case by (intro exI [of _ "[]"] exI [of _ 0]) (simp add: cleanComps_def resolve_def)
  next
    case (snoc c comps)
    then obtain names k where IH: "cleanComps False comps = names @ replicate k ''..''" "''..'' \<notin> set names"
      "\<forall>c\<in>set names. c \<noteq> [] \<and> sep \<notin> set c" "\<forall>base. resolve base comps = names @ drop k base" by auto
    have cl: "cleanComps False (comps @ [c]) = cleanStep False c (cleanComps False comps)"
      by (simp add: cleanComps_def)
    have rs: "resolve base (comps @ [c]) = resolveStep c (resolve base comps)" for base
      by (simp add: resolve_def)
    consider "c = [] \<or> c = ''.''" | "c = ''..''" "names = []" | n ns where "c = ''..''" "names = n # ns"
      | "c \<noteq> []" "c \<noteq> ''.''" "c \<noteq> ''..''" by (cases names) auto
    then show ?case
    proof cases
      case 1
      with IH cl rs show ?thesis
        by (intro exI [of _ names] exI [of _ k]) (auto simp: cleanStep_def resolveStep_def)
    next
      case 2
      with IH cl rs show ?thesis
        by (intro exI [of _ "[]"] exI [of _ "Suc k"])
           (cases k, auto simp: cleanStep_def resolveStep_def tl_drop drop_Suc)
    next
      case (3 n ns)
      with IH cl rs show ?thesis
        by (intro exI [of _ ns] exI [of _ k]) (auto simp: cleanStep_def resolveStep_def)
    next
      case 4
      with IH cl rs snoc.prems show ?thesis
        by (intro exI [of _ "c # names"] exI [of _ k]) (auto simp: cleanStep_def resolveStep_def)
    qed
  qed
  then show thesis using that by blast
qed

lemma take3_iff: "take 3 s = ''../'' \<longleftrightarrow> (\<exists>t. s = ''..'' @ CHR ''/'' # t)"
proof
  assume a: "take 3 s = ''../''"
  have "s = take 3 s @ drop 3 s" by simp
  then show "\<exists>t. s = ''..'' @ CHR ''/'' # t" unfolding a by auto
qed auto

text \<open>The test of the cleaned path is a test of its first component.\<close>

lemma climbs_iff:
  assumes "\<forall>c\<in>set comps. CHR ''/'' \<notin> set c"
  defines "s \<equiv> joinWith CHR ''/'' comps"
  shows "(s = ''..'' \<or> take 3 s = ''../'') \<longleftrightarrow> (\<exists>rest. comps = ''..'' # rest)"
proof (cases comps)
  case Nil
  then show ?thesis by (simp add: s_def)
next
  case (Cons c cs)
  have sp: "splitOn CHR ''/'' s = comps"
    unfolding s_def using assms(1) Cons by (intro splitOn_joinWith) simp_all
  show ?thesis
  proof
    assume "s = ''..'' \<or> take 3 s = ''../''"
    then consider "s = ''..''" | t where "s = ''..'' @ CHR ''/'' # t" unfolding take3_iff by blast
    then show "\<exists>rest. comps = ''..'' # rest"
    proof cases
      case 1
      with sp show ?thesis by auto
    next
      case (2 t)
      have "splitOn CHR ''/'' (''..'' @ CHR ''/'' # t) = splitOn CHR ''/'' ''..'' @ splitOn CHR ''/'' t"
        by (rule splitOn_append_sep)
      with sp 2 show ?thesis by auto
    qed
  next
    assume "\<exists>rest. comps = ''..'' # rest"
    then obtain rest where "comps = ''..'' # rest" by blast
    then show "s = ''..'' \<or> take 3 s = ''../''" unfolding s_def by (cases rest) auto
  qed
qed

lemma path_Clean_climbs:
  assumes "\<not> isAbs p"
  shows "(path_Clean p = ''..'' \<or> take 3 (path_Clean p) = ''../'') \<longleftrightarrow>
    \<not> (\<forall>base. \<exists>names. resolve base (splitOn CHR ''/'' p) = names @ base)"
proof -
  let ?comps = "splitOn CHR ''/'' p"
  have "\<forall>c\<in>set ?comps. CHR ''/'' \<notin> set c" using splitOn_parts by blast
  then obtain names k where sh: "cleanComps False ?comps = names @ replicate k ''..''"
    "''..'' \<notin> set names" "\<forall>c\<in>set names. c \<noteq> [] \<and> CHR ''/'' \<notin> set c"
    "\<And>base. resolve base ?comps = names @ drop k base"
    by (rule cleanComps_shape) (rule that)
  let ?body = "joinWith CHR ''/'' (rev (cleanComps False ?comps))"
  have sep: "\<forall>c\<in>set (rev (cleanComps False ?comps)). CHR ''/'' \<notin> set c" using sh by auto
  have "(path_Clean p = ''..'' \<or> take 3 (path_Clean p) = ''../'') \<longleftrightarrow> (?body = ''..'' \<or> take 3 ?body = ''../'')"
    using assms by (auto simp: path_Clean_def Let_def)
  also have "\<dots> \<longleftrightarrow> (\<exists>rest. rev (cleanComps False ?comps) = ''..'' # rest)"
    by (rule climbs_iff [OF sep])
  also have "\<dots> \<longleftrightarrow> k > 0"
  proof (cases k)
    case 0
    then have "''..'' \<notin> set (rev (cleanComps False ?comps))" using sh(1,2) by simp
    then have "\<not> (\<exists>rest. rev (cleanComps False ?comps) = ''..'' # rest)" by (metis list.set_intros(1))
    with 0 show ?thesis by simp
  next
    case (Suc m)
    have "rev (cleanComps False ?comps) = replicate k ''..'' @ rev names" by (simp add: sh(1))
    then have "rev (cleanComps False ?comps) = ''..'' # (replicate m ''..'' @ rev names)"
      unfolding Suc replicate_Suc append_Cons .
    with Suc show ?thesis by blast
  qed
  also have "\<dots> \<longleftrightarrow> \<not> (\<forall>base. \<exists>names. resolve base ?comps = names @ base)"
  proof
    assume k: "k > 0"
    let ?c = "CHR ''x'' # last names"
    have "resolve [?c] ?comps = names" using sh(4) k by simp
    moreover have "names \<noteq> xs @ [?c]" for xs by (metis last_snoc not_Cons_self)
    ultimately show "\<not> (\<forall>base. \<exists>names. resolve base ?comps = names @ base)" by metis
  next
    assume "\<not> (\<forall>base. \<exists>names. resolve base ?comps = names @ base)"
    then show "k > 0" using sh(4) by (cases k) auto
  qed
  finally show ?thesis .
qed


subsection \<open>Properties\<close>

text \<open>A playbook path is accepted exactly when it is empty, or it is relative with backslashes read
  as slashes, has no drive letter, and following it from any directory ends at or below that
  directory.\<close>

lemma playbook_stays_inside:
  "ValidatePlaybookPath playbook obj = None \<longleftrightarrow>
     playbook = [] \<or>
     (\<not> isAbs (slashed playbook) \<and> \<not> (length playbook \<ge> 2 \<and> slashed playbook ! 1 = CHR '':'') \<and>
      (\<forall>base. \<exists>names. resolve base (splitOn CHR ''/'' (slashed playbook)) = names @ base))"
proof -
  have len: "length (slashed playbook) = length playbook" by (simp add: slashed_def)
  show ?thesis
    using path_Clean_climbs [of "slashed playbook"] unfolding ValidatePlaybookPath_def Let_def len by auto
qed

text \<open>A commit hash that passes the check can not carry an option or a reference to the command line
  of git: it is empty, or it consists of 7 to 64 hexadecimal digits, and in particular does not
  begin with a dash.\<close>

lemma commit_hash_is_hex:
  "ValidateCommitHash hash obj = None \<longleftrightarrow>
     hash = [] \<or> (7 \<le> length hash \<and> length hash \<le> 64 \<and> (\<forall>c\<in>set hash. isHex c) \<and> hd hash \<noteq> CHR ''-'')"
proof -
  have dash: "\<not> isHex (CHR ''-'')" by (simp add: isHex_def)
  have "list_all isHex hash \<Longrightarrow> hash \<noteq> [] \<Longrightarrow> hd hash \<noteq> CHR ''-''"
    using dash by (cases hash) auto
  then show ?thesis
    by (auto simp: ValidateCommitHash_def commitHashPattern_def list_all_iff)
qed

lemma orElse_None [simp]: "orElse a b = None \<longleftrightarrow> a = None \<and> b = None"
  by (cases a) (simp_all add: orElse_def)

lemma failIf_None [simp]: "failIf c m = None \<longleftrightarrow> \<not> c"
  by (simp add: failIf_def)

lemma validateSurveyVars_None:
  "validateSurveyVars vs = None \<longleftrightarrow>
     (\<forall>v\<in>set vs. Survey_Target v \<in> {[], ''env''} \<and> ValidateSurveyVar v = None)"
  by (induction vs) auto

text \<open>A template that passes validation runs only an application that the administrator has configured
  (or the legacy default), has a name and, unless it is a Terraform template, a playbook, its playbook
  path is one that the path check accepts, and all its survey variables have a known target and a
  default value that fits.\<close>

lemma template_valid:
  assumes "Template_Validate apps jsonValid validRef parseDuration cfg tpl = None"
  shows "(Template_App tpl = [] \<or> Template_App tpl \<in> set apps) \<and> Template_Name tpl \<noteq> [] \<and>
    (IsTerraform (Template_App tpl) \<or> Template_Playbook tpl \<noteq> []) \<and>
    ValidatePlaybookPath (Template_Playbook tpl) ''template'' = None \<and>
    (Template_App tpl = AppAnsible \<longrightarrow> Template_InventoryID tpl \<noteq> None) \<and>
    (\<forall>v\<in>set (Template_SurveyVars tpl). Survey_Target v \<in> {[], ''env''} \<and> ValidateSurveyVar v = None)"
  using assms by (auto simp: Template_Validate_def validateSurveyVars_None)

text \<open>The default values of an accepted select or enum variable, other than the empty one, are among
  the listed values, and only a select variable may have several.\<close>

lemma survey_defaults_listed:
  assumes "ValidateSurveyVar v = None" and "Survey_DefaultValue v = Some d"
  shows "(Survey_Type v = ''select'' \<longrightarrow> (\<forall>dv\<in>set (surveyDefaults d). dv = [] \<or> surveyAllowed v dv)) \<and>
    (Survey_Type v = ''enum'' \<and> surveyDefaults d \<noteq> [] \<longrightarrow>
       hd (surveyDefaults d) = [] \<or> surveyAllowed v (hd (surveyDefaults d))) \<and>
    (Survey_Type v \<noteq> ''select'' \<and> originalWasArray d \<longrightarrow> length (surveyDefaults d) \<le> 1)"
proof -
  have sel: "\<forall>dv\<in>set xs. dv = [] \<or> surveyAllowed v dv"
    if "find (\<lambda>dv. dv \<noteq> [] \<and> \<not> surveyAllowed v dv) xs = None" for xs
    using that unfolding find_None_iff_ball by blast
  show ?thesis
    using assms unfolding ValidateSurveyVar_def
    by (auto split: if_splits option.splits list.splits dest: sel)
qed

end
