(* ===== verification/Task_Details.thy ===== *)
theory Task_Details
  imports Task_Runner Validation
begin

text \<open>
  \<^verbatim>\<open>populateDetails\<close> of \<^verbatim>\<open>services/tasks/TaskRunner.go\<close>: loading the template, the project, the
  users, the inventory, the repository and the environments of a task into its runner. The variable
  groups of a template are merged in order, later groups overriding earlier ones.
\<close>

type_synonym result = "go_error option \<times> World"

definition ErrJSON :: go_error where
  "ErrJSON = ErrOther ''json''"

subsection \<open>Merging variable groups\<close>

definition mergeMap :: "('k \<times> 'v) list \<Rightarrow> ('k \<times> 'v) list \<Rightarrow> ('k \<times> 'v) list" where
  "mergeMap dst src = fold (\<lambda>(k, v). AList.update k v) src dst"

definition secretKey :: "EnvironmentSecret \<Rightarrow> string" where
  "secretKey s = EnvSecret_Type s @ '':'' @ EnvSecret_Name s"

text \<open>The loop over the secrets of one group: \<^verbatim>\<open>secretIndex\<close> maps a key to its position.\<close>

definition mergeSecret ::
  "EnvironmentSecret \<Rightarrow> EnvironmentSecret list \<times> (string \<times> nat) list \<Rightarrow>
     EnvironmentSecret list \<times> (string \<times> nat) list" where
  "mergeSecret s acc =
     (let (secrets, index) = acc in
      case map_of index (secretKey s) of
        Some idx \<Rightarrow> (secrets[idx := s], index)
      | None \<Rightarrow> (secrets @ [s], AList.update (secretKey s) (length secrets) index))"

record EnvAcc =
  acc_JSON :: MapStringAny
  acc_ENV :: "(string \<times> string) list"
  acc_Secrets :: "EnvironmentSecret list \<times> (string \<times> nat) list"
  acc_seen :: "ident list"
  acc_last :: Environment

definition mergeEnv :: "PoolEnv \<Rightarrow> Environment \<Rightarrow> EnvAcc \<Rightarrow> go_error + EnvAcc" where
  "mergeEnv env e acc =
     (case (if Environment_JSON e \<noteq> [] then json_UnmarshalAny env (Environment_JSON e) else Some []) of
        None \<Rightarrow> Inl ErrJSON
      | Some partial \<Rightarrow>
          (case (case Environment_ENV e of
                   None \<Rightarrow> Some []
                 | Some s \<Rightarrow> if s \<noteq> [] then json_UnmarshalStr env s else Some []) of
             None \<Rightarrow> Inl ErrJSON
           | Some partialENV \<Rightarrow>
               Inr (acc\<lparr>acc_JSON := mergeMap (acc_JSON acc) partial,
                        acc_ENV := mergeMap (acc_ENV acc) partialENV,
                        acc_Secrets := fold mergeSecret (Environment_Secrets e) (acc_Secrets acc),
                        acc_last := e\<rparr>)))"

fun loadEnvLoop :: "PoolEnv \<Rightarrow> Database \<Rightarrow> ident \<Rightarrow> ident list \<Rightarrow> EnvAcc \<Rightarrow> go_error + EnvAcc" where
  "loadEnvLoop env d projectID [] acc = Inr acc"
| "loadEnvLoop env d projectID (envID # rest) acc =
     (if envID \<in> set (acc_seen acc) then loadEnvLoop env d projectID rest acc
      else case GetEnvironment projectID envID d of
        Inl err \<Rightarrow> Inl err
      | Inr e0 \<Rightarrow>
          (case svc_FillEnvironmentSecrets env e0 of
             Inl err \<Rightarrow> Inl err
           | Inr e \<Rightarrow>
               (case mergeEnv env e (acc\<lparr>acc_seen := envID # acc_seen acc\<rparr>) of
                  Inl err \<Rightarrow> Inl err
                | Inr acc' \<Rightarrow> loadEnvLoop env d projectID rest acc')))"

definition emptyEnvAcc :: EnvAcc where
  "emptyEnvAcc =
     \<lparr>acc_JSON = [], acc_ENV = [], acc_Secrets = ([], []), acc_seen = [], acc_last = zeroEnvironment\<rparr>"

definition loadEnvironments :: "PoolEnv \<Rightarrow> tref \<Rightarrow> World \<Rightarrow> result" where
  "loadEnvironments env r w =
     (let tpl = TR_Template (heap w r) in
      if Template_EnvironmentIDs tpl = [] then (None, w)
      else case loadEnvLoop env (db w) (Template_ProjectID tpl) (Template_EnvironmentIDs tpl) emptyEnvAcc of
        Inl err \<Rightarrow> (Some err, w)
      | Inr acc \<Rightarrow>
          (None,
           modRunner r
             (\<lambda>t. t\<lparr>TR_Environment :=
                (acc_last acc)
                  \<lparr>Environment_JSON :=
                     (if acc_JSON acc \<noteq> [] then json_MarshalAny env (acc_JSON acc) else []),
                   Environment_ENV :=
                     (if acc_ENV acc \<noteq> [] then Some (json_MarshalStr env (acc_ENV acc)) else None),
                   Environment_Secrets := fst (acc_Secrets acc)\<rparr>\<rparr>) w))"

definition populateTaskEnvironment :: "PoolEnv \<Rightarrow> tref \<Rightarrow> World \<Rightarrow> result" where
  "populateTaskEnvironment env r w =
     (let t = TR_Task (heap w r); tplJSON = Environment_JSON (TR_Environment (heap w r)) in
      if Task_Environment t = [] then (None, w)
      else case (if tplJSON \<noteq> [] then json_UnmarshalAny env tplJSON else Some []) of
        None \<Rightarrow> (Some ErrJSON, w)
      | Some tplEnvironment \<Rightarrow>
          (case json_UnmarshalAny env (Task_Environment t) of
             None \<Rightarrow> (Some ErrJSON, w)
           | Some taskEnvironment \<Rightarrow>
               (None,
                modRunner r
                  (\<lambda>tr. tr\<lparr>TR_Environment :=
                     (TR_Environment tr)\<lparr>Environment_JSON :=
                        json_MarshalAny env (mergeMap tplEnvironment taskEnvironment)\<rparr>\<rparr>) w)))"

subsection \<open>Loading everything\<close>

text \<open>
  \<^verbatim>\<open>prepareError\<close>: a missing row is logged and returned, any other error fails the task and panics. A panic is
  \<^const>\<open>None\<close> here: that the status \<^verbatim>\<open>error\<close> was written before it is not part of the result.
\<close>

definition prepareError :: "PoolEnv \<Rightarrow> tref \<Rightarrow> go_error \<Rightarrow> string \<Rightarrow> World \<Rightarrow> result option" where
  "prepareError env r err errMsg w =
     (if err = ErrNotFound then Some (Some err, Log r errMsg w) else None)"

definition setTemplate :: "tref \<Rightarrow> Template \<Rightarrow> World \<Rightarrow> World" where
  "setTemplate r tpl = modRunner r (\<lambda>t. t\<lparr>TR_Template := tpl\<rparr>)"

definition setInventory :: "tref \<Rightarrow> Inventory \<Rightarrow> World \<Rightarrow> World" where
  "setInventory r inventory = modRunner r (\<lambda>t. t\<lparr>TR_Inventory := inventory\<rparr>)"

definition setRepository :: "tref \<Rightarrow> Repository \<Rightarrow> World \<Rightarrow> World" where
  "setRepository r repo = modRunner r (\<lambda>t. t\<lparr>TR_Repository := repo\<rparr>)"

text \<open>The template's own inventory, when it has one.\<close>

definition templateInventory :: "PoolEnv \<Rightarrow> tref \<Rightarrow> World \<Rightarrow> result option" where
  "templateInventory env r w =
     (let tpl = TR_Template (heap w r) in
      case Template_InventoryID tpl of
        None \<Rightarrow> Some (None, w)
      | Some i \<Rightarrow>
          (case svc_GetInventory env (Template_ProjectID tpl) i of
             Inr inventory \<Rightarrow> Some (None, setInventory r inventory w)
           | Inl err \<Rightarrow>
               prepareError env r err ''Template Inventory not found!'' (setInventory r zeroInventory w)))"

text \<open>
  The inventory of the task overrides the template's when the template allows it. When it cannot
  be loaded the template's is used; when there is none either, the error is dropped.
\<close>

definition loadInventory :: "PoolEnv \<Rightarrow> tref \<Rightarrow> World \<Rightarrow> result option" where
  "loadInventory env r w =
     (let tpl = TR_Template (heap w r) in
      case CanOverrideInventory tpl of
        Inl err \<Rightarrow> Some (Some err, w)
      | Inr can \<Rightarrow>
          (case (can, Task_InventoryID (TR_Task (heap w r))) of
             (True, Some i) \<Rightarrow>
               (case svc_GetInventory env (Template_ProjectID tpl) i of
                  Inr inventory \<Rightarrow> Some (None, setInventory r inventory w)
                | Inl _ \<Rightarrow> templateInventory env r (setInventory r zeroInventory w))
           | _ \<Rightarrow> templateInventory env r w))"

definition loadRepository :: "PoolEnv \<Rightarrow> tref \<Rightarrow> World \<Rightarrow> result" where
  "loadRepository env r w =
     (let tpl = TR_Template (heap w r) in
      case GetRepository (Template_ProjectID tpl) (Template_RepositoryID tpl) (db w) of
        Inl err \<Rightarrow> (Some err, setRepository r zeroRepository w)
      | Inr repo \<Rightarrow>
          (case svc_DeserializeSecret env (Repository_SSHKey repo) of
             Inl err \<Rightarrow> (Some err, setRepository r repo w)
           | Inr key \<Rightarrow> (None, setRepository r (repo\<lparr>Repository_SSHKey := key\<rparr>) w)))"

text \<open>Sequencing: an error is returned at once.\<close>

definition andThen :: "result option \<Rightarrow> (World \<Rightarrow> result option) \<Rightarrow> result option" where
  "andThen m f =
     (case m of
        None \<Rightarrow> None
      | Some (Some err, w) \<Rightarrow> Some (Some err, w)
      | Some (None, w) \<Rightarrow> f w)"

definition loadUsers :: "PoolEnv \<Rightarrow> tref \<Rightarrow> World \<Rightarrow> result option" where
  "loadUsers env r w =
     (case GetProject (Template_ProjectID (TR_Template (heap w r))) (db w) of
        Inl err \<Rightarrow> prepareError env r err ''Project not found!'' w
      | Inr project \<Rightarrow>
          (let w1 = modRunner r (\<lambda>t. t\<lparr>TR_alert := Project_Alert project,
                                       TR_alertChat := Project_AlertChat project\<rparr>) w
           in case GetProjectUsers (Template_ProjectID (TR_Template (heap w r))) (db w1) of
                Inl err \<Rightarrow> prepareError env r err ''Users not found!'' w1
              | Inr projectUsers \<Rightarrow>
                  (case GetAllAdmins (db w1) of
                     Inl err \<Rightarrow> Some (Some err, w1)
                   | Inr admins \<Rightarrow>
                       Some (None, modRunner r
                         (\<lambda>t. t\<lparr>TR_users := remdups (map User_ID (projectUsers @ admins))\<rparr>) w1))))"

definition populateDetails :: "PoolEnv \<Rightarrow> tref \<Rightarrow> World \<Rightarrow> result option" where
  "populateDetails env r w =
     (let t = TR_Task (heap w r) in
      case GetTemplate (Task_ProjectID t) (Task_TemplateID t) (db w) of
        Inl err \<Rightarrow> prepareError env r err ''Template not found!'' (setTemplate r zeroTemplate w)
      | Inr tpl \<Rightarrow>
          andThen (loadUsers env r (setTemplate r tpl w))
            (\<lambda>w2. andThen (loadInventory env r w2)
            (\<lambda>w3. andThen (Some (loadRepository env r w3))
            (\<lambda>w4. andThen (Some (loadEnvironments env r w4))
            (\<lambda>w5. Some (populateTaskEnvironment env r w5))))))"

subsection \<open>Merging: later groups win\<close>

lemma map_of_mergeMap: "map_of (mergeMap dst src) k =
   (case map_of (rev src) k of Some v \<Rightarrow> Some v | None \<Rightarrow> map_of dst k)"
  by (induction src arbitrary: dst)
     (auto simp: mergeMap_def map_add_def split: option.splits)

lemma mergeMap_distinct:
  "distinct (map fst src) \<Longrightarrow>
     map_of (mergeMap dst src) k = (case map_of src k of Some v \<Rightarrow> Some v | None \<Rightarrow> map_of dst k)"
proof -
  assume "distinct (map fst src)"
  then have "map_of (rev src) = map_of src"
    by (simp add: map_of_inject_set rev_map [symmetric])
  then show ?thesis by (simp add: map_of_mergeMap)
qed

text \<open>The position index of the secrets and the list stay in step.\<close>

definition secretsInv :: "EnvironmentSecret list \<times> (string \<times> nat) list \<Rightarrow> bool" where
  "secretsInv acc \<longleftrightarrow>
     (\<forall>k i. map_of (snd acc) k = Some i \<longleftrightarrow>
            (i < length (fst acc) \<and> secretKey (fst acc ! i) = k))"

definition lookupSecret :: "EnvironmentSecret list \<Rightarrow> string \<Rightarrow> EnvironmentSecret option" where
  "lookupSecret secrets k = find (\<lambda>s. secretKey s = k) secrets"

lemma lookupSecret_update:
  assumes "i < length xs" and "secretKey (xs ! i) = secretKey s"
    and uniq: "\<And>j. j < length xs \<Longrightarrow> secretKey (xs ! j) = secretKey s \<Longrightarrow> j = i"
  shows "lookupSecret (xs[i := s]) k = (if k = secretKey s then Some s else lookupSecret xs k)"
  using assms
proof (induction xs arbitrary: i)
  case (Cons x xs)
  show ?case
  proof (cases i)
    case 0
    with Cons.prems show ?thesis by (auto simp: lookupSecret_def)
  next
    case (Suc j)
    have "secretKey x \<noteq> secretKey s" using Cons.prems(3) [of 0] Suc by auto
    moreover have "lookupSecret (xs[j := s]) k = (if k = secretKey s then Some s else lookupSecret xs k)"
      using Cons.prems Suc by (intro Cons.IH) (auto dest: Cons.prems(3) [of "Suc _", simplified])
    ultimately show ?thesis using Suc by (auto simp: lookupSecret_def)
  qed
qed simp

lemma secretsInvD:
  "secretsInv acc \<Longrightarrow>
     map_of (snd acc) k = Some i \<longleftrightarrow> i < length (fst acc) \<and> secretKey (fst acc ! i) = k"
  by (simp add: secretsInv_def)

lemma mergeSecret_new:
  assumes "secretsInv acc" and "map_of (snd acc) (secretKey s) = None"
  shows "mergeSecret s acc = (fst acc @ [s], AList.update (secretKey s) (length (fst acc)) (snd acc))"
    and "\<forall>i<length (fst acc). secretKey (fst acc ! i) \<noteq> secretKey s"
  using assms secretsInvD [OF assms(1), of "secretKey s"]
  by (auto simp: mergeSecret_def split: prod.splits)

lemma mergeSecret_old:
  assumes inv: "secretsInv acc" and i: "map_of (snd acc) (secretKey s) = Some i"
  shows "mergeSecret s acc = ((fst acc)[i := s], snd acc)"
    and "i < length (fst acc)" and "secretKey (fst acc ! i) = secretKey s"
    and "\<And>j. j < length (fst acc) \<Longrightarrow> secretKey (fst acc ! j) = secretKey s \<Longrightarrow> j = i"
proof -
  show "mergeSecret s acc = ((fst acc)[i := s], snd acc)"
    using i by (simp add: mergeSecret_def case_prod_beta)
  show "i < length (fst acc)" "secretKey (fst acc ! i) = secretKey s"
    using i secretsInvD [OF inv] by blast+
  show "j = i" if "j < length (fst acc)" "secretKey (fst acc ! j) = secretKey s" for j
    using secretsInvD [OF inv, of "secretKey s" j] that i by simp
qed

lemma mergeSecret_inv:
  assumes inv: "secretsInv acc" shows "secretsInv (mergeSecret s acc)"
proof (cases "map_of (snd acc) (secretKey s)")
  case None
  note new = mergeSecret_new [OF inv None]
  show ?thesis unfolding new(1) secretsInv_def
  proof (intro allI)
    fix k i
    show "map_of (snd (fst acc @ [s], AList.update (secretKey s) (length (fst acc)) (snd acc))) k = Some i \<longleftrightarrow>
        i < length (fst (fst acc @ [s], AList.update (secretKey s) (length (fst acc)) (snd acc))) \<and>
        secretKey (fst (fst acc @ [s], AList.update (secretKey s) (length (fst acc)) (snd acc)) ! i) = k"
      using secretsInvD [OF inv, of k i] new(2) None
      by (cases "i < length (fst acc)"; cases "k = secretKey s") (auto simp: nth_append)
  qed
next
  case (Some i)
  note old = mergeSecret_old [OF inv Some]
  have "secretKey ((fst acc)[i := s] ! j) = secretKey (fst acc ! j)" if "j < length (fst acc)" for j
    using old(2,3) that by (cases "j = i") auto
  then show ?thesis unfolding old(1) secretsInv_def
    using secretsInvD [OF inv] by auto
qed

lemma mergeSecret_lookup:
  assumes "secretsInv acc"
  shows "lookupSecret (fst (mergeSecret s acc)) k =
           (if k = secretKey s then Some s else lookupSecret (fst acc) k)"
proof (cases "map_of (snd acc) (secretKey s)")
  case None
  note new = mergeSecret_new [OF assms None]
  have "lookupSecret (fst acc) (secretKey s) = None"
    using new(2) by (auto simp: lookupSecret_def find_None_iff_ball in_set_conv_nth)
  then show ?thesis
    unfolding new(1) by (auto simp: lookupSecret_def find_append split: option.splits)
next
  case (Some i)
  note old = mergeSecret_old [OF assms Some]
  show ?thesis unfolding old(1) using lookupSecret_update [OF old(2,3,4)] by simp
qed

lemma fold_mergeSecret:
  "secretsInv acc \<Longrightarrow>
     secretsInv (fold mergeSecret ss acc) \<and>
     lookupSecret (fst (fold mergeSecret ss acc)) k =
       (case lookupSecret (rev ss) k of Some s \<Rightarrow> Some s | None \<Rightarrow> lookupSecret (fst acc) k)"
proof (induction ss arbitrary: acc)
  case Nil
  then show ?case by (simp add: lookupSecret_def)
next
  case (Cons s ss)
  from Cons.IH [OF mergeSecret_inv [OF Cons.prems], of s] mergeSecret_lookup [OF Cons.prems, of s k]
  show ?case by (auto simp: lookupSecret_def find_append split: option.splits)
qed

end
