(* ===== verification/Task_Pool.thy ===== *)
theory Task_Pool
  imports Task_Details
begin

text \<open>
  The task pool, \<^verbatim>\<open>services/tasks/TaskPool.go\<close>: creating tasks, the queue loop that starts them, the
  admission test, finalization, confirmation and stopping, and the log writer. Each handler is
  one function on the world; a goroutine that the code spawns is recorded in \<open>spawned\<close> and runs
  later as a step of its own.
\<close>

subsection \<open>Starting and releasing a task\<close>

definition onTaskRun :: "tref \<Rightarrow> World \<Rightarrow> World" where
  "onTaskRun r w =
     (let t = heap w r;
          w1 = modState (AddActive (idof w) (Task_ProjectID (TR_Task t)) r) w;
          w2 = modState (SetRunning (idof w) r) w1
      in if TR_Alias t \<noteq> [] then modState (SetAlias (TR_Alias t) (Some r)) w2 else w2)"

definition onTaskStop :: "tref \<Rightarrow> World \<Rightarrow> World" where
  "onTaskStop r w =
     (let t = heap w r; i = Task_ID (TR_Task t);
          w1 = modState (RemoveActive (Task_ProjectID (TR_Task t)) i) w;
          w2 = modState (DeleteRunning i) w1;
          w3 = modState (DeleteClaim i) w2
      in if TR_Alias t \<noteq> [] then modState (DeleteAlias (TR_Alias t)) w3 else w3)"

definition runTask :: "tref \<Rightarrow> World \<Rightarrow> World" where
  "runTask r w =
     spawn (GoRun r) (onTaskRun r (modRunner r (\<lambda>t. t\<lparr>TR_dispatching := True\<rparr>) w))"

subsection \<open>Admission\<close>

definition sameTemplateActive :: "World \<Rightarrow> tref \<Rightarrow> bool" where
  "sameTemplateActive w r \<longleftrightarrow>
     (\<exists>a\<in>set (GetActive (projectOf w r) (state w)).
        \<not> IsFinished (statusOf w a) \<and>
        Template_ID (TR_Template (heap w a)) = Task_TemplateID (TR_Task (heap w r)) \<and>
        \<not> Template_AllowParallelTasks (TR_Template (heap w a)))"

definition blocks :: "PoolEnv \<Rightarrow> tref \<Rightarrow> World \<Rightarrow> bool" where
  "blocks env r w =
     (let p = projectOf w r in
      if MaxParallelTasks env > 0 \<and> RunningCount (state w) \<ge> MaxParallelTasks env then True
      else if ActiveCount p (state w) = 0 then False
      else if sameTemplateActive w r then True
      else case GetProject p (db w) of
             Inl _ \<Rightarrow> False
           | Inr proj \<Rightarrow>
               Project_MaxParallelTasks proj > 0 \<and>
               ActiveCount p (state w) \<ge> Project_MaxParallelTasks proj)"

subsection \<open>The queue loop\<close>

definition queueEntry :: "PoolEnv \<Rightarrow> ident \<Rightarrow> tref option \<Rightarrow> World \<Rightarrow> World" where
  "queueEntry env skipTaskID entry w =
     (case entry of
        None \<Rightarrow> w
      | Some r \<Rightarrow>
          if skipTaskID \<noteq> 0 \<and> idof w r = skipTaskID then w
          else if statusOf w r = TaskFailStatus
          then modState (DequeueByID (idof w) (idof w r)) w
          else if blocks env r w then w
          else (case ClaimAndDequeue (idof w) (idof w r) (state w) of
                  (False, _) \<Rightarrow> w
                | (True, s) \<Rightarrow> runTask r (w\<lparr>state := s\<rparr>)))"

definition queuePass :: "PoolEnv \<Rightarrow> ident \<Rightarrow> World \<Rightarrow> World" where
  "queuePass env skipTaskID w = fold (queueEntry env skipTaskID) (QueueRange (state w)) w"

text \<open>
  One iteration of \<^verbatim>\<open>handleQueue\<close>. Events about a task carry its pointer; a nil pointer would be
  dereferenced (\<^const>\<open>None\<close>).
\<close>

definition handleQueueEvent :: "PoolEnv \<Rightarrow> PoolEvent \<Rightarrow> World \<Rightarrow> World option" where
  "handleQueueEvent env ev w =
     (case (eventType ev, eventTask ev) of
        (EventTypeRequeued, Some r) \<Rightarrow>
          (let w1 = onTaskStop r w in Some (queuePass env (idof w1 r) w1))
      | (EventTypeRequeued, None) \<Rightarrow> None
      | (EventTypeNew, p) \<Rightarrow> Some (queuePass env 0 (modState (Enqueue p) w))
      | (EventTypeFinished, Some r) \<Rightarrow> Some (queuePass env 0 (onTaskStop r w))
      | (EventTypeFinished, None) \<Rightarrow> None
      | (EventTypeFailed, _) \<Rightarrow> Some (queuePass env 0 w)
      | (EventTypeEmpty, _) \<Rightarrow> Some (queuePass env 0 w))"

definition handleQueue :: "PoolEnv \<Rightarrow> World \<Rightarrow> World option" where
  "handleQueue env w =
     (case queueEvents w of
        [] \<Rightarrow> Some w
      | ev # evs \<Rightarrow> handleQueueEvent env ev (w\<lparr>queueEvents := evs\<rparr>))"

text \<open>The cases of the \<^verbatim>\<open>select\<close> in \<^verbatim>\<open>Run\<close>: a registered task, and the five-second ticker.\<close>

definition runRegister :: "World \<Rightarrow> World option" where
  "runRegister w =
     (case register w of
        [] \<Rightarrow> Some w
      | r # rs \<Rightarrow>
          (let w0 = w\<lparr>register := rs\<rparr>;
               w1 = Log r (''Task '' @ Template_Name (TR_Template (heap w0 r)) @ '' added to queue'') w0
           in map_option (sendEvent EventTypeNew (Some r)) (saveStatus r w1)))"

definition runTick :: "World \<Rightarrow> World" where
  "runTick w = sendEvent EventTypeEmpty None w"

subsection \<open>Counting and finding tasks\<close>

definition GetNumberOfRunningTasksOfRunner :: "World \<Rightarrow> ident \<Rightarrow> int" where
  "GetNumberOfRunningTasksOfRunner w runnerID =
     int (length (filter (\<lambda>r. Task_RunnerID (TR_Task (heap w r)) = Some runnerID)
                    (RunningRange (state w))))"

text \<open>\<^verbatim>\<open>GetTask\<close> dereferences every queue entry it passes, so a nil entry panics.\<close>

fun searchQueue :: "(tref \<Rightarrow> ident) \<Rightarrow> ident \<Rightarrow> tref option list \<Rightarrow> tref option option" where
  "searchQueue idf i [] = Some None"
| "searchQueue idf i (None # rest) = None"
| "searchQueue idf i (Some r # rest) = (if idf r = i then Some (Some r) else searchQueue idf i rest)"

definition localTask :: "World \<Rightarrow> ident \<Rightarrow> tref option option" where
  "localTask w i =
     (case searchQueue (idof w) i (QueueRange (state w)) of
        None \<Rightarrow> None
      | Some (Some r) \<Rightarrow> Some (Some r)
      | Some None \<Rightarrow> Some (find (\<lambda>r. idof w r = i) (RunningRange (state w))))"

subsection \<open>Rebuilding a runner from the database\<close>

definition applyDBPersistedTaskSnapshot :: "Task \<Rightarrow> Task \<Rightarrow> Task" where
  "applyDBPersistedTaskSnapshot dst src =
     dst\<lparr>Task_Status := Task_Status src, Task_Start := Task_Start src, Task_End := Task_End src,
         Task_RunnerID := Task_RunnerID src, Task_CommitHash := Task_CommitHash src,
         Task_CommitMessage := Task_CommitMessage src\<rparr>"

definition refreshTaskStatusFromDB :: "tref \<Rightarrow> World \<Rightarrow> World" where
  "refreshTaskStatusFromDB r w =
     (case GetTaskByID (idof w r) (db w) of
        Inl _ \<Rightarrow> w
      | Inr row \<Rightarrow> modTask r (\<lambda>t. applyDBPersistedTaskSnapshot t row) w)"

definition makeJob :: "PoolEnv \<Rightarrow> string \<Rightarrow> TaskRunner \<Rightarrow> Job" where
  "makeJob env secret tr =
     (if IsUseRemoteRunner env \<or> Template_RunnerTag (TR_Template tr) \<noteq> None \<or>
         Inventory_RunnerTag (TR_Inventory tr) \<noteq> None
      then let tag = (case Template_RunnerTag (TR_Template tr) of
                        Some g \<Rightarrow> Some g
                      | None \<Rightarrow> Inventory_RunnerTag (TR_Inventory tr))
           in RemoteJob tag (TR_Task tr) False
      else LocalExecutor False secret [])"

definition setJob :: "PoolEnv \<Rightarrow> string \<Rightarrow> tref \<Rightarrow> World \<Rightarrow> World" where
  "setJob env secret r = modRunner r (\<lambda>t. t\<lparr>TR_job := Some (makeJob env secret t)\<rparr>)"

definition hydrateTaskRunner ::
  "PoolEnv \<Rightarrow> ident \<Rightarrow> ident \<Rightarrow> World \<Rightarrow> ((go_error + tref) \<times> World) option" where
  "hydrateTaskRunner env taskID projectID w =
     (case db_GetTask projectID taskID (db w) of
        Inl err \<Rightarrow> Some (Inl err, w)
      | Inr task \<Rightarrow>
          (let (r, w1) = NewTaskRunner task [] w
           in case populateDetails env r w1 of
                None \<Rightarrow> None
              | Some (Some err, w2) \<Rightarrow> Some (Inl err, w2)
              | Some (None, w2) \<Rightarrow>
                  (let w3 = modTask r (\<lambda>t. applyDBPersistedTaskSnapshot t task) w2
                   in Some (Inr r, setJob env [] r w3))))"

definition HydrateTaskRunnerFromDB ::
  "PoolEnv \<Rightarrow> ident \<Rightarrow> World \<Rightarrow> ((go_error + tref) \<times> World) option" where
  "HydrateTaskRunnerFromDB env taskID w =
     (case GetTaskByID taskID (db w) of
        Inl err \<Rightarrow> Some (Inl err, w)
      | Inr row \<Rightarrow>
          (case hydrateTaskRunner env taskID (Task_ProjectID row) w of
             None \<Rightarrow> None
           | Some (Inl err, w1) \<Rightarrow> Some (Inl err, w1)
           | Some (Inr r, w1) \<Rightarrow>
               Some (Inr r,
                 (if Task_RunnerID row \<noteq> None
                  then modTask r (\<lambda>t. t\<lparr>Task_RunnerID := Task_RunnerID row\<rparr>) w1 else w1))))"

definition GetTask :: "PoolEnv \<Rightarrow> ident \<Rightarrow> World \<Rightarrow> ((go_error + tref option) \<times> World) option" where
  "GetTask env i w =
     (case localTask w i of
        None \<Rightarrow> None
      | Some (Some r) \<Rightarrow> Some (Inr (Some r), w)
      | Some None \<Rightarrow>
          if HAEnabled env
          then (case HydrateTaskRunnerFromDB env i w of
                  None \<Rightarrow> None
                | Some (Inl err, w1) \<Rightarrow> Some (Inl err, w1)
                | Some (Inr r, w1) \<Rightarrow> Some (Inr (Some r), w1))
          else Some (Inr None, w))"

subsection \<open>Creating a task\<close>

definition hasSurveySecrets :: "PoolEnv \<Rightarrow> string \<Rightarrow> bool" where
  "hasSurveySecrets env secretVars =
     (if secretVars = [] then False
      else case json_UnmarshalAny env secretVars of None \<Rightarrow> False | Some vars \<Rightarrow> vars \<noteq> [])"

definition taskSecretExpireAt :: "PoolEnv \<Rightarrow> go_time \<Rightarrow> go_time" where
  "taskSecretExpireAt env at =
     (let second = 1000000000;
          ttl = (if MaxTaskDurationSec env > 0
                 then MaxTaskDurationSec env * second + 3600 * second else 24 * 3600 * second)
      in at + ttl)"

text \<open>The version of a new build; \<^const>\<open>None\<close> when the start version is nil or the computation panics.\<close>

definition nextVersion :: "Template \<Rightarrow> Task list \<Rightarrow> string option option" where
  "nextVersion tpl builds =
     (case builds of
        [] \<Rightarrow> Some (Template_StartVersion tpl)
      | b # _ \<Rightarrow>
          (case Task_Version b of
             None \<Rightarrow> Some (Template_StartVersion tpl)
           | Some v \<Rightarrow>
               (case Template_StartVersion tpl of
                  None \<Rightarrow> None
                | Some start \<Rightarrow> map_option Some (GetNextBuildVersion start v))))"

text \<open>The part of \<^verbatim>\<open>AddTask\<close> after the row is created.\<close>

definition launchTask ::
  "PoolEnv \<Rightarrow> Task \<Rightarrow> string \<Rightarrow> string \<Rightarrow> bool \<Rightarrow> World \<Rightarrow> ((Task \<times> go_error option) \<times> World) option" where
  "launchTask env newTask secretVars username needAlias w =
     (let (r, w1) = NewTaskRunner newTask username w;
          w2 = (if needAlias then modRunner r (\<lambda>t. t\<lparr>TR_Alias := random_String env\<rparr>) w1 else w1)
      in case populateDetails env r w2 of
           None \<Rightarrow> None
         | Some (Some err, w3) \<Rightarrow>
             map_option (\<lambda>w4. ((newTask, Some err), w4))
               (SetStatus env r TaskFailStatus (Log r (''Error: '' @ errorString err) w3))
         | Some (None, w3) \<Rightarrow>
             (let expire = taskSecretExpireAt env (now w3);
                  secrets = hasSurveySecrets env secretVars;
                  err = (if secrets
                         then svc_CreateTaskSurveySecrets env (Task_ProjectID newTask) (Task_ID newTask)
                                secretVars expire
                         else None)
              in case err of
                   Some e \<Rightarrow>
                     map_option (\<lambda>w4. ((newTask, Some e), w4))
                       (SetStatus env r TaskFailStatus
                         (Log r (''Error: failed to store survey secrets: '' @ errorString e) w3))
                 | None \<Rightarrow>
                     (let w4 = (if secrets
                                then emit [SurveySecretsCreated (Task_ProjectID newTask)
                                             (Task_ID newTask) secretVars expire] w3
                                else w3);
                          w5 = setJob env secretVars r w4;
                          w6 = w5\<lparr>register := register w5 @ [r]\<rparr>
                      in Some ((newTask, None), createTaskEvent r w6))))"

definition AddTask ::
  "PoolEnv \<Rightarrow> Task \<Rightarrow> ident option \<Rightarrow> string \<Rightarrow> ident \<Rightarrow> bool \<Rightarrow> World \<Rightarrow>
     ((Task \<times> go_error option) \<times> World) option" where
  "AddTask env taskObj userID username projectID needAlias w =
     (let secretVars = Task_Secret taskObj;
          t1 = taskObj\<lparr>Task_Created := now w, Task_Status := TaskWaitingStatus, Task_UserID := userID,
                       Task_ProjectID := projectID, Task_Secret := []\<rparr>
      in case GetTemplate projectID (Task_TemplateID t1) (db w) of
           Inl err \<Rightarrow> Some ((zeroTask, Some err), w)
         | Inr tpl \<Rightarrow>
             (case ValidateNewTask (git_validRef env) t1 tpl of
                Some err \<Rightarrow> Some ((zeroTask, Some err), w)
              | None \<Rightarrow>
                  (let t2 = (if \<not> Template_AllowOverrideBranchInTask tpl
                             then t1\<lparr>Task_CommitHash := None\<rparr> else t1);
                       builds = (if Template_Type tpl = TemplateBuild
                                 then map_sum id Some
                                   (GetTemplateTasks (Template_ProjectID tpl) (Template_ID tpl) [] 1 (db w))
                                 else Inr None)
                   in case builds of
                        Inl err \<Rightarrow> Some ((zeroTask, Some err), w)
                      | Inr bs \<Rightarrow>
                          (case (case bs of
                                   None \<Rightarrow> Some t2
                                 | Some xs \<Rightarrow>
                                     map_option (\<lambda>v. t2\<lparr>Task_Version := v\<rparr>) (nextVersion tpl xs)) of
                             None \<Rightarrow> None
                           | Some t3 \<Rightarrow>
                               (case db_CreateTask (clear_Old env) t3 (MaxTasksPerTemplate env) (db w) of
                                  ((newTask, Some err), d) \<Rightarrow> Some ((newTask, Some err), w\<lparr>db := d\<rparr>)
                                | ((newTask, None), d) \<Rightarrow>
                                    launchTask env newTask secretVars username needAlias (w\<lparr>db := d\<rparr>))))))"

definition autorunTask :: "PoolEnv \<Rightarrow> tref \<Rightarrow> Template \<Rightarrow> World \<Rightarrow> World option" where
  "autorunTask env r tpl w =
     (case AddTask env (zeroTask\<lparr>Task_TemplateID := Template_ID tpl,
                                 Task_ProjectID := Template_ProjectID tpl,
                                 Task_BuildTaskID := Some (idof w r)\<rparr>)
             None [] (Template_ProjectID tpl) (NeedTaskAlias (Template_App tpl)) w of
        None \<Rightarrow> None
      | Some ((_, None), w1) \<Rightarrow> Some w1
      | Some ((_, Some err), w1) \<Rightarrow> Some (Log r (''Running app failed: '' @ errorString err) w1))"

definition startAutorunTasks :: "PoolEnv \<Rightarrow> tref \<Rightarrow> World \<Rightarrow> World option" where
  "startAutorunTasks env r w =
     (if statusOf w r \<noteq> TaskSuccessStatus then Some w
      else case GetAutorunTemplates (projectOf w r) (Task_TemplateID (TR_Task (heap w r))) (db w) of
             Inl err \<Rightarrow> Some (Log r (''Running app failed: '' @ errorString err) w)
           | Inr tpls \<Rightarrow> foldM (autorunTask env r) tpls w)"

end
