(* ===== verification/Task_Control.thy ===== *)
theory Task_Control
  imports Task_Pool
begin

text \<open>
  The rest of \<^verbatim>\<open>services/tasks/TaskPool.go\<close>: the remote-runner webhook, the finalization of remote
  tasks, confirming, rejecting and stopping tasks one by one, by template and by workflow run, and
  the writer of the task output.
\<close>

subsection \<open>The runner webhook\<close>

text \<open>
  \<^verbatim>\<open>callRunnerWebhook\<close> of \<^verbatim>\<open>RemoteJob.go\<close>: nothing to call without a URL; otherwise the request
  must succeed with 200 or 204. The client is the parameter \<open>http_Post\<close>, which gives the status code.
\<close>

definition callRunnerWebhook :: "PoolEnv \<Rightarrow> Runner \<Rightarrow> tref \<Rightarrow> string \<Rightarrow> World \<Rightarrow> result" where
  "callRunnerWebhook env runner r action w =
     (if Runner_Webhook runner = [] then (None, w)
      else let w1 = emit [RunnerWebhook (Runner_ID runner) action (idof w r)] w
           in case http_Post env runner action (idof w r) of
                Inl err \<Rightarrow> (Some err, w1)
              | Inr code \<Rightarrow>
                  if code \<noteq> 200 \<and> code \<noteq> 204
                  then (Some (ErrOther ''webhook returned incorrect status''), w1)
                  else (None, w1))"

subsection \<open>Finalization\<close>

definition finalizeRemoteTaskLocked :: "PoolEnv \<Rightarrow> tref \<Rightarrow> Runner option \<Rightarrow> World \<Rightarrow> World option" where
  "finalizeRemoteTaskLocked env r runner w =
     (let w1 = (if HAEnabled env then refreshTaskStatusFromDB r w else w) in
      if HAEnabled env \<and> Task_End (TR_Task (heap w1 r)) \<noteq> None then Some (onTaskStop r w1)
      else
        let w2 = (case runner of
                    None \<Rightarrow> w1
                  | Some rn \<Rightarrow> snd (callRunnerWebhook env rn r ''finish'' w1))
        in Option.bind (finishRun env r w2) (startAutorunTasks env r))"

definition FinalizeRemoteTask :: "PoolEnv \<Rightarrow> tref option \<Rightarrow> Runner option \<Rightarrow> World \<Rightarrow> World option" where
  "FinalizeRemoteTask env p runner w =
     (case p of
        None \<Rightarrow> Some w
      | Some r \<Rightarrow>
          (case TryFinalize (idof w r) (state w) of
             (False, _) \<Rightarrow> Some w
           | (True, s) \<Rightarrow>
               map_option (modState (DeleteFinalize (idof w r)))
                 (finalizeRemoteTaskLocked env r runner (w\<lparr>state := s\<rparr>))))"

subsection \<open>Confirming and rejecting\<close>

definition confirmWith :: "TaskStatus \<Rightarrow> PoolEnv \<Rightarrow> ident \<Rightarrow> World \<Rightarrow> result option" where
  "confirmWith status env i w =
     (case GetTask env i w of
        None \<Rightarrow> None
      | Some (Inl err, w1) \<Rightarrow> Some (Some err, w1)
      | Some (Inr None, w1) \<Rightarrow> Some (Some (ErrOther ''task is not active''), w1)
      | Some (Inr (Some r), w1) \<Rightarrow> map_option (\<lambda>w2. (None, w2)) (SetStatus env r status w1))"

definition ConfirmTask :: "PoolEnv \<Rightarrow> Task \<Rightarrow> World \<Rightarrow> result option" where
  "ConfirmTask env targetTask = confirmWith TaskConfirmed env (Task_ID targetTask)"

definition RejectTask :: "PoolEnv \<Rightarrow> Task \<Rightarrow> World \<Rightarrow> result option" where
  "RejectTask env targetTask = confirmWith TaskRejected env (Task_ID targetTask)"

subsection \<open>Stopping\<close>

definition jobAsync :: "World \<Rightarrow> tref \<Rightarrow> bool" where
  "jobAsync w r = (case TR_job (heap w r) of None \<Rightarrow> False | Some j \<Rightarrow> Job_Async j)"

definition stopTaskRunner :: "PoolEnv \<Rightarrow> tref \<Rightarrow> bool \<Rightarrow> World \<Rightarrow> World option" where
  "stopTaskRunner env r forceStop w =
     (let prevStatus = statusOf w r in
      do { w1 \<leftarrow> SetStatus env r (if forceStop then TaskStoppedStatus else TaskStoppingStatus) w;
           w2 \<leftarrow> (if prevStatus = TaskRunningStatus then kill r w1 else Some w1);
           Some (if forceStop \<and> jobAsync w2 r \<and> IsFinished (statusOf w2 r)
                 then spawn (GoFinalizeRemoteTask r None) w2 else w2) })"

definition stopLocalTask :: "PoolEnv \<Rightarrow> ident \<Rightarrow> World \<Rightarrow> World option" where
  "stopLocalTask env taskID w =
     (case find (\<lambda>e. hasID (idof w) taskID e \<and>
                     (case e of None \<Rightarrow> False | Some r \<Rightarrow> statusOf w r = TaskWaitingStatus))
             (QueueRange (state w)) of
        Some (Some r) \<Rightarrow>
          map_option (\<lambda>w1. modState (DequeueByID (idof w1) taskID) w1)
            (SetStatus env r TaskStoppedStatus w)
      | _ \<Rightarrow>
          (case find (\<lambda>r. idof w r = taskID \<and> \<not> IsFinished (statusOf w r)) (RunningRange (state w)) of
             Some r \<Rightarrow> stopTaskRunner env r True w
           | None \<Rightarrow> Some w))"

definition StopTask :: "PoolEnv \<Rightarrow> Task \<Rightarrow> bool \<Rightarrow> World \<Rightarrow> result option" where
  "StopTask env targetTask forceStop w =
     (case GetTask env (Task_ID targetTask) w of
        None \<Rightarrow> None
      | Some (Inl err, w1) \<Rightarrow> Some (Some err, w1)
      | Some (Inr (Some r), w1) \<Rightarrow> map_option (\<lambda>w2. (None, w2)) (stopTaskRunner env r forceStop w1)
      | Some (Inr None, w1) \<Rightarrow>
          (let (r, w2) = NewTaskRunner targetTask [] w1
           in case populateDetails env r w2 of
                None \<Rightarrow> None
              | Some (Some err, w3) \<Rightarrow> Some (Some err, w3)
              | Some (None, w3) \<Rightarrow>
                  map_option (\<lambda>w4. (None, createTaskEvent r w4))
                    (SetStatus env r TaskStoppedStatus w3)))"

text \<open>
  The loops of the two bulk operations carry the set of task IDs already handled
  (\<^verbatim>\<open>stoppedTasks\<close>) beside the world.
\<close>

type_synonym stopState = "ident list \<times> World"

definition ofTemplate :: "World \<Rightarrow> ident \<Rightarrow> ident \<Rightarrow> tref \<Rightarrow> bool" where
  "ofTemplate w projectID templateID r \<longleftrightarrow>
     projectOf w r = projectID \<and> Task_TemplateID (TR_Task (heap w r)) = templateID"

definition stopQueued ::
  "PoolEnv \<Rightarrow> ident \<Rightarrow> ident \<Rightarrow> bool \<Rightarrow> tref option \<Rightarrow> stopState \<Rightarrow> stopState option" where
  "stopQueued env projectID templateID forceStop e st =
     (let (stopped, w) = st in
      case e of
        None \<Rightarrow> Some st
      | Some r \<Rightarrow>
          if \<not> ofTemplate w projectID templateID r \<or> IsFinished (statusOf w r) then Some st
          else if statusOf w r = TaskWaitingStatus
          then Some (idof w r # stopped, modState (DequeueByID (idof w) (idof w r)) w)
          else map_option (\<lambda>w1. (idof w r # stopped, w1))
                 (SetStatus env r (if forceStop then TaskStoppedStatus else TaskStoppingStatus) w))"

definition stopRunning ::
  "PoolEnv \<Rightarrow> (World \<Rightarrow> tref \<Rightarrow> bool) \<Rightarrow> bool \<Rightarrow> tref \<Rightarrow> stopState \<Rightarrow> stopState option" where
  "stopRunning env sel forceStop r st =
     (let (stopped, w) = st in
      if \<not> sel w r \<or> IsFinished (statusOf w r) then Some st
      else map_option (\<lambda>w1. (idof w1 r # stopped, w1)) (stopTaskRunner env r forceStop w))"

text \<open>A task of the database that is neither queued nor running here.\<close>

definition stopStored :: "PoolEnv \<Rightarrow> Task \<Rightarrow> stopState \<Rightarrow> stopState option" where
  "stopStored env row st =
     (let (stopped, w) = st;
          finish = (\<lambda>r w. map_option
                      (\<lambda>w1. (stopped, if jobAsync w1 r then spawn (GoFinalizeRemoteTask r None) w1
                                       else createTaskEvent r w1))
                      (SetStatus env r TaskStoppedStatus w))
      in if Task_ID row \<in> set stopped then Some st
         else case GetTask env (Task_ID row) w of
                None \<Rightarrow> None
              | Some (Inl _, w1) \<Rightarrow> Some (stopped, w1)
              | Some (Inr (Some r), w1) \<Rightarrow> finish r w1
              | Some (Inr None, w1) \<Rightarrow>
                  (let (r, w2) = NewTaskRunner row [] w1
                   in case populateDetails env r w2 of
                        None \<Rightarrow> None
                      | Some (Some _, w3) \<Rightarrow> Some (stopped, w3)
                      | Some (None, w3) \<Rightarrow> finish r w3))"

definition StopTasksByTemplate ::
  "PoolEnv \<Rightarrow> ident \<Rightarrow> ident \<Rightarrow> bool \<Rightarrow> World \<Rightarrow> World option" where
  "StopTasksByTemplate env projectID templateID forceStop w0 =
     (let w1 = (case SetWaitingTasksToStopped projectID templateID (now w0) (db w0) of
                  Inl _ \<Rightarrow> w0 | Inr d \<Rightarrow> w0\<lparr>db := d\<rparr>)
      in do {
           st1 \<leftarrow> foldM (stopQueued env projectID templateID forceStop) (QueueRange (state w1)) ([], w1);
           st2 \<leftarrow> foldM (stopRunning env (\<lambda>w. ofTemplate w projectID templateID) forceStop)
                    (RunningRange (state (snd st1))) st1;
           (case GetTemplateTasks projectID templateID UnfinishedTaskStatuses 0 (db (snd st2)) of
              Inl _ \<Rightarrow> Some (snd st2)
            | Inr rows \<Rightarrow> map_option snd (foldM (stopStored env) rows st2)) })"

definition belongsToRun :: "ident \<Rightarrow> ident \<Rightarrow> World \<Rightarrow> tref \<Rightarrow> bool" where
  "belongsToRun projectID runID w r \<longleftrightarrow>
     projectOf w r = projectID \<and> Task_WorkflowRunID (TR_Task (heap w r)) = Some runID \<and>
     \<not> IsFinished (statusOf w r)"

definition stopQueuedRun ::
  "PoolEnv \<Rightarrow> ident \<Rightarrow> ident \<Rightarrow> tref option \<Rightarrow> stopState \<Rightarrow> stopState option" where
  "stopQueuedRun env projectID runID e st =
     (let (stopped, w) = st in
      case e of
        None \<Rightarrow> Some st
      | Some r \<Rightarrow>
          if \<not> belongsToRun projectID runID w r \<or> statusOf w r \<noteq> TaskWaitingStatus then Some st
          else map_option
                 (\<lambda>w1. (idof w1 r # stopped, modState (DequeueByID (idof w1) (idof w1 r)) w1))
                 (SetStatus env r TaskStoppedStatus w))"

text \<open>The in-memory store is no \<^verbatim>\<open>TaskStopBroadcaster\<close>, so there is no other node to tell.\<close>

definition StopTasksByWorkflowRun ::
  "PoolEnv \<Rightarrow> ident \<Rightarrow> ident \<Rightarrow> bool \<Rightarrow> World \<Rightarrow> World option" where
  "StopTasksByWorkflowRun env projectID runID forceStop w0 =
     do {
       st1 \<leftarrow> foldM (stopQueuedRun env projectID runID) (QueueRange (state w0)) ([], w0);
       st2 \<leftarrow> foldM (stopRunning env (belongsToRun projectID runID) forceStop)
                (RunningRange (state (snd st1))) st1;
       (case GetProjectTasks projectID UnfinishedTaskStatuses 0 (db (snd st2)) of
          Inl _ \<Rightarrow> Some (snd st2)
        | Inr rows \<Rightarrow>
            map_option snd
              (foldM (\<lambda>row st. if Task_WorkflowRunID row \<noteq> Some runID then Some st
                               else stopStored env row st) rows st2)) }"

subsection \<open>The output writer\<close>

text \<open>
  \<^verbatim>\<open>MoveToNextStage\<close> of this build (\<^verbatim>\<open>pro/pkg/stage_parsers\<close>) finds no stage and no error, so the
  stage of a runner is whatever it was.
\<close>

definition MoveToNextStage :: "World \<Rightarrow> (go_error + ident option)" where
  "MoveToNextStage _ = Inr None"

definition writeLogRecord :: "logRecord \<Rightarrow> TaskOutput list \<times> World \<Rightarrow> TaskOutput list \<times> World" where
  "writeLogRecord rec st =
     (let (out, w) = st; r = log_task rec;
          newOutput = \<lparr>Output_TaskID = idof w r, Output_Output = log_output rec,
                       Output_Time = log_time rec, Output_StageID = None\<rparr>;
          w1 = modRunner r (\<lambda>t. t\<lparr>TR_currentOutput := Some newOutput\<rparr>) w;
          w2 = (case MoveToNextStage w1 of
                  Inr (Some stage) \<Rightarrow> modRunner r (\<lambda>t. t\<lparr>TR_currentStage := Some stage\<rparr>) w1
                | _ \<Rightarrow> w1);
          stageID = TR_currentStage (heap w2 r);
          w3 = modRunner r (\<lambda>t. t\<lparr>TR_currentOutput := Some (newOutput\<lparr>Output_StageID := stageID\<rparr>)\<rparr>) w2
      in (out @ [newOutput\<lparr>Output_StageID := stageID\<rparr>], w3))"

definition writeLogs :: "logRecord list \<Rightarrow> World \<Rightarrow> World" where
  "writeLogs logs w =
     (let (out, w1) = fold writeLogRecord logs ([], w)
      in case InsertTaskOutputBatch out (db w1) of
           Inl _ \<Rightarrow> w1
         | Inr d \<Rightarrow> w1\<lparr>db := d\<rparr>)"

definition flushLogs :: "logRecord list \<times> World \<Rightarrow> logRecord list \<times> World" where
  "flushLogs st = (let (logs, w) = st in if logs \<noteq> [] then ([], writeLogs logs w) else st)"

definition TaskOutputBatchSize :: nat where
  "TaskOutputBatchSize = 500"

text \<open>The two cases of the loop of \<^verbatim>\<open>handleLogs\<close>: a record arrives, and the ticker fires.\<close>

definition handleLogRecord :: "logRecord list \<times> World \<Rightarrow> logRecord list \<times> World" where
  "handleLogRecord st =
     (let (logs, w) = st in
      case logger w of
        [] \<Rightarrow> st
      | rec # rest \<Rightarrow>
          (let logs1 = logs @ [rec]; w1 = w\<lparr>logger := rest\<rparr>
           in if length logs1 \<ge> TaskOutputBatchSize then flushLogs (logs1, w1) else (logs1, w1)))"

definition handleLogTick :: "logRecord list \<times> World \<Rightarrow> logRecord list \<times> World" where
  "handleLogTick st = flushLogs st"

end
