(* ===== verification/Runner_Dispatch.thy ===== *)
theory Runner_Dispatch
  imports Task_Control "HOL-Library.Multiset"
begin

text \<open>
  Dispatching: \<^verbatim>\<open>services/tasks/RemoteJob.go\<close> (choosing a runner for a remote task and handing the task
  to it, and the timeout of a dispatched task) and the goroutine body \<^verbatim>\<open>run\<close> of
  \<^verbatim>\<open>services/tasks/TaskRunner.go\<close> that drives a job, local or remote, to its end.
\<close>

subsection \<open>Choosing a runner\<close>

text \<open>
  The Fisher-Yates loop, from index \<open>i\<close> downwards. \<open>rnd m\<close> is \<^verbatim>\<open>rand.Int(rand.Reader, m)\<close>: a number
  below \<open>m\<close>, or \<^const>\<open>None\<close> when the random source fails.
\<close>

fun shuffleFrom :: "(nat \<Rightarrow> nat option) \<Rightarrow> nat \<Rightarrow> 'a list \<Rightarrow> 'a list option" where
  "shuffleFrom rnd 0 xs = Some xs"
| "shuffleFrom rnd (Suc i) xs =
     (case rnd (Suc i + 1) of
        None \<Rightarrow> None
      | Some ji \<Rightarrow> shuffleFrom rnd i (xs[Suc i := xs ! ji, ji := xs ! Suc i]))"

definition shuffleRunners :: "(nat \<Rightarrow> nat option) \<Rightarrow> 'a list \<Rightarrow> 'a list" where
  "shuffleRunners rnd rs =
     (if length rs < 2 then rs
      else case shuffleFrom rnd (length rs - 1) rs of None \<Rightarrow> rs | Some shuffled \<Rightarrow> shuffled)"

fun selectRunner :: "Runner list \<Rightarrow> go_time \<Rightarrow> int \<Rightarrow> (ident \<Rightarrow> int) \<Rightarrow> Runner option" where
  "selectRunner [] at offlineTimeout busyTasks = None"
| "selectRunner (r # runners) at offlineTimeout busyTasks =
     (if \<not> IsOnline r at offlineTimeout then selectRunner runners at offlineTimeout busyTasks
      else let n = busyTasks (Runner_ID r) in
           if n < Runner_MaxParallelTasks r \<or> Runner_MaxParallelTasks r = 0 then Some r
           else selectRunner runners at offlineTimeout busyTasks)"

subsection \<open>The remote job\<close>

definition scheduleTimeout :: "PoolEnv \<Rightarrow> ident \<Rightarrow> Runner \<Rightarrow> World \<Rightarrow> World" where
  "scheduleTimeout env taskID runner w =
     (if MaxTaskDurationSec env \<le> 0 then w
      else emit [AfterFunc (MaxTaskDurationSec env * 1000000000) taskID runner] w)"

text \<open>The callback of the timer.\<close>

definition timeoutFired :: "PoolEnv \<Rightarrow> ident \<Rightarrow> Runner \<Rightarrow> World \<Rightarrow> World option" where
  "timeoutFired env taskID runner w =
     (case GetTask env taskID w of
        None \<Rightarrow> None
      | Some (Inl _, w1) \<Rightarrow> Some w1
      | Some (Inr None, w1) \<Rightarrow> Some w1
      | Some (Inr (Some r), w1) \<Rightarrow>
          (let w2 = (if HAEnabled env then refreshTaskStatusFromDB r w1 else w1) in
           if IsFinished (statusOf w2 r) then Some w2
           else Option.bind (SetStatus env r TaskFailStatus (Log r ''Task timed out'' w2))
                  (FinalizeRemoteTask env (Some r) (Some runner))))"

text \<open>
  The runners that a job may be sent to: those of the project, then the global ones, each group
  shuffled. A job without a tag goes to the default runners, a job with a tag to those that carry it.
\<close>

definition candidateRunners ::
  "PoolEnv \<Rightarrow> ident \<Rightarrow> string option \<Rightarrow> Database \<Rightarrow> (go_error + Runner list) option" where
  "candidateRunners env projectID tag d =
     (let mode = (if tag = None then RunnerFilterIsDefault else RunnerFilterTagCompleteMatch)
      in case GetRunners projectID True mode tag d of
           None \<Rightarrow> None
         | Some (Inl err) \<Rightarrow> Some (Inl err)
         | Some (Inr projectRunners) \<Rightarrow>
             (case GetAllRunners True True mode tag d of
                None \<Rightarrow> None
              | Some (Inl err) \<Rightarrow> Some (Inl err)
              | Some (Inr globalRunners) \<Rightarrow>
                  Some (Inr (shuffleRunners (random_Int env) projectRunners @
                             shuffleRunners (random_Int env) globalRunners))))"

text \<open>The part of \<^verbatim>\<open>Run\<close> after the runner is chosen.\<close>

definition assignRunner :: "PoolEnv \<Rightarrow> tref \<Rightarrow> Runner \<Rightarrow> ident \<Rightarrow> World \<Rightarrow> result" where
  "assignRunner env r runner taskID w =
     (case callRunnerWebhook env runner r ''start'' w of
        (Some err, w1) \<Rightarrow> (Some err, w1)
      | (None, w1) \<Rightarrow>
          (let w2 = modTask r (\<lambda>t. t\<lparr>Task_RunnerID := Some (Runner_ID runner)\<rparr>) w1;
               w3 = Log r (''Task #'' @ itoa (idof w2 r) @ '' is assigned to runner #'' @
                           itoa (Runner_ID runner)) w2
           in case UpdateTask (TR_Task (heap w3 r)) (db w3) of
                Inl err \<Rightarrow> (Some err, w3)
              | Inr d \<Rightarrow> (None, scheduleTimeout env taskID runner (w3\<lparr>db := d\<rparr>))))"

definition RemoteJob_Run ::
  "PoolEnv \<Rightarrow> string option \<Rightarrow> Task \<Rightarrow> string \<Rightarrow> string option \<Rightarrow> string \<Rightarrow> World \<Rightarrow> result option" where
  "RemoteJob_Run env runnerTag task username incomingVersion als w =
     (case GetTask env (Task_ID task) w of
        None \<Rightarrow> None
      | Some (Inl err, w1) \<Rightarrow> Some (Some err, w1)
      | Some (Inr None, w1) \<Rightarrow> Some (Some (ErrOther ''task not found''), w1)
      | Some (Inr (Some r), w1) \<Rightarrow>
          (let w2 = modRunner r (\<lambda>t. t\<lparr>TR_IncomingVersion := incomingVersion,
                                       TR_Username := username, TR_Alias := als\<rparr>) w1
           in case candidateRunners env (Task_ProjectID task) runnerTag (db w2) of
                None \<Rightarrow> None
              | Some (Inl err) \<Rightarrow> Some (Some err, w2)
              | Some (Inr runners) \<Rightarrow>
                  if runners = [] then Some (Some (ErrOther ''no runners available''), w2)
                  else (case selectRunner runners (now w2) (RunnersOfflineTimeout env)
                               (GetNumberOfRunningTasksOfRunner w2) of
                          None \<Rightarrow> Some (Some ErrAllRunnersBusy, w2)
                        | Some runner \<Rightarrow>
                            Some (assignRunner env r runner (Task_ID task) w2))))"

subsection \<open>The incoming version of a deploy task\<close>

text \<open>
  \<^verbatim>\<open>GetIncomingVersion\<close> of \<^verbatim>\<open>db/Task.go\<close> follows the build tasks upwards. The recursion is on rows of
  the database, so not returning is the value \<^const>\<open>None\<close>.
\<close>

partial_function (option) GetIncomingVersion :: "Database \<Rightarrow> Task \<Rightarrow> string option option" where
  "GetIncomingVersion d task =
     (case Task_BuildTaskID task of
        None \<Rightarrow> Some None
      | Some b \<Rightarrow>
          (case db_GetTask (Task_ProjectID task) b d of
             Inl _ \<Rightarrow> Some None
           | Inr buildTask \<Rightarrow>
               (case GetTemplate (Task_ProjectID task) (Task_TemplateID buildTask) d of
                  Inl _ \<Rightarrow> Some None
                | Inr tpl \<Rightarrow>
                    if Template_Type tpl = TemplateBuild then Some (Task_Version buildTask)
                    else GetIncomingVersion d buildTask)))"

subsection \<open>The body of the task goroutine\<close>

text \<open>
  How the body of \<^verbatim>\<open>run\<close> ends, which its deferred function looks at: the task was put back in
  the queue, handed to a remote runner, or is over.
\<close>

datatype RunOutcome = Requeued | HandedOff | Finish

text \<open>
  The preparation of a local job: the survey secrets and the token of the template. An error fails
  the task.
\<close>

definition setLocal :: "tref \<Rightarrow> (Job \<Rightarrow> Job) \<Rightarrow> World \<Rightarrow> World" where
  "setLocal r f = modRunner r (\<lambda>t. t\<lparr>TR_job := map_option f (TR_job t)\<rparr>)"

fun withSecret :: "string \<Rightarrow> Job \<Rightarrow> Job" where
  "withSecret s (LocalExecutor k _ j) = LocalExecutor k s j"
| "withSecret s j = j"

fun withJWT :: "string \<Rightarrow> Job \<Rightarrow> Job" where
  "withJWT j (LocalExecutor k s _) = LocalExecutor k s j"
| "withJWT j job = job"

definition failWith :: "PoolEnv \<Rightarrow> tref \<Rightarrow> string \<Rightarrow> World \<Rightarrow> (bool \<times> World) option" where
  "failWith env r msg w =
     map_option (\<lambda>w1. (False, w1)) (SetStatus env r TaskFailStatus (Log r msg w))"

definition signToken :: "PoolEnv \<Rightarrow> tref \<Rightarrow> World \<Rightarrow> (bool \<times> World) option" where
  "signToken env r w =
     (case (svc_Sign env, Template_JWTParams (TR_Template (heap w r))) of
        (Some sign, Some params) \<Rightarrow>
          if \<not> JWT_Enabled params then Some (True, w)
          else (case ParsedTTL (time_ParseDuration env) (JWT_TTL params) of
                  Inl terr \<Rightarrow>
                    failWith env r (''Invalid JWT token lifetime in the template settings: '' @
                                    errorString terr) w
                | Inr ttl \<Rightarrow>
                    (case sign (TR_Task (heap w r)) (TR_Template (heap w r)) ttl of
                       Inl _ \<Rightarrow>
                         failWith env r
                           ''Failed to sign the task JWT. More details in the server logs.'' w
                     | Inr token \<Rightarrow> Some (True, setLocal r (withJWT token) w)))
      | _ \<Rightarrow> Some (True, w))"

definition prepareLocal :: "PoolEnv \<Rightarrow> tref \<Rightarrow> World \<Rightarrow> (bool \<times> World) option" where
  "prepareLocal env r w =
     (case svc_GetTaskSurveySecrets env (projectOf w r) (idof w r) of
        Inl sErr \<Rightarrow>
          failWith env r
            (if sErr = ErrAccessKeyExpired
             then ''Survey secrets expired before the task started. Please run the task again.''
             else ''Failed to read survey secrets. More details in the server logs.'') w
      | Inr secret \<Rightarrow> signToken env r (setLocal r (withSecret secret) w))"

definition prepareJob :: "PoolEnv \<Rightarrow> tref \<Rightarrow> World \<Rightarrow> (bool \<times> World) option" where
  "prepareJob env r w =
     (case TR_job (heap w r) of
        Some (LocalExecutor _ _ _) \<Rightarrow> prepareLocal env r w
      | _ \<Rightarrow> Some (True, w))"

text \<open>
  What follows the return of the job. \<open>err\<close> is its error.
\<close>

definition afterJob :: "PoolEnv \<Rightarrow> tref \<Rightarrow> go_error option \<Rightarrow> World \<Rightarrow> (RunOutcome \<times> World) option" where
  "afterJob env r err w =
     (case err of
        Some e \<Rightarrow>
          if e = ErrAllRunnersBusy
          then map_option (\<lambda>w1. (Requeued, modState (Enqueue (Some r)) w1))
                 (SetStatus env r TaskWaitingStatus w)
          else (case TR_job (heap w r) of
                  None \<Rightarrow> None
                | Some j \<Rightarrow>
                    map_option (\<lambda>w1. (Finish, w1))
                      (if Job_IsKilled j then SetStatus env r TaskStoppedStatus w
                       else SetStatus env r TaskFailStatus
                              (Log r (''Failed to run task: '' @ errorString e) w)))
      | None \<Rightarrow>
          (case TR_job (heap w r) of
             None \<Rightarrow> None
           | Some j \<Rightarrow>
               if Job_Async j then Some (HandedOff, w)
               else do {
                 w1 \<leftarrow> (if statusOf w r = TaskRunningStatus
                        then SetStatus env r TaskSuccessStatus w else Some w);
                 w2 \<leftarrow> startAutorunTasks env r w1;
                 Some (Finish, w2) }))"

text \<open>
  \<^verbatim>\<open>job.Run\<close>. The local executor (command lines, git, processes) is the argument \<open>localRun\<close>: any
  function of the world.
\<close>

type_synonym LocalRun = "tref \<Rightarrow> string \<Rightarrow> string option \<Rightarrow> string \<Rightarrow> World \<Rightarrow> result option"

definition Job_Run ::
  "PoolEnv \<Rightarrow> LocalRun \<Rightarrow> tref \<Rightarrow> string \<Rightarrow> string option \<Rightarrow> World \<Rightarrow> result option" where
  "Job_Run env localRun r username incomingVersion w =
     (case TR_job (heap w r) of
        None \<Rightarrow> None
      | Some (LocalExecutor _ _ _) \<Rightarrow> localRun r username incomingVersion (TR_Alias (heap w r)) w
      | Some (RemoteJob tag task _) \<Rightarrow>
          RemoteJob_Run env tag task username incomingVersion (TR_Alias (heap w r)) w)"

definition usernameOf :: "World \<Rightarrow> tref \<Rightarrow> string" where
  "usernameOf w r =
     (case Task_UserID (TR_Task (heap w r)) of
        None \<Rightarrow> []
      | Some u \<Rightarrow> (case GetUser u (db w) of Inl _ \<Rightarrow> [] | Inr user \<Rightarrow> User_Username user))"

definition startedMessage :: "World \<Rightarrow> tref \<Rightarrow> string" where
  "startedMessage w r =
     ''Started task #'' @ itoa (idof w r) @ '' of template '' @ [CHR 0x27] @
     Template_Name (TR_Template (heap w r)) @ [CHR 0x27, CHR 0x0A]"

text \<open>The body of \<^verbatim>\<open>run\<close> from the point where the start is announced.\<close>

definition runJob :: "PoolEnv \<Rightarrow> LocalRun \<Rightarrow> tref \<Rightarrow> World \<Rightarrow> (RunOutcome \<times> World) option" where
  "runJob env localRun r w =
     do {
       incomingVersion \<leftarrow>
         (if Template_Type (TR_Template (heap w r)) \<noteq> TemplateTask
          then GetIncomingVersion (db w) (TR_Task (heap w r)) else Some None);
       (ok, w1) \<leftarrow> prepareJob env r w;
       if \<not> ok then Some (Finish, w1)
       else do {
         (err, w2) \<leftarrow> Job_Run env localRun r (usernameOf w r) incomingVersion w1;
         afterJob env r err w2 } }"

definition runBody :: "PoolEnv \<Rightarrow> LocalRun \<Rightarrow> tref \<Rightarrow> World \<Rightarrow> (RunOutcome \<times> World) option" where
  "runBody env localRun r w =
     (if statusOf w r = TaskStoppingStatus
      then map_option (\<lambda>w1. (Finish, w1)) (SetStatus env r TaskStoppedStatus w)
      else do {
        w1 \<leftarrow> SetStatus env r TaskStartingStatus w;
        let w2 = createTaskEvent r w1;
        runJob env localRun r (Log r (startedMessage w2 r) w2) })"

text \<open>\<^verbatim>\<open>run\<close>: the body, then the deferred function.\<close>

definition run :: "PoolEnv \<Rightarrow> LocalRun \<Rightarrow> tref \<Rightarrow> World \<Rightarrow> World option" where
  "run env localRun r w =
     (case runBody env localRun r w of
        None \<Rightarrow> None
      | Some (Requeued, w1) \<Rightarrow> Some (sendEvent EventTypeRequeued (Some r) w1)
      | Some (HandedOff, w1) \<Rightarrow> Some w1
      | Some (Finish, w1) \<Rightarrow> finishRun env r w1)"

end
