(* ===== verification/Runner_Reconciler.thy ===== *)
theory Runner_Reconciler
  imports Runner_Dispatch
begin

text \<open>
  \<^verbatim>\<open>services/tasks/runner_reconciler.go\<close>: the periodic comparison of dispatched tasks with the
  liveness of their runners, and the three recovery actions; and the timeouts it uses, from
  \<^verbatim>\<open>util/config.go\<close>.
\<close>

subsection \<open>The configuration\<close>

record RunnersConfig =
  DefaultGlobalRunnersMode :: string
  OfflineTimeoutSec :: int
  TaskFailTimeoutSec :: int
  ReconcileIntervalSec :: int

record ConfigType =
  cfg_Runners :: "RunnersConfig option"
  cfg_UseRemoteRunner :: bool

text \<open>\<^verbatim>\<open>time.Duration(sec) * time.Second\<close>, a 64-bit product.\<close>

definition seconds :: "int \<Rightarrow> int" where
  "seconds sec = wrap64 (sec * 1000000000)"

text \<open>\<^verbatim>\<open>IsUseRemoteRunner\<close> reads through the pointer \<^verbatim>\<open>Runners\<close> without a test: nil panics.\<close>

definition conf_IsUseRemoteRunner :: "ConfigType \<Rightarrow> bool option" where
  "conf_IsUseRemoteRunner conf =
     (case cfg_Runners conf of
        None \<Rightarrow> None
      | Some rc \<Rightarrow>
          Some (if DefaultGlobalRunnersMode rc = ''disable'' then False
                else if DefaultGlobalRunnersMode rc = ''require'' then True
                else if DefaultGlobalRunnersMode rc = ''prefer'' then True
                else cfg_UseRemoteRunner conf))"

definition orDefault :: "int \<Rightarrow> (RunnersConfig \<Rightarrow> int) \<Rightarrow> ConfigType \<Rightarrow> int" where
  "orDefault dflt field conf =
     (case cfg_Runners conf of
        None \<Rightarrow> dflt
      | Some rc \<Rightarrow> if field rc > 0 then field rc else dflt)"

definition conf_RunnersOfflineTimeout :: "ConfigType \<Rightarrow> int" where
  "conf_RunnersOfflineTimeout conf = seconds (orDefault 120 OfflineTimeoutSec conf)"

definition conf_RunnersTaskFailTimeout :: "ConfigType \<Rightarrow> int" where
  "conf_RunnersTaskFailTimeout conf =
     (let res = seconds (orDefault 420 TaskFailTimeoutSec conf);
          offline = conf_RunnersOfflineTimeout conf
      in if res < offline then offline else res)"

definition conf_RunnersReconcileInterval :: "ConfigType \<Rightarrow> int" where
  "conf_RunnersReconcileInterval conf = seconds (orDefault 30 ReconcileIntervalSec conf)"

subsection \<open>The decision\<close>

datatype RunnerTaskAction = RunnerTaskKeep | RunnerTaskRequeue | RunnerTaskFail

definition DecideRunnerTaskAction ::
  "TaskStatus \<Rightarrow> go_time option \<Rightarrow> Runner option \<Rightarrow> go_time \<Rightarrow> int \<Rightarrow> int \<Rightarrow> RunnerTaskAction \<times> string" where
  "DecideRunnerTaskAction status taskStart runner at offlineTimeout taskFailTimeout =
     (let starting = (status = TaskStartingStatus \<or> status = TaskWaitingStatus);
          running = (status = TaskRunningStatus)
      in if \<not> starting \<and> \<not> running then (RunnerTaskKeep, [])
         else case runner of
           None \<Rightarrow>
             if starting then (RunnerTaskRequeue, ''runner no longer exists'')
             else (RunnerTaskFail, ''runner no longer exists'')
         | Some rn \<Rightarrow>
             if running \<and>
                (case (Runner_StartedAt rn, taskStart) of
                   (Some startedAt, Some start) \<Rightarrow> startedAt > start | _ \<Rightarrow> False)
             then (RunnerTaskFail, ''runner restarted and lost the task'')
             else if starting \<and> Runner_Webhook rn \<noteq> [] then (RunnerTaskKeep, [])
             else (case Runner_Touched rn of
                     None \<Rightarrow>
                       if starting then (RunnerTaskRequeue, ''runner never polled the server'')
                       else (RunnerTaskKeep, [])
                   | Some touched \<Rightarrow>
                       (let silence = at - touched in
                        if starting \<and> silence > offlineTimeout
                        then (RunnerTaskRequeue, ''runner is offline'')
                        else if running \<and> silence > taskFailTimeout
                        then (RunnerTaskFail, ''runner stopped responding'')
                        else (RunnerTaskKeep, []))))"

subsection \<open>The actions\<close>

text \<open>
  All three actions run under the finalize lock of the task and release it at the end, whichever way
  they leave.
\<close>

definition underFinalizeLock :: "tref \<Rightarrow> (World \<Rightarrow> World option) \<Rightarrow> World \<Rightarrow> World option" where
  "underFinalizeLock r act w =
     (case TryFinalize (idof w r) (state w) of
        (False, _) \<Rightarrow> Some w
      | (True, s) \<Rightarrow> map_option (modState (DeleteFinalize (idof w r))) (act (w\<lparr>state := s\<rparr>)))"

definition refreshIfHA :: "PoolEnv \<Rightarrow> tref \<Rightarrow> World \<Rightarrow> World" where
  "refreshIfHA env r w = (if HAEnabled env then refreshTaskStatusFromDB r w else w)"

definition failTaskRunnerLost ::
  "PoolEnv \<Rightarrow> tref \<Rightarrow> Runner option \<Rightarrow> string \<Rightarrow> World \<Rightarrow> World option" where
  "failTaskRunnerLost env r runner reason =
     underFinalizeLock r
       (\<lambda>w. let w1 = refreshIfHA env r w in
            if IsFinished (statusOf w1 r) then Some w1
            else let w2 = Log r (''Runner lost: '' @ reason) w1;
                     w3 = modTask r (\<lambda>t. t\<lparr>Task_Message := reason\<rparr>) w2;
                     w4 = (if runner = None then modTask r (\<lambda>t. t\<lparr>Task_RunnerID := None\<rparr>) w3 else w3)
                 in Option.bind (SetStatus env r TaskFailStatus w4)
                      (finalizeRemoteTaskLocked env r runner))"

definition notYetRunning :: "TaskStatus \<Rightarrow> bool" where
  "notYetRunning s \<longleftrightarrow> s = TaskStartingStatus \<or> s = TaskWaitingStatus"

text \<open>
  The shared tail of the two requeue actions: persist, put the task back in the queue, and tell the
  queue loop to release it.
\<close>

definition persistAndRequeue :: "PoolEnv \<Rightarrow> tref \<Rightarrow> World \<Rightarrow> World option" where
  "persistAndRequeue env r w =
     map_option
       (\<lambda>w1. case UpdateTask (TR_Task (heap w1 r)) (db w1) of
               Inl _ \<Rightarrow> w1
             | Inr d \<Rightarrow>
                 sendEvent EventTypeRequeued (Some r) (modState (Enqueue (Some r)) (w1\<lparr>db := d\<rparr>)))
       (SetStatus env r TaskWaitingStatus w)"

definition requeueTaskRunnerOffline ::
  "PoolEnv \<Rightarrow> tref \<Rightarrow> ident \<Rightarrow> string \<Rightarrow> World \<Rightarrow> World option" where
  "requeueTaskRunnerOffline env r runnerID reason =
     underFinalizeLock r
       (\<lambda>w. let w1 = refreshIfHA env r w in
            if \<not> notYetRunning (statusOf w1 r) then Some w1
            else if Task_RunnerID (TR_Task (heap w1 r)) \<noteq> Some runnerID then Some w1
            else persistAndRequeue env r
                   (modTask r (\<lambda>t. t\<lparr>Task_RunnerID := None\<rparr>)
                     (Log r (''Runner #'' @ itoa runnerID @ '' lost the task: '' @ reason @
                             ''. Returning task to queue.'') w1)))"

definition requeueUndispatchedTask :: "PoolEnv \<Rightarrow> tref \<Rightarrow> World \<Rightarrow> World option" where
  "requeueUndispatchedTask env r =
     underFinalizeLock r
       (\<lambda>w. let w1 = refreshIfHA env r w in
            if \<not> notYetRunning (statusOf w1 r) then Some w1
            else if Task_RunnerID (TR_Task (heap w1 r)) \<noteq> None then Some w1
            else persistAndRequeue env r
                   (Log r ''Dispatch goroutine lost (node restarted mid-dispatch). Returning task to queue.'' w1))"

subsection \<open>The pass\<close>

text \<open>
  The runner of a task: the project's, else a global one. \<^const>\<open>None\<close> is a failure other than a
  missing row, on which the task is skipped.
\<close>

definition loadTaskRunner :: "ident \<Rightarrow> ident \<Rightarrow> Database \<Rightarrow> Runner option option" where
  "loadTaskRunner projectID runnerID d =
     (case (case GetRunner projectID runnerID d of
              Inl err \<Rightarrow> if err = ErrNotFound then GetGlobalRunner runnerID d else Inl err
            | Inr rn \<Rightarrow> Inr rn) of
        Inr rn \<Rightarrow> Some (Some rn)
      | Inl err \<Rightarrow> if err = ErrNotFound then Some None else None)"

definition reconcileTask :: "PoolEnv \<Rightarrow> go_time \<Rightarrow> tref \<Rightarrow> World \<Rightarrow> World option" where
  "reconcileTask env at r w =
     (if IsFinished (statusOf w r) then Some w
      else case Task_RunnerID (TR_Task (heap w r)) of
        None \<Rightarrow> if \<not> TR_dispatching (heap w r) then requeueUndispatchedTask env r w else Some w
      | Some runnerID \<Rightarrow>
          (case loadTaskRunner (projectOf w r) runnerID (db w) of
             None \<Rightarrow> Some w
           | Some runner \<Rightarrow>
               (case DecideRunnerTaskAction (statusOf w r) (Task_Start (TR_Task (heap w r))) runner at
                       (RunnersOfflineTimeout env) (RunnersTaskFailTimeout env) of
                  (RunnerTaskRequeue, reason) \<Rightarrow> requeueTaskRunnerOffline env r runnerID reason w
                | (RunnerTaskFail, reason) \<Rightarrow> failTaskRunnerLost env r runner reason w
                | (RunnerTaskKeep, _) \<Rightarrow> Some w)))"

definition reconcileRunnerTasks :: "PoolEnv \<Rightarrow> go_time \<Rightarrow> World \<Rightarrow> World option" where
  "reconcileRunnerTasks env at w =
     foldM (reconcileTask env at) (OwnedRunningRange (state w)) w"

end
