(* ===== verification/Queue_Pass.thy ===== *)
theory Queue_Pass
  imports Runner_Reconciler "HOL-Library.Sublist"
begin

text \<open>
  The queue loop of \<^verbatim>\<open>services/tasks/TaskPool.go\<close>: what a pass over the queue does to the store, the
  limits on parallel tasks that it respects, and that it starts every task that it may start.
\<close>

subsection \<open>What a pass leaves alone\<close>

lemma spawn_frame [simp, frame_simps]:
  "heap (spawn g w) = heap w" "nextRef (spawn g w) = nextRef w" "state (spawn g w) = state w"
  "db (spawn g w) = db w" "queueEvents (spawn g w) = queueEvents w"
  "register (spawn g w) = register w" "logger (spawn g w) = logger w"
  "spawned (spawn g w) = spawned w @ [g]" "metrics (spawn g w) = metrics w"
  "now (spawn g w) = now w" "trace (spawn g w) = trace w"
  by (simp_all add: spawn_def)

text \<open>Every reading of a task that the pass uses, and every part of the world other than the store.\<close>

definition passFrame :: "World \<Rightarrow> World \<Rightarrow> bool" where
  "passFrame w w' \<longleftrightarrow>
     idof w' = idof w \<and> statusOf w' = statusOf w \<and> projectOf w' = projectOf w \<and>
     (\<forall>r. TR_Template (heap w' r) = TR_Template (heap w r) \<and> TR_Task (heap w' r) = TR_Task (heap w r)) \<and>
     db w' = db w \<and> nextRef w' = nextRef w \<and> queueEvents w' = queueEvents w \<and>
     register w' = register w \<and> logger w' = logger w \<and> metrics w' = metrics w \<and> trace w' = trace w"

lemma passFrame_refl [simp]: "passFrame w w"
  by (simp add: passFrame_def)

lemma passFrame_trans: "passFrame a b \<Longrightarrow> passFrame b c \<Longrightarrow> passFrame a c"
  by (simp add: passFrame_def)

lemma passFrame_D:
  assumes "passFrame w w'"
  shows "idof w' = idof w" "statusOf w' = statusOf w" "projectOf w' = projectOf w" "db w' = db w"
  using assms by (simp_all add: passFrame_def)

lemma passFrame_state [simp]: "passFrame w (w\<lparr>state := s\<rparr>)" "passFrame w (modState f w)"
  by (simp_all add: passFrame_def idof_def statusOf_def projectOf_def fun_eq_iff)

lemma onTaskRun_frame:
  "heap (onTaskRun r w) = heap w" "spawned (onTaskRun r w) = spawned w" "passFrame w (onTaskRun r w)"
  by (simp_all add: onTaskRun_def Let_def passFrame_def idof_def statusOf_def projectOf_def fun_eq_iff)

lemma onTaskStop_frame:
  "heap (onTaskStop r w) = heap w" "spawned (onTaskStop r w) = spawned w" "passFrame w (onTaskStop r w)"
  by (simp_all add: onTaskStop_def Let_def passFrame_def idof_def statusOf_def projectOf_def fun_eq_iff)

lemma dispatching_frame:
  "passFrame w (modRunner r (\<lambda>t. t\<lparr>TR_dispatching := b\<rparr>) w)"
  by (simp add: passFrame_def idof_def statusOf_def projectOf_def fun_eq_iff)

lemma runTask_frame: "passFrame w (runTask r w)" "spawned (runTask r w) = spawned w @ [GoRun r]"
proof -
  let ?d = "modRunner r (\<lambda>t. t\<lparr>TR_dispatching := True\<rparr>) w"
  have "passFrame w (onTaskRun r ?d)"
    using dispatching_frame onTaskRun_frame(3) by (rule passFrame_trans)
  then show "passFrame w (runTask r w)"
    by (simp add: runTask_def passFrame_def idof_def statusOf_def projectOf_def fun_eq_iff)
  show "spawned (runTask r w) = spawned w @ [GoRun r]"
    by (simp add: runTask_def onTaskRun_frame)
qed

subsection \<open>Starting one task\<close>

text \<open>
  The store after \<^const>\<open>runTask\<close> on a claimed task.
\<close>

lemma runTask_views:
  "queue (state (runTask r w)) = queue (state w)"
  "map_of (running (state (runTask r w))) = (map_of (running (state w)))(idof w r \<mapsto> r)"
  "activeMap (state (runTask r w)) =
     (activeMap (state w))(projectOf w r := (activeMap (state w) (projectOf w r))(idof w r \<mapsto> r))"
  by (simp_all add: runTask_def onTaskRun_def Let_def idof_def projectOf_def)

lemma runTask_inv:
  assumes "store_inv (idof w) (state w)" shows "store_inv (idof w) (state (runTask r w))"
proof -
  let ?d = "modRunner r (\<lambda>t. t\<lparr>TR_dispatching := True\<rparr>) w"
  have i: "idof ?d = idof w" by (simp add: idof_def fun_eq_iff)
  show ?thesis
    using assms by (simp add: runTask_def onTaskRun_def Let_def store_inv_intros i)
qed

lemma onTaskStop_inv:
  "store_inv f (state w) \<Longrightarrow> store_inv f (state (onTaskStop r w))"
  by (simp add: onTaskStop_def Let_def store_inv_intros)

text \<open>
  The three things that can happen to a queue entry: it stays, it is dropped because the task has
  failed, or it is started.
\<close>

definition startsEntry :: "PoolEnv \<Rightarrow> ident \<Rightarrow> World \<Rightarrow> tref \<Rightarrow> bool" where
  "startsEntry env skip w r \<longleftrightarrow>
     \<not> (skip \<noteq> 0 \<and> idof w r = skip) \<and> statusOf w r \<noteq> TaskFailStatus \<and> \<not> blocks env r w \<and>
     (\<exists>e\<in>set (queue (state w)). hasID (idof w) (idof w r) e)"

lemma queueEntry_cases:
  obtains (stay) "queueEntry env skip (Some r) w = w" "\<not> startsEntry env skip w r"
  | (drop) "statusOf w r = TaskFailStatus" "\<not> startsEntry env skip w r"
      "queueEntry env skip (Some r) w = modState (DequeueByID (idof w) (idof w r)) w"
  | (start) t where "startsEntry env skip w r"
      "find (hasID (idof w) (idof w r)) (queue (state w)) = Some (Some t)"
      "queueEntry env skip (Some r) w =
         runTask r (w\<lparr>state := (state w)\<lparr>queue := removeFirst (hasID (idof w) (idof w r)) (queue (state w)),
                                      running := AList.update (idof w r) t (running (state w))\<rparr>\<rparr>)"
proof -
  consider "skip \<noteq> 0 \<and> idof w r = skip" | "\<not> (skip \<noteq> 0 \<and> idof w r = skip)" "statusOf w r = TaskFailStatus"
    | "\<not> (skip \<noteq> 0 \<and> idof w r = skip)" "statusOf w r \<noteq> TaskFailStatus" "blocks env r w"
    | "\<not> (skip \<noteq> 0 \<and> idof w r = skip)" "statusOf w r \<noteq> TaskFailStatus" "\<not> blocks env r w"
    by blast
  then show thesis
  proof cases
    case 1
    then show thesis by (intro stay) (auto simp: queueEntry_def startsEntry_def)
  next
    case 2
    then show thesis by (intro drop) (auto simp: queueEntry_def startsEntry_def)
  next
    case 3
    then show thesis by (intro stay) (auto simp: queueEntry_def startsEntry_def)
  next
    case 4
    show thesis
    proof (cases "find (hasID (idof w) (idof w r)) (queue (state w))")
      case None
      then have "\<not> startsEntry env skip w r"
        by (auto simp: startsEntry_def find_None_iff_ball)
      with 4 None show thesis by (intro stay) (auto simp: queueEntry_def ClaimAndDequeue_eq)
    next
      case (Some e)
      then have e: "e \<in> set (queue (state w))" "hasID (idof w) (idof w r) e"
        by (simp_all add: find_Some_in)
      obtain t where "e = Some t" using e(2) by (cases e) auto
      have "\<exists>e\<in>set (queue (state w)). hasID (idof w) (idof w r) e" using e by blast
      with 4 Some \<open>e = Some t\<close> show thesis
        by (intro start) (auto simp add: queueEntry_def ClaimAndDequeue_eq startsEntry_def)
    qed
  qed
qed

lemma queueEntry_frame: "passFrame w (queueEntry env skip e w)"
proof (cases e)
  case (Some r)
  show ?thesis unfolding Some
    by (rule queueEntry_cases [of env skip r w])
       (auto intro: passFrame_trans [OF passFrame_state(1) runTask_frame(1)])
qed (simp add: queueEntry_def)

lemma queuePass_frame: "passFrame w (queuePass env skip w)"
proof -
  have "passFrame w (fold (queueEntry env skip) es w)" for es
    by (induction es arbitrary: w) (auto intro: passFrame_trans [OF queueEntry_frame])
  then show ?thesis by (simp add: queuePass_def)
qed

lemma queueEntry_inv:
  assumes "store_inv (idof w) (state w)"
  shows "store_inv (idof w) (state (queueEntry env skip e w))"
proof (cases e)
  case (Some r)
  show ?thesis unfolding Some
  proof (rule queueEntry_cases [of env skip r w])
    fix t assume t: "find (hasID (idof w) (idof w r)) (queue (state w)) = Some (Some t)"
      and eq: "queueEntry env skip (Some r) w =
         runTask r (w\<lparr>state := (state w)\<lparr>queue := removeFirst (hasID (idof w) (idof w r)) (queue (state w)),
                                      running := AList.update (idof w r) t (running (state w))\<rparr>\<rparr>)"
    let ?s = "(state w)\<lparr>queue := removeFirst (hasID (idof w) (idof w r)) (queue (state w)),
                        running := AList.update (idof w r) t (running (state w))\<rparr>"
    have "?s = snd (ClaimAndDequeue (idof w) (idof w r) (state w))"
      using t by (simp add: ClaimAndDequeue_eq)
    then have "store_inv (idof w) ?s" using assms ClaimAndDequeue_inv by metis
    moreover have i: "idof (w\<lparr>state := ?s\<rparr>) = idof w" by (simp add: idof_def fun_eq_iff)
    ultimately show "store_inv (idof w) (state (queueEntry env skip (Some r) w))"
      unfolding eq using runTask_inv [of "w\<lparr>state := ?s\<rparr>" r] by simp
  qed (simp_all add: assms store_inv_intros)
qed (simp add: queueEntry_def assms)

text \<open>Invariants of a pass: what every entry keeps, the pass keeps.\<close>

lemma queuePass_induct:
  assumes "P w"
    and "\<And>e v. e \<in> set (queue (state w)) \<Longrightarrow> passFrame w v \<Longrightarrow> P v \<Longrightarrow> P (queueEntry env skip e v)"
  shows "P (queuePass env skip w)"
proof -
  have "passFrame w (fold (queueEntry env skip) es v) \<and> P (fold (queueEntry env skip) es v)"
    if "set es \<subseteq> set (queue (state w))" "passFrame w v" "P v" for es v
    using that
    by (induction es arbitrary: v) (auto intro: assms(2) passFrame_trans [OF _ queueEntry_frame])
  with assms(1) show ?thesis by (simp add: queuePass_def QueueRange_def)
qed

lemma queuePass_inv:
  assumes "store_inv (idof w) (state w)"
  shows "store_inv (idof w) (state (queuePass env skip w))"
proof (rule queuePass_induct [of "\<lambda>v. store_inv (idof w) (state v)"])
  fix e v assume "passFrame w v" "store_inv (idof w) (state v)"
  then show "store_inv (idof w) (state (queueEntry env skip e v))"
    using queueEntry_inv [of v env skip e] by (simp add: passFrame_D)
qed (rule assms)


lemma queueEntry_start:
  assumes "startsEntry env skip w r"
  defines "w' \<equiv> queueEntry env skip (Some r) w"
  shows "queue (state w') = removeFirst (hasID (idof w) (idof w r)) (queue (state w))"
    and "map_of (running (state w')) = (map_of (running (state w)))(idof w r \<mapsto> r)"
    and "activeMap (state w') =
      (activeMap (state w))(projectOf w r := (activeMap (state w) (projectOf w r))(idof w r \<mapsto> r))"
    and "spawned w' = spawned w @ [GoRun r]"
proof -
  obtain t where eq: "w' = runTask r (w\<lparr>state := (state w)
      \<lparr>queue := removeFirst (hasID (idof w) (idof w r)) (queue (state w)),
       running := AList.update (idof w r) t (running (state w))\<rparr>\<rparr>)" (is "_ = runTask r ?v")
    by (rule queueEntry_cases [of env skip r w]) (use assms in auto)
  have f: "idof ?v = idof w" "projectOf ?v = projectOf w"
    by (simp_all add: idof_def projectOf_def fun_eq_iff)
  show "queue (state w') = removeFirst (hasID (idof w) (idof w r)) (queue (state w))"
    "map_of (running (state w')) = (map_of (running (state w)))(idof w r \<mapsto> r)"
    "activeMap (state w') =
      (activeMap (state w))(projectOf w r := (activeMap (state w) (projectOf w r))(idof w r \<mapsto> r))"
    "spawned w' = spawned w @ [GoRun r]"
    by (simp_all add: eq f runTask_views runTask_frame) (simp_all add: activeMap_def fun_eq_iff)
qed

text \<open>When the entry is not started, only the queue can change.\<close>

lemma queueEntry_nostart:
  assumes "\<not> startsEntry env skip w r"
  defines "w' \<equiv> queueEntry env skip (Some r) w"
  shows "running (state w') = running (state w)" and "activeMap (state w') = activeMap (state w)"
    and "spawned w' = spawned w" and "set (queue (state w')) \<subseteq> set (queue (state w))"
    and "ActiveCount p (state w') = ActiveCount p (state w)"
    and "statusOf w r = TaskFailStatus \<or> w' = w"
proof -
  consider "w' = w" | "statusOf w r = TaskFailStatus" "w' = modState (DequeueByID (idof w) (idof w r)) w"
    by (rule queueEntry_cases [of env skip r w]) (use assms in auto)
  note cs = this
  show "running (state w') = running (state w)" by (cases rule: cs) simp_all
  show "activeMap (state w') = activeMap (state w)" by (cases rule: cs) simp_all
  show "spawned w' = spawned w" by (cases rule: cs) simp_all
  show "set (queue (state w')) \<subseteq> set (queue (state w))"
    by (cases rule: cs) (simp_all add: set_removeFirst_subset)
  show "ActiveCount p (state w') = ActiveCount p (state w)"
    by (cases rule: cs) (simp_all add: DequeueByID_def ActiveCount_def)
  show "statusOf w r = TaskFailStatus \<or> w' = w" by (cases rule: cs) simp_all
qed

subsection \<open>The limits\<close>

lemma card_dom_upd: "finite (dom m) \<Longrightarrow> card (dom (m(k \<mapsto> v))) \<le> Suc (card (dom m))"
  by (simp add: card_insert_if)

text \<open>The global limit on running tasks.\<close>

definition withinLimit :: "PoolEnv \<Rightarrow> World \<Rightarrow> bool" where
  "withinLimit env w \<longleftrightarrow> (MaxParallelTasks env > 0 \<longrightarrow> RunningCount (state w) \<le> MaxParallelTasks env)"

lemma queueEntry_limit:
  assumes inv: "store_inv (idof w) (state w)" and lim: "withinLimit env w"
  shows "withinLimit env (queueEntry env skip e w)"
proof (cases e)
  case (Some r)
  let ?w = "queueEntry env skip (Some r) w"
  show ?thesis
  proof (cases "startsEntry env skip w r")
    case True
    then have nb: "MaxParallelTasks env > 0 \<Longrightarrow> RunningCount (state w) < MaxParallelTasks env"
      by (auto simp: startsEntry_def blocks_def Let_def split: if_splits)
    have inv': "store_inv (idof w) (state ?w)" using inv by (rule queueEntry_inv)
    have "RunningCount (state ?w) \<le> RunningCount (state w) + 1"
      unfolding RunningCount_card [OF inv'] RunningCount_card [OF inv] queueEntry_start(2) [OF True]
      using card_dom_upd [of "map_of (running (state w))" "idof w r" r]
      by (simp add: finite_dom_map_of)
    with nb show ?thesis by (auto simp: withinLimit_def Some)
  next
    case False
    with lim queueEntry_nostart(1) show ?thesis
      by (simp add: withinLimit_def Some RunningCount_def)
  qed
qed (simp add: queueEntry_def lim)

lemma queuePass_limit:
  assumes "store_inv (idof w) (state w)" and "withinLimit env w"
  shows "withinLimit env (queuePass env skip w)"
proof -
  have "store_inv (idof w) (state (queuePass env skip w)) \<and> withinLimit env (queuePass env skip w)"
  proof (rule queuePass_induct [of "\<lambda>v. store_inv (idof w) (state v) \<and> withinLimit env v"])
    fix e v assume "passFrame w v" and *: "store_inv (idof w) (state v) \<and> withinLimit env v"
    then have "idof v = idof w" by (simp add: passFrame_D)
    with * show "store_inv (idof w) (state (queueEntry env skip e v)) \<and>
        withinLimit env (queueEntry env skip e v)"
      using queueEntry_inv [of v env skip e] queueEntry_limit [of v env skip e] by simp
  qed (use assms in simp)
  then show ?thesis ..
qed

text \<open>The limit of one project.\<close>

definition withinProjectLimit :: "ident \<Rightarrow> World \<Rightarrow> bool" where
  "withinProjectLimit p w \<longleftrightarrow>
     (case GetProject p (db w) of
        Inl _ \<Rightarrow> True
      | Inr proj \<Rightarrow>
          Project_MaxParallelTasks proj > 0 \<longrightarrow> ActiveCount p (state w) \<le> Project_MaxParallelTasks proj)"

lemma queueEntry_projectLimit:
  assumes inv: "store_inv (idof w) (state w)" and lim: "withinProjectLimit p w"
  shows "withinProjectLimit p (queueEntry env skip e w)"
proof (cases e)
  case (Some r)
  let ?w = "queueEntry env skip (Some r) w"
  have db: "db ?w = db w" by (rule passFrame_D(4) [OF queueEntry_frame])
  show ?thesis
  proof (cases "startsEntry env skip w r \<and> projectOf w r = p")
    case True
    then have st: "startsEntry env skip w r" and p: "projectOf w r = p" by simp_all
    have inv': "store_inv (idof w) (state ?w)" using inv by (rule queueEntry_inv)
    have fin: "finite (dom (activeMap (state w) p))"
      by (simp add: activeMap_def finite_dom_map_of split: option.splits)
    have "ActiveCount p (state ?w) \<le> ActiveCount p (state w) + 1"
      unfolding ActiveCount_card [OF inv'] ActiveCount_card [OF inv] queueEntry_start(3) [OF st] p
      using card_dom_upd [OF fin, of "idof w r" r] by simp
    moreover have "ActiveCount p (state w) = 0 \<or>
        (case GetProject p (db w) of Inl _ \<Rightarrow> True | Inr proj \<Rightarrow>
           Project_MaxParallelTasks proj > 0 \<longrightarrow> ActiveCount p (state w) < Project_MaxParallelTasks proj)"
      using st p by (auto simp: startsEntry_def blocks_def Let_def split: if_splits sum.splits)
    ultimately show ?thesis by (auto simp: withinProjectLimit_def Some db split: sum.splits)
  next
    case False
    then have "ActiveCount p (state ?w) = ActiveCount p (state w)"
    proof (cases "startsEntry env skip w r")
      case True
      with False have "projectOf w r \<noteq> p" by simp
      with queueEntry_start(3) [OF True] show ?thesis
        by (simp add: ActiveCount_card [OF inv] ActiveCount_card [OF queueEntry_inv [OF inv]])
    qed (rule queueEntry_nostart(5))
    with lim show ?thesis by (simp add: withinProjectLimit_def Some db split: sum.splits)
  qed
qed (simp add: queueEntry_def lim)

lemma queuePass_projectLimit:
  assumes "store_inv (idof w) (state w)" and "withinProjectLimit p w"
  shows "withinProjectLimit p (queuePass env skip w)"
proof -
  have "store_inv (idof w) (state (queuePass env skip w)) \<and>
      withinProjectLimit p (queuePass env skip w)"
  proof (rule queuePass_induct [of "\<lambda>v. store_inv (idof w) (state v) \<and> withinProjectLimit p v"])
    fix e v assume "passFrame w v" and *: "store_inv (idof w) (state v) \<and> withinProjectLimit p v"
    then have "idof v = idof w" by (simp add: passFrame_D)
    with * show "store_inv (idof w) (state (queueEntry env skip e v)) \<and>
        withinProjectLimit p (queueEntry env skip e v)"
      using queueEntry_inv [of v env skip e] queueEntry_projectLimit [of v p env skip e] by simp
  qed (use assms in simp)
  then show ?thesis ..
qed


subsection \<open>Templates that forbid parallel tasks\<close>

text \<open>
  Two unfinished active tasks of one template that both forbid parallel runs are the same task.
\<close>

definition forbidsParallel :: "World \<Rightarrow> tref \<Rightarrow> bool" where
  "forbidsParallel w r \<longleftrightarrow>
     \<not> IsFinished (statusOf w r) \<and> \<not> Template_AllowParallelTasks (TR_Template (heap w r))"

definition exclusiveTemplates :: "ident \<Rightarrow> World \<Rightarrow> bool" where
  "exclusiveTemplates p w \<longleftrightarrow>
     (\<forall>a\<in>set (GetActive p (state w)). \<forall>b\<in>set (GetActive p (state w)).
        forbidsParallel w a \<and> forbidsParallel w b \<and>
        Template_ID (TR_Template (heap w a)) = Template_ID (TR_Template (heap w b)) \<longrightarrow> a = b)"

definition templateLoaded :: "World \<Rightarrow> tref \<Rightarrow> bool" where
  "templateLoaded w r \<longleftrightarrow> Template_ID (TR_Template (heap w r)) = Task_TemplateID (TR_Task (heap w r))"

lemma passFrame_template:
  assumes "passFrame w v"
  shows "forbidsParallel v = forbidsParallel w" "TR_Template (heap v r) = TR_Template (heap w r)"
    "templateLoaded v = templateLoaded w"
  using assms by (auto simp: passFrame_def forbidsParallel_def templateLoaded_def fun_eq_iff)

text \<open>
  The admission test in one line: the early return for a project without active tasks changes nothing.
\<close>

lemma sameTemplateActive_count: "sameTemplateActive w r \<Longrightarrow> ActiveCount (projectOf w r) (state w) \<noteq> 0"
  by (cases "map_of (activeProj (state w)) (projectOf w r)")
     (auto simp: sameTemplateActive_def ActiveCount_def GetActive_def)

lemma blocks_iff:
  "blocks env r w \<longleftrightarrow>
     (MaxParallelTasks env > 0 \<and> RunningCount (state w) \<ge> MaxParallelTasks env) \<or>
     sameTemplateActive w r \<or>
     (\<exists>proj. GetProject (projectOf w r) (db w) = Inr proj \<and> Project_MaxParallelTasks proj > 0 \<and>
        ActiveCount (projectOf w r) (state w) \<ge> Project_MaxParallelTasks proj)"
  using sameTemplateActive_count [of w r] by (auto simp: blocks_def Let_def split: sum.splits)

lemma not_blocks_template: "\<not> blocks env r w \<Longrightarrow> \<not> sameTemplateActive w r"
  by (simp add: blocks_iff)

lemma queueEntry_start_active:
  assumes "store_inv (idof w) (state w)" and "startsEntry env skip w r"
  shows "set (GetActive p (state (queueEntry env skip (Some r) w))) \<subseteq>
           set (GetActive p (state w)) \<union> (if projectOf w r = p then {r} else {})"
proof -
  have "set (GetActive p (state (queueEntry env skip (Some r) w))) =
      ran (activeMap (state (queueEntry env skip (Some r) w)) p)"
    using queueEntry_inv [OF assms(1)] by (rule GetActive_ran)
  also have "\<dots> \<subseteq> ran (activeMap (state w) p) \<union> (if projectOf w r = p then {r} else {})"
    unfolding queueEntry_start(3) [OF assms(2)] by (auto simp: ran_def split: if_splits)
  finally show ?thesis by (simp add: GetActive_ran [OF assms(1)])
qed

lemma queueEntry_exclusive:
  assumes inv: "store_inv (idof w) (state w)" and ex: "exclusiveTemplates p w"
    and ld: "templateLoaded w r"
  shows "exclusiveTemplates p (queueEntry env skip (Some r) w)"
proof (cases "startsEntry env skip w r")
  case True
  let ?w = "queueEntry env skip (Some r) w"
  note fr = passFrame_template [OF queueEntry_frame [of w env skip "Some r"]]
  note sub = queueEntry_start_active [OF inv True, of p]
  from True have "\<not> sameTemplateActive w r"
    unfolding startsEntry_def using not_blocks_template by blast
  then have new: "b = r"
    if "b \<in> set (GetActive p (state w)) \<union> (if projectOf w r = p then {r} else {})"
      "projectOf w r = p" "forbidsParallel w b"
      "Template_ID (TR_Template (heap w b)) = Template_ID (TR_Template (heap w r))" for b
    using that ld by (auto simp: sameTemplateActive_def forbidsParallel_def templateLoaded_def)
  show ?thesis
    unfolding exclusiveTemplates_def fr
  proof (intro ballI impI)
    fix a b assume ab: "a \<in> set (GetActive p (state ?w))" "b \<in> set (GetActive p (state ?w))"
      and h: "forbidsParallel w a \<and> forbidsParallel w b \<and>
        Template_ID (TR_Template (heap w a)) = Template_ID (TR_Template (heap w b))"
    show "a = b"
    proof (cases "projectOf w r = p \<and> (a = r \<or> b = r)")
      case True
      with new [of a] new [of b] ab sub h show ?thesis by auto
    next
      case False
      with ab sub have "a \<in> set (GetActive p (state w))" "b \<in> set (GetActive p (state w))"
        by (auto split: if_splits)
      with ex h show ?thesis unfolding exclusiveTemplates_def by blast
    qed
  qed
next
  case False
  have "GetActive p (state (queueEntry env skip (Some r) w)) = GetActive p (state w)"
    by (rule queueEntry_cases [of env skip r w]) (use False in \<open>auto simp: DequeueByID_def GetActive_def\<close>)
  with ex show ?thesis
    unfolding exclusiveTemplates_def passFrame_template [OF queueEntry_frame [of w env skip "Some r"]]
    by simp
qed

lemma queuePass_exclusive:
  assumes "store_inv (idof w) (state w)" and "exclusiveTemplates p w"
    and "\<And>r. Some r \<in> set (queue (state w)) \<Longrightarrow> templateLoaded w r"
  shows "exclusiveTemplates p (queuePass env skip w)"
proof -
  let ?P = "\<lambda>v. store_inv (idof w) (state v) \<and> exclusiveTemplates p v"
  have "?P (queuePass env skip w)"
  proof (rule queuePass_induct)
    fix e v assume e: "e \<in> set (queue (state w))" and f: "passFrame w v" and *: "?P v"
    have i: "idof v = idof w" using f by (rule passFrame_D)
    show "?P (queueEntry env skip e v)"
    proof (cases e)
      case (Some r)
      then have "templateLoaded v r" using assms(3) e passFrame_template(3) [OF f] by simp
      with * i Some show ?thesis
        using queueEntry_inv [of v env skip e] queueEntry_exclusive [of v p r env skip] by simp
    qed (use * in \<open>simp add: queueEntry_def\<close>)
  qed (use assms in simp)
  then show ?thesis ..
qed


subsection \<open>What happens to the queue\<close>

text \<open>
  On a queue of distinct tasks, a pass keeps, drops or starts each entry, in the order of the queue.
\<close>

definition droppedBy :: "ident \<Rightarrow> World \<Rightarrow> tref \<Rightarrow> bool" where
  "droppedBy skip w r \<longleftrightarrow> \<not> (skip \<noteq> 0 \<and> idof w r = skip) \<and> statusOf w r = TaskFailStatus"

lemma removeFirst_middle:
  assumes "distinct (map f (ks @ r # es))"
  shows "removeFirst (hasID f (f r)) (map Some (ks @ r # es)) = map Some (ks @ es)"
  using assms by (induction ks) auto

lemma find_middle:
  assumes "distinct (map f (ks @ r # es))"
  shows "find (hasID f (f r)) (map Some (ks @ r # es)) = Some (Some r)"
  using assms by (induction ks) auto

text \<open>One entry of such a queue: the two outcomes besides staying.\<close>

lemma queueEntry_middle:
  fixes env :: PoolEnv and skip :: ident
  assumes q: "queue (state w) = map Some (ks @ r # es)" and d: "distinct (map (idof w) (ks @ r # es))"
  defines "w' \<equiv> queueEntry env skip (Some r) w"
  shows "droppedBy skip w r \<Longrightarrow> queue (state w') = map Some (ks @ es)"
    and "startsEntry env skip w r \<Longrightarrow> queue (state w') = map Some (ks @ es)"
    and "\<not> droppedBy skip w r \<Longrightarrow> \<not> startsEntry env skip w r \<Longrightarrow>
           w' = w \<and> (blocks env r w \<or> (skip \<noteq> 0 \<and> idof w r = skip))"
proof -
  show "queue (state w') = map Some (ks @ es)" if "droppedBy skip w r"
  proof -
    have "w' = modState (DequeueByID (idof w) (idof w r)) w"
      unfolding w'_def using that by (auto simp add: queueEntry_def droppedBy_def)
    then show ?thesis using removeFirst_middle [OF d] by (simp add: q)
  qed
  show "queue (state w') = map Some (ks @ es)" if "startsEntry env skip w r"
    unfolding w'_def queueEntry_start(1) [OF that] q using removeFirst_middle [OF d] .
  have mem: "Some r \<in> set (queue (state w))" by (simp add: q)
  show "w' = w \<and> (blocks env r w \<or> (skip \<noteq> 0 \<and> idof w r = skip))"
    if nd: "\<not> droppedBy skip w r" and ns: "\<not> startsEntry env skip w r"
  proof -
    have "blocks env r w \<or> (skip \<noteq> 0 \<and> idof w r = skip)"
      using mem nd ns bexI [of "hasID (idof w) (idof w r)" "Some r"]
      by (auto simp: startsEntry_def droppedBy_def)
    moreover from this nd have "w' = w"
      unfolding w'_def by (auto simp: queueEntry_def droppedBy_def)
    ultimately show ?thesis by simp
  qed
qed

lemma passFrame_dropped: "passFrame w v \<Longrightarrow> droppedBy skip v = droppedBy skip w"
  by (simp add: droppedBy_def passFrame_def fun_eq_iff)

lemma droppedBy_nostart: "droppedBy skip w r \<Longrightarrow> \<not> startsEntry env skip w r"
  by (simp add: droppedBy_def startsEntry_def)

lemma fold_queueEntry_order:
  assumes "queue (state v) = map Some (ks @ es)" and "distinct (map (idof v) (ks @ es))"
  shows "\<exists>started. subseq started es \<and>
     spawned (fold (queueEntry env skip) (map Some es) v) = spawned v @ map GoRun started \<and>
     queue (state (fold (queueEntry env skip) (map Some es) v)) =
       map Some (ks @ filter (\<lambda>r. r \<notin> set started \<and> \<not> droppedBy skip v r) es) \<and>
     (\<forall>r\<in>set started. \<not> droppedBy skip v r \<and> (skip \<noteq> 0 \<longrightarrow> idof v r \<noteq> skip))"
  using assms
proof (induction es arbitrary: v ks)
  case (Cons r es)
  let ?v = "queueEntry env skip (Some r) v"
  have fr: "passFrame v ?v" by (rule queueEntry_frame)
  have dr: "droppedBy skip ?v = droppedBy skip v" using fr by (rule passFrame_dropped)
  have id: "idof ?v = idof v" using fr by (rule passFrame_D)
  have notin: "r \<notin> set es" using Cons.prems(2) by auto
  note mid = queueEntry_middle [OF Cons.prems, where skip = skip and env = env]
  show ?case
  proof (cases "droppedBy skip v r \<or> startsEntry env skip v r")
    case True
    then have q: "queue (state ?v) = map Some (ks @ es)" using mid(1,2) by blast
    from Cons.IH [OF q] Cons.prems(2) obtain started where st: "subseq started es"
      "spawned (fold (queueEntry env skip) (map Some es) ?v) = spawned ?v @ map GoRun started"
      "queue (state (fold (queueEntry env skip) (map Some es) ?v)) =
         map Some (ks @ filter (\<lambda>r. r \<notin> set started \<and> \<not> droppedBy skip v r) es)"
      "\<forall>r\<in>set started. \<not> droppedBy skip v r \<and> (skip \<noteq> 0 \<longrightarrow> idof v r \<noteq> skip)"
      by (auto simp: id dr)
    show ?thesis
    proof (cases "startsEntry env skip v r")
      case True
      have "filter (\<lambda>r'. r' \<notin> set (r # started) \<and> \<not> droppedBy skip v r') (r # es) =
          filter (\<lambda>r'. r' \<notin> set started \<and> \<not> droppedBy skip v r') es"
        using notin by (auto intro: filter_cong)
      with st True queueEntry_start(4) [OF True] show ?thesis
        using droppedBy_nostart [of skip v r env]
        by (intro exI [of _ "r # started"]) (auto simp: startsEntry_def)
    next
      case False
      with True have d: "droppedBy skip v r" by simp
      from st(1) have "subseq started (r # es)" by (rule list_emb_Cons)
      with st d queueEntry_nostart(3) [OF False] show ?thesis
        by (intro exI [of _ started]) auto
    qed
  next
    case False
    then have v: "?v = v" using mid(3) by blast
    from Cons.IH [of v "ks @ [r]"] Cons.prems obtain started where st: "subseq started es"
      "spawned (fold (queueEntry env skip) (map Some es) v) = spawned v @ map GoRun started"
      "queue (state (fold (queueEntry env skip) (map Some es) v)) =
         map Some ((ks @ [r]) @ filter (\<lambda>r. r \<notin> set started \<and> \<not> droppedBy skip v r) es)"
      "\<forall>r\<in>set started. \<not> droppedBy skip v r \<and> (skip \<noteq> 0 \<longrightarrow> idof v r \<noteq> skip)"
      by auto
    have "r \<notin> set started" using notin list_emb_set [OF st(1), of r] by auto
    moreover from st(1) have "subseq started (r # es)" by (rule list_emb_Cons)
    ultimately show ?thesis using st False v by (intro exI [of _ started]) auto
  qed
qed simp


lemma queuePass_order:
  assumes "queue (state w) = map Some qs" and "distinct (map (idof w) qs)"
  shows "\<exists>started. subseq started qs \<and>
     spawned (queuePass env skip w) = spawned w @ map GoRun started \<and>
     queue (state (queuePass env skip w)) =
       map Some (filter (\<lambda>r. r \<notin> set started \<and> \<not> droppedBy skip w r) qs) \<and>
     (\<forall>r\<in>set started. \<not> droppedBy skip w r \<and> (skip \<noteq> 0 \<longrightarrow> idof w r \<noteq> skip))"
  using fold_queueEntry_order [of w "[]" qs env skip] assms
  by (simp add: queuePass_def QueueRange_def)

subsection \<open>A pass starts all it may start\<close>

text \<open>
  The tasks of a pass have IDs of their own: no queued task shares its ID with another task that
  is active.
\<close>

definition ownIDs :: "tref set \<Rightarrow> World \<Rightarrow> bool" where
  "ownIDs Q w \<longleftrightarrow>
     (\<forall>p. \<forall>a\<in>set (GetActive p (state w)). \<forall>b\<in>Q. idof w a = idof w b \<longrightarrow> a = b)"

lemma activeMap_id:
  assumes "store_inv f s" and "activeMap s p i = Some a" shows "f a = i"
proof -
  obtain m where m: "map_of (activeProj s) p = Some m" "map_of m i = Some a"
    using assms(2) by (auto simp: activeMap_def split: option.splits)
  have "keyedByID f m" using store_inv_active [OF assms(1) m(1)] by simp
  with m(2) show ?thesis unfolding keyedByID_def by (blast dest: map_of_SomeD)
qed

lemma queueEntry_start_grows:
  assumes inv: "store_inv (idof w) (state w)" and st: "startsEntry env skip w r"
    and own: "ownIDs Q w" and Q: "r \<in> Q"
  defines "w' \<equiv> queueEntry env skip (Some r) w"
  shows "RunningCount (state w) \<le> RunningCount (state w')"
    and "ActiveCount p (state w) \<le> ActiveCount p (state w')"
    and "set (GetActive p (state w)) \<subseteq> set (GetActive p (state w'))"
proof -
  have inv': "store_inv (idof w) (state w')" unfolding w'_def using inv by (rule queueEntry_inv)
  show "RunningCount (state w) \<le> RunningCount (state w')"
    unfolding RunningCount_card [OF inv'] RunningCount_card [OF inv]
    unfolding w'_def queueEntry_start(2) [OF st]
    by (simp add: card_insert_le finite_dom_map_of)
  have fin: "finite (dom (activeMap (state w) p))"
    by (simp add: activeMap_def finite_dom_map_of split: option.splits)
  show "ActiveCount p (state w) \<le> ActiveCount p (state w')"
    unfolding ActiveCount_card [OF inv'] ActiveCount_card [OF inv]
    unfolding w'_def queueEntry_start(3) [OF st] using fin
    by (auto simp: card_insert_le)
  show "set (GetActive p (state w)) \<subseteq> set (GetActive p (state w'))"
  proof
    fix a assume a: "a \<in> set (GetActive p (state w))"
    then obtain i where i: "activeMap (state w) p i = Some a"
      unfolding GetActive_ran [OF inv] by (auto simp: ran_def)
    have "idof w a = i" using inv i by (rule activeMap_id)
    with own a Q have "i = idof w r \<Longrightarrow> a = r" unfolding ownIDs_def by blast
    with i have "activeMap (state w') p i = Some a"
      unfolding w'_def queueEntry_start(3) [OF st] by auto
    then show "a \<in> set (GetActive p (state w'))"
      unfolding GetActive_ran [OF inv'] by (rule ranI)
  qed
qed

lemma blocks_mono:
  assumes f: "passFrame w v" and "RunningCount (state w) \<le> RunningCount (state v)"
    and "\<And>p. ActiveCount p (state w) \<le> ActiveCount p (state v)"
    and "\<And>p. set (GetActive p (state w)) \<subseteq> set (GetActive p (state v))"
    and "blocks env r w"
  shows "blocks env r v"
proof -
  have tpl: "\<And>a. TR_Template (heap v a) = TR_Template (heap w a)" "\<And>a. TR_Task (heap v a) = TR_Task (heap w a)"
    using f by (simp_all add: passFrame_def)
  have same: "sameTemplateActive w r \<Longrightarrow> sameTemplateActive v r"
    unfolding sameTemplateActive_def tpl passFrame_D [OF f] using assms(4) by blast
  show ?thesis
    using assms(5) same assms(2) assms(3) [of "projectOf w r"]
    unfolding blocks_iff passFrame_D [OF f] by fastforce
qed


text \<open>What a pass keeps true of a queued task that is blocked, and of the IDs.\<close>

lemma queueEntry_keeps_blocked:
  fixes env :: PoolEnv and skip :: ident
  assumes inv: "store_inv (idof w) (state w)" and own: "ownIDs Q w" and Q: "r \<in> Q"
  defines "w' \<equiv> queueEntry env skip (Some r) w"
  shows "blocks env b w \<Longrightarrow> blocks env b w'" and "inj_on (idof w) Q \<Longrightarrow> ownIDs Q w'"
proof -
  have f: "passFrame w w'" unfolding w'_def by (rule queueEntry_frame)
  have nostart: "GetActive p (state w') = GetActive p (state w)" if "\<not> startsEntry env skip w r" for p
    unfolding w'_def by (rule queueEntry_cases [of env skip r w])
      (use that in \<open>auto simp: DequeueByID_def GetActive_def\<close>)
  show "blocks env b w'" if "blocks env b w"
  proof (cases "startsEntry env skip w r")
    case True
    note g = queueEntry_start_grows [OF inv True own Q, folded w'_def]
    show ?thesis using f g that by (rule blocks_mono)
  next
    case False
    show ?thesis
    proof (rule blocks_mono [OF f _ _ _ that])
      show "RunningCount (state w) \<le> RunningCount (state w')"
        using queueEntry_nostart(1) [OF False] by (simp add: RunningCount_def w'_def)
      show "ActiveCount p (state w) \<le> ActiveCount p (state w')" for p
        using queueEntry_nostart(5) [OF False] by (simp add: w'_def)
    qed (simp add: nostart [OF False])
  qed
  show "ownIDs Q w'" if inj: "inj_on (idof w) Q"
    unfolding ownIDs_def passFrame_D [OF f]
  proof (intro allI ballI impI)
    fix p a b assume a: "a \<in> set (GetActive p (state w'))" and b: "b \<in> Q" "idof w a = idof w b"
    have "a \<in> set (GetActive p (state w)) \<or> a = r"
      using a nostart queueEntry_start_active [OF inv, of env skip r p]
      unfolding w'_def by (cases "startsEntry env skip w r") (auto split: if_splits)
    with own b inj Q show "a = b" unfolding ownIDs_def by (auto dest: inj_onD)
  qed
qed

lemma fold_queueEntry_conserving:
  assumes "queue (state v) = map Some (ks @ es)" and "distinct (map (idof v) (ks @ es))"
    and "store_inv (idof v) (state v)" and "ownIDs Q v" and "set (ks @ es) \<subseteq> Q" and "inj_on (idof v) Q"
    and "\<forall>r\<in>set ks. blocks env r v \<or> (skip \<noteq> 0 \<and> idof v r = skip)"
  defines "w' \<equiv> fold (queueEntry env skip) (map Some es) v"
  shows "\<forall>r. Some r \<in> set (queue (state w')) \<longrightarrow> blocks env r w' \<or> (skip \<noteq> 0 \<and> idof v r = skip)"
  using assms(1-7) unfolding w'_def
proof (induction es arbitrary: v ks)
  case (Cons r es)
  let ?v = "queueEntry env skip (Some r) v"
  have id: "idof ?v = idof v" by (rule passFrame_D(1) [OF queueEntry_frame])
  have rQ: "r \<in> Q" using Cons.prems(5) by simp
  note kb = queueEntry_keeps_blocked [OF Cons.prems(3,4) rQ, where env = env and skip = skip]
  have inv': "store_inv (idof ?v) (state ?v)" unfolding id using Cons.prems(3) by (rule queueEntry_inv)
  have own': "ownIDs Q ?v" using kb(2) Cons.prems(6) .
  note mid = queueEntry_middle [OF Cons.prems(1,2), where skip = skip and env = env]
  have ks': "\<forall>x\<in>set ks. blocks env x ?v \<or> (skip \<noteq> 0 \<and> idof ?v x = skip)"
    using Cons.prems(7) kb(1) unfolding id by blast
  show ?case
  proof (cases "droppedBy skip v r \<or> startsEntry env skip v r")
    case True
    then have q: "queue (state ?v) = map Some (ks @ es)" using mid(1,2) by blast
    show ?thesis
      using Cons.IH [OF q _ inv' own' _ _ ks'] Cons.prems(2,5,6) by (simp add: id)
  next
    case False
    then have v: "?v = v" "blocks env r v \<or> (skip \<noteq> 0 \<and> idof v r = skip)" using mid(3) by blast+
    show ?thesis
      using Cons.IH [of v "ks @ [r]"] Cons.prems v by simp
  qed
qed auto

lemma queuePass_conserving:
  assumes "queue (state w) = map Some qs" and d: "distinct (map (idof w) qs)"
    and "store_inv (idof w) (state w)" and "ownIDs (set qs) w"
    and "Some r \<in> set (queue (state (queuePass env skip w)))"
  shows "blocks env r (queuePass env skip w) \<or> (skip \<noteq> 0 \<and> idof w r = skip)"
proof -
  have "inj_on (idof w) (set qs)" using d by (simp add: distinct_map)
  then show ?thesis
    using fold_queueEntry_conserving [of w "[]" qs "set qs" env skip] assms
    by (simp add: queuePass_def QueueRange_def)
qed

end
