(* ===== verification/Pool_Frames.thy ===== *)
theory Pool_Frames
  imports Queue_Pass
begin

text \<open>
  Which operations leave the bookkeeping of the pool alone. An operation is \<^emph>\<open>quiet\<close> when it
  changes no store, sends no event and spawns nothing; it may change tasks (but neither their ID
  nor their project), allocate task runners, and register fresh ones.
\<close>

definition quiet :: "World \<Rightarrow> World \<Rightarrow> bool" where
  "quiet w w' \<longleftrightarrow>
     nextRef w \<le> nextRef w' \<and>
     (\<forall>r<nextRef w. idof w' r = idof w r \<and> projectOf w' r = projectOf w r) \<and>
     state w' = state w \<and> queueEvents w' = queueEvents w \<and> spawned w' = spawned w \<and>
     (\<exists>rs. register w' = register w @ rs \<and> (\<forall>r\<in>set rs. nextRef w \<le> r \<and> r < nextRef w'))"

named_theorems quiet_intros

lemma quiet_refl [simp, quiet_intros]: "quiet w w"
  by (simp add: quiet_def)

lemma quiet_trans: "quiet a b \<Longrightarrow> quiet b c \<Longrightarrow> quiet a c"
  unfolding quiet_def by (clarsimp; force)

lemma quiet_nextRef: "quiet w w' \<Longrightarrow> nextRef w \<le> nextRef w'"
  by (simp add: quiet_def)

lemma quietI:
  assumes "nextRef w' = nextRef w" "idof w' = idof w" "projectOf w' = projectOf w"
    "state w' = state w" "queueEvents w' = queueEvents w" "spawned w' = spawned w"
    "register w' = register w"
  shows "quiet w w'"
  using assms by (simp add: quiet_def)

lemma quiet_emit [quiet_intros]: "quiet w (emit es w)"
  by (rule quietI) (simp_all add: idof_def projectOf_def fun_eq_iff)

lemma quiet_Log [quiet_intros]: "quiet w (Log r msg w)" "quiet w (LogWithTime r at msg w)"
  by (rule quietI; simp add: idof_def projectOf_def fun_eq_iff)+

lemma quiet_db [quiet_intros]: "quiet w (w\<lparr>db := d\<rparr>)"
  by (rule quietI) (simp_all add: idof_def projectOf_def fun_eq_iff)

lemma quiet_modRunner:
  assumes "\<And>t. Task_ID (TR_Task (f t)) = Task_ID (TR_Task t)"
    "\<And>t. Task_ProjectID (TR_Task (f t)) = Task_ProjectID (TR_Task t)"
  shows "quiet w (modRunner r f w)"
  using assms by (intro quietI) (simp_all add: idof_def projectOf_def fun_eq_iff)

lemma quiet_modTask:
  assumes "\<And>t. Task_ID (f t) = Task_ID t" "\<And>t. Task_ProjectID (f t) = Task_ProjectID t"
  shows "quiet w (modTask r f w)"
  unfolding modTask_def using assms by (intro quiet_modRunner) simp_all

lemma quiet_NewTaskRunner:
  "NewTaskRunner t u w = (r, w') \<Longrightarrow> quiet w w' \<and> r = nextRef w \<and> nextRef w' = Suc r"
  by (auto simp: NewTaskRunner_def quiet_def idof_def projectOf_def)

lemma quiet_SetStatus: "SetStatus env r s w = Some w' \<Longrightarrow> quiet w w'"
proof (cases "acceptsTransition (statusOf w r) s")
  case True
  assume s: "SetStatus env r s w = Some w'"
  note acc = SetStatus_accepted [OF s True]
  show ?thesis
    using acc(1,2) by (intro quietI) (auto simp: sameRest_def idof_def projectOf_def fun_eq_iff)
qed (simp add: SetStatus_refused)

lemma quiet_saveStatus: "saveStatus r w = Some w' \<Longrightarrow> quiet w w'"
  using saveStatus_Some(1,2)
  by (intro quietI) (auto simp: sameRest_def idof_def projectOf_def fun_eq_iff)

lemma createTaskEvent_frame [simp, frame_simps]:
  "heap (createTaskEvent r w) = heap w" "nextRef (createTaskEvent r w) = nextRef w"
  "state (createTaskEvent r w) = state w" "queueEvents (createTaskEvent r w) = queueEvents w"
  "register (createTaskEvent r w) = register w" "spawned (createTaskEvent r w) = spawned w"
  "metrics (createTaskEvent r w) = metrics w" "now (createTaskEvent r w) = now w"
  unfolding createTaskEvent_def Let_def by (simp_all split: sum.split)

lemma quiet_createTaskEvent [quiet_intros]: "quiet w (createTaskEvent r w)"
  by (rule quietI) (simp_all add: idof_def projectOf_def fun_eq_iff)

lemma quiet_prepareError: "prepareError env r err m w = Some (e, w') \<Longrightarrow> quiet w w'"
  by (auto simp: prepareError_def quiet_intros split: if_splits)

lemma quiet_set [quiet_intros]:
  "quiet w (setTemplate r tpl w)" "quiet w (setInventory r i w)" "quiet w (setRepository r repo w)"
  "quiet w (setJob env s r w)"
  unfolding setTemplate_def setInventory_def setRepository_def setJob_def
  by (rule quiet_modRunner; simp)+

lemma quiet_andThen:
  assumes "andThen m f = Some (e, w')" and "\<And>e v. m = Some (e, v) \<Longrightarrow> quiet w v"
    and "\<And>v e w'. f v = Some (e, w') \<Longrightarrow> quiet v w'"
  shows "quiet w w'"
  using assms
  by (auto simp: andThen_def split: option.splits prod.splits intro: quiet_trans)

lemma quiet_loadUsers: "loadUsers env r w = Some (e, w') \<Longrightarrow> quiet w w'"
proof -
  assume a: "loadUsers env r w = Some (e, w')"
  have m: "quiet w (modRunner r (\<lambda>t. t\<lparr>TR_alert := x, TR_alertChat := y\<rparr>) w)"
    "quiet w (modRunner r (\<lambda>t. t\<lparr>TR_users := us\<rparr>) w)" for x y us w
    by (rule quiet_modRunner; simp)+
  from a show ?thesis
    unfolding loadUsers_def Let_def
    by (auto split: sum.splits intro: m quiet_trans [OF m(1)] dest: quiet_prepareError)
qed

lemma quiet_templateInventory: "templateInventory env r w = Some (e, w') \<Longrightarrow> quiet w w'"
  unfolding templateInventory_def Let_def
  by (auto split: option.splits sum.splits intro: quiet_intros
      dest: quiet_trans [OF quiet_set(2) quiet_prepareError])

lemma quiet_loadInventory: "loadInventory env r w = Some (e, w') \<Longrightarrow> quiet w w'"
  unfolding loadInventory_def Let_def
  by (auto split: option.splits sum.splits bool.splits intro: quiet_intros
      dest: quiet_templateInventory quiet_trans [OF quiet_set(2) quiet_templateInventory])

lemma quiet_loadRepository: "loadRepository env r w = (e, w') \<Longrightarrow> quiet w w'"
  unfolding loadRepository_def Let_def
  by (auto split: sum.splits intro: quiet_intros)

lemma quiet_loadEnvironments: "loadEnvironments env r w = (e, w') \<Longrightarrow> quiet w w'"
  unfolding loadEnvironments_def Let_def
  by (auto split: sum.splits if_splits intro!: quiet_modRunner)

lemma quiet_populateTaskEnvironment: "populateTaskEnvironment env r w = (e, w') \<Longrightarrow> quiet w w'"
  unfolding populateTaskEnvironment_def Let_def
  by (auto split: option.splits if_splits intro!: quiet_modRunner)

lemma quiet_populateDetails: "populateDetails env r w = Some (e, w') \<Longrightarrow> quiet w w'"
proof -
  assume a: "populateDetails env r w = Some (e, w')"
  show ?thesis
  proof (cases "GetTemplate (Task_ProjectID (TR_Task (heap w r))) (Task_TemplateID (TR_Task (heap w r))) (db w)")
    case (Inl err)
    with a show ?thesis
      by (auto simp: populateDetails_def Let_def dest: quiet_trans [OF quiet_set(1) quiet_prepareError])
  next
    case (Inr tpl)
    with a have b: "andThen (loadUsers env r (setTemplate r tpl w))
            (\<lambda>w2. andThen (loadInventory env r w2)
            (\<lambda>w3. andThen (Some (loadRepository env r w3))
            (\<lambda>w4. andThen (Some (loadEnvironments env r w4))
            (\<lambda>w5. Some (populateTaskEnvironment env r w5))))) = Some (e, w')"
      by (simp add: populateDetails_def Let_def)
    have 4: "andThen (Some (loadEnvironments env r v)) (\<lambda>w5. Some (populateTaskEnvironment env r w5))
        = Some (e, v') \<Longrightarrow> quiet v v'" for e v v'
      by (erule quiet_andThen) (auto dest: quiet_loadEnvironments quiet_populateTaskEnvironment)
    have 3: "andThen (Some (loadRepository env r v)) (\<lambda>w4. andThen (Some (loadEnvironments env r w4))
        (\<lambda>w5. Some (populateTaskEnvironment env r w5))) = Some (e, v') \<Longrightarrow> quiet v v'" for e v v'
      by (erule quiet_andThen) (auto dest: quiet_loadRepository 4)
    have 2: "andThen (loadInventory env r v) (\<lambda>w3. andThen (Some (loadRepository env r w3))
        (\<lambda>w4. andThen (Some (loadEnvironments env r w4))
        (\<lambda>w5. Some (populateTaskEnvironment env r w5)))) = Some (e, v') \<Longrightarrow> quiet v v'" for e v v'
      by (erule quiet_andThen) (auto dest: quiet_loadInventory 3)
    from b show ?thesis
      by (rule quiet_andThen)
         (auto dest: quiet_trans [OF quiet_set(1) quiet_loadUsers] 2)
  qed
qed


subsection \<open>Creating tasks, looking them up\<close>

lemma quiet_launchTask:
  assumes "launchTask env t s u al w = Some (res, w')"
  shows "quiet w w'"
proof -
  obtain r w1 where n: "NewTaskRunner t u w = (r, w1)" by fastforce
  note nq = quiet_NewTaskRunner [OF n]
  define w2 where "w2 = (if al then modRunner r (\<lambda>t. t\<lparr>TR_Alias := random_String env\<rparr>) w1 else w1)"
  have q2: "quiet w w2" "nextRef w2 = Suc (nextRef w)"
    using nq quiet_trans [OF _ quiet_modRunner] by (auto simp: w2_def)
  have failed: "quiet w w'" if "quiet w v" "SetStatus env r x (Log r m v) = Some w'" for v x m
    by (rule quiet_trans [OF that(1) quiet_trans [OF quiet_Log(1) quiet_SetStatus [OF that(2)]]])
  obtain e w3 where p: "populateDetails env r w2 = Some (e, w3)"
    using assms n by (auto simp: launchTask_def w2_def Let_def split: option.splits prod.splits)
  have q3: "quiet w w3" using q2(1) quiet_populateDetails [OF p] by (rule quiet_trans)
  have reg: "quiet w (createTaskEvent r (v\<lparr>register := register v @ [r]\<rparr>))" if "quiet w3 v" for v
  proof -
    have "nextRef w2 \<le> nextRef v"
      using quiet_populateDetails [OF p] that quiet_nextRef le_trans by blast
    then have "r < nextRef v" using q2 nq by simp
    then have "quiet w (v\<lparr>register := register v @ [r]\<rparr>)"
      using quiet_trans [OF q3 that] nq by (auto simp: quiet_def idof_def projectOf_def)
    then show ?thesis using quiet_createTaskEvent by (rule quiet_trans)
  qed
  have sj: "quiet v (setJob env s r v)" "quiet v (setJob env s r (emit es v))" for v es
    by (blast intro: quiet_intros quiet_trans)+
  show ?thesis
    using assms n p q3 unfolding launchTask_def Let_def
    by (auto simp: w2_def [symmetric] split: option.splits if_splits
        intro: failed reg [OF sj(1)] reg [OF sj(2)])
qed

lemma quiet_AddTask:
  assumes "AddTask env t uid un p al w = Some (res, w')"
  shows "quiet w w'"
  using assms unfolding AddTask_def Let_def
  by (auto split: sum.splits option.splits if_splits prod.splits
      intro: quiet_intros dest!: quiet_trans [OF quiet_db quiet_launchTask])

lemma quiet_foldM:
  assumes "foldM f xs w = Some w'" and "\<And>x v v'. f x v = Some v' \<Longrightarrow> quiet v v'"
  shows "quiet w w'"
  by (rule foldM_invariant [OF assms(1), of "quiet w"]) (auto intro: quiet_trans assms(2))

lemma quiet_startAutorunTasks:
  assumes "startAutorunTasks env r w = Some w'"
  shows "quiet w w'"
proof -
  have "quiet v v'" if "autorunTask env r tpl v = Some v'" for tpl v v'
    using that unfolding autorunTask_def
    by (auto split: option.splits prod.splits intro: quiet_trans [OF quiet_AddTask quiet_Log(1)]
        dest: quiet_AddTask)
  with assms show ?thesis
    unfolding startAutorunTasks_def
    by (auto split: if_splits sum.splits intro: quiet_intros quiet_foldM)
qed

lemma quiet_refresh [quiet_intros]: "quiet w (refreshTaskStatusFromDB r w)" "quiet w (refreshIfHA env r w)"
proof -
  show "quiet w (refreshTaskStatusFromDB r w)"
    unfolding refreshTaskStatusFromDB_def
    by (auto split: sum.splits intro!: quiet_modTask simp: applyDBPersistedTaskSnapshot_def)
  then show "quiet w (refreshIfHA env r w)" by (simp add: refreshIfHA_def)
qed

lemma quiet_hydrateTaskRunner:
  assumes "hydrateTaskRunner env i p w = Some (res, w')"
  shows "quiet w w' \<and> (\<forall>r. res = Inr r \<longrightarrow> r < nextRef w')"
proof (cases "db_GetTask p i (db w)")
  case (Inr task)
  obtain r w1 where n: "NewTaskRunner task [] w = (r, w1)" by fastforce
  obtain e w2 where d: "populateDetails env r w1 = Some (e, w2)"
    using assms Inr n by (auto simp: hydrateTaskRunner_def split: option.splits)
  have q: "quiet w w2" "r < nextRef w2"
    using quiet_NewTaskRunner [OF n] quiet_populateDetails [OF d] quiet_trans quiet_nextRef
    by (blast, fastforce)
  have "quiet w2 (setJob env [] r (modTask r (\<lambda>t. applyDBPersistedTaskSnapshot t task) w2))"
    by (rule quiet_trans [OF quiet_modTask quiet_set(4)]) (simp_all add: applyDBPersistedTaskSnapshot_def)
  with q quiet_trans [OF q(1)] have
    "quiet w (setJob env [] r (modTask r (\<lambda>t. applyDBPersistedTaskSnapshot t task) w2))" by blast
  with assms Inr n d q show ?thesis
    by (auto simp: hydrateTaskRunner_def setJob_def split: option.splits)
qed (use assms in \<open>auto simp: hydrateTaskRunner_def\<close>)

lemma quiet_HydrateTaskRunnerFromDB:
  assumes "HydrateTaskRunnerFromDB env i w = Some (res, w')"
  shows "quiet w w' \<and> (\<forall>r. res = Inr r \<longrightarrow> r < nextRef w')"
proof (cases "GetTaskByID i (db w)")
  case (Inr row)
  then obtain res1 w1 where h: "hydrateTaskRunner env i (Task_ProjectID row) w = Some (res1, w1)"
    using assms by (auto simp: HydrateTaskRunnerFromDB_def split: option.splits)
  have m: "quiet w1 (modTask r (\<lambda>t. t\<lparr>Task_RunnerID := x\<rparr>) w1)" for r x
    by (rule quiet_modTask) simp_all
  from quiet_hydrateTaskRunner [OF h] assms Inr h show ?thesis
    by (auto simp: HydrateTaskRunnerFromDB_def split: sum.splits if_splits intro: quiet_trans m)
qed (use assms in \<open>auto simp: HydrateTaskRunnerFromDB_def\<close>)


lemma localTask_in_store:
  assumes "localTask w i = Some (Some r)"
  shows "idof w r = i" "Some r \<in> set (queue (state w)) \<or> r \<in> set (RunningRange (state w))"
proof -
  have sq: "idof w x = i \<and> Some x \<in> set es"
    if "searchQueue (idof w) i es = Some (Some x)" for es x
    using that
  proof (induction es)
    case (Cons e es)
    then show ?case by (cases e) (auto split: if_splits)
  qed simp
  show "idof w r = i" "Some r \<in> set (queue (state w)) \<or> r \<in> set (RunningRange (state w))"
    using assms sq unfolding localTask_def QueueRange_def
    by (auto split: option.splits dest!: find_Some_in)
qed

lemma quiet_GetTask:
  assumes "GetTask env i w = Some (res, w')"
  shows "quiet w w'"
  using assms unfolding GetTask_def
  by (auto split: option.splits if_splits sum.splits prod.splits dest!: quiet_HydrateTaskRunnerFromDB)

lemma GetTask_ref:
  assumes "GetTask env i w = Some (Inr (Some r), w')"
    and "{r. Some r \<in> set (queue (state w))} \<union> set (RunningRange (state w)) \<subseteq> {..<nextRef w}"
  shows "r < nextRef w'"
proof (cases "localTask w i")
  case (Some res)
  show ?thesis
  proof (cases res)
    case None
    with assms Some show ?thesis
      by (auto simp: GetTask_def split: option.splits if_splits sum.splits prod.splits
          dest!: quiet_HydrateTaskRunnerFromDB)
  next
    case (Some r')
    with assms \<open>localTask w i = Some res\<close> have "r = r'" "w' = w" by (simp_all add: GetTask_def)
    with Some \<open>localTask w i = Some res\<close> localTask_in_store(2) [of w i r] assms(2) show ?thesis
      by auto
  qed
qed (use assms in \<open>simp add: GetTask_def\<close>)

lemma quiet_kill: "kill r w = Some w' \<Longrightarrow> quiet w w'"
  unfolding kill_def
  by (auto split: option.splits Job.splits
      intro!: quiet_modRunner quiet_trans [OF _ quiet_emit])

lemma quiet_callRunnerWebhook: "callRunnerWebhook env rn r act w = (e, w') \<Longrightarrow> quiet w w'"
  unfolding callRunnerWebhook_def Let_def
  by (auto split: if_splits sum.splits intro: quiet_intros)

subsection \<open>The job of a runner\<close>

lemma quiet_scheduleTimeout [quiet_intros]: "quiet w (scheduleTimeout env i rn w)"
  by (simp add: scheduleTimeout_def quiet_intros)

lemma quiet_assignRunner:
  assumes "assignRunner env r rn i w = (e, w')"
  shows "quiet w w'"
proof -
  obtain e1 w1 where h: "callRunnerWebhook env rn r ''start'' w = (e1, w1)" by fastforce
  have m: "quiet w1 (modTask r (\<lambda>t. t\<lparr>Task_RunnerID := Some (Runner_ID rn)\<rparr>) w1)"
    by (rule quiet_modTask) simp_all
  note q = quiet_trans [OF quiet_callRunnerWebhook [OF h] quiet_trans [OF m quiet_Log(1)]]
  from assms h show ?thesis
    unfolding assignRunner_def Let_def
    by (auto split: option.splits sum.splits intro: q quiet_callRunnerWebhook
        quiet_trans [OF q quiet_trans [OF quiet_db quiet_scheduleTimeout]])
qed

lemma quiet_RemoteJob_Run:
  assumes "RemoteJob_Run env tag t un iv al w = Some (e, w')"
  shows "quiet w w'"
proof -
  obtain res w1 where g: "GetTask env (Task_ID t) w = Some (res, w1)"
    using assms by (auto simp: RemoteJob_Run_def split: option.splits)
  note q1 = quiet_GetTask [OF g]
  have m: "quiet w (modRunner r (\<lambda>t. t\<lparr>TR_IncomingVersion := a, TR_Username := b, TR_Alias := c\<rparr>) w1)"
    for r a b c by (rule quiet_trans [OF q1 quiet_modRunner]) simp_all
  from assms g q1 show ?thesis
    unfolding RemoteJob_Run_def Let_def
    by (auto split: option.splits sum.splits if_splits intro: m quiet_trans [OF m quiet_assignRunner])
qed

lemma quiet_failWith: "failWith env r m w = Some (b, w') \<Longrightarrow> quiet w w'"
  unfolding failWith_def by (auto intro: quiet_trans [OF quiet_Log(1) quiet_SetStatus])

lemma quiet_setLocal [quiet_intros]: "quiet w (setLocal r f w)"
  unfolding setLocal_def by (rule quiet_modRunner) simp_all

lemma quiet_signToken: "signToken env r w = Some (b, w') \<Longrightarrow> quiet w w'"
  unfolding signToken_def
  by (auto split: option.splits sum.splits if_splits intro: quiet_intros dest: quiet_failWith)

lemma quiet_prepareJob: "prepareJob env r w = Some (b, w') \<Longrightarrow> quiet w w'"
  unfolding prepareJob_def prepareLocal_def
  by (auto split: option.splits sum.splits Job.splits
      dest: quiet_failWith quiet_trans [OF quiet_setLocal quiet_signToken])

text \<open>
  What the pool needs of the local executor: it is quiet. It logs, reports statuses and runs
  processes.
\<close>

definition localRunQuiet :: "LocalRun \<Rightarrow> bool" where
  "localRunQuiet f \<longleftrightarrow> (\<forall>r un iv al w e w'. f r un iv al w = Some (e, w') \<longrightarrow> quiet w w')"

lemma quiet_Job_Run:
  assumes "localRunQuiet f" and "Job_Run env f r un iv w = Some (e, w')"
  shows "quiet w w'"
  using assms unfolding Job_Run_def localRunQuiet_def
  by (auto split: option.splits Job.splits dest: quiet_RemoteJob_Run)

end
