(* ===== verification/Pool_Machine.thy ===== *)
theory Pool_Machine
  imports Pool_Frames
begin

text \<open>
  The invariant of the pool (well-formed store, allocated pointers, the limit on running tasks) and the
  proofs that every handler of the pool, every goroutine and every reconciler pass keeps it.
\<close>

subsection \<open>The invariant\<close>

definition storeRefs :: "MemoryTaskStateStore \<Rightarrow> tref set" where
  "storeRefs s =
     {r. Some r \<in> set (queue s)} \<union> ran (map_of (running s)) \<union> (\<Union>p. ran (activeMap s p))"

fun goRef :: "goroutine \<Rightarrow> tref" where
  "goRef (GoRun r) = r"
| "goRef (GoFinalizeRemoteTask r _) = r"

text \<open>Every pointer that the pool holds is to an allocated task runner.\<close>

definition refsOK :: "World \<Rightarrow> bool" where
  "refsOK w \<longleftrightarrow>
     storeRefs (state w) \<union> set (register w) \<union> {r. \<exists>e\<in>set (queueEvents w). eventTask e = Some r} \<union>
       goRef ` set (spawned w) \<subseteq> {..<nextRef w}"

definition pool_inv :: "PoolEnv \<Rightarrow> World \<Rightarrow> bool" where
  "pool_inv env w \<longleftrightarrow> store_inv (idof w) (state w) \<and> refsOK w \<and> withinLimit env w"

definition keeps :: "PoolEnv \<Rightarrow> World \<Rightarrow> World \<Rightarrow> bool" where
  "keeps env w w' \<longleftrightarrow> pool_inv env w' \<and> nextRef w \<le> nextRef w'"

lemma keeps_trans: "keeps env a b \<Longrightarrow> keeps env b c \<Longrightarrow> keeps env a c"
  by (simp add: keeps_def)

lemma keeps_refl: "pool_inv env w \<Longrightarrow> keeps env w w"
  by (simp add: keeps_def)

lemma keeps_inv: "keeps env w w' \<Longrightarrow> pool_inv env w'"
  by (simp add: keeps_def)

lemma keeps_ref: "keeps env w w' \<Longrightarrow> r < nextRef w \<Longrightarrow> r < nextRef w'"
  by (simp add: keeps_def)

lemma store_inv_cong:
  assumes "store_inv f s" and eq: "\<And>r. r \<in> storeRefs s \<Longrightarrow> g r = f r"
  shows "store_inv g s"
proof -
  have keyed: "keyedByID g m" if "keyedByID f m" "ran (map_of m) \<subseteq> storeRefs s" for m
  proof -
    from that(1) have d: "distinct (map fst m)" by (simp add: keyedByID_def)
    have "g t = k" if "(k, t) \<in> set m" for k t
    proof -
      have "t \<in> ran (map_of m)" using that d by (force simp: ran_distinct)
      with \<open>ran (map_of m) \<subseteq> storeRefs s\<close> have "g t = f t" using eq by blast
      with \<open>keyedByID f m\<close> that show ?thesis by (auto simp: keyedByID_def)
    qed
    with d show ?thesis by (auto simp: keyedByID_def)
  qed
  have "keyedByID g (running s)"
    using assms(1) by (intro keyed) (auto simp: store_inv_def storeRefs_def)
  moreover have "keyedByID g m" if "(p, m) \<in> set (activeProj s)" for p m
  proof (rule keyed)
    show "keyedByID f m" using assms(1) that by (auto simp: store_inv_def)
    have "map_of (activeProj s) p = Some m" using assms(1) that by (simp add: store_inv_def)
    then have "activeMap s p = map_of m" by (simp add: activeMap_def)
    moreover have "ran (activeMap s p) \<subseteq> storeRefs s" by (auto simp: storeRefs_def)
    ultimately show "ran (map_of m) \<subseteq> storeRefs s" by simp
  qed
  ultimately show ?thesis using assms(1) by (auto simp: store_inv_def)
qed

lemma keeps_quiet:
  assumes inv: "pool_inv env w" and q: "quiet w w'"
  shows "keeps env w w'"
proof -
  have lt: "storeRefs (state w) \<subseteq> {..<nextRef w}" using inv by (simp add: pool_inv_def refsOK_def)
  have st: "state w' = state w" "nextRef w \<le> nextRef w'" using q by (simp_all add: quiet_def)
  have "store_inv (idof w') (state w')" unfolding st
    by (rule store_inv_cong [of "idof w"]) (use inv lt q in \<open>auto simp: pool_inv_def quiet_def\<close>)
  moreover have "refsOK w'"
    using inv q unfolding pool_inv_def refsOK_def quiet_def by fastforce
  ultimately show ?thesis using inv st by (simp add: keeps_def pool_inv_def withinLimit_def)
qed

lemma keeps_quiet_step: "keeps env w v \<Longrightarrow> quiet v v' \<Longrightarrow> keeps env w v'"
  by (blast intro: keeps_trans keeps_quiet keeps_inv)

subsection \<open>Changes of the store, events and goroutines\<close>

lemma keeps_state:
  assumes "pool_inv env w" and "store_inv (idof w) s" and "storeRefs s \<subseteq> {..<nextRef w}"
    and "RunningCount s \<le> RunningCount (state w)"
  shows "keeps env w (w\<lparr>state := s\<rparr>)"
proof -
  have "idof (w\<lparr>state := s\<rparr>) = idof w" by (simp add: idof_def fun_eq_iff)
  with assms show ?thesis
    unfolding keeps_def pool_inv_def refsOK_def withinLimit_def by auto
qed

lemma pool_inv_parts:
  assumes "pool_inv env w"
  shows "store_inv (idof w) (state w)" "storeRefs (state w) \<subseteq> {..<nextRef w}"
  using assms by (simp_all add: pool_inv_def refsOK_def)

lemma modState_eq: "modState f w = w\<lparr>state := f (state w)\<rparr>"
  by (simp add: modState_def)

lemma keeps_DequeueByID: "pool_inv env w \<Longrightarrow> keeps env w (modState (DequeueByID (idof w) i) w)"
  unfolding modState_eq using pool_inv_parts [of env w]
  by (intro keeps_state)
     (auto simp: store_inv_intros storeRefs_def RunningCount_def
       dest!: subsetD [OF set_removeFirst_subset])

lemma keeps_Enqueue:
  assumes "pool_inv env w" and "\<And>r. e = Some r \<Longrightarrow> r < nextRef w"
  shows "keeps env w (modState (Enqueue e) w)"
  unfolding modState_eq using pool_inv_parts [OF assms(1)] assms
  by (intro keeps_state) (auto simp: store_inv_intros storeRefs_def RunningCount_def)

lemma storeRefs_finalize [simp]:
  "storeRefs (snd (TryFinalize i s)) = storeRefs s" "storeRefs (DeleteFinalize i s) = storeRefs s"
  by (simp_all add: storeRefs_def activeMap_def)

lemma keeps_TryFinalize:
  assumes "pool_inv env w" and "TryFinalize i (state w) = (b, s)"
  shows "keeps env w (w\<lparr>state := s\<rparr>)"
proof -
  have s: "s = snd (TryFinalize i (state w))" using assms(2) by simp
  show ?thesis
    unfolding s using assms(1) pool_inv_parts [OF assms(1)]
    by (intro keeps_state) (simp_all add: store_inv_intros RunningCount_def)
qed

lemma keeps_DeleteFinalize: "pool_inv env w \<Longrightarrow> keeps env w (modState (DeleteFinalize i) w)"
  unfolding modState_eq using pool_inv_parts [of env w]
  by (intro keeps_state) (simp_all add: store_inv_intros RunningCount_def)

lemma keeps_onTaskStop:
  assumes "pool_inv env w" shows "keeps env w (onTaskStop r w)"
proof -
  note p = pool_inv_parts [OF assms]
  let ?s = "state (onTaskStop r w)"
  have eq: "onTaskStop r w = w\<lparr>state := ?s\<rparr>"
    by (simp add: onTaskStop_def Let_def modState_def)
  have views: "queue ?s = queue (state w)" "map_of (running ?s) \<subseteq>\<^sub>m map_of (running (state w))"
    "\<And>p. activeMap ?s p \<subseteq>\<^sub>m activeMap (state w) p"
    using RemoveActive_activeMap [OF p(1)]
    by (auto simp: onTaskStop_def Let_def map_le_def dom_def)
  have count: "RunningCount ?s \<le> RunningCount (state w)"
  proof -
    have "running ?s = AList.delete (idof w r) (running (state w))"
      by (simp add: onTaskStop_def Let_def idof_def DeleteRunning_def)
    then show ?thesis by (simp add: RunningCount_def length_delete_le)
  qed
  have ran_le: "\<And>m m'. m \<subseteq>\<^sub>m m' \<Longrightarrow> ran m \<subseteq> ran m'"
    by (force simp: map_le_def ran_def dom_def)
  have "storeRefs ?s \<subseteq> storeRefs (state w)"
    unfolding storeRefs_def views(1)
    by (intro Un_mono UN_mono subset_refl ran_le [OF views(2)] ran_le [OF views(3)])
  with p(2) have "storeRefs ?s \<subseteq> {..<nextRef w}" by (rule subset_trans [rotated])
  then have "keeps env w (w\<lparr>state := ?s\<rparr>)"
    using assms onTaskStop_inv [OF p(1)] count by (intro keeps_state)
  then show ?thesis unfolding eq [symmetric] .
qed

lemma keeps_sendEvent:
  assumes "pool_inv env w" and "\<And>x. r = Some x \<Longrightarrow> x < nextRef w"
  shows "keeps env w (sendEvent e r w)"
proof -
  have "idof (sendEvent e r w) = idof w" by (simp add: idof_def fun_eq_iff)
  with assms show ?thesis
    unfolding keeps_def pool_inv_def refsOK_def withinLimit_def by auto
qed

lemma keeps_spawn:
  assumes "pool_inv env w" and "goRef g < nextRef w"
  shows "keeps env w (spawn g w)"
proof -
  have "idof (spawn g w) = idof w" by (simp add: idof_def fun_eq_iff)
  with assms show ?thesis
    unfolding keeps_def pool_inv_def refsOK_def withinLimit_def by auto
qed


subsection \<open>The handlers\<close>

lemma keeps_queuePass:
  assumes "pool_inv env w" shows "keeps env w (queuePass env skip w)"
proof -
  note p = pool_inv_parts [OF assms]
  have f: "passFrame w (queuePass env skip w)" by (rule queuePass_frame)
  let ?P = "\<lambda>v. store_inv (idof w) (state v) \<and> storeRefs (state v) \<subseteq> {..<nextRef w} \<and>
      goRef ` set (spawned v) \<subseteq> {..<nextRef w}"
  have "?P (queuePass env skip w)"
  proof (rule queuePass_induct [of ?P])
    show "?P w" using p assms by (simp add: pool_inv_def refsOK_def)
    fix e v assume e: "e \<in> set (queue (state w))" and fv: "passFrame w v" and P: "?P v"
    have iv: "idof v = idof w" using fv by (rule passFrame_D)
    have inv': "store_inv (idof w) (state (queueEntry env skip e v))"
      using queueEntry_inv [of v env skip e] P iv by simp
    show "?P (queueEntry env skip e v)"
    proof (cases e)
      case (Some r)
      have r: "r < nextRef w" using e Some p(2) by (auto simp: storeRefs_def)
      show ?thesis
      proof (cases "startsEntry env skip v r")
        case True
        note st = queueEntry_start [OF True]
        have "storeRefs (state (queueEntry env skip (Some r) v)) \<subseteq> insert r (storeRefs (state v))"
          unfolding storeRefs_def st
          by (auto simp: ran_def dest!: subsetD [OF set_removeFirst_subset] split: if_splits)
        with P r inv' show ?thesis unfolding Some st(4) by (auto simp: image_Un)
      next
        case False
        note ns = queueEntry_nostart [OF False]
        have "storeRefs (state (queueEntry env skip (Some r) v)) \<subseteq> storeRefs (state v)"
          unfolding storeRefs_def ns(1,2) using ns(4) by blast
        with P inv' show ?thesis unfolding Some ns(3) by blast
      qed
    qed (use P in \<open>simp add: queueEntry_def\<close>)
  qed
  moreover have "withinLimit env (queuePass env skip w)"
    using assms by (intro queuePass_limit) (simp_all add: pool_inv_def)
  ultimately show ?thesis
    using assms f by (auto simp: keeps_def pool_inv_def refsOK_def passFrame_def)
qed

lemma keeps_thenPass: "keeps env w v \<Longrightarrow> keeps env w (queuePass env k v)"
  using keeps_trans [OF _ keeps_queuePass [OF keeps_inv]] by blast

lemma keeps_handleQueue:
  assumes inv: "pool_inv env w" and "handleQueue env w = Some w'"
  shows "keeps env w w'"
proof (cases "queueEvents w")
  case Nil
  with assms show ?thesis by (simp add: handleQueue_def keeps_refl)
next
  case (Cons ev evs)
  let ?w = "w\<lparr>queueEvents := evs\<rparr>"
  have i: "idof ?w = idof w" by (simp add: idof_def fun_eq_iff)
  have k0: "keeps env w ?w"
    using inv Cons i by (auto simp: keeps_def pool_inv_def refsOK_def withinLimit_def)
  have ev: "handleQueueEvent env ev ?w = Some w'" using assms Cons by (simp add: handleQueue_def)
  have ref: "\<And>r. eventTask ev = Some r \<Longrightarrow> r < nextRef ?w"
    using inv Cons by (auto simp: pool_inv_def refsOK_def)
  have stop: "keeps env w (queuePass env k (onTaskStop r ?w))" for k r
    using k0 by (intro keeps_thenPass keeps_trans [OF k0 keeps_onTaskStop] keeps_inv)
  have pass: "keeps env w (queuePass env k ?w)" for k
    using k0 by (rule keeps_thenPass)
  have enq: "keeps env w (queuePass env k (modState (Enqueue (eventTask ev)) ?w))" for k
    using ref by (intro keeps_thenPass keeps_trans [OF k0 keeps_Enqueue] keeps_inv [OF k0]) blast
  from ev show ?thesis
    unfolding handleQueueEvent_def
    by (auto simp: Let_def split: EventType.splits option.splits intro: stop pass enq)
qed

lemma keeps_finishRun:
  assumes inv: "pool_inv env w" and r: "r < nextRef w" and "finishRun env r w = Some w'"
  shows "keeps env w w'"
proof -
  let ?w1 = "modTask r (\<lambda>t. t\<lparr>Task_End := Some (now w)\<rparr>) w"
  obtain w2 where s: "saveStatus r ?w1 = Some w2"
    using assms(3) by (auto simp: finishRun_def Let_def split: option.splits)
  have "quiet w ?w1" by (rule quiet_modTask) simp_all
  then have q2: "quiet w w2" using quiet_saveStatus [OF s] by (rule quiet_trans)
  let ?w4 = "createTaskEvent r (emit [SurveySecretsDeleted (projectOf w2 r) (idof w2 r)] w2)"
  have "quiet w ?w4"
    by (rule quiet_trans [OF q2 quiet_trans [OF quiet_emit quiet_createTaskEvent]])
  then have "keeps env w ?w4" using inv keeps_quiet by blast
  then have k5: "keeps env w (sendEvent EventTypeFinished (Some r) ?w4)"
    using r by (intro keeps_trans [OF _ keeps_sendEvent]) (auto simp: keeps_def)
  have q: "quiet v (Log r m (emit es v))" for v m es by (rule quiet_trans [OF quiet_emit quiet_Log(1)])
  from assms(3) s k5 show ?thesis
    unfolding finishRun_def Let_def
    by (auto split: option.splits intro: keeps_quiet_step [OF k5] quiet_emit q)
qed

lemma keeps_finalizeRemoteTaskLocked:
  assumes inv: "pool_inv env w" and r: "r < nextRef w"
    and "finalizeRemoteTaskLocked env r rn w = Some w'"
  shows "keeps env w w'"
proof -
  define w1 where "w1 = (if HAEnabled env then refreshTaskStatusFromDB r w else w)"
  have "quiet w w1" by (simp add: w1_def quiet_intros)
  then have k1: "keeps env w w1" using inv keeps_quiet by blast
  define w2 where "w2 = (case rn of None \<Rightarrow> w1 | Some x \<Rightarrow> snd (callRunnerWebhook env x r ''finish'' w1))"
  have "quiet w1 w2"
    using quiet_callRunnerWebhook [OF surjective_pairing] by (auto simp: w2_def split: option.splits)
  with k1 have k2: "keeps env w w2" by (rule keeps_quiet_step)
  show ?thesis
  proof (cases "HAEnabled env \<and> Task_End (TR_Task (heap w1 r)) \<noteq> None")
    case True
    with assms(3) have "w' = onTaskStop r w1"
      unfolding finalizeRemoteTaskLocked_def w1_def Let_def by (cases "HAEnabled env") auto
    then show ?thesis using keeps_trans [OF k1 keeps_onTaskStop [OF keeps_inv [OF k1]]] by simp
  next
    case False
    then have "Option.bind (finishRun env r w2) (startAutorunTasks env r) = Some w'"
      using assms(3) unfolding finalizeRemoteTaskLocked_def w2_def w1_def Let_def by (simp only: if_False)
    then obtain w3 where w3: "finishRun env r w2 = Some w3" "startAutorunTasks env r w3 = Some w'"
      by (auto dest: bind_SomeD)
    have "keeps env w w3"
      using keeps_trans [OF k2 keeps_finishRun [OF keeps_inv [OF k2] keeps_ref [OF k2 r] w3(1)]] .
    then show ?thesis using quiet_startAutorunTasks [OF w3(2)] by (rule keeps_quiet_step)
  qed
qed

text \<open>Both users of the finalize lock.\<close>

lemma keeps_locked:
  assumes inv: "pool_inv env w" and t: "TryFinalize i (state w) = (b, s)"
    and keep: "pool_inv env (w\<lparr>state := s\<rparr>) \<Longrightarrow> keeps env (w\<lparr>state := s\<rparr>) v"
  shows "keeps env w (modState (DeleteFinalize i) v)"
proof -
  have k0: "keeps env w (w\<lparr>state := s\<rparr>)" using inv t by (rule keeps_TryFinalize)
  have k1: "keeps env w v" using k0 keep [OF keeps_inv [OF k0]] by (rule keeps_trans)
  show ?thesis using k1 keeps_DeleteFinalize [OF keeps_inv [OF k1]] by (rule keeps_trans)
qed

lemma keeps_FinalizeRemoteTask:
  assumes inv: "pool_inv env w" and r: "r < nextRef w"
    and fin: "FinalizeRemoteTask env (Some r) rn w = Some w'"
  shows "keeps env w w'"
proof -
  obtain b s where t: "TryFinalize (idof w r) (state w) = (b, s)" by fastforce
  show ?thesis
  proof (cases b)
    case True
    with fin t obtain v where v: "finalizeRemoteTaskLocked env r rn (w\<lparr>state := s\<rparr>) = Some v"
      "w' = modState (DeleteFinalize (idof w r)) v"
      by (auto simp: FinalizeRemoteTask_def)
    show ?thesis unfolding v(2)
      by (rule keeps_locked [OF inv t]) (rule keeps_finalizeRemoteTaskLocked [OF _ _ v(1)], simp_all add: r)
  next
    case False
    with fin t inv show ?thesis by (simp add: FinalizeRemoteTask_def keeps_refl)
  qed
qed


subsection \<open>Control operations\<close>

lemma GetTask_ref_inv:
  assumes "pool_inv env w" and "GetTask env i w = Some (Inr (Some r), w')"
  shows "r < nextRef w'"
proof -
  note p = pool_inv_parts [OF assms(1)]
  have "{r. Some r \<in> set (queue (state w))} \<union> set (RunningRange (state w)) \<subseteq> {..<nextRef w}"
    using p(2) RunningRange_ran [OF p(1)] by (auto simp: storeRefs_def)
  with assms(2) show ?thesis by (rule GetTask_ref)
qed

lemma keeps_confirmWith:
  assumes "pool_inv env w" and "confirmWith s env i w = Some (e, w')"
  shows "keeps env w w'"
proof -
  obtain res w1 where g: "GetTask env i w = Some (res, w1)"
    using assms(2) by (auto simp: confirmWith_def split: option.splits)
  note q = quiet_GetTask [OF g]
  have "quiet w w'"
    using assms(2) g q unfolding confirmWith_def
    by (auto split: sum.splits option.splits intro: quiet_trans [OF q quiet_SetStatus])
  with assms(1) show ?thesis by (rule keeps_quiet)
qed

lemma keeps_stopTaskRunner:
  assumes inv: "pool_inv env w" and r: "r < nextRef w" and st: "stopTaskRunner env r f w = Some w'"
  shows "keeps env w w'"
proof -
  from st obtain w1 w2 where w: "SetStatus env r (if f then TaskStoppedStatus else TaskStoppingStatus) w = Some w1"
    "(if statusOf w r = TaskRunningStatus then kill r w1 else Some w1) = Some w2"
    "w' = (if f \<and> jobAsync w2 r \<and> IsFinished (statusOf w2 r)
           then spawn (GoFinalizeRemoteTask r None) w2 else w2)"
    unfolding stopTaskRunner_def Let_def by (auto dest!: bind_SomeD)
  have "quiet w1 w2" using w(2) quiet_kill by (auto split: if_splits)
  then have k: "keeps env w w2" using inv quiet_trans [OF quiet_SetStatus [OF w(1)]] keeps_quiet by blast
  show ?thesis
    unfolding w(3) using keeps_trans [OF k keeps_spawn [OF keeps_inv [OF k]]] keeps_ref [OF k r] k by simp
qed

lemma keeps_StopTask:
  assumes inv: "pool_inv env w" and st: "StopTask env t f w = Some (e, w')"
  shows "keeps env w w'"
proof -
  obtain res w1 where g: "GetTask env (Task_ID t) w = Some (res, w1)"
    using st by (auto simp: StopTask_def split: option.splits)
  have k1: "keeps env w w1" using inv quiet_GetTask [OF g] by (rule keeps_quiet)
  show ?thesis
  proof (cases "\<exists>r. res = Inr (Some r)")
    case True
    then obtain r where r: "res = Inr (Some r)" by blast
    with st g have "stopTaskRunner env r f w1 = Some w'" by (auto simp: StopTask_def)
    with GetTask_ref_inv [OF inv g [unfolded r]] keeps_inv [OF k1] k1 show ?thesis
      by (blast intro: keeps_trans keeps_stopTaskRunner)
  next
    case False
    obtain r w2 where n: "NewTaskRunner t [] w1 = (r, w2)" by fastforce
    have q2: "quiet w1 w2" using quiet_NewTaskRunner [OF n] by blast
    have "quiet w1 w'"
      using st g n q2 False unfolding StopTask_def
      by (auto split: sum.splits option.splits
          dest!: quiet_populateDetails quiet_SetStatus
          intro: quiet_trans [OF q2 quiet_trans [OF _ quiet_trans [OF _ quiet_createTaskEvent]]]
            quiet_trans [OF q2])
    with k1 show ?thesis by (rule keeps_quiet_step)
  qed
qed

text \<open>The loops of the bulk operations.\<close>

lemma keeps_foldM:
  assumes inv: "pool_inv env w" and fm: "foldM f xs st = Some st'" and st: "snd st = w"
    and step: "\<And>x s s'. x \<in> set xs \<Longrightarrow> keeps env w (snd s) \<Longrightarrow> f x s = Some s' \<Longrightarrow> keeps env (snd s) (snd s')"
  shows "keeps env w (snd st')"
  using fm
proof (rule foldM_invariant [of f xs st st' "\<lambda>s. keeps env w (snd s)"])
  show "keeps env w (snd st)" using inv st by (simp add: keeps_refl)
  fix x t t' assume "x \<in> set xs" "keeps env w (snd t)" "f x t = Some t'"
  then show "keeps env w (snd t')" using step keeps_trans by blast
qed

lemma keeps_stopQueued:
  assumes inv: "pool_inv env (snd st)" and "stopQueued env p t f e st = Some st'"
  shows "keeps env (snd st) (snd st')"
proof -
  obtain stopped w where st: "st = (stopped, w)" by (cases st)
  from assms show ?thesis
    unfolding st stopQueued_def Let_def
    by (auto split: option.splits if_splits
        intro: keeps_refl keeps_DequeueByID keeps_quiet [OF _ quiet_SetStatus])
qed

lemma keeps_stopRunning:
  assumes inv: "pool_inv env (snd st)" and r: "r < nextRef (snd st)"
    and "stopRunning env sel f r st = Some st'"
  shows "keeps env (snd st) (snd st')"
proof -
  obtain stopped w where st: "st = (stopped, w)" by (cases st)
  from assms show ?thesis
    unfolding st stopRunning_def Let_def
    by (auto split: if_splits intro: keeps_refl keeps_stopTaskRunner)
qed

lemma keeps_stopStored:
  assumes inv: "pool_inv env (snd st)" and ss: "stopStored env row st = Some st'"
  shows "keeps env (snd st) (snd st')"
proof -
  obtain stopped w where st: "st = (stopped, w)" by (cases st)
  have w: "pool_inv env w" using inv st by simp
  let ?fin = "\<lambda>r w. map_option
      (\<lambda>w1. (stopped, if jobAsync w1 r then spawn (GoFinalizeRemoteTask r None) w1 else createTaskEvent r w1))
      (SetStatus env r TaskStoppedStatus w)"
  have fin: "keeps env w (snd x)" if k: "keeps env w v" and r: "r < nextRef v" and x: "?fin r v = Some x" for r v x
  proof -
    from x obtain v1 where v1: "SetStatus env r TaskStoppedStatus v = Some v1"
      "x = (stopped, if jobAsync v1 r then spawn (GoFinalizeRemoteTask r None) v1 else createTaskEvent r v1)"
      by auto
    have k1: "keeps env w v1" using k quiet_SetStatus [OF v1(1)] by (rule keeps_quiet_step)
    have r1: "r < nextRef v1" using r quiet_nextRef [OF quiet_SetStatus [OF v1(1)]] by simp
    show ?thesis
      unfolding v1(2) using keeps_trans [OF k1 keeps_spawn [OF keeps_inv [OF k1]]] r1
        keeps_quiet_step [OF k1 quiet_createTaskEvent] by simp
  qed
  show ?thesis
  proof (cases "Task_ID row \<in> set stopped")
    case False
    obtain res w1 where g: "GetTask env (Task_ID row) w = Some (res, w1)"
      using ss st False by (auto simp: stopStored_def split: option.splits)
    have k1: "keeps env w w1" using w quiet_GetTask [OF g] by (rule keeps_quiet)
    obtain r2 w2 where n: "NewTaskRunner row [] w1 = (r2, w2)" by fastforce
    have n2: "keeps env w w2" "r2 < nextRef w2"
      using keeps_quiet_step [OF k1] quiet_NewTaskRunner [OF n] by auto
    consider err where "res = Inl err" | r where "res = Inr (Some r)" | "res = Inr None"
      by (cases res; cases "projr res") auto
    then show ?thesis
    proof cases
      case 1
      with ss st False g k1 show ?thesis by (auto simp: stopStored_def)
    next
      case (2 r)
      with ss st False g have "?fin r w1 = Some st'" by (simp add: stopStored_def)
      with fin [OF k1 GetTask_ref_inv [OF w g [unfolded 2]]] st show ?thesis by simp
    next
      case 3
      obtain e w3 where d: "populateDetails env r2 w2 = Some (e, w3)"
        using ss st False g n 3 by (auto simp: stopStored_def split: option.splits)
      have k3: "keeps env w w3" using n2(1) quiet_populateDetails [OF d] by (rule keeps_quiet_step)
      have r3: "r2 < nextRef w3" using n2(2) quiet_nextRef [OF quiet_populateDetails [OF d]] by simp
      show ?thesis
      proof (cases e)
        case None
        with ss st False g n 3 d have "?fin r2 w3 = Some st'" by (simp add: stopStored_def)
        with fin [OF k3 r3] st show ?thesis by simp
      next
        case (Some err)
        with ss st False g n 3 d k3 show ?thesis by (auto simp: stopStored_def)
      qed
    qed
  qed (use ss st w in \<open>auto simp: stopStored_def keeps_refl\<close>)
qed


lemma running_refs:
  assumes "pool_inv env w" and "r \<in> set (RunningRange (state w))"
  shows "r < nextRef w"
  using pool_inv_parts [OF assms(1)] assms(2) RunningRange_ran [of "idof w" "state w"]
  by (auto simp: storeRefs_def)

text \<open>The two later loops of both bulk operations.\<close>

lemma keeps_stopLoops:
  assumes k1: "keeps env w (snd st1)"
    and f2: "foldM (stopRunning env sel f) (RunningRange (state (snd st1))) st1 = Some st2"
    and f3: "foldM (\<lambda>row st. if P row then stopStored env row st else Some st) rows st2 = Some st3"
  shows "keeps env w (snd st2)" "keeps env w (snd st3)"
proof -
  have "keeps env (snd st1) (snd st2)"
    using running_refs [OF keeps_inv [OF k1]]
    by (intro keeps_foldM [OF keeps_inv [OF k1] f2])
       (auto intro!: keeps_stopRunning dest: keeps_inv keeps_ref)
  with k1 show k2: "keeps env w (snd st2)" by (rule keeps_trans)
  have "keeps env (snd st2) (snd st3)"
    by (intro keeps_foldM [OF keeps_inv [OF k2] f3])
       (auto intro: keeps_stopStored keeps_refl dest: keeps_inv split: if_splits)
  with k2 show "keeps env w (snd st3)" by (rule keeps_trans)
qed

lemma keeps_StopTasksByTemplate:
  assumes inv: "pool_inv env w" and st: "StopTasksByTemplate env p t f w = Some w'"
  shows "keeps env w w'"
proof -
  define w1 where "w1 = (case SetWaitingTasksToStopped p t (now w) (db w) of Inl _ \<Rightarrow> w | Inr d \<Rightarrow> w\<lparr>db := d\<rparr>)"
  have "quiet w w1" by (simp add: w1_def quiet_intros split: sum.splits)
  with inv have k0: "keeps env w w1" by (rule keeps_quiet)
  from st obtain st1 st2 where f: "foldM (stopQueued env p t f) (QueueRange (state w1)) ([], w1) = Some st1"
    "foldM (stopRunning env (\<lambda>w. ofTemplate w p t) f) (RunningRange (state (snd st1))) st1 = Some st2"
    "(case GetTemplateTasks p t UnfinishedTaskStatuses 0 (db (snd st2)) of
        Inl _ \<Rightarrow> Some (snd st2)
      | Inr rows \<Rightarrow> map_option snd (foldM (stopStored env) rows st2)) = Some w'"
    unfolding StopTasksByTemplate_def w1_def [symmetric] Let_def by (auto dest!: bind_SomeD)
  have "keeps env w1 (snd st1)"
    by (rule keeps_foldM [OF keeps_inv [OF k0] f(1)]) (auto intro: keeps_stopQueued dest: keeps_inv)
  with k0 have k1: "keeps env w (snd st1)" by (rule keeps_trans)
  note loops = keeps_stopLoops [OF k1 f(2), of "\<lambda>_. True", simplified]
  have "keeps env w (snd st2)" using loops(1) [of "[]"] by simp
  with f(3) loops(2) show ?thesis by (auto split: sum.splits)
qed

lemma keeps_stopQueuedRun:
  assumes inv: "pool_inv env (snd st)" and sq: "stopQueuedRun env p i e st = Some st'"
  shows "keeps env (snd st) (snd st')"
proof -
  obtain stopped w where st: "st = (stopped, w)" by (cases st)
  have "keeps env w (modState (DequeueByID (idof v) j) v)" if "SetStatus env r x w = Some v" for r x v j
  proof -
    have k: "keeps env w v" using inv st quiet_SetStatus [OF that] by (simp add: keeps_quiet)
    then show ?thesis using keeps_trans keeps_DequeueByID keeps_inv by blast
  qed
  with inv sq show ?thesis
    unfolding st stopQueuedRun_def Let_def
    by (auto split: option.splits if_splits intro: keeps_refl)
qed

lemma keeps_StopTasksByWorkflowRun:
  assumes inv: "pool_inv env w" and st: "StopTasksByWorkflowRun env p i f w = Some w'"
  shows "keeps env w w'"
proof -
  from st obtain st1 st2 where f: "foldM (stopQueuedRun env p i) (QueueRange (state w)) ([], w) = Some st1"
    "foldM (stopRunning env (belongsToRun p i) f) (RunningRange (state (snd st1))) st1 = Some st2"
    "(case GetProjectTasks p UnfinishedTaskStatuses 0 (db (snd st2)) of
        Inl _ \<Rightarrow> Some (snd st2)
      | Inr rows \<Rightarrow> map_option snd
          (foldM (\<lambda>row st. if Task_WorkflowRunID row \<noteq> Some i then Some st
                           else stopStored env row st) rows st2)) = Some w'"
    unfolding StopTasksByWorkflowRun_def by (auto dest!: bind_SomeD)
  have k1: "keeps env w (snd st1)"
    by (rule keeps_foldM [OF inv f(1)]) (auto intro: keeps_stopQueuedRun dest: keeps_inv)
  have swap: "(\<lambda>row st. if Task_WorkflowRunID row \<noteq> Some i then Some st else stopStored env row st) =
      (\<lambda>row st. if Task_WorkflowRunID row = Some i then stopStored env row st else Some st)"
    by (simp add: fun_eq_iff)
  note loops = keeps_stopLoops [OF k1 f(2), of "\<lambda>row. Task_WorkflowRunID row = Some i"]
  have "keeps env w (snd st2)" using loops(1) [of "[]"] by simp
  with f(3) loops(2) show ?thesis unfolding swap by (auto split: sum.splits)
qed

lemma keeps_stopLocalTask:
  assumes inv: "pool_inv env w" and st: "stopLocalTask env i w = Some w'"
  shows "keeps env w w'"
proof -
  have deq: "keeps env w (modState (DequeueByID (idof v) j) v)" if "SetStatus env r x w = Some v" for r x v j
    using keeps_quiet [OF inv quiet_SetStatus [OF that]] keeps_trans keeps_DequeueByID keeps_inv by blast
  have run: "keeps env w w'"
    if "find (\<lambda>r. idof w r = i \<and> \<not> IsFinished (statusOf w r)) (RunningRange (state w)) = Some r"
      "stopTaskRunner env r True w = Some w'" for r
    using that find_Some_in [OF that(1)] running_refs [OF inv] keeps_stopTaskRunner [OF inv] by blast
  from st deq inv show ?thesis
    unfolding stopLocalTask_def
    by (auto split: option.splits intro: keeps_refl run)
qed

subsection \<open>The task goroutine, the timer and the reconciler\<close>

lemma keeps_afterJob:
  assumes inv: "pool_inv env w" and r: "r < nextRef w" and a: "afterJob env r e w = Some (oc, w')"
  shows "keeps env w w'"
proof -
  have enq: "keeps env w (modState (Enqueue (Some r)) v)" if "SetStatus env r s w = Some v" for s v
  proof -
    have k: "keeps env w v" using inv quiet_SetStatus [OF that] by (rule keeps_quiet)
    then show ?thesis using r by (intro keeps_trans [OF k keeps_Enqueue] keeps_inv [OF k]) (auto simp: keeps_def)
  qed
  have auto1: "quiet w v" if "SetStatus env r s w = Some v1" "startAutorunTasks env r v1 = Some v" for s v1 v
    using that quiet_SetStatus quiet_startAutorunTasks quiet_trans by blast
  from a inv show ?thesis
    unfolding afterJob_def
    by (auto split: option.splits if_splits dest!: bind_SomeD
        intro: enq keeps_refl keeps_quiet [OF inv] quiet_SetStatus auto1 quiet_startAutorunTasks
          quiet_trans [OF quiet_Log(1) quiet_SetStatus])
qed


lemma keeps_runJob:
  assumes lq: "localRunQuiet lr" and inv: "pool_inv env w" and r: "r < nextRef w"
    and rj: "runJob env lr r w = Some (oc, w')"
  shows "keeps env w w'"
proof -
  from rj obtain iv ok w1 where w1: "prepareJob env r w = Some (ok, w1)"
    and rest: "(if \<not> ok then Some (Finish, w1)
        else do { (err, w2) \<leftarrow> Job_Run env lr r (usernameOf w r) iv w1; afterJob env r err w2 }) = Some (oc, w')"
    unfolding runJob_def by (auto dest!: bind_SomeD)
  have q1: "quiet w w1" using w1 by (rule quiet_prepareJob)
  show ?thesis
  proof (cases ok)
    case True
    with rest obtain err w2 where j: "Job_Run env lr r (usernameOf w r) iv w1 = Some (err, w2)"
      "afterJob env r err w2 = Some (oc, w')" by (auto dest!: bind_SomeD)
    have k2: "keeps env w w2" using inv quiet_trans [OF q1 quiet_Job_Run [OF lq j(1)]] by (rule keeps_quiet)
    from k2 keeps_afterJob [OF keeps_inv [OF k2] keeps_ref [OF k2 r] j(2)] show ?thesis by (rule keeps_trans)
  next
    case False
    with rest q1 inv show ?thesis by (auto intro: keeps_quiet)
  qed
qed

lemma keeps_runBody:
  assumes lq: "localRunQuiet lr" and inv: "pool_inv env w" and r: "r < nextRef w"
    and rb: "runBody env lr r w = Some (oc, w')"
  shows "keeps env w w'"
proof (cases "statusOf w r = TaskStoppingStatus")
  case True
  with rb show ?thesis
    by (auto simp: runBody_def intro: keeps_quiet [OF inv quiet_SetStatus])
next
  case False
  from rb False obtain w1 where w1: "SetStatus env r TaskStartingStatus w = Some w1"
    and rest: "runJob env lr r (Log r (startedMessage (createTaskEvent r w1) r) (createTaskEvent r w1)) = Some (oc, w')"
    unfolding runBody_def Let_def by (auto dest!: bind_SomeD)
  let ?v = "Log r (startedMessage (createTaskEvent r w1) r) (createTaskEvent r w1)"
  have "quiet w ?v"
    by (rule quiet_trans [OF quiet_SetStatus [OF w1] quiet_trans [OF quiet_createTaskEvent quiet_Log(1)]])
  then have k: "keeps env w ?v" using inv keeps_quiet by blast
  show ?thesis
    by (rule keeps_trans [OF k keeps_runJob [OF lq keeps_inv [OF k] keeps_ref [OF k r] rest]])
qed

lemma keeps_run:
  assumes lq: "localRunQuiet lr" and inv: "pool_inv env w" and r: "r < nextRef w"
    and rn: "run env lr r w = Some w'"
  shows "keeps env w w'"
proof -
  from rn obtain oc w1 where b: "runBody env lr r w = Some (oc, w1)"
    by (auto simp: run_def split: option.splits)
  have k: "keeps env w w1" using lq inv r b by (rule keeps_runBody)
  note ev = keeps_trans [OF k keeps_sendEvent [OF keeps_inv [OF k]]]
  from rn b k show ?thesis
    using keeps_ref [OF k r] keeps_trans [OF k keeps_finishRun [OF keeps_inv [OF k]]]
    by (auto simp: run_def split: RunOutcome.splits intro: ev)
qed

lemma keeps_timeoutFired:
  assumes inv: "pool_inv env w" and t: "timeoutFired env i rn w = Some w'"
  shows "keeps env w w'"
proof -
  obtain res w1 where g: "GetTask env i w = Some (res, w1)"
    using t by (auto simp: timeoutFired_def split: option.splits)
  have k1: "keeps env w w1" using inv quiet_GetTask [OF g] by (rule keeps_quiet)
  show ?thesis
  proof (cases "\<exists>r. res = Inr (Some r)")
    case True
    then obtain r where res: "res = Inr (Some r)" by blast
    let ?w2 = "if HAEnabled env then refreshTaskStatusFromDB r w1 else w1"
    have q2: "quiet w1 ?w2" by (simp add: quiet_intros)
    have k2: "keeps env w ?w2" using k1 q2 by (rule keeps_quiet_step)
    have r2: "r < nextRef ?w2"
      using GetTask_ref_inv [OF inv g [unfolded res]] quiet_nextRef [OF q2] by simp
    show ?thesis
    proof (cases "IsFinished (statusOf ?w2 r)")
      case True
      with t g res k2 show ?thesis by (simp add: timeoutFired_def Let_def split: if_splits)
    next
      case False
      with t g res obtain w3 where w3: "SetStatus env r TaskFailStatus (Log r ''Task timed out'' ?w2) = Some w3"
        "FinalizeRemoteTask env (Some r) (Some rn) w3 = Some w'"
        by (auto simp: timeoutFired_def Let_def dest!: bind_SomeD split: if_splits)
      have q3: "quiet ?w2 w3" using quiet_Log(1) quiet_SetStatus [OF w3(1)] by (rule quiet_trans)
      have k3: "keeps env w w3" using k2 q3 by (rule keeps_quiet_step)
      have r3: "r < nextRef w3" using r2 quiet_nextRef [OF q3] by simp
      show ?thesis
        by (rule keeps_trans [OF k3 keeps_FinalizeRemoteTask [OF keeps_inv [OF k3] r3 w3(2)]])
    qed
  next
    case False
    with t g k1 show ?thesis by (auto simp: timeoutFired_def split: sum.splits option.splits)
  qed
qed

lemma keeps_underFinalizeLock:
  assumes inv: "pool_inv env w" and u: "underFinalizeLock r act w = Some w'" and r: "r < nextRef w"
    and act: "\<And>v v'. pool_inv env v \<Longrightarrow> r < nextRef v \<Longrightarrow> act v = Some v' \<Longrightarrow> keeps env v v'"
  shows "keeps env w w'"
proof -
  obtain b s where t: "TryFinalize (idof w r) (state w) = (b, s)" by fastforce
  show ?thesis
  proof (cases b)
    case True
    with u t obtain v where v: "act (w\<lparr>state := s\<rparr>) = Some v" "w' = modState (DeleteFinalize (idof w r)) v"
      by (auto simp: underFinalizeLock_def)
    show ?thesis unfolding v(2)
      by (rule keeps_locked [OF inv t]) (rule act [OF _ _ v(1)], simp_all add: r)
  next
    case False
    with u t inv show ?thesis by (simp add: underFinalizeLock_def keeps_refl)
  qed
qed

lemma keeps_persistAndRequeue:
  assumes inv: "pool_inv env w" and r: "r < nextRef w" and p: "persistAndRequeue env r w = Some w'"
  shows "keeps env w w'"
proof -
  from p obtain w1 where w1: "SetStatus env r TaskWaitingStatus w = Some w1"
    and w': "w' = (case UpdateTask (TR_Task (heap w1 r)) (db w1) of
               Inl _ \<Rightarrow> w1
             | Inr d \<Rightarrow> sendEvent EventTypeRequeued (Some r) (modState (Enqueue (Some r)) (w1\<lparr>db := d\<rparr>)))"
    by (auto simp: persistAndRequeue_def)
  have k1: "keeps env w w1" using inv quiet_SetStatus [OF w1] by (rule keeps_quiet)
  have "keeps env w (sendEvent EventTypeRequeued (Some r) (modState (Enqueue (Some r)) (w1\<lparr>db := d\<rparr>)))" for d
  proof -
    have k2: "keeps env w (w1\<lparr>db := d\<rparr>)" using k1 quiet_db by (rule keeps_quiet_step)
    have k3: "keeps env w (modState (Enqueue (Some r)) (w1\<lparr>db := d\<rparr>))"
      by (rule keeps_trans [OF k2 keeps_Enqueue [OF keeps_inv [OF k2]]]) (use keeps_ref [OF k2 r] in simp)
    show ?thesis
      by (rule keeps_trans [OF k3 keeps_sendEvent [OF keeps_inv [OF k3]]]) (use keeps_ref [OF k3 r] in simp)
  qed
  with k1 show ?thesis unfolding w' by (simp split: sum.splits)
qed


lemma keeps_failTaskRunnerLost:
  assumes inv: "pool_inv env w" and r: "r < nextRef w" and f: "failTaskRunnerLost env r rn reason w = Some w'"
  shows "keeps env w w'"
  using inv f [unfolded failTaskRunnerLost_def] r
proof (rule keeps_underFinalizeLock)
  fix v v' assume iv: "pool_inv env v" and rv: "r < nextRef v"
    and a: "(let w1 = refreshIfHA env r v in
            if IsFinished (statusOf w1 r) then Some w1
            else let w2 = Log r (''Runner lost: '' @ reason) w1;
                     w3 = modTask r (\<lambda>t. t\<lparr>Task_Message := reason\<rparr>) w2;
                     w4 = (if rn = None then modTask r (\<lambda>t. t\<lparr>Task_RunnerID := None\<rparr>) w3 else w3)
                 in Option.bind (SetStatus env r TaskFailStatus w4)
                      (finalizeRemoteTaskLocked env r rn)) = Some v'"
  let ?w1 = "refreshIfHA env r v"
  let ?w3 = "modTask r (\<lambda>t. t\<lparr>Task_Message := reason\<rparr>) (Log r (''Runner lost: '' @ reason) ?w1)"
  let ?w4 = "if rn = None then modTask r (\<lambda>t. t\<lparr>Task_RunnerID := None\<rparr>) ?w3 else ?w3"
  have q1: "quiet v ?w1" by (rule quiet_refresh)
  have q3: "quiet v ?w3"
    by (rule quiet_trans [OF q1 quiet_trans [OF quiet_Log(1) quiet_modTask]]) simp_all
  have "quiet v (modTask r (\<lambda>t. t\<lparr>Task_RunnerID := None\<rparr>) ?w3)"
    by (rule quiet_trans [OF q3 quiet_modTask]) simp_all
  with q3 have q4: "quiet v ?w4" by simp
  show "keeps env v v'"
  proof (cases "IsFinished (statusOf ?w1 r)")
    case True
    with a q1 iv show ?thesis by (simp add: keeps_quiet)
  next
    case False
    from a False have "Option.bind (SetStatus env r TaskFailStatus ?w4) (finalizeRemoteTaskLocked env r rn) = Some v'"
      unfolding Let_def by (simp only: if_False)
    then obtain w5 where w5: "SetStatus env r TaskFailStatus ?w4 = Some w5"
      "finalizeRemoteTaskLocked env r rn w5 = Some v'"
      by (auto dest!: bind_SomeD)
    have k: "keeps env v w5" using iv quiet_trans [OF q4 quiet_SetStatus [OF w5(1)]] by (rule keeps_quiet)
    show ?thesis
      by (rule keeps_trans [OF k keeps_finalizeRemoteTaskLocked [OF keeps_inv [OF k] keeps_ref [OF k rv] w5(2)]])
  qed
qed

lemma keeps_requeueTaskRunnerOffline:
  assumes inv: "pool_inv env w" and r: "r < nextRef w"
    and f: "requeueTaskRunnerOffline env r i reason w = Some w'"
  shows "keeps env w w'"
  using inv f [unfolded requeueTaskRunnerOffline_def] r
proof (rule keeps_underFinalizeLock)
  fix v v' assume iv: "pool_inv env v" and rv: "r < nextRef v"
    and a: "(let w1 = refreshIfHA env r v in
            if \<not> notYetRunning (statusOf w1 r) then Some w1
            else if Task_RunnerID (TR_Task (heap w1 r)) \<noteq> Some i then Some w1
            else persistAndRequeue env r
                   (modTask r (\<lambda>t. t\<lparr>Task_RunnerID := None\<rparr>)
                     (Log r (''Runner #'' @ itoa i @ '' lost the task: '' @ reason @
                             ''. Returning task to queue.'') w1))) = Some v'"
  let ?w1 = "refreshIfHA env r v"
  have q1: "quiet v ?w1" by (rule quiet_refresh)
  have q: "quiet v (modTask r (\<lambda>t. t\<lparr>Task_RunnerID := None\<rparr>) (Log r m ?w1))" for m
    by (rule quiet_trans [OF q1 quiet_trans [OF quiet_Log(1) quiet_modTask]]) simp_all
  have k: "keeps env v x" if "persistAndRequeue env r (modTask r (\<lambda>t. t\<lparr>Task_RunnerID := None\<rparr>) (Log r m ?w1)) = Some x" for m x
    using keeps_quiet [OF iv q] keeps_persistAndRequeue [OF _ _ that] keeps_inv keeps_ref [OF _ rv] keeps_trans
    by blast
  from a show "keeps env v v'"
    using keeps_quiet [OF iv q1] k unfolding Let_def by (auto split: if_splits)
qed

lemma keeps_requeueUndispatchedTask:
  assumes inv: "pool_inv env w" and r: "r < nextRef w" and f: "requeueUndispatchedTask env r w = Some w'"
  shows "keeps env w w'"
  using inv f [unfolded requeueUndispatchedTask_def] r
proof (rule keeps_underFinalizeLock)
  fix v v' assume iv: "pool_inv env v" and rv: "r < nextRef v"
    and a: "(let w1 = refreshIfHA env r v in
            if \<not> notYetRunning (statusOf w1 r) then Some w1
            else if Task_RunnerID (TR_Task (heap w1 r)) \<noteq> None then Some w1
            else persistAndRequeue env r
                   (Log r ''Dispatch goroutine lost (node restarted mid-dispatch). Returning task to queue.'' w1)) = Some v'"
  let ?w1 = "refreshIfHA env r v"
  have q1: "quiet v ?w1" by (rule quiet_refresh)
  have q: "quiet v (Log r m ?w1)" for m by (rule quiet_trans [OF q1 quiet_Log(1)])
  have k: "keeps env v x" if "persistAndRequeue env r (Log r m ?w1) = Some x" for m x
    using keeps_quiet [OF iv q] keeps_persistAndRequeue [OF _ _ that] keeps_inv keeps_ref [OF _ rv] keeps_trans
    by blast
  from a show "keeps env v v'"
    using keeps_quiet [OF iv q1] k unfolding Let_def by (auto split: if_splits)
qed

lemma keeps_reconcileRunnerTasks:
  assumes inv: "pool_inv env w" and f: "reconcileRunnerTasks env at w = Some w'"
  shows "keeps env w w'"
  using f unfolding reconcileRunnerTasks_def
proof (rule foldM_invariant)
  show "keeps env w w" using inv by (rule keeps_refl)
  fix r v v' assume r: "r \<in> set (OwnedRunningRange (state w))" and k: "keeps env w v"
    and a: "reconcileTask env at r v = Some v'"
  have rv: "r < nextRef v"
    using running_refs [OF inv] r keeps_ref [OF k] by (simp add: OwnedRunningRange_def)
  note iv = keeps_inv [OF k]
  have "keeps env v v'"
    using a keeps_refl [OF iv] keeps_requeueUndispatchedTask [OF iv rv]
      keeps_requeueTaskRunnerOffline [OF iv rv] keeps_failTaskRunnerLost [OF iv rv]
    unfolding reconcileTask_def
    by (auto split: if_splits option.splits prod.splits RunnerTaskAction.splits)
  with k show "keeps env w v'" by (rule keeps_trans)
qed

lemma keeps_runRegister:
  assumes inv: "pool_inv env w" and f: "runRegister w = Some w'"
  shows "keeps env w w'"
proof (cases "register w")
  case (Cons r rs)
  let ?w = "w\<lparr>register := rs\<rparr>"
  have i: "idof ?w = idof w" by (simp add: idof_def fun_eq_iff)
  have k0: "keeps env w ?w"
    using inv Cons i by (auto simp: keeps_def pool_inv_def refsOK_def withinLimit_def)
  have r: "r < nextRef ?w" using inv Cons by (auto simp: pool_inv_def refsOK_def)
  from f Cons obtain m w2 where w2: "saveStatus r (Log r m ?w) = Some w2" "w' = sendEvent EventTypeNew (Some r) w2"
    by (auto simp: runRegister_def Let_def)
  have q: "quiet ?w w2" by (rule quiet_trans [OF quiet_Log(1) quiet_saveStatus [OF w2(1)]])
  have k2: "keeps env w w2" using k0 q by (rule keeps_quiet_step)
  show ?thesis
    unfolding w2(2) by (rule keeps_trans [OF k2 keeps_sendEvent [OF keeps_inv [OF k2]]])
      (use r quiet_nextRef [OF q] in simp)
qed (use assms in \<open>simp add: runRegister_def keeps_refl\<close>)

end
