(* ===== verification/Runner_Store.thy ===== *)
theory Runner_Store
  imports Db_Model
begin

text \<open>
  The life of a runner's credentials: the runner rows of \<^verbatim>\<open>db/sql/global_runner.go\<close> and
  \<^verbatim>\<open>db/sql/runner_tag.go\<close>, and the runner service of \<^verbatim>\<open>services/server/runner_svc.go\<close> that issues
  authentication tokens and one-time registration tokens. Random tokens and SHA-256 are arguments.
\<close>

subsection \<open>Rows\<close>

text \<open>Trim, drop empty, and keep the first of equal tags.\<close>

definition normalizeTag :: "string \<Rightarrow> string list \<Rightarrow> string list" where
  "normalizeTag t seen = (let t' = trimSpace t in if t' = [] \<or> t' \<in> set seen then seen else seen @ [t'])"

definition normalizeTags :: "string list \<Rightarrow> string list" where
  "normalizeTags tags = fold normalizeTag tags []"

definition GetRunnerByToken :: "string \<Rightarrow> Database \<Rightarrow> go_error + Runner" where
  "GetRunnerByToken token d =
     (if db_faults d Q_GetRunnerByToken then Inl sqlErr
      else case newestRunners (filter (\<lambda>r. Runner_Token r = token) (tbl_runner d)) of
             [] \<Rightarrow> Inl ErrNotFound
           | r # _ \<Rightarrow> Inr r)"

definition updateRunners :: "db_call \<Rightarrow> (Runner \<Rightarrow> bool) \<Rightarrow> (Runner \<Rightarrow> Runner) \<Rightarrow> Database \<Rightarrow> go_error + Database" where
  "updateRunners q P f d =
     (if db_faults d q then Inl sqlErr
      else Inr (d\<lparr>tbl_runner := map (\<lambda>r. if P r then f r else r) (tbl_runner d)\<rparr>))"

text \<open>The rows that an update of a runner by ID (and project, if it has one) reaches.\<close>

definition sameRunnerRow :: "Runner \<Rightarrow> Runner \<Rightarrow> bool" where
  "sameRunnerRow runner r \<longleftrightarrow>
     Runner_ID r = Runner_ID runner \<and>
     (Runner_ProjectID runner \<noteq> None \<longrightarrow> Runner_ProjectID r = Runner_ProjectID runner)"

definition TouchRunner :: "Runner \<Rightarrow> go_time \<Rightarrow> Database \<Rightarrow> go_error + Database" where
  "TouchRunner runner at =
     updateRunners Q_TouchRunner (sameRunnerRow runner)
       (\<lambda>r. r\<lparr>Runner_Touched := Some at, Runner_StartedAt := Runner_StartedAt runner\<rparr>)"

definition ClearRunnerCache :: "Runner \<Rightarrow> go_time \<Rightarrow> Database \<Rightarrow> go_error + Database" where
  "ClearRunnerCache runner at =
     updateRunners Q_ClearRunnerCache (sameRunnerRow runner)
       (\<lambda>r. r\<lparr>Runner_CleaningRequested := Some at\<rparr>)"

definition db_UpdateRunner :: "Runner \<Rightarrow> Database \<Rightarrow> go_error + Database" where
  "db_UpdateRunner runner =
     updateRunners Q_UpdateRunner (\<lambda>r. Runner_ID r = Runner_ID runner)
       (\<lambda>r. r\<lparr>Runner_Name := Runner_Name runner, Runner_Active := Runner_Active runner,
              Runner_IsDefault := Runner_IsDefault runner, Runner_Webhook := Runner_Webhook runner,
              Runner_MaxParallelTasks := Runner_MaxParallelTasks runner,
              Runner_Tags := normalizeTags (Runner_Tags runner)\<rparr>)"

definition db_CreateRunner :: "Runner \<Rightarrow> Database \<Rightarrow> (go_error + Runner) \<times> Database" where
  "db_CreateRunner runner d =
     (if db_faults d Q_CreateRunner then (Inl sqlErr, d)
      else let newRunner = runner\<lparr>Runner_ID := next_runner_id d, Runner_Tags := normalizeTags (Runner_Tags runner)\<rparr>;
               row = newRunner\<lparr>Runner_Touched := None, Runner_CleaningRequested := None, Runner_StartedAt := None\<rparr>
           in (Inr newRunner, d\<lparr>tbl_runner := tbl_runner d @ [row], next_runner_id := next_runner_id d + 1\<rparr>))"

text \<open>Deleting a runner: the foreign key of \<^verbatim>\<open>task.runner_id\<close> is \<^verbatim>\<open>on delete set null\<close>.\<close>

definition DeleteGlobalRunner :: "ident \<Rightarrow> Database \<Rightarrow> go_error + Database" where
  "DeleteGlobalRunner runnerID d =
     (if db_faults d Q_DeleteGlobalRunner then Inl sqlErr
      else Inr (d\<lparr>tbl_runner := filter (\<lambda>r. Runner_ID r \<noteq> runnerID) (tbl_runner d),
                  tbl_task := map (\<lambda>t. if Task_RunnerID t = Some runnerID then t\<lparr>Task_RunnerID := None\<rparr> else t)
                                (tbl_task d)\<rparr>))"

definition db_RegisterRunner ::
  "string \<Rightarrow> string option \<Rightarrow> string \<Rightarrow> go_time \<Rightarrow> Database \<Rightarrow> (go_error + Runner) \<times> Database" where
  "db_RegisterRunner registrationTokenHash publicKey token at d =
     (if db_faults d Q_SelectRegistration then (Inl sqlErr, d)
      else case newestRunners (filter (\<lambda>r. Runner_RegistrationTokenHash r = Some registrationTokenHash) (tbl_runner d)) of
        [] \<Rightarrow> (Inl ErrNotFound, d)
      | runner # _ \<Rightarrow>
          if IsRegistered runner then (Inl (ErrOther ''runner is already registered''), d)
          else if (case Runner_RegistrationTokenExpiresAt runner of None \<Rightarrow> True | Some t \<Rightarrow> t \<le> at)
          then (Inl (ErrOther ''registration token expired''), d)
          else let f = (\<lambda>r. r\<lparr>Runner_Token := token, Runner_PublicKey := publicKey,
                              Runner_RegistrationTokenHash := None, Runner_RegistrationTokenExpiresAt := None\<rparr>)
               in case updateRunners Q_RegisterRunner (\<lambda>r. Runner_ID r = Runner_ID runner) f d of
                    Inl err \<Rightarrow> (Inl err, d)
                  | Inr d' \<Rightarrow> (Inr (f runner), d'))"

definition ResetRunnerRegistration :: "ident \<Rightarrow> string \<Rightarrow> go_time \<Rightarrow> Database \<Rightarrow> go_error + Database" where
  "ResetRunnerRegistration runnerID registrationTokenHash expiresAt =
     updateRunners Q_ResetRunnerRegistration (\<lambda>r. Runner_ID r = runnerID)
       (\<lambda>r. r\<lparr>Runner_Token := [], Runner_PublicKey := None,
              Runner_RegistrationTokenHash := Some registrationTokenHash,
              Runner_RegistrationTokenExpiresAt := Some expiresAt\<rparr>)"

subsection \<open>The runner service\<close>

definition runnerRegistrationTokenTTL :: int where
  "runnerRegistrationTokenTTL = 3600 * 1000000000"

definition RunnerRegistrationTokenPrefix :: string where
  "RunnerRegistrationTokenPrefix = ''smrs_''"

text \<open>\<open>random\<close> is the base64 text of 32 random bytes, \<open>hash\<close> the hexadecimal SHA-256 digest.\<close>

definition generateRunnerRegistrationToken :: "(string \<Rightarrow> string) \<Rightarrow> string \<Rightarrow> string \<times> string" where
  "generateRunnerRegistrationToken hash random =
     (let token = RunnerRegistrationTokenPrefix @ random in (token, hash token))"

definition CreateRunner :: "bool \<Rightarrow> string \<Rightarrow> Runner \<Rightarrow> Database \<Rightarrow> (go_error + Runner) \<times> Database" where
  "CreateRunner registered random runner d =
     db_CreateRunner
       (if registered then runner\<lparr>Runner_Token := random\<rparr>
        else runner\<lparr>Runner_Token := [], Runner_RegistrationTokenHash := None,
                    Runner_RegistrationTokenExpiresAt := None\<rparr>) d"

definition RegenerateRegistrationToken ::
  "(string \<Rightarrow> string) \<Rightarrow> string \<Rightarrow> go_time \<Rightarrow> Runner \<Rightarrow> Database \<Rightarrow> (go_error + string) \<times> Database" where
  "RegenerateRegistrationToken hash random at runner d =
     (let (token, h) = generateRunnerRegistrationToken hash random
      in case ResetRunnerRegistration (Runner_ID runner) h (at + runnerRegistrationTokenTTL) d of
           Inl err \<Rightarrow> (Inl err, d)
         | Inr d' \<Rightarrow> (Inr token, d'))"

subsection \<open>Properties\<close>

lemma normalizeTag_inv:
  "distinct seen \<and> [] \<notin> set seen \<Longrightarrow> distinct (normalizeTag t seen) \<and> [] \<notin> set (normalizeTag t seen)"
  by (auto simp: normalizeTag_def Let_def)

lemma normalizeTags_distinct: "distinct (normalizeTags tags) \<and> [] \<notin> set (normalizeTags tags)"
proof -
  have "distinct (fold normalizeTag tags seen) \<and> [] \<notin> set (fold normalizeTag tags seen)"
    if "distinct seen \<and> [] \<notin> set seen" for seen
    using that by (induction tags arbitrary: seen) (simp_all add: normalizeTag_inv)
  then show ?thesis by (simp add: normalizeTags_def)
qed

lemma set_normalizeTags: "set (normalizeTags tags) = trimSpace ` set tags - {[]}"
proof -
  have "set (fold normalizeTag tags seen) = set seen \<union> (trimSpace ` set tags - {[]})" for seen
    by (induction tags arbitrary: seen) (auto simp: normalizeTag_def Let_def)
  then show ?thesis by (simp add: normalizeTags_def)
qed

text \<open>Runner IDs are the primary key.\<close>

definition runnerKeys :: "Database \<Rightarrow> bool" where
  "runnerKeys d \<longleftrightarrow> distinct (map Runner_ID (tbl_runner d))"

lemma newest_singleton: "filter P rs = [r] \<Longrightarrow> newestRunners (filter P rs) = [r]"
  by (simp add: newestRunners_def)

lemma filter_unique:
  assumes "distinct (map f xs)" and "x \<in> set xs" and "\<And>y. y \<in> set xs \<Longrightarrow> P y \<longleftrightarrow> f y = f x"
  shows "filter P xs = [x]"
proof -
  have "filter P xs = filter (\<lambda>y. f y = f x) xs" using assms(3) by (intro filter_cong) auto
  also have "\<dots> = [x]" using assms(1,2)
  proof (induction xs)
    case (Cons a xs)
    show ?case
    proof (cases "a = x")
      case True
      with Cons.prems have "filter (\<lambda>y. f y = f x) xs = []" by (auto simp: filter_empty_conv image_iff)
      with True show ?thesis by simp
    next
      case False
      with Cons show ?thesis by (auto simp: image_iff)
    qed
  qed simp
  finally show ?thesis .
qed

lemma updateRunners_keys:
  assumes "updateRunners q P f d = Inr d'" and "\<And>r. Runner_ID (f r) = Runner_ID r"
  shows "map Runner_ID (tbl_runner d') = map Runner_ID (tbl_runner d)" "db_faults d' = db_faults d"
  using assms by (auto simp: updateRunners_def split: if_splits)

lemma updateRunners_Inr:
  "\<not> db_faults d q \<Longrightarrow> updateRunners q P f d = Inr (d\<lparr>tbl_runner := map (\<lambda>r. if P r then f r else r) (tbl_runner d)\<rparr>)"
  by (simp add: updateRunners_def)

text \<open>The only row of a table of runners that satisfies a test.\<close>

lemma filter_updated:
  assumes "distinct (map Runner_ID rs)" and "r0 \<in> set rs" and "\<And>r. Runner_ID (f r) = Runner_ID r"
    and "P (f r0)" and "\<And>r. r \<in> set rs \<Longrightarrow> Runner_ID r \<noteq> Runner_ID r0 \<Longrightarrow> \<not> P r"
  shows "filter P (map (\<lambda>r. if Runner_ID r = Runner_ID r0 then f r else r) rs) = [f r0]"
proof (rule filter_unique [where f = Runner_ID])
  let ?g = "\<lambda>r. if Runner_ID r = Runner_ID r0 then f r else r"
  have "map Runner_ID (map ?g rs) = map Runner_ID rs" using assms(3) by simp
  then show "distinct (map Runner_ID (map ?g rs))" using assms(1) by (simp only:)
  show "f r0 \<in> set (map ?g rs)" using assms(2) by force
  have uniq: "r = r0" if "r \<in> set rs" "Runner_ID r = Runner_ID r0" for r
    using assms(1,2) that by (auto simp: distinct_map inj_on_def)
  show "P y \<longleftrightarrow> Runner_ID y = Runner_ID (f r0)" if "y \<in> set (map ?g rs)" for y
    using that assms(3-5) uniq by auto
qed

lemma db_RegisterRunner_unique:
  assumes "\<not> db_faults d Q_SelectRegistration"
    and "filter (\<lambda>r. Runner_RegistrationTokenHash r = Some h) (tbl_runner d) = [r0]" and "\<not> IsRegistered r0"
    and "Runner_RegistrationTokenExpiresAt r0 = Some e"
  shows "db_RegisterRunner h pk token at d =
    (if e \<le> at then (Inl (ErrOther ''registration token expired''), d)
     else let f = (\<lambda>r. r\<lparr>Runner_Token := token, Runner_PublicKey := pk,
                          Runner_RegistrationTokenHash := None, Runner_RegistrationTokenExpiresAt := None\<rparr>)
          in case updateRunners Q_RegisterRunner (\<lambda>r. Runner_ID r = Runner_ID r0) f d of
               Inl err \<Rightarrow> (Inl err, d)
             | Inr d' \<Rightarrow> (Inr (f r0), d'))"
  unfolding db_RegisterRunner_def newest_singleton [OF assms(2)] using assms(1,3,4) by simp

text \<open>C38. A one-time registration token works once and for an hour. After a new token is issued for a
  runner, the runner's old authentication token no longer identifies it; presenting the registration
  token in time registers that runner and no other, and its new authentication token then identifies it;
  presenting the token a second time, or after an hour, is refused.\<close>

theorem registration_token_once:
  assumes "runnerKeys d" and "r0 \<in> set (tbl_runner d)" and "\<And>q. \<not> db_faults d q"
    and "RegenerateRegistrationToken hash random at r0 d = (Inr regToken, d1)"
    and "\<And>r. r \<in> set (tbl_runner d) \<Longrightarrow> Runner_ID r \<noteq> Runner_ID r0 \<Longrightarrow>
           Runner_RegistrationTokenHash r \<noteq> Some (hash regToken) \<and> Runner_Token r \<noteq> token"
    and "token \<noteq> []"
  shows "(at2 < at + runnerRegistrationTokenTTL \<longrightarrow>
      (\<exists>runner d2. db_RegisterRunner (hash regToken) pk token at2 d1 = (Inr runner, d2) \<and>
         Runner_ID runner = Runner_ID r0 \<and> GetRunnerByToken token d2 = Inr runner \<and>
         fst (db_RegisterRunner (hash regToken) pk' token' at3 d2) = Inl ErrNotFound)) \<and>
    (at2 \<ge> at + runnerRegistrationTokenTTL \<longrightarrow>
      db_RegisterRunner (hash regToken) pk token at2 d1 = (Inl (ErrOther ''registration token expired''), d1)) \<and>
    (\<forall>r\<in>set (tbl_runner d1). Runner_ID r = Runner_ID r0 \<longrightarrow> \<not> IsRegistered r)"
proof -
  define reset where "reset = (\<lambda>r. r\<lparr>Runner_Token := [], Runner_PublicKey := None,
     Runner_RegistrationTokenHash := Some (hash regToken),
     Runner_RegistrationTokenExpiresAt := Some (at + runnerRegistrationTokenTTL)\<rparr> :: Runner)"
  define reg where "reg = (\<lambda>r. r\<lparr>Runner_Token := token, Runner_PublicKey := pk,
     Runner_RegistrationTokenHash := None, Runner_RegistrationTokenExpiresAt := None\<rparr> :: Runner)"
  have d1: "d1 = d\<lparr>tbl_runner := map (\<lambda>r. if Runner_ID r = Runner_ID r0 then reset r else r) (tbl_runner d)\<rparr>"
    using assms(3,4) unfolding reset_def
    by (auto simp: RegenerateRegistrationToken_def ResetRunnerRegistration_def updateRunners_Inr
        generateRunnerRegistrationToken_def Let_def)
  have keys: "distinct (map Runner_ID (tbl_runner d))" using assms(1) by (simp add: runnerKeys_def)
  have f1: "filter (\<lambda>r. Runner_RegistrationTokenHash r = Some (hash regToken)) (tbl_runner d1) = [reset r0]"
    unfolding d1 using assms(5) by (simp, intro filter_updated [OF keys assms(2)]) (auto simp: reset_def)
  have n1: "\<not> IsRegistered (reset r0)" "Runner_RegistrationTokenExpiresAt (reset r0) = Some (at + runnerRegistrationTokenTTL)"
    "Runner_ID (reset r0) = Runner_ID r0" "\<not> db_faults d1 Q_SelectRegistration" "\<not> db_faults d1 Q_RegisterRunner"
    using assms(3) by (simp_all add: reset_def IsRegistered_def d1)
  note reg1 = db_RegisterRunner_unique [OF n1(4) f1 n1(1,2), of pk token at2]
  define d2 where "d2 = d1\<lparr>tbl_runner := map (\<lambda>r. if Runner_ID r = Runner_ID r0 then reg r else r) (tbl_runner d1)\<rparr>"
  have in_time: "db_RegisterRunner (hash regToken) pk token at2 d1 = (Inr (reg (reset r0)), d2)"
    if "at2 < at + runnerRegistrationTokenTTL"
    unfolding reg1 using that n1(3,5) by (simp add: updateRunners_Inr reg_def d2_def Let_def)
  have t2: "tbl_runner d2 = map (\<lambda>r. if Runner_ID r = Runner_ID r0 then reg (reset r) else r) (tbl_runner d)"
    by (simp add: d2_def d1 comp_def reset_def cong: map_cong)
  have "filter (\<lambda>r. Runner_Token r = token) (tbl_runner d2) = [reg (reset r0)]"
    unfolding t2 using assms(5)
    by (intro filter_updated [OF keys assms(2), where f = "\<lambda>r. reg (reset r)"]) (auto simp: reg_def reset_def)
  then have auth: "GetRunnerByToken token d2 = Inr (reg (reset r0))"
    using assms(3) by (simp add: GetRunnerByToken_def newestRunners_def d2_def d1)
  have "filter (\<lambda>r. Runner_RegistrationTokenHash r = Some (hash regToken)) (tbl_runner d2) = []"
    using assms(5) by (auto simp: t2 filter_empty_conv reg_def)
  then have again: "fst (db_RegisterRunner (hash regToken) pk' token' at3 d2) = Inl ErrNotFound"
    using assms(3) by (simp add: db_RegisterRunner_def newestRunners_def d2_def d1)
  have ids: "Runner_ID (reg (reset r0)) = Runner_ID r0" by (simp add: reg_def reset_def)
  have "\<forall>r\<in>set (tbl_runner d1). Runner_ID r = Runner_ID r0 \<longrightarrow> \<not> IsRegistered r"
    by (auto simp: d1 reset_def IsRegistered_def)
  moreover have "db_RegisterRunner (hash regToken) pk token at2 d1 = (Inl (ErrOther ''registration token expired''), d1)"
    if "at2 \<ge> at + runnerRegistrationTokenTTL" unfolding reg1 using that by simp
  ultimately show ?thesis using in_time auth again ids by blast
qed

definition unregisteredRunner :: Runner where
  "unregisteredRunner =
     \<lparr>Runner_ID = 3, Runner_Token = [], Runner_ProjectID = None, Runner_Webhook = [], Runner_MaxParallelTasks = 0,
      Runner_Active = True, Runner_IsDefault = True, Runner_Name = ''r'', Runner_Tags = [], Runner_Touched = None,
      Runner_CleaningRequested = None, Runner_StartedAt = None, Runner_PublicKey = None,
      Runner_RegistrationTokenHash = None, Runner_RegistrationTokenExpiresAt = None\<rparr>"

definition runnerDb :: Database where
  "runnerDb =
     \<lparr>tbl_task = [], tbl_template = [], tbl_project = [], tbl_projectUser = [], tbl_user = [], tbl_inventory = [],
      tbl_repository = [], tbl_environment = [],
      tbl_runner = [unregisteredRunner, unregisteredRunner\<lparr>Runner_ID := 4, Runner_Token := ''other''\<rparr>],
      tbl_event = [], tbl_output = [], next_task_id = 1, next_runner_id = 5, db_faults = (\<lambda>_. False)\<rparr>"

theorem registration_token_once_witness:
  "\<exists>d1 runner d2. RegenerateRegistrationToken id ''abc'' 10 unregisteredRunner runnerDb = (Inr ''smrs_abc'', d1) \<and>
     db_RegisterRunner ''smrs_abc'' None ''tok'' 20 d1 = (Inr runner, d2) \<and> Runner_ID runner = 3 \<and>
     fst (db_RegisterRunner ''smrs_abc'' None ''tok2'' 30 d2) = Inl ErrNotFound"
proof -
  have f: "\<not> db_faults runnerDb q" for q by (simp add: runnerDb_def)
  obtain d1 where d1: "RegenerateRegistrationToken id ''abc'' 10 unregisteredRunner runnerDb = (Inr ''smrs_abc'', d1)"
    by (simp add: RegenerateRegistrationToken_def generateRunnerRegistrationToken_def RunnerRegistrationTokenPrefix_def
        ResetRunnerRegistration_def updateRunners_Inr [OF f] Let_def)
  have "runnerKeys runnerDb" "unregisteredRunner \<in> set (tbl_runner runnerDb)"
    by (simp_all add: runnerKeys_def runnerDb_def unregisteredRunner_def)
  moreover have "Runner_RegistrationTokenHash r \<noteq> Some (id ''smrs_abc'') \<and> Runner_Token r \<noteq> ''tok''"
    if "r \<in> set (tbl_runner runnerDb)" for r
    using that by (auto simp: runnerDb_def unregisteredRunner_def)
  moreover have "Runner_ID unregisteredRunner = 3" "(20::int) < 10 + runnerRegistrationTokenTTL"
    by (simp_all add: unregisteredRunner_def runnerRegistrationTokenTTL_def)
  ultimately show ?thesis
    using d1 registration_token_once [of runnerDb unregisteredRunner id "''abc''" 10 "''smrs_abc''" d1 "''tok''"
        20 None None "''tok2''" 30, OF _ _ f d1] by simp blast
qed

end
