(* ===== verification/Runner_Api.thy ===== *)
theory Runner_Api
  imports Runner_Reconciler Runner_Store
begin

text \<open>
  The endpoints that remote runners call, \<^verbatim>\<open>api/runners/runners.go\<close>: authentication, the poll for
  new jobs, the progress report, and registration. The wire types are those of
  \<^verbatim>\<open>services/runners/types.go\<close>. A handler gives its HTTP answer and the world it leaves; \<^const>\<open>None\<close> is a
  panic. Parsing of the request body and of the time header is done before (JSON and \<^verbatim>\<open>time.Parse\<close>).
\<close>

subsection \<open>Wire types\<close>

record JobData =
  Job_Username :: string
  Job_IncomingVersion :: "string option"
  Job_Alias :: string
  Job_Task :: Task
  Job_Template :: Template
  Job_Inventory :: Inventory
  Job_InventoryRepository :: "Repository option"
  Job_Repository :: Repository
  Job_Environment :: Environment
  Job_JWT :: string

record JobState =
  JobState_ID :: ident
  JobState_Status :: TaskStatus

type_synonym AccessKeyMap = "(ident \<times> AccessKey) list"

record RunnerState =
  CurrentJobs :: "JobState list"
  NewJobs :: "JobData list"
  AccessKeys :: AccessKeyMap
  ClearCache :: bool
  CacheCleanProjectID :: "ident option"

record LogRecord =
  LogRecord_Time :: go_time
  LogRecord_Message :: string

record CommitInfo =
  Commit_Hash :: string
  Commit_Message :: string

record JobProgress =
  Progress_ID :: ident
  Progress_Status :: TaskStatus
  Progress_LogRecords :: "LogRecord list"
  Progress_Commit :: "CommitInfo option"

record RunnerRegistration =
  Reg_RegistrationToken :: string
  Reg_Webhook :: string
  Reg_Name :: string
  Reg_Tags :: "string list"
  Reg_MaxParallelTasks :: int
  Reg_Enabled :: bool
  Reg_ProjectID :: "ident option"

text \<open>An HTTP answer: a body with code 200, code 204 without a body, or an error.\<close>

datatype 'a http = OkJSON 'a | NoContent | HttpError (http_code: int) (http_message: string)

text \<open>
  \<^verbatim>\<open>helpers.WriteError\<close> on the errors that the modelled handlers can give it: only validation errors
  show their text.
\<close>

fun WriteError :: "go_error \<Rightarrow> 'a http" where
  "WriteError ErrNotFound = HttpError 404 []"
| "WriteError (ValidationError msg) = HttpError 400 msg"
| "WriteError _ = HttpError 400 []"

subsection \<open>Authentication\<close>

definition RunnerMiddleware :: "string \<Rightarrow> (Runner \<Rightarrow> World \<Rightarrow> ('a http \<times> World) option) \<Rightarrow> World \<Rightarrow> ('a http \<times> World) option" where
  "RunnerMiddleware token handler w =
     (if token = [] then Some (HttpError 401 ''Invalid token'', w)
      else case GetRunnerByToken token (db w) of
        Inl _ \<Rightarrow> Some (HttpError 404 ''Runner not found'', w)
      | Inr runner \<Rightarrow>
          if Runner_Token runner \<noteq> token then Some (HttpError 401 ''Invalid token'', w)
          else handler runner w)"

subsection \<open>The keys of a job\<close>

text \<open>
  \<^verbatim>\<open>collectTaskAccessKeys\<close> decrypts the keys of the task in place and stages them. A step works on the
  task runner and the staged keys; the first error ends the collection. A vault with a key ID but no
  key, and an inventory with a repository ID but no repository, are nil dereferences.
\<close>

type_synonym collecting = "TaskRunner \<times> AccessKeyMap"

definition collectKey ::
  "PoolEnv \<Rightarrow> ident \<Rightarrow> AccessKey \<Rightarrow> (AccessKey \<Rightarrow> TaskRunner \<Rightarrow> TaskRunner) \<Rightarrow> collecting \<Rightarrow> go_error option \<times> collecting" where
  "collectKey env keyID key store st =
     (let (tr, keys) = st in
      case svc_DeserializeSecret env key of
        Inl err \<Rightarrow> (Some err, st)
      | Inr k \<Rightarrow> (None, (store k tr, AList.update keyID k keys)))"

definition thenCollect ::
  "(go_error option \<times> collecting) option \<Rightarrow> (collecting \<Rightarrow> (go_error option \<times> collecting) option) \<Rightarrow>
     (go_error option \<times> collecting) option" where
  "thenCollect m f =
     (case m of None \<Rightarrow> None | Some (Some err, st) \<Rightarrow> Some (Some err, st) | Some (None, st) \<Rightarrow> f st)"

definition setVault :: "nat \<Rightarrow> AccessKey \<Rightarrow> TaskRunner \<Rightarrow> TaskRunner" where
  "setVault i k tr =
     tr\<lparr>TR_Template := (TR_Template tr)\<lparr>Template_Vaults :=
          (Template_Vaults (TR_Template tr))[i := (Template_Vaults (TR_Template tr) ! i)\<lparr>TVault_Vault := Some k\<rparr>]\<rparr>\<rparr>"

fun collectVaults ::
  "PoolEnv \<Rightarrow> nat \<Rightarrow> TemplateVault list \<Rightarrow> collecting \<Rightarrow> (go_error option \<times> collecting) option" where
  "collectVaults env i [] st = Some (None, st)"
| "collectVaults env i (v # vs) st =
     (case TVault_VaultKeyID v of
        None \<Rightarrow> collectVaults env (Suc i) vs st
      | Some keyID \<Rightarrow>
          (case TVault_Vault v of
             None \<Rightarrow> None
           | Some key \<Rightarrow>
               thenCollect (Some (collectKey env keyID key (setVault i) st)) (collectVaults env (Suc i) vs)))"

definition collectInventoryKeys :: "PoolEnv \<Rightarrow> collecting \<Rightarrow> (go_error option \<times> collecting) option" where
  "collectInventoryKeys env st =
     (case Inventory_SSHKeyID (TR_Inventory (fst st)) of
        None \<Rightarrow> Some (None, st)
      | Some i \<Rightarrow> Some (collectKey env i (Inventory_SSHKey (TR_Inventory (fst st)))
                   (\<lambda>k tr. tr\<lparr>TR_Inventory := (TR_Inventory tr)\<lparr>Inventory_SSHKey := k\<rparr>\<rparr>) st))"

definition collectBecomeKey :: "PoolEnv \<Rightarrow> collecting \<Rightarrow> (go_error option \<times> collecting) option" where
  "collectBecomeKey env st =
     (case Inventory_BecomeKeyID (TR_Inventory (fst st)) of
        None \<Rightarrow> Some (None, st)
      | Some i \<Rightarrow> Some (collectKey env i (Inventory_BecomeKey (TR_Inventory (fst st)))
                   (\<lambda>k tr. tr\<lparr>TR_Inventory := (TR_Inventory tr)\<lparr>Inventory_BecomeKey := k\<rparr>\<rparr>) st))"

definition collectInventoryRepository :: "PoolEnv \<Rightarrow> collecting \<Rightarrow> (go_error option \<times> collecting) option" where
  "collectInventoryRepository env st =
     (case (Inventory_RepositoryID (TR_Inventory (fst st)), Inventory_Repository (TR_Inventory (fst st))) of
        (None, _) \<Rightarrow> Some (None, st)
      | (Some _, None) \<Rightarrow> None
      | (Some _, Some repo) \<Rightarrow>
          Some (collectKey env (Repository_SSHKeyID repo) (Repository_SSHKey repo)
            (\<lambda>k tr. tr\<lparr>TR_Inventory := (TR_Inventory tr)\<lparr>Inventory_Repository :=
                       Some (repo\<lparr>Repository_SSHKey := k\<rparr>)\<rparr>\<rparr>) st))"

definition collectRepositoryKey :: "PoolEnv \<Rightarrow> collecting \<Rightarrow> (go_error option \<times> collecting) option" where
  "collectRepositoryKey env st =
     (let repo = TR_Repository (fst st) in
      Some (collectKey env (Repository_SSHKeyID repo) (Repository_SSHKey repo)
        (\<lambda>k tr. tr\<lparr>TR_Repository := (TR_Repository tr)\<lparr>Repository_SSHKey := k\<rparr>\<rparr>) st))"

definition collectTaskAccessKeys :: "PoolEnv \<Rightarrow> collecting \<Rightarrow> (go_error option \<times> collecting) option" where
  "collectTaskAccessKeys env st =
     thenCollect (collectInventoryKeys env st)
       (\<lambda>st. thenCollect (collectBecomeKey env st)
       (\<lambda>st. thenCollect (collectVaults env 0 (Template_Vaults (TR_Template (fst st))) st)
       (\<lambda>st. thenCollect (collectInventoryRepository env st)
       (collectRepositoryKey env))))"

subsection \<open>Preparing a job\<close>

text \<open>The end of every failed preparation: the task fails and is finalized.\<close>

definition failRemote :: "PoolEnv \<Rightarrow> tref \<Rightarrow> Runner \<Rightarrow> string \<Rightarrow> World \<Rightarrow> World option" where
  "failRemote env r runner msg w =
     Option.bind (SetStatus env r TaskFailStatus (Log r msg w)) (FinalizeRemoteTask env (Some r) (Some runner))"

text \<open>
  The job is built before the keys are decrypted in place. The struct is a copy, but the vaults and the
  repository of the inventory are shared with the task through pointers, so there the job has the
  decrypted keys: \<open>dec\<close> is the runner after the decryption.
\<close>

definition jobDataOf :: "TaskRunner \<Rightarrow> TaskRunner \<Rightarrow> string \<Rightarrow> string \<Rightarrow> JobData" where
  "jobDataOf tr dec surveySecrets jwt =
     \<lparr>Job_Username = TR_Username tr, Job_IncomingVersion = TR_IncomingVersion tr, Job_Alias = TR_Alias tr,
      Job_Task = (TR_Task tr)\<lparr>Task_Secret := surveySecrets\<rparr>,
      Job_Template = (TR_Template tr)\<lparr>Template_Vaults := Template_Vaults (TR_Template dec)\<rparr>,
      Job_Inventory = (TR_Inventory tr)\<lparr>Inventory_Repository := Inventory_Repository (TR_Inventory dec)\<rparr>,
      Job_InventoryRepository = Inventory_Repository (TR_Inventory dec),
      Job_Repository = TR_Repository tr, Job_Environment = TR_Environment tr, Job_JWT = jwt\<rparr>"

text \<open>The token of a job: the empty string when the template asks for none; \<open>Inl\<close> is the message of a failure.\<close>

definition jobToken :: "PoolEnv \<Rightarrow> TaskRunner \<Rightarrow> string + string" where
  "jobToken env tr =
     (case (svc_Sign env, Template_JWTParams (TR_Template tr)) of
        (Some sign, Some params) \<Rightarrow>
          if \<not> JWT_Enabled params then Inr []
          else (case ParsedTTL (time_ParseDuration env) (JWT_TTL params) of
                  Inl terr \<Rightarrow> Inl (''Invalid JWT token lifetime in the template settings: '' @ errorString terr)
                | Inr ttl \<Rightarrow>
                    (case sign (TR_Task tr) (TR_Template tr) ttl of
                       Inl _ \<Rightarrow> Inl ''Failed to sign the task JWT. More details in the server logs.''
                     | Inr token \<Rightarrow> Inr token))
      | _ \<Rightarrow> Inr [])"

definition prepareRemoteJob ::
  "PoolEnv \<Rightarrow> Runner \<Rightarrow> tref \<Rightarrow> RunnerState \<times> World \<Rightarrow> (RunnerState \<times> World) option" where
  "prepareRemoteJob env runner r st =
     (let (data, w) = st; fail = (\<lambda>msg w. map_option (\<lambda>w1. (data, w1)) (failRemote env r runner msg w)) in
      case svc_GetTaskSurveySecrets env (projectOf w r) (idof w r) of
        Inl err \<Rightarrow>
          fail (if err = ErrAccessKeyExpired
                then ''Survey secrets expired before the task started. Please run the task again.''
                else ''Failed to read survey secrets. More details in the server logs.'') w
      | Inr surveySecrets \<Rightarrow>
          (case jobToken env (heap w r) of
             Inl msg \<Rightarrow> fail msg w
           | Inr token \<Rightarrow>
               (case collectTaskAccessKeys env (heap w r, []) of
                  None \<Rightarrow> None
                | Some (err, tr, keys) \<Rightarrow>
                    (let job = jobDataOf (heap w r) tr surveySecrets token;
                         w1 = modRunner r (\<lambda>_. tr) w
                     in case err of
                          Some _ \<Rightarrow> fail ''Failed to decrypt access keys of the task. More details in the server logs.'' w1
                        | None \<Rightarrow>
                            Some (data\<lparr>AccessKeys := AList.updates (map fst keys) (map snd keys) (AccessKeys data),
                                       NewJobs := NewJobs data @ [job]\<rparr>, w1)))))"

subsection \<open>The poll\<close>

definition pollTask ::
  "PoolEnv \<Rightarrow> Runner \<Rightarrow> tref \<Rightarrow> RunnerState \<times> World \<Rightarrow> (RunnerState \<times> World) option" where
  "pollTask env runner r st =
     (let (data, w) = st in
      if Task_RunnerID (TR_Task (heap w r)) \<noteq> Some (Runner_ID runner) then Some st
      else if notYetRunning (statusOf w r) then prepareRemoteJob env runner r st
      else Some (data\<lparr>CurrentJobs := CurrentJobs data @ [\<lparr>JobState_ID = idof w r, JobState_Status = statusOf w r\<rparr>]\<rparr>, w))"

text \<open>
  \<^verbatim>\<open>startedAt\<close> is the parsed header \<^verbatim>\<open>X-Runner-Started-At\<close>; absent or unparsable it leaves the stored
  value.
\<close>

definition api_GetRunner ::
  "PoolEnv \<Rightarrow> go_time option \<Rightarrow> Runner \<Rightarrow> World \<Rightarrow> (RunnerState http \<times> World) option" where
  "api_GetRunner env startedAt runner0 w =
     (let runner = (case startedAt of None \<Rightarrow> runner0 | Some t \<Rightarrow> runner0\<lparr>Runner_StartedAt := Some t\<rparr>)
      in case TouchRunner runner (now w) (db w) of
           Inl err \<Rightarrow> Some (WriteError err, w)
         | Inr d \<Rightarrow>
             (let w1 = w\<lparr>db := d\<rparr>;
                  clearCache = (case Runner_CleaningRequested runner of
                                  None \<Rightarrow> False
                                | Some c \<Rightarrow> (case Runner_Touched runner of None \<Rightarrow> True | Some t \<Rightarrow> c > t));
                  data = \<lparr>CurrentJobs = [], NewJobs = [], AccessKeys = [], ClearCache = clearCache,
                          CacheCleanProjectID = (if clearCache then Runner_ProjectID runner else None)\<rparr>
              in map_option (\<lambda>(data, w2). (OkJSON data, w2))
                   (foldM (pollTask env runner) (RunningRange (state w1)) (data, w1))))"

subsection \<open>The progress report\<close>

text \<open>
  One reported job. The result is the list of terminated jobs so far and the world, or an answer that
  ends the request at once.
\<close>

definition acceptProgress :: "PoolEnv \<Rightarrow> Runner \<Rightarrow> tref \<Rightarrow> JobProgress \<Rightarrow> World \<Rightarrow> World option" where
  "acceptProgress env runner r job w =
     do {
       let w1 = fold (\<lambda>l. LogWithTime r (LogRecord_Time l) (LogRecord_Message l)) (Progress_LogRecords job) w;
       w2 \<leftarrow> SetStatus env r (Progress_Status job) w1;
       w3 \<leftarrow> (case Progress_Commit job of
                None \<Rightarrow> Some w2
              | Some c \<Rightarrow> SetCommit r (Commit_Hash c) (Commit_Message c) w2);
       Some (if IsFinished (statusOf w3 r) then spawn (GoFinalizeRemoteTask r (Some runner)) w3 else w3) }"

definition progressJob ::
  "PoolEnv \<Rightarrow> Runner \<Rightarrow> JobProgress \<Rightarrow> ident list \<times> World \<Rightarrow> ((int \<times> string) option \<times> ident list \<times> World) option" where
  "progressJob env runner job st =
     (let (terminated, w) = st; i = Progress_ID job; stop = terminated @ [i] in
      case GetTask env i w of
        None \<Rightarrow> None
      | Some (Inl err, w1) \<Rightarrow> Some (None, if err = ErrNotFound then stop else terminated, w1)
      | Some (Inr None, w1) \<Rightarrow>
          (case GetTaskByID i (db w1) of
             Inl err \<Rightarrow> Some (None, if err = ErrNotFound then stop else terminated, w1)
           | Inr row \<Rightarrow> Some (None, if IsFinished (Task_Status row) then stop else terminated, w1))
      | Some (Inr (Some r), w1) \<Rightarrow>
          if Task_RunnerID (TR_Task (heap w1 r)) \<noteq> Some (Runner_ID runner) then Some (None, stop, w1)
          else if \<not> TaskStatus_IsValid (Progress_Status job)
          then Some (Some (400, ''Invalid task status''), terminated, w1)
          else if IsFinished (statusOf w1 r) then Some (None, stop, w1)
          else map_option (\<lambda>w2. (None, terminated, w2)) (acceptProgress env runner r job w1))"

fun progressLoop ::
  "PoolEnv \<Rightarrow> Runner \<Rightarrow> JobProgress list \<Rightarrow> ident list \<times> World \<Rightarrow> (ident list http \<times> World) option" where
  "progressLoop env runner [] (terminated, w) = Some (OkJSON terminated, w)"
| "progressLoop env runner (job # jobs) st =
     (case progressJob env runner job st of
        None \<Rightarrow> None
      | Some (Some (code, msg), _, w1) \<Rightarrow> Some (HttpError code msg, w1)
      | Some (None, st1) \<Rightarrow> progressLoop env runner jobs st1)"

text \<open>The body of the request: the decoded \<^verbatim>\<open>Jobs\<close>, \<^const>\<open>None\<close> for nil.\<close>

definition api_UpdateRunner ::
  "PoolEnv \<Rightarrow> JobProgress list option \<Rightarrow> Runner \<Rightarrow> World \<Rightarrow> (ident list http \<times> World) option" where
  "api_UpdateRunner env body runner w =
     (case body of
        None \<Rightarrow> Some (NoContent, w)
      | Some jobs \<Rightarrow> progressLoop env runner jobs ([], w))"

subsection \<open>Registration\<close>

text \<open>
  \<open>globalToken\<close> is \<^verbatim>\<open>GetRunnerRegistrationToken\<close> of the configuration, \<open>random\<close> the token that
  \<^verbatim>\<open>GenerateRunnerToken\<close> would yield.
\<close>

definition api_RegisterRunner ::
  "(string \<Rightarrow> string) \<Rightarrow> string \<Rightarrow> string \<Rightarrow> RunnerRegistration \<Rightarrow> World \<Rightarrow> string http \<times> World" where
  "api_RegisterRunner hash globalToken random reg w =
     (let tok = Reg_RegistrationToken reg; bad = HttpError 400 ''Invalid registration token'' in
      if tok = [] then (bad, w)
      else if take 5 tok = RunnerRegistrationTokenPrefix
      then (case db_RegisterRunner (hash tok) None random (now w) (db w) of
              (Inl _, d) \<Rightarrow> (bad, w\<lparr>db := d\<rparr>)
            | (Inr runner, d) \<Rightarrow> (OkJSON (Runner_Token runner), w\<lparr>db := d\<rparr>))
      else if globalToken \<noteq> [] \<and> tok = globalToken
      then (case db_CreateRunner
                   \<lparr>Runner_ID = 0, Runner_Token = random, Runner_ProjectID = Reg_ProjectID reg,
                    Runner_Webhook = Reg_Webhook reg, Runner_MaxParallelTasks = Reg_MaxParallelTasks reg,
                    Runner_Active = Reg_Enabled reg, Runner_IsDefault = False, Runner_Name = Reg_Name reg,
                    Runner_Tags = Reg_Tags reg, Runner_Touched = None, Runner_CleaningRequested = None,
                    Runner_StartedAt = None, Runner_PublicKey = None, Runner_RegistrationTokenHash = None,
                    Runner_RegistrationTokenExpiresAt = None\<rparr> (db w) of
              (Inl _, d) \<Rightarrow> (HttpError 500 ''Unexpected error'', w\<lparr>db := d\<rparr>)
            | (Inr runner, d) \<Rightarrow> (OkJSON (Runner_Token runner), w\<lparr>db := d\<rparr>))
      else (bad, w))"

definition api_UnregisterRunner :: "Runner \<Rightarrow> World \<Rightarrow> (unit http \<times> World) option" where
  "api_UnregisterRunner runner w =
     Some (case DeleteGlobalRunner (Runner_ID runner) (db w) of
             Inl _ \<Rightarrow> (HttpError 500 ''Unknown error'', w)
           | Inr d \<Rightarrow> (NoContent, w\<lparr>db := d\<rparr>))"

end
