(* ===== verification/Pool_System.thy ===== *)
theory Pool_System
  imports Pool_Machine Runner_Api
begin

text \<open>
  The server as a state machine: every handler of the pool, of the API that runners call and of the
  goroutines is a step, and the reachable worlds satisfy the invariant of the pool.
\<close>

subsection \<open>The endpoints of the runners\<close>

lemma collectKey_task:
  assumes "collectKey env i k f st = (e, st')" and "\<And>k tr. TR_Task (f k tr) = TR_Task tr"
  shows "TR_Task (fst st') = TR_Task (fst st)"
  using assms by (auto simp: collectKey_def split: prod.splits sum.splits)

lemma thenCollect_task:
  assumes "thenCollect m f = Some (e, st')" and "\<And>e s. m = Some (e, s) \<Longrightarrow> TR_Task (fst s) = t"
    and "\<And>s e s'. f s = Some (e, s') \<Longrightarrow> TR_Task (fst s') = TR_Task (fst s)"
  shows "TR_Task (fst st') = t"
  using assms(1) unfolding thenCollect_def
  by (auto split: option.splits prod.splits dest: assms(2,3))

lemma collectVaults_task:
  "collectVaults env i vs st = Some (e, st') \<Longrightarrow> TR_Task (fst st') = TR_Task (fst st)"
proof (induction env i vs st arbitrary: e st' rule: collectVaults.induct)
  case (2 env i v vs st)
  show ?case
  proof (cases "TVault_VaultKeyID v")
    case (Some k)
    with 2(3) obtain key where key: "TVault_Vault v = Some key"
      and t: "thenCollect (Some (collectKey env k key (setVault i) st)) (collectVaults env (Suc i) vs) = Some (e, st')"
      by (auto split: option.splits)
    show ?thesis
      by (rule thenCollect_task [OF t]) (auto dest!: collectKey_task simp: setVault_def intro: 2(2) [OF Some key])
  qed (use 2 in simp)
qed simp

lemma collectTaskAccessKeys_task:
  assumes "collectTaskAccessKeys env st = Some (e, st')"
  shows "TR_Task (fst st') = TR_Task (fst st)"
proof -
  note parts = collectInventoryKeys_def collectBecomeKey_def collectInventoryRepository_def
    collectRepositoryKey_def
  have one: "TR_Task (fst s') = TR_Task (fst s)"
    if "collectInventoryKeys env s = Some (e, s') \<or> collectBecomeKey env s = Some (e, s') \<or>
        collectInventoryRepository env s = Some (e, s') \<or> collectRepositoryKey env s = Some (e, s')" for s e s'
    using that unfolding parts Let_def
    by (auto split: option.splits dest!: collectKey_task)
  show ?thesis
    using assms unfolding collectTaskAccessKeys_def
    by (auto elim!: thenCollect_task intro: one collectVaults_task)
qed

lemma keeps_failRemote:
  assumes inv: "pool_inv env w" and r: "r < nextRef w" and f: "failRemote env r rn msg w = Some w'"
  shows "keeps env w w'"
proof -
  from f obtain w1 where w1: "SetStatus env r TaskFailStatus (Log r msg w) = Some w1"
    "FinalizeRemoteTask env (Some r) (Some rn) w1 = Some w'"
    by (auto simp: failRemote_def dest!: bind_SomeD)
  have k: "keeps env w w1"
    using inv quiet_trans [OF quiet_Log(1) quiet_SetStatus [OF w1(1)]] by (rule keeps_quiet)
  show ?thesis
    by (rule keeps_trans [OF k keeps_FinalizeRemoteTask [OF keeps_inv [OF k] keeps_ref [OF k r] w1(2)]])
qed

lemma keeps_prepareRemoteJob:
  assumes inv: "pool_inv env w" and r: "r < nextRef w"
    and f: "prepareRemoteJob env rn r (data, w) = Some (data', w')"
  shows "keeps env w w'"
proof -
  have fail: "keeps env w v" if "failRemote env r rn msg w = Some v" for msg v
    using inv r that by (rule keeps_failRemote)
  have dec: "keeps env w (modRunner r (\<lambda>_. tr) w)"
    if "collectTaskAccessKeys env (heap w r, []) = Some (e, tr, ks)" for e tr ks
  proof -
    have "TR_Task tr = TR_Task (heap w r)" using collectTaskAccessKeys_task [OF that] by simp
    then have "quiet w (modRunner r (\<lambda>_. tr) w)"
      by (intro quietI) (simp_all add: idof_def projectOf_def fun_eq_iff)
    with inv show ?thesis by (rule keeps_quiet)
  qed
  have decfail: "keeps env w v"
    if "collectTaskAccessKeys env (heap w r, []) = Some (e, tr, ks)"
      "failRemote env r rn msg (modRunner r (\<lambda>_. tr) w) = Some v" for e tr ks msg v
    using keeps_trans [OF dec [OF that(1)] keeps_failRemote [OF keeps_inv [OF dec [OF that(1)]] _ that(2)]] r
    by simp
  from f show ?thesis
    unfolding prepareRemoteJob_def Let_def prod.case
    by (auto split: sum.splits option.splits dest: fail dec decfail)
qed

lemma keeps_pollTask:
  assumes "pool_inv env (snd st)" and "r < nextRef (snd st)" and "pollTask env rn r st = Some st'"
  shows "keeps env (snd st) (snd st')"
  using assms unfolding pollTask_def Let_def
  by (cases st; cases st') (auto split: if_splits intro: keeps_refl keeps_prepareRemoteJob)

lemma keeps_api_GetRunner:
  assumes inv: "pool_inv env w" and g: "api_GetRunner env startedAt rn w = Some (res, w')"
  shows "keeps env w w'"
proof -
  define rn' where "rn' = (case startedAt of None \<Rightarrow> rn | Some t \<Rightarrow> rn\<lparr>Runner_StartedAt := Some t\<rparr>)"
  show ?thesis
  proof (cases "TouchRunner rn' (now w) (db w)")
    case (Inl err)
    with g inv show ?thesis by (simp add: api_GetRunner_def rn'_def Let_def keeps_refl)
  next
    case (Inr d)
    let ?w = "w\<lparr>db := d\<rparr>"
    obtain data0 data1 where f: "foldM (pollTask env rn') (RunningRange (state ?w)) (data0, ?w) = Some (data1, w')"
      using g Inr unfolding api_GetRunner_def rn'_def [symmetric] Let_def by auto
    have k0: "keeps env w ?w" using inv quiet_db by (rule keeps_quiet)
    have ref: "x < nextRef ?w" if "x \<in> set (RunningRange (state ?w))" for x
      using keeps_inv [OF k0] that by (rule running_refs)
    have "keeps env ?w (snd (data1, w'))"
    proof (rule keeps_foldM [OF keeps_inv [OF k0] f])
      fix x s s' assume "x \<in> set (RunningRange (state ?w))" "keeps env ?w (snd s)" "pollTask env rn' x s = Some s'"
      then show "keeps env (snd s) (snd s')" by (blast intro: keeps_pollTask keeps_inv keeps_ref ref)
    qed simp
    with k0 show ?thesis by (auto intro: keeps_trans)
  qed
qed

lemma quiet_SetCommit: "SetCommit r h m w = Some w' \<Longrightarrow> quiet w w'"
  unfolding SetCommit_def Let_def
  by (auto split: sum.splits intro!: quiet_trans [OF quiet_modTask quiet_db])

lemma quiet_logAll: "quiet w (fold (\<lambda>l. LogWithTime r (LogRecord_Time l) (LogRecord_Message l)) ls w)"
  by (induction ls arbitrary: w) (auto intro: quiet_trans quiet_Log(2))

lemma keeps_acceptProgress:
  assumes inv: "pool_inv env w" and r: "r < nextRef w" and a: "acceptProgress env rn r job w = Some w'"
  shows "keeps env w w'"
proof -
  let ?w1 = "fold (\<lambda>l. LogWithTime r (LogRecord_Time l) (LogRecord_Message l)) (Progress_LogRecords job) w"
  from a obtain w2 w3 where w: "SetStatus env r (Progress_Status job) ?w1 = Some w2"
    "(case Progress_Commit job of None \<Rightarrow> Some w2
      | Some c \<Rightarrow> SetCommit r (Commit_Hash c) (Commit_Message c) w2) = Some w3"
    "w' = (if IsFinished (statusOf w3 r) then spawn (GoFinalizeRemoteTask r (Some rn)) w3 else w3)"
    unfolding acceptProgress_def Let_def by (auto dest!: bind_SomeD)
  have "quiet w2 w3" using w(2) by (auto split: option.splits dest: quiet_SetCommit)
  then have k: "keeps env w w3"
    using inv quiet_trans [OF quiet_trans [OF quiet_logAll quiet_SetStatus [OF w(1)]]] keeps_quiet by blast
  show ?thesis
    unfolding w(3) using keeps_trans [OF k keeps_spawn [OF keeps_inv [OF k]]] keeps_ref [OF k r] k by simp
qed

lemma keeps_progressJob:
  assumes inv: "pool_inv env (snd st)" and p: "progressJob env rn job st = Some (e, st')"
  shows "keeps env (snd st) (snd st')"
proof -
  obtain terminated w where st: "st = (terminated, w)" by (cases st)
  have w: "pool_inv env w" using inv st by simp
  obtain res w1 where g: "GetTask env (Progress_ID job) w = Some (res, w1)"
    using p st by (auto simp: progressJob_def Let_def split: option.splits)
  have k1: "keeps env w w1" using w quiet_GetTask [OF g] by (rule keeps_quiet)
  show ?thesis
  proof (cases "\<exists>r. res = Inr (Some r)")
    case True
    then obtain r where r: "res = Inr (Some r)" by blast
    have acc: "keeps env w v" if "acceptProgress env rn r job w1 = Some v" for v
      using keeps_trans [OF k1 keeps_acceptProgress [OF keeps_inv [OF k1] GetTask_ref_inv [OF w g [unfolded r]] that]] .
    from p st g r k1 acc show ?thesis
      by (auto simp: progressJob_def Let_def split: if_splits)
  next
    case False
    with p st g k1 show ?thesis
      by (auto simp: progressJob_def Let_def split: sum.splits option.splits)
  qed
qed

lemma keeps_progressLoop:
  "pool_inv env (snd st) \<Longrightarrow> progressLoop env rn jobs st = Some (res, w') \<Longrightarrow> keeps env (snd st) w'"
proof (induction jobs arbitrary: st)
  case Nil
  then show ?case by (cases st) (auto intro: keeps_refl)
next
  case (Cons job jobs)
  from Cons(3) obtain e st1 where p: "progressJob env rn job st = Some (e, st1)"
    by (auto split: option.splits)
  have k: "keeps env (snd st) (snd st1)" using Cons(2) p by (rule keeps_progressJob)
  from Cons(3) p k Cons(1) [OF keeps_inv [OF k]] show ?case
    by (cases st1) (auto split: option.splits intro: keeps_trans)
qed

lemma keeps_api_UpdateRunner:
  assumes "pool_inv env w" and "api_UpdateRunner env body rn w = Some (res, w')"
  shows "keeps env w w'"
  using assms keeps_progressLoop [of env "([], w)"] unfolding api_UpdateRunner_def
  by (auto split: option.splits intro: keeps_refl)

lemma keeps_RunnerMiddleware:
  assumes "pool_inv env w" and "RunnerMiddleware tok h w = Some (res, w')"
    and "\<And>rn. h rn w = Some (res, w') \<Longrightarrow> keeps env w w'"
  shows "keeps env w w'"
  using assms unfolding RunnerMiddleware_def
  by (auto split: if_splits sum.splits intro: keeps_refl)

lemma quiet_registration:
  "quiet w (snd (api_RegisterRunner hash g rnd reg w))"
  "api_UnregisterRunner rn w = Some (res, w') \<Longrightarrow> quiet w w'"
  unfolding api_RegisterRunner_def api_UnregisterRunner_def Let_def
  by (auto split: sum.splits prod.splits intro: quiet_intros)

subsection \<open>The machine\<close>

text \<open>
  One step of the system. A goroutine that was spawned runs once; requests to the API may arrive with
  any argument at any time; the clock may advance. The handlers that log or write output
  (\<^verbatim>\<open>handleLogs\<close>) touch nothing the pool reads and are left out. \<open>localRun\<close> is the local executor.
\<close>

inductive pool_step :: "PoolEnv \<Rightarrow> LocalRun \<Rightarrow> World \<Rightarrow> World \<Rightarrow> bool"
  for env :: PoolEnv and localRun :: LocalRun where
  step_handleQueue: "handleQueue env w = Some w' \<Longrightarrow> pool_step env localRun w w'"
| step_register: "runRegister w = Some w' \<Longrightarrow> pool_step env localRun w w'"
| step_tick: "pool_step env localRun w (runTick w)"
| step_clock: "now w \<le> t \<Longrightarrow> pool_step env localRun w (w\<lparr>now := t\<rparr>)"
| step_run: "spawned w = gs @ GoRun r # gs' \<Longrightarrow>
    run env localRun r (w\<lparr>spawned := gs @ gs'\<rparr>) = Some w' \<Longrightarrow> pool_step env localRun w w'"
| step_finalize: "spawned w = gs @ GoFinalizeRemoteTask r rn # gs' \<Longrightarrow>
    FinalizeRemoteTask env (Some r) rn (w\<lparr>spawned := gs @ gs'\<rparr>) = Some w' \<Longrightarrow> pool_step env localRun w w'"
| step_timeout: "AfterFunc d i rn \<in> set (trace w) \<Longrightarrow> timeoutFired env i rn w = Some w' \<Longrightarrow>
    pool_step env localRun w w'"
| step_reconcile: "reconcileRunnerTasks env (now w) w = Some w' \<Longrightarrow> pool_step env localRun w w'"
| step_AddTask: "AddTask env t uid un p al w = Some (res, w') \<Longrightarrow> pool_step env localRun w w'"
| step_ConfirmTask: "ConfirmTask env t w = Some (e, w') \<Longrightarrow> pool_step env localRun w w'"
| step_RejectTask: "RejectTask env t w = Some (e, w') \<Longrightarrow> pool_step env localRun w w'"
| step_StopTask: "StopTask env t f w = Some (e, w') \<Longrightarrow> pool_step env localRun w w'"
| step_stopLocalTask: "stopLocalTask env i w = Some w' \<Longrightarrow> pool_step env localRun w w'"
| step_StopTasksByTemplate: "StopTasksByTemplate env p i f w = Some w' \<Longrightarrow> pool_step env localRun w w'"
| step_StopTasksByWorkflowRun: "StopTasksByWorkflowRun env p i f w = Some w' \<Longrightarrow> pool_step env localRun w w'"
| step_poll: "RunnerMiddleware token (api_GetRunner env startedAt) w = Some (answer, w') \<Longrightarrow>
    pool_step env localRun w w'"
| step_progress: "RunnerMiddleware token (api_UpdateRunner env body) w = Some (terminated, w') \<Longrightarrow>
    pool_step env localRun w w'"
| step_registerRunner: "api_RegisterRunner hash globalToken random reg w = (reply, w') \<Longrightarrow>
    pool_step env localRun w w'"
| step_unregisterRunner: "RunnerMiddleware token api_UnregisterRunner w = Some (ack, w') \<Longrightarrow>
    pool_step env localRun w w'"

text \<open>A fresh pool (\<^verbatim>\<open>CreateTaskPool\<close>): nothing queued, running or pending; any database.\<close>

definition initialWorld :: "World \<Rightarrow> bool" where
  "initialWorld w \<longleftrightarrow>
     state w = NewMemoryTaskStateStore \<and> queueEvents w = [] \<and> register w = [] \<and> logger w = [] \<and>
     spawned w = [] \<and> trace w = []"

inductive reachable :: "PoolEnv \<Rightarrow> LocalRun \<Rightarrow> World \<Rightarrow> bool"
  for env :: PoolEnv and localRun :: LocalRun where
  reach_init: "initialWorld w \<Longrightarrow> reachable env localRun w"
| reach_step: "reachable env localRun w \<Longrightarrow> pool_step env localRun w w' \<Longrightarrow> reachable env localRun w'"

lemma initial_inv: "initialWorld w \<Longrightarrow> pool_inv env w"
  by (auto simp: initialWorld_def pool_inv_def refsOK_def storeRefs_def withinLimit_def RunningCount_def
      NewMemoryTaskStateStore_def store_inv_def activeMap_def)

lemma keeps_dropGoroutine:
  assumes "pool_inv env w" and "spawned w = gs @ g # gs'"
  shows "keeps env w (w\<lparr>spawned := gs @ gs'\<rparr>)" "goRef g < nextRef w"
proof -
  have "idof (w\<lparr>spawned := gs @ gs'\<rparr>) = idof w" by (simp add: idof_def fun_eq_iff)
  with assms show "keeps env w (w\<lparr>spawned := gs @ gs'\<rparr>)"
    by (auto simp: keeps_def pool_inv_def refsOK_def withinLimit_def)
  show "goRef g < nextRef w" using assms by (auto simp: pool_inv_def refsOK_def)
qed

lemma pool_step_keeps:
  assumes "pool_step env lr w w'" and lq: "localRunQuiet lr" and inv: "pool_inv env w"
  shows "keeps env w w'"
  using assms(1)
proof cases
  case step_tick
  then show ?thesis using inv by (auto simp: runTick_def intro: keeps_sendEvent)
next
  case (step_clock t)
  have "quiet w w'" unfolding step_clock by (rule quietI) (simp_all add: idof_def projectOf_def fun_eq_iff)
  with inv show ?thesis by (rule keeps_quiet)
next
  case (step_run gs r gs')
  note k = keeps_dropGoroutine [OF inv step_run(1)]
  show ?thesis
    by (rule keeps_trans [OF k(1) keeps_run [OF lq keeps_inv [OF k(1)] _ step_run(2)]]) (use k(2) in simp)
next
  case (step_finalize gs r rn gs')
  note k = keeps_dropGoroutine [OF inv step_finalize(1)]
  show ?thesis
    by (rule keeps_trans [OF k(1) keeps_FinalizeRemoteTask [OF keeps_inv [OF k(1)] _ step_finalize(2)]])
       (use k(2) in simp)
next
  case step_AddTask
  then show ?thesis using inv by (blast intro: keeps_quiet quiet_AddTask)
next
  case step_poll
  with inv show ?thesis by (blast intro: keeps_RunnerMiddleware keeps_api_GetRunner)
next
  case step_progress
  with inv show ?thesis by (blast intro: keeps_RunnerMiddleware keeps_api_UpdateRunner)
next
  case (step_registerRunner hash globalToken random reg)
  then show ?thesis
    using keeps_quiet [OF inv quiet_registration(1) [of w hash globalToken random reg]] by simp
next
  case step_unregisterRunner
  with inv show ?thesis by (blast intro: keeps_RunnerMiddleware keeps_quiet quiet_registration(2))
qed (use inv in \<open>auto simp: ConfirmTask_def RejectTask_def intro: keeps_handleQueue keeps_runRegister
    keeps_timeoutFired keeps_reconcileRunnerTasks keeps_confirmWith keeps_StopTask keeps_stopLocalTask
    keeps_StopTasksByTemplate keeps_StopTasksByWorkflowRun\<close>)

lemma reachable_inv:
  assumes "reachable env lr w" and "localRunQuiet lr"
  shows "pool_inv env w"
  using assms(1)
proof induction
  case (reach_step w w')
  then show ?case using pool_step_keeps [OF _ assms(2)] by (blast dest: keeps_inv)
qed (rule initial_inv)

end
