(* ===== verification/Sample.thy ===== *)
theory Sample
  imports Pool_System
begin

text \<open>
  A small concrete installation: one project with two runners and two templates, in-memory services
  that never fail. The witnesses of the properties evaluate the model on it.
\<close>

definition sampleProject :: Project where
  "sampleProject = \<lparr>Project_ID = 1, Project_Alert = True, Project_AlertChat = None, Project_MaxParallelTasks = 2\<rparr>"

definition sampleTemplate :: Template where
  "sampleTemplate = zeroTemplate\<lparr>Template_ID := 10, Template_ProjectID := 1, Template_RepositoryID := 5,
     Template_Name := ''deploy'', Template_App := AppAnsible\<rparr>"

definition parallelTemplate :: Template where
  "parallelTemplate = sampleTemplate\<lparr>Template_ID := 11, Template_AllowParallelTasks := True\<rparr>"

definition sampleRepository :: Repository where
  "sampleRepository = zeroRepository\<lparr>Repository_ID := 5, Repository_ProjectID := 1\<rparr>"

definition sampleRunner :: "ident \<Rightarrow> Runner" where
  "sampleRunner i =
     \<lparr>Runner_ID = i, Runner_Token = (if i = 7 then ''t'' else ''u''), Runner_ProjectID = None, Runner_Webhook = [],
      Runner_MaxParallelTasks = 1, Runner_Active = True, Runner_IsDefault = True, Runner_Name = ''runner'',
      Runner_Tags = [], Runner_Touched = Some 1000, Runner_CleaningRequested = None, Runner_StartedAt = Some 0,
      Runner_PublicKey = None, Runner_RegistrationTokenHash = None, Runner_RegistrationTokenExpiresAt = None\<rparr>"

definition sampleTask :: "ident \<Rightarrow> Task" where
  "sampleTask i = zeroTask\<lparr>Task_ID := i, Task_TemplateID := 10, Task_ProjectID := 1,
     Task_Status := TaskWaitingStatus\<rparr>"

definition sampleDb :: Database where
  "sampleDb =
     \<lparr>tbl_task = [sampleTask 1, sampleTask 2, sampleTask 3], tbl_template = [sampleTemplate, parallelTemplate],
      tbl_project = [sampleProject], tbl_projectUser = [], tbl_user = [], tbl_inventory = [],
      tbl_repository = [sampleRepository], tbl_environment = [],
      tbl_runner = [sampleRunner 7, sampleRunner 8], tbl_event = [],
      tbl_output = [], next_task_id = 4, next_runner_id = 9, db_faults = (\<lambda>_. False)\<rparr>"

definition sampleEnv :: PoolEnv where
  "sampleEnv =
     \<lparr>HAEnabled = False, IsUseRemoteRunner = True, MaxParallelTasks = 2, MaxTasksPerTemplate = 0,
      MaxTaskDurationSec = 60, RunnersOfflineTimeout = 120000000000,
      RunnersTaskFailTimeout = 420000000000, alertEnabled = (\<lambda>_. False), TelegramChat = [],
      svc_GetInventory = (\<lambda>_ _. Inl ErrNotFound), svc_DeserializeSecret = Inr,
      svc_FillEnvironmentSecrets = Inr, svc_CreateTaskSurveySecrets = (\<lambda>_ _ _ _. None),
      svc_GetTaskSurveySecrets = (\<lambda>_ _. Inr []), svc_Sign = None,
      time_ParseDuration = (\<lambda>_. None), svc_Workflow = None, git_validRef = (\<lambda>_. True),
      json_UnmarshalAny = (\<lambda>_. Some []),
      json_MarshalAny = (\<lambda>_. ''{}''), json_UnmarshalStr = (\<lambda>_. Some []),
      json_MarshalStr = (\<lambda>_. ''{}''), http_Post = (\<lambda>_ _ _. Inr 200), random_String = ''alias'',
      random_Int = (\<lambda>_. Some 0), clear_Old = (\<lambda>_. False)\<rparr>"

definition sampleObj :: "ident \<Rightarrow> TaskRunner" where
  "sampleObj i =
     (newTaskRunnerObj (sampleTask i) ''admin'')\<lparr>TR_Template := sampleTemplate,
       TR_job := Some (RemoteJob None (sampleTask i) False)\<rparr>"

definition parallelObj :: "ident \<Rightarrow> TaskRunner" where
  "parallelObj i =
     (newTaskRunnerObj ((sampleTask i)\<lparr>Task_TemplateID := 11\<rparr>) ''admin'')\<lparr>TR_Template := parallelTemplate,
       TR_job := Some (RemoteJob None ((sampleTask i)\<lparr>Task_TemplateID := 11\<rparr>) False)\<rparr>"

text \<open>Runner \<open>n\<close> of the heap has task ID \<open>n + 1\<close>; the first two are of the exclusive template.\<close>

definition sampleHeap :: "tref \<Rightarrow> TaskRunner" where
  "sampleHeap r = (if r < 2 then sampleObj (int r + 1) else parallelObj (int r + 1))"

definition emptyWorld :: World where
  "emptyWorld =
     \<lparr>heap = sampleHeap, nextRef = 4, state = NewMemoryTaskStateStore, db = sampleDb,
      queueEvents = [], register = [], logger = [], spawned = [],
      metrics = \<lparr>tasksRunning = 0, tasksTotal = []\<rparr>, now = 2000, trace = []\<rparr>"

text \<open>Three tasks are waiting.\<close>

definition queuedWorld :: World where
  "queuedWorld = emptyWorld\<lparr>state := NewMemoryTaskStateStore\<lparr>queue := [Some 0, Some 1, Some 2]\<rparr>\<rparr>"

text \<open>Task 1 is running.\<close>

definition runningWorld :: World where
  "runningWorld =
     (modTask 0 (\<lambda>t. t\<lparr>Task_Status := TaskRunningStatus, Task_Start := Some 1500, Task_RunnerID := Some 7\<rparr>)
       emptyWorld)
     \<lparr>state := NewMemoryTaskStateStore\<lparr>running := [(1, 0)], activeProj := [(1, [(1, 0)])]\<rparr>,
      metrics := \<lparr>tasksRunning = 1, tasksTotal = []\<rparr>\<rparr>"

definition idleLocalRun :: LocalRun where
  "idleLocalRun r un iv al w = Some (None, w)"

lemmas sample_defs =
  sampleProject_def sampleTemplate_def parallelTemplate_def sampleRepository_def sampleRunner_def
  sampleTask_def sampleDb_def sampleEnv_def sampleObj_def parallelObj_def sampleHeap_def emptyWorld_def
  queuedWorld_def runningWorld_def zeroTask_def zeroTemplate_def zeroRepository_def zeroAccessKey_def newTaskRunnerObj_def
  NewMemoryTaskStateStore_def

lemma idleLocalRun_quiet: "localRunQuiet idleLocalRun"
  by (simp add: localRunQuiet_def idleLocalRun_def)

lemma sample_queue_inv: "store_inv (idof queuedWorld) (state queuedWorld)"
  by (simp add: sample_defs store_inv_def keyedByID_def)

lemma sample_running_inv: "store_inv (idof runningWorld) (state runningWorld)"
  by (simp add: sample_defs store_inv_def keyedByID_def idof_def)

lemma empty_initial: "initialWorld emptyWorld"
  by (simp add: initialWorld_def emptyWorld_def)

end
