(* ===== verification/Pool_Properties.thy ===== *)
theory Pool_Properties
  imports Sample
begin

text \<open>
  Properties of the queue loop and of the reachable states of the pool.
\<close>

subsection \<open>Reachable states\<close>

text \<open>C1. In every world that the pool can reach from a fresh start, by any sequence of queue events,
  API requests, task goroutines, timers and reconciler passes, the number of running tasks is within
  the configured limit \<^verbatim>\<open>MaxParallelTasks\<close>, the running and active maps are keyed by the IDs of the tasks
  they hold, and every queued, running or active pointer is to an allocated task runner.\<close>

theorem reachable_limit:
  assumes "localRunQuiet localRun" and "reachable env localRun w"
  shows "(MaxParallelTasks env > 0 \<longrightarrow> RunningCount (state w) \<le> MaxParallelTasks env) \<and>
    store_inv (idof w) (state w) \<and> storeRefs (state w) \<subseteq> {..<nextRef w}"
  using reachable_inv [OF assms(2,1)] by (simp add: pool_inv_def withinLimit_def refsOK_def)

theorem reachable_limit_witness:
  "RunningCount (state (runTick emptyWorld)) \<le> 2 \<and> store_inv (idof (runTick emptyWorld)) (state (runTick emptyWorld))"
proof -
  have "reachable sampleEnv idleLocalRun (runTick emptyWorld)"
    by (intro reach_step [OF reach_init [OF empty_initial]] step_tick)
  from reachable_limit [OF idleLocalRun_quiet this] show ?thesis
    by (simp add: sampleEnv_def)
qed

subsection \<open>Passes over the queue\<close>

text \<open>One iteration of \<^verbatim>\<open>handleQueue\<close>, whatever the event, keeps the well-formedness of the store
  and the limit on running tasks.\<close>

lemma handleQueue_keeps:
  assumes "pool_inv env w" and "handleQueue env w = Some w'"
  shows "store_inv (idof w') (state w') \<and> withinLimit env w'"
  using keeps_handleQueue [OF assms] by (simp add: keeps_def pool_inv_def)

text \<open>The admission test of the pool: a task has to wait exactly when the global limit is
  reached, or its project has an unfinished active task of the same template that forbids parallel
  tasks, or its project is at its own limit.\<close>

lemma blocks_exactly:
  "blocks env r w \<longleftrightarrow>
     (MaxParallelTasks env > 0 \<and> RunningCount (state w) \<ge> MaxParallelTasks env) \<or>
     sameTemplateActive w r \<or>
     (\<exists>proj. GetProject (projectOf w r) (db w) = Inr proj \<and> Project_MaxParallelTasks proj > 0 \<and>
        ActiveCount (projectOf w r) (state w) \<ge> Project_MaxParallelTasks proj)"
  by (rule blocks_iff)

text \<open>A pass over the queue never brings a project above its own limit of parallel tasks.\<close>

lemma queuePass_respects_project_limit:
  assumes "store_inv (idof w) (state w)" and "GetProject p (db w) = Inr proj"
    and "Project_MaxParallelTasks proj > 0" and "ActiveCount p (state w) \<le> Project_MaxParallelTasks proj"
  shows "ActiveCount p (state (queuePass env skip w)) \<le> Project_MaxParallelTasks proj"
proof -
  have "withinProjectLimit p w" using assms by (simp add: withinProjectLimit_def)
  then have "withinProjectLimit p (queuePass env skip w)" by (rule queuePass_projectLimit [OF assms(1)])
  with assms(2,3) show ?thesis by (simp add: withinProjectLimit_def passFrame_D [OF queuePass_frame])
qed

text \<open>C3. A pass never runs two tasks of a template that forbids parallel tasks at the same time: if
  two unfinished active tasks of a project belong to one such template before the pass only when they
  are the same task, then so they do after it.\<close>

theorem queuePass_exclusive_templates:
  assumes "store_inv (idof w) (state w)" and "exclusiveTemplates p w"
    and "\<And>r. Some r \<in> set (queue (state w)) \<Longrightarrow> templateLoaded w r"
    and "a \<in> set (GetActive p (state (queuePass env skip w)))"
    and "b \<in> set (GetActive p (state (queuePass env skip w)))"
    and "\<not> IsFinished (statusOf w a)" and "\<not> IsFinished (statusOf w b)"
    and "Template_ID (TR_Template (heap w a)) = Template_ID (TR_Template (heap w b))"
    and "\<not> Template_AllowParallelTasks (TR_Template (heap w a))"
    and "\<not> Template_AllowParallelTasks (TR_Template (heap w b))"
  shows "a = b"
proof -
  note fr = passFrame_template [OF queuePass_frame [of w env skip]]
  have "exclusiveTemplates p (queuePass env skip w)"
    using assms(1-3) by (rule queuePass_exclusive)
  then show ?thesis
    using assms(4-10) unfolding exclusiveTemplates_def fr forbidsParallel_def by blast
qed

lemma queuedWorld_templates: "Some r \<in> set (queue (state queuedWorld)) \<Longrightarrow> templateLoaded queuedWorld r"
  by (auto simp: sample_defs templateLoaded_def)

lemma queuedWorld_pass_active: "GetActive 1 (state (queuePass sampleEnv 0 queuedWorld)) = [0, 2]"
  by code_simp

theorem queuePass_exclusive_templates_witness:
  "0 \<in> set (GetActive 1 (state (queuePass sampleEnv 0 queuedWorld))) \<and>
   1 \<notin> set (GetActive 1 (state (queuePass sampleEnv 0 queuedWorld)))"
proof -
  have e: "exclusiveTemplates 1 queuedWorld"
    by (simp add: exclusiveTemplates_def GetActive_def sample_defs)
  have a: "0 \<in> set (GetActive 1 (state (queuePass sampleEnv 0 queuedWorld)))"
    by (simp add: queuedWorld_pass_active)
  moreover have "1 \<notin> set (GetActive 1 (state (queuePass sampleEnv 0 queuedWorld)))"
  proof
    assume b: "1 \<in> set (GetActive 1 (state (queuePass sampleEnv 0 queuedWorld)))"
    have "(0::tref) = 1"
      by (rule queuePass_exclusive_templates [OF sample_queue_inv e queuedWorld_templates a b])
         (simp_all add: sample_defs statusOf_def)
    then show False by simp
  qed
  ultimately show ?thesis ..
qed

text \<open>C23. On a queue of distinct tasks a pass starts, in the order of the queue, some of the tasks, drops
  the tasks that have failed, and leaves the others where they are. It never starts the task that is
  to be skipped (the one that was just put back in the queue) and never one that has failed.\<close>

theorem queuePass_fifo:
  assumes "queue (state w) = map Some qs" and "distinct (map (idof w) qs)"
  shows "\<exists>started. subseq started qs \<and>
     spawned (queuePass env skip w) = spawned w @ map GoRun started \<and>
     queue (state (queuePass env skip w)) =
       map Some (filter (\<lambda>r. r \<notin> set started \<and> \<not> droppedBy skip w r) qs) \<and>
     (\<forall>r\<in>set started. \<not> droppedBy skip w r \<and> (skip \<noteq> 0 \<longrightarrow> idof w r \<noteq> skip))"
  using assms by (rule queuePass_order)

lemma queuedWorld_queue: "queue (state queuedWorld) = map Some [0, 1, 2]"
  by (simp add: sample_defs)

lemma queuedWorld_distinct: "distinct (map (idof queuedWorld) [0, 1, 2])"
  by (simp add: sample_defs idof_def)

theorem queuePass_fifo_witness:
  "\<exists>started. subseq started [0, 1, 2] \<and>
     spawned (queuePass sampleEnv 1 queuedWorld) = map GoRun started \<and> 0 \<notin> set started"
proof -
  obtain started where s: "subseq started [0, 1, 2]"
    "spawned (queuePass sampleEnv 1 queuedWorld) = spawned queuedWorld @ map GoRun started"
    "\<forall>r\<in>set started. \<not> droppedBy 1 queuedWorld r \<and> ((1::ident) \<noteq> 0 \<longrightarrow> idof queuedWorld r \<noteq> 1)"
    using queuePass_fifo [OF queuedWorld_queue queuedWorld_distinct, of sampleEnv 1] by blast
  from s(3) have "0 \<notin> set started" by (auto simp: sample_defs idof_def)
  with s show ?thesis by (auto simp: sample_defs)
qed

text \<open>C2. A pass starts every task that it may start: on a queue of distinct tasks, a task that is
  still queued afterwards is blocked in the world that the pass leaves, or is the one that the pass was
  told to skip.\<close>

theorem queuePass_work_conserving:
  assumes "queue (state w) = map Some qs" and "distinct (map (idof w) qs)"
    and "store_inv (idof w) (state w)" and "ownIDs (set qs) w"
    and "Some r \<in> set (queue (state (queuePass env skip w)))"
  shows "blocks env r (queuePass env skip w) \<or> (skip \<noteq> 0 \<and> idof w r = skip)"
  using assms by (rule queuePass_conserving)

theorem queuePass_work_conserving_witness:
  "queue (state (queuePass sampleEnv 0 queuedWorld)) = [Some 1] \<and>
   blocks sampleEnv 1 (queuePass sampleEnv 0 queuedWorld)"
proof -
  have q: "queue (state (queuePass sampleEnv 0 queuedWorld)) = [Some 1]" by code_simp
  have own: "ownIDs (set [0, 1, 2]) queuedWorld"
    by (simp add: ownIDs_def GetActive_def sample_defs)
  have "Some 1 \<in> set (queue (state (queuePass sampleEnv 0 queuedWorld)))" by (simp add: q)
  from queuePass_work_conserving [OF queuedWorld_queue queuedWorld_distinct sample_queue_inv own this] q
  show ?thesis by simp
qed

text \<open>Starting a task and releasing it again leaves the running and active maps without the task and
  otherwise as they were, and the queue as it was.\<close>

lemma run_then_stop:
  assumes "store_inv (idof w) (state w)" and "s = state (onTaskStop r (onTaskRun r w))"
  shows "map_of (running s) = (map_of (running (state w)))(idof w r := None) \<and>
    activeMap s = (activeMap (state w))(projectOf w r := (activeMap (state w) (projectOf w r))(idof w r := None)) \<and>
    queue s = queue (state w) \<and> store_inv (idof w) s"
proof -
  let ?s1 = "SetRunning (idof w) r (AddActive (idof w) (projectOf w r) r (state w))"
  let ?s2 = "if TR_Alias (heap w r) \<noteq> [] then SetAlias (TR_Alias (heap w r)) (Some r) ?s1 else ?s1"
  let ?s3 = "DeleteRunning (idof w r) (RemoveActive (projectOf w r) (idof w r) ?s2)"
  have s: "s = (if TR_Alias (heap w r) \<noteq> [] then DeleteAlias (TR_Alias (heap w r)) ?s3 else ?s3)"
    unfolding assms(2) by (simp add: onTaskRun_def onTaskStop_def Let_def idof_def projectOf_def)
  have i2: "store_inv (idof w) ?s2" using assms(1) by (simp add: store_inv_intros)
  have "store_inv (idof w) s" unfolding s using assms(1) by (simp add: store_inv_intros)
  moreover have "map_of (running s) = (map_of (running (state w)))(idof w r := None)"
    unfolding s by (auto simp: fun_eq_iff)
  moreover have "activeMap s = (activeMap (state w))(projectOf w r := (activeMap (state w) (projectOf w r))(idof w r := None))"
    unfolding s using RemoveActive_activeMap [OF i2] by (auto simp: fun_eq_iff)
  moreover have "queue s = queue (state w)" unfolding s by simp
  ultimately show ?thesis by blast
qed

text \<open>When the queue loop handles the event of a requeued task, the task leaves the running set, and
  the pass that follows does not start it again.\<close>

lemma requeued_not_restarted:
  assumes "store_inv (idof w) (state w)" and "idof w r \<noteq> 0"
    and "queue (state w) = map Some qs" and "distinct (map (idof w) qs)"
    and "handleQueueEvent env \<lparr>eventType = EventTypeRequeued, eventTask = Some r\<rparr> w = Some w'"
  shows "\<exists>started. spawned w' = spawned w @ map GoRun started \<and> r \<notin> set started \<and>
    (r \<in> set qs \<longrightarrow> Some r \<in> set (queue (state w')))"
proof -
  let ?v = "onTaskStop r w"
  have f: "passFrame w ?v" "spawned ?v = spawned w" by (simp_all add: onTaskStop_frame)
  have q: "queue (state ?v) = map Some qs" using assms(3) by (simp add: onTaskStop_def Let_def)
  have w': "w' = queuePass env (idof w r) ?v"
    using assms(5) passFrame_D [OF f(1)] by (simp add: handleQueueEvent_def Let_def)
  have d: "distinct (map (idof ?v) qs)" using assms(4) passFrame_D [OF f(1)] by simp
  from queuePass_order [OF q d, of env "idof w r"] obtain started where st:
    "spawned w' = spawned ?v @ map GoRun started"
    "queue (state w') = map Some (filter (\<lambda>x. x \<notin> set started \<and> \<not> droppedBy (idof w r) ?v x) qs)"
    "\<forall>x\<in>set started. \<not> droppedBy (idof w r) ?v x \<and> (idof w r \<noteq> 0 \<longrightarrow> idof ?v x \<noteq> idof w r)"
    unfolding w' by blast
  have "r \<notin> set started" using st(3) assms(2) passFrame_D [OF f(1)] by auto
  moreover have "\<not> droppedBy (idof w r) ?v r" using assms(2) passFrame_D [OF f(1)] by (simp add: droppedBy_def)
  ultimately show ?thesis using st f by auto
qed

end
