(* ===== verification/Runner_Properties.thy ===== *)
theory Runner_Properties
  imports Sample
begin

text \<open>
  Properties of a task runner: its status, the row that records it, the metrics, and the end of a
  run.
\<close>

subsection \<open>Status changes\<close>

text \<open>C9. An accepted status change is complete and durable: the task has the new status, a task that
  starts running gets its start time, the row read back from the database agrees with the task, and
  nothing else of the pool changes; a refused one changes nothing at all.\<close>

theorem SetStatus_correct:
  assumes "SetStatus env r s w = Some w'" and "GetTaskByID (idof w r) (db w) = Inr row"
  shows "if s = statusOf w r \<or> refusesTransition (statusOf w r) s then w' = w
    else statusOf w' r = s \<and>
      (s = TaskRunningStatus \<longrightarrow> Task_Start (TR_Task (heap w' r)) = Some (now w)) \<and>
      (\<forall>r'. r' \<noteq> r \<longrightarrow> heap w' r' = heap w r') \<and> state w' = state w \<and> queueEvents w' = queueEvents w \<and>
      (\<exists>row'. GetTaskByID (idof w r) (db w') = Inr row' \<and> Task_Status row' = s \<and>
         Task_Start row' = Task_Start (TR_Task (heap w' r)) \<and> Task_End row' = Task_End (TR_Task (heap w' r)) \<and>
         Task_RunnerID row' = Task_RunnerID (TR_Task (heap w' r)))"
proof (cases "acceptsTransition (statusOf w r) s")
  case True
  note acc = SetStatus_accepted [OF assms(1) True]
  let ?t = "setStatusTask s (now w) (TR_Task (heap w r))"
  have "GetTaskByID (idof w r) (db w') = Inr (updateRow ?t row)"
    using UpdateTask_GetTaskByID [OF acc(5) assms(2)] by (simp add: idof_def)
  with True acc(1,2) show ?thesis
    by (auto simp: acceptsTransition_def statusOf_def sameRest_def)
next
  case False
  with assms(1) SetStatus_refused [OF False] show ?thesis by (auto simp: acceptsTransition_def)
qed

theorem SetStatus_correct_witness:
  "\<exists>w'. SetStatus sampleEnv 0 TaskRunningStatus emptyWorld = Some w' \<and> statusOf w' 0 = TaskRunningStatus \<and>
     (\<exists>row'. GetTaskByID 1 (db w') = Inr row' \<and> Task_Status row' = TaskRunningStatus \<and> Task_Start row' = Some 2000)"
proof -
  have "\<not> db_faults (db emptyWorld) Q_UpdateTask" by (simp add: sample_defs)
  then obtain w' where w': "SetStatus sampleEnv 0 TaskRunningStatus emptyWorld = Some w'"
    using SetStatus_total by blast
  have g: "GetTaskByID (idof emptyWorld 0) (db emptyWorld) = Inr (sampleTask 1)"
    by (simp add: GetTaskByID_def selectOne_def sample_defs idof_def)
  have i: "idof emptyWorld 0 = 1" "statusOf emptyWorld 0 = TaskWaitingStatus" "now emptyWorld = 2000"
    by (simp_all add: sample_defs idof_def statusOf_def)
  from SetStatus_correct [OF w' g] w' show ?thesis by (auto simp: i)
qed

text \<open>Stopped is final: no status change takes a stopped task out of the status, and none is ever
  written for it.\<close>

lemma stopped_is_final:
  "statusOf w r = TaskStoppedStatus \<Longrightarrow> SetStatus env r s w = Some w"
  by (rule SetStatus_refused) (simp add: acceptsTransition_def)

text \<open>A failed or successful task is not final: the empty cases for these statuses let it be
  started again.\<close>

lemma finished_can_restart:
  "s \<in> {TaskSuccessStatus, TaskFailStatus} \<Longrightarrow> \<not> db_faults (db w) Q_UpdateTask \<Longrightarrow> statusOf w r = s \<Longrightarrow>
     \<exists>w'. SetStatus env r TaskRunningStatus w = Some w' \<and> IsFinished (statusOf w r) \<and>
          statusOf w' r = TaskRunningStatus"
proof -
  assume s: "s \<in> {TaskSuccessStatus, TaskFailStatus}" "statusOf w r = s"
  assume "\<not> db_faults (db w) Q_UpdateTask"
  then obtain w' where w': "SetStatus env r TaskRunningStatus w = Some w'" using SetStatus_total by blast
  have acc: "acceptsTransition (statusOf w r) TaskRunningStatus" using s by (auto simp: acceptsTransition_def)
  have "statusOf w' r = TaskRunningStatus"
    using SetStatus_accepted(1) [OF w' acc] by (simp add: statusOf_def)
  with w' s show ?thesis by (auto simp: IsFinished_simps)
qed

subsection \<open>Metrics\<close>

lemma gauge_change:
  "tasksRunning (RecordTaskStatusChange a b m) =
     tasksRunning m - (if a = TaskRunningStatus then 1 else 0) + (if b = TaskRunningStatus then 1 else 0)"
  by (simp add: RecordTaskStatusChange_def Let_def)

text \<open>The gauge of running tasks is exact: if it is the number of tasks with status running among
  a set of task runners that contains \<open>r\<close>, it still is after any status change of \<open>r\<close>.\<close>

lemma gauge_counts_running:
  assumes "SetStatus env r s w = Some w'" and "finite R" and "r \<in> R"
    and "tasksRunning (metrics w) = int (card {x \<in> R. statusOf w x = TaskRunningStatus})"
  shows "tasksRunning (metrics w') = int (card {x \<in> R. statusOf w' x = TaskRunningStatus})"
proof (cases "acceptsTransition (statusOf w r) s")
  case True
  note acc = SetStatus_accepted [OF assms(1) True]
  let ?A = "{x \<in> R. statusOf w x = TaskRunningStatus}" and ?B = "{x \<in> R. statusOf w' x = TaskRunningStatus}"
  have st: "statusOf w' x = (if x = r then s else statusOf w x)" for x
    using acc(1) by (simp add: statusOf_def)
  have rest: "?A - {r} = ?B - {r}" by (auto simp: st)
  have fin: "finite ?A" "finite ?B" using assms(2) by simp_all
  have split: "int (card X) = int (card (X - {r})) + (if r \<in> X then 1 else 0)" if "finite X" for X
  proof (cases "r \<in> X")
    case True
    with that card.remove [of X r] show ?thesis by simp
  next
    case False
    then have "X - {r} = X" by blast
    with False show ?thesis by simp
  qed
  have mem: "r \<in> ?A \<longleftrightarrow> statusOf w r = TaskRunningStatus" "r \<in> ?B \<longleftrightarrow> s = TaskRunningStatus"
    using assms(3) st by auto
  have "int (card ?A) = int (card (?B - {r})) + (if statusOf w r = TaskRunningStatus then 1 else 0)"
    using split [OF fin(1)] unfolding rest mem .
  moreover have "int (card ?B) = int (card (?B - {r})) + (if s = TaskRunningStatus then 1 else 0)"
    using split [OF fin(2)] unfolding mem .
  moreover have "tasksRunning (metrics w') = tasksRunning (metrics w) -
      (if statusOf w r = TaskRunningStatus then 1 else 0) + (if s = TaskRunningStatus then 1 else 0)"
    unfolding acc(4) by (rule gauge_change)
  ultimately show ?thesis using assms(4) by linarith
next
  case False
  with assms SetStatus_refused [OF False] show ?thesis by simp
qed

end
