(* ===== verification/Dispatch_Properties.thy ===== *)
theory Dispatch_Properties
  imports Sample
begin

text \<open>
  Properties of the dispatch of remote tasks: the choice of a runner, the effect of an assignment, the
  incoming version of a deploy task, and the decisions and actions of the reconciler.
\<close>

subsection \<open>Choosing a runner\<close>

text \<open>What the documentation of \<^verbatim>\<open>crypto/rand.Int\<close> promises: a number below the bound, or an error.\<close>

definition fairSource :: "(nat \<Rightarrow> nat option) \<Rightarrow> bool" where
  "fairSource rnd \<longleftrightarrow> (\<forall>m j. 0 < m \<longrightarrow> rnd m = Some j \<longrightarrow> j < m)"

definition hasCapacity :: "World \<Rightarrow> Runner \<Rightarrow> bool" where
  "hasCapacity w rn \<longleftrightarrow>
     GetNumberOfRunningTasksOfRunner w (Runner_ID rn) < Runner_MaxParallelTasks rn \<or> Runner_MaxParallelTasks rn = 0"

text \<open>The runners that may execute a task of project \<open>p\<close> with runner tag \<open>tag\<close>.\<close>

definition eligible :: "ident \<Rightarrow> string option \<Rightarrow> World \<Rightarrow> Runner set" where
  "eligible p tag w =
     {rn \<in> set (tbl_runner (db w)). (Runner_ProjectID rn = Some p \<or> Runner_ProjectID rn = None) \<and>
        Runner_Active rn \<and> IsRegistered rn \<and>
        (case tag of None \<Rightarrow> Runner_IsDefault rn | Some g \<Rightarrow> HasTag rn g)}"

definition available :: "PoolEnv \<Rightarrow> World \<Rightarrow> Runner \<Rightarrow> bool" where
  "available env w rn \<longleftrightarrow> IsOnline rn (now w) (RunnersOfflineTimeout env) \<and> hasCapacity w rn"

lemma shuffleFrom_mset:
  assumes "fairSource rnd" and "shuffleFrom rnd i xs = Some ys" and "i < length xs"
  shows "mset ys = mset xs"
  using assms(2,3)
proof (induction i arbitrary: xs)
  case (Suc i)
  then obtain j where j: "rnd (Suc i + 1) = Some j" "shuffleFrom rnd i (xs[Suc i := xs ! j, j := xs ! Suc i]) = Some ys"
    by (auto split: option.splits)
  have "j < length xs" using assms(1) j(1) Suc.prems(2) by (fastforce simp: fairSource_def)
  with mset_swap [of j xs "Suc i"] Suc.IH [OF j(2)] Suc.prems(2) show ?case by simp
qed simp

lemma shuffleRunners_mset: "fairSource rnd \<Longrightarrow> mset (shuffleRunners rnd rs) = mset rs"
  using shuffleFrom_mset [of rnd "length rs - 1" rs]
  by (auto simp: shuffleRunners_def split: option.splits)

lemma shuffleRunners_set: "fairSource rnd \<Longrightarrow> set (shuffleRunners rnd rs) = set rs"
  by (metis shuffleRunners_mset set_mset_mset)

lemma selectRunner_find:
  "selectRunner rs at off busy =
     find (\<lambda>r. IsOnline r at off \<and> (busy (Runner_ID r) < Runner_MaxParallelTasks r \<or> Runner_MaxParallelTasks r = 0)) rs"
  by (induction rs) (auto simp: Let_def)

lemma candidateRunners_set:
  assumes "fairSource (random_Int env)" and "\<not> db_faults (db w) Q_GetRunners" and "\<not> db_faults (db w) Q_GetAllRunners"
  shows "\<exists>rs. candidateRunners env p tag (db w) = Some (Inr rs) \<and> set rs = eligible p tag w"
  using assms(2,3)
  by (cases tag)
     (auto simp: shuffleRunners_set [OF assms(1)] candidateRunners_def GetRunners_def GetAllRunners_def selectAll_def eligible_def Let_def)

text \<open>A shuffled list is a permutation of the runners, whatever the random source yields.\<close>

lemma candidateRunners_eligible:
  assumes "fairSource (random_Int env)" and "candidateRunners env p tag (db w) = Some (Inr rs)"
  shows "set rs = eligible p tag w"
proof -
  have "\<not> db_faults (db w) Q_GetRunners" "\<not> db_faults (db w) Q_GetAllRunners"
    using assms(2) by (auto simp: candidateRunners_def GetRunners_def GetAllRunners_def selectAll_def Let_def
        split: if_splits option.splits sum.splits)
  from candidateRunners_set [OF assms(1) this, of p tag] assms(2) show ?thesis by auto
qed

text \<open>The world after the fields of the job were stored in the task runner.\<close>

definition jobStored :: "tref \<Rightarrow> string \<Rightarrow> string option \<Rightarrow> string \<Rightarrow> World \<Rightarrow> World" where
  "jobStored r un iv al = modRunner r (\<lambda>t. t\<lparr>TR_IncomingVersion := iv, TR_Username := un, TR_Alias := al\<rparr>)"

lemma jobStored_task [simp]: "TR_Task (heap (jobStored r un iv al w) x) = TR_Task (heap w x)"
  by (simp add: jobStored_def)

lemma jobStored_frame:
  "eligible p tag (jobStored r un iv al w) = eligible p tag w" "available env (jobStored r un iv al w) = available env w"
  "db (jobStored r un iv al w) = db w" "state (jobStored r un iv al w) = state w"
  "now (jobStored r un iv al w) = now w" "queueEvents (jobStored r un iv al w) = queueEvents w"
proof -
  show f: "db (jobStored r un iv al w) = db w" "state (jobStored r un iv al w) = state w"
    "now (jobStored r un iv al w) = now w" "queueEvents (jobStored r un iv al w) = queueEvents w"
    by (simp_all add: jobStored_def)
  show "eligible p tag (jobStored r un iv al w) = eligible p tag w" by (simp add: eligible_def f)
  show "available env (jobStored r un iv al w) = available env w"
    by (simp add: available_def hasCapacity_def GetNumberOfRunningTasksOfRunner_def f fun_eq_iff)
qed

lemma RemoteJob_Run_local:
  assumes "localTask w (Task_ID task) = Some (Some r)"
  shows "RemoteJob_Run env tag task un iv al w =
    (case candidateRunners env (Task_ProjectID task) tag (db w) of
       None \<Rightarrow> None
     | Some (Inl err) \<Rightarrow> Some (Some err, jobStored r un iv al w)
     | Some (Inr rs) \<Rightarrow>
         if rs = [] then Some (Some (ErrOther ''no runners available''), jobStored r un iv al w)
         else (case find (available env w) rs of
                 None \<Rightarrow> Some (Some ErrAllRunnersBusy, jobStored r un iv al w)
               | Some rn \<Rightarrow> Some (assignRunner env r rn (Task_ID task) (jobStored r un iv al w))))"
proof -
  have "available env w = available env (jobStored r un iv al w)" by (simp add: jobStored_frame)
  then have f: "find (available env w) rs =
      selectRunner rs (now (jobStored r un iv al w)) (RunnersOfflineTimeout env)
        (GetNumberOfRunningTasksOfRunner (jobStored r un iv al w))" for rs
    by (simp only:) (simp add: selectRunner_find available_def [abs_def] hasCapacity_def)
  show ?thesis
    using assms unfolding f
    by (simp add: RemoteJob_Run_def GetTask_def Let_def jobStored_def [symmetric] jobStored_frame)
qed

subsection \<open>Properties of the dispatch\<close>

text \<open>C4. The choice of a runner is exact. For a task the pool knows, and a database that answers, the
  dispatch reports that there is no runner exactly when no active, registered runner of the project or of the
  whole installation fits the tag of the job; it reports that all are busy exactly when there are such
  runners but none is online with free capacity; otherwise it assigns the task to one that is.\<close>

theorem dispatch_exact:
  assumes "localTask w (Task_ID task) = Some (Some r)" and "fairSource (random_Int env)"
    and "\<not> db_faults (db w) Q_GetRunners" and "\<not> db_faults (db w) Q_GetAllRunners"
    and E: "E = eligible (Task_ProjectID task) tag w"
  shows "\<exists>res. RemoteJob_Run env tag task un iv al w = Some res \<and>
    (if E = {} then res = (Some (ErrOther ''no runners available''), jobStored r un iv al w)
     else if \<forall>rn\<in>E. \<not> available env w rn then res = (Some ErrAllRunnersBusy, jobStored r un iv al w)
     else \<exists>rn\<in>E. available env w rn \<and> res = assignRunner env r rn (Task_ID task) (jobStored r un iv al w))"
proof -
  obtain rs where rs: "candidateRunners env (Task_ProjectID task) tag (db w) = Some (Inr rs)" "set rs = E"
    using candidateRunners_set [OF assms(2-4), of "Task_ProjectID task" tag] by (auto simp: E)
  show ?thesis
  proof (cases "find (available env w) rs")
    case None
    then have "\<forall>rn\<in>E. \<not> available env w rn" using rs(2) by (simp add: find_None_iff_ball)
    with None rs show ?thesis by (auto simp: RemoteJob_Run_local [OF assms(1)])
  next
    case (Some rn)
    then have e: "rn \<in> E" "available env w rn" using find_Some_in [OF Some] rs(2) by auto
    then have "RemoteJob_Run env tag task un iv al w =
        Some (assignRunner env r rn (Task_ID task) (jobStored r un iv al w))"
      using Some rs by (auto simp: RemoteJob_Run_local [OF assms(1)])
    moreover have "E \<noteq> {}" "\<not> (\<forall>rn\<in>E. \<not> available env w rn)" using e by blast+
    ultimately show ?thesis using e by (simp only: if_False) blast
  qed
qed

lemma sample_fair: "fairSource (random_Int sampleEnv)"
  by (simp add: fairSource_def sampleEnv_def)

lemma running_local: "localTask runningWorld (Task_ID (sampleTask 1)) = Some (Some 0)"
  by code_simp

text \<open>Runner 7 has its one task, so task 1 would go to runner 8.\<close>

theorem dispatch_exact_witness:
  "\<exists>w'. RemoteJob_Run sampleEnv None (sampleTask 1) ''admin'' None [] runningWorld = Some (None, w') \<and>
     Task_RunnerID (TR_Task (heap w' 0)) = Some 8"
proof -
  have e: "eligible (Task_ProjectID (sampleTask 1)) None runningWorld = {sampleRunner 7, sampleRunner 8}"
    by (auto simp: eligible_def sample_defs IsRegistered_def)
  have a: "\<not> available sampleEnv runningWorld (sampleRunner 7)" "available sampleEnv runningWorld (sampleRunner 8)"
    by code_simp+
  have f: "\<not> db_faults (db runningWorld) q" for q by (simp add: sample_defs)
  let ?w = "jobStored 0 ''admin'' None [] runningWorld"
  have "RemoteJob_Run sampleEnv None (sampleTask 1) ''admin'' None [] runningWorld =
      Some (assignRunner sampleEnv 0 (sampleRunner 8) (Task_ID (sampleTask 1)) ?w)"
    using dispatch_exact [OF running_local sample_fair f f refl, of None "''admin''" None "[]"] a
    unfolding e by auto
  moreover have "fst (assignRunner sampleEnv 0 (sampleRunner 8) (Task_ID (sampleTask 1)) ?w) = None \<and>
      Task_RunnerID (TR_Task (heap (snd (assignRunner sampleEnv 0 (sampleRunner 8) (Task_ID (sampleTask 1)) ?w)) 0)) = Some 8"
    by code_simp
  ultimately show ?thesis by (metis prod.collapse)
qed

lemma assignRunner_None:
  assumes "assignRunner env r rn i w = (None, w')"
  shows "heap w' = (heap w)(r := (heap w r)\<lparr>TR_Task := (TR_Task (heap w r))\<lparr>Task_RunnerID := Some (Runner_ID rn)\<rparr>\<rparr>)"
    and "state w' = state w" and "queueEvents w' = queueEvents w"
    and "UpdateTask ((TR_Task (heap w r))\<lparr>Task_RunnerID := Some (Runner_ID rn)\<rparr>) (db w) = Inr (db w')"
  using assms
  by (auto simp: assignRunner_def callRunnerWebhook_def scheduleTimeout_def Let_def
      split: option.splits prod.splits sum.splits if_splits)

text \<open>A dispatch that succeeds is sound and durable: the runner is active, registered, fits the tag
  of the job, belongs to the project or to nobody, was heard from in time and had a free slot; the task and
  its row name that runner, and no other task and no bookkeeping of the pool changes.\<close>

lemma dispatch_sound:
  assumes "RemoteJob_Run env tag task un iv al w = Some (None, w')" and "localTask w (Task_ID task) = Some (Some r)"
    and "fairSource (random_Int env)" and "GetTaskByID (Task_ID task) (db w) = Inr row"
  shows "\<exists>rn\<in>eligible (Task_ProjectID task) tag w. available env w rn \<and>
    Task_RunnerID (TR_Task (heap w' r)) = Some (Runner_ID rn) \<and>
    (\<exists>row'. GetTaskByID (Task_ID task) (db w') = Inr row' \<and> Task_RunnerID row' = Some (Runner_ID rn) \<and>
            Task_Status row' = statusOf w r) \<and>
    (\<forall>r'. r' \<noteq> r \<longrightarrow> heap w' r' = heap w r') \<and> state w' = state w \<and> queueEvents w' = queueEvents w"
proof -
  let ?w = "jobStored r un iv al w"
  from assms(1) obtain rs rn where rs: "candidateRunners env (Task_ProjectID task) tag (db w) = Some (Inr rs)"
    and rn: "find (available env w) rs = Some rn" and a: "assignRunner env r rn (Task_ID task) ?w = (None, w')"
    by (auto simp: RemoteJob_Run_local [OF assms(2)] split: option.splits sum.splits if_splits)
  have e: "rn \<in> eligible (Task_ProjectID task) tag w" "available env w rn"
    using find_Some_in [OF rn] candidateRunners_eligible [OF assms(3) rs] by auto
  note as = assignRunner_None [OF a]
  have i: "Task_ID (TR_Task (heap ?w r)) = Task_ID task"
    using localTask_in_store(1) [OF assms(2)] by (simp add: jobStored_def idof_def)
  have "GetTaskByID (Task_ID task) (db ?w) = Inr row" using assms(4) by (simp add: jobStored_frame)
  from UpdateTask_GetTaskByID [OF as(4) this] i
  have "GetTaskByID (Task_ID task) (db w') =
      Inr (updateRow ((TR_Task (heap ?w r))\<lparr>Task_RunnerID := Some (Runner_ID rn)\<rparr>) row)" by simp
  with e as(1-3) show ?thesis
    by (intro bexI [of _ rn]) (auto simp: jobStored_def statusOf_def jobStored_frame)
qed

subsection \<open>The incoming version of a deploy task\<close>

text \<open>
  What the foreign key of \<^verbatim>\<open>task.build_task_id\<close> gives: a task refers to a task that existed when it
  was created, whose primary key is smaller.
\<close>

definition buildsBefore :: "Database \<Rightarrow> bool" where
  "buildsBefore d \<longleftrightarrow>
     (\<forall>t\<in>set (tbl_task d). 0 \<le> Task_ID t \<and>
        (case Task_BuildTaskID t of None \<Rightarrow> True | Some b \<Rightarrow> b < Task_ID t))"

lemma db_GetTask_row: "db_GetTask p i d = Inr t \<Longrightarrow> t \<in> set (tbl_task d) \<and> Task_ID t = i"
  by (auto simp: db_GetTask_def dest!: selectOne_Inr split: if_splits option.splits)

text \<open>Looking up the version a deployment deploys always ends: the chain of build tasks is followed up to
  a task of a build template, and the version is the one of that task. The chain ends because a task can
  only refer to an earlier one.\<close>

lemma incoming_version_found:
  assumes "buildsBefore d"
  shows "\<exists>v. GetIncomingVersion d task = Some v \<and>
    (case v of None \<Rightarrow> True
     | Some ver \<Rightarrow> \<exists>t\<in>set (tbl_task d). Task_Version t = Some ver \<and>
         (\<exists>tpl\<in>set (tbl_template d). Template_ID tpl = Task_TemplateID t \<and> Template_Type tpl = TemplateBuild))"
proof (cases "Task_BuildTaskID task")
  case None
  then show ?thesis by (simp add: GetIncomingVersion.simps)
next
  case (Some b)
  then show ?thesis
  proof (induction "nat (b + 1)" arbitrary: b task rule: less_induct)
    case less
    show ?case
    proof (cases "db_GetTask (Task_ProjectID task) b d")
      case (Inl err)
      with less.prems show ?thesis by (simp add: GetIncomingVersion.simps)
    next
      case (Inr bt)
      note row = db_GetTask_row [OF Inr]
      show ?thesis
      proof (cases "GetTemplate (Task_ProjectID task) (Task_TemplateID bt) d")
        case (Inl err)
        with less.prems Inr show ?thesis by (simp add: GetIncomingVersion.simps)
      next
        case tpl: (Inr tpl)
        have tp: "tpl \<in> set (tbl_template d)" "Template_ID tpl = Task_TemplateID bt"
          using tpl by (auto simp: GetTemplate_def dest!: selectOne_Inr)
        have eq: "GetIncomingVersion d task =
            (if Template_Type tpl = TemplateBuild then Some (Task_Version bt) else GetIncomingVersion d bt)"
          using less.prems Inr tpl by (simp add: GetIncomingVersion.simps [of d task])
        show ?thesis
        proof (cases "Template_Type tpl = TemplateBuild \<or> Task_BuildTaskID bt = None")
          case True
          with eq row tp show ?thesis
            by (auto simp: GetIncomingVersion.simps [of d bt] split: option.splits if_splits)
        next
          case False
          then obtain b' where b': "Task_BuildTaskID bt = Some b'" by auto
          with assms row have "nat (b' + 1) < nat (b + 1)" by (force simp: buildsBefore_def)
          from less.hyps [OF this b'] eq False show ?thesis by simp
        qed
      qed
    qed
  qed
qed

end
