(* ===== verification/Recovery_Properties.thy ===== *)
theory Recovery_Properties
  imports Sample
begin

text \<open>
  Properties of the recovery of remote tasks: the decisions of the reconciler, the requeueing of a task
  whose runner is offline, and the finalization of a remote task.
\<close>

subsection \<open>Decisions\<close>

definition restarted :: "Runner \<Rightarrow> go_time option \<Rightarrow> bool" where
  "restarted rn start \<longleftrightarrow> (\<exists>s t. Runner_StartedAt rn = Some s \<and> start = Some t \<and> s > t)"

definition silentFor :: "int \<Rightarrow> go_time \<Rightarrow> Runner \<Rightarrow> bool" where
  "silentFor limit at rn \<longleftrightarrow> (\<exists>t. Runner_Touched rn = Some t \<and> at - t > limit)"

lemma decide_cases:
  "fst (DecideRunnerTaskAction s start rn at off fail) =
    (if s = TaskRunningStatus \<and>
        (case rn of None \<Rightarrow> True | Some r \<Rightarrow> restarted r start \<or> silentFor fail at r)
     then RunnerTaskFail
     else if (s = TaskStartingStatus \<or> s = TaskWaitingStatus) \<and>
        (case rn of None \<Rightarrow> True
         | Some r \<Rightarrow> Runner_Webhook r = [] \<and> (Runner_Touched r = None \<or> silentFor off at r))
     then RunnerTaskRequeue
     else RunnerTaskKeep)"
  by (auto simp: DecideRunnerTaskAction_def restarted_def silentFor_def Let_def split: option.splits)

text \<open>The reconciler's decision as a table. A task is failed exactly when it is running and its runner
  is gone, was restarted after the task began, or has been silent for longer than the task timeout. It is
  returned to the queue exactly when it has not begun to run and its runner is gone, or is one that polls
  and has never done so or has been silent for longer than the offline timeout. In every other case,
  whatever the status, the task is left alone.\<close>

lemma decision_table:
  "fst (DecideRunnerTaskAction s start rn at off fail) =
    (if s = TaskRunningStatus \<and>
        (case rn of None \<Rightarrow> True | Some r \<Rightarrow> restarted r start \<or> silentFor fail at r)
     then RunnerTaskFail
     else if (s = TaskStartingStatus \<or> s = TaskWaitingStatus) \<and>
        (case rn of None \<Rightarrow> True
         | Some r \<Rightarrow> Runner_Webhook r = [] \<and> (Runner_Touched r = None \<or> silentFor off at r))
     then RunnerTaskRequeue
     else RunnerTaskKeep)"
  by (rule decide_cases)

lemma fail_timeout_ge: "conf_RunnersOfflineTimeout conf \<le> conf_RunnersTaskFailTimeout conf"
  by (simp add: conf_RunnersTaskFailTimeout_def Let_def)

text \<open>Under the timeouts that any configuration yields, a polling runner that the server counts as
  online never loses a task, unless it was restarted after the task had begun.\<close>

lemma online_runner_keeps_tasks:
  assumes "IsOnline rn at (conf_RunnersOfflineTimeout conf)" and "Runner_Webhook rn = []" and "\<not> restarted rn start"
  shows "fst (DecideRunnerTaskAction s start (Some rn) at
    (conf_RunnersOfflineTimeout conf) (conf_RunnersTaskFailTimeout conf)) = RunnerTaskKeep"
  using assms fail_timeout_ge [of conf]
  by (auto simp: decide_cases silentFor_def IsOnline_def split: option.splits)

definition plainConfig :: ConfigType where
  "plainConfig = \<lparr>cfg_Runners = None, cfg_UseRemoteRunner = True\<rparr>"

subsection \<open>Returning a task to the queue\<close>

lemma TryFinalize_free: "i \<notin> set (finalizing s) \<Longrightarrow> TryFinalize i s = (True, s\<lparr>finalizing := i # finalizing s\<rparr>)"
  by (simp add: TryFinalize_def)

lemma filter_absent: "i \<notin> set xs \<Longrightarrow> filter (\<lambda>j. j \<noteq> i) xs = xs"
  by (induction xs) auto

lemma release_lock: "i \<notin> set (finalizing s) \<Longrightarrow> DeleteFinalize i (s\<lparr>finalizing := i # finalizing s\<rparr>) = s"
  by (simp add: DeleteFinalize_def filter_absent)

lemma SetStatus_waiting:
  assumes "notYetRunning (statusOf w r)" and "\<not> db_faults (db w) Q_UpdateTask"
  shows "\<exists>v. SetStatus env r TaskWaitingStatus w = Some v \<and> sameRest w v \<and> db_faults (db v) = db_faults (db w) \<and>
    heap v = (heap w)(r := (heap w r)\<lparr>TR_Task := (TR_Task (heap w r))\<lparr>Task_Status := TaskWaitingStatus\<rparr>\<rparr>)"
proof (cases "statusOf w r = TaskWaitingStatus")
  case True
  then have "(heap w r)\<lparr>TR_Task := (TR_Task (heap w r))\<lparr>Task_Status := TaskWaitingStatus\<rparr>\<rparr> = heap w r"
    by (simp add: statusOf_def)
  with True show ?thesis by (simp add: SetStatus_refused acceptsTransition_def fun_upd_triv)
next
  case False
  with assms(1) have acc: "acceptsTransition (statusOf w r) TaskWaitingStatus"
    by (auto simp: notYetRunning_def acceptsTransition_def)
  obtain v where v: "SetStatus env r TaskWaitingStatus w = Some v" using SetStatus_total [OF assms(2)] by blast
  note a = SetStatus_accepted [OF v acc]
  from v a(1,2) UpdateTask_faults [OF a(5)] show ?thesis by (auto simp: setStatusTask_def Let_def)
qed

lemma persistAndRequeue_effect:
  assumes "notYetRunning (statusOf w r)" and "\<not> db_faults (db w) Q_UpdateTask"
  shows "\<exists>v. persistAndRequeue env r w = Some v \<and>
    heap v = (heap w)(r := (heap w r)\<lparr>TR_Task := (TR_Task (heap w r))\<lparr>Task_Status := TaskWaitingStatus\<rparr>\<rparr>) \<and>
    state v = Enqueue (Some r) (state w) \<and> spawned v = spawned w \<and> nextRef v = nextRef w \<and>
    queueEvents v = queueEvents w @ [\<lparr>eventType = EventTypeRequeued, eventTask = Some r\<rparr>] \<and>
    (\<exists>d. UpdateTask (TR_Task (heap v r)) d = Inr (db v))"
proof -
  obtain v where v: "SetStatus env r TaskWaitingStatus w = Some v" "sameRest w v" "db_faults (db v) = db_faults (db w)"
    "heap v = (heap w)(r := (heap w r)\<lparr>TR_Task := (TR_Task (heap w r))\<lparr>Task_Status := TaskWaitingStatus\<rparr>\<rparr>)"
    using SetStatus_waiting [OF assms] by blast
  obtain d where d: "UpdateTask (TR_Task (heap v r)) (db v) = Inr d"
    using v(3) assms(2) by (simp add: UpdateTask_def)
  from v d show ?thesis by (auto simp: persistAndRequeue_def sameRest_def)
qed

text \<open>
  When the lock of the task is taken and the task, as the attempt sees it (reloaded from the database in a cluster),
  has not begun to run and still belongs to the runner, the attempt requeues it.
\<close>

definition requeues :: "PoolEnv \<Rightarrow> tref \<Rightarrow> ident \<Rightarrow> World \<Rightarrow> bool" where
  "requeues env r rid w \<longleftrightarrow>
     idof w r \<notin> set (finalizing (state w)) \<and>
     notYetRunning (statusOf (refreshIfHA env r w) r) \<and>
     Task_RunnerID (TR_Task (heap (refreshIfHA env r w) r)) = Some rid"

lemma refreshIfHA_frame:
  "state (refreshIfHA env r w) = state w" "queueEvents (refreshIfHA env r w) = queueEvents w"
  "db (refreshIfHA env r w) = db w" "idof (refreshIfHA env r w) r' = idof w r'"
  by (auto simp: refreshIfHA_def refreshTaskStatusFromDB_def applyDBPersistedTaskSnapshot_def idof_def
      split: sum.splits)

lemma refreshIfHA_state: "refreshIfHA env r (w\<lparr>state := s\<rparr>) = (refreshIfHA env r w)\<lparr>state := s\<rparr>"
  by (auto simp: refreshIfHA_def refreshTaskStatusFromDB_def modTask_def idof_def split: sum.splits)

lemma no_requeue:
  assumes "\<not> requeues env r rid w"
  shows "\<exists>w'. requeueTaskRunnerOffline env r rid reason w = Some w' \<and> queue (state w') = queue (state w) \<and>
    finalizing (state w') = finalizing (state w) \<and> queueEvents w' = queueEvents w"
proof (cases "idof w r \<in> set (finalizing (state w))")
  case True
  then show ?thesis by (simp add: requeueTaskRunnerOffline_def underFinalizeLock_def TryFinalize_def)
next
  case False
  let ?s = "(state w)\<lparr>finalizing := idof w r # finalizing (state w)\<rparr>"
  have "requeueTaskRunnerOffline env r rid reason w =
      Some (modState (DeleteFinalize (idof w r)) ((refreshIfHA env r w)\<lparr>state := ?s\<rparr>))"
    using assms False
    by (auto simp: requeueTaskRunnerOffline_def underFinalizeLock_def TryFinalize_free refreshIfHA_state Let_def
        requeues_def statusOf_def)
  moreover have "DeleteFinalize (idof w r) ?s = state w" by (rule release_lock [OF False])
  ultimately show ?thesis by (simp add: modState_def refreshIfHA_frame)
qed

text \<open>What a row of the task table says after the attempt.\<close>

lemma UpdateTask_row:
  assumes "UpdateTask t d = Inr d'" and "GetTaskByID (Task_ID t) d' = Inr row"
  shows "Task_RunnerID row = Task_RunnerID t"
proof -
  have "find (\<lambda>x. Task_ID x = Task_ID t) (map (\<lambda>x. if Task_ID x = Task_ID t then updateRow t x else x) xs) = Some row \<Longrightarrow>
      Task_RunnerID row = Task_RunnerID t" for xs
    by (induction xs) (auto simp: updateRow_def Let_def split: if_splits)
  then show ?thesis
    using assms by (auto simp: UpdateTask_def GetTaskByID_def selectOne_def split: if_splits option.splits)
qed

lemma requeue_effect:
  assumes "requeues env r rid w" and "\<not> db_faults (db w) Q_UpdateTask"
  shows "\<exists>w'. requeueTaskRunnerOffline env r rid reason w = Some w' \<and>
    statusOf w' r = TaskWaitingStatus \<and> Task_RunnerID (TR_Task (heap w' r)) = None \<and>
    queue (state w') = queue (state w) @ [Some r] \<and> finalizing (state w') = finalizing (state w) \<and>
    queueEvents w' = queueEvents w @ [\<lparr>eventType = EventTypeRequeued, eventTask = Some r\<rparr>] \<and>
    idof w' r = idof w r \<and> (\<forall>k. k \<noteq> r \<longrightarrow> heap w' k = heap w k) \<and>
    (\<forall>row. GetTaskByID (idof w r) (db w') = Inr row \<longrightarrow> Task_RunnerID row = None)"
proof -
  have free: "idof w r \<notin> set (finalizing (state w))" using assms(1) by (simp add: requeues_def)
  let ?s = "(state w)\<lparr>finalizing := idof w r # finalizing (state w)\<rparr>"
  define w0 where "w0 = (refreshIfHA env r w)\<lparr>state := ?s\<rparr>"
  define w1 where "w1 = modTask r (\<lambda>t. t\<lparr>Task_RunnerID := None\<rparr>)
    (Log r (''Runner #'' @ itoa rid @ '' lost the task: '' @ reason @ ''. Returning task to queue.'') w0)"
  have w0: "notYetRunning (statusOf w0 r)" "Task_RunnerID (TR_Task (heap w0 r)) = Some rid" "idof w0 r = idof w r"
    "queueEvents w0 = queueEvents w" "db w0 = db w" "\<forall>k. k \<noteq> r \<longrightarrow> heap w0 k = heap w k"
    using assms(1) refreshIfHA_frame [of env r w]
    by (auto simp: requeues_def w0_def statusOf_def idof_def refreshIfHA_def refreshTaskStatusFromDB_def split: sum.splits)
  have w1: "notYetRunning (statusOf w1 r)" "\<not> db_faults (db w1) Q_UpdateTask" "state w1 = ?s"
    "queueEvents w1 = queueEvents w" "Task_RunnerID (TR_Task (heap w1 r)) = None"
    "Task_ID (TR_Task (heap w1 r)) = idof w r" "\<forall>k. k \<noteq> r \<longrightarrow> heap w1 k = heap w k"
    using w0 assms(2) by (simp_all add: w1_def statusOf_def idof_def w0_def)
  obtain v d where v: "persistAndRequeue env r w1 = Some v" "state v = Enqueue (Some r) ?s"
    "heap v = (heap w1)(r := (heap w1 r)\<lparr>TR_Task := (TR_Task (heap w1 r))\<lparr>Task_Status := TaskWaitingStatus\<rparr>\<rparr>)"
    "queueEvents v = queueEvents w @ [\<lparr>eventType = EventTypeRequeued, eventTask = Some r\<rparr>]"
    "UpdateTask (TR_Task (heap v r)) d = Inr (db v)"
    using persistAndRequeue_effect [OF w1(1,2), of env] w1(3,4) by auto
  let ?w = "modState (DeleteFinalize (idof w r)) v"
  have st: "state ?w = Enqueue (Some r) (state w)"
    using free v(2) by (simp add: Enqueue_def DeleteFinalize_def filter_absent)
  have "requeueTaskRunnerOffline env r rid reason w = Some ?w"
    using free w0(1,2) v(1)
    by (simp add: requeueTaskRunnerOffline_def underFinalizeLock_def TryFinalize_free refreshIfHA_state Let_def
        w1_def w0_def statusOf_def)
  moreover have "\<forall>row. GetTaskByID (idof w r) (db ?w) = Inr row \<longrightarrow> Task_RunnerID row = None"
    using UpdateTask_row [OF v(5)] v(3) w1(5,6) by simp
  ultimately show ?thesis
    using st v(3,4) w1(5-7) by (simp add: Enqueue_def statusOf_def idof_def)
qed

text \<open>When the row can not be written nothing is put into the queue (the attempt may end in a panic).\<close>

lemma persist_fault:
  assumes "db_faults (db w) Q_UpdateTask" and "persistAndRequeue env r w = Some v"
  shows "v = w"
proof -
  obtain w1 where s: "SetStatus env r TaskWaitingStatus w = Some w1"
    and v: "v = (case UpdateTask (TR_Task (heap w1 r)) (db w1) of Inl _ \<Rightarrow> w1
      | Inr d \<Rightarrow> sendEvent EventTypeRequeued (Some r) (modState (Enqueue (Some r)) (w1\<lparr>db := d\<rparr>)))"
    using assms(2) by (auto simp: persistAndRequeue_def)
  have "\<not> acceptsTransition (statusOf w r) TaskWaitingStatus"
    using SetStatus_accepted(5) [OF s] assms(1) by (auto simp: UpdateTask_def)
  then have "w1 = w" using s by (simp add: SetStatus_refused)
  then show ?thesis using v assms(1) by (simp add: UpdateTask_def)
qed

lemma requeue_fault:
  assumes "requeues env r rid w" and "db_faults (db w) Q_UpdateTask"
    and "requeueTaskRunnerOffline env r rid reason w = Some w'"
  shows "queue (state w') = queue (state w) \<and> finalizing (state w') = finalizing (state w) \<and> queueEvents w' = queueEvents w"
proof -
  have free: "idof w r \<notin> set (finalizing (state w))" using assms(1) by (simp add: requeues_def)
  let ?s = "(state w)\<lparr>finalizing := idof w r # finalizing (state w)\<rparr>"
  define w1 where "w1 = modTask r (\<lambda>t. t\<lparr>Task_RunnerID := None\<rparr>)
    (Log r (''Runner #'' @ itoa rid @ '' lost the task: '' @ reason @ ''. Returning task to queue.'')
      ((refreshIfHA env r w)\<lparr>state := ?s\<rparr>))"
  have "map_option (modState (DeleteFinalize (idof w r))) (persistAndRequeue env r w1) = Some w'"
    using assms(1,3) free
    by (simp add: requeueTaskRunnerOffline_def underFinalizeLock_def TryFinalize_free refreshIfHA_state Let_def
        w1_def requeues_def statusOf_def)
  moreover have "db w1 = db w" by (simp add: w1_def refreshIfHA_frame)
  ultimately have "w' = modState (DeleteFinalize (idof w r)) w1"
    using persist_fault [of w1 env r] assms(2) by auto
  then show ?thesis
    using release_lock [OF free] by (simp add: w1_def modState_def refreshIfHA_frame)
qed

text \<open>Once a task is requeued, no attempt that sees the cleared runner requeues it again.\<close>

lemma requeued_once:
  assumes "Task_RunnerID (TR_Task (heap w' r)) = None" and "idof w' r' = i"
    and "\<forall>row. GetTaskByID i (db w') = Inr row \<longrightarrow> Task_RunnerID row = None"
    and "r' = r \<or> HAEnabled env \<and> (\<exists>row. GetTaskByID i (db w') = Inr row)"
  shows "\<not> requeues env r' rid w'"
proof -
  have "Task_RunnerID (TR_Task (heap (refreshIfHA env r' w') r')) = None"
    using assms
    by (auto simp: refreshIfHA_def refreshTaskStatusFromDB_def applyDBPersistedTaskSnapshot_def split: sum.splits)
  then show ?thesis by (simp add: requeues_def)
qed

text \<open>C24. Requeueing a task whose runner is offline happens exactly once. An attempt that gets the finalization lock
  and finds that the task (reloaded from the database in a cluster) has not begun to run and still belongs to that
  runner, while the row can be written, makes it waiting without a runner, puts it at the end of the queue, tells the
  queue loop once and releases the lock; an attempt that finds something else, or can not write the row, puts nothing into the
  queue and tells the queue loop nothing. After the requeue a second attempt for the same runner requeues nothing, whether it
  is made with the same object or, in a cluster, by another node with its own stale object of the task, provided
  that this node can read the row of the task.\<close>

theorem requeue_exactly_once:
  shows "(requeues env r rid w \<and> \<not> db_faults (db w) Q_UpdateTask \<longrightarrow>
      (\<exists>w'. requeueTaskRunnerOffline env r rid reason w = Some w' \<and>
        statusOf w' r = TaskWaitingStatus \<and> Task_RunnerID (TR_Task (heap w' r)) = None \<and>
        queue (state w') = queue (state w) @ [Some r] \<and> finalizing (state w') = finalizing (state w) \<and>
        queueEvents w' = queueEvents w @ [\<lparr>eventType = EventTypeRequeued, eventTask = Some r\<rparr>] \<and>
        (\<forall>r'. idof w' r' = idof w r \<and> (r' = r \<or> HAEnabled env \<and> (\<exists>row. GetTaskByID (idof w r) (db w') = Inr row)) \<longrightarrow>
           (\<exists>w''. requeueTaskRunnerOffline env r' rid reason w' = Some w'' \<and>
              queue (state w'') = queue (state w') \<and> queueEvents w'' = queueEvents w')))) \<and>
    (requeues env r rid w \<and> db_faults (db w) Q_UpdateTask \<longrightarrow>
      (\<forall>w'. requeueTaskRunnerOffline env r rid reason w = Some w' \<longrightarrow> queue (state w') = queue (state w) \<and>
         finalizing (state w') = finalizing (state w) \<and> queueEvents w' = queueEvents w)) \<and>
    (\<not> requeues env r rid w \<longrightarrow>
      (\<exists>w'. requeueTaskRunnerOffline env r rid reason w = Some w' \<and> queue (state w') = queue (state w) \<and>
         finalizing (state w') = finalizing (state w) \<and> queueEvents w' = queueEvents w))"
proof (intro conjI impI; (elim conjE)?)
  assume "requeues env r rid w" "\<not> db_faults (db w) Q_UpdateTask"
  from requeue_effect [OF this, of reason] obtain w' where w':
    "requeueTaskRunnerOffline env r rid reason w = Some w'"
    "statusOf w' r = TaskWaitingStatus" "Task_RunnerID (TR_Task (heap w' r)) = None"
    "queue (state w') = queue (state w) @ [Some r]" "finalizing (state w') = finalizing (state w)"
    "queueEvents w' = queueEvents w @ [\<lparr>eventType = EventTypeRequeued, eventTask = Some r\<rparr>]"
    "\<forall>row. GetTaskByID (idof w r) (db w') = Inr row \<longrightarrow> Task_RunnerID row = None" by blast
  have "\<exists>w''. requeueTaskRunnerOffline env r' rid reason w' = Some w'' \<and>
      queue (state w'') = queue (state w') \<and> queueEvents w'' = queueEvents w'"
    if "idof w' r' = idof w r" "r' = r \<or> HAEnabled env \<and> (\<exists>row. GetTaskByID (idof w r) (db w') = Inr row)" for r'
    using no_requeue [OF requeued_once [OF w'(3) that(1) w'(7) that(2), of rid], of reason] by blast
  with w' show "\<exists>w'. requeueTaskRunnerOffline env r rid reason w = Some w' \<and>
        statusOf w' r = TaskWaitingStatus \<and> Task_RunnerID (TR_Task (heap w' r)) = None \<and>
        queue (state w') = queue (state w) @ [Some r] \<and> finalizing (state w') = finalizing (state w) \<and>
        queueEvents w' = queueEvents w @ [\<lparr>eventType = EventTypeRequeued, eventTask = Some r\<rparr>] \<and>
        (\<forall>r'. idof w' r' = idof w r \<and> (r' = r \<or> HAEnabled env \<and> (\<exists>row. GetTaskByID (idof w r) (db w') = Inr row)) \<longrightarrow>
           (\<exists>w''. requeueTaskRunnerOffline env r' rid reason w' = Some w'' \<and>
              queue (state w'') = queue (state w') \<and> queueEvents w'' = queueEvents w'))"
    by blast
qed (use requeue_fault no_requeue in \<open>blast+\<close>)

text \<open>Two nodes of a cluster, each with its own object of task 1, which is starting on a runner that is gone.\<close>

definition clusterEnv :: PoolEnv where
  "clusterEnv = sampleEnv\<lparr>HAEnabled := True\<rparr>"

definition clusterWorld :: World where
  "clusterWorld =
     (let w = modTask 0 (\<lambda>t. t\<lparr>Task_Status := TaskStartingStatus\<rparr>) runningWorld
      in w\<lparr>heap := (heap w)(1 := heap w 0), db := (db w)\<lparr>tbl_task := [TR_Task (heap w 0)]\<rparr>\<rparr>)"

theorem requeue_exactly_once_witness:
  "\<exists>w' w''. requeueTaskRunnerOffline clusterEnv 0 7 ''runner is offline'' clusterWorld = Some w' \<and>
     queue (state w') = [Some 0] \<and> requeueTaskRunnerOffline clusterEnv 1 7 ''runner is offline'' w' = Some w'' \<and>
     queue (state w'') = [Some 0]"
proof -
  have sample: "requeues clusterEnv 0 7 clusterWorld" "\<not> db_faults (db clusterWorld) Q_UpdateTask"
    "queue (state clusterWorld) = []"
    by code_simp+
  have second: "idof w' 1 = idof clusterWorld 0 \<and> (\<exists>row. GetTaskByID (idof clusterWorld 0) (db w') = Inr row)"
    if "requeueTaskRunnerOffline clusterEnv 0 7 ''runner is offline'' clusterWorld = Some w'" for w'
  proof -
    have "case requeueTaskRunnerOffline clusterEnv 0 7 ''runner is offline'' clusterWorld of
        None \<Rightarrow> False
      | Some w' \<Rightarrow> idof w' 1 = idof clusterWorld 0 \<and>
          (case GetTaskByID (idof clusterWorld 0) (db w') of Inl _ \<Rightarrow> False | Inr _ \<Rightarrow> True)"
      by code_simp
    with that show ?thesis by (auto split: sum.splits)
  qed
  have ha: "HAEnabled clusterEnv" by (simp add: clusterEnv_def)
  from requeue_exactly_once [of clusterEnv 0 7 clusterWorld "''runner is offline''"] sample ha second
  show ?thesis by (metis append_Nil)
qed

subsection \<open>Finalizing a remote task\<close>

lemma finishRun_effect:
  assumes "finishRun env r w = Some w'"
  shows "queueEvents w' = queueEvents w @ [\<lparr>eventType = EventTypeFinished, eventTask = Some r\<rparr>]"
    and "state w' = state w" and "Task_End (TR_Task (heap w' r)) = Some (now w)"
proof -
  obtain w2 where s: "saveStatus r (modTask r (\<lambda>t. t\<lparr>Task_End := Some (now w)\<rparr>) w) = Some w2"
    using assms by (auto simp: finishRun_def Let_def split: option.splits)
  note sv = saveStatus_Some [OF s]
  show "queueEvents w' = queueEvents w @ [\<lparr>eventType = EventTypeFinished, eventTask = Some r\<rparr>]"
    "state w' = state w" "Task_End (TR_Task (heap w' r)) = Some (now w)"
    using assms s sv(1,2) by (auto simp: finishRun_def Let_def sameRest_def split: option.splits)
qed

lemma finalizeLocked_effect:
  assumes "finalizeRemoteTaskLocked env r rn w = Some w'"
  defines "dup \<equiv> HAEnabled env \<and> Task_End (TR_Task (heap (refreshTaskStatusFromDB r w) r)) \<noteq> None"
  shows "queueEvents w' = queueEvents w @ (if dup then [] else [\<lparr>eventType = EventTypeFinished, eventTask = Some r\<rparr>])"
    and "finalizing (state w') = finalizing (state w)"
    and "dup \<Longrightarrow> map_of (running (state w')) (idof w r) = None"
proof -
  define w1 where "w1 = (if HAEnabled env then refreshTaskStatusFromDB r w else w)"
  have "quiet w w1" by (simp add: w1_def quiet_intros)
  moreover have "idof w1 r = idof w r"
    by (simp add: w1_def refreshTaskStatusFromDB_def applyDBPersistedTaskSnapshot_def idof_def split: sum.splits)
  ultimately have q1: "quiet w w1" "idof w1 r = idof w r" .
  define w2 where "w2 = (case rn of None \<Rightarrow> w1 | Some x \<Rightarrow> snd (callRunnerWebhook env x r ''finish'' w1))"
  have "quiet w1 w2"
    using quiet_callRunnerWebhook [OF surjective_pairing] by (auto simp: w2_def split: option.splits)
  with q1(1) have q2: "quiet w w2" by (rule quiet_trans)
  have *: "queueEvents w' = queueEvents w @ (if dup then [] else [\<lparr>eventType = EventTypeFinished, eventTask = Some r\<rparr>]) \<and>
    finalizing (state w') = finalizing (state w) \<and> (dup \<longrightarrow> map_of (running (state w')) (idof w r) = None)"
  proof (cases dup)
    case True
    then have d: "HAEnabled env" "Task_End (TR_Task (heap w1 r)) \<noteq> None" by (simp_all add: dup_def w1_def)
    with assms(1) have "w' = onTaskStop r w1"
      unfolding finalizeRemoteTaskLocked_def by (simp add: w1_def)
    with True q1 show ?thesis
      by (simp add: onTaskStop_def Let_def quiet_def idof_def RemoveActive_def DeleteRunning_def DeleteAlias_def
          DeleteClaim_def split: option.splits)
  next
    case False
    then have "\<not> (HAEnabled env \<and> Task_End (TR_Task (heap w1 r)) \<noteq> None)" by (auto simp: dup_def w1_def)
    then have "Option.bind (finishRun env r w2) (startAutorunTasks env r) = Some w'"
      using assms(1) unfolding finalizeRemoteTaskLocked_def w2_def w1_def Let_def by (simp only: if_False)
    then obtain w3 where w3: "finishRun env r w2 = Some w3" "startAutorunTasks env r w3 = Some w'"
      by (auto dest: bind_SomeD)
    note f = finishRun_effect [OF w3(1)] and a = quiet_startAutorunTasks [OF w3(2)]
    from False f a q2 show ?thesis by (simp add: quiet_def)
  qed
  then show "queueEvents w' = queueEvents w @ (if dup then [] else [\<lparr>eventType = EventTypeFinished, eventTask = Some r\<rparr>])"
    "finalizing (state w') = finalizing (state w)" "dup \<Longrightarrow> map_of (running (state w')) (idof w r) = None" by auto
qed

text \<open>C27. Finalizing a remote task excludes other finalizations of it. While another one holds the lock of the task
  nothing happens. Otherwise the lock is released at the end, and the queue loop is told exactly once that the task
  is finished, except that in a cluster a task whose end is already recorded in the database is not announced
  again but only taken out of the running set. (Outside a cluster a second finalization after the first would
  announce the task again.)\<close>

theorem finalize_excludes:
  assumes "FinalizeRemoteTask env (Some r) rn w = Some w'"
    and "recorded \<longleftrightarrow> HAEnabled env \<and> Task_End (TR_Task (heap (refreshTaskStatusFromDB r w) r)) \<noteq> None"
  shows "if idof w r \<in> set (finalizing (state w)) then w' = w
    else finalizing (state w') = finalizing (state w) \<and>
      queueEvents w' = queueEvents w @ (if recorded then [] else [\<lparr>eventType = EventTypeFinished, eventTask = Some r\<rparr>]) \<and>
      (recorded \<longrightarrow> map_of (running (state w')) (idof w r) = None)"
proof (cases "idof w r \<in> set (finalizing (state w))")
  case True
  with assms(1) show ?thesis by (simp add: FinalizeRemoteTask_def TryFinalize_def)
next
  case False
  let ?v = "w\<lparr>state := (state w)\<lparr>finalizing := idof w r # finalizing (state w)\<rparr>\<rparr>"
  from assms(1) False obtain u where u: "finalizeRemoteTaskLocked env r rn ?v = Some u"
    "w' = modState (DeleteFinalize (idof w r)) u"
    by (auto simp: FinalizeRemoteTask_def TryFinalize_free)
  have h: "heap (refreshTaskStatusFromDB r ?v) = heap (refreshTaskStatusFromDB r w)" "idof ?v r = idof w r"
    by (simp_all add: refreshTaskStatusFromDB_def idof_def split: sum.splits)
  from finalizeLocked_effect [OF u(1)] False u(2) show ?thesis
    unfolding h assms(2) by (simp add: DeleteFinalize_def filter_absent)
qed

theorem finalize_excludes_witness:
  "\<exists>w'. FinalizeRemoteTask sampleEnv (Some 0) None runningWorld = Some w' \<and>
     queueEvents w' = [\<lparr>eventType = EventTypeFinished, eventTask = Some 0\<rparr>] \<and> finalizing (state w') = []"
proof -
  have "FinalizeRemoteTask sampleEnv (Some 0) None runningWorld \<noteq> None" by code_simp
  then obtain w' where w': "FinalizeRemoteTask sampleEnv (Some 0) None runningWorld = Some w'" by blast
  have "\<not> HAEnabled sampleEnv" "finalizing (state runningWorld) = []" "queueEvents runningWorld = []"
    by (simp_all add: sample_defs)
  with finalize_excludes [OF w', of False] w' show ?thesis by simp
qed

end
