(* ===== verification/Creation_Properties.thy ===== *)
theory Creation_Properties
  imports Sample
begin

text \<open>
  Properties of the creation of tasks: what \<^verbatim>\<open>AddTask\<close> promises of the task it returns, the version of a
  new build, and the merging of the variable groups of a template.
\<close>

subsection \<open>Creating a task\<close>

lemma launchTask_registers:
  assumes "launchTask env t sec un al w = Some ((t', None), w')"
  shows "t' = t \<and> r = nextRef w \<longrightarrow>
    (\<exists>rs. register w' = register w @ rs @ [r]) \<and> r < nextRef w' \<and> idof w' r = Task_ID t \<and> TR_job (heap w' r) \<noteq> None"
    and "t' = t" and "state w' = state w" and "queueEvents w' = queueEvents w"
proof -
  obtain r' w1 where n: "NewTaskRunner t un w = (r', w1)" by fastforce
  define w2 where "w2 = (if al then modRunner r' (\<lambda>t. t\<lparr>TR_Alias := random_String env\<rparr>) w1 else w1)"
  have w2: "r' = nextRef w" "nextRef w2 = Suc (nextRef w)" "idof w2 r' = Task_ID t" "register w2 = register w"
    "state w2 = state w" "queueEvents w2 = queueEvents w"
    using n by (auto simp: NewTaskRunner_def w2_def idof_def newTaskRunnerObj_def)
  from assms n obtain w3 where p: "populateDetails env r' w2 = Some (None, w3)"
    by (auto simp: launchTask_def w2_def [symmetric] Let_def split: option.splits prod.splits)
  then obtain w4 where w4: "w' = createTaskEvent r' ((setJob env sec r' w4)\<lparr>register := register (setJob env sec r' w4) @ [r']\<rparr>)"
    "w4 = w3 \<or> (\<exists>es. w4 = emit es w3)" and t: "t' = t"
    using assms n
    by (auto simp: launchTask_def w2_def [symmetric] Let_def split: option.splits if_splits)
  have q: "quiet w2 w4" using quiet_populateDetails [OF p] w4(2) quiet_trans [OF _ quiet_emit] by auto
  then obtain rs where rs: "register w4 = register w @ rs" "state w4 = state w" "queueEvents w4 = queueEvents w"
    "nextRef w2 \<le> nextRef w4" "idof w4 r' = Task_ID t"
    using w2 by (auto simp: quiet_def)
  then show "t' = t \<and> r = nextRef w \<longrightarrow>
    (\<exists>rs. register w' = register w @ rs @ [r]) \<and> r < nextRef w' \<and> idof w' r = Task_ID t \<and> TR_job (heap w' r) \<noteq> None"
    using w2(1,2) unfolding w4(1) by (auto simp: setJob_def idof_def)
  show "t' = t" by (rule t)
  show "state w' = state w" "queueEvents w' = queueEvents w" using rs unfolding w4(1) by (simp_all add: setJob_def)
qed

lemma PreInsert_fields [simp]:
  "Task_Status (PreInsert t) = Task_Status t" "Task_Secret (PreInsert t) = Task_Secret t"
  "Task_ProjectID (PreInsert t) = Task_ProjectID t" "Task_UserID (PreInsert t) = Task_UserID t"
  "Task_CommitHash (PreInsert t) = Task_CommitHash t" "Task_Created (PreInsert t) = Task_Created t"
  "Task_TemplateID (PreInsert t) = Task_TemplateID t" "Task_Version (PreInsert t) = Task_Version t"
  by (simp_all add: PreInsert_def Let_def)

text \<open>The task as \<^verbatim>\<open>AddTask\<close> prepares it before the insert.\<close>

definition stamped :: "Task \<Rightarrow> ident option \<Rightarrow> ident \<Rightarrow> go_time \<Rightarrow> Task" where
  "stamped t uid p at =
     t\<lparr>Task_Created := at, Task_Status := TaskWaitingStatus, Task_UserID := uid, Task_ProjectID := p, Task_Secret := []\<rparr>"

lemma AddTask_Some:
  assumes "AddTask env t uid un p al w = Some ((t', None), w')"
  shows "\<exists>tpl v d. GetTemplate p (Task_TemplateID t) (db w) = Inr tpl \<and>
    ValidateNewTask (git_validRef env) (stamped t uid p (now w)) tpl = None \<and>
    db_CreateTask (clear_Old env)
      ((if Template_AllowOverrideBranchInTask tpl then stamped t uid p (now w)
        else (stamped t uid p (now w))\<lparr>Task_CommitHash := None\<rparr>)\<lparr>Task_Version := v\<rparr>)
      (MaxTasksPerTemplate env) (db w) = ((t', None), d) \<and>
    launchTask env t' (Task_Secret t) un al (w\<lparr>db := d\<rparr>) = Some ((t', None), w')"
proof -
  let ?t1 = "stamped t uid p (now w)"
  obtain tpl where tpl: "GetTemplate p (Task_TemplateID t) (db w) = Inr tpl"
    using assms by (auto simp: AddTask_def Let_def split: sum.splits)
  have val: "ValidateNewTask (git_validRef env) ?t1 tpl = None"
    using assms tpl by (auto simp: AddTask_def Let_def stamped_def split: option.splits)
  define t2 where "t2 = (if \<not> Template_AllowOverrideBranchInTask tpl then ?t1\<lparr>Task_CommitHash := None\<rparr> else ?t1)"
  define builds where "builds = (if Template_Type tpl = TemplateBuild
     then map_sum id Some (GetTemplateTasks (Template_ProjectID tpl) (Template_ID tpl) [] 1 (db w)) else Inr None)"
  define prep where "prep bs = (case bs of None \<Rightarrow> Some t2
     | Some xs \<Rightarrow> map_option (\<lambda>v. t2\<lparr>Task_Version := v\<rparr>) (nextVersion tpl xs))" for bs
  have eq: "AddTask env t uid un p al w =
    (case builds of Inl err \<Rightarrow> Some ((zeroTask, Some err), w)
     | Inr bs \<Rightarrow> (case prep bs of None \<Rightarrow> None
        | Some t3 \<Rightarrow> (case db_CreateTask (clear_Old env) t3 (MaxTasksPerTemplate env) (db w) of
             ((newTask, Some err), d) \<Rightarrow> Some ((newTask, Some err), w\<lparr>db := d\<rparr>)
           | ((newTask, None), d) \<Rightarrow> launchTask env newTask (Task_Secret t) un al (w\<lparr>db := d\<rparr>))))"
    using tpl val unfolding AddTask_def Let_def stamped_def t2_def builds_def prep_def by simp
  from assms obtain bs t3 d newTask where b: "prep bs = Some t3"
    and c: "db_CreateTask (clear_Old env) t3 (MaxTasksPerTemplate env) (db w) = ((newTask, None), d)"
    and l: "launchTask env newTask (Task_Secret t) un al (w\<lparr>db := d\<rparr>) = Some ((t', None), w')"
    unfolding eq by (auto split: sum.splits option.splits prod.splits)
  have "newTask = t'" using launchTask_registers(2) [OF l] by simp
  moreover obtain v where "t3 = t2\<lparr>Task_Version := v\<rparr>"
  proof (cases bs)
    case None
    with b have "t3 = t2\<lparr>Task_Version := Task_Version t2\<rparr>" by (simp add: prep_def)
    with that show thesis .
  next
    case (Some xs)
    with b that show thesis by (auto simp: prep_def)
  qed
  ultimately show ?thesis
    using tpl val c l by (intro exI [of _ tpl] exI [of _ v] exI [of _ d]) (auto simp: t2_def)
qed

text \<open>C33. A task that is created is waiting, belongs to the given project and user, has the next free ID, carries a commit hash only if the template lets the caller choose
  the branch, and no longer carries the secret survey variables. A fresh task runner with a job is
  registered for it; the queue and the running tasks are not touched.\<close>

theorem AddTask_creates:
  assumes "AddTask env t uid un p al w = Some ((t', None), w')"
  shows "Task_Status t' = TaskWaitingStatus \<and> Task_Secret t' = [] \<and> Task_ProjectID t' = p \<and> Task_UserID t' = uid \<and>
    Task_ID t' = next_task_id (db w) \<and>
    (\<exists>tpl. GetTemplate p (Task_TemplateID t) (db w) = Inr tpl \<and>
       (Task_CommitHash t' \<noteq> None \<longrightarrow> Template_AllowOverrideBranchInTask tpl)) \<and>
    (\<exists>rs. register w' = register w @ rs @ [nextRef w]) \<and> idof w' (nextRef w) = Task_ID t' \<and>
    TR_job (heap w' (nextRef w)) \<noteq> None \<and> state w' = state w \<and> queueEvents w' = queueEvents w"
proof -
  obtain tpl v d where a: "GetTemplate p (Task_TemplateID t) (db w) = Inr tpl"
    "db_CreateTask (clear_Old env)
      ((if Template_AllowOverrideBranchInTask tpl then stamped t uid p (now w)
        else (stamped t uid p (now w))\<lparr>Task_CommitHash := None\<rparr>)\<lparr>Task_Version := v\<rparr>)
      (MaxTasksPerTemplate env) (db w) = ((t', None), d)"
    "launchTask env t' (Task_Secret t) un al (w\<lparr>db := d\<rparr>) = Some ((t', None), w')"
    using AddTask_Some [OF assms] by blast
  have "Task_Status t' = TaskWaitingStatus \<and> Task_Secret t' = [] \<and> Task_ProjectID t' = p \<and> Task_UserID t' = uid \<and>
      Task_ID t' = next_task_id (db w) \<and> (Task_CommitHash t' \<noteq> None \<longrightarrow> Template_AllowOverrideBranchInTask tpl)"
    using a(2) by (auto simp: db_CreateTask_def Let_def stamped_def split: if_splits)
  moreover note l = launchTask_registers [OF a(3)]
  moreover from l(1) [of "nextRef w"] have "(\<exists>rs. register w' = register w @ rs @ [nextRef w]) \<and>
      idof w' (nextRef w) = Task_ID t' \<and> TR_job (heap w' (nextRef w)) \<noteq> None" by simp
  ultimately show ?thesis using a(1) by simp
qed

theorem AddTask_creates_witness:
  "\<exists>t' w'. AddTask sampleEnv ((sampleTask 0)\<lparr>Task_Secret := ''{}''\<rparr>) None ''admin'' 1 False emptyWorld = Some ((t', None), w') \<and>
     Task_ID t' = 4 \<and> Task_Secret t' = []"
proof -
  have "map_option (snd \<circ> fst) (AddTask sampleEnv ((sampleTask 0)\<lparr>Task_Secret := ''{}''\<rparr>) None ''admin'' 1 False emptyWorld) =
      Some None" by code_simp
  then obtain t' w' where a: "AddTask sampleEnv ((sampleTask 0)\<lparr>Task_Secret := ''{}''\<rparr>) None ''admin'' 1 False emptyWorld =
      Some ((t', None), w')" by (auto simp: map_option_case split: option.splits)
  from AddTask_creates [OF a] a show ?thesis by (simp add: sample_defs)
qed

subsection \<open>Build versions\<close>

text \<open>Build versions count upwards: when the start version has a number with the text \<open>pre\<close> before
  and \<open>suf\<close> after it, the version after a build with number \<open>n\<close> has the same text around it and the number
  that follows \<open>n\<close>, or the number of the start version if that is larger, padded to the width of the start
  version.\<close>

lemma next_version_counts:
  assumes "buildVersionRE start = Some (pre, body, suf)" and "int (digitsVal body) < 2 ^ 63"
    and "0 \<le> n" and "n < 2 ^ 63 - 1"
  shows "GetNextBuildVersion start (pre @ padZero (length body) n @ suf) =
    Some (pre @ padZero (length body) (max (int (digitsVal body)) (n + 1)) @ suf)"
  using assms by (rule GetNextBuildVersion_shape)

end
