(* ===== verification/Output_Properties.thy ===== *)
theory Output_Properties
  imports Sample "HOL-Library.Sublist"
begin

text \<open>
  The writer of the task output: what the goroutines log reaches the database in the order in which
  they logged it, each line at most once, and exactly once while the database accepts the batches.
\<close>

definition recordView :: "World \<Rightarrow> logRecord \<Rightarrow> ident \<times> string \<times> go_time" where
  "recordView w rec = (idof w (log_task rec), log_output rec, log_time rec)"

definition outputView :: "TaskOutput \<Rightarrow> ident \<times> string \<times> go_time" where
  "outputView out = (Output_TaskID out, Output_Output out, Output_Time out)"

text \<open>
  One turn of the loop of \<^verbatim>\<open>handleLogs\<close>: a record is read from the channel, or the ticker fires; a batch that is
  inserted in this turn is refused by the database or not.
\<close>

definition refusing :: "bool \<Rightarrow> World \<Rightarrow> World" where
  "refusing fails w = w\<lparr>db := (db w)\<lparr>db_faults := (db_faults (db w))(Q_InsertTaskOutputBatch := fails)\<rparr>\<rparr>"

definition writerTurn :: "bool \<times> bool \<Rightarrow> logRecord list \<times> World \<Rightarrow> logRecord list \<times> World" where
  "writerTurn turn st =
     (let (arrives, fails) = turn; (logs, w) = st
      in (if arrives then handleLogRecord else handleLogTick) (logs, refusing fails w))"

text \<open>The rows of the output, and all lines: written, buffered and not yet received.\<close>

definition written :: "World \<Rightarrow> (ident \<times> string \<times> go_time) list" where
  "written w = map outputView (tbl_output (db w))"

definition lines :: "World \<Rightarrow> logRecord list \<times> World \<Rightarrow> (ident \<times> string \<times> go_time) list" where
  "lines w0 st = written (snd st) @ map (recordView w0) (fst st @ logger (snd st))"

lemma writeLogRecord_effect:
  "map outputView (fst (writeLogRecord rec (out, w))) = map outputView out @ [recordView w rec]"
  "idof (snd (writeLogRecord rec (out, w))) = idof w" "db (snd (writeLogRecord rec (out, w))) = db w"
  "logger (snd (writeLogRecord rec (out, w))) = logger w"
  by (simp_all add: writeLogRecord_def Let_def outputView_def recordView_def MoveToNextStage_def idof_def fun_eq_iff)

lemma fold_writeLogRecord:
  "map outputView (fst (fold writeLogRecord logs (out, w))) = map outputView out @ map (recordView w) logs \<and>
   idof (snd (fold writeLogRecord logs (out, w))) = idof w \<and> db (snd (fold writeLogRecord logs (out, w))) = db w \<and>
   logger (snd (fold writeLogRecord logs (out, w))) = logger w"
proof (induction logs arbitrary: out w)
  case (Cons rec logs)
  obtain out1 w1 where s: "writeLogRecord rec (out, w) = (out1, w1)" by fastforce
  have "recordView w1 = recordView w"
    using writeLogRecord_effect(2) [of rec out w] s by (simp add: recordView_def fun_eq_iff)
  with Cons.IH [of out1 w1] writeLogRecord_effect [of rec out w] s show ?case by simp
qed simp

lemma writeLogs_effect:
  shows "written (writeLogs logs w) =
      written w @ (if db_faults (db w) Q_InsertTaskOutputBatch then [] else map (recordView w) logs)"
    and "idof (writeLogs logs w) = idof w" and "logger (writeLogs logs w) = logger w"
proof -
  obtain out w1 where s: "fold writeLogRecord logs ([], w) = (out, w1)" by fastforce
  note f = fold_writeLogRecord [of logs "[]" w, unfolded s]
  have "writeLogs logs w = (case InsertTaskOutputBatch out (db w) of Inl _ \<Rightarrow> w1 | Inr d \<Rightarrow> w1\<lparr>db := d\<rparr>)"
    using f by (simp add: writeLogs_def s)
  moreover have "idof (w1\<lparr>db := d\<rparr>) = idof w1" for d by (simp add: idof_def fun_eq_iff)
  ultimately show "written (writeLogs logs w) =
      written w @ (if db_faults (db w) Q_InsertTaskOutputBatch then [] else map (recordView w) logs)"
    "idof (writeLogs logs w) = idof w" "logger (writeLogs logs w) = logger w"
    using f by (auto simp: InsertTaskOutputBatch_def written_def)
qed

text \<open>The invariant of the writer: nothing is duplicated or reordered, without refused batches nothing is lost, and the buffer stays small.\<close>

definition writerInv :: "World \<Rightarrow> bool \<Rightarrow> logRecord list \<times> World \<Rightarrow> bool" where
  "writerInv w0 complete st \<longleftrightarrow>
     idof (snd st) = idof w0 \<and> subseq (lines w0 st) (lines w0 ([], w0)) \<and>
     (complete \<longrightarrow> lines w0 st = lines w0 ([], w0)) \<and> length (fst st) < TaskOutputBatchSize"

lemma subseq_without: "subseq (xs @ zs) (xs @ ys @ zs)"
  by (intro list_emb_append_mono list_emb_append2) simp_all

lemma flushLogs_lines:
  assumes "idof w = idof w0"
  shows "subseq (lines w0 (flushLogs (logs, w))) (lines w0 (logs, w))"
    and "\<not> db_faults (db w) Q_InsertTaskOutputBatch \<Longrightarrow> lines w0 (flushLogs (logs, w)) = lines w0 (logs, w)"
    and "idof (snd (flushLogs (logs, w))) = idof w0" and "fst (flushLogs (logs, w)) = []"
proof -
  have "recordView w = recordView w0" using assms by (simp add: recordView_def fun_eq_iff)
  then show "subseq (lines w0 (flushLogs (logs, w))) (lines w0 (logs, w))"
    "\<not> db_faults (db w) Q_InsertTaskOutputBatch \<Longrightarrow> lines w0 (flushLogs (logs, w)) = lines w0 (logs, w)"
    "idof (snd (flushLogs (logs, w))) = idof w0" "fst (flushLogs (logs, w)) = []"
    using assms writeLogs_effect [of logs w] by (auto simp: flushLogs_def lines_def intro: subseq_without)
qed

lemma refusing_frame:
  "idof (refusing fails w) = idof w" "lines w0 (logs, refusing fails w) = lines w0 (logs, w)"
  "logger (refusing fails w) = logger w" "db_faults (db (refusing fails w)) Q_InsertTaskOutputBatch = fails"
  by (simp_all add: refusing_def idof_def lines_def written_def fun_eq_iff)

text \<open>A turn buffers a record and perhaps flushes.\<close>

lemma writerTurn_cases:
  obtains rec rest where "logger w = rec # rest"
      "writerTurn (True, fails) (logs, w) =
        (if length (logs @ [rec]) \<ge> TaskOutputBatchSize
         then flushLogs (logs @ [rec], (refusing fails w)\<lparr>logger := rest\<rparr>)
         else (logs @ [rec], (refusing fails w)\<lparr>logger := rest\<rparr>))"
  | "logger w = []" "writerTurn (True, fails) (logs, w) = (logs, refusing fails w)"
  using that
  by (cases "logger w") (auto simp: writerTurn_def handleLogRecord_def refusing_frame Let_def not_le)

lemma writerTurn_inv:
  assumes "writerInv w0 complete st"
  shows "writerInv w0 (complete \<and> \<not> snd turn) (writerTurn turn st)"
proof -
  obtain arrives fails where turn: "turn = (arrives, fails)" by (cases turn)
  obtain logs w where st: "st = (logs, w)" by (cases st)
  have inv: "idof w = idof w0" "subseq (lines w0 (logs, w)) (lines w0 ([], w0))"
    "complete \<longrightarrow> lines w0 (logs, w) = lines w0 ([], w0)" "length logs < TaskOutputBatchSize"
    using assms by (simp_all add: writerInv_def st)
  have size: "0 < TaskOutputBatchSize" by (simp add: TaskOutputBatchSize_def)
  have flush: "writerInv w0 (complete \<and> \<not> fails) (flushLogs (ls, v))"
    if v: "idof v = idof w0" "lines w0 (ls, v) = lines w0 (logs, w)" "db_faults (db v) Q_InsertTaskOutputBatch = fails" for ls v
    using flushLogs_lines [OF v(1), of ls] v(2,3) inv(2,3) size
    by (auto simp: writerInv_def intro: subseq_order.trans)
  show ?thesis
  proof (cases arrives)
    case False
    then have "writerTurn turn st = flushLogs (logs, refusing fails w) \<or> writerTurn turn st = (logs, refusing fails w)"
      by (auto simp: turn st writerTurn_def handleLogTick_def)
    moreover have "writerInv w0 (complete \<and> \<not> fails) (logs, refusing fails w)"
      using inv by (simp add: writerInv_def refusing_frame)
    ultimately show ?thesis using flush [of "refusing fails w" logs] inv(1) by (auto simp: refusing_frame turn)
  next
    case True
    show ?thesis
    proof (cases rule: writerTurn_cases [of w fails logs])
      case (1 rec rest)
      let ?v = "(refusing fails w)\<lparr>logger := rest\<rparr>"
      have v: "idof ?v = idof w0" "lines w0 (logs @ [rec], ?v) = lines w0 (logs, w)"
        "db_faults (db ?v) Q_InsertTaskOutputBatch = fails"
        using inv(1) 1(1) by (simp_all add: refusing_def idof_def [abs_def] lines_def written_def)
      show ?thesis
        using flush [OF v] inv v 1(2) True by (auto simp: turn st writerInv_def not_le)
    next
      case 2
      then show ?thesis using inv True by (simp add: turn st writerInv_def refusing_frame)
    qed
  qed
qed

lemma writerTurns_inv:
  "writerInv w0 complete st \<Longrightarrow>
    writerInv w0 (complete \<and> (\<forall>turn \<in> set turns. \<not> snd turn)) (fold writerTurn turns st)"
proof (induction turns arbitrary: complete st)
  case (Cons turn turns)
  from Cons.IH [OF writerTurn_inv [OF Cons.prems, of turn]] show ?case by (simp add: conj_assoc)
qed simp

text \<open>C37. Output is kept in order. Whatever the interleaving of arriving log records and ticks of the timer, and
  whichever batches the database refuses, the rows written to the database, followed by the buffered and the not
  yet received records, are a subsequence of the rows that were there followed by the records in the order in which
  they were logged: no line is written twice or reordered. Without a refused batch they are the same sequence: no
  line is lost. (A refused batch is dropped by the code.) The buffer stays below the batch size, and a tick empties
  it.\<close>

theorem output_in_order:
  assumes "fold writerTurn turns ([], w) = (logs', w')"
  shows "subseq (written w' @ map (recordView w) (logs' @ logger w')) (written w @ map (recordView w) (logger w)) \<and>
    ((\<forall>turn \<in> set turns. \<not> snd turn) \<longrightarrow>
       written w' @ map (recordView w) (logs' @ logger w') = written w @ map (recordView w) (logger w)) \<and>
    length logs' < TaskOutputBatchSize \<and> fst (handleLogTick (logs', w')) = []"
proof -
  have "writerInv w True ([], w)" by (simp add: writerInv_def TaskOutputBatchSize_def)
  from writerTurns_inv [OF this, of turns, unfolded assms]
  show ?thesis
    using flushLogs_lines(4) [of w' w' logs'] by (auto simp: writerInv_def lines_def handleLogTick_def)
qed

definition talkingWorld :: World where
  "talkingWorld = Log 0 ''second'' (Log 0 ''first'' emptyWorld)"

text \<open>A record that arrives is written by the next tick.\<close>

lemma writer_drains:
  assumes "logger w = rec # rest"
  shows "\<exists>w1. fold writerTurn [(True, False), (False, False)] ([], w) = ([], w1) \<and> logger w1 = rest"
proof -
  have "writerTurn (True, False) ([], w) = ([rec], (refusing False w)\<lparr>logger := rest\<rparr>)"
    using assms by (simp add: writerTurn_def handleLogRecord_def refusing_frame TaskOutputBatchSize_def)
  then show ?thesis
    by (simp add: writerTurn_def handleLogTick_def flushLogs_def writeLogs_effect(3) refusing_frame)
qed

theorem output_in_order_witness:
  "written (snd (fold writerTurn [(True, False), (False, False), (True, False), (False, False)] ([], talkingWorld))) =
     written talkingWorld @ map (recordView talkingWorld) (logger talkingWorld) \<and>
   map (fst \<circ> snd) (map (recordView talkingWorld) (logger talkingWorld)) = [''first'', ''second'']"
proof -
  let ?turns = "[(True, False), (False, False), (True, False), (False, False)]"
  obtain logs' w' where f: "fold writerTurn ?turns ([], talkingWorld) = (logs', w')" by fastforce
  have log: "\<exists>r1 r2. logger talkingWorld = [r1, r2]"
    by (simp add: talkingWorld_def sample_defs Log_def)
  then obtain w1 w2 where "fold writerTurn [(True, False), (False, False)] ([], talkingWorld) = ([], w1)"
    "fold writerTurn [(True, False), (False, False)] ([], w1) = ([], w2)" "logger w2 = []"
    using writer_drains by metis
  then have "logs' = [] \<and> logger w' = []" using f by simp
  moreover have "map (fst \<circ> snd) (map (recordView talkingWorld) (logger talkingWorld)) = [''first'', ''second'']"
    by (simp add: talkingWorld_def sample_defs Log_def recordView_def)
  ultimately show ?thesis using output_in_order [OF f] unfolding f by simp
qed

end
