(* ===== verification/Keyring.thy ===== *)
theory Keyring
  imports Db_Model
begin

text \<open>
  Encryption at rest: \<^verbatim>\<open>util/encryption.go\<close> (AES-GCM with base64 framing), \<^verbatim>\<open>util/keyid.go\<close> (key
  identifiers and the envelope of a stored value) and \<^verbatim>\<open>util/keyring.go\<close> (the key registry). Bytes are
  characters. The block cipher, SHA-256 and the source of nonces are arguments; base64 is defined.
\<close>

subsection \<open>Base64\<close>

definition stdAlphabet :: string where
  "stdAlphabet = ''ABCDEFGHIJKLMNOPQRSTUVWXYZabcdefghijklmnopqrstuvwxyz0123456789+/''"

definition urlAlphabet :: string where
  "urlAlphabet = ''ABCDEFGHIJKLMNOPQRSTUVWXYZabcdefghijklmnopqrstuvwxyz0123456789-_''"

definition byteVal :: "char \<Rightarrow> nat" where
  "byteVal c = of_char c"

definition pad :: "bool \<Rightarrow> nat \<Rightarrow> string" where
  "pad p n = (if p then replicate n CHR ''='' else [])"

fun b64encode :: "string \<Rightarrow> bool \<Rightarrow> string \<Rightarrow> string" where
  "b64encode al p [] = []"
| "b64encode al p [a] =
     [al ! (byteVal a div 4), al ! (byteVal a mod 4 * 16)] @ pad p 2"
| "b64encode al p [a, b] =
     [al ! (byteVal a div 4), al ! (byteVal a mod 4 * 16 + byteVal b div 16), al ! (byteVal b mod 16 * 4)] @ pad p 1"
| "b64encode al p (a # b # c # rest) =
     [al ! (byteVal a div 4), al ! (byteVal a mod 4 * 16 + byteVal b div 16),
      al ! (byteVal b mod 16 * 4 + byteVal c div 64), al ! (byteVal c mod 64)] @ b64encode al p rest"

definition b64index :: "char \<Rightarrow> nat option" where
  "b64index c = map_of (zip stdAlphabet [0..<64]) c"

text \<open>
  \<^verbatim>\<open>StdEncoding.DecodeString\<close>: line breaks are ignored, padding is required, and unused trailing bits
  are not checked.
\<close>

fun b64quads :: "string \<Rightarrow> string option" where
  "b64quads [] = Some []"
| "b64quads [a, b, c, d] =
     (case (b64index a, b64index b) of
        (Some i, Some j) \<Rightarrow>
          (if c = CHR ''='' then
             (if d = CHR ''='' then Some [char_of ((i * 4 + j div 16) mod 256)] else None)
           else (case b64index c of
                   None \<Rightarrow> None
                 | Some k \<Rightarrow>
                     if d = CHR ''=''
                     then Some [char_of ((i * 4 + j div 16) mod 256), char_of ((j * 16 + k div 4) mod 256)]
                     else (case b64index d of
                             None \<Rightarrow> None
                           | Some l \<Rightarrow>
                               Some [char_of ((i * 4 + j div 16) mod 256), char_of ((j * 16 + k div 4) mod 256),
                                     char_of ((k * 64 + l) mod 256)])))
      | _ \<Rightarrow> None)"
| "b64quads (a # b # c # d # rest) =
     (case (b64index a, b64index b, b64index c, b64index d, b64quads rest) of
        (Some i, Some j, Some k, Some l, Some ds) \<Rightarrow>
          Some (char_of ((i * 4 + j div 16) mod 256) # char_of ((j * 16 + k div 4) mod 256) #
                char_of ((k * 64 + l) mod 256) # ds)
      | _ \<Rightarrow> None)"
| "b64quads _ = None"

definition b64decode :: "string \<Rightarrow> string option" where
  "b64decode s = b64quads (filter (\<lambda>c. c \<noteq> CHR 0x0A \<and> c \<noteq> CHR 0x0D) s)"

subsection \<open>AES-GCM\<close>

text \<open>
  \<open>lib_seal key nonce plaintext\<close> and \<open>lib_open key nonce payload\<close> are the AEAD of \<^verbatim>\<open>cipher.NewGCM\<close>.
\<close>

record CryptoLib =
  lib_seal :: "string \<Rightarrow> string \<Rightarrow> string \<Rightarrow> string"
  lib_open :: "string \<Rightarrow> string \<Rightarrow> string \<Rightarrow> string option"
  lib_sha256 :: "string \<Rightarrow> string"

definition nonceSize :: nat where
  "nonceSize = 12"

text \<open>\<^verbatim>\<open>newGCM\<close>: the key must be base64 and have a length that AES knows.\<close>

definition newGCM :: "string \<Rightarrow> go_error + string" where
  "newGCM encodedKey =
     (case b64decode encodedKey of
        None \<Rightarrow> Inl (ErrOther ''decode encryption key'')
      | Some keyBytes \<Rightarrow>
          if length keyBytes \<in> {16, 24, 32} then Inr keyBytes
          else Inl (ErrOther ''crypto/aes: invalid key size''))"

definition EncryptAESGCM :: "CryptoLib \<Rightarrow> string \<Rightarrow> string \<Rightarrow> string \<Rightarrow> go_error + string" where
  "EncryptAESGCM lib nonce plaintext encodedKey =
     (if encodedKey = [] then Inr (b64encode stdAlphabet True plaintext)
      else case newGCM encodedKey of
             Inl err \<Rightarrow> Inl err
           | Inr key \<Rightarrow> Inr (b64encode stdAlphabet True (nonce @ lib_seal lib key nonce plaintext)))"

definition DecryptAESGCM :: "CryptoLib \<Rightarrow> string \<Rightarrow> string \<Rightarrow> go_error + string" where
  "DecryptAESGCM lib encodedCiphertext encodedKey =
     (case b64decode encodedCiphertext of
        None \<Rightarrow> Inl (ErrOther ''base64 decode'')
      | Some ciphertext \<Rightarrow>
          if encodedKey = [] then Inr ciphertext
          else (case newGCM encodedKey of
                  Inl err \<Rightarrow> Inl err
                | Inr key \<Rightarrow>
                    if length ciphertext < nonceSize then Inl (ErrOther ''ciphertext too short'')
                    else (case lib_open lib key (take nonceSize ciphertext) (drop nonceSize ciphertext) of
                            None \<Rightarrow> Inl (ErrOther ''cipher: message authentication failed'')
                          | Some p \<Rightarrow> Inr p)))"

subsection \<open>Key identifiers and envelopes\<close>

definition keyIDLen :: nat where
  "keyIDLen = 8"

definition keyID :: "CryptoLib \<Rightarrow> string \<Rightarrow> string" where
  "keyID lib material =
     (if material = [] then []
      else case b64decode material of
             None \<Rightarrow> []
           | Some raw \<Rightarrow>
               if raw = [] then []
               else b64encode urlAlphabet False (take keyIDLen (lib_sha256 lib raw)))"

definition encodeEnvelope :: "string \<Rightarrow> string \<Rightarrow> string" where
  "encodeEnvelope kid b64ct = (if kid = [] then b64ct else kid @ CHR '':'' # b64ct)"

text \<open>\<^verbatim>\<open>RawURLEncoding.EncodedLen(8)\<close> is 11.\<close>

definition isKeyID :: "string \<Rightarrow> bool" where
  "isKeyID s \<longleftrightarrow> length s = (keyIDLen * 8 + 5) div 6 \<and> list_all (\<lambda>c. c \<in> set urlAlphabet) s"

definition parseEnvelope :: "string \<Rightarrow> string \<times> string \<times> bool" where
  "parseEnvelope s =
     (let pre = takeWhile (\<lambda>c. c \<noteq> CHR '':'') s in
      if pre = [] \<or> length pre = length s then ([], s, False)
      else if isKeyID pre then (pre, drop (length pre + 1) s, True)
      else ([], s, False))"

subsection \<open>The registry\<close>

record keyset =
  byID :: "(string \<times> string) list"
  accessID :: string
  optionID :: string
  legacyAccess :: string
  legacyOption :: string

definition material :: "keyset \<Rightarrow> string \<Rightarrow> string" where
  "material k i = (case map_of (byID k) i of Some m \<Rightarrow> m | None \<Rightarrow> [])"

definition keysetsEqual :: "keyset option \<Rightarrow> keyset option \<Rightarrow> bool" where
  "keysetsEqual a b =
     (case (a, b) of
        (Some x, Some y) \<Rightarrow>
          accessID x = accessID y \<and> optionID x = optionID y \<and> legacyAccess x = legacyAccess y \<and>
          legacyOption x = legacyOption y \<and> length (byID x) = length (byID y) \<and>
          list_all (\<lambda>(i, mat). material y i = mat) (byID x)
      | (None, None) \<Rightarrow> True
      | _ \<Rightarrow> False)"

record KeyConfig =
  AccessKeyEncryption :: string
  OptionEncryption :: string
  currentKeys :: "keyset option"

definition currentKeyset :: "CryptoLib \<Rightarrow> KeyConfig \<Rightarrow> keyset" where
  "currentKeyset lib conf =
     (case currentKeys conf of
        Some ks \<Rightarrow> ks
      | None \<Rightarrow>
          (let ks0 = \<lparr>byID = [], accessID = [], optionID = [],
                      legacyAccess = AccessKeyEncryption conf, legacyOption = OptionEncryption conf\<rparr>;
               ks1 = (if AccessKeyEncryption conf \<noteq> []
                      then ks0\<lparr>byID := AList.update (keyID lib (AccessKeyEncryption conf))
                                        (AccessKeyEncryption conf) (byID ks0),
                               accessID := keyID lib (AccessKeyEncryption conf)\<rparr>
                      else ks0)
           in if OptionEncryption conf \<noteq> []
              then ks1\<lparr>byID := AList.update (keyID lib (OptionEncryption conf))
                                (OptionEncryption conf) (byID ks1),
                       optionID := keyID lib (OptionEncryption conf)\<rparr>
              else ks1))"

definition encrypt :: "CryptoLib \<Rightarrow> string \<Rightarrow> keyset \<Rightarrow> string \<Rightarrow> string \<Rightarrow> go_error + string" where
  "encrypt lib nonce k plaintext kid =
     (case EncryptAESGCM lib nonce plaintext (material k kid) of
        Inl err \<Rightarrow> Inl err
      | Inr ct \<Rightarrow> Inr (encodeEnvelope kid ct))"

definition ActiveAccessKeyID :: "CryptoLib \<Rightarrow> KeyConfig \<Rightarrow> string" where
  "ActiveAccessKeyID lib conf = accessID (currentKeyset lib conf)"

definition ActiveOptionKeyID :: "CryptoLib \<Rightarrow> KeyConfig \<Rightarrow> string" where
  "ActiveOptionKeyID lib conf =
     (let ks = currentKeyset lib conf in if optionID ks \<noteq> [] then optionID ks else accessID ks)"

definition EncryptAccessSecret :: "CryptoLib \<Rightarrow> string \<Rightarrow> KeyConfig \<Rightarrow> string \<Rightarrow> go_error + string" where
  "EncryptAccessSecret lib nonce conf plaintext =
     (let ks = currentKeyset lib conf in encrypt lib nonce ks plaintext (accessID ks))"

definition EncryptOption :: "CryptoLib \<Rightarrow> string \<Rightarrow> KeyConfig \<Rightarrow> string \<Rightarrow> go_error + string" where
  "EncryptOption lib nonce conf plaintext =
     (let ks = currentKeyset lib conf;
          kid = (if optionID ks = [] then accessID ks else optionID ks)
      in encrypt lib nonce ks plaintext kid)"

text \<open>Later duplicates are dropped.\<close>

definition dedupeKeys :: "string list \<Rightarrow> string list" where
  "dedupeKeys ks = rev (remdups (rev ks))"

definition legacyCandidates :: "keyset \<Rightarrow> string list \<Rightarrow> string list" where
  "legacyCandidates k flats =
     (let out = dedupeKeys (filter (\<lambda>f. f \<noteq> []) flats @ filter (\<lambda>m. m \<noteq> []) (map snd (byID k)))
      in if out = [] then [[]] else out)"

definition legacyAccessCandidates :: "keyset \<Rightarrow> string list" where
  "legacyAccessCandidates k = legacyCandidates k [legacyAccess k]"

definition legacyOptionCandidates :: "keyset \<Rightarrow> string list" where
  "legacyOptionCandidates k = legacyCandidates k [legacyOption k, legacyAccess k]"

fun tryKeys :: "CryptoLib \<Rightarrow> string \<Rightarrow> string list \<Rightarrow> go_error \<Rightarrow> go_error + string" where
  "tryKeys lib ct [] lastErr = Inl lastErr"
| "tryKeys lib ct (key # rest) lastErr =
     (case DecryptAESGCM lib ct key of
        Inr plaintext \<Rightarrow> Inr plaintext
      | Inl err \<Rightarrow> tryKeys lib ct rest err)"

definition decryptWithKeys :: "CryptoLib \<Rightarrow> string \<Rightarrow> string list \<Rightarrow> go_error + string" where
  "decryptWithKeys lib ct keys = tryKeys lib ct (if keys = [] then [[]] else keys) (ErrOther [])"

definition decrypt :: "CryptoLib \<Rightarrow> keyset \<Rightarrow> string \<Rightarrow> string list \<Rightarrow> go_error + string" where
  "decrypt lib k stored legacy =
     (let (kid, ct, hasID) = parseEnvelope stored in
      if hasID then
        (case map_of (byID k) kid of
           None \<Rightarrow> Inl (ErrOther ''encryption key id not found in keyset'')
         | Some m \<Rightarrow> DecryptAESGCM lib ct m)
      else decryptWithKeys lib ct legacy)"

definition DecryptAccessSecret :: "CryptoLib \<Rightarrow> KeyConfig \<Rightarrow> string \<Rightarrow> go_error + string" where
  "DecryptAccessSecret lib conf stored =
     (let ks = currentKeyset lib conf in decrypt lib ks stored (legacyAccessCandidates ks))"

definition DecryptOption :: "CryptoLib \<Rightarrow> KeyConfig \<Rightarrow> string \<Rightarrow> go_error + string" where
  "DecryptOption lib conf stored =
     (let ks = currentKeyset lib conf in decrypt lib ks stored (legacyOptionCandidates ks))"

definition DecryptAccessSecretWithKey :: "CryptoLib \<Rightarrow> string \<Rightarrow> string \<Rightarrow> go_error + string" where
  "DecryptAccessSecretWithKey lib stored key =
     (let (_, ct, _) = parseEnvelope stored in DecryptAESGCM lib ct key)"

definition HasKeyID :: "CryptoLib \<Rightarrow> KeyConfig \<Rightarrow> string \<Rightarrow> bool" where
  "HasKeyID lib conf kid \<longleftrightarrow> map_of (byID (currentKeyset lib conf)) kid \<noteq> None"

definition KeyIDs :: "CryptoLib \<Rightarrow> KeyConfig \<Rightarrow> string list" where
  "KeyIDs lib conf = map fst (byID (currentKeyset lib conf))"

definition SecretKeyID :: "string \<Rightarrow> string" where
  "SecretKeyID stored = (let (kid, _, hasID) = parseEnvelope stored in if hasID then kid else [])"

definition classify :: "keyset \<Rightarrow> string \<Rightarrow> string \<Rightarrow> string" where
  "classify k stored activeID =
     (let (kid, _, hasID) = parseEnvelope stored in
      if \<not> hasID then ''legacy (no id)''
      else if map_of (byID k) kid = None then ''MISSING KEY '' @ kid
      else if kid = activeID then ''active:'' @ kid
      else ''rekey pending:'' @ kid)"

definition ClassifyAccessSecret :: "CryptoLib \<Rightarrow> KeyConfig \<Rightarrow> string \<Rightarrow> string" where
  "ClassifyAccessSecret lib conf stored =
     classify (currentKeyset lib conf) stored (ActiveAccessKeyID lib conf)"

definition classifyOptionSecret :: "CryptoLib \<Rightarrow> KeyConfig \<Rightarrow> string \<Rightarrow> string" where
  "classifyOptionSecret lib conf stored =
     classify (currentKeyset lib conf) stored (ActiveOptionKeyID lib conf)"


subsection \<open>Round trips\<close>

lemma b64index_nth: "i < 64 \<Longrightarrow> b64index (stdAlphabet ! i) = Some i"
proof -
  have "list_all (\<lambda>i. b64index (stdAlphabet ! i) = Some i) [0..<64]" by code_simp
  then show "i < 64 \<Longrightarrow> b64index (stdAlphabet ! i) = Some i" by (simp add: list_all_iff)
qed

lemma std_not_pad: "i < 64 \<Longrightarrow> stdAlphabet ! i \<noteq> CHR ''=''"
proof -
  have "list_all (\<lambda>i. stdAlphabet ! i \<noteq> CHR ''='') [0..<64]" by code_simp
  then show "i < 64 \<Longrightarrow> stdAlphabet ! i \<noteq> CHR ''=''" by (simp add: list_all_iff)
qed

lemma byteVal_less: "byteVal c < 256"
  unfolding byteVal_def using of_char_of [where 'a = nat] by (cases c) simp

lemma char_of_byteVal [simp]: "char_of (byteVal c) = c"
  by (simp add: byteVal_def)

text \<open>The arithmetic of one group of three bytes.\<close>

lemma sextet_bounds:
  fixes a b c :: nat
  assumes "a < 256" "b < 256" "c < 256"
  shows "a div 4 < 64" "a mod 4 * 16 + b div 16 < 64" "b mod 16 * 4 + c div 64 < 64" "c mod 64 < 64"
    "a mod 4 * 16 < 64" "b mod 16 * 4 < 64"
proof -
  have "a mod 4 < 4" "b mod 16 < 16" "b div 16 < 16" "c div 64 < 4" "a div 4 < 64"
    using assms by (simp_all add: less_mult_imp_div_less)
  then show "a div 4 < 64" "a mod 4 * 16 + b div 16 < 64" "b mod 16 * 4 + c div 64 < 64" "c mod 64 < 64"
    "a mod 4 * 16 < 64" "b mod 16 * 4 < 64" by linarith+
qed

lemma sextets:
  fixes a b c :: nat
  assumes "a < 256" "b < 256" "c < 256"
  shows "(a div 4 * 4 + (a mod 4 * 16 + b div 16) div 16) mod 256 = a"
    "((a mod 4 * 16 + b div 16) * 16 + (b mod 16 * 4 + c div 64) div 4) mod 256 = b"
    "((b mod 16 * 4 + c div 64) * 64 + c mod 64) mod 256 = c"
    "(a div 4 * 4 + a mod 4 * 16 div 16) mod 256 = a"
    "((a mod 4 * 16 + b div 16) * 16 + b mod 16 * 4 div 4) mod 256 = b"
proof -
  have b1: "b div 16 < 16" and c1: "c div 64 < 4" using assms by (simp_all add: less_mult_imp_div_less)
  have d1: "(a mod 4 * 16 + b div 16) div 16 = a mod 4" using b1 by simp
  have d2: "(b mod 16 * 4 + c div 64) div 4 = b mod 16" using c1 by simp
  have e1: "a div 4 * 4 + a mod 4 = a" by simp
  have "(a mod 4 * 16 + b div 16) * 16 + b mod 16 = a mod 4 * 256 + (b div 16 * 16 + b mod 16)"
    by (simp add: algebra_simps)
  then have e2: "(a mod 4 * 16 + b div 16) * 16 + b mod 16 = a mod 4 * 256 + b" by simp
  have "(b mod 16 * 4 + c div 64) * 64 + c mod 64 = b mod 16 * 256 + (c div 64 * 64 + c mod 64)"
    by (simp add: algebra_simps)
  then have e3: "(b mod 16 * 4 + c div 64) * 64 + c mod 64 = b mod 16 * 256 + c" by simp
  show "(a div 4 * 4 + (a mod 4 * 16 + b div 16) div 16) mod 256 = a"
    unfolding d1 e1 using assms by simp
  show "((a mod 4 * 16 + b div 16) * 16 + (b mod 16 * 4 + c div 64) div 4) mod 256 = b"
    unfolding d2 e2 using assms by simp
  show "((b mod 16 * 4 + c div 64) * 64 + c mod 64) mod 256 = c" unfolding e3 using assms by simp
  show "(a div 4 * 4 + a mod 4 * 16 div 16) mod 256 = a" using e1 assms by simp
  show "((a mod 4 * 16 + b div 16) * 16 + b mod 16 * 4 div 4) mod 256 = b"
    using e2 assms by simp
qed

lemma b64encode_Nil: "b64encode al p s = [] \<longleftrightarrow> s = []"
  by (cases "(al, p, s)" rule: b64encode.cases) auto

text \<open>Decoding one encoded group.\<close>

lemma b64quads_groups:
  assumes "i < 64" "j < 64" "k < 64" "l < 64"
  shows "b64quads [stdAlphabet ! i, stdAlphabet ! j, CHR ''='', CHR ''=''] = Some [char_of ((i * 4 + j div 16) mod 256)]"
    "b64quads [stdAlphabet ! i, stdAlphabet ! j, stdAlphabet ! k, CHR ''=''] =
       Some [char_of ((i * 4 + j div 16) mod 256), char_of ((j * 16 + k div 4) mod 256)]"
    "b64quads q = Some s \<Longrightarrow> b64quads (stdAlphabet ! i # stdAlphabet ! j # stdAlphabet ! k # stdAlphabet ! l # q) =
       Some (char_of ((i * 4 + j div 16) mod 256) # char_of ((j * 16 + k div 4) mod 256) #
             char_of ((k * 64 + l) mod 256) # s)"
proof -
  note ix = b64index_nth [OF assms(1)] b64index_nth [OF assms(2)] b64index_nth [OF assms(3)] b64index_nth [OF assms(4)]
    std_not_pad [OF assms(3)] std_not_pad [OF assms(4)]
  show "b64quads [stdAlphabet ! i, stdAlphabet ! j, CHR ''='', CHR ''=''] = Some [char_of ((i * 4 + j div 16) mod 256)]"
    "b64quads [stdAlphabet ! i, stdAlphabet ! j, stdAlphabet ! k, CHR ''=''] =
       Some [char_of ((i * 4 + j div 16) mod 256), char_of ((j * 16 + k div 4) mod 256)]"
    by (simp_all add: ix)
  assume "b64quads q = Some s"
  then show "b64quads (stdAlphabet ! i # stdAlphabet ! j # stdAlphabet ! k # stdAlphabet ! l # q) =
       Some (char_of ((i * 4 + j div 16) mod 256) # char_of ((j * 16 + k div 4) mod 256) #
             char_of ((k * 64 + l) mod 256) # s)"
    by (cases q) (simp_all add: ix)
qed

lemma list4_cases:
  obtains "s = []" | a where "s = [a]" | a b where "s = [a, b]" | a b c r where "s = a # b # c # r"
  by (metis list.exhaust)

lemma b64quads_encode: "b64quads (b64encode stdAlphabet True s) = Some s"
proof (induction s rule: length_induct)
  case (1 s)
  show ?case
  proof (cases s rule: list4_cases)
    case (2 a)
    note a = byteVal_less [of a]
    note bd = sextet_bounds [OF a a a] and sx = sextets [OF a a a]
    have "b64encode stdAlphabet True s =
        [stdAlphabet ! (byteVal a div 4), stdAlphabet ! (byteVal a mod 4 * 16), CHR ''='', CHR ''='']"
      by (simp add: 2 pad_def numeral_2_eq_2)
    then show ?thesis
      using b64quads_groups(1) [OF bd(1,5) bd(1,1)] unfolding sx(4) char_of_byteVal 2 by simp
  next
    case (3 a b)
    note a = byteVal_less [of a] and b = byteVal_less [of b]
    note bd = sextet_bounds [OF a b a] and sx = sextets [OF a b a]
    have "b64encode stdAlphabet True s =
        [stdAlphabet ! (byteVal a div 4), stdAlphabet ! (byteVal a mod 4 * 16 + byteVal b div 16),
         stdAlphabet ! (byteVal b mod 16 * 4), CHR ''='']"
      by (simp add: 3 pad_def)
    then show ?thesis
      using b64quads_groups(2) [OF bd(1,2,6,1)] unfolding sx(1,5) char_of_byteVal 3 by simp
  next
    case (4 a b c r)
    note abc = byteVal_less [of a] byteVal_less [of b] byteVal_less [of c]
    note bd = sextet_bounds [OF abc] and sx = sextets [OF abc]
    have "b64quads (b64encode stdAlphabet True r) = Some r" using 1 4 by simp
    from b64quads_groups(3) [OF bd(1,2,3,4) this] show ?thesis
      unfolding sx char_of_byteVal 4 b64encode.simps append_Cons append_Nil .
  qed simp
qed

text \<open>The characters of an encoded value.\<close>

lemma alphabet_nth: "i < 64 \<Longrightarrow> stdAlphabet ! i \<in> set stdAlphabet" "i < 64 \<Longrightarrow> urlAlphabet ! i \<in> set urlAlphabet"
proof -
  have "length stdAlphabet = 64" "length urlAlphabet = 64" by code_simp+
  then show "i < 64 \<Longrightarrow> stdAlphabet ! i \<in> set stdAlphabet" "i < 64 \<Longrightarrow> urlAlphabet ! i \<in> set urlAlphabet"
    by simp_all
qed

lemma b64encode_set:
  assumes al: "\<And>i. i < 64 \<Longrightarrow> al ! i \<in> A"
  shows "set (b64encode al p s) \<subseteq> A \<union> (if p then {CHR ''=''} else {})"
proof (induction s rule: length_induct)
  case (1 s)
  have pd: "set (pad p n) \<subseteq> (if p then {CHR ''=''} else {})" for n by (auto simp: pad_def)
  show ?case
  proof (cases s rule: list4_cases)
    case (2 a)
    note bd = sextet_bounds [OF byteVal_less [of a] byteVal_less [of a] byteVal_less [of a]]
    show ?thesis using al [OF bd(1)] al [OF bd(5)] pd [of 2] unfolding 2 b64encode.simps by auto
  next
    case (3 a b)
    note bd = sextet_bounds [OF byteVal_less [of a] byteVal_less [of b] byteVal_less [of a]]
    show ?thesis
      using al [OF bd(1)] al [OF bd(2)] al [OF bd(6)] pd [of 1] unfolding 3 b64encode.simps by auto
  next
    case (4 a b c r)
    note bd = sextet_bounds [OF byteVal_less [of a] byteVal_less [of b] byteVal_less [of c]]
    have "set (b64encode al p r) \<subseteq> A \<union> (if p then {CHR ''=''} else {})" using 1 4 by simp
    then show ?thesis
      using al [OF bd(1)] al [OF bd(2)] al [OF bd(3)] al [OF bd(4)] unfolding 4 b64encode.simps by auto
  qed simp
qed

lemma std_chars: "c \<in> set (b64encode stdAlphabet True s) \<Longrightarrow> c \<in> set stdAlphabet \<or> c = CHR ''=''"
  using b64encode_set [of stdAlphabet "set stdAlphabet" True s] alphabet_nth(1) by auto

lemma b64decode_encode: "b64decode (b64encode stdAlphabet True s) = Some s"
proof -
  have nl: "list_all (\<lambda>c. c \<noteq> CHR 0x0A \<and> c \<noteq> CHR 0x0D) (CHR ''='' # stdAlphabet)" by code_simp
  have "filter (\<lambda>c. c \<noteq> CHR 0x0A \<and> c \<noteq> CHR 0x0D) (b64encode stdAlphabet True s) = b64encode stdAlphabet True s"
    using nl std_chars by (intro filter_True) (auto simp: list_all_iff)
  then show ?thesis by (simp add: b64decode_def b64quads_encode)
qed

lemma no_colon: "CHR '':'' \<notin> set (b64encode stdAlphabet True s)" "CHR '':'' \<notin> set urlAlphabet"
proof -
  have "list_all (\<lambda>c. c \<noteq> CHR '':'') (CHR ''='' # stdAlphabet)" by code_simp
  then show "CHR '':'' \<notin> set (b64encode stdAlphabet True s)" using std_chars by (force simp: list_all_iff)
  have "list_all (\<lambda>c. c \<noteq> CHR '':'') urlAlphabet" by code_simp
  then show "CHR '':'' \<notin> set urlAlphabet" by (auto simp: list_all_iff)
qed

text \<open>The identifier of a key has the shape that the envelope parser expects.\<close>

lemma length8: "length xs = 8 \<Longrightarrow> \<exists>a b c d e f g h. xs = [a, b, c, d, e, f, g, h]"
  by (auto simp: length_Suc_conv eval_nat_numeral)

lemma isKeyID_keyID:
  assumes "\<And>x. 8 \<le> length (lib_sha256 lib x)" and "keyID lib m \<noteq> []"
  shows "isKeyID (keyID lib m)"
proof -
  obtain raw where r: "keyID lib m = b64encode urlAlphabet False (take 8 (lib_sha256 lib raw))"
    using assms(2) by (auto simp: keyID_def keyIDLen_def split: option.splits if_splits)
  have "length (take 8 (lib_sha256 lib raw)) = 8" using assms(1) by simp
  then obtain a b c d e f g h where t: "take 8 (lib_sha256 lib raw) = [a, b, c, d, e, f, g, h]"
    using length8 by blast
  have "length (keyID lib m) = 11" unfolding r t by (simp add: pad_def)
  moreover have "set (keyID lib m) \<subseteq> set urlAlphabet"
    unfolding r using b64encode_set [of urlAlphabet "set urlAlphabet" False] alphabet_nth(2) by fastforce
  ultimately show ?thesis by (auto simp: isKeyID_def keyIDLen_def list_all_iff)
qed

lemma parse_encode:
  assumes "isKeyID kid" shows "parseEnvelope (encodeEnvelope kid ct) = (kid, ct, True)"
proof -
  have ne: "kid \<noteq> []" using assms by (auto simp: isKeyID_def keyIDLen_def)
  have "\<forall>c\<in>set kid. c \<noteq> CHR '':''" using assms no_colon(2) by (auto simp: isKeyID_def list_all_iff)
  then have "takeWhile (\<lambda>c. c \<noteq> CHR '':'') (kid @ CHR '':'' # ct) = kid"
    by (simp add: takeWhile_append2)
  with ne assms show ?thesis by (simp add: parseEnvelope_def encodeEnvelope_def Let_def)
qed

lemma parse_legacy: "CHR '':'' \<notin> set s \<Longrightarrow> parseEnvelope s = ([], s, False)"
proof -
  assume "CHR '':'' \<notin> set s"
  then have tw: "takeWhile (\<lambda>c. c \<noteq> CHR '':'') s = s" by (intro takeWhile_eq_all_conv [THEN iffD2]) auto
  show ?thesis unfolding parseEnvelope_def tw Let_def by simp
qed

definition aeadCorrect :: "CryptoLib \<Rightarrow> bool" where
  "aeadCorrect lib \<longleftrightarrow> (\<forall>key nonce p. lib_open lib key nonce (lib_seal lib key nonce p) = Some p)"

lemma decrypt_encryptAESGCM:
  assumes "aeadCorrect lib" and "length nonce = nonceSize" and "EncryptAESGCM lib nonce p key = Inr ct"
  shows "DecryptAESGCM lib ct key = Inr p"
proof (cases "key = []")
  case True
  with assms show ?thesis by (auto simp: EncryptAESGCM_def DecryptAESGCM_def b64decode_encode)
next
  case False
  with assms(3) obtain k where k: "newGCM key = Inr k"
    "ct = b64encode stdAlphabet True (nonce @ lib_seal lib k nonce p)"
    by (auto simp: EncryptAESGCM_def split: sum.splits)
  with False assms(1,2) show ?thesis
    by (simp add: DecryptAESGCM_def b64decode_encode aeadCorrect_def)
qed

text \<open>The hypotheses on the cipher, the hash and the nonce, and on the registry of a configuration.\<close>

definition cryptoOK :: "CryptoLib \<Rightarrow> string \<Rightarrow> bool" where
  "cryptoOK lib nonce \<longleftrightarrow>
     aeadCorrect lib \<and> (\<forall>x. 8 \<le> length (lib_sha256 lib x)) \<and> length nonce = nonceSize"

definition holdsKey :: "CryptoLib \<Rightarrow> KeyConfig \<Rightarrow> string \<Rightarrow> bool" where
  "holdsKey lib conf m \<longleftrightarrow> keyID lib m \<noteq> [] \<and> map_of (byID (currentKeyset lib conf)) (keyID lib m) = Some m"

definition activeKey :: "CryptoLib \<Rightarrow> KeyConfig \<Rightarrow> string \<Rightarrow> bool" where
  "activeKey lib conf m \<longleftrightarrow> holdsKey lib conf m \<and> accessID (currentKeyset lib conf) = keyID lib m"

lemma encrypted_form:
  assumes "activeKey lib conf m" and "EncryptAccessSecret lib nonce conf p = Inr stored"
  shows "\<exists>ct. EncryptAESGCM lib nonce p m = Inr ct \<and> stored = encodeEnvelope (keyID lib m) ct"
  using assms
  by (auto simp: activeKey_def holdsKey_def EncryptAccessSecret_def encrypt_def material_def Let_def split: sum.splits)

lemma rotation:
  assumes "cryptoOK lib nonce" and "activeKey lib conf m" and "EncryptAccessSecret lib nonce conf p = Inr stored"
    and "holdsKey lib conf' m"
  shows "DecryptAccessSecret lib conf' stored = Inr p" "SecretKeyID stored = keyID lib m"
proof -
  obtain ct where ct: "EncryptAESGCM lib nonce p m = Inr ct" "stored = encodeEnvelope (keyID lib m) ct"
    using encrypted_form [OF assms(2,3)] by blast
  have parse: "parseEnvelope stored = (keyID lib m, ct, True)"
    unfolding ct(2) by (rule parse_encode [OF isKeyID_keyID]) (use assms in \<open>simp_all add: cryptoOK_def holdsKey_def\<close>)
  have "DecryptAESGCM lib ct m = Inr p"
    using decrypt_encryptAESGCM [OF _ _ ct(1)] assms(1) by (simp add: cryptoOK_def)
  with parse assms(4) show "DecryptAccessSecret lib conf' stored = Inr p" "SecretKeyID stored = keyID lib m"
    by (simp_all add: DecryptAccessSecret_def decrypt_def SecretKeyID_def Let_def holdsKey_def)
qed

lemma valid_key_encrypts:
  assumes "activeKey lib conf m" and "newGCM m = Inr raw"
  shows "\<exists>stored. EncryptAccessSecret lib nonce conf p = Inr stored"
proof -
  have "m \<noteq> []" using assms(1) by (auto simp: activeKey_def holdsKey_def keyID_def)
  with assms show ?thesis
    by (simp add: activeKey_def holdsKey_def EncryptAccessSecret_def Let_def encrypt_def material_def EncryptAESGCM_def)
qed

lemma encrypted_last:
  assumes "activeKey lib conf m" and "EncryptAccessSecret lib nonce conf p = Inr stored"
  shows "stored \<noteq> [] \<and> last stored \<noteq> CHR 0x0A"
proof -
  obtain ct where ct: "EncryptAESGCM lib nonce p m = Inr ct" "stored = encodeEnvelope (keyID lib m) ct"
    using encrypted_form [OF assms] by blast
  obtain x where x: "ct = b64encode stdAlphabet True x"
    using ct(1) by (auto simp: EncryptAESGCM_def split: if_splits sum.splits)
  have "CHR 0x0A \<notin> set ct"
  proof
    assume "CHR 0x0A \<in> set ct"
    then have "CHR 0x0A \<in> set stdAlphabet" unfolding x by (auto dest: std_chars)
    then show False by (simp add: stdAlphabet_def)
  qed
  then have "ct \<noteq> [] \<Longrightarrow> last ct \<noteq> CHR 0x0A" using last_in_set by metis
  with assms(1) show ?thesis by (auto simp: ct(2) encodeEnvelope_def activeKey_def holdsKey_def)
qed

subsection \<open>Properties\<close>

text \<open>C39. A value encrypted with the active access key carries the identifier of that key, and decrypts
  to the plaintext under every later configuration whose registry still holds the key under that
  identifier, whatever key is active then: rotating keys loses nothing. The assumptions are those on
  the cipher (opening what was sealed), the hash (at least eight bytes) and the nonce.\<close>

theorem rotation_keeps_secrets:
  assumes "cryptoOK lib nonce" and "activeKey lib conf m" and "EncryptAccessSecret lib nonce conf p = Inr stored"
    and "holdsKey lib conf' m"
  shows "DecryptAccessSecret lib conf' stored = Inr p \<and> SecretKeyID stored = keyID lib m"
  using rotation [OF assms] by blast

definition sampleLib :: CryptoLib where
  "sampleLib = \<lparr>lib_seal = (\<lambda>k n p. p), lib_open = (\<lambda>k n c. Some c), lib_sha256 = (\<lambda>x. replicate 8 CHR ''A'')\<rparr>"

definition sampleKey :: string where
  "sampleKey = b64encode stdAlphabet True (replicate 16 CHR ''K'')"

definition sampleKeyConfig :: KeyConfig where
  "sampleKeyConfig = \<lparr>AccessKeyEncryption = sampleKey, OptionEncryption = [], currentKeys = None\<rparr>"

lemma sample_crypto:
  "cryptoOK sampleLib (replicate 12 CHR ''n'')" "activeKey sampleLib sampleKeyConfig sampleKey"
  "holdsKey sampleLib sampleKeyConfig sampleKey"
  by (simp_all add: cryptoOK_def aeadCorrect_def nonceSize_def activeKey_def holdsKey_def currentKeyset_def sampleKeyConfig_def
      sampleKey_def keyID_def b64encode_Nil b64decode_encode sampleLib_def keyIDLen_def)

lemma sample_key_valid: "newGCM sampleKey = Inr (replicate 16 CHR ''K'')"
  unfolding newGCM_def sampleKey_def b64decode_encode by simp

lemma sample_encrypts: "\<exists>stored. EncryptAccessSecret sampleLib (replicate 12 CHR ''n'') sampleKeyConfig p = Inr stored"
  by (rule valid_key_encrypts [OF sample_crypto(2) sample_key_valid])

theorem rotation_keeps_secrets_witness:
  "\<exists>stored. EncryptAccessSecret sampleLib (replicate 12 CHR ''n'') sampleKeyConfig ''pw'' = Inr stored \<and>
     DecryptAccessSecret sampleLib sampleKeyConfig stored = Inr ''pw''"
  using sample_encrypts [of "''pw''"] rotation_keeps_secrets [OF sample_crypto(1,2) _ sample_crypto(3)] by blast

text \<open>The envelope is unambiguous: an identifier-shaped prefix is read back exactly, and a value
  stored without a key, which is plain base64, is never taken for one that names a key.\<close>

lemma envelope_unambiguous:
  "(isKeyID kid \<longrightarrow> parseEnvelope (encodeEnvelope kid ct) = (kid, ct, True)) \<and>
   parseEnvelope (encodeEnvelope [] (b64encode stdAlphabet True p)) = ([], b64encode stdAlphabet True p, False) \<and>
   b64decode (b64encode stdAlphabet True p) = Some p"
  using parse_encode parse_legacy [OF no_colon(1)] b64decode_encode by (simp add: encodeEnvelope_def)

text \<open>A configuration with an option key but no access key writes access secrets in the clear and can
  not read them back when they are short: with no access key the value is stored as plain base64, but
  the reader tries the option key on it and the plain value is shorter than a nonce.\<close>

lemma option_key_only_loses_secrets:
  assumes "AccessKeyEncryption conf = []" and "OptionEncryption conf \<noteq> []" and "currentKeys conf = None"
    and "keyID lib (OptionEncryption conf) \<noteq> []" and "length p < nonceSize"
  shows "\<exists>err. EncryptAccessSecret lib nonce conf p = Inr (b64encode stdAlphabet True p) \<and>
    DecryptAccessSecret lib conf (b64encode stdAlphabet True p) = Inl err"
proof -
  let ?opt = "OptionEncryption conf"
  have ks: "currentKeyset lib conf = \<lparr>byID = [(keyID lib ?opt, ?opt)], accessID = [], optionID = keyID lib ?opt,
      legacyAccess = [], legacyOption = ?opt\<rparr>"
    using assms by (simp add: currentKeyset_def)
  have enc: "EncryptAccessSecret lib nonce conf p = Inr (b64encode stdAlphabet True p)"
    using assms(4) by (simp add: EncryptAccessSecret_def Let_def ks encrypt_def material_def EncryptAESGCM_def
        encodeEnvelope_def)
  have cand: "legacyAccessCandidates (currentKeyset lib conf) = [?opt]"
    using assms(2) by (simp add: ks legacyAccessCandidates_def legacyCandidates_def dedupeKeys_def)
  have "\<exists>err. DecryptAESGCM lib (b64encode stdAlphabet True p) ?opt = Inl err"
    using assms(2,5) by (auto simp: DecryptAESGCM_def b64decode_encode split: sum.splits)
  then show ?thesis
    using enc by (auto simp: DecryptAccessSecret_def Let_def decrypt_def parse_legacy [OF no_colon(1)] cand
        decryptWithKeys_def)
qed

end
