(* ===== verification/Access_Keys.thy ===== *)
theory Access_Keys
  imports Keyring "HOL-Library.List_Lexorder" "HOL-Library.Char_ord"
begin

text \<open>
  Access keys and their secrets: the table \<^verbatim>\<open>access_key\<close> (\<^verbatim>\<open>db/sql/access_key.go\<close>), the local serializer
  (\<^verbatim>\<open>access_key_serializer_local.go\<close>), the encryption service with its rekeying
  (\<^verbatim>\<open>access_key_encryption_svc.go\<close>), the survey secrets of a task (\<^verbatim>\<open>task_secret_svc.go\<close>) and the key service
  (\<^verbatim>\<open>access_key_svc.go\<close>), all of \<^verbatim>\<open>services/server\<close>. The environment variables, the file system, the JSON codec of
  the two key structs and the nonce are arguments. The serializers of external storages are stubs in
  this build that do nothing.
\<close>

subsection \<open>Paths\<close>

text \<open>\<^verbatim>\<open>filepath.Clean\<close> on a system with slashes, by segments; the accumulator is reversed.\<close>

definition slash :: char where
  "slash = CHR ''/''"

definition filepath_IsAbs :: "string \<Rightarrow> bool" where
  "filepath_IsAbs p \<longleftrightarrow> p \<noteq> [] \<and> hd p = slash"

definition cleanStep :: "bool \<Rightarrow> string \<Rightarrow> string list \<Rightarrow> string list" where
  "cleanStep rooted seg acc =
     (if seg = [] \<or> seg = ''.'' then acc
      else if seg = ''..'' then
        (case acc of
           [] \<Rightarrow> if rooted then [] else [''..'']
         | x # xs \<Rightarrow> if x = ''..'' then ''..'' # acc else xs)
      else seg # acc)"

definition cleanSegs :: "string \<Rightarrow> string list" where
  "cleanSegs p = rev (fold (cleanStep (filepath_IsAbs p)) (splitOn slash p) [])"

definition filepath_Clean :: "string \<Rightarrow> string" where
  "filepath_Clean p =
     (if filepath_IsAbs p then slash # joinWith slash (cleanSegs p)
      else if cleanSegs p = [] then ''.'' else joinWith slash (cleanSegs p))"

fun dropCommon :: "string list \<Rightarrow> string list \<Rightarrow> string list \<times> string list" where
  "dropCommon (x # xs) (y # ys) = (if x = y then dropCommon xs ys else (x # xs, y # ys))"
| "dropCommon xs ys = (xs, ys)"

text \<open>\<^verbatim>\<open>filepath.Rel\<close> for two absolute paths.\<close>

definition filepath_Rel :: "string \<Rightarrow> string \<Rightarrow> string" where
  "filepath_Rel base target =
     (let (b, t) = dropCommon (cleanSegs base) (cleanSegs target);
          segs = replicate (length b) ''..'' @ t
      in if segs = [] then ''.'' else joinWith slash segs)"

subsection \<open>The table\<close>

record SecretStorage =
  Storage_ID :: ident
  Storage_ProjectID :: ident
  Storage_Type :: string
  Storage_ReadOnly :: bool

record KeyDb =
  tbl_access_key :: "AccessKey list"
  tbl_secret_storage :: "SecretStorage list"
  tbl_project_id :: "ident list"
  tbl_task_row :: "Task list"
  next_key_id :: ident
  key_fault :: bool
  key_collation :: "string \<Rightarrow> string"
  key_rank :: "AccessKey list \<Rightarrow> ident \<Rightarrow> nat"

abbreviation (input) AccessKeySSH :: string where "AccessKeySSH \<equiv> ''ssh''"
abbreviation (input) AccessKeyNone :: string where "AccessKeyNone \<equiv> ''none''"
abbreviation (input) AccessKeyLoginPassword :: string where "AccessKeyLoginPassword \<equiv> ''login_password''"
abbreviation (input) AccessKeyString :: string where "AccessKeyString \<equiv> ''string''"
abbreviation (input) AccessKeyTaskSecret :: string where "AccessKeyTaskSecret \<equiv> ''task''"
abbreviation (input) StorageVault :: string where "StorageVault \<equiv> ''vault''"
abbreviation (input) StorageEnv :: string where "StorageEnv \<equiv> ''env''"
abbreviation (input) StorageFile :: string where "StorageFile \<equiv> ''file''"

definition keyError :: go_error where
  "keyError = ErrSql ''sql: driver error''"

definition AccessKey_Validate :: "AccessKey \<Rightarrow> go_error option" where
  "AccessKey_Validate key = (if Key_Name key = [] then Some (ErrOther ''name can not be empty'') else None)"

definition IsNativelyReadOnly :: "AccessKey \<Rightarrow> bool" where
  "IsNativelyReadOnly key \<longleftrightarrow>
     (case Key_SourceStorageType key of None \<Rightarrow> False | Some t \<Rightarrow> t = StorageFile \<or> t = StorageEnv)"

definition AccessKey_IsEmpty :: "AccessKey \<Rightarrow> bool" where
  "AccessKey_IsEmpty key =
     (if Key_Type key = AccessKeyNone then False
      else case Key_SourceStorageType key of
        Some t \<Rightarrow>
          if t = StorageEnv \<or> t = StorageFile
          then (case Key_SourceStorageKey key of None \<Rightarrow> True | Some k \<Rightarrow> k = [])
          else if t = StorageVault then Key_SourceStorageID key = None
          else True
      | None \<Rightarrow>
          if (case Key_Secret key of None \<Rightarrow> False | Some s \<Rightarrow> s \<noteq> []) then False
          else if Key_Type key = AccessKeyString then Key_String key = []
          else if Key_Type key = AccessKeySSH then Ssh_PrivateKey (Key_SshKey key) = []
          else if Key_Type key = AccessKeyLoginPassword then LP_Password (Key_LoginPassword key) = []
          else True)"

text \<open>The fields of a key that are not columns are zero when it is read.\<close>

definition clearPlain :: "AccessKey \<Rightarrow> AccessKey" where
  "clearPlain key =
     key\<lparr>Key_String := [], Key_LoginPassword := \<lparr>LP_Login = [], LP_Password = []\<rparr>,
         Key_SshKey := \<lparr>Ssh_Login = [], Ssh_Passphrase = [], Ssh_PrivateKey = []\<rparr>,
         Key_OverrideSecret := False, Key_IgnorePlain := False\<rparr>"

definition ofProject :: "ident \<Rightarrow> AccessKey \<Rightarrow> bool" where
  "ofProject p key \<longleftrightarrow> Key_ProjectID key = Some p"

definition GetAccessKey :: "ident \<Rightarrow> ident \<Rightarrow> KeyDb \<Rightarrow> go_error + AccessKey" where
  "GetAccessKey p i d =
     (if key_fault d then Inl keyError
      else case find (\<lambda>k. Key_ID k = i \<and> ofProject p k) (tbl_access_key d) of
             None \<Rightarrow> Inl ErrNotFound
           | Some k \<Rightarrow> Inr k)"

text \<open>
  A page of the keys of a project of every owner. The query orders the rows by name, as the collation of the
  database compares names (\<open>key_collation\<close> is its sort key); between rows of one name the database may choose any order,
  and another one whenever the table has changed (\<open>key_rank\<close>).
\<close>

definition orderByName :: "KeyDb \<Rightarrow> AccessKey list \<Rightarrow> AccessKey list" where
  "orderByName d rows =
     sort_key (\<lambda>k. key_collation d (Key_Name k)) (sort_key (\<lambda>k. key_rank d (tbl_access_key d) (Key_ID k)) rows)"

lemma orderByName_perm [simp]:
  "mset (orderByName d rows) = mset rows" "set (orderByName d rows) = set rows"
  "length (orderByName d rows) = length rows" "distinct (orderByName d rows) = distinct rows"
  by (simp_all add: orderByName_def)

definition GetAccessKeysPage :: "ident \<Rightarrow> nat \<Rightarrow> nat \<Rightarrow> KeyDb \<Rightarrow> go_error + AccessKey list" where
  "GetAccessKeysPage p cnt offset d =
     (if key_fault d then Inl keyError
      else Inr (take cnt (drop offset (orderByName d (filter (ofProject p) (tbl_access_key d))))))"

definition updateKeyRow :: "AccessKey \<Rightarrow> AccessKey \<Rightarrow> AccessKey" where
  "updateKeyRow key row =
     (let r1 = row\<lparr>Key_Name := Key_Name key\<rparr>;
          r2 = (if \<not> Key_IgnorePlain key then r1\<lparr>Key_Plain := Key_Plain key\<rparr> else r1)
      in if Key_OverrideSecret key
         then r2\<lparr>Key_Type := Key_Type key, Key_Secret := Key_Secret key,
                 Key_SourceStorageID := Key_SourceStorageID key,
                 Key_SourceStorageKey := Key_SourceStorageKey key,
                 Key_SourceStorageType := Key_SourceStorageType key\<rparr>
         else r2)"

definition UpdateAccessKey :: "AccessKey \<Rightarrow> KeyDb \<Rightarrow> go_error + KeyDb" where
  "UpdateAccessKey key d =
     (case AccessKey_Validate key of
        Some err \<Rightarrow> Inl err
      | None \<Rightarrow>
          if key_fault d then Inl keyError
          else Inr (d\<lparr>tbl_access_key :=
                 map (\<lambda>row. if Key_ID row = Key_ID key \<and> Key_ProjectID key \<noteq> None \<and> Key_ProjectID row = Key_ProjectID key
                            then updateKeyRow key row else row) (tbl_access_key d)\<rparr>))"

text \<open>The insert does not write \<^verbatim>\<open>user_id\<close>, and \<^verbatim>\<open>plain\<close> only if it is not to be ignored.\<close>

definition CreateAccessKey :: "AccessKey \<Rightarrow> KeyDb \<Rightarrow> go_error + (AccessKey \<times> KeyDb)" where
  "CreateAccessKey key d =
     (if key_fault d then Inl keyError
      else let i = next_key_id d;
               row = (clearPlain key)\<lparr>Key_ID := i, Key_UserID := None,
                       Key_Plain := (if Key_IgnorePlain key then None else Key_Plain key)\<rparr>
           in Inr (key\<lparr>Key_ID := i\<rparr>,
                   d\<lparr>tbl_access_key := tbl_access_key d @ [row], next_key_id := i + 1\<rparr>))"

definition DeleteAccessKey :: "ident \<Rightarrow> ident \<Rightarrow> KeyDb \<Rightarrow> go_error + KeyDb" where
  "DeleteAccessKey p i d =
     (if key_fault d then Inl keyError
      else Inr (d\<lparr>tbl_access_key := filter (\<lambda>k. \<not> (Key_ID k = i \<and> ofProject p k)) (tbl_access_key d)\<rparr>))"

definition isTaskKey :: "ident \<Rightarrow> ident \<Rightarrow> AccessKey \<Rightarrow> bool" where
  "isTaskKey p t k \<longleftrightarrow> ofProject p k \<and> Key_Owner k = AccessKeyTaskSecret \<and> Key_TaskID k = Some t"

definition GetTaskAccessKey :: "ident \<Rightarrow> ident \<Rightarrow> KeyDb \<Rightarrow> go_error + AccessKey" where
  "GetTaskAccessKey p t d =
     (if key_fault d then Inl keyError
      else case find (isTaskKey p t) (tbl_access_key d) of None \<Rightarrow> Inl ErrNotFound | Some k \<Rightarrow> Inr k)"

definition DeleteTaskAccessKeys :: "ident \<Rightarrow> ident \<Rightarrow> KeyDb \<Rightarrow> go_error + KeyDb" where
  "DeleteTaskAccessKeys p t d =
     (if key_fault d then Inl keyError
      else Inr (d\<lparr>tbl_access_key := filter (\<lambda>k. \<not> isTaskKey p t k) (tbl_access_key d)\<rparr>))"

definition DeleteExpiredTaskAccessKeys :: "go_time \<Rightarrow> KeyDb \<Rightarrow> go_error + KeyDb" where
  "DeleteExpiredTaskAccessKeys at d =
     (if key_fault d then Inl keyError
      else Inr (d\<lparr>tbl_access_key :=
        filter (\<lambda>k. \<not> (Key_Owner k = AccessKeyTaskSecret \<and>
                       (case Key_ExpireAt k of None \<Rightarrow> False | Some e \<Rightarrow> e < at) \<and>
                       (case Key_TaskID k of
                          None \<Rightarrow> True
                        | Some t \<Rightarrow> list_ex (\<lambda>row. Task_ID row = t \<and> Key_ProjectID k = Some (Task_ProjectID row) \<and>
                                               IsFinished (Task_Status row)) (tbl_task_row d))))
          (tbl_access_key d)\<rparr>))"

definition GetSecretStorage :: "ident \<Rightarrow> ident \<Rightarrow> KeyDb \<Rightarrow> go_error + SecretStorage" where
  "GetSecretStorage p i d =
     (if key_fault d then Inl keyError
      else case find (\<lambda>s. Storage_ID s = i \<and> Storage_ProjectID s = p) (tbl_secret_storage d) of
             None \<Rightarrow> Inl ErrNotFound
           | Some s \<Rightarrow> Inr s)"

subsection \<open>The local serializer\<close>

datatype json_error = JsonSyntaxError string | JsonOtherError string

record KeyEnv =
  ke_lib :: CryptoLib
  ke_conf :: KeyConfig
  ke_nonce :: string
  ke_getenv :: "string \<Rightarrow> string"
  ke_readFile :: "string \<Rightarrow> go_error + string"
  ke_secretsPath :: string
  ke_marshalSsh :: "SshKey \<Rightarrow> string"
  ke_unmarshalSsh :: "string \<Rightarrow> json_error + SshKey"
  ke_marshalLogin :: "LoginPassword \<Rightarrow> string"
  ke_unmarshalLogin :: "string \<Rightarrow> json_error + LoginPassword"

text \<open>The plaintext to encrypt: an error, nothing to store, or the bytes.\<close>

definition plaintextOf :: "KeyEnv \<Rightarrow> AccessKey \<Rightarrow> go_error + string option" where
  "plaintextOf env key =
     (if Key_Type key = AccessKeyString then
        Inr (if Key_String key = [] then None else Some (Key_String key))
      else if Key_Type key = AccessKeySSH then
        (let k = Key_SshKey key in
         if Ssh_PrivateKey k = [] then
           (if Ssh_Login k \<noteq> [] \<or> Ssh_Passphrase k \<noteq> [] then Inl (ErrOther ''invalid ssh key'') else Inr None)
         else Inr (Some (ke_marshalSsh env k)))
      else if Key_Type key = AccessKeyLoginPassword then
        (let k = Key_LoginPassword key in
         if LP_Password k = [] then
           (if LP_Login k \<noteq> [] then Inl (ErrOther ''invalid password key'') else Inr None)
         else Inr (Some (ke_marshalLogin env k)))
      else if Key_Type key = AccessKeyNone then Inr None
      else Inl (ErrOther ''invalid access token type''))"

definition Local_SerializeSecret :: "KeyEnv \<Rightarrow> AccessKey \<Rightarrow> go_error + AccessKey" where
  "Local_SerializeSecret env key =
     (case plaintextOf env key of
        Inl err \<Rightarrow> Inl err
      | Inr None \<Rightarrow> Inr (key\<lparr>Key_Secret := None\<rparr>)
      | Inr (Some plaintext) \<Rightarrow>
          (case EncryptAccessSecret (ke_lib env) (ke_nonce env) (ke_conf env) plaintext of
             Inl err \<Rightarrow> Inl err
           | Inr secret \<Rightarrow> Inr (key\<lparr>Key_Secret := Some secret\<rparr>)))"

definition trimNewline :: "string \<Rightarrow> string" where
  "trimNewline s = (if s \<noteq> [] \<and> last s = CHR 0x0A then butlast s else s)"

definition readSecretFile :: "KeyEnv \<Rightarrow> string \<Rightarrow> go_error + string" where
  "readSecretFile env key =
     (let filePath = filepath_Clean key; base = filepath_Clean (ke_secretsPath env) in
      if \<not> filepath_IsAbs filePath then Inl (ValidationError ''file path must be absolute'')
      else if ''..'' \<in> set (splitOn slash key)
      then Inl (ValidationError ''file path must not contain traversal segments'')
      else if \<not> filepath_IsAbs base then Inl (ValidationError ''secrets path must be absolute'')
      else let rel = filepath_Rel base filePath in
        if rel = ''..'' \<or> take 3 rel = ''../''
        then Inl (ValidationError ''file path must be inside secrets path'')
        else map_sum id trimNewline (ke_readFile env filePath))"

definition decryptError :: "go_error \<Rightarrow> go_error" where
  "decryptError err =
     (if err = ErrOther ''cipher: message authentication failed''
      then ErrOther ''cannot decrypt access key, perhaps encryption key was changed'' else err)"

definition openStored :: "KeyEnv \<Rightarrow> AccessKey \<Rightarrow> (string \<Rightarrow> go_error + string) \<Rightarrow> go_error + string" where
  "openStored env key decr =
     (case Key_Secret key of
        None \<Rightarrow> Inr []
      | Some secret \<Rightarrow>
          if secret = [] then Inr []
          else if last secret = CHR 0x0A then
            (if Key_Type key \<noteq> AccessKeySSH then Inl (ErrOther ''invalid access key type'')
             else Inr (ke_marshalSsh env \<lparr>Ssh_Login = [], Ssh_Passphrase = [], Ssh_PrivateKey = secret\<rparr>))
          else map_sum decryptError id (decr secret))"

text \<open>A key of another storage type falls through to its stored secret.\<close>

definition Local_deserialize :: "KeyEnv \<Rightarrow> AccessKey \<Rightarrow> (string \<Rightarrow> go_error + string) \<Rightarrow> go_error + string" where
  "Local_deserialize env key decr =
     (case Key_SourceStorageType key of
        None \<Rightarrow> openStored env key decr
      | Some t \<Rightarrow>
          (case Key_SourceStorageKey key of
             None \<Rightarrow> Inl (ErrOther ''source storage key is required'')
           | Some src \<Rightarrow>
               if t = StorageEnv then Inr (ke_getenv env src)
               else if t = StorageFile then readSecretFile env src
               else openStored env key decr))"

definition Local_DeserializeSecret :: "KeyEnv \<Rightarrow> AccessKey \<Rightarrow> go_error + string" where
  "Local_DeserializeSecret env key = Local_deserialize env key (DecryptAccessSecret (ke_lib env) (ke_conf env))"

definition Local_DeserializeSecret2 :: "KeyEnv \<Rightarrow> AccessKey \<Rightarrow> string \<Rightarrow> go_error + string" where
  "Local_DeserializeSecret2 env key oldKey =
     Local_deserialize env key (\<lambda>stored. DecryptAccessSecretWithKey (ke_lib env) stored oldKey)"

subsection \<open>The encryption service\<close>

definition keyCarriesSecret :: "string \<Rightarrow> bool" where
  "keyCarriesSecret t \<longleftrightarrow> t = AccessKeySSH \<or> t = AccessKeyLoginPassword"

definition unmarshalAppropriateField :: "KeyEnv \<Rightarrow> AccessKey \<Rightarrow> string \<Rightarrow> json_error + AccessKey" where
  "unmarshalAppropriateField env key secret =
     (if Key_Type key = AccessKeyString then Inr (key\<lparr>Key_String := secret\<rparr>)
      else if Key_Type key = AccessKeySSH then
        map_sum id (\<lambda>k. key\<lparr>Key_SshKey := k\<rparr>) (ke_unmarshalSsh env secret)
      else if Key_Type key = AccessKeyLoginPassword then
        map_sum id (\<lambda>k. key\<lparr>Key_LoginPassword := k\<rparr>) (ke_unmarshalLogin env secret)
      else Inr key)"

definition quoted :: "string \<Rightarrow> string" where
  "quoted s = [CHR 0x27] @ s @ [CHR 0x27]"

datatype deserializer = LocalDeserializer | ExternalDeserializer

text \<open>\<^const>\<open>None\<close>: the project ID of the key is nil and is dereferenced.\<close>

definition getDeserializer :: "AccessKey \<Rightarrow> KeyDb \<Rightarrow> (go_error + deserializer \<times> bool) option" where
  "getDeserializer key d =
     (case Key_SourceStorageType key of
        None \<Rightarrow> Some (Inr (LocalDeserializer, False))
      | Some t \<Rightarrow>
          if t = StorageEnv \<or> t = StorageFile then Some (Inr (LocalDeserializer, True))
          else if t = StorageVault then
            (case Key_SourceStorageID key of
               None \<Rightarrow> Some (Inl (ErrOther ''vault storage id is required''))
             | Some sid \<Rightarrow>
                 (case Key_ProjectID key of
                    None \<Rightarrow> None
                  | Some p \<Rightarrow>
                      (case GetSecretStorage p sid d of
                         Inl err \<Rightarrow> Some (Inl err)
                       | Inr st \<Rightarrow>
                           if Storage_Type st \<in> {''vault'', ''openbao'', ''dvls'', ''aws_sm'', ''azure_kv''}
                           then Some (Inr (ExternalDeserializer, Storage_ReadOnly st))
                           else Some (Inl (ErrOther (''unsupported secret storage type '' @ quoted (Storage_Type st)))))))
          else Some (Inl (ErrOther (''unsupported secret storage type '' @ quoted t))))"

definition ErrReadOnlyStorage :: go_error where
  "ErrReadOnlyStorage = ErrOther ''cannot modify secret in read-only storage''"

definition SerializeSecret :: "KeyEnv \<Rightarrow> AccessKey \<Rightarrow> KeyDb \<Rightarrow> (go_error + AccessKey) option" where
  "SerializeSecret env key d =
     (case getDeserializer key d of
        None \<Rightarrow> None
      | Some (Inl err) \<Rightarrow> Some (Inl err)
      | Some (Inr (ds, readonly)) \<Rightarrow>
          if readonly then Some (Inl ErrReadOnlyStorage)
          else (case AccessKey_Validate key of
                  Some err \<Rightarrow> Some (Inl err)
                | None \<Rightarrow>
                    (case ds of
                       LocalDeserializer \<Rightarrow> Some (Local_SerializeSecret env key)
                     | ExternalDeserializer \<Rightarrow> Some (Inr key))))"

definition jsonToGo :: "AccessKey \<Rightarrow> json_error \<Rightarrow> go_error" where
  "jsonToGo key err =
     (case err of
        JsonSyntaxError _ \<Rightarrow>
          ValidationError (''secret must be valid json in key '' @ quoted (Key_Name key))
      | JsonOtherError s \<Rightarrow> ErrOther s)"

definition DeserializeSecret :: "KeyEnv \<Rightarrow> go_time \<Rightarrow> AccessKey \<Rightarrow> KeyDb \<Rightarrow> (go_error + AccessKey) option" where
  "DeserializeSecret env at key d =
     (if (case Key_ExpireAt key of None \<Rightarrow> False | Some e \<Rightarrow> at > e) then Some (Inl ErrAccessKeyExpired)
      else case getDeserializer key d of
        None \<Rightarrow> None
      | Some (Inl err) \<Rightarrow> Some (Inl err)
      | Some (Inr (ds, _)) \<Rightarrow>
          (case (case ds of LocalDeserializer \<Rightarrow> Local_DeserializeSecret env key | ExternalDeserializer \<Rightarrow> Inr []) of
             Inl err \<Rightarrow> Some (Inl err)
           | Inr ciphertext \<Rightarrow>
               if keyCarriesSecret (Key_Type key) \<and> trimSpace ciphertext = []
               then Some (Inl (ValidationError (''key '' @ quoted (Key_Name key) @ '' has no secret yet: fill it in the key store'')))
               else Some (map_sum (jsonToGo key) id (unmarshalAppropriateField env key ciphertext))))"

definition DeleteSecret :: "AccessKey \<Rightarrow> KeyDb \<Rightarrow> go_error option option" where
  "DeleteSecret key d =
     (case getDeserializer key d of None \<Rightarrow> None | Some (Inl err) \<Rightarrow> Some (Some err) | Some (Inr _) \<Rightarrow> Some None)"

subsection \<open>Survey secrets of a task\<close>

definition CreateTaskSurveySecrets ::
  "KeyEnv \<Rightarrow> ident \<Rightarrow> ident \<Rightarrow> string \<Rightarrow> go_time \<Rightarrow> KeyDb \<Rightarrow> (go_error + KeyDb) option" where
  "CreateTaskSurveySecrets env p t secrets expireAt d =
     (let key = zeroAccessKey\<lparr>Key_Name := ''task-'' @ itoa t @ ''-survey-secrets'', Key_Type := AccessKeyString,
                  Key_ProjectID := Some p, Key_Owner := AccessKeyTaskSecret, Key_TaskID := Some t,
                  Key_ExpireAt := Some expireAt, Key_String := secrets, Key_OverrideSecret := True\<rparr>
      in case SerializeSecret env key d of
           None \<Rightarrow> None
         | Some (Inl err) \<Rightarrow> Some (Inl err)
         | Some (Inr key1) \<Rightarrow> Some (map_sum id snd (CreateAccessKey key1 d)))"

definition GetTaskSurveySecrets :: "KeyEnv \<Rightarrow> go_time \<Rightarrow> ident \<Rightarrow> ident \<Rightarrow> KeyDb \<Rightarrow> (go_error + string) option" where
  "GetTaskSurveySecrets env at p t d =
     (case GetTaskAccessKey p t d of
        Inl err \<Rightarrow> Some (if err = ErrNotFound then Inr [] else Inl err)
      | Inr key \<Rightarrow> map_option (map_sum id Key_String) (DeserializeSecret env at key d))"

definition DeleteTaskSurveySecrets :: "ident \<Rightarrow> ident \<Rightarrow> KeyDb \<Rightarrow> go_error + KeyDb" where
  "DeleteTaskSurveySecrets p t d = DeleteTaskAccessKeys p t d"

subsection \<open>The key service\<close>

definition AccessKeyService_Create :: "KeyEnv \<Rightarrow> AccessKey \<Rightarrow> KeyDb \<Rightarrow> (go_error + AccessKey \<times> KeyDb) option" where
  "AccessKeyService_Create env key d =
     (case SerializeSecret env key d of
        None \<Rightarrow> None
      | Some (Inl err) \<Rightarrow> if err = ErrReadOnlyStorage then Some (CreateAccessKey key d) else Some (Inl err)
      | Some (Inr key1) \<Rightarrow> Some (CreateAccessKey key1 d))"

definition AccessKeyService_Delete :: "ident \<Rightarrow> ident \<Rightarrow> KeyDb \<Rightarrow> (go_error + KeyDb) option" where
  "AccessKeyService_Delete p i d =
     (case GetAccessKey p i d of
        Inl err \<Rightarrow> Some (Inl err)
      | Inr key \<Rightarrow>
          (case Key_SourceStorageID key of
             None \<Rightarrow> Some (DeleteAccessKey p i d)
           | Some sid \<Rightarrow>
               (case GetSecretStorage p sid d of
                  Inl err \<Rightarrow> Some (Inl err)
                | Inr st \<Rightarrow>
                    if Storage_ReadOnly st \<or> Key_Synchronized key then Some (DeleteAccessKey p i d)
                    else (case DeleteSecret key d of
                            None \<Rightarrow> None
                          | Some (Some err) \<Rightarrow> Some (Inl err)
                          | Some None \<Rightarrow> Some (DeleteAccessKey p i d)))))"

text \<open>Is it refused to move the secret of the stored key to another storage? \<^const>\<open>None\<close>: a nil dereference.\<close>

definition overridesStorage :: "AccessKey \<Rightarrow> AccessKey \<Rightarrow> ident \<Rightarrow> KeyDb \<Rightarrow> go_error option option" where
  "overridesStorage oldKey key p d =
     (if Key_SourceStorageType oldKey = None \<or> IsNativelyReadOnly oldKey then Some None
      else case Key_SourceStorageID oldKey of
             None \<Rightarrow> None
           | Some oldID \<Rightarrow>
               (case GetSecretStorage p oldID d of
                  Inl err \<Rightarrow> Some (Some err)
                | Inr st \<Rightarrow>
                    if \<not> Storage_ReadOnly st \<and> Key_SourceStorageID key \<noteq> Some oldID
                    then Some (Some (ValidationError ''cannot override secret storage''))
                    else Some None))"

definition AccessKeyService_Update :: "KeyEnv \<Rightarrow> AccessKey \<Rightarrow> KeyDb \<Rightarrow> (go_error + KeyDb) option" where
  "AccessKeyService_Update env key d =
     (if \<not> Key_OverrideSecret key then Some (UpdateAccessKey key d)
      else case Key_ProjectID key of
        None \<Rightarrow> None
      | Some p \<Rightarrow>
          (case GetAccessKey p (Key_ID key) d of
             Inl err \<Rightarrow> Some (Inl err)
           | Inr oldKey \<Rightarrow>
               (case overridesStorage oldKey key p d of
                  None \<Rightarrow> None
                | Some (Some err) \<Rightarrow> Some (Inl err)
                | Some None \<Rightarrow>
                    if IsNativelyReadOnly key then Some (UpdateAccessKey key d)
                    else (case SerializeSecret env key d of
                            None \<Rightarrow> None
                          | Some (Inl err) \<Rightarrow> Some (Inl err)
                          | Some (Inr key1) \<Rightarrow> Some (UpdateAccessKey key1 d)))))"

subsection \<open>Rekeying\<close>

definition RekeyBatchSize :: nat where
  "RekeyBatchSize = 100"

definition plainJson :: "json_error \<Rightarrow> go_error" where
  "plainJson err = (case err of JsonSyntaxError s \<Rightarrow> ErrOther s | JsonOtherError s \<Rightarrow> ErrOther s)"

definition rekeyKey :: "KeyEnv \<Rightarrow> string \<Rightarrow> AccessKey \<Rightarrow> KeyDb \<Rightarrow> go_error option \<times> KeyDb" where
  "rekeyKey env oldKey key d =
     (if Key_SourceStorageType key \<noteq> None then (None, d)
      else case (if oldKey = [] then Local_DeserializeSecret env key else Local_DeserializeSecret2 env key oldKey) of
        Inl err \<Rightarrow> (Some err, d)
      | Inr secret \<Rightarrow>
          (case unmarshalAppropriateField env key secret of
             Inl err \<Rightarrow> (Some (plainJson err), d)
           | Inr key1 \<Rightarrow>
               (case Local_SerializeSecret env (key1\<lparr>Key_OverrideSecret := True\<rparr>) of
                  Inl err \<Rightarrow> (Some err, d)
                | Inr key2 \<Rightarrow>
                    (case UpdateAccessKey key2 d of
                       Inl err \<Rightarrow> (if err = ErrNotFound then None else Some err, d)
                     | Inr d1 \<Rightarrow> (None, d1)))))"

text \<open>The first error ends the loop; what was rekeyed before stays rekeyed.\<close>

fun rekeyKeys :: "KeyEnv \<Rightarrow> string \<Rightarrow> AccessKey list \<Rightarrow> KeyDb \<Rightarrow> go_error option \<times> KeyDb" where
  "rekeyKeys env oldKey [] d = (None, d)"
| "rekeyKeys env oldKey (key # keys) d =
     (case rekeyKey env oldKey key d of
        (Some err, d1) \<Rightarrow> (Some err, d1)
      | (None, d1) \<Rightarrow> rekeyKeys env oldKey keys d1)"

lemma UpdateAccessKey_project:
  "UpdateAccessKey key d = Inr d' \<Longrightarrow>
    map (\<lambda>k. (Key_ID k, Key_ProjectID k)) (tbl_access_key d') = map (\<lambda>k. (Key_ID k, Key_ProjectID k)) (tbl_access_key d)"
  by (auto simp: UpdateAccessKey_def updateKeyRow_def Let_def split: option.splits if_splits)

lemma rekeyKey_project:
  "rekeyKey env oldKey key d = (e, d') \<Longrightarrow>
    map (\<lambda>k. (Key_ID k, Key_ProjectID k)) (tbl_access_key d') = map (\<lambda>k. (Key_ID k, Key_ProjectID k)) (tbl_access_key d)"
  by (auto simp: rekeyKey_def split: if_splits sum.splits dest: UpdateAccessKey_project)

lemma rekeyKeys_project:
  "rekeyKeys env oldKey keys d = (e, d') \<Longrightarrow>
    map (\<lambda>k. (Key_ID k, Key_ProjectID k)) (tbl_access_key d') = map (\<lambda>k. (Key_ID k, Key_ProjectID k)) (tbl_access_key d)"
  by (induction keys arbitrary: d) (auto split: prod.splits option.splits dest: rekeyKey_project)

lemma rekeyKeys_length:
  assumes "rekeyKeys env oldKey keys d = (e, d')"
  shows "length (filter (ofProject p) (tbl_access_key d')) = length (filter (ofProject p) (tbl_access_key d))"
proof -
  have eq: "length (filter (ofProject p) ks) = length (filter (\<lambda>x. snd x = Some p) (map (\<lambda>k. (Key_ID k, Key_ProjectID k)) ks))" for ks
    by (induction ks) (simp_all add: ofProject_def)
  show ?thesis unfolding eq rekeyKeys_project [OF assms] ..
qed

text \<open>The loop over the pages of a project; it ends with the first empty page.\<close>

function rekeyProject :: "KeyEnv \<Rightarrow> string \<Rightarrow> ident \<Rightarrow> nat \<Rightarrow> KeyDb \<Rightarrow> go_error option \<times> KeyDb" where
  "rekeyProject env oldKey p i d =
     (case GetAccessKeysPage p RekeyBatchSize (i * RekeyBatchSize) d of
        Inl err \<Rightarrow> (Some err, d)
      | Inr keys \<Rightarrow>
          if keys = [] then (None, d)
          else (case rekeyKeys env oldKey keys d of
                  (Some err, d1) \<Rightarrow> (Some err, d1)
                | (None, d1) \<Rightarrow> rekeyProject env oldKey p (Suc i) d1))"
  by pat_completeness auto
termination
proof (relation "measure (\<lambda>(env, oldKey, p, i, d). length (filter (ofProject p) (tbl_access_key d)) - i * RekeyBatchSize)")
  fix env oldKey p i d keys res e d1
  assume k: "GetAccessKeysPage p RekeyBatchSize (i * RekeyBatchSize) d = Inr keys" "keys \<noteq> []"
    and r: "(e, d1) = rekeyKeys env oldKey keys d"
  have "i * RekeyBatchSize < length (filter (ofProject p) (tbl_access_key d))"
    using k by (auto simp: GetAccessKeysPage_def split: if_splits)
  then show "((env, oldKey, p, Suc i, d1), env, oldKey, p, i, d) \<in>
      measure (\<lambda>(env, oldKey, p, i, d). length (filter (ofProject p) (tbl_access_key d)) - i * RekeyBatchSize)"
    using rekeyKeys_length [OF r [symmetric], of p] by (simp add: RekeyBatchSize_def)
qed simp

declare rekeyProject.simps [simp del]

fun rekeyProjects :: "KeyEnv \<Rightarrow> string \<Rightarrow> ident list \<Rightarrow> KeyDb \<Rightarrow> go_error option \<times> KeyDb" where
  "rekeyProjects env oldKey [] d = (None, d)"
| "rekeyProjects env oldKey (p # ps) d =
     (case rekeyProject env oldKey p 0 d of
        (Some err, d1) \<Rightarrow> (Some err, d1)
      | (None, d1) \<Rightarrow> rekeyProjects env oldKey ps d1)"

definition RekeyAccessKeys :: "KeyEnv \<Rightarrow> string \<Rightarrow> KeyDb \<Rightarrow> go_error option \<times> KeyDb" where
  "RekeyAccessKeys env oldKey d =
     (if key_fault d then (Some keyError, d) else rekeyProjects env oldKey (tbl_project_id d) d)"

end
