(* ===== verification/Executor_Args.thy ===== *)
theory Executor_Args
  imports Task_Details Access_Keys
begin

text \<open>
  The local executor, \<^verbatim>\<open>services/tasks/local_executor.go\<close>, first part: the command line and the environment
  variables that it computes for a task. Extra variables come from the merged variable groups and from the
  secret answers of the survey; each survey variable names its target. Values are JSON values; a JSON number
  is a \<^verbatim>\<open>float64\<close> in Go, and \<^const>\<open>JNumber\<close> stands for those that are integers up to 2^53 in absolute value, which
  \<^verbatim>\<open>float64\<close> holds exactly. Log lines are left out. A Go map is an association list, in one of its orders.
\<close>

subsection \<open>Environment of the executor\<close>

text \<open>
  The JSON codec of the standard library, the parts of the configuration that the executor reads, and the
  environment of the access keys.
  Decoding \<^verbatim>\<open>null\<close> into a map makes it nil (\<^term>\<open>Some None\<close>); decoding it into a slice gives the empty slice.
\<close>

record ExecEnv =
  x_UnmarshalMap :: "string \<Rightarrow> MapStringAny option option"
  x_UnmarshalStrMap :: "string \<Rightarrow> (string \<times> string) list option"
  x_UnmarshalStrings :: "string \<Rightarrow> string list option"
  x_UnmarshalStages :: "string \<Rightarrow> (string \<times> string list) list option"
  x_Marshal :: "json \<Rightarrow> string"
  x_isPrint :: "nat \<Rightarrow> bool"
  x_md5 :: "string \<Rightarrow> string"
  x_WebHost :: string
  x_Port :: string
  x_TmpPath :: string
  x_HomeDirMode :: string
  x_GitAttempts :: int
  x_AppPath :: "string \<Rightarrow> string"
  x_AppArgs :: "string \<Rightarrow> string list option"
  x_getenv :: "string \<Rightarrow> string"
  x_ForwardedEnvVars :: "string list"
  x_EnvVars :: "(string \<times> string) list"
  x_StrictHostKeyChecking :: string
  x_KnownHostsFile :: string
  x_SshConfigPath :: string
  x_OnRunner :: bool
  x_keys :: KeyEnv

text \<open>Of \<^verbatim>\<open>ssh.AccessKeyInstallation\<close> the SSH agent is represented by its socket file.\<close>

record AccessKeyInstallation =
  Inst_Socket :: "string option"
  Inst_Login :: string
  Inst_Password :: string
  Inst_Script :: string

definition noInstallation :: AccessKeyInstallation where
  "noInstallation = \<lparr>Inst_Socket = None, Inst_Login = [], Inst_Password = [], Inst_Script = []\<rparr>"

text \<open>Of the local executor the fields that the provider fills and the kill flag.\<close>

record Executor =
  ex_Task :: Task
  ex_Template :: Template
  ex_Inventory :: Inventory
  ex_Repository :: Repository
  ex_Environment :: Environment
  ex_Secret :: string
  ex_JWT :: string
  ex_killed :: bool

text \<open>The fields that the phases of a run fill.\<close>

record RunningExecutor = Executor +
  ex_sshKey :: AccessKeyInstallation
  ex_becomeKey :: AccessKeyInstallation
  ex_vaultFiles :: "(string \<times> AccessKeyInstallation) list"

subsection \<open>Shell words\<close>

text \<open>The characters that \<^verbatim>\<open>shellQuotePattern\<close> leaves unquoted; the others, and all bytes of other scripts, are quoted.\<close>

definition shellSafe :: "char \<Rightarrow> bool" where
  "shellSafe c \<longleftrightarrow> c \<in> set ''ABCDEFGHIJKLMNOPQRSTUVWXYZabcdefghijklmnopqrstuvwxyz0123456789_@%+=:,./-''"

definition quoteChar :: "char \<Rightarrow> string" where
  "quoteChar c = (if c = CHR 0x27 then [CHR 0x27, CHR 0x22, CHR 0x27, CHR 0x22, CHR 0x27] else [c])"

definition ShellQuote :: "string \<Rightarrow> string" where
  "ShellQuote s =
     (if s = [] then [CHR 0x27, CHR 0x27]
      else if \<not> list_all shellSafe s
      then CHR 0x27 # concat (map quoteChar s) @ [CHR 0x27]
      else s)"

text \<open>
  Decoding of one rune: its code point and its bytes. An invalid byte decodes to U+FFFD, and that rune is
  written in its place.
\<close>

definition isCont :: "char \<Rightarrow> bool" where
  "isCont c \<longleftrightarrow> 0x80 \<le> (of_char c :: nat) \<and> (of_char c :: nat) < 0xC0"

definition contBits :: "char \<Rightarrow> nat" where
  "contBits c = of_char c - 0x80"

definition runeError :: "nat \<times> string" where
  "runeError = (0xFFFD, [CHR 0xEF, CHR 0xBF, CHR 0xBD])"

definition decodeRune :: "char \<Rightarrow> string \<Rightarrow> (nat \<times> string) \<times> string" where
  "decodeRune c rest =
     (let b = (of_char c :: nat) in
      if b < 0x80 then ((b, [c]), rest)
      else if 0xC2 \<le> b \<and> b < 0xE0 then
        (case rest of
           c1 # r \<Rightarrow> if isCont c1 then (((b - 0xC0) * 64 + contBits c1, [c, c1]), r) else (runeError, rest)
         | _ \<Rightarrow> (runeError, rest))
      else if 0xE0 \<le> b \<and> b < 0xF0 then
        (case rest of
           c1 # c2 # r \<Rightarrow>
             let cp = (b - 0xE0) * 4096 + contBits c1 * 64 + contBits c2 in
             if isCont c1 \<and> isCont c2 \<and> 0x800 \<le> cp \<and> \<not> (0xD800 \<le> cp \<and> cp < 0xE000)
             then ((cp, [c, c1, c2]), r) else (runeError, rest)
         | _ \<Rightarrow> (runeError, rest))
      else if 0xF0 \<le> b \<and> b < 0xF5 then
        (case rest of
           c1 # c2 # c3 # r \<Rightarrow>
             let cp = (b - 0xF0) * 262144 + contBits c1 * 4096 + contBits c2 * 64 + contBits c3 in
             if isCont c1 \<and> isCont c2 \<and> isCont c3 \<and> 0x10000 \<le> cp \<and> cp < 0x110000
             then ((cp, [c, c1, c2, c3]), r) else (runeError, rest)
         | _ \<Rightarrow> (runeError, rest))
      else (runeError, rest))"

lemma decodeRune_shorter: "length (snd (decodeRune c rest)) \<le> length rest"
  by (auto simp: decodeRune_def Let_def split: list.splits)

text \<open>The runes of a string, each with its code point.\<close>

function runes :: "string \<Rightarrow> (nat \<times> string) list" where
  "runes [] = []"
| "runes (c # rest) = (let r = decodeRune c rest in fst r # runes (snd r))"
  by pat_completeness auto
termination
  by (relation "measure length") (auto simp: decodeRune_shorter less_Suc_eq_le)

definition ShellStripUnsafe :: "(nat \<Rightarrow> bool) \<Rightarrow> string \<Rightarrow> string" where
  "ShellStripUnsafe isPrint s = concat (map snd (filter (\<lambda>r. isPrint (fst r)) (runes s)))"

definition commitMessageMaxRunes :: nat where
  "commitMessageMaxRunes = 100"

definition truncateCommitMessage :: "string \<Rightarrow> string" where
  "truncateCommitMessage msg =
     (if length (runes msg) > commitMessageMaxRunes
      then concat (map snd (take commitMessageMaxRunes (runes msg))) else msg)"

subsection \<open>Values of variables\<close>

text \<open>
  \<^verbatim>\<open>%v\<close> of a \<^verbatim>\<open>float64\<close> that is an integer: from seven digits on the format has an exponent.
\<close>

definition formatFloat :: "int \<Rightarrow> string" where
  "formatFloat n =
     (let ds = natDigits (nat \<bar>n\<bar>); e = length ds - 1;
          m = rev (dropWhile (\<lambda>c. c = CHR ''0'') (rev ds))
      in (if n < 0 then ''-'' else []) @
         (if e < 6 then ds
          else take 1 m @ (if drop 1 m = [] then [] else CHR ''.'' # drop 1 m) @
               ''e+'' @ (if e < 10 then ''0'' else []) @ natDigits e))"

fun formatVarValue :: "ExecEnv \<Rightarrow> json \<Rightarrow> string" where
  "formatVarValue x (JString s) = s"
| "formatVarValue x (JArray js) = x_Marshal x (JArray js)"
| "formatVarValue x (JObject m) = x_Marshal x (JObject m)"
| "formatVarValue x (JNumber n) = formatFloat n"
| "formatVarValue x (JBool b) = (if b then ''true'' else ''false'')"
| "formatVarValue x JNull = ''<nil>''"

definition assignment :: "string \<Rightarrow> string \<Rightarrow> string" where
  "assignment name val = name @ CHR ''='' # val"

subsection \<open>Task details\<close>

text \<open>
  The values of the map keep their Go types: the type of the template is a \<^verbatim>\<open>db.TemplateType\<close>, not a \<^verbatim>\<open>string\<close>.
\<close>

datatype detail = DInt int | DString string | DStringPtr "string option" | DTemplateType string

fun detailJson :: "detail \<Rightarrow> json" where
  "detailJson (DInt i) = JNumber i"
| "detailJson (DString s) = JString s"
| "detailJson (DStringPtr None) = JNull"
| "detailJson (DStringPtr (Some s)) = JString s"
| "detailJson (DTemplateType s) = JString s"

definition GetUrl :: "ExecEnv \<Rightarrow> Task \<Rightarrow> string option" where
  "GetUrl x task =
     (if x_WebHost x \<noteq> []
      then Some (x_WebHost x @ ''/project/'' @ itoa (Task_ProjectID task) @ ''/history?t='' @ itoa (Task_ID task))
      else None)"

definition getTaskDetails ::
  "ExecEnv \<Rightarrow> 'a Executor_scheme \<Rightarrow> string \<Rightarrow> string option \<Rightarrow> (string \<times> detail) list" where
  "getTaskDetails x t username incomingVersion =
     (let task = ex_Task t; tpl = ex_Template t in
      [(''id'', DInt (Task_ID task))] @
      (if Task_Message task \<noteq> [] then [(''message'', DString (Task_Message task))] else []) @
      [(''username'', DString username),
       (''url'', DStringPtr (GetUrl x task)),
       (''commit_hash'', DStringPtr (Task_CommitHash task)),
       (''commit_message'', DString (Task_CommitMessage task)),
       (''inventory_name'', DString (Inventory_Name (ex_Inventory t))),
       (''inventory_id'', DInt (Inventory_ID (ex_Inventory t))),
       (''repository_name'', DString (Repository_Name (ex_Repository t))),
       (''repository_id'', DInt (Repository_ID (ex_Repository t)))] @
      (if Template_Type tpl \<noteq> TemplateTask
       then [(''type'', DTemplateType (Template_Type tpl))] @
            (if incomingVersion \<noteq> None then [(''incoming_version'', DStringPtr incomingVersion)] else []) @
            (if Template_Type tpl = TemplateBuild then [(''target_version'', DStringPtr (Task_Version task))] else [])
       else []))"

subsection \<open>Extra variables and environment variables\<close>

abbreviation (input) SurveyVarTargetEnv :: string where "SurveyVarTargetEnv \<equiv> ''env''"
abbreviation (input) EnvironmentSecretVar :: string where "EnvironmentSecretVar \<equiv> ''var''"
abbreviation (input) EnvironmentSecretEnv :: string where "EnvironmentSecretEnv \<equiv> ''env''"

text \<open>
  Both readers of the survey answers start with the variables of the environment and the secret answers.
  Copying something into a nil map panics.
\<close>

definition copyInto :: "MapStringAny option \<Rightarrow> MapStringAny \<Rightarrow> MapStringAny option option" where
  "copyInto dst src =
     (case dst of
        None \<Rightarrow> if src = [] then Some None else None
      | Some m \<Rightarrow> Some (Some (mergeMap m src)))"

definition readVars :: "ExecEnv \<Rightarrow> string \<Rightarrow> string \<Rightarrow> (go_error + MapStringAny option) option" where
  "readVars x environment secret =
     (case (if environment \<noteq> [] then x_UnmarshalMap x environment else Some (Some [])) of
        None \<Rightarrow> Some (Inl ErrJSON)
      | Some vars \<Rightarrow>
          if secret = [] then Some (Inr vars)
          else (case x_UnmarshalMap x secret of
                  None \<Rightarrow> Some (Inl ErrJSON)
                | Some s \<Rightarrow>
                    (case copyInto vars (case s of None \<Rightarrow> [] | Some m \<Rightarrow> m) of
                       None \<Rightarrow> None
                     | Some m \<Rightarrow> Some (Inr m))))"

definition envNames :: "Template \<Rightarrow> string list" where
  "envNames tpl = map Survey_Name (filter (\<lambda>v. Survey_Target v = SurveyVarTargetEnv) (Template_SurveyVars tpl))"

text \<open>Writing \<^verbatim>\<open>aldis_vars\<close> into a nil map panics.\<close>

definition getEnvironmentExtraVars ::
  "ExecEnv \<Rightarrow> 'a Executor_scheme \<Rightarrow> string \<Rightarrow> string option \<Rightarrow> (go_error + MapStringAny) option" where
  "getEnvironmentExtraVars x t username incomingVersion =
     (case readVars x (Environment_JSON (ex_Environment t)) (ex_Secret t) of
        None \<Rightarrow> None
      | Some (Inl err) \<Rightarrow> Some (Inl err)
      | Some (Inr None) \<Rightarrow> None
      | Some (Inr (Some vars)) \<Rightarrow>
          Some (Inr (AList.update ''aldis_vars''
            (JObject [(''task_details'',
                       JObject (map (\<lambda>(k, d). (k, detailJson d)) (getTaskDetails x t username incomingVersion)))])
            (fold AList.delete (envNames (ex_Template t)) vars))))"

definition getEnvironmentExtraVarsJSON ::
  "ExecEnv \<Rightarrow> 'a Executor_scheme \<Rightarrow> string \<Rightarrow> string option \<Rightarrow> (go_error + string) option" where
  "getEnvironmentExtraVarsJSON x t username incomingVersion =
     map_option (map_sum id (\<lambda>vars. x_Marshal x (JObject vars))) (getEnvironmentExtraVars x t username incomingVersion)"

definition getEnvironmentENV :: "ExecEnv \<Rightarrow> 'a Executor_scheme \<Rightarrow> go_error + string list" where
  "getEnvironmentENV x t =
     (case (case Environment_ENV (ex_Environment t) of None \<Rightarrow> Some [] | Some s \<Rightarrow> x_UnmarshalStrMap x s) of
        None \<Rightarrow> Inl ErrJSON
      | Some vars \<Rightarrow>
          Inr (map (\<lambda>(k, v). assignment k v) vars @
               map (\<lambda>s. assignment (EnvSecret_Name s) (EnvSecret_Secret s))
                 (filter (\<lambda>s. EnvSecret_Type s = EnvironmentSecretEnv) (Environment_Secrets (ex_Environment t))) @
               (if ex_JWT t \<noteq> [] then [assignment ''ALDIS_JWT'' (ex_JWT t)] else [])))"

definition getSurveyEnvVars :: "ExecEnv \<Rightarrow> 'a Executor_scheme \<Rightarrow> (go_error + string list) option" where
  "getSurveyEnvVars x t =
     map_option (map_sum id (\<lambda>vars.
         concat (map (\<lambda>name. case map_of (case vars of None \<Rightarrow> [] | Some m \<Rightarrow> m) name of
                               None \<Rightarrow> []
                             | Some val \<Rightarrow> [assignment name (formatVarValue x val)])
                  (envNames (ex_Template t)))))
       (readVars x (Environment_JSON (ex_Environment t)) (ex_Secret t))"

text \<open>Details that are empty, nil or of another type are left out.\<close>

fun detailString :: "detail \<Rightarrow> string" where
  "detailString (DInt i) = itoa i"
| "detailString (DString s) = s"
| "detailString (DStringPtr (Some s)) = s"
| "detailString (DStringPtr None) = []"
| "detailString (DTemplateType s) = []"

definition getShellEnvironmentExtraENV ::
  "ExecEnv \<Rightarrow> 'a Executor_scheme \<Rightarrow> string \<Rightarrow> string option \<Rightarrow> string list" where
  "getShellEnvironmentExtraENV x t username incomingVersion =
     map (\<lambda>(k, d). assignment (''ALDIS_TASK_DETAILS_'' @ toUpper k)
                      (ShellQuote (ShellStripUnsafe (x_isPrint x) (detailString d))))
       (filter (\<lambda>(k, d). detailString d \<noteq> []) (getTaskDetails x t username incomingVersion))"

subsection \<open>Parameters\<close>

text \<open>
  The value that \<^verbatim>\<open>json.Unmarshal\<close> leaves in a field: as \<^const>\<open>boolField\<close>, the last value of a matching key wins, and
  \<^verbatim>\<open>null\<close> makes a slice nil but leaves other fields alone.
\<close>

definition lastField :: "structType \<Rightarrow> string \<Rightarrow> (json \<Rightarrow> 'v \<Rightarrow> 'v) \<Rightarrow> 'v \<Rightarrow> MapStringAny option \<Rightarrow> 'v" where
  "lastField flds name f zero params =
     fold (\<lambda>(k, v) a. case fieldFor flds k of Some (n, _) \<Rightarrow> if n = name then f v a else a | None \<Rightarrow> a)
       (sort_key fst (case params of Some m \<Rightarrow> m | None \<Rightarrow> [])) zero"

definition stringOf :: "json \<Rightarrow> string" where
  "stringOf v = (case v of JString s \<Rightarrow> s | _ \<Rightarrow> [])"

definition stringsField :: "structType \<Rightarrow> string \<Rightarrow> MapStringAny option \<Rightarrow> string list option" where
  "stringsField flds name =
     lastField flds name (\<lambda>v a. case v of JArray js \<Rightarrow> Some (map stringOf js) | JNull \<Rightarrow> None | _ \<Rightarrow> a) None"

definition intField :: "structType \<Rightarrow> string \<Rightarrow> MapStringAny option \<Rightarrow> int" where
  "intField flds name = lastField flds name (\<lambda>v a. case v of JNumber n \<Rightarrow> n | _ \<Rightarrow> a) 0"

definition stringField :: "structType \<Rightarrow> string \<Rightarrow> MapStringAny option \<Rightarrow> string" where
  "stringField flds name = lastField flds name (\<lambda>v a. case v of JString s \<Rightarrow> s | _ \<Rightarrow> a) []"

definition TerraformTemplateParams :: structType where
  "TerraformTemplateParams =
     [(''allow_destroy'', FBool), (''allow_auto_approve'', FBool), (''auto_approve'', FBool),
      (''override_backend'', FBool), (''backend_filename'', FString)]"

subsection \<open>Arguments of the template and of the task\<close>

definition ErrTemplateArgs :: go_error where
  "ErrTemplateArgs = ErrOther ''invalid format of the template extra arguments, must be valid JSON''"

definition ErrTaskArgs :: go_error where
  "ErrTaskArgs = ErrOther ''invalid format of the TaskRunner extra arguments, must be valid JSON''"

definition getCLIArgs :: "ExecEnv \<Rightarrow> 'a Executor_scheme \<Rightarrow> go_error + string list \<times> string list" where
  "getCLIArgs x t =
     (case (case Template_Arguments (ex_Template t) of None \<Rightarrow> Some [] | Some a \<Rightarrow> x_UnmarshalStrings x a) of
        None \<Rightarrow> Inl ErrTemplateArgs
      | Some templateArgs \<Rightarrow>
          (case (if Template_AllowOverrideArgsInTask (ex_Template t)
                 then (case Task_Arguments (ex_Task t) of None \<Rightarrow> Some [] | Some a \<Rightarrow> x_UnmarshalStrings x a)
                 else Some []) of
             None \<Rightarrow> Inl ErrTaskArgs
           | Some taskArgs \<Rightarrow> Inr (templateArgs, taskArgs)))"

type_synonym stages = "(string \<times> string list) list"

definition convertArgsJSONIfArray :: "ExecEnv \<Rightarrow> string \<Rightarrow> go_error + stages" where
  "convertArgsJSONIfArray x argsJSON =
     (if argsJSON = [] then Inr []
      else case x_UnmarshalStrings x argsJSON of
             Some arr \<Rightarrow> Inr [(''default'', arr)]
           | None \<Rightarrow>
               (case x_UnmarshalStages x argsJSON of
                  None \<Rightarrow> Inl (ErrOther ''invalid format of arguments, must be valid JSON array or map'')
                | Some m \<Rightarrow> Inr m))"

definition getCLIArgsMap :: "ExecEnv \<Rightarrow> 'a Executor_scheme \<Rightarrow> go_error + stages \<times> stages" where
  "getCLIArgsMap x t =
     (case (case Template_Arguments (ex_Template t) of None \<Rightarrow> Inr [] | Some a \<Rightarrow> convertArgsJSONIfArray x a) of
        Inl err \<Rightarrow> Inl err
      | Inr tplArgs \<Rightarrow>
          (case (if Template_AllowOverrideArgsInTask (ex_Template t)
                 then (case Task_Arguments (ex_Task t) of None \<Rightarrow> Inr [] | Some a \<Rightarrow> convertArgsJSONIfArray x a)
                 else Inr []) of
             Inl err \<Rightarrow> Inl err
           | Inr taskArgs \<Rightarrow> Inr (tplArgs, taskArgs)))"

subsection \<open>Shell applications\<close>

definition secretVars :: "'a Executor_scheme \<Rightarrow> string list" where
  "secretVars t =
     map (\<lambda>s. assignment (EnvSecret_Name s) (EnvSecret_Secret s))
       (filter (\<lambda>s. EnvSecret_Type s = EnvironmentSecretVar) (Environment_Secrets (ex_Environment t)))"

definition varAssignments :: "ExecEnv \<Rightarrow> MapStringAny \<Rightarrow> string list" where
  "varAssignments x vars =
     map (\<lambda>(name, val). assignment name (formatVarValue x val)) (filter (\<lambda>(name, _). name \<noteq> ''aldis_vars'') vars)"

definition getShellArgs ::
  "ExecEnv \<Rightarrow> 'a Executor_scheme \<Rightarrow> string \<Rightarrow> string option \<Rightarrow> (go_error + string list) option" where
  "getShellArgs x t username incomingVersion =
     (case getEnvironmentExtraVars x t username incomingVersion of
        None \<Rightarrow> None
      | Some (Inl err) \<Rightarrow> Some (Inl err)
      | Some (Inr extraVars) \<Rightarrow>
          (case getCLIArgs x t of
             Inl err \<Rightarrow> Some (Inl err)
           | Inr (templateArgs, taskArgs) \<Rightarrow>
               Some (Inr ([Template_Playbook (ex_Template t)] @ secretVars t @ templateArgs @
                          varAssignments x extraVars @ taskArgs))))"

subsection \<open>Terraform\<close>

definition withVar :: "string list \<Rightarrow> string list" where
  "withVar as = concat (map (\<lambda>a. [''-var'', a]) as)"

text \<open>The stages of the template, then those of the task appended to them.\<close>

definition mergeStages :: "stages \<Rightarrow> stages \<Rightarrow> stages" where
  "mergeStages tpl task =
     fold (\<lambda>(stage, as) m. AList.update stage ((case map_of m stage of Some old \<Rightarrow> old | None \<Rightarrow> []) @ as) m) task
       (fold (\<lambda>(stage, as) m. AList.update stage as m) tpl [])"

definition getTerraformArgs ::
  "ExecEnv \<Rightarrow> 'a Executor_scheme \<Rightarrow> string \<Rightarrow> string option \<Rightarrow> (go_error + stages) option" where
  "getTerraformArgs x t username incomingVersion =
     (case getEnvironmentExtraVars x t username incomingVersion of
        None \<Rightarrow> None
      | Some (Inl err) \<Rightarrow> Some (Inl err)
      | Some (Inr extraVars) \<Rightarrow>
          (case unmarshalStruct TerraformTaskParams (Task_Params (ex_Task t)) of
             Some err \<Rightarrow> Some (Inl err)
           | None \<Rightarrow>
               (let destroyArgs = (if boolField TerraformTaskParams ''destroy'' (Task_Params (ex_Task t))
                                   then [''-destroy''] else []);
                    varArgs = withVar (varAssignments x extraVars);
                    secretArgs = withVar (secretVars t)
                in case getCLIArgsMap x t of
                     Inl err \<Rightarrow> Some (Inl err)
                   | Inr (tplArgs, taskArgs) \<Rightarrow>
                       (let m = mergeStages tplArgs taskArgs;
                            m1 = (if m = [] then [(''default'', [])] else m)
                        in Some (Inr (map (\<lambda>(stage, as).
                             (stage, if stage = ''init'' then as
                                     else destroyArgs @ as @ varArgs @ secretArgs)) m1))))))"

subsection \<open>Repositories and their directories\<close>

definition path_Join :: "string list \<Rightarrow> string" where
  "path_Join elems =
     (let es = filter (\<lambda>e. e \<noteq> []) elems in if es = [] then [] else path_Clean (joinWith CHR ''/'' es))"

definition isDriveLetter :: "char \<Rightarrow> bool" where
  "isDriveLetter c \<longleftrightarrow> c \<in> set ''ABCDEFGHIJKLMNOPQRSTUVWXYZabcdefghijklmnopqrstuvwxyz''"

definition IsWindowsLocalRepositoryPath :: "string \<Rightarrow> bool" where
  "IsWindowsLocalRepositoryPath p =
     (if length p < 2 then False
      else if p ! 0 = CHR 0x5C \<and> p ! 1 = CHR 0x5C then length p > 2
      else if \<not> isDriveLetter (p ! 0) \<or> p ! 1 \<noteq> CHR '':'' then False
      else if length p = 2 then True
      else if p ! 2 \<noteq> CHR 0x5C \<and> p ! 2 \<noteq> CHR ''/'' then False
      else if length p > 3 \<and> p ! 2 = CHR ''/'' \<and> p ! 3 = CHR ''/'' then False
      else True)"

definition wordChar :: "char \<Rightarrow> bool" where
  "wordChar c \<longleftrightarrow> c \<in> set ''ABCDEFGHIJKLMNOPQRSTUVWXYZabcdefghijklmnopqrstuvwxyz0123456789_''"

abbreviation (input) RepositorySSH :: string where "RepositorySSH \<equiv> ''ssh''"
abbreviation (input) RepositoryHTTP :: string where "RepositoryHTTP \<equiv> ''https''"
abbreviation (input) RepositoryLocal :: string where "RepositoryLocal \<equiv> ''local''"

text \<open>The expression \<^verbatim>\<open>^(\w+)://\<close>.\<close>

definition urlProtocol :: "string \<Rightarrow> string option" where
  "urlProtocol url =
     (let w = takeWhile wordChar url
      in if w \<noteq> [] \<and> take 3 (drop (length w) url) = ''://'' then Some w else None)"

definition GetType :: "Repository \<Rightarrow> string" where
  "GetType r =
     (let url = Repository_GitURL r in
      if take 1 url = ''/'' then RepositoryLocal
      else if IsWindowsLocalRepositoryPath url then RepositoryLocal
      else case urlProtocol url of
             None \<Rightarrow> RepositorySSH
           | Some protocol \<Rightarrow> if protocol = ''http'' \<or> protocol = ''https'' then RepositoryHTTP else protocol)"

definition GetProjectTmpDir :: "ExecEnv \<Rightarrow> ident \<Rightarrow> string" where
  "GetProjectTmpDir x projectID = path_Join [x_TmpPath x, ''project_'' @ itoa projectID]"

definition getDirNamePrefix :: "Repository \<Rightarrow> string" where
  "getDirNamePrefix r = ''repository_'' @ itoa (Repository_ID r) @ ''_''"

definition GetDirName :: "Repository \<Rightarrow> ident \<Rightarrow> string" where
  "GetDirName r templateID = getDirNamePrefix r @ ''template_'' @ itoa templateID"

definition GetHomePath :: "ExecEnv \<Rightarrow> Repository \<Rightarrow> ident \<Rightarrow> string" where
  "GetHomePath x r templateID =
     path_Join [GetProjectTmpDir x (Repository_ProjectID r), GetDirName r templateID @ ''_home'']"

definition GetInternalPath :: "ExecEnv \<Rightarrow> Repository \<Rightarrow> ident \<Rightarrow> string" where
  "GetInternalPath x r templateID =
     path_Join [GetProjectTmpDir x (Repository_ProjectID r), GetDirName r templateID @ ''_internal'']"

text \<open>
  \<^verbatim>\<open>GetGitURL\<close>: with \<open>secure\<close> the credentials are left out. \<^const>\<open>None\<close> is the panic on a URL that is not of HTTP. On other
  systems than Windows \<^verbatim>\<open>NormalizeLocalFilesystemPath\<close> is the identity.
\<close>

definition urlAuth :: "AccessKey \<Rightarrow> string" where
  "urlAuth key =
     (if Key_Type key = ''login_password'' then
        (let lp = Key_LoginPassword key in
         if LP_Login lp = [] then LP_Password lp else LP_Login lp @ '':'' @ LP_Password lp)
      else [])"

definition GetGitURL :: "bool \<Rightarrow> Repository \<Rightarrow> string option" where
  "GetGitURL secure r =
     (let url = Repository_GitURL r in
      if GetType r = RepositoryLocal then Some url
      else if secure then Some url
      else if GetType r = RepositoryHTTP then
        (let auth = urlAuth (Repository_SSHKey r);
             auth' = (if auth \<noteq> [] then auth @ ''@'' else auth)
         in case urlProtocol url of
              Some protocol \<Rightarrow>
                if protocol = ''http'' \<or> protocol = ''https''
                then Some (protocol @ ''://'' @ auth' @ drop (length protocol + 3) url)
                else None
            | None \<Rightarrow> None)
      else Some url)"

definition GetFullPath :: "ExecEnv \<Rightarrow> Repository \<Rightarrow> ident \<Rightarrow> string" where
  "GetFullPath x r templateID =
     (if GetType r = RepositoryLocal then Repository_GitURL r
      else path_Join [GetProjectTmpDir x (Repository_ProjectID r), GetDirName r templateID])"

subsection \<open>Inventories\<close>

abbreviation (input) InventoryStatic :: string where "InventoryStatic \<equiv> ''static''"
abbreviation (input) InventoryStaticYaml :: string where "InventoryStaticYaml \<equiv> ''static-yaml''"
abbreviation (input) InventoryFile :: string where "InventoryFile \<equiv> ''file''"

definition IsStatic :: "string \<Rightarrow> bool" where
  "IsStatic ty \<longleftrightarrow> ty = InventoryStatic \<or> ty = InventoryStaticYaml"

definition GetFilename :: "Inventory \<Rightarrow> string" where
  "GetFilename v = (if Inventory_Type v \<noteq> InventoryFile then [] else Inventory_Inventory v)"

definition tmpInventoryFilename :: "'a Executor_scheme \<Rightarrow> string" where
  "tmpInventoryFilename t =
     (case Inventory_Repository (ex_Inventory t) of
        None \<Rightarrow> ''inventory_'' @ itoa (Inventory_ID (ex_Inventory t))
      | Some r \<Rightarrow> GetDirName r (Template_ID (ex_Template t)) @ ''_inventory_'' @ itoa (Inventory_ID (ex_Inventory t)))"

definition tmpInventoryFullPath :: "ExecEnv \<Rightarrow> 'a Executor_scheme \<Rightarrow> string" where
  "tmpInventoryFullPath x t =
     (let joined = path_Join [GetProjectTmpDir x (Template_ProjectID (ex_Template t)), tmpInventoryFilename t] @
                   (if Inventory_Type (ex_Inventory t) = InventoryStaticYaml then ''.yml'' else [])
      in case Inventory_Repository (ex_Inventory t) of
           Some r \<Rightarrow> if GetType r = RepositoryLocal then Repository_GitURL r else joined
         | None \<Rightarrow> joined)"

subsection \<open>Ansible playbooks\<close>

text \<open>The arguments and prompt answers for the user and the become user; they come from the installed keys.\<close>

definition userArgs :: "RunningExecutor \<Rightarrow> go_error + string list \<times> string option" where
  "userArgs t =
     (let key = Inventory_SSHKey (ex_Inventory t); inst = ex_sshKey t;
          user = (if Inst_Login inst \<noteq> [] then [''--user'', Inst_Login inst] else [])
      in if Inventory_SSHKeyID (ex_Inventory t) = None then Inr ([], None)
         else if Key_Type key = ''ssh'' then Inr (user, None)
         else if Key_Type key = ''login_password''
         then Inr (if Inst_Password inst \<noteq> [] then (user @ [''--ask-pass''], Some (Inst_Password inst)) else (user, None))
         else if Key_Type key = ''none'' then Inr ([], None)
         else Inl (ErrOther ''access key does not suite for inventory's user credentials''))"

definition becomeArgs :: "RunningExecutor \<Rightarrow> go_error + string list \<times> string option" where
  "becomeArgs t =
     (let key = Inventory_BecomeKey (ex_Inventory t); inst = ex_becomeKey t;
          user = (if Inst_Login inst \<noteq> [] then [''--become-user'', Inst_Login inst] else [])
      in if Inventory_BecomeKeyID (ex_Inventory t) = None then Inr ([], None)
         else if Key_Type key = ''login_password''
         then Inr (if Inst_Password inst \<noteq> [] then (user @ [''--ask-become-pass''], Some (Inst_Password inst)) else (user, None))
         else if Key_Type key = ''none'' then Inr ([], None)
         else Inl (ErrOther ''access key does not suite for inventory's sudo user credentials''))"

definition inventoryFilename :: "ExecEnv \<Rightarrow> 'a Executor_scheme \<Rightarrow> string option" where
  "inventoryFilename x t =
     (let v = ex_Inventory t in
      if Inventory_Type v = InventoryFile
      then Some (if Inventory_RepositoryID v = None then GetFilename v
                 else path_Join [tmpInventoryFullPath x t, GetFilename v])
      else if IsStatic (Inventory_Type v) then Some (tmpInventoryFullPath x t)
      else None)"

definition debugArgs :: "Template \<Rightarrow> Task \<Rightarrow> string list" where
  "debugArgs tpl task =
     (if boolField AnsibleTemplateParams ''allow_debug'' (Template_TaskParams tpl) \<and>
         boolField AnsibleTaskParams ''debug'' (Task_Params task)
      then (let level = intField AnsibleTaskParams ''debug_level'' (Task_Params task);
                l1 = (if level < 1 then 4 else level);
                l2 = (if l1 > 6 then 6 else l1)
            in [CHR ''-'' # replicate (nat l2) CHR ''v''])
      else [])"

text \<open>A list option of the template, which the task replaces if the template allows it.\<close>

definition overridden :: "string \<Rightarrow> string \<Rightarrow> Template \<Rightarrow> Task \<Rightarrow> string" where
  "overridden name allow tpl task =
     (let fromTpl = joinWith CHR '','' (case stringsField AnsibleTemplateParams name (Template_TaskParams tpl) of
                                          Some l \<Rightarrow> l | None \<Rightarrow> [])
      in if boolField AnsibleTemplateParams allow (Template_TaskParams tpl)
         then (case stringsField AnsibleTaskParams name (Task_Params task) of
                 Some l \<Rightarrow> joinWith CHR '','' l
               | None \<Rightarrow> fromTpl)
         else fromTpl)"

definition optionArg :: "string \<Rightarrow> string \<Rightarrow> string list" where
  "optionArg opt val = (if val \<noteq> [] then [opt @ val] else [])"

definition vaultArgs :: "(string \<times> AccessKeyInstallation) list \<Rightarrow> string list" where
  "vaultArgs installs =
     concat (map (\<lambda>(name, inst).
        (if Inst_Password inst \<noteq> [] then [''--vault-id='' @ name @ ''@prompt''] else []) @
        (if Inst_Script inst \<noteq> [] then [''--vault-id='' @ name @ ''@'' @ Inst_Script inst] else [])) installs)"

definition vaultInputs :: "(string \<times> AccessKeyInstallation) list \<Rightarrow> (string \<times> string) list" where
  "vaultInputs installs =
     map (\<lambda>(name, inst). (''Vault password ('' @ name @ ''):'', Inst_Password inst))
       (filter (\<lambda>(_, inst). Inst_Password inst \<noteq> []) installs)"

text \<open>
  If the extra variables cannot be computed, they are left out and the error is only logged.
\<close>

definition getPlaybookArgs ::
  "ExecEnv \<Rightarrow> RunningExecutor \<Rightarrow> string \<Rightarrow> string option \<Rightarrow>
     (go_error + string list \<times> (string \<times> string) list) option" where
  "getPlaybookArgs x t username incomingVersion =
     (let tpl = ex_Template t; task = ex_Task t;
          playbookName = (if Task_Playbook task = [] then Template_Playbook tpl else Task_Playbook task)
      in case inventoryFilename x t of
        None \<Rightarrow> Some (Inl (ErrOther ''invalid inventory type''))
      | Some inventory \<Rightarrow>
         (case userArgs t of
            Inl err \<Rightarrow> Some (Inl err)
          | Inr (uArgs, uInput) \<Rightarrow>
             (case becomeArgs t of
                Inl err \<Rightarrow> Some (Inl err)
              | Inr (bArgs, bInput) \<Rightarrow>
                 (case unmarshalStruct AnsibleTemplateParams (Template_TaskParams tpl) of
                    Some err \<Rightarrow> Some (Inl err)
                  | None \<Rightarrow>
                     (case unmarshalStruct AnsibleTaskParams (Task_Params task) of
                        Some err \<Rightarrow> Some (Inl err)
                      | None \<Rightarrow>
                         (case getEnvironmentExtraVarsJSON x t username incomingVersion of
                            None \<Rightarrow> None
                          | Some extra \<Rightarrow>
                             (case getCLIArgs x t of
                                Inl err \<Rightarrow> Some (Inl err)
                              | Inr (templateArgs, taskArgs) \<Rightarrow>
                                  Some (Inr
                                    ([''-i'', inventory] @ uArgs @ bArgs @ debugArgs tpl task @
                                     (if boolField AnsibleTaskParams ''diff'' (Task_Params task) then [''--diff''] else []) @
                                     (if boolField AnsibleTaskParams ''dry_run'' (Task_Params task) then [''--check''] else []) @
                                     vaultArgs (ex_vaultFiles t) @
                                     (case extra of
                                        Inl _ \<Rightarrow> []
                                      | Inr json \<Rightarrow> if json \<noteq> [] then [''--extra-vars'', json] else []) @
                                     concat (map (\<lambda>a. [''--extra-vars'', a]) (secretVars t)) @
                                     templateArgs @
                                     optionArg ''--limit='' (overridden ''limit'' ''allow_override_limit'' tpl task) @
                                     optionArg ''--tags='' (overridden ''tags'' ''allow_override_tags'' tpl task) @
                                     optionArg ''--skip-tags='' (overridden ''skip_tags'' ''allow_override_skip_tags'' tpl task) @
                                     taskArgs @ [playbookName],
                                     vaultInputs (ex_vaultFiles t) @
                                     (case uInput of None \<Rightarrow> [] | Some p \<Rightarrow> [(''SSH password:'', p)]) @
                                     (case bInput of None \<Rightarrow> []
                                                   | Some p \<Rightarrow> [(''BECOME password'', p), (''SUDO password'', p)]))))))))))"

subsection \<open>The branch of a run\<close>

definition resolveGitBranch :: "string \<Rightarrow> Template \<Rightarrow> Task \<Rightarrow> string" where
  "resolveGitBranch repoBranch template task =
     (let b1 = (case Template_GitBranch template of Some b \<Rightarrow> if b \<noteq> [] then b else repoBranch | None \<Rightarrow> repoBranch)
      in if Template_AllowOverrideBranchInTask template
         then (case Task_GitBranch task of Some b \<Rightarrow> if b \<noteq> [] then b else b1 | None \<Rightarrow> b1)
         else b1)"

end
