(* ===== verification/Job_Pool.thy ===== *)
theory Job_Pool
  imports Runner_Api Executor_Args
begin

text \<open>
  The runner process, \<^verbatim>\<open>services/runners\<close>: the job pool that polls the server, runs the jobs it is given and
  reports their progress (\<^verbatim>\<open>job_pool.go\<close>, \<^verbatim>\<open>running_job.go\<close>), and the factory of executors
  (\<^verbatim>\<open>executor_factory.go\<close>, \<^verbatim>\<open>local_executor_provider.go\<close>). A \<^verbatim>\<open>*runningJob\<close> is held by the map of
  running jobs and by the goroutine that runs it, which may outlive the map entry; the objects live in a
  heap and the map holds addresses. The order of a Go map is that of the list that stands for it, so a
  statement about every pool covers every order of iteration.
\<close>

subsection \<open>Objects\<close>

type_synonym jref = nat

type_synonym ExecutorProvider =
  "Task \<Rightarrow> Template \<Rightarrow> Inventory \<Rightarrow> Repository \<Rightarrow> Environment \<Rightarrow> string \<Rightarrow> go_error + Executor"

record runningJob =
  rj_status :: TaskStatus
  rj_logRecords :: "LogRecord list"
  rj_taskID :: ident
  rj_job :: Executor
  rj_commit :: "CommitInfo option"
  rj_statusListeners :: "nat list"
  rj_logListeners :: "nat list"

record job =
  job_username :: string
  job_incomingVersion :: "string option"
  job_alias :: string
  job_job :: Executor
  job_taskID :: ident
  job_status :: TaskStatus

datatype runner_effect =
    KillJob ident
  | JobStatusCallback nat TaskStatus
  | JobLogCallback nat go_time string
  | ClearTmpDir
  | ClearProjectTmpDir ident
  | ExitProcess

record JobPool =
  jobs :: "jref \<Rightarrow> runningJob"
  nextJob :: jref
  runningJobs :: "(ident \<times> jref) list"
  jobQueue :: "job list"
  provider :: "ExecutorProvider option"
  startedAt :: go_time
  clock :: go_time
  goroutines :: "(jref \<times> job) list"
  effects :: "runner_effect list"

record RunnerConfig =
  cfg_Token :: string
  cfg_OneOff :: bool
  cfg_Executor :: "string option"

subsection \<open>The map of running jobs and the queue\<close>

definition modJob :: "jref \<Rightarrow> (runningJob \<Rightarrow> runningJob) \<Rightarrow> JobPool \<Rightarrow> JobPool" where
  "modJob j f p = p\<lparr>jobs := (jobs p)(j := f (jobs p j))\<rparr>"

definition perform :: "runner_effect list \<Rightarrow> JobPool \<Rightarrow> JobPool" where
  "perform es p = p\<lparr>effects := effects p @ es\<rparr>"

definition addRunningJob :: "ident \<Rightarrow> jref \<Rightarrow> JobPool \<Rightarrow> JobPool" where
  "addRunningJob i j p = p\<lparr>runningJobs := AList.update i j (runningJobs p)\<rparr>"

definition getRunningJob :: "ident \<Rightarrow> JobPool \<Rightarrow> jref option" where
  "getRunningJob i p = map_of (runningJobs p) i"

definition deleteRunningJob :: "ident \<Rightarrow> JobPool \<Rightarrow> JobPool" where
  "deleteRunningJob i p = p\<lparr>runningJobs := AList.delete i (runningJobs p)\<rparr>"

definition snapshotRunningJobs :: "JobPool \<Rightarrow> (ident \<times> jref) list" where
  "snapshotRunningJobs p = runningJobs p"

definition runningJobsCount :: "JobPool \<Rightarrow> nat" where
  "runningJobsCount p = length (runningJobs p)"

definition resetRunningJobs :: "JobPool \<Rightarrow> JobPool" where
  "resetRunningJobs p = p\<lparr>runningJobs := []\<rparr>"

definition enqueue :: "job \<Rightarrow> JobPool \<Rightarrow> JobPool" where
  "enqueue j p = p\<lparr>jobQueue := jobQueue p @ [j]\<rparr>"

definition dequeue :: "JobPool \<Rightarrow> (job \<times> JobPool) option" where
  "dequeue p = (case jobQueue p of [] \<Rightarrow> None | t # rest \<Rightarrow> Some (t, p\<lparr>jobQueue := rest\<rparr>))"

definition queueLen :: "JobPool \<Rightarrow> nat" where
  "queueLen p = length (jobQueue p)"

definition existsInQueue :: "ident \<Rightarrow> JobPool \<Rightarrow> bool" where
  "existsInQueue i p \<longleftrightarrow> (\<exists>j\<in>set (jobQueue p). job_taskID j = i)"

definition hasRunningJobs :: "JobPool \<Rightarrow> bool" where
  "hasRunningJobs p \<longleftrightarrow> (\<exists>(i, j)\<in>set (snapshotRunningJobs p). \<not> IsFinished (rj_status (jobs p j)))"

subsection \<open>A running job\<close>

definition runningJob_LogWithTime :: "jref \<Rightarrow> go_time \<Rightarrow> string \<Rightarrow> JobPool \<Rightarrow> JobPool" where
  "runningJob_LogWithTime j at msg p =
     perform (map (\<lambda>l. JobLogCallback l at msg) (rj_logListeners (jobs p j)))
       (modJob j (\<lambda>x. x\<lparr>rj_logRecords := rj_logRecords x @
                          [\<lparr>LogRecord_Time = at, LogRecord_Message = msg\<rparr>]\<rparr>) p)"

definition runningJob_Log :: "jref \<Rightarrow> string \<Rightarrow> JobPool \<Rightarrow> JobPool" where
  "runningJob_Log j msg p = runningJob_LogWithTime j (clock p) msg p"

definition runningJob_SetCommit :: "jref \<Rightarrow> string \<Rightarrow> string \<Rightarrow> JobPool \<Rightarrow> JobPool" where
  "runningJob_SetCommit j hash message =
     modJob j (\<lambda>x. x\<lparr>rj_commit := Some \<lparr>Commit_Hash = hash, Commit_Message = message\<rparr>\<rparr>)"

text \<open>
  The executor forwards the status to its logger, which is the same running job and returns at the
  first test.
\<close>

definition runningJob_SetStatus :: "jref \<Rightarrow> TaskStatus \<Rightarrow> JobPool \<Rightarrow> JobPool" where
  "runningJob_SetStatus j status p =
     (if rj_status (jobs p j) = status then p
      else perform (map (\<lambda>l. JobStatusCallback l status) (rj_statusListeners (jobs p j)))
             (modJob j (\<lambda>x. x\<lparr>rj_status := status\<rparr>) p))"

definition getStatus :: "jref \<Rightarrow> JobPool \<Rightarrow> TaskStatus" where
  "getStatus j p = rj_status (jobs p j)"

definition getProgress :: "jref \<Rightarrow> JobPool \<Rightarrow> TaskStatus \<times> LogRecord list \<times> CommitInfo option" where
  "getProgress j p = (rj_status (jobs p j), rj_logRecords (jobs p j), rj_commit (jobs p j))"

definition ackLogRecords :: "jref \<Rightarrow> nat \<Rightarrow> JobPool \<Rightarrow> JobPool" where
  "ackLogRecords j sent =
     modJob j (\<lambda>x. x\<lparr>rj_logRecords :=
                 (if sent \<le> length (rj_logRecords x) then drop sent (rj_logRecords x) else [])\<rparr>)"

definition Executor_Kill :: "jref \<Rightarrow> JobPool \<Rightarrow> JobPool" where
  "Executor_Kill j p =
     perform [KillJob (rj_taskID (jobs p j))]
       (modJob j (\<lambda>x. x\<lparr>rj_job := (rj_job x)\<lparr>ex_killed := True\<rparr>\<rparr>) p)"

text \<open>
  \<^verbatim>\<open>SetLogger\<close> of the executor hands the running job to its application: those other than Ansible register a
  status listener (number 0).
\<close>

definition Executor_SetLogger :: "Executor \<Rightarrow> runningJob \<Rightarrow> runningJob" where
  "Executor_SetLogger ex x =
     (if Template_App (ex_Template ex) = AppAnsible then x
      else x\<lparr>rj_statusListeners := rj_statusListeners x @ [0]\<rparr>)"

subsection \<open>Executors\<close>

definition LocalExecutorProvider_NewExecutor :: ExecutorProvider where
  "LocalExecutorProvider_NewExecutor task tpl inventory repo environment jwt =
     Inr \<lparr>ex_Task = task, ex_Template = tpl, ex_Inventory = inventory, ex_Repository = repo,
          ex_Environment = environment, ex_Secret = Task_Secret task, ex_JWT = jwt, ex_killed = False\<rparr>"

definition resolveExecutorType :: "string option \<Rightarrow> string" where
  "resolveExecutorType cfg =
     (case cfg of None \<Rightarrow> ''local'' | Some t \<Rightarrow> if t = [] then ''local'' else t)"

text \<open>The providers for Kubernetes and Docker are stubs in this build that always fail.\<close>

definition newExecutorProvider :: "string option \<Rightarrow> go_error + ExecutorProvider" where
  "newExecutorProvider cfg =
     (let t = resolveExecutorType cfg in
      if t = ''local'' then Inr LocalExecutorProvider_NewExecutor
      else if t = ''k8s'' then Inl (ErrOther ''k8s executor is only available in the proprietary build'')
      else if t = ''docker'' then Inl (ErrOther ''docker executor is only available in the proprietary build'')
      else Inl (ErrOther (''unknown runner executor type '' @ [CHR 0x22] @ t @ [CHR 0x22])))"

definition keyOf :: "AccessKeyMap \<Rightarrow> ident \<Rightarrow> AccessKey" where
  "keyOf keys i = (case map_of keys i of Some k \<Rightarrow> k | None \<Rightarrow> zeroAccessKey)"

definition hydrateVault :: "AccessKeyMap \<Rightarrow> TemplateVault \<Rightarrow> TemplateVault" where
  "hydrateVault keys v =
     (case TVault_VaultKeyID v of None \<Rightarrow> v | Some i \<Rightarrow> v\<lparr>TVault_Vault := Some (keyOf keys i)\<rparr>)"

definition hydrateInventory :: "AccessKeyMap \<Rightarrow> Inventory \<Rightarrow> Inventory" where
  "hydrateInventory keys v =
     (let v1 = (case Inventory_SSHKeyID v of
                  None \<Rightarrow> v | Some i \<Rightarrow> v\<lparr>Inventory_SSHKey := keyOf keys i\<rparr>);
          v2 = (case Inventory_BecomeKeyID v1 of
                  None \<Rightarrow> v1 | Some i \<Rightarrow> v1\<lparr>Inventory_BecomeKey := keyOf keys i\<rparr>)
      in case (Inventory_RepositoryID v2, Inventory_Repository v2) of
           (Some _, Some repo) \<Rightarrow>
             v2\<lparr>Inventory_Repository := Some (repo\<lparr>Repository_SSHKey := keyOf keys (Repository_SSHKeyID repo)\<rparr>)\<rparr>
         | _ \<Rightarrow> v2)"

definition hydrateJobAccessKeys :: "AccessKeyMap \<Rightarrow> JobData \<Rightarrow> JobData" where
  "hydrateJobAccessKeys keys d =
     d\<lparr>Job_Repository := (Job_Repository d)\<lparr>Repository_SSHKey := keyOf keys (Repository_SSHKeyID (Job_Repository d))\<rparr>,
       Job_Inventory := hydrateInventory keys (Job_Inventory d),
       Job_Template := (Job_Template d)\<lparr>Template_Vaults := map (hydrateVault keys) (Template_Vaults (Job_Template d))\<rparr>\<rparr>"

definition newExecutor :: "JobData \<Rightarrow> AccessKeyMap \<Rightarrow> ExecutorProvider option \<Rightarrow> go_error + Executor" where
  "newExecutor d keys prov =
     (case prov of
        None \<Rightarrow> Inl (ErrOther ''executor provider is not initialised (check runner executor config)'')
      | Some f \<Rightarrow>
          (let h = hydrateJobAccessKeys keys d
           in f (Job_Task h) (Job_Template h) (Job_Inventory h) (Job_Repository h) (Job_Environment h) (Job_JWT h)))"

subsection \<open>The life of a pool\<close>

definition NewJobPool :: "RunnerConfig \<Rightarrow> (jref \<Rightarrow> runningJob) \<Rightarrow> go_time \<Rightarrow> JobPool" where
  "NewJobPool cfg fresh at =
     \<lparr>jobs = fresh, nextJob = 0, runningJobs = [], jobQueue = [],
      provider = (case newExecutorProvider (cfg_Executor cfg) of Inl _ \<Rightarrow> None | Inr f \<Rightarrow> Some f),
      startedAt = at, clock = at, goroutines = [], effects = []\<rparr>"

text \<open>
  The queue tick of \<^verbatim>\<open>Run\<close> takes a job off the queue (\<open>dequeue\<close>) and enters it into the map of running jobs
  (\<open>startJob\<close>) under two separate holds of the lock. The goroutine of the job is recorded.
\<close>

definition startJob :: "job \<Rightarrow> JobPool \<Rightarrow> JobPool" where
  "startJob t p =
     (if job_status t = TaskFailStatus then p
      else let j = nextJob p;
               rj = \<lparr>rj_status = TaskStartingStatus, rj_logRecords = [], rj_taskID = job_taskID t,
                     rj_job = job_job t, rj_commit = None, rj_statusListeners = [], rj_logListeners = []\<rparr>;
               p1 = p\<lparr>jobs := (jobs p)(j := Executor_SetLogger (job_job t) rj), nextJob := Suc j\<rparr>
           in (addRunningJob (job_taskID t) j p1)\<lparr>goroutines := goroutines p @ [(j, t)]\<rparr>)"

text \<open>The goroutine: before the executor runs, and after it returned.\<close>

definition jobGoroutineStart :: "jref \<Rightarrow> JobPool \<Rightarrow> JobPool" where
  "jobGoroutineStart j = runningJob_SetStatus j TaskRunningStatus"

definition jobGoroutineEnd :: "jref \<Rightarrow> go_error option \<Rightarrow> JobPool \<Rightarrow> JobPool" where
  "jobGoroutineEnd j err p =
     (case err of
        Some _ \<Rightarrow>
          (let p1 = runningJob_Log j ''Unable to launch the application. Please contact your system administrator for assistance.'' p
           in runningJob_SetStatus j
                (if getStatus j p1 = TaskStoppingStatus then TaskStoppedStatus else TaskFailStatus) p1)
      | None \<Rightarrow>
          if IsFinished (getStatus j p) then p
          else runningJob_SetStatus j
                 (if getStatus j p = TaskStoppingStatus then TaskStoppedStatus else TaskSuccessStatus) p)"

subsection \<open>Reporting progress\<close>

definition progressOf :: "JobPool \<Rightarrow> ident \<times> jref \<Rightarrow> JobProgress" where
  "progressOf p e =
     (let (i, j) = e; (status, records, commit) = getProgress j p in
      \<lparr>Progress_ID = i, Progress_Status = status, Progress_LogRecords = records, Progress_Commit = commit\<rparr>)"

text \<open>The body of the report; a nil slice when there are no running jobs.\<close>

definition progressBody :: "JobPool \<Rightarrow> JobProgress list option" where
  "progressBody p =
     (case snapshotRunningJobs p of [] \<Rightarrow> None | es \<Rightarrow> Some (map (progressOf p) es))"

definition acknowledge :: "JobProgress \<Rightarrow> JobPool \<Rightarrow> JobPool" where
  "acknowledge jp p =
     (case getRunningJob (Progress_ID jp) p of
        None \<Rightarrow> p
      | Some j \<Rightarrow>
          (let sent = length (Progress_LogRecords jp);
               p1 = (if sent > 0 then ackLogRecords j sent p else p)
           in if IsFinished (Progress_Status jp) then deleteRunningJob (Progress_ID jp) p1 else p1))"

definition terminateJob :: "ident \<Rightarrow> JobPool \<Rightarrow> JobPool" where
  "terminateJob i p =
     (case getRunningJob i p of
        None \<Rightarrow> p
      | Some j \<Rightarrow>
          (let p1 = (if \<not> IsFinished (getStatus j p)
                     then runningJob_SetStatus j TaskStoppedStatus (Executor_Kill j p) else p)
           in deleteRunningJob i p1))"

definition applyTerminatedJobs :: "ident list \<Rightarrow> JobPool \<Rightarrow> JobPool" where
  "applyTerminatedJobs = fold terminateJob"

text \<open>
  \<^verbatim>\<open>sendProgress\<close> after the answer arrived; \<^const>\<open>None\<close> is a transport error. Every error answer has a code
  of 400 or more.
\<close>

definition progressReply ::
  "ident list http option \<Rightarrow> JobProgress list option \<Rightarrow> JobPool \<Rightarrow> bool \<times> JobPool" where
  "progressReply reply body p =
     (let acked = (case body of None \<Rightarrow> p | Some jps \<Rightarrow> fold acknowledge jps p) in
      case reply of
        None \<Rightarrow> (False, p)
      | Some (HttpError _ _) \<Rightarrow> (False, p)
      | Some NoContent \<Rightarrow> (True, applyTerminatedJobs [] acked)
      | Some (OkJSON terminated) \<Rightarrow> (True, applyTerminatedJobs terminated acked))"

text \<open>\<open>meanwhile\<close> is what the goroutines of the jobs do while the request is on its way.\<close>

definition sendProgress ::
  "(JobProgress list option \<Rightarrow> ident list http option) \<Rightarrow> (JobPool \<Rightarrow> JobPool) \<Rightarrow> JobPool \<Rightarrow> bool \<times> JobPool" where
  "sendProgress server meanwhile p =
     (let body = progressBody p in progressReply (server body) body (meanwhile p))"

definition oneOffExit :: "RunnerConfig \<Rightarrow> bool \<Rightarrow> JobPool \<Rightarrow> bool" where
  "oneOffExit cfg ok p \<longleftrightarrow> cfg_OneOff cfg \<and> ok \<and> runningJobsCount p > 0 \<and> \<not> hasRunningJobs p"

subsection \<open>Polling for jobs\<close>

fun keepsOwnStatus :: "TaskStatus \<Rightarrow> TaskStatus \<Rightarrow> bool" where
  "keepsOwnStatus TaskRunningStatus s =
     (s = TaskStartingStatus \<or> s = TaskWaitingStatus \<or> s = TaskConfirmed)"
| "keepsOwnStatus TaskStoppingStatus s = (\<not> IsFinished s)"
| "keepsOwnStatus TaskConfirmed s = (s = TaskWaitingConfirmation)"
| "keepsOwnStatus TaskWaitingConfirmation s = (s = TaskRunningStatus)"
| "keepsOwnStatus _ s = False"

definition syncJob :: "(ident \<times> jref) list \<Rightarrow> JobState \<Rightarrow> JobPool \<Rightarrow> JobPool" where
  "syncJob snapshot currJob p =
     (case map_of snapshot (JobState_ID currJob) of
        None \<Rightarrow> p
      | Some j \<Rightarrow>
          (let status = getStatus j p;
               p1 = (if status = TaskStoppingStatus \<or> status = TaskStoppedStatus then Executor_Kill j p else p)
           in if IsFinished status then p1
              else if keepsOwnStatus status (JobState_Status currJob) then p1
              else runningJob_SetStatus j (JobState_Status currJob) p1))"

text \<open>A job that is neither running nor queued is admitted: it enters the queue if its executor can be built.\<close>

definition admitJob :: "AccessKeyMap \<Rightarrow> JobData \<Rightarrow> JobPool \<Rightarrow> JobPool" where
  "admitJob keys newJob p =
     (let d = newJob\<lparr>Job_Inventory := (Job_Inventory newJob)\<lparr>Inventory_Repository := Job_InventoryRepository newJob\<rparr>\<rparr>
      in case newExecutor d keys (provider p) of
           Inl _ \<Rightarrow> p
         | Inr ex \<Rightarrow>
             enqueue \<lparr>job_username = Job_Username newJob, job_incomingVersion = Job_IncomingVersion newJob,
                      job_alias = Job_Alias newJob, job_job = ex, job_taskID = Task_ID (Job_Task newJob),
                      job_status = Task_Status (Job_Task newJob)\<rparr> p)"

definition acceptNewJob :: "AccessKeyMap \<Rightarrow> JobData \<Rightarrow> JobPool \<Rightarrow> JobPool" where
  "acceptNewJob keys newJob p =
     (let i = Task_ID (Job_Task newJob) in
      if getRunningJob i p \<noteq> None then p
      else if existsInQueue i p then p
      else admitJob keys newJob p)"

definition clearCache :: "RunnerState \<Rightarrow> JobPool \<Rightarrow> JobPool" where
  "clearCache resp p =
     (if ClearCache resp
      then perform [case CacheCleanProjectID resp of None \<Rightarrow> ClearTmpDir | Some i \<Rightarrow> ClearProjectTmpDir i] p
      else p)"

text \<open>The answer is decoded; \<^const>\<open>None\<close> is a transport error, and an empty body does not parse.\<close>

definition checkNewJobs :: "RunnerConfig \<Rightarrow> RunnerState http option \<Rightarrow> JobPool \<Rightarrow> JobPool" where
  "checkNewJobs cfg reply p =
     (if cfg_Token cfg = [] then p
      else case reply of
        Some (OkJSON resp) \<Rightarrow>
          (let p1 = clearCache resp p;
               p2 = fold (syncJob (snapshotRunningJobs p1)) (CurrentJobs resp) p1
           in if cfg_OneOff cfg \<and> (queueLen p2 > 0 \<or> runningJobsCount p2 > 0) then p2
              else fold (acceptNewJob (AccessKeys resp)) (NewJobs resp) p2)
      | _ \<Rightarrow> p)"

subsection \<open>The wire\<close>

text \<open>
  What JSON keeps of the values of an answer: the fields that are tagged \<^verbatim>\<open>json:"-"\<close> arrive with their zero
  value. (Texts are valid UTF-8, which JSON keeps.)
\<close>

definition json_AccessKey :: "AccessKey \<Rightarrow> AccessKey" where
  "json_AccessKey k =
     k\<lparr>Key_Secret := None, Key_StorageID := None, Key_EnvironmentID := None, Key_UserID := None,
       Key_TaskID := None, Key_ExpireAt := None\<rparr>"

definition json_Repository :: "Repository \<Rightarrow> Repository" where
  "json_Repository r = r\<lparr>Repository_SSHKey := zeroAccessKey\<rparr>"

definition json_Inventory :: "Inventory \<Rightarrow> Inventory" where
  "json_Inventory i =
     i\<lparr>Inventory_SSHKey := zeroAccessKey, Inventory_BecomeKey := zeroAccessKey, Inventory_Repository := None\<rparr>"

definition json_Template :: "Template \<Rightarrow> Template" where
  "json_Template t = t\<lparr>Template_Vaults := map (\<lambda>v. v\<lparr>TVault_Vault := None\<rparr>) (Template_Vaults t)\<rparr>"

definition json_JobData :: "JobData \<Rightarrow> JobData" where
  "json_JobData d =
     d\<lparr>Job_Task := (Job_Task d)\<lparr>Task_RunnerID := None\<rparr>, Job_Template := json_Template (Job_Template d),
       Job_Inventory := json_Inventory (Job_Inventory d),
       Job_InventoryRepository := map_option json_Repository (Job_InventoryRepository d),
       Job_Repository := json_Repository (Job_Repository d)\<rparr>"

definition json_RunnerState :: "RunnerState \<Rightarrow> RunnerState" where
  "json_RunnerState s =
     s\<lparr>NewJobs := map json_JobData (NewJobs s),
       AccessKeys := map (\<lambda>(i, k). (i, json_AccessKey k)) (AccessKeys s)\<rparr>"

subsection \<open>Unregistering\<close>

text \<open>
  \<^verbatim>\<open>Unregister\<close>: the request is built without the common headers, so the server sees an empty token. The
  result is the error, if any, and the server's world (\<^const>\<open>None\<close>: the handler panicked).
\<close>

definition unregisterError :: "unit http \<Rightarrow> go_error option" where
  "unregisterError reply =
     (case reply of
        HttpError code _ \<Rightarrow>
          if code \<ge> 400 \<and> code \<noteq> 404
          then Some (ErrOther (''encountered error while unregistering runner; server returned code '' @ itoa code))
          else None
      | _ \<Rightarrow> None)"

definition Unregister :: "RunnerConfig \<Rightarrow> World \<Rightarrow> (go_error option \<times> World) option" where
  "Unregister cfg w =
     (if cfg_Token cfg = [] then Some (Some (ErrOther ''runner is not registered''), w)
      else map_option (\<lambda>(reply, w1). (unregisterError reply, w1)) (RunnerMiddleware [] api_UnregisterRunner w))"

end
