(* ===== verification/Job_Pool_Properties.thy ===== *)
theory Job_Pool_Properties
  imports Job_Pool Sample
begin

text \<open>
  Facts about the operations of the runner process on its pool: what each of them changes, what a report to the
  server acknowledges, and that a poll never revives a finished job.
\<close>

subsection \<open>Frames\<close>

lemma modJob_frame [simp]:
  "jobs (modJob j f p) = (jobs p)(j := f (jobs p j))" "nextJob (modJob j f p) = nextJob p"
  "runningJobs (modJob j f p) = runningJobs p" "jobQueue (modJob j f p) = jobQueue p"
  "provider (modJob j f p) = provider p" "goroutines (modJob j f p) = goroutines p"
  "clock (modJob j f p) = clock p" "effects (modJob j f p) = effects p"
  by (simp_all add: modJob_def)

lemma perform_frame [simp]:
  "jobs (perform es p) = jobs p" "nextJob (perform es p) = nextJob p"
  "runningJobs (perform es p) = runningJobs p" "jobQueue (perform es p) = jobQueue p"
  "provider (perform es p) = provider p" "goroutines (perform es p) = goroutines p"
  "clock (perform es p) = clock p"
  by (simp_all add: perform_def)

text \<open>What a running job does to the pool: only its own object changes.\<close>

definition onlyJob :: "jref \<Rightarrow> JobPool \<Rightarrow> JobPool \<Rightarrow> bool" where
  "onlyJob j p p' \<longleftrightarrow>
     runningJobs p' = runningJobs p \<and> jobQueue p' = jobQueue p \<and> nextJob p' = nextJob p \<and>
     goroutines p' = goroutines p \<and> provider p' = provider p \<and>
     (\<forall>k. k \<noteq> j \<longrightarrow> jobs p' k = jobs p k) \<and> rj_taskID (jobs p' j) = rj_taskID (jobs p j)"

lemma onlyJob_refl [simp]: "onlyJob j p p"
  by (simp add: onlyJob_def)

lemma onlyJob_trans: "onlyJob j p q \<Longrightarrow> onlyJob j q r \<Longrightarrow> onlyJob j p r"
  by (simp add: onlyJob_def)

lemma onlyJob_intros [intro, simp]:
  "onlyJob j p (runningJob_LogWithTime j at msg p)" "onlyJob j p (runningJob_Log j msg p)"
  "onlyJob j p (runningJob_SetCommit j h m p)" "onlyJob j p (runningJob_SetStatus j s p)"
  "onlyJob j p (ackLogRecords j n p)" "onlyJob j p (Executor_Kill j p)"
  by (simp_all add: onlyJob_def runningJob_LogWithTime_def runningJob_Log_def runningJob_SetCommit_def
      runningJob_SetStatus_def ackLogRecords_def Executor_Kill_def)

lemma onlyJob_end [intro, simp]: "onlyJob j p (jobGoroutineEnd j err p)"
proof (cases err)
  case (Some e)
  then show ?thesis by (auto simp: jobGoroutineEnd_def Let_def intro: onlyJob_trans [OF onlyJob_intros(2)])
qed (simp add: jobGoroutineEnd_def)

subsection \<open>The invariant of the runner\<close>

text \<open>
  The queue and the map hold different tasks, each once; the map is keyed by the IDs of its jobs, and its
  jobs are different allocated objects.
\<close>

definition jobPool_inv :: "JobPool \<Rightarrow> bool" where
  "jobPool_inv p \<longleftrightarrow>
     distinct (map job_taskID (jobQueue p) @ map fst (runningJobs p)) \<and>
     distinct (map snd (runningJobs p)) \<and>
     (\<forall>(i, j)\<in>set (runningJobs p). j < nextJob p \<and> rj_taskID (jobs p j) = i)"

lemma jobPool_inv_onlyJob: "jobPool_inv p \<Longrightarrow> onlyJob j p p' \<Longrightarrow> jobPool_inv p'"
  unfolding jobPool_inv_def onlyJob_def by (simp add: split_beta) metis

lemma jobPool_invI:
  assumes "distinct (map job_taskID (jobQueue p))" "distinct (map fst (runningJobs p))"
    "\<And>t. t \<in> set (jobQueue p) \<Longrightarrow> job_taskID t \<notin> fst ` set (runningJobs p)"
    "distinct (map snd (runningJobs p))"
    "\<And>i j. (i, j) \<in> set (runningJobs p) \<Longrightarrow> j < nextJob p \<and> rj_taskID (jobs p j) = i"
  shows "jobPool_inv p"
  unfolding jobPool_inv_def using assms by auto

lemma jobPool_invD:
  assumes "jobPool_inv p"
  shows "distinct (map job_taskID (jobQueue p))" "distinct (map fst (runningJobs p))"
    "t \<in> set (jobQueue p) \<Longrightarrow> job_taskID t \<notin> fst ` set (runningJobs p)"
    "distinct (map snd (runningJobs p))"
    "(i, j) \<in> set (runningJobs p) \<Longrightarrow> j < nextJob p \<and> rj_taskID (jobs p j) = i"
  using assms unfolding jobPool_inv_def by auto

lemma jobPool_inv_delete:
  assumes "jobPool_inv p" shows "jobPool_inv (deleteRunningJob i p)"
proof -
  note D = jobPool_invD [OF assms]
  have d: "runningJobs (deleteRunningJob i p) = filter (\<lambda>(k, _). i \<noteq> k) (runningJobs p)"
    by (simp add: deleteRunningJob_def AList.delete_eq)
  have q: "jobQueue (deleteRunningJob i p) = jobQueue p" "nextJob (deleteRunningJob i p) = nextJob p"
    "jobs (deleteRunningJob i p) = jobs p"
    by (simp_all add: deleteRunningJob_def)
  show ?thesis
  proof (rule jobPool_invI, unfold d q)
    fix t assume "t \<in> set (jobQueue p)"
    from D(3) [OF this] show "job_taskID t \<notin> fst ` set (filter (\<lambda>(k, _). i \<noteq> k) (runningJobs p))" by auto
  next
    fix k j assume "(k, j) \<in> set (filter (\<lambda>(k, _). i \<noteq> k) (runningJobs p))"
    then show "j < nextJob p \<and> rj_taskID (jobs p j) = k" using D(5) [of k j] by simp
  qed (use D(1,2,4) in \<open>simp_all add: distinct_map_filter\<close>)
qed

lemma jobPool_inv_acknowledge: "jobPool_inv p \<Longrightarrow> jobPool_inv (acknowledge jp p)"
  unfolding acknowledge_def Let_def
  by (auto split: option.splits intro: jobPool_inv_delete jobPool_inv_onlyJob)

lemma jobPool_inv_terminateJob: "jobPool_inv p \<Longrightarrow> jobPool_inv (terminateJob i p)"
  unfolding terminateJob_def Let_def
  by (auto split: option.splits intro!: jobPool_inv_delete intro: jobPool_inv_onlyJob)

lemma jobPool_inv_fold:
  assumes "\<And>x p. jobPool_inv p \<Longrightarrow> jobPool_inv (f x p)" and "jobPool_inv p"
  shows "jobPool_inv (fold f xs p)"
  using assms by (induction xs arbitrary: p) auto

lemma jobPool_inv_progressReply: "jobPool_inv p \<Longrightarrow> jobPool_inv (snd (progressReply reply body p))"
  unfolding progressReply_def applyTerminatedJobs_def Let_def
  by (auto split: option.splits http.splits intro!: jobPool_inv_fold [of terminateJob]
      jobPool_inv_fold [of acknowledge] jobPool_inv_terminateJob jobPool_inv_acknowledge)

lemma jobPool_inv_syncJob: "jobPool_inv p \<Longrightarrow> jobPool_inv (syncJob snapshot c p)"
  unfolding syncJob_def Let_def by (auto split: option.splits intro: jobPool_inv_onlyJob)

lemma jobPool_inv_acceptNewJob:
  assumes "jobPool_inv p" shows "jobPool_inv (acceptNewJob keys d p)"
proof -
  have "jobPool_inv (enqueue t p)" if "job_taskID t = i" "getRunningJob i p = None" "\<not> existsInQueue i p" for t i
    using assms that
    by (auto simp: jobPool_inv_def enqueue_def getRunningJob_def existsInQueue_def map_of_eq_None_iff)
  with assms show ?thesis
    by (auto simp: acceptNewJob_def admitJob_def Let_def split: sum.splits)
qed

lemma jobPool_inv_checkNewJobs: 
  assumes "jobPool_inv p" shows "jobPool_inv (checkNewJobs cfg reply p)"
proof -
  have "jobPool_inv (clearCache resp p)" for resp
    using assms by (auto simp: clearCache_def jobPool_inv_def)
  then show ?thesis
    using assms unfolding checkNewJobs_def Let_def
    by (auto split: option.splits http.splits intro!: jobPool_inv_fold [of "acceptNewJob _"]
        jobPool_inv_fold [of "syncJob _"] jobPool_inv_acceptNewJob jobPool_inv_syncJob)
qed

lemma update_fresh: "k \<notin> fst ` set xs \<Longrightarrow> AList.update k j xs = xs @ [(k, j)]"
  by (induction xs) auto

lemma jobPool_inv_startJob:
  assumes inv: "jobPool_inv p" and new: "job_taskID t \<notin> fst ` set (runningJobs p)"
    and "job_taskID t \<notin> job_taskID ` set (jobQueue p)"
  shows "jobPool_inv (startJob t p)"
proof -
  note upd = update_fresh [OF new]
  define rj where "rj = Executor_SetLogger (job_job t)
    \<lparr>rj_status = TaskStartingStatus, rj_logRecords = [], rj_taskID = job_taskID t,
     rj_job = job_job t, rj_commit = None, rj_statusListeners = [], rj_logListeners = []\<rparr>"
  have ex: "rj_taskID rj = job_taskID t" by (simp add: rj_def Executor_SetLogger_def)
  have old: "j < nextJob p" if "(i, j) \<in> set (runningJobs p)" for i j
    using inv that by (auto simp: jobPool_inv_def)
  then have fresh: "nextJob p \<notin> snd ` set (runningJobs p)" by force
  have st: "startJob t p = (if job_status t = TaskFailStatus then p
     else p\<lparr>jobs := (jobs p)(nextJob p := rj), nextJob := Suc (nextJob p),
            runningJobs := runningJobs p @ [(job_taskID t, nextJob p)],
            goroutines := goroutines p @ [(nextJob p, t)]\<rparr>)"
    by (simp add: startJob_def addRunningJob_def Let_def upd rj_def)
  note D = jobPool_invD [OF inv]
  let ?p = "p\<lparr>jobs := (jobs p)(nextJob p := rj), nextJob := Suc (nextJob p),
            runningJobs := runningJobs p @ [(job_taskID t, nextJob p)],
            goroutines := goroutines p @ [(nextJob p, t)]\<rparr>"
  have "jobPool_inv ?p"
  proof (rule jobPool_invI)
    show "distinct (map snd (runningJobs ?p))" using D(4) fresh by simp
    show "distinct (map fst (runningJobs ?p))" using D(2) new by simp
    show "distinct (map job_taskID (jobQueue ?p))" using D(1) by simp
    fix u assume "u \<in> set (jobQueue ?p)"
    then have u: "u \<in> set (jobQueue p)" by simp
    then have "job_taskID u \<noteq> job_taskID t" using assms(3) by (metis imageI)
    then show "job_taskID u \<notin> fst ` set (runningJobs ?p)" using D(3) [OF u] by simp
  next
    fix i j assume "(i, j) \<in> set (runningJobs ?p)"
    then consider "(i, j) \<in> set (runningJobs p)" | "i = job_taskID t" "j = nextJob p" by auto
    then show "j < nextJob ?p \<and> rj_taskID (jobs ?p j) = i"
    proof cases
      case 1
      with D(5) [OF 1] show ?thesis by simp
    qed (simp add: ex)
  qed
  with inv show ?thesis unfolding st by simp
qed

text \<open>A runner with one running job, the task 1 of the sample installation, that has logged a line.\<close>

definition sampleExecutor :: Executor where
  "sampleExecutor =
     \<lparr>ex_Task = sampleTask 1, ex_Template = sampleTemplate, ex_Inventory = zeroInventory,
      ex_Repository = sampleRepository, ex_Environment = zeroEnvironment, ex_Secret = [], ex_JWT = [],
      ex_killed = False\<rparr>"

definition sampleJob :: job where
  "sampleJob =
     \<lparr>job_username = ''admin'', job_incomingVersion = None, job_alias = [], job_job = sampleExecutor,
      job_taskID = 1, job_status = TaskStartingStatus\<rparr>"

definition idleJob :: runningJob where
  "idleJob =
     \<lparr>rj_status = TaskStartingStatus, rj_logRecords = [], rj_taskID = 0, rj_job = sampleExecutor,
      rj_commit = None, rj_statusListeners = [], rj_logListeners = []\<rparr>"

definition sampleConfig :: "bool \<Rightarrow> RunnerConfig" where
  "sampleConfig oneOff = \<lparr>cfg_Token = ''t'', cfg_OneOff = oneOff, cfg_Executor = None\<rparr>"

definition idlePool :: JobPool where
  "idlePool = NewJobPool (sampleConfig False) (\<lambda>_. idleJob) 100"

definition samplePool :: JobPool where
  "samplePool =
     runningJob_LogWithTime 0 1600 ''hello'' (jobGoroutineStart 0 (startJob sampleJob idlePool))"

lemmas sample_runner_defs =
  sampleExecutor_def sampleJob_def idleJob_def sampleConfig_def idlePool_def samplePool_def

lemma samplePool_running [simp]: "runningJobs samplePool = [(1, 0)]"
  by code_simp

lemma samplePool_job [simp]:
  "rj_status (jobs samplePool 0) = TaskRunningStatus"
  "rj_logRecords (jobs samplePool 0) = [\<lparr>LogRecord_Time = 1600, LogRecord_Message = ''hello''\<rparr>]"
  "rj_taskID (jobs samplePool 0) = 1" "rj_commit (jobs samplePool 0) = None"
  by code_simp+

lemma samplePool_inv: "jobPool_inv samplePool"
proof -
  have "jobPool_inv idlePool" by (simp add: idlePool_def NewJobPool_def jobPool_inv_def)
  then have "jobPool_inv (startJob sampleJob idlePool)"
    by (rule jobPool_inv_startJob) (simp_all add: idlePool_def NewJobPool_def)
  then have "jobPool_inv (jobGoroutineStart 0 (startJob sampleJob idlePool))"
    unfolding jobGoroutineStart_def by (rule jobPool_inv_onlyJob) (rule onlyJob_intros)
  then show ?thesis unfolding samplePool_def by (rule jobPool_inv_onlyJob) (rule onlyJob_intros)
qed

definition waitingJobData :: JobData where
  "waitingJobData =
     \<lparr>Job_Username = ''admin'', Job_IncomingVersion = None, Job_Alias = [], Job_Task = sampleTask 1,
      Job_Template = sampleTemplate, Job_Inventory = zeroInventory, Job_InventoryRepository = None,
      Job_Repository = sampleRepository, Job_Environment = zeroEnvironment, Job_JWT = []\<rparr>"

subsection \<open>Acknowledging a report\<close>

text \<open>
  The effect of an accepted report on the pool \<open>q\<close> it is applied to, when it was built from \<open>p\<close>: the
  reported records are dropped from the reported jobs, and the jobs that were reported as finished leave
  the map.
\<close>

lemma progressOf_fields [simp]:
  "Progress_ID (progressOf p e) = fst e" "Progress_Status (progressOf p e) = rj_status (jobs p (snd e))"
  "Progress_LogRecords (progressOf p e) = rj_logRecords (jobs p (snd e))"
  "Progress_Commit (progressOf p e) = rj_commit (jobs p (snd e))"
  by (cases e; simp add: progressOf_def getProgress_def)+

lemma acknowledge_known:
  assumes "getRunningJob i q = Some j"
  shows "jobs (acknowledge (progressOf p (i, j)) q) =
      (jobs q)(j := (jobs q j)\<lparr>rj_logRecords := drop (length (rj_logRecords (jobs p j))) (rj_logRecords (jobs q j))\<rparr>)"
    "runningJobs (acknowledge (progressOf p (i, j)) q) =
      (if IsFinished (rj_status (jobs p j)) then AList.delete i (runningJobs q) else runningJobs q)"
  using assms
  by (auto simp: acknowledge_def ackLogRecords_def deleteRunningJob_def Let_def)

lemma fold_acknowledge:
  assumes "distinct (map fst es)" and "distinct (map snd es)"
    and "\<And>i j. (i, j) \<in> set es \<Longrightarrow> getRunningJob i q = Some j"
  shows "(\<forall>j. jobs (fold acknowledge (map (progressOf p) es) q) j =
      (if j \<in> snd ` set es
       then (jobs q j)\<lparr>rj_logRecords := drop (length (rj_logRecords (jobs p j))) (rj_logRecords (jobs q j))\<rparr>
       else jobs q j)) \<and>
    runningJobs (fold acknowledge (map (progressOf p) es) q) =
      filter (\<lambda>e. \<not> (\<exists>j. (fst e, j) \<in> set es \<and> IsFinished (rj_status (jobs p j)))) (runningJobs q)"
  using assms
proof (induction es arbitrary: q)
  case (Cons e es)
  obtain i0 j0 where e: "e = (i0, j0)" by (cases e)
  let ?q = "acknowledge (progressOf p e) q"
  have q: "getRunningJob i0 q = Some j0" using Cons(4) e by simp
  note k = acknowledge_known [OF q, of p]
  have g: "getRunningJob i ?q = Some j" if "(i, j) \<in> set es" for i j
  proof -
    have "i \<noteq> i0" using Cons(2) that e by force
    moreover have "getRunningJob i q = Some j" using Cons(4) that by simp
    ultimately show ?thesis by (simp add: getRunningJob_def e k(2) delete_conv)
  qed
  have IH: "(\<forall>j. jobs (fold acknowledge (map (progressOf p) es) ?q) j =
      (if j \<in> snd ` set es
       then (jobs ?q j)\<lparr>rj_logRecords := drop (length (rj_logRecords (jobs p j))) (rj_logRecords (jobs ?q j))\<rparr>
       else jobs ?q j)) \<and>
    runningJobs (fold acknowledge (map (progressOf p) es) ?q) =
      filter (\<lambda>e. \<not> (\<exists>j. (fst e, j) \<in> set es \<and> IsFinished (rj_status (jobs p j)))) (runningJobs ?q)"
    using Cons(2,3) g by (intro Cons(1)) auto
  have "j0 \<notin> snd ` set es" using Cons(3) e by auto
  then have 1: "jobs (fold acknowledge (map (progressOf p) (e # es)) q) j =
      (if j \<in> snd ` set (e # es)
       then (jobs q j)\<lparr>rj_logRecords := drop (length (rj_logRecords (jobs p j))) (rj_logRecords (jobs q j))\<rparr>
       else jobs q j)" for j
    using IH by (auto simp: k(1) e)
  have f0: "IsFinished (rj_status (jobs p j0)) \<longleftrightarrow> (\<exists>j. (i0, j) \<in> set (e # es) \<and> IsFinished (rj_status (jobs p j)))"
    using Cons(2) e by force
  have "runningJobs (fold acknowledge (map (progressOf p) (e # es)) q) =
      filter (\<lambda>x. \<not> (\<exists>j. (fst x, j) \<in> set (e # es) \<and> IsFinished (rj_status (jobs p j)))) (runningJobs q)"
  proof (cases "IsFinished (rj_status (jobs p j0))")
    case True
    then show ?thesis using IH f0
      by (auto simp: k(2) e AList.delete_eq split_beta intro!: filter_cong)
  next
    case False
    then show ?thesis using IH by (auto simp: k(2) e intro!: filter_cong)
  qed
  with 1 show ?case by blast
qed simp

lemma terminateJob_effect:
  "runningJobs (terminateJob i q) = filter (\<lambda>e. fst e \<noteq> i) (runningJobs q)"
  "getRunningJob i q \<noteq> Some k \<Longrightarrow> jobs (terminateJob i q) k = jobs q k"
  "getRunningJob i q = Some k \<Longrightarrow> jobs (terminateJob i q) k =
     (if IsFinished (rj_status (jobs q k)) then jobs q k
      else (jobs q k)\<lparr>rj_status := TaskStoppedStatus, rj_job := (rj_job (jobs q k))\<lparr>ex_killed := True\<rparr>\<rparr>)"
proof -
  have d: "AList.delete i xs = filter (\<lambda>e. fst e \<noteq> i) xs" for xs :: "(ident \<times> jref) list"
    by (auto simp: AList.delete_eq intro!: filter_cong)
  have r: "runningJobs (if \<not> IsFinished (getStatus j q) then runningJob_SetStatus j TaskStoppedStatus (Executor_Kill j q) else q)
      = runningJobs q" for j
    by (simp add: runningJob_SetStatus_def Executor_Kill_def)
  show "runningJobs (terminateJob i q) = filter (\<lambda>e. fst e \<noteq> i) (runningJobs q)"
  proof (cases "getRunningJob i q")
    case None
    then have "\<forall>e\<in>set (runningJobs q). fst e \<noteq> i" by (auto simp: getRunningJob_def map_of_eq_None_iff)
    then show ?thesis by (simp add: terminateJob_def None filter_id_conv)
  next
    case (Some j)
    then show ?thesis by (simp add: terminateJob_def Let_def deleteRunningJob_def r d)
  qed
  show "getRunningJob i q \<noteq> Some k \<Longrightarrow> jobs (terminateJob i q) k = jobs q k"
    by (auto simp: terminateJob_def Let_def deleteRunningJob_def runningJob_SetStatus_def Executor_Kill_def
        split: option.splits)
  show "getRunningJob i q = Some k \<Longrightarrow> jobs (terminateJob i q) k =
     (if IsFinished (rj_status (jobs q k)) then jobs q k
      else (jobs q k)\<lparr>rj_status := TaskStoppedStatus, rj_job := (rj_job (jobs q k))\<lparr>ex_killed := True\<rparr>\<rparr>)"
    by (auto simp: terminateJob_def Let_def deleteRunningJob_def runningJob_SetStatus_def Executor_Kill_def getStatus_def)
qed

lemma applyTerminatedJobs_running:
  "runningJobs (applyTerminatedJobs ts q) = filter (\<lambda>e. fst e \<notin> set ts) (runningJobs q)"
  unfolding applyTerminatedJobs_def
  by (induction ts arbitrary: q) (auto simp: terminateJob_effect(1) intro!: filter_cong)

lemma applyTerminatedJobs_other:
  assumes "distinct (map snd (runningJobs q))" and "(i, k) \<in> set (runningJobs q)" and "i \<notin> set ts"
  shows "jobs (applyTerminatedJobs ts q) k = jobs q k"
  using assms unfolding applyTerminatedJobs_def
proof (induction ts arbitrary: q)
  case (Cons t ts)
  have "getRunningJob t q \<noteq> Some k"
  proof
    assume "getRunningJob t q = Some k"
    then have "(t, k) \<in> set (runningJobs q)" by (auto simp: getRunningJob_def dest: map_of_SomeD)
    with Cons(2,3) have "(t, k) = (i, k)" unfolding distinct_map by (elim conjE inj_onD) simp_all
    with Cons(4) show False by simp
  qed
  then have "jobs (terminateJob t q) k = jobs q k" by (rule terminateJob_effect(2))
  moreover have "jobs (fold terminateJob ts (terminateJob t q)) k = jobs (terminateJob t q) k"
    using Cons(2-4) by (intro Cons(1)) (auto simp: terminateJob_effect(1) distinct_map_filter)
  ultimately show ?case by simp
qed simp

lemma applyTerminatedJobs_gone:
  "k \<notin> snd ` set (runningJobs q) \<Longrightarrow> jobs (applyTerminatedJobs ts q) k = jobs q k"
  unfolding applyTerminatedJobs_def
proof (induction ts arbitrary: q)
  case (Cons t ts)
  have "getRunningJob t q \<noteq> Some k"
  proof
    assume "getRunningJob t q = Some k"
    then have "(t, k) \<in> set (runningJobs q)" by (auto simp: getRunningJob_def dest: map_of_SomeD)
    with Cons(2) show False by force
  qed
  then have "jobs (terminateJob t q) k = jobs q k" by (rule terminateJob_effect(2))
  moreover have "k \<notin> snd ` set (runningJobs (terminateJob t q))"
    using Cons(2) by (auto simp: terminateJob_effect(1))
  ultimately show ?case using Cons(1) by simp
qed simp

lemma applyTerminatedJobs_hit:
  assumes "distinct (map fst (runningJobs q))" and "distinct (map snd (runningJobs q))"
    and "(i, k) \<in> set (runningJobs q)" and "i \<in> set ts"
  shows "jobs (applyTerminatedJobs ts q) k =
     (if IsFinished (rj_status (jobs q k)) then jobs q k
      else (jobs q k)\<lparr>rj_status := TaskStoppedStatus, rj_job := (rj_job (jobs q k))\<lparr>ex_killed := True\<rparr>\<rparr>)"
proof -
  obtain us vs where ts: "ts = us @ i # vs" "i \<notin> set us" using assms(4) by (meson split_list_first)
  let ?q = "applyTerminatedJobs us q"
  have ap: "applyTerminatedJobs ts q = applyTerminatedJobs vs (terminateJob i ?q)"
    by (simp add: applyTerminatedJobs_def ts)
  have r: "runningJobs ?q = filter (\<lambda>e. fst e \<notin> set us) (runningJobs q)" by (rule applyTerminatedJobs_running)
  have same: "jobs ?q k = jobs q k" using assms(2,3) ts(2) by (rule applyTerminatedJobs_other)
  have d: "distinct (map fst (runningJobs ?q))" "distinct (map snd (runningJobs ?q))"
    using assms(1,2) by (simp_all add: r distinct_map_filter)
  have m: "(i, k) \<in> set (runningJobs ?q)" using assms(3) ts(2) by (simp add: r)
  have g: "getRunningJob i ?q = Some k" using d(1) m by (simp add: getRunningJob_def)
  have "k \<notin> snd ` set (runningJobs (terminateJob i ?q))"
  proof
    assume "k \<in> snd ` set (runningJobs (terminateJob i ?q))"
    then obtain i' where "(i', k) \<in> set (runningJobs ?q)" "i' \<noteq> i" by (auto simp: terminateJob_effect(1))
    with m d(2) show False unfolding distinct_map by (metis Pair_inject inj_onD snd_conv)
  qed
  then show ?thesis
    unfolding ap by (simp add: applyTerminatedJobs_gone terminateJob_effect(3) [OF g] same)
qed

text \<open>A successful report, as one equation.\<close>

lemma progressReply_ok:
  assumes "progressReply reply body q = (True, p')"
  shows "\<exists>ts. p' = applyTerminatedJobs ts (case body of None \<Rightarrow> q | Some jps \<Rightarrow> fold acknowledge jps q) \<and>
    (reply = Some (OkJSON ts) \<or> reply = Some NoContent \<and> ts = [])"
  using assms by (auto simp: progressReply_def Let_def split: option.splits http.splits)

lemma progressReply_failed: "progressReply reply body q = (False, p') \<Longrightarrow> p' = q"
  by (auto simp: progressReply_def Let_def split: option.splits http.splits)

lemma progressBody_acknowledged:
  "(case progressBody p of None \<Rightarrow> q | Some jps \<Rightarrow> fold acknowledge jps q) =
     fold acknowledge (map (progressOf p) (runningJobs p)) q"
  by (auto simp: progressBody_def snapshotRunningJobs_def split: list.splits)

text \<open>
  While a report is on its way, the jobs in the map go on logging and new jobs may enter the map; no entry
  is removed or replaced (only the goroutine that reports does that).
\<close>

definition continues :: "JobPool \<Rightarrow> JobPool \<Rightarrow> bool" where
  "continues p q \<longleftrightarrow>
     jobPool_inv q \<and> (\<exists>new. runningJobs q = runningJobs p @ new) \<and>
     (\<forall>(i, j)\<in>set (runningJobs p). \<exists>recs. rj_logRecords (jobs q j) = rj_logRecords (jobs p j) @ recs)"

lemma continues_refl: "jobPool_inv p \<Longrightarrow> continues p p"
  by (auto simp: continues_def)

lemma acknowledged:
  assumes "continues p q"
  shows "runningJobs (fold acknowledge (map (progressOf p) (runningJobs p)) q) =
      filter (\<lambda>e. \<not> (e \<in> set (runningJobs p) \<and> IsFinished (rj_status (jobs p (snd e))))) (runningJobs q)"
    and "(i, j) \<in> set (runningJobs p) \<Longrightarrow>
      jobs (fold acknowledge (map (progressOf p) (runningJobs p)) q) j =
      (jobs q j)\<lparr>rj_logRecords := drop (length (rj_logRecords (jobs p j))) (rj_logRecords (jobs q j))\<rparr>"
proof -
  from assms obtain new where n: "runningJobs q = runningJobs p @ new" by (auto simp: continues_def)
  have q: "distinct (map fst (runningJobs q))" "distinct (map snd (runningJobs q))"
    using assms jobPool_invD [of q] by (simp_all add: continues_def)
  have d: "distinct (map fst (runningJobs p))" "distinct (map snd (runningJobs p))" using q n by simp_all
  have g: "getRunningJob i q = Some j" if "(i, j) \<in> set (runningJobs p)" for i j
    using q(1) that n by (auto simp: getRunningJob_def map_of_eq_Some_iff)
  note f = fold_acknowledge [OF d g, of p]
  have "(\<exists>j. (fst e, j) \<in> set (runningJobs p) \<and> IsFinished (rj_status (jobs p j))) \<longleftrightarrow>
      e \<in> set (runningJobs p) \<and> IsFinished (rj_status (jobs p (snd e)))"
    if "e \<in> set (runningJobs q)" for e
  proof -
    have "e = (fst e, j)" if "(fst e, j) \<in> set (runningJobs p)" for j
      using q(1) \<open>e \<in> set (runningJobs q)\<close> that unfolding distinct_map n by (elim conjE inj_onD) simp_all
    then show ?thesis by (metis prod.collapse snd_conv)
  qed
  then show "runningJobs (fold acknowledge (map (progressOf p) (runningJobs p)) q) =
      filter (\<lambda>e. \<not> (e \<in> set (runningJobs p) \<and> IsFinished (rj_status (jobs p (snd e))))) (runningJobs q)"
    using f by (auto intro!: filter_cong)
  show "(i, j) \<in> set (runningJobs p) \<Longrightarrow>
      jobs (fold acknowledge (map (progressOf p) (runningJobs p)) q) j =
      (jobs q j)\<lparr>rj_logRecords := drop (length (rj_logRecords (jobs p j))) (rj_logRecords (jobs q j))\<rparr>"
    using f by force
qed

text \<open>A runner in one-off mode is meant to exit once its job has finished. When no job changes during the
  report, the exit test fails after every successful report, however the server answered: the jobs that
  were reported as finished have already left the map, so the map is empty or holds an unfinished job.\<close>

lemma one_off_runner_stays:
  assumes "jobPool_inv p" and "sendProgress server (\<lambda>q. q) p = (True, p')"
  shows "\<not> oneOffExit cfg True p'"
proof -
  let ?q = "fold acknowledge (map (progressOf p) (runningJobs p)) p"
  from assms(2) obtain ts where p': "p' = applyTerminatedJobs ts ?q"
    using progressReply_ok [of "server (progressBody p)" "progressBody p" p p']
    by (auto simp: sendProgress_def Let_def progressBody_acknowledged)
  note ack = acknowledged [OF continues_refl [OF assms(1)]]
  have "\<not> IsFinished (rj_status (jobs p' j))" if e: "(i, j) \<in> set (runningJobs p')" for i j
  proof -
    from e have r: "(i, j) \<in> set (runningJobs ?q)" "i \<notin> set ts"
      by (auto simp: p' applyTerminatedJobs_running)
    then have e': "(i, j) \<in> set (runningJobs p)" "\<not> IsFinished (rj_status (jobs p j))" by (auto simp: ack(1))
    have "distinct (map snd (runningJobs ?q))"
      using jobPool_invD(4) [OF assms(1)] by (simp add: ack(1) distinct_map_filter)
    then have "jobs p' j = jobs ?q j" unfolding p' using r by (rule applyTerminatedJobs_other)
    with e' show ?thesis by (simp add: ack(2))
  qed
  then show ?thesis
    by (cases "runningJobs p'") (auto simp: oneOffExit_def runningJobsCount_def hasRunningJobs_def snapshotRunningJobs_def)
qed

subsection \<open>Statuses from the server\<close>

text \<open>What the runner's copy of a status may become.\<close>

definition staysStopped :: "TaskStatus \<Rightarrow> TaskStatus \<Rightarrow> bool" where
  "staysStopped s s' \<longleftrightarrow>
     (IsFinished s \<longrightarrow> s' = s) \<and> (s = TaskStoppingStatus \<longrightarrow> s' = TaskStoppingStatus \<or> IsFinished s')"

lemma staysStopped_refl [simp]: "staysStopped s s"
  by (simp add: staysStopped_def)

lemma staysStopped_trans: "staysStopped a b \<Longrightarrow> staysStopped b c \<Longrightarrow> staysStopped a c"
  by (auto simp: staysStopped_def)

lemma syncJob_staysStopped: "staysStopped (getStatus j p) (getStatus j (syncJob snapshot c p))"
proof (cases "map_of snapshot (JobState_ID c)")
  case (Some k)
  let ?p = "if getStatus k p = TaskStoppingStatus \<or> getStatus k p = TaskStoppedStatus then Executor_Kill k p else p"
  have same: "getStatus i ?p = getStatus i p" for i by (simp add: getStatus_def Executor_Kill_def)
  have sync: "syncJob snapshot c p =
      (if IsFinished (getStatus k p) \<or> keepsOwnStatus (getStatus k p) (JobState_Status c) then ?p
       else runningJob_SetStatus k (JobState_Status c) ?p)"
    by (simp add: syncJob_def Some Let_def)
  have set: "getStatus j (runningJob_SetStatus k s q) = (if j = k then s else getStatus j q)" for s q
    by (simp add: runningJob_SetStatus_def getStatus_def)
  show ?thesis
    unfolding sync using same by (auto simp: staysStopped_def set)
qed (simp add: syncJob_def)

lemma acceptNewJob_status: "getStatus j (acceptNewJob keys d p) = getStatus j p"
  by (simp add: acceptNewJob_def admitJob_def Let_def enqueue_def getStatus_def split: sum.splits)

text \<open>A poll never revives a job: whatever the server answers, a finished job keeps its status, and a job
  that is being stopped stays so or becomes finished.\<close>

lemma poll_never_revives:
  "(IsFinished (getStatus j p) \<longrightarrow> getStatus j (checkNewJobs cfg reply p) = getStatus j p) \<and>
   (getStatus j p = TaskStoppingStatus \<longrightarrow>
      getStatus j (checkNewJobs cfg reply p) = TaskStoppingStatus \<or> IsFinished (getStatus j (checkNewJobs cfg reply p)))"
proof -
  have sync: "staysStopped (getStatus j q) (getStatus j (fold (syncJob snapshot) cs q))" for snapshot cs q
    by (induction cs arbitrary: q) (auto intro: staysStopped_trans syncJob_staysStopped)
  have acc: "getStatus j (fold (acceptNewJob keys) ds q) = getStatus j q" for keys ds q
    by (induction ds arbitrary: q) (simp_all add: acceptNewJob_status)
  have clear: "getStatus j (clearCache resp p) = getStatus j p" for resp
    by (simp add: clearCache_def getStatus_def)
  have "staysStopped (getStatus j p) (getStatus j (checkNewJobs cfg reply p))"
    using sync [of "clearCache _ p"] unfolding checkNewJobs_def Let_def
    by (auto simp: acc clear split: option.splits http.splits)
  then show ?thesis by (simp add: staysStopped_def)
qed

end
