(* ===== verification/Link_Properties.thy ===== *)
theory Link_Properties
  imports Job_Pool_Properties
begin

text \<open>
  The runner and the server together: a progress report travels from the map of running jobs of the runner
  through the handler of the server and its answer back to the runner. The server is a single node (not in
  high-availability mode), so a task is looked up in its own pool.
\<close>

subsection \<open>What a report changes on the server\<close>

definition linesOf :: "World \<Rightarrow> tref \<Rightarrow> logRecord list" where
  "linesOf w r = filter (\<lambda>l. log_task l = r) (logger w)"

definition touchesOnly :: "tref set \<Rightarrow> World \<Rightarrow> World \<Rightarrow> bool" where
  "touchesOnly R w w' \<longleftrightarrow>
     state w' = state w \<and> idof w' = idof w \<and>
     (\<forall>k. k \<notin> R \<longrightarrow> heap w' k = heap w k \<and> linesOf w' k = linesOf w k)"

lemma touchesOnly_refl [simp]: "touchesOnly R w w"
  by (simp add: touchesOnly_def)

lemma touchesOnly_trans: "touchesOnly R a b \<Longrightarrow> touchesOnly S b c \<Longrightarrow> touchesOnly (R \<union> S) a c"
  by (simp add: touchesOnly_def)

lemma touchesOnly_mono: "touchesOnly R a b \<Longrightarrow> R \<subseteq> S \<Longrightarrow> touchesOnly S a b"
  by (auto simp: touchesOnly_def)

definition asLog :: "tref \<Rightarrow> LogRecord \<Rightarrow> logRecord" where
  "asLog r l = \<lparr>log_task = r, log_output = LogRecord_Message l, log_time = LogRecord_Time l\<rparr>"

lemma logAll_effect:
  "heap (fold (\<lambda>l. LogWithTime r (LogRecord_Time l) (LogRecord_Message l)) ls w) = heap w"
  "state (fold (\<lambda>l. LogWithTime r (LogRecord_Time l) (LogRecord_Message l)) ls w) = state w"
  "logger (fold (\<lambda>l. LogWithTime r (LogRecord_Time l) (LogRecord_Message l)) ls w) = logger w @ map (asLog r) ls"
  by (induction ls arbitrary: w) (simp_all add: asLog_def)

lemma SetStatus_effect:
  assumes "SetStatus env r s w = Some w'"
  shows "state w' = state w \<and> logger w' = logger w \<and> (\<forall>k. k \<noteq> r \<longrightarrow> heap w' k = heap w k) \<and>
    Task_ID (TR_Task (heap w' r)) = Task_ID (TR_Task (heap w r))"
proof (cases "acceptsTransition (statusOf w r) s")
  case True
  note acc = SetStatus_accepted [OF assms True]
  show ?thesis using acc(1-3) by (simp add: sameRest_def)
qed (use SetStatus_refused [of w r s env] assms in simp)

lemma SetCommit_effect:
  assumes "SetCommit r h m w = Some w'"
  shows "state w' = state w" "logger w' = logger w" "k \<noteq> r \<Longrightarrow> heap w' k = heap w k"
    "Task_ID (TR_Task (heap w' r)) = Task_ID (TR_Task (heap w r))"
  using assms by (auto simp: SetCommit_def Let_def split: sum.splits)

lemma acceptProgress_effect:
  assumes "acceptProgress env rn r job w = Some w'"
  shows "touchesOnly {r} w w'" "linesOf w' r = linesOf w r @ map (asLog r) (Progress_LogRecords job)"
proof -
  let ?w1 = "fold (\<lambda>l. LogWithTime r (LogRecord_Time l) (LogRecord_Message l)) (Progress_LogRecords job) w"
  from assms obtain w2 w3 where w: "SetStatus env r (Progress_Status job) ?w1 = Some w2"
    "(case Progress_Commit job of None \<Rightarrow> Some w2
      | Some c \<Rightarrow> SetCommit r (Commit_Hash c) (Commit_Message c) w2) = Some w3"
    "w' = (if IsFinished (statusOf w3 r) then spawn (GoFinalizeRemoteTask r (Some rn)) w3 else w3)"
    unfolding acceptProgress_def Let_def by (auto dest!: bind_SomeD)
  have c: "state w3 = state w2 \<and> logger w3 = logger w2 \<and> (\<forall>k. k \<noteq> r \<longrightarrow> heap w3 k = heap w2 k) \<and>
      Task_ID (TR_Task (heap w3 r)) = Task_ID (TR_Task (heap w2 r))"
  proof (cases "Progress_Commit job")
    case (Some x)
    with w(2) have "SetCommit r (Commit_Hash x) (Commit_Message x) w2 = Some w3" by simp
    from SetCommit_effect [OF this] show ?thesis by blast
  qed (use w(2) in simp)
  note s = SetStatus_effect [OF w(1)]
  have h: "\<forall>k. k \<noteq> r \<longrightarrow> heap w' k = heap w k" "Task_ID (TR_Task (heap w' r)) = Task_ID (TR_Task (heap w r))"
    "logger w' = logger w @ map (asLog r) (Progress_LogRecords job)" "state w' = state w"
    using c s logAll_effect [of r "Progress_LogRecords job" w] unfolding w(3) by simp_all
  then have "idof w' = idof w" unfolding idof_def fun_eq_iff by metis
  with h show "touchesOnly {r} w w'" by (auto simp: touchesOnly_def linesOf_def asLog_def filter_empty_conv)
  show "linesOf w' r = linesOf w r @ map (asLog r) (Progress_LogRecords job)"
    using h(3) by (simp add: linesOf_def asLog_def filter_id_conv)
qed

lemma GetTask_local: "\<not> HAEnabled env \<Longrightarrow> GetTask env i w = map_option (\<lambda>p. (Inr p, w)) (localTask w i)"
  by (auto simp: GetTask_def split: option.splits)

lemma progressJob_effect:
  assumes ha: "\<not> HAEnabled env" and p: "progressJob env rn job (ts, w) = Some (e, ts', w')"
  shows "touchesOnly {r. idof w r = Progress_ID job} w w'" "\<exists>x. ts' = ts @ x \<and> set x \<subseteq> {Progress_ID job}"
proof -
  obtain res where l: "localTask w (Progress_ID job) = Some res" and g: "GetTask env (Progress_ID job) w = Some (Inr res, w)"
    using p GetTask_local [OF ha, of "Progress_ID job" w]
    by (cases "localTask w (Progress_ID job)") (auto simp: progressJob_def Let_def)
  have acc: "touchesOnly {r. idof w r = Progress_ID job} w v"
    if "res = Some r" "acceptProgress env rn r job w = Some v" for r v
    using touchesOnly_mono [OF acceptProgress_effect(1) [OF that(2)]] localTask_in_store(1) [of w _ r] l that(1) by simp
  have "touchesOnly {r. idof w r = Progress_ID job} w w' \<and> (\<exists>x. ts' = ts @ x \<and> set x \<subseteq> {Progress_ID job})"
    using p g acc by (auto simp: progressJob_def Let_def split: option.splits sum.splits if_splits)
  then show "touchesOnly {r. idof w r = Progress_ID job} w w'" "\<exists>x. ts' = ts @ x \<and> set x \<subseteq> {Progress_ID job}"
    by auto
qed

lemma progressLoop_effect:
  assumes ha: "\<not> HAEnabled env"
  shows "progressLoop env rn js (ts, w) = Some (OkJSON ts', w') \<Longrightarrow>
    touchesOnly {r. idof w r \<in> Progress_ID ` set js} w w' \<and> (\<exists>x. ts' = ts @ x \<and> set x \<subseteq> Progress_ID ` set js)"
proof (induction js arbitrary: ts w)
  case (Cons job js)
  from Cons(2) obtain ts1 w1 where j: "progressJob env rn job (ts, w) = Some (None, ts1, w1)"
    and l: "progressLoop env rn js (ts1, w1) = Some (OkJSON ts', w')"
    by (auto split: option.splits)
  note e = progressJob_effect [OF ha j]
  have i: "idof w1 = idof w" using e(1) by (simp add: touchesOnly_def)
  have t: "touchesOnly {r. idof w r \<in> Progress_ID ` set (job # js)} w w'"
    by (rule touchesOnly_mono [OF touchesOnly_trans [OF e(1) conjunct1 [OF Cons(1) [OF l]]]]) (auto simp: i)
  from e(2) Cons(1) [OF l] obtain x y where "ts1 = ts @ x" "set x \<subseteq> {Progress_ID job}"
    "ts' = ts1 @ y" "set y \<subseteq> Progress_ID ` set js" by blast
  then have "ts' = ts @ x @ y \<and> set (x @ y) \<subseteq> Progress_ID ` set (job # js)" by auto
  with t show ?case by blast
qed simp

lemma progressLoop_split:
  "progressLoop env rn (js1 @ job # js2) (ts, w) = Some (OkJSON ts', w') \<Longrightarrow>
    \<exists>ts1 w1 ts2 w2. progressLoop env rn js1 (ts, w) = Some (OkJSON ts1, w1) \<and>
      progressJob env rn job (ts1, w1) = Some (None, ts2, w2) \<and>
      progressLoop env rn js2 (ts2, w2) = Some (OkJSON ts', w')"
proof (induction js1 arbitrary: ts w)
  case (Cons a js1)
  from Cons(2) obtain ts1 w1 where "progressJob env rn a (ts, w) = Some (None, ts1, w1)"
    "progressLoop env rn (js1 @ job # js2) (ts1, w1) = Some (OkJSON ts', w')"
    by (auto split: option.splits)
  with Cons(1) [of ts1 w1] show ?case by auto
qed (auto split: option.splits)

text \<open>
  One job of a report in which every task is named once: the report acts on the task as if it were the only
  one, and the answer names the task exactly if its own report was refused.
\<close>

lemma progressLoop_focus:
  assumes ha: "\<not> HAEnabled env" and d: "distinct (map Progress_ID js)" and job: "job \<in> set js"
    and l: "progressLoop env rn js ([], w) = Some (OkJSON ts, w')"
    and t: "localTask w (Progress_ID job) = Some (Some r)"
  shows "\<exists>w1 ts1 ts2 w2. touchesOnly (- {r}) w w1 \<and> heap w1 r = heap w r \<and> linesOf w1 r = linesOf w r \<and>
    localTask w1 (Progress_ID job) = Some (Some r) \<and> progressJob env rn job (ts1, w1) = Some (None, ts2, w2) \<and>
    heap w' r = heap w2 r \<and> linesOf w' r = linesOf w2 r \<and> Progress_ID job \<notin> set ts1 \<and>
    (Progress_ID job \<in> set ts \<longleftrightarrow> Progress_ID job \<in> set ts2)"
proof -
  let ?i = "Progress_ID job"
  obtain js1 js2 where js: "js = js1 @ job # js2" using job by (auto simp: in_set_conv_decomp)
  have n: "?i \<notin> Progress_ID ` set js1" "?i \<notin> Progress_ID ` set js2" using d js by auto
  from progressLoop_split [OF l [unfolded js]] obtain ts1 w1 ts2 w2
    where a: "progressLoop env rn js1 ([], w) = Some (OkJSON ts1, w1)"
      and b: "progressJob env rn job (ts1, w1) = Some (None, ts2, w2)"
      and c: "progressLoop env rn js2 (ts2, w2) = Some (OkJSON ts, w')" by blast
  note ea = progressLoop_effect [OF ha a] and eb = progressJob_effect [OF ha b] and ec = progressLoop_effect [OF ha c]
  have id: "idof w r = ?i" using t by (rule localTask_in_store(1))
  have i1: "idof w1 = idof w" "state w1 = state w" "idof w2 = idof w"
    using ea eb by (simp_all add: touchesOnly_def)
  have 1: "touchesOnly (- {r}) w w1" by (rule touchesOnly_mono [OF conjunct1 [OF ea]]) (use n id in auto)
  have h1: "heap w1 r = heap w r" "linesOf w1 r = linesOf w r"
    using ea n id by (auto simp: touchesOnly_def)
  have h2: "heap w' r = heap w2 r" "linesOf w' r = linesOf w2 r"
    using ec n id i1 by (auto simp: touchesOnly_def)
  have lt: "localTask w1 ?i = Some (Some r)" using t unfolding localTask_def i1 .
  have "?i \<notin> set ts1" using ea n by auto
  moreover have "?i \<in> set ts \<longleftrightarrow> ?i \<in> set ts2" using ec n by auto
  ultimately show ?thesis using 1 h1 h2 lt b by blast
qed

subsection \<open>A round of reporting\<close>

text \<open>
  The runner builds its report and sends it under its token, the server handles it, and the runner handles
  the answer. \<open>meanwhile\<close> is what happens on the runner while the request is on its way. A handler that
  panics answers nothing.
\<close>

definition progressRound ::
  "PoolEnv \<Rightarrow> string \<Rightarrow> (JobPool \<Rightarrow> JobPool) \<Rightarrow> World \<Rightarrow> JobPool \<Rightarrow> (bool \<times> JobPool \<times> World) option" where
  "progressRound env token meanwhile w p =
     (case RunnerMiddleware token (api_UpdateRunner env (progressBody p)) w of
        None \<Rightarrow> None
      | Some (reply, w') \<Rightarrow>
          (let (ok, p') = sendProgress (\<lambda>_. Some reply) meanwhile p in Some (ok, p', w')))"

lemma progressRound_accepted:
  assumes ha: "\<not> HAEnabled env" and inv: "jobPool_inv p" and cont: "continues p (meanwhile p)"
    and rnd: "progressRound env token meanwhile w p = Some (True, p', w')"
    and auth: "GetRunnerByToken token (db w) = Inr rn" and job: "(i, j) \<in> set (runningJobs p)"
    and task: "localTask w i = Some (Some r)"
  shows "\<exists>ts js. progressLoop env rn js ([], w) = Some (OkJSON ts, w') \<and> progressOf p (i, j) \<in> set js \<and>
    distinct (map Progress_ID js) \<and>
    p' = applyTerminatedJobs ts (fold acknowledge (map (progressOf p) (runningJobs p)) (meanwhile p))"
proof -
  have ne: "progressBody p = Some (map (progressOf p) (runningJobs p))"
    using job by (auto simp: progressBody_def snapshotRunningJobs_def split: list.splits)
  let ?js = "map (progressOf p) (runningJobs p)"
  from rnd obtain reply where m: "RunnerMiddleware token (api_UpdateRunner env (Some ?js)) w = Some (reply, w')"
    and s: "progressReply (Some reply) (Some ?js) (meanwhile p) = (True, p')"
    by (auto simp: progressRound_def sendProgress_def Let_def ne split: option.splits prod.splits)
  from progressReply_ok [OF s] obtain ts where ts: "p' = applyTerminatedJobs ts (fold acknowledge ?js (meanwhile p))"
    "reply = OkJSON ts \<or> reply = NoContent \<and> ts = []" by auto
  have ok: "\<nexists>c msg. reply = HttpError c msg" using ts(2) by auto
  with m auth have "api_UpdateRunner env (Some ?js) rn w = Some (reply, w')"
    by (auto simp: RunnerMiddleware_def split: if_splits)
  then have l: "progressLoop env rn ?js ([], w) = Some (reply, w')" by (simp add: api_UpdateRunner_def)
  have "progressLoop env rn js st = Some (NoContent, w') \<Longrightarrow> False" for js st
  proof (induction js arbitrary: st)
    case Nil
    then show ?case by (cases st) simp
  qed (auto split: option.splits)
  with l ts(2) have "reply = OkJSON ts" by blast
  moreover have "distinct (map Progress_ID ?js)" using jobPool_invD(2) [OF inv] by (simp add: comp_def)
  ultimately show ?thesis using l ts(1) job by (intro exI [of _ ts] exI [of _ ?js]) auto
qed

text \<open>C11. Log lines arrive exactly once and in order. When a round of reporting succeeds for a task that is
  assigned to the reporting runner and not finished, the server appends to the lines of the task exactly the
  records that the job had pending when the report was built, and what stays pending is exactly what the
  job logged while the report was on its way.\<close>

theorem log_lines_arrive_once:
  assumes "\<not> HAEnabled env" and "jobPool_inv p" and "continues p (meanwhile p)"
    and "progressRound env token meanwhile w p = Some (True, p', w')"
    and "GetRunnerByToken token (db w) = Inr rn" and "(i, j) \<in> set (runningJobs p)"
    and "localTask w i = Some (Some r)" and "Task_RunnerID (TR_Task (heap w r)) = Some (Runner_ID rn)"
    and "\<not> IsFinished (statusOf w r)"
  shows "linesOf w' r = linesOf w r @ map (asLog r) (rj_logRecords (jobs p j)) \<and>
    rj_logRecords (jobs (meanwhile p) j) = rj_logRecords (jobs p j) @ rj_logRecords (jobs p' j)"
proof -
  from progressRound_accepted [OF assms(1-7)] obtain ts js where
    l: "progressLoop env rn js ([], w) = Some (OkJSON ts, w')" and job: "progressOf p (i, j) \<in> set js"
    and d: "distinct (map Progress_ID js)"
    and p': "p' = applyTerminatedJobs ts (fold acknowledge (map (progressOf p) (runningJobs p)) (meanwhile p))" by blast
  let ?q = "fold acknowledge (map (progressOf p) (runningJobs p)) (meanwhile p)"
  from progressLoop_focus [OF assms(1) d job l] assms(7) obtain w1 ts1 ts2 w2 where
    1: "heap w1 r = heap w r" "linesOf w1 r = linesOf w r" "localTask w1 i = Some (Some r)"
      "progressJob env rn (progressOf p (i, j)) (ts1, w1) = Some (None, ts2, w2)"
      "heap w' r = heap w2 r" "linesOf w' r = linesOf w2 r" "i \<notin> set ts1" "i \<in> set ts \<longleftrightarrow> i \<in> set ts2"
    by auto
  have g: "GetTask env i w1 = Some (Inr (Some r), w1)" using GetTask_local [OF assms(1)] 1(3) by simp
  have "acceptProgress env rn r (progressOf p (i, j)) w1 = Some w2 \<and> ts2 = ts1"
    using 1(1,4) g assms(8,9) by (auto simp: progressJob_def statusOf_def split: if_splits)
  then have a: "linesOf w2 r = linesOf w1 r @ map (asLog r) (rj_logRecords (jobs p j))" and i: "i \<notin> set ts"
    using acceptProgress_effect(2) [of env rn r "progressOf p (i, j)" w1 w2] 1(7,8) by auto
  note ack = acknowledged [OF assms(3)]
  have inv': "jobPool_inv (meanwhile p)" using assms(3) by (simp add: continues_def)
  have pend: "rj_logRecords (jobs p' j) = rj_logRecords (jobs ?q j)"
  proof (cases "(i, j) \<in> set (runningJobs ?q)")
    case True
    have "distinct (map snd (runningJobs ?q))"
      using jobPool_invD(4) [OF inv'] by (simp add: ack(1) distinct_map_filter)
    then show ?thesis unfolding p' using True i by (simp add: applyTerminatedJobs_other)
  next
    case False
    have "j \<notin> snd ` set (runningJobs ?q)"
    proof
      assume "j \<in> snd ` set (runningJobs ?q)"
      then obtain i' where i': "(i', j) \<in> set (runningJobs ?q)" by auto
      then have "(i', j) \<in> set (runningJobs (meanwhile p))" by (simp add: ack(1))
      moreover have "(i, j) \<in> set (runningJobs (meanwhile p))" using assms(3,6) by (auto simp: continues_def)
      ultimately have "i' = i" using jobPool_invD(5) [OF inv'] by blast
      with i' False show False by simp
    qed
    then show ?thesis unfolding p' by (simp add: applyTerminatedJobs_gone)
  qed
  obtain recs where "rj_logRecords (jobs (meanwhile p) j) = rj_logRecords (jobs p j) @ recs"
    using assms(3,6) by (auto simp: continues_def)
  with a 1(2,6) pend ack(2) [OF assms(6)] show ?thesis by simp
qed

text \<open>The sample: the task 1 runs on the runner 7, which has a record pending and logs another meanwhile.\<close>

lemma sample_round:
  "RunnerMiddleware ''t'' (api_UpdateRunner sampleEnv (progressBody samplePool)) runningWorld =
     Some (OkJSON [], LogWithTime 0 1600 ''hello'' runningWorld)"
proof -
  have b: "progressBody samplePool = Some [progressOf samplePool (1, 0)]"
    by (simp add: progressBody_def snapshotRunningJobs_def)
  have t: "localTask runningWorld 1 = Some (Some 0)" by code_simp
  have g: "GetTask sampleEnv 1 runningWorld = Some (Inr (Some 0), runningWorld)"
    using GetTask_local [of sampleEnv 1 runningWorld] t by (simp add: sampleEnv_def)
  have st: "statusOf runningWorld 0 = TaskRunningStatus" "Task_RunnerID (TR_Task (heap runningWorld 0)) = Some 7"
    by (simp_all add: sample_defs statusOf_def)
  have r: "GetRunnerByToken ''t'' (db runningWorld) = Inr (sampleRunner 7)" by code_simp
  have s: "SetStatus sampleEnv 0 TaskRunningStatus (LogWithTime 0 1600 ''hello'' runningWorld) =
      Some (LogWithTime 0 1600 ''hello'' runningWorld)"
    using st(1) by (simp add: SetStatus_def statusOf_def)
  have a: "acceptProgress sampleEnv (sampleRunner 7) 0 (progressOf samplePool (1, 0)) runningWorld =
      Some (LogWithTime 0 1600 ''hello'' runningWorld)"
    using s st(1) by (simp add: acceptProgress_def statusOf_def IsFinished_simps)
  have "progressJob sampleEnv (sampleRunner 7) (progressOf samplePool (1, 0)) ([], runningWorld) =
      Some (None, [], LogWithTime 0 1600 ''hello'' runningWorld)"
    using g st a by (simp add: progressJob_def sampleRunner_def)
  then show ?thesis
    using r by (simp add: RunnerMiddleware_def api_UpdateRunner_def b sampleRunner_def)
qed

theorem log_lines_arrive_once_witness:
  "\<exists>p' w'. progressRound sampleEnv ''t'' (runningJob_LogWithTime 0 1700 ''world'') runningWorld samplePool = Some (True, p', w') \<and>
     map log_output (linesOf w' 0) = [''hello''] \<and>
     map LogRecord_Message (rj_logRecords (jobs p' 0)) = [''world'']"
proof -
  let ?f = "runningJob_LogWithTime 0 1700 ''world''"
  obtain p' w' where rnd: "progressRound sampleEnv ''t'' ?f runningWorld samplePool = Some (True, p', w')"
    by (simp add: progressRound_def sample_round sendProgress_def progressReply_def Let_def)
  have c: "continues samplePool (?f samplePool)"
    using jobPool_inv_onlyJob [OF samplePool_inv onlyJob_intros(1)]
    by (auto simp: continues_def runningJob_LogWithTime_def)
  have t: "localTask runningWorld 1 = Some (Some 0)" by code_simp
  have r: "GetRunnerByToken ''t'' (db runningWorld) = Inr (sampleRunner 7)" by code_simp
  have "linesOf w' 0 = linesOf runningWorld 0 @ map (asLog 0) (rj_logRecords (jobs samplePool 0)) \<and>
      rj_logRecords (jobs (?f samplePool) 0) = rj_logRecords (jobs samplePool 0) @ rj_logRecords (jobs p' 0)"
    by (rule log_lines_arrive_once [OF _ samplePool_inv c rnd r _ t])
       (simp_all add: sample_defs statusOf_def IsFinished_simps)
  then have "linesOf w' 0 = map (asLog 0) (rj_logRecords (jobs samplePool 0))"
      "rj_logRecords (jobs p' 0) = [\<lparr>LogRecord_Time = 1700, LogRecord_Message = ''world''\<rparr>]"
    by (simp_all add: linesOf_def sample_defs runningJob_LogWithTime_def)
  then show ?thesis using rnd by (simp add: asLog_def)
qed

text \<open>C28. A runner that reports on a task it has lost is stopped. When the task is assigned to another runner
  or to none, or is finished, a successful round leaves the task and its lines as they were, and after it the
  runner has dropped the job: its process was killed and its status is stopped, unless the job had finished by itself.\<close>

theorem lost_job_is_stopped:
  assumes "\<not> HAEnabled env" and "jobPool_inv p" and "continues p (meanwhile p)"
    and "progressRound env token meanwhile w p = Some (True, p', w')"
    and "GetRunnerByToken token (db w) = Inr rn" and "(i, j) \<in> set (runningJobs p)"
    and "localTask w i = Some (Some r)"
    and "Task_RunnerID (TR_Task (heap w r)) \<noteq> Some (Runner_ID rn) \<or> IsFinished (statusOf w r)"
  shows "heap w' r = heap w r \<and> linesOf w' r = linesOf w r \<and> getRunningJob i p' = None \<and>
    (IsFinished (rj_status (jobs p j)) \<or> IsFinished (rj_status (jobs (meanwhile p) j)) \<or>
     rj_status (jobs p' j) = TaskStoppedStatus \<and> ex_killed (rj_job (jobs p' j)))"
proof -
  from progressRound_accepted [OF assms(1-7)] obtain ts js where
    l: "progressLoop env rn js ([], w) = Some (OkJSON ts, w')" and job: "progressOf p (i, j) \<in> set js"
    and d: "distinct (map Progress_ID js)"
    and p': "p' = applyTerminatedJobs ts (fold acknowledge (map (progressOf p) (runningJobs p)) (meanwhile p))" by blast
  let ?q = "fold acknowledge (map (progressOf p) (runningJobs p)) (meanwhile p)"
  from progressLoop_focus [OF assms(1) d job l] assms(7) obtain w1 ts1 ts2 w2 where
    1: "heap w1 r = heap w r" "linesOf w1 r = linesOf w r" "localTask w1 i = Some (Some r)"
      "progressJob env rn (progressOf p (i, j)) (ts1, w1) = Some (None, ts2, w2)"
      "heap w' r = heap w2 r" "linesOf w' r = linesOf w2 r" "i \<in> set ts \<longleftrightarrow> i \<in> set ts2"
    by auto
  have g: "GetTask env i w1 = Some (Inr (Some r), w1)" using GetTask_local [OF assms(1)] 1(3) by simp
  have "w2 = w1 \<and> i \<in> set ts2"
    using 1(1,4) g assms(8) by (auto simp: progressJob_def Let_def statusOf_def split: if_splits)
  then have srv: "heap w' r = heap w r" "linesOf w' r = linesOf w r" and i: "i \<in> set ts" using 1 by auto
  have gone: "getRunningJob i p' = None"
    using i by (auto simp: p' getRunningJob_def applyTerminatedJobs_running map_of_eq_None_iff)
  note ack = acknowledged [OF assms(3)]
  have inv': "jobPool_inv (meanwhile p)" using assms(3) by (simp add: continues_def)
  have dq: "distinct (map fst (runningJobs ?q))" "distinct (map snd (runningJobs ?q))"
    using jobPool_invD(2,4) [OF inv'] by (simp_all add: ack(1) distinct_map_filter)
  have "rj_status (jobs p' j) = TaskStoppedStatus \<and> ex_killed (rj_job (jobs p' j))"
    if "\<not> IsFinished (rj_status (jobs p j))" "\<not> IsFinished (rj_status (jobs (meanwhile p) j))"
  proof -
    have "(i, j) \<in> set (runningJobs (meanwhile p))" using assms(3,6) by (auto simp: continues_def)
    with that(1) have "(i, j) \<in> set (runningJobs ?q)" by (simp add: ack(1))
    from applyTerminatedJobs_hit [OF dq this i] that(2) show ?thesis
      unfolding p' by (simp add: ack(2) [OF assms(6)])
  qed
  with srv gone show ?thesis by blast
qed

theorem lost_job_is_stopped_witness:
  "\<exists>p' w'. progressRound sampleEnv ''t'' (\<lambda>q. q)
       (modTask 0 (\<lambda>t. t\<lparr>Task_RunnerID := Some 8\<rparr>) runningWorld) samplePool = Some (True, p', w') \<and>
     getRunningJob 1 p' = None \<and> rj_status (jobs p' 0) = TaskStoppedStatus \<and> ex_killed (rj_job (jobs p' 0))"
proof -
  let ?w = "modTask 0 (\<lambda>t. t\<lparr>Task_RunnerID := Some 8\<rparr>) runningWorld"
  have b: "progressBody samplePool = Some [progressOf samplePool (1, 0)]"
    by (simp add: progressBody_def snapshotRunningJobs_def)
  have t: "localTask ?w 1 = Some (Some 0)" by code_simp
  have g: "GetTask sampleEnv 1 ?w = Some (Inr (Some 0), ?w)"
    using GetTask_local [of sampleEnv 1 ?w] t by (simp add: sampleEnv_def)
  have r: "GetRunnerByToken ''t'' (db ?w) = Inr (sampleRunner 7)" by code_simp
  have m: "RunnerMiddleware ''t'' (api_UpdateRunner sampleEnv (progressBody samplePool)) ?w = Some (OkJSON [1], ?w)"
    using r g by (simp add: RunnerMiddleware_def api_UpdateRunner_def b sampleRunner_def progressJob_def Let_def)
  obtain p' where rnd: "progressRound sampleEnv ''t'' (\<lambda>q. q) ?w samplePool = Some (True, p', ?w)"
    by (simp add: progressRound_def m sendProgress_def progressReply_def Let_def)
  have "getRunningJob 1 p' = None \<and> (IsFinished (rj_status (jobs samplePool 0)) \<or> IsFinished (rj_status (jobs samplePool 0)) \<or>
     rj_status (jobs p' 0) = TaskStoppedStatus \<and> ex_killed (rj_job (jobs p' 0)))"
    using lost_job_is_stopped [OF _ samplePool_inv continues_refl [OF samplePool_inv] rnd r _ t]
    by (simp add: sample_defs)
  then show ?thesis using rnd by auto
qed

subsection \<open>Unregistering\<close>

text \<open>Unregistering a runner always fails and changes nothing on the server: the request carries no token,
  so the server refuses it, whatever token the runner is configured with.\<close>

lemma unregister_always_fails: "\<exists>err. Unregister cfg w = Some (Some err, w)"
  by (auto simp: Unregister_def RunnerMiddleware_def unregisterError_def)

end
