(* ===== verification/Key_Delivery.thy ===== *)
theory Key_Delivery
  imports Job_Pool_Properties
begin

text \<open>
  The way of the access keys of a task: the server decrypts them and puts them into the answer to the poll,
  JSON drops the fields that are not meant for the wire, and the runner puts them back into the job before
  it builds the executor.
\<close>

subsection \<open>The keys of a task\<close>

definition vaultKeys :: "TemplateVault list \<Rightarrow> (ident \<times> AccessKey) list" where
  "vaultKeys vs =
     map (\<lambda>v. (the (TVault_VaultKeyID v), the (TVault_Vault v))) (filter (\<lambda>v. TVault_VaultKeyID v \<noteq> None) vs)"

definition sshKeys :: "Inventory \<Rightarrow> (ident \<times> AccessKey) list" where
  "sshKeys v = (case Inventory_SSHKeyID v of None \<Rightarrow> [] | Some i \<Rightarrow> [(i, Inventory_SSHKey v)])"

definition becomeKeys :: "Inventory \<Rightarrow> (ident \<times> AccessKey) list" where
  "becomeKeys v = (case Inventory_BecomeKeyID v of None \<Rightarrow> [] | Some i \<Rightarrow> [(i, Inventory_BecomeKey v)])"

definition inventoryRepoKeys :: "Inventory \<Rightarrow> (ident \<times> AccessKey) list" where
  "inventoryRepoKeys v =
     (case (Inventory_RepositoryID v, Inventory_Repository v) of
        (Some _, Some repo) \<Rightarrow> [(Repository_SSHKeyID repo, Repository_SSHKey repo)]
      | _ \<Rightarrow> [])"

text \<open>The keys with their IDs, in the order in which the server collects them.\<close>

definition keysIn :: "Inventory \<Rightarrow> Template \<Rightarrow> Repository \<Rightarrow> (ident \<times> AccessKey) list" where
  "keysIn v tpl repo =
     sshKeys v @ becomeKeys v @ vaultKeys (Template_Vaults tpl) @ inventoryRepoKeys v @
     [(Repository_SSHKeyID repo, Repository_SSHKey repo)]"

definition taskKeys :: "TaskRunner \<Rightarrow> (ident \<times> AccessKey) list" where
  "taskKeys tr = keysIn (TR_Inventory tr) (TR_Template tr) (TR_Repository tr)"

definition executorKeys :: "Executor \<Rightarrow> (ident \<times> AccessKey) list" where
  "executorKeys ex = keysIn (ex_Inventory ex) (ex_Template ex) (ex_Repository ex)"

text \<open>
  The keys travel by ID. Of several copies of one key, such as that of an inventory and of a repository that use
  the same row, the copy that is collected last is the one that is decrypted into the answer.
\<close>

definition lastCopy :: "(ident \<times> AccessKey) list \<Rightarrow> ident \<Rightarrow> AccessKey" where
  "lastCopy ks i = the (map_of (rev ks) i)"

lemma lastCopy_snoc: "lastCopy (ks @ [(i, k)]) i' = (if i' = i then k else lastCopy ks i')"
  by (simp add: lastCopy_def)

subsection \<open>Collecting\<close>

text \<open>The staged keys are the decrypted keys of those collected so far.\<close>

definition staged :: "PoolEnv \<Rightarrow> (ident \<times> AccessKey) list \<Rightarrow> AccessKeyMap \<Rightarrow> bool" where
  "staged env ks keys \<longleftrightarrow>
     distinct (map fst keys) \<and>
     (\<forall>i \<in> fst ` set ks. \<exists>d. svc_DeserializeSecret env (lastCopy ks i) = Inr d \<and> map_of keys i = Some d)"

lemma staged_update:
  assumes "staged env ks keys" and "svc_DeserializeSecret env k = Inr d"
  shows "staged env (ks @ [(i, k)]) (AList.update i d keys)"
  using assms by (auto simp: staged_def lastCopy_snoc update_conv distinct_update)

lemma collectKey_Some:
  assumes "collectKey env i k f (tr, keys) = (None, st')"
  shows "\<exists>d. svc_DeserializeSecret env k = Inr d \<and> st' = (f d tr, AList.update i d keys)"
  using assms by (auto simp: collectKey_def split: sum.splits)

lemma thenCollect_Some:
  assumes "thenCollect m f = Some (None, st')"
  shows "\<exists>st. m = Some (None, st) \<and> f st = Some (None, st')"
  using assms by (auto simp: thenCollect_def split: option.splits prod.splits)

text \<open>What collecting changes in the task: only the keys.\<close>

definition sameVault :: "TemplateVault \<Rightarrow> TemplateVault \<Rightarrow> bool" where
  "sameVault a b \<longleftrightarrow> b\<lparr>TVault_Vault := None\<rparr> = a\<lparr>TVault_Vault := None\<rparr>"

lemma sameVault_trans:
  assumes "list_all2 sameVault xs ys" and "list_all2 sameVault ys zs"
  shows "list_all2 sameVault xs zs"
  using _ assms by (rule list_all2_trans) (simp add: sameVault_def)

lemma collectVaults_staged:
  assumes "collectVaults env n vs (tr, keys) = Some (None, tr', keys')" and "staged env ks keys"
    and "n + length vs = length (Template_Vaults (TR_Template tr))"
  shows "staged env (ks @ vaultKeys vs) keys' \<and> TR_Inventory tr' = TR_Inventory tr \<and>
    TR_Repository tr' = TR_Repository tr \<and>
    list_all2 sameVault (Template_Vaults (TR_Template tr)) (Template_Vaults (TR_Template tr'))"
  using assms
proof (induction vs arbitrary: n tr keys ks)
  case Nil
  then show ?case by (simp add: vaultKeys_def sameVault_def list_all2_same)
next
  case (Cons v vs)
  show ?case
  proof (cases "TVault_VaultKeyID v")
    case None
    with Cons.prems Cons.IH [of "Suc n" tr keys ks] show ?thesis by (simp add: vaultKeys_def)
  next
    case (Some i)
    with Cons.prems(1) obtain k where k: "TVault_Vault v = Some k"
      and t: "thenCollect (Some (collectKey env i k (setVault n) (tr, keys))) (collectVaults env (Suc n) vs) =
        Some (None, tr', keys')" by (auto split: option.splits)
    from thenCollect_Some [OF t] obtain st where st: "collectKey env i k (setVault n) (tr, keys) = (None, st)"
      "collectVaults env (Suc n) vs st = Some (None, tr', keys')" by auto
    from collectKey_Some [OF st(1)] obtain d where d: "svc_DeserializeSecret env k = Inr d"
      "st = (setVault n d tr, AList.update i d keys)" by blast
    have vk: "vaultKeys (v # vs) = (i, k) # vaultKeys vs" by (simp add: vaultKeys_def Some k)
    have s: "staged env (ks @ [(i, k)]) (AList.update i d keys)"
      using Cons.prems(2) d(1) by (rule staged_update)
    have n: "n < length (Template_Vaults (TR_Template tr))" using Cons.prems(3) by simp
    have sv: "list_all2 sameVault (Template_Vaults (TR_Template tr)) (Template_Vaults (TR_Template (setVault n d tr)))"
      using n by (auto simp: setVault_def list_all2_conv_all_nth nth_list_update sameVault_def)
    have IH: "staged env ((ks @ [(i, k)]) @ vaultKeys vs) keys' \<and> TR_Inventory tr' = TR_Inventory (setVault n d tr) \<and>
        TR_Repository tr' = TR_Repository (setVault n d tr) \<and>
        list_all2 sameVault (Template_Vaults (TR_Template (setVault n d tr))) (Template_Vaults (TR_Template tr'))"
      by (rule Cons.IH [OF st(2) [unfolded d(2)] s]) (use Cons.prems(3) vk in \<open>simp_all add: setVault_def\<close>)
    have "list_all2 sameVault (Template_Vaults (TR_Template tr)) (Template_Vaults (TR_Template tr'))"
      using sv IH by (blast intro: sameVault_trans)
    with IH vk show ?thesis by (simp add: setVault_def)
  qed
qed

text \<open>The parts of a task that a later step of the collection reads.\<close>

definition keepsParts :: "TaskRunner \<Rightarrow> TaskRunner \<Rightarrow> bool" where
  "keepsParts tr tr' \<longleftrightarrow>
     TR_Template tr' = TR_Template tr \<and> TR_Repository tr' = TR_Repository tr \<and>
     becomeKeys (TR_Inventory tr') = becomeKeys (TR_Inventory tr) \<and>
     Inventory_RepositoryID (TR_Inventory tr') = Inventory_RepositoryID (TR_Inventory tr) \<and>
     Inventory_Repository (TR_Inventory tr') = Inventory_Repository (TR_Inventory tr)"

lemma collectInventoryKeys_staged:
  assumes "collectInventoryKeys env (tr, keys) = Some (None, tr', keys')" and "staged env ks keys"
  shows "staged env (ks @ sshKeys (TR_Inventory tr)) keys'" "keepsParts tr tr'"
proof -
  have "staged env (ks @ sshKeys (TR_Inventory tr)) keys' \<and> keepsParts tr tr'"
  proof (cases "Inventory_SSHKeyID (TR_Inventory tr)")
    case None
    with assms show ?thesis by (simp add: collectInventoryKeys_def sshKeys_def keepsParts_def)
  next
    case (Some i)
    with assms(1) obtain d where d: "svc_DeserializeSecret env (Inventory_SSHKey (TR_Inventory tr)) = Inr d"
      "keys' = AList.update i d keys" "tr' = tr\<lparr>TR_Inventory := (TR_Inventory tr)\<lparr>Inventory_SSHKey := d\<rparr>\<rparr>"
      by (auto simp: collectInventoryKeys_def dest!: collectKey_Some)
    with staged_update [OF assms(2) d(1), of i] Some show ?thesis
      by (simp add: sshKeys_def keepsParts_def becomeKeys_def split: option.split)
  qed
  then show "staged env (ks @ sshKeys (TR_Inventory tr)) keys'" "keepsParts tr tr'" by auto
qed

lemma collectBecomeKey_staged:
  assumes "collectBecomeKey env (tr, keys) = Some (None, tr', keys')" and "staged env ks keys"
  shows "staged env (ks @ becomeKeys (TR_Inventory tr)) keys'"
    "TR_Template tr' = TR_Template tr" "TR_Repository tr' = TR_Repository tr"
    "Inventory_RepositoryID (TR_Inventory tr') = Inventory_RepositoryID (TR_Inventory tr)"
    "Inventory_Repository (TR_Inventory tr') = Inventory_Repository (TR_Inventory tr)"
proof -
  have "staged env (ks @ becomeKeys (TR_Inventory tr)) keys' \<and> TR_Template tr' = TR_Template tr \<and>
      TR_Repository tr' = TR_Repository tr \<and>
      Inventory_RepositoryID (TR_Inventory tr') = Inventory_RepositoryID (TR_Inventory tr) \<and>
      Inventory_Repository (TR_Inventory tr') = Inventory_Repository (TR_Inventory tr)"
  proof (cases "Inventory_BecomeKeyID (TR_Inventory tr)")
    case None
    with assms show ?thesis by (simp add: collectBecomeKey_def becomeKeys_def)
  next
    case (Some i)
    with assms(1) obtain d where d: "svc_DeserializeSecret env (Inventory_BecomeKey (TR_Inventory tr)) = Inr d"
      "keys' = AList.update i d keys" "tr' = tr\<lparr>TR_Inventory := (TR_Inventory tr)\<lparr>Inventory_BecomeKey := d\<rparr>\<rparr>"
      by (auto simp: collectBecomeKey_def dest!: collectKey_Some)
    with staged_update [OF assms(2) d(1), of i] Some show ?thesis by (simp add: becomeKeys_def)
  qed
  then show "staged env (ks @ becomeKeys (TR_Inventory tr)) keys'"
    "TR_Template tr' = TR_Template tr" "TR_Repository tr' = TR_Repository tr"
    "Inventory_RepositoryID (TR_Inventory tr') = Inventory_RepositoryID (TR_Inventory tr)"
    "Inventory_Repository (TR_Inventory tr') = Inventory_Repository (TR_Inventory tr)" by auto
qed

lemma collectInventoryRepository_staged:
  assumes "collectInventoryRepository env (tr, keys) = Some (None, tr', keys')" and "staged env ks keys"
  shows "staged env (ks @ inventoryRepoKeys (TR_Inventory tr)) keys' \<and>
    TR_Template tr' = TR_Template tr \<and> TR_Repository tr' = TR_Repository tr \<and>
    map_option json_Repository (Inventory_Repository (TR_Inventory tr')) =
       map_option json_Repository (Inventory_Repository (TR_Inventory tr)) \<and>
    (Inventory_RepositoryID (TR_Inventory tr) \<noteq> None \<longrightarrow> Inventory_Repository (TR_Inventory tr) \<noteq> None)"
proof (cases "Inventory_RepositoryID (TR_Inventory tr)")
  case None
  with assms show ?thesis by (simp add: collectInventoryRepository_def inventoryRepoKeys_def)
next
  case (Some i)
  with assms(1) obtain repo where repo: "Inventory_Repository (TR_Inventory tr) = Some repo"
    by (auto simp: collectInventoryRepository_def split: option.splits)
  with assms(1) Some obtain d where d: "svc_DeserializeSecret env (Repository_SSHKey repo) = Inr d"
    "keys' = AList.update (Repository_SSHKeyID repo) d keys"
    "tr' = tr\<lparr>TR_Inventory := (TR_Inventory tr)\<lparr>Inventory_Repository := Some (repo\<lparr>Repository_SSHKey := d\<rparr>)\<rparr>\<rparr>"
    by (auto simp: collectInventoryRepository_def dest!: collectKey_Some)
  with staged_update [OF assms(2) d(1), of "Repository_SSHKeyID repo"] Some repo show ?thesis
    by (simp add: inventoryRepoKeys_def json_Repository_def)
qed

lemma collectTaskAccessKeys_staged:
  assumes c: "collectTaskAccessKeys env (tr, []) = Some (None, tr', keys)"
  shows "staged env (taskKeys tr) keys \<and> list_all2 sameVault (Template_Vaults (TR_Template tr)) (Template_Vaults (TR_Template tr')) \<and>
    map_option json_Repository (Inventory_Repository (TR_Inventory tr')) =
       map_option json_Repository (Inventory_Repository (TR_Inventory tr)) \<and>
    (Inventory_RepositoryID (TR_Inventory tr) \<noteq> None \<longrightarrow> Inventory_Repository (TR_Inventory tr) \<noteq> None)"
proof -
  let ?v = "TR_Inventory tr" and ?vs = "Template_Vaults (TR_Template tr)"
  let ?k1 = "[] @ sshKeys ?v" and ?k2 = "([] @ sshKeys ?v) @ becomeKeys ?v"
  let ?k3 = "?k2 @ vaultKeys ?vs" and ?k4 = "(?k2 @ vaultKeys ?vs) @ inventoryRepoKeys ?v"
  from c [unfolded collectTaskAccessKeys_def]
  obtain t1 k1 t2 k2 t3 k3 t4 k4 where s: "collectInventoryKeys env (tr, []) = Some (None, t1, k1)"
    "collectBecomeKey env (t1, k1) = Some (None, t2, k2)"
    "collectVaults env 0 (Template_Vaults (TR_Template t2)) (t2, k2) = Some (None, t3, k3)"
    "collectInventoryRepository env (t3, k3) = Some (None, t4, k4)" "collectRepositoryKey env (t4, k4) = Some (None, tr', keys)"
    by (auto dest!: thenCollect_Some)
  have 0: "staged env [] []" by (simp add: staged_def)
  note 1 = collectInventoryKeys_staged [OF s(1) 0]
  then have b: "becomeKeys (TR_Inventory t1) = becomeKeys ?v" by (simp add: keepsParts_def)
  note 2 = collectBecomeKey_staged [OF s(2) 1(1), unfolded b]
  have t2: "TR_Template t2 = TR_Template tr" using 1(2) 2(2) by (simp add: keepsParts_def)
  note 3 = collectVaults_staged [OF s(3) [unfolded t2] 2(1)]
  have v3: "inventoryRepoKeys (TR_Inventory t3) = inventoryRepoKeys ?v"
    "Inventory_Repository (TR_Inventory t3) = Inventory_Repository ?v"
    "Inventory_RepositoryID (TR_Inventory t3) = Inventory_RepositoryID ?v" "TR_Repository t3 = TR_Repository tr"
    using 1(2) 2 3 t2 by (simp_all add: keepsParts_def inventoryRepoKeys_def)
  note 4 = collectInventoryRepository_staged [OF s(4), of "?k3", unfolded v3]
  have r4: "TR_Repository t4 = TR_Repository tr" using 4 3 t2 by simp
  from s(5) obtain d where d: "svc_DeserializeSecret env (Repository_SSHKey (TR_Repository tr)) = Inr d"
    "keys = AList.update (Repository_SSHKeyID (TR_Repository tr)) d k4" "TR_Template tr' = TR_Template t4"
    "TR_Inventory tr' = TR_Inventory t4"
    unfolding collectRepositoryKey_def Let_def by (auto simp: r4 dest!: collectKey_Some)
  have "staged env (?k4 @ [(Repository_SSHKeyID (TR_Repository tr), Repository_SSHKey (TR_Repository tr))]) keys"
    unfolding d(2) using 3 4 t2 d(1) by (intro staged_update) (simp_all add: taskKeys_def keysIn_def)
  then show ?thesis using 3 4 t2 d(3,4) by (simp add: taskKeys_def keysIn_def)
qed

subsection \<open>Delivering\<close>

lemma sameVault_id: "sameVault a b \<Longrightarrow> TVault_VaultKeyID b = TVault_VaultKeyID a"
  unfolding sameVault_def by (drule arg_cong [of _ _ TVault_VaultKeyID]) simp

lemma vaultKeys_hydrate:
  assumes "list_all2 sameVault vs vs'"
  shows "vaultKeys (map (hydrateVault keys) (map (\<lambda>v. v\<lparr>TVault_Vault := None\<rparr>) vs')) =
    map (\<lambda>(i, _). (i, keyOf keys i)) (vaultKeys vs)"
  using assms
proof induction
  case (Cons v vs v' vs')
  then show ?case
    using sameVault_id [OF Cons(1)] by (cases "TVault_VaultKeyID v") (simp_all add: vaultKeys_def hydrateVault_def)
qed (simp add: vaultKeys_def)

lemma inventory_hydrate:
  assumes "map_option json_Repository repo' = map_option json_Repository (Inventory_Repository v)"
    and "Inventory_RepositoryID v \<noteq> None \<longrightarrow> Inventory_Repository v \<noteq> None"
  shows "sshKeys (hydrateInventory keys ((json_Inventory v)\<lparr>Inventory_Repository := map_option json_Repository repo'\<rparr>)) =
      map (\<lambda>(i, _). (i, keyOf keys i)) (sshKeys v)"
    "becomeKeys (hydrateInventory keys ((json_Inventory v)\<lparr>Inventory_Repository := map_option json_Repository repo'\<rparr>)) =
      map (\<lambda>(i, _). (i, keyOf keys i)) (becomeKeys v)"
    "inventoryRepoKeys (hydrateInventory keys ((json_Inventory v)\<lparr>Inventory_Repository := map_option json_Repository repo'\<rparr>)) =
      map (\<lambda>(i, _). (i, keyOf keys i)) (inventoryRepoKeys v)"
  unfolding assms(1) using assms(2)
  by (auto simp: hydrateInventory_def json_Inventory_def json_Repository_def sshKeys_def becomeKeys_def
      inventoryRepoKeys_def Let_def split: option.splits)

lemma map_of_updates:
  assumes "distinct (map fst keys)" and "map_of keys i = Some d"
  shows "map_of (AList.updates (map fst keys) (map snd keys) al) i = Some d"
proof -
  have "map_of (rev keys) i = Some d"
    using assms by (simp add: map_of_eq_Some_iff rev_map [symmetric] del: rev_map)
  then show ?thesis by (simp add: updates_conv' map_upds_def zip_map_fst_snd)
qed

lemma prepareRemoteJob_prepared:
  assumes "prepareRemoteJob env rn r (data, w) = Some (data', w')" and "NewJobs data' \<noteq> NewJobs data"
  shows "\<exists>secrets token tr keys. svc_GetTaskSurveySecrets env (projectOf w r) (idof w r) = Inr secrets \<and>
    collectTaskAccessKeys env (heap w r, []) = Some (None, tr, keys) \<and>
    data' = data\<lparr>AccessKeys := AList.updates (map fst keys) (map snd keys) (AccessKeys data),
      NewJobs := NewJobs data @ [jobDataOf (heap w r) tr secrets token]\<rparr>"
  using assms unfolding prepareRemoteJob_def Let_def prod.case
  by (auto split: sum.splits option.splits)

text \<open>The job as the runner completes it before it builds the executor.\<close>

definition completedJob :: "AccessKeyMap \<Rightarrow> JobData \<Rightarrow> JobData" where
  "completedJob keys d =
     hydrateJobAccessKeys keys (d\<lparr>Job_Inventory := (Job_Inventory d)\<lparr>Inventory_Repository := Job_InventoryRepository d\<rparr>\<rparr>)"

lemma completedJob_keys:
  assumes "list_all2 sameVault (Template_Vaults (TR_Template tr)) (Template_Vaults (TR_Template tr'))"
    and "map_option json_Repository (Inventory_Repository (TR_Inventory tr')) =
       map_option json_Repository (Inventory_Repository (TR_Inventory tr))"
    and "Inventory_RepositoryID (TR_Inventory tr) \<noteq> None \<longrightarrow> Inventory_Repository (TR_Inventory tr) \<noteq> None"
    and h: "h = completedJob keys (json_JobData (jobDataOf tr tr' secrets token))"
  shows "keysIn (Job_Inventory h) (Job_Template h) (Job_Repository h) = map (\<lambda>(i, _). (i, keyOf keys i)) (taskKeys tr)"
    "Task_Secret (Job_Task h) = secrets"
proof -
  have "Job_Inventory h = hydrateInventory keys ((json_Inventory (TR_Inventory tr))\<lparr>Inventory_Repository :=
      map_option json_Repository (Inventory_Repository (TR_Inventory tr'))\<rparr>)"
    "Template_Vaults (Job_Template h) =
      map (hydrateVault keys) (map (\<lambda>v. v\<lparr>TVault_Vault := None\<rparr>) (Template_Vaults (TR_Template tr')))"
    "Repository_SSHKeyID (Job_Repository h) = Repository_SSHKeyID (TR_Repository tr)"
    "Repository_SSHKey (Job_Repository h) = keyOf keys (Repository_SSHKeyID (TR_Repository tr))"
    by (simp_all add: h completedJob_def hydrateJobAccessKeys_def json_JobData_def jobDataOf_def json_Inventory_def
        json_Template_def json_Repository_def)
  with assms(1-3) show "keysIn (Job_Inventory h) (Job_Template h) (Job_Repository h) =
      map (\<lambda>(i, _). (i, keyOf keys i)) (taskKeys tr)"
    by (simp add: keysIn_def taskKeys_def inventory_hydrate vaultKeys_hydrate del: map_map)
  show "Task_Secret (Job_Task h) = secrets"
    by (simp add: h completedJob_def hydrateJobAccessKeys_def json_JobData_def jobDataOf_def)
qed

text \<open>C12. The keys of a task reach the executor. When the server has prepared a task for a polling runner that does not
  yet hold it, the job that the runner builds from the decoded answer has a key in the place of every key of the
  task (of the inventory, of the vaults, of the repositories): the decryption of the key with that ID, without the
  fields that are not sent. Where several places hold a copy of the same key, it is the copy that the server
  collects last that is decrypted for all of them. The survey secrets of the job are those the server read for
  the task. The keys are decrypted as \<open>svc_DeserializeSecret\<close> says; a job of which a key can not be decrypted is not
  sent, and then the list of new jobs stays as it was.\<close>

theorem keys_reach_executor:
  assumes "prepareRemoteJob env rn r (data, w) = Some (data', w')" and "NewJobs data' \<noteq> NewJobs data"
    and "resp = json_RunnerState data'"
    and "provider p = Some LocalExecutorProvider_NewExecutor"
    and "getRunningJob (idof w r) p = None" and "\<not> existsInQueue (idof w r) p"
  shows "\<exists>t. jobQueue (acceptNewJob (AccessKeys resp) (last (NewJobs resp)) p) = jobQueue p @ [t] \<and>
    job_taskID t = idof w r \<and>
    svc_GetTaskSurveySecrets env (projectOf w r) (idof w r) = Inr (ex_Secret (job_job t)) \<and>
    list_all2 (\<lambda>(i, k) (i', k'). i' = i \<and> 
        (\<exists>d. svc_DeserializeSecret env (lastCopy (taskKeys (heap w r)) i) = Inr d \<and> k' = json_AccessKey d))
      (taskKeys (heap w r)) (executorKeys (job_job t))"
proof -
  let ?tr = "heap w r"
  from prepareRemoteJob_prepared [OF assms(1,2)] obtain secrets token tr keys where
    sec: "svc_GetTaskSurveySecrets env (projectOf w r) (idof w r) = Inr secrets"
    and col: "collectTaskAccessKeys env (?tr, []) = Some (None, tr, keys)"
    and data': "data' = data\<lparr>AccessKeys := AList.updates (map fst keys) (map snd keys) (AccessKeys data),
      NewJobs := NewJobs data @ [jobDataOf ?tr tr secrets token]\<rparr>" by blast
  note st = collectTaskAccessKeys_staged [OF col]
  let ?K = "AccessKeys resp" and ?d = "json_JobData (jobDataOf ?tr tr secrets token)"
  have last: "last (NewJobs resp) = ?d" by (simp add: assms(3) data' json_RunnerState_def)
  have K: "\<exists>d. svc_DeserializeSecret env (lastCopy (taskKeys ?tr) i) = Inr d \<and> keyOf ?K i = json_AccessKey d" if "(i, k) \<in> set (taskKeys ?tr)" for i k
  proof -
    from st that obtain d where d: "svc_DeserializeSecret env (lastCopy (taskKeys ?tr) i) = Inr d" "distinct (map fst keys)" "map_of keys i = Some d"
      by (fastforce simp: staged_def)
    then have "keyOf ?K i = json_AccessKey d"
      using map_of_updates [OF d(2,3), of "AccessKeys data"]
      by (simp add: keyOf_def assms(3) data' json_RunnerState_def map_of_map)
    with d(1) show ?thesis by blast
  qed
  define h where "h = completedJob ?K ?d"
  define t where "t = \<lparr>job_username = Job_Username ?d, job_incomingVersion = Job_IncomingVersion ?d, job_alias = Job_Alias ?d,
    job_job = \<lparr>ex_Task = Job_Task h, ex_Template = Job_Template h, ex_Inventory = Job_Inventory h, ex_Repository = Job_Repository h,
      ex_Environment = Job_Environment h, ex_Secret = Task_Secret (Job_Task h), ex_JWT = Job_JWT h, ex_killed = False\<rparr>,
    job_taskID = Task_ID (Job_Task ?d), job_status = Task_Status (Job_Task ?d)\<rparr>"
  have id: "Task_ID (Job_Task ?d) = idof w r" by (simp add: json_JobData_def jobDataOf_def idof_def)
  have "acceptNewJob ?K ?d p = enqueue t p"
    using assms(4-6) unfolding acceptNewJob_def admitJob_def newExecutor_def Let_def id completedJob_def [symmetric] h_def [symmetric]
    by (simp add: LocalExecutorProvider_NewExecutor_def t_def id)
  then have q: "jobQueue (acceptNewJob ?K (last (NewJobs resp)) p) = jobQueue p @ [t]" by (simp add: last enqueue_def)
  have h: "keysIn (Job_Inventory h) (Job_Template h) (Job_Repository h) = map (\<lambda>(i, _). (i, keyOf ?K i)) (taskKeys ?tr)"
    "Task_Secret (Job_Task h) = secrets"
    using st by (auto intro!: completedJob_keys [where secrets = secrets and token = token and tr' = tr] simp: h_def)
  have "list_all2 (\<lambda>(i, k) (i', k'). i' = i \<and>
        (\<exists>d. svc_DeserializeSecret env (lastCopy (taskKeys ?tr) i) = Inr d \<and> k' = json_AccessKey d)) (taskKeys ?tr) (executorKeys (job_job t))"
    using K by (auto simp: executorKeys_def t_def h list_all2_map2 list_all2_same)
  then show ?thesis using q sec h by (intro exI [of _ t]) (simp add: t_def id)
qed

text \<open>A task whose inventory and repository share one key, of which the repository already holds the decrypted copy.\<close>

definition openingEnv :: PoolEnv where
  "openingEnv = sampleEnv\<lparr>svc_DeserializeSecret := (\<lambda>k. Inr (k\<lparr>Key_String := ''plain''\<rparr>))\<rparr>"

definition sharingObj :: TaskRunner where
  "sharingObj =
     (sampleObj 1)\<lparr>TR_Inventory := zeroInventory\<lparr>Inventory_SSHKeyID := Some 3\<rparr>,
       TR_Repository := zeroRepository\<lparr>Repository_SSHKeyID := 3, Repository_SSHKey := zeroAccessKey\<lparr>Key_String := ''plain''\<rparr>\<rparr>\<rparr>"

definition sharingWorld :: World where
  "sharingWorld = emptyWorld\<lparr>heap := (heap emptyWorld)(0 := sharingObj)\<rparr>"

definition emptyState :: RunnerState where
  "emptyState = \<lparr>CurrentJobs = [], NewJobs = [], AccessKeys = [], ClearCache = False, CacheCleanProjectID = None\<rparr>"

theorem keys_reach_executor_witness:
  "\<exists>data' w' t. prepareRemoteJob openingEnv (sampleRunner 7) 0 (emptyState, sharingWorld) = Some (data', w') \<and>
     jobQueue (acceptNewJob (AccessKeys (json_RunnerState data')) (last (NewJobs (json_RunnerState data'))) idlePool) = [t] \<and>
     map (Key_String \<circ> snd) (taskKeys (heap sharingWorld 0)) = [[], ''plain''] \<and>
     map (Key_String \<circ> snd) (executorKeys (job_job t)) = [''plain'', ''plain'']"
proof -
  have obj: "heap sharingWorld 0 = sharingObj" by (simp add: sharingWorld_def)
  have keys: "taskKeys sharingObj = [(3, zeroAccessKey), (3, zeroAccessKey\<lparr>Key_String := ''plain''\<rparr>)]" by code_simp
  obtain data' w' where prep: "prepareRemoteJob openingEnv (sampleRunner 7) 0 (emptyState, sharingWorld) = Some (data', w')"
    "NewJobs data' \<noteq> NewJobs emptyState"
    unfolding prepareRemoteJob_def jobToken_def collectTaskAccessKeys_def collectInventoryKeys_def collectBecomeKey_def
      collectInventoryRepository_def collectRepositoryKey_def thenCollect_def collectKey_def Let_def obj
    by (simp add: openingEnv_def sharingObj_def sharingWorld_def sample_defs zeroInventory_def emptyState_def)
  obtain t where t: "jobQueue (acceptNewJob (AccessKeys (json_RunnerState data')) (last (NewJobs (json_RunnerState data'))) idlePool) =
      jobQueue idlePool @ [t]"
    "list_all2 (\<lambda>(i, k) (i', k'). i' = i \<and>
        (\<exists>d. svc_DeserializeSecret openingEnv (lastCopy (taskKeys sharingObj) i) = Inr d \<and> k' = json_AccessKey d))
      (taskKeys sharingObj) (executorKeys (job_job t))"
    using keys_reach_executor [OF prep, where resp = "json_RunnerState data'" and p = idlePool]
    by (auto simp: obj idlePool_def NewJobPool_def newExecutorProvider_def
        resolveExecutorType_def sampleConfig_def getRunningJob_def existsInQueue_def)
  have "map (Key_String \<circ> snd) (executorKeys (job_job t)) = [''plain'', ''plain'']"
    using t(2) unfolding keys
    by (auto simp: list_all2_Cons1 openingEnv_def json_AccessKey_def)
  moreover have "map (Key_String \<circ> snd) (taskKeys sharingObj) = [[], ''plain'']" unfolding keys by (simp add: zeroAccessKey_def)
  ultimately show ?thesis using prep(1) t(1)
    by (intro exI [of _ data'] exI [of _ w'] exI [of _ t]) (simp add: obj idlePool_def NewJobPool_def)
qed

end
