(* ===== verification/Runner_Process.thy ===== *)
theory Runner_Process
  imports Job_Pool_Properties
begin

text \<open>
  The runner process as a state machine, at the grain of the holds of its lock (\<^verbatim>\<open>JobPool.Run\<close>): the loop over the
  queue, the loop that accepts the jobs of an answer, the goroutines of the jobs and the report to the server
  interleave freely. The loop over the queue takes a job under one hold and enters it into the map of running jobs
  under another; the loop over the answer looks into the map, looks into the queue and enqueues under three.
\<close>

subsection \<open>The process\<close>

text \<open>How far the acceptance of the first job of the answer is.\<close>

datatype AcceptPhase = Unseen | NotRunning | NotQueued

text \<open>
  The pool, the job that the loop over the queue has taken and not yet entered, and the jobs of the answer that are
  still to be accepted, with the keys. There is one loop over the queue, and one poll at a time.
\<close>

record RunnerProcess =
  rp_pool :: JobPool
  rp_hand :: "job option"
  rp_answer :: "(AccessKeyMap \<times> JobData list \<times> AcceptPhase) option"

text \<open>One hold of the lock by the loop over the queue.\<close>

definition queueHold :: "RunnerProcess \<Rightarrow> RunnerProcess" where
  "queueHold s =
     (case rp_hand s of
        None \<Rightarrow>
          (case dequeue (rp_pool s) of
             None \<Rightarrow> s
           | Some (t, p) \<Rightarrow> s\<lparr>rp_pool := p, rp_hand := Some t\<rparr>)
      | Some t \<Rightarrow> s\<lparr>rp_pool := startJob t (rp_pool s), rp_hand := None\<rparr>)"

text \<open>One hold of the lock by the loop over the answer.\<close>

definition acceptHold :: "RunnerProcess \<Rightarrow> RunnerProcess" where
  "acceptHold s =
     (case rp_answer s of
        None \<Rightarrow> s
      | Some (keys, ds, phase) \<Rightarrow>
          (case ds of
             [] \<Rightarrow> s\<lparr>rp_answer := None\<rparr>
           | d # rest \<Rightarrow>
               let i = Task_ID (Job_Task d); p = rp_pool s in
               case phase of
                 Unseen \<Rightarrow>
                   s\<lparr>rp_answer := Some (if getRunningJob i p \<noteq> None then (keys, rest, Unseen) else (keys, ds, NotRunning))\<rparr>
               | NotRunning \<Rightarrow>
                   s\<lparr>rp_answer := Some (if existsInQueue i p then (keys, rest, Unseen) else (keys, ds, NotQueued))\<rparr>
               | NotQueued \<Rightarrow> s\<lparr>rp_pool := admitJob keys d p, rp_answer := Some (keys, rest, Unseen)\<rparr>))"

text \<open>
  The holds that change neither the queue nor add to the map: of the goroutines of the jobs, of the report, and of
  the synchronisation of statuses with an answer. Their arguments are arbitrary here.
\<close>

inductive jobStep :: "JobPool \<Rightarrow> JobPool \<Rightarrow> bool" where
  js_clock: "jobStep p (p\<lparr>clock := t\<rparr>)"
| js_log: "jobStep p (runningJob_LogWithTime j at msg p)"
| js_status: "jobStep p (runningJob_SetStatus j s p)"
| js_commit: "jobStep p (runningJob_SetCommit j h m p)"
| js_kill: "jobStep p (Executor_Kill j p)"
| js_ack: "jobStep p (ackLogRecords j n p)"
| js_delete: "jobStep p (deleteRunningJob i p)"
| js_cache: "jobStep p (clearCache resp p)"

inductive runner_step :: "RunnerProcess \<Rightarrow> RunnerProcess \<Rightarrow> bool" where
  rs_queue: "runner_step s (queueHold s)"
| rs_answer: "rp_answer s = None \<Longrightarrow> runner_step s (s\<lparr>rp_answer := Some (keys, ds, Unseen)\<rparr>)"
| rs_accept: "runner_step s (acceptHold s)"
| rs_job: "jobStep (rp_pool s) p \<Longrightarrow> runner_step s (s\<lparr>rp_pool := p\<rparr>)"

definition newProcess :: "RunnerConfig \<Rightarrow> (jref \<Rightarrow> runningJob) \<Rightarrow> go_time \<Rightarrow> RunnerProcess" where
  "newProcess cfg fresh at = \<lparr>rp_pool = NewJobPool cfg fresh at, rp_hand = None, rp_answer = None\<rparr>"

text \<open>The loops are the operations of the pool, cut at the holds.\<close>

lemma queueHold_twice:
  "rp_hand s = None \<Longrightarrow> dequeue (rp_pool s) = Some (t, p) \<Longrightarrow>
    queueHold (queueHold s) = s\<lparr>rp_pool := startJob t p, rp_hand := None\<rparr>"
  by (simp add: queueHold_def)

lemma acceptHold_job:
  "rp_answer s = Some (keys, d # ds, Unseen) \<Longrightarrow>
    \<exists>n \<le> 3. (acceptHold ^^ n) s = s\<lparr>rp_pool := acceptNewJob keys d (rp_pool s), rp_answer := Some (keys, ds, Unseen)\<rparr>"
proof -
  assume a: "rp_answer s = Some (keys, d # ds, Unseen)"
  let ?i = "Task_ID (Job_Task d)" and ?p = "rp_pool s"
  consider "getRunningJob ?i ?p \<noteq> None" | "getRunningJob ?i ?p = None" "existsInQueue ?i ?p"
    | "getRunningJob ?i ?p = None" "\<not> existsInQueue ?i ?p" by blast
  then show ?thesis
  proof cases
    case 1
    then show ?thesis using a by (intro exI [of _ "1 :: nat"]) (auto simp: acceptHold_def acceptNewJob_def Let_def)
  next
    case 2
    then show ?thesis using a by (intro exI [of _ "2 :: nat"]) (simp add: acceptHold_def acceptNewJob_def Let_def numeral_2_eq_2)
  next
    case 3
    then show ?thesis using a by (intro exI [of _ "3 :: nat"]) (simp add: acceptHold_def acceptNewJob_def Let_def numeral_3_eq_3)
  qed
qed

subsection \<open>A task is held once\<close>

text \<open>The tasks that wait in the queue, are in the hands of the loop, or are entered as running.\<close>

definition heldTasks :: "RunnerProcess \<Rightarrow> ident list" where
  "heldTasks s =
     map job_taskID (jobQueue (rp_pool s)) @ (case rp_hand s of None \<Rightarrow> [] | Some t \<Rightarrow> [job_taskID t]) @
     map fst (runningJobs (rp_pool s))"

text \<open>The loop has the task in its hands; the poll has begun to decide about the task.\<close>

definition moving :: "ident \<Rightarrow> RunnerProcess \<Rightarrow> bool" where
  "moving i s = (case rp_hand s of None \<Rightarrow> False | Some t \<Rightarrow> job_taskID t = i)"

definition deciding :: "ident \<Rightarrow> RunnerProcess \<Rightarrow> bool" where
  "deciding i s =
     (case rp_answer s of
        Some (keys, d # ds, phase) \<Rightarrow> phase \<noteq> Unseen \<and> Task_ID (Job_Task d) = i
      | _ \<Rightarrow> False)"

lemma deciding_iff:
  "deciding i s \<longleftrightarrow>
     (\<exists>keys d ds phase. rp_answer s = Some (keys, d # ds, phase) \<and> phase \<noteq> Unseen \<and> Task_ID (Job_Task d) = i)"
  by (auto simp: deciding_def split: option.splits list.splits)

text \<open>The states that are reached while the two loops never deal with the task at the same moment.\<close>

inductive runner_reachable :: "ident \<Rightarrow> RunnerConfig \<Rightarrow> RunnerProcess \<Rightarrow> bool" for i :: ident and cfg :: RunnerConfig where
  rr_init: "runner_reachable i cfg (newProcess cfg fresh at)"
| rr_step: "runner_reachable i cfg s \<Longrightarrow> \<not> (moving i s \<and> deciding i s) \<Longrightarrow> runner_step s s' \<Longrightarrow> runner_reachable i cfg s'"

text \<open>What holds in every interleaving: of the map, of the queue, and of what the poll has seen.\<close>

definition mapInv :: "JobPool \<Rightarrow> bool" where
  "mapInv p \<longleftrightarrow>
     distinct (map fst (runningJobs p)) \<and> distinct (map snd (runningJobs p)) \<and>
     (\<forall>(i, j)\<in>set (runningJobs p). j < nextJob p \<and> rj_taskID (jobs p j) = i)"

definition queueInv :: "RunnerProcess \<Rightarrow> bool" where
  "queueInv s \<longleftrightarrow>
     distinct (map job_taskID (jobQueue (rp_pool s))) \<and>
     (\<forall>keys d ds. rp_answer s = Some (keys, d # ds, NotQueued) \<longrightarrow>
        Task_ID (Job_Task d) \<notin> job_taskID ` set (jobQueue (rp_pool s)))"

definition onceInv :: "ident \<Rightarrow> RunnerProcess \<Rightarrow> bool" where
  "onceInv i s \<longleftrightarrow>
     (i \<in> job_taskID ` set (jobQueue (rp_pool s)) \<longrightarrow> \<not> moving i s \<and> getRunningJob i (rp_pool s) = None) \<and>
     (moving i s \<longrightarrow> getRunningJob i (rp_pool s) = None) \<and>
     (deciding i s \<longrightarrow> getRunningJob i (rp_pool s) = None)"

lemma startJob_cases:
  obtains (failed) "startJob t p = p"
  | (started) rj where "rj_taskID rj = job_taskID t"
      "jobs (startJob t p) = (jobs p)(nextJob p := rj)" "nextJob (startJob t p) = Suc (nextJob p)"
      "runningJobs (startJob t p) = AList.update (job_taskID t) (nextJob p) (runningJobs p)"
      "jobQueue (startJob t p) = jobQueue p"
proof (cases "job_status t = TaskFailStatus")
  case True
  then show ?thesis by (intro failed) (simp add: startJob_def)
next
  case False
  let ?rj = "Executor_SetLogger (job_job t)
    \<lparr>rj_status = TaskStartingStatus, rj_logRecords = [], rj_taskID = job_taskID t, rj_job = job_job t,
     rj_commit = None, rj_statusListeners = [], rj_logListeners = []\<rparr>"
  show ?thesis
    by (rule started [of ?rj]) (simp_all add: False startJob_def addRunningJob_def Executor_SetLogger_def Let_def)
qed

lemma admitJob_cases:
  obtains (skipped) "admitJob keys d p = p"
  | (admitted) t where "job_taskID t = Task_ID (Job_Task d)" "admitJob keys d p = enqueue t p"
proof (cases "admitJob keys d p = p")
  case False
  then show ?thesis
    using admitted by (force simp: admitJob_def Let_def split: sum.splits)
qed (rule skipped)

lemma update_snd: "set (AList.update k j xs) \<subseteq> insert (k, j) (set xs)"
  by (induction xs) auto

lemma distinct_snd_update:
  "distinct (map snd xs) \<Longrightarrow> j \<notin> snd ` set xs \<Longrightarrow> distinct (map snd (AList.update k j xs))"
proof (induction xs)
  case (Cons x xs)
  have "snd ` set (AList.update k j xs) \<subseteq> insert j (snd ` set xs)"
    using image_mono [OF update_snd [of k j xs], of snd] by simp
  then show ?case using Cons by (cases x) auto
qed simp

lemma mapInv_startJob: "mapInv p \<Longrightarrow> mapInv (startJob t p)"
proof (cases rule: startJob_cases [of t p])
  case (started rj)
  assume p: "mapInv p"
  then have old: "j < nextJob p" if "(k, j) \<in> set (runningJobs p)" for k j using that by (auto simp: mapInv_def)
  then have "nextJob p \<notin> snd ` set (runningJobs p)" by force
  then show ?thesis
    using p old update_snd [of "job_taskID t" "nextJob p" "runningJobs p"]
    unfolding mapInv_def started
    by (auto simp: distinct_update distinct_snd_update started(1) less_Suc_eq dest!: subsetD split: prod.splits)
qed simp

lemma jobStep_frame:
  assumes "jobStep p p'"
  shows "jobQueue p' = jobQueue p" "set (runningJobs p') \<subseteq> set (runningJobs p)" "mapInv p \<Longrightarrow> mapInv p'"
  using assms
  by (cases; auto simp: mapInv_def deleteRunningJob_def clearCache_def AList.delete_eq distinct_map_filter
      runningJob_LogWithTime_def runningJob_SetStatus_def runningJob_SetCommit_def Executor_Kill_def ackLogRecords_def
      split: if_splits prod.splits)+

lemma mapInv_step: "runner_step s s' \<Longrightarrow> mapInv (rp_pool s) \<Longrightarrow> mapInv (rp_pool s')"
proof (induction rule: runner_step.induct)
  case (rs_queue s)
  then show ?case
    by (auto simp: queueHold_def dequeue_def mapInv_startJob split: option.splits list.splits) (simp add: mapInv_def)
next
  case (rs_accept s)
  have "mapInv (admitJob keys d (rp_pool s))" for keys d
    using rs_accept by (cases rule: admitJob_cases [of keys d "rp_pool s"]) (simp_all add: mapInv_def enqueue_def)
  then show ?case
    using rs_accept by (auto simp: acceptHold_def Let_def split: option.splits list.splits AcceptPhase.splits)
qed (auto dest: jobStep_frame)

lemma queueInv_step: "runner_step s s' \<Longrightarrow> queueInv s \<Longrightarrow> queueInv s'"
proof (induction rule: runner_step.induct)
  case (rs_queue s)
  have keep: "jobQueue (startJob t p) = jobQueue p" for t p
    by (cases rule: startJob_cases [of t p]) simp_all
  show ?case
    using rs_queue
    by (auto simp: queueHold_def dequeue_def queueInv_def keep split: option.splits list.splits AcceptPhase.splits)
next
  case (rs_accept s)
  show ?case
  proof (cases "rp_answer s")
    case (Some a)
    obtain keys ds phase where a: "a = (keys, ds, phase)" by (cases a)
    show ?thesis
      using rs_accept Some a
      by (cases ds; cases phase; cases rule: admitJob_cases [of keys "hd ds" "rp_pool s"])
        (auto simp: acceptHold_def queueInv_def existsInQueue_def enqueue_def Let_def)
  qed (use rs_accept in \<open>simp add: acceptHold_def\<close>)
qed (auto simp: queueInv_def dest: jobStep_frame(1))

lemma onceInv_step:
  "runner_step s s' \<Longrightarrow> \<not> (moving i s \<and> deciding i s) \<Longrightarrow> queueInv s \<Longrightarrow> onceInv i s \<Longrightarrow> onceInv i s'"
proof (induction rule: runner_step.induct)
  case (rs_queue s)
  show ?case
  proof (cases "rp_hand s")
    case None
    then show ?thesis
      using rs_queue
      by (auto simp: queueHold_def dequeue_def onceInv_def queueInv_def moving_def deciding_iff getRunningJob_def
          split: option.splits list.splits)
  next
    case (Some t)
    then show ?thesis
      using rs_queue
      by (cases rule: startJob_cases [of t "rp_pool s"])
        (auto simp: queueHold_def onceInv_def moving_def deciding_iff getRunningJob_def update_conv
          split: option.splits list.splits)
  qed
next
  case (rs_accept s)
  show ?case
  proof (cases "rp_answer s")
    case (Some a)
    obtain keys ds phase where a: "a = (keys, ds, phase)" by (cases a)
    show ?thesis
      using rs_accept Some a
      by (cases ds; cases phase; cases rule: admitJob_cases [of keys "hd ds" "rp_pool s"])
        (auto simp: acceptHold_def onceInv_def queueInv_def moving_def deciding_iff getRunningJob_def
          existsInQueue_def enqueue_def Let_def)
  qed (use rs_accept in \<open>simp add: acceptHold_def\<close>)
next
  case (rs_job s p)
  have "getRunningJob i p = None" if "getRunningJob i (rp_pool s) = None"
    using that image_mono [OF jobStep_frame(2) [OF rs_job(1)], of fst]
    by (auto simp: getRunningJob_def map_of_eq_None_iff)
  then show ?case
    using rs_job jobStep_frame(1) [OF rs_job(1)] by (auto simp: onceInv_def moving_def deciding_iff)
qed (auto simp: onceInv_def moving_def deciding_iff)

lemma reachable_invs:
  "runner_reachable i cfg s \<Longrightarrow> mapInv (rp_pool s) \<and> queueInv s \<and> onceInv i s"
proof (induction rule: runner_reachable.induct)
  case (rr_init fresh at)
  show ?case
    by (simp add: newProcess_def NewJobPool_def mapInv_def queueInv_def onceInv_def moving_def deciding_def)
qed (blast intro: mapInv_step queueInv_step onceInv_step)

lemma count_distinct: "distinct xs \<Longrightarrow> count_list xs x = (if x \<in> set xs then 1 else 0)"
  by (induction xs) auto

text \<open>C29. A runner holds a task at most once. In whatever order its loop over the queue, its polls, the goroutines of
  its jobs and its reports take the lock, and however often the server offers a task again, the task is not twice among
  the jobs that wait in the queue, the job that the loop has just taken, and the running jobs; no task waits twice, and
  the map has a job of its own for each task, which was made for this task. The runs are those in which the loop never
  has the task in its hands (taken from the queue and not yet entered into the map, which are two holds of the lock)
  while a poll is between its tests of the same task and its decision; when that happens the task may be started
  twice (\<^verbatim>\<open>dequeue_window_runs_twice\<close>).\<close>
theorem runner_holds_task_once:
  assumes "runner_reachable i cfg s"
  shows "count_list (heldTasks s) i \<le> 1 \<and> distinct (map job_taskID (jobQueue (rp_pool s))) \<and>
    distinct (map fst (runningJobs (rp_pool s))) \<and> distinct (map snd (runningJobs (rp_pool s))) \<and>
    (\<forall>(k, j)\<in>set (runningJobs (rp_pool s)). rj_taskID (jobs (rp_pool s) j) = k)"
proof -
  have inv: "mapInv (rp_pool s)" "queueInv s" "onceInv i s"
    using reachable_invs [OF assms] by blast+
  have waiting: "count_list (map job_taskID (jobQueue (rp_pool s))) i =
      (if i \<in> job_taskID ` set (jobQueue (rp_pool s)) then 1 else 0)"
    using inv(2) by (simp add: count_distinct queueInv_def)
  have entered: "count_list (map fst (runningJobs (rp_pool s))) i = (if getRunningJob i (rp_pool s) = None then 0 else 1)"
    using inv(1) by (simp add: count_distinct mapInv_def getRunningJob_def map_of_eq_None_iff)
  have taken: "count_list (case rp_hand s of None \<Rightarrow> [] | Some t \<Rightarrow> [job_taskID t]) i = (if moving i s then 1 else 0)"
    by (simp add: moving_def split: option.split)
  have "count_list (heldTasks s) i \<le> 1"
    using inv(3) unfolding heldTasks_def count_list_append waiting entered taken onceInv_def by auto
  then show ?thesis
    using inv by (auto simp: mapInv_def queueInv_def)
qed

text \<open>The server offers task 1, which is accepted and started, and offers it again.\<close>

definition offer :: "RunnerProcess \<Rightarrow> RunnerProcess" where
  "offer s = s\<lparr>rp_answer := Some ([], [waitingJobData], Unseen)\<rparr>"

definition waitingJob :: job where
  "waitingJob =
     (let h = hydrateJobAccessKeys [] (waitingJobData\<lparr>Job_Inventory := zeroInventory\<lparr>Inventory_Repository := None\<rparr>\<rparr>) in
      \<lparr>job_username = ''admin'', job_incomingVersion = None, job_alias = [],
       job_job = \<lparr>ex_Task = Job_Task h, ex_Template = Job_Template h, ex_Inventory = Job_Inventory h,
         ex_Repository = Job_Repository h, ex_Environment = Job_Environment h, ex_Secret = Task_Secret (Job_Task h),
         ex_JWT = Job_JWT h, ex_killed = False\<rparr>,
       job_taskID = 1, job_status = TaskWaitingStatus\<rparr>)"

lemma waitingJob_fields [simp]: "job_taskID waitingJob = 1" "job_status waitingJob = TaskWaitingStatus"
  by (simp_all add: waitingJob_def Let_def)

lemma waitingJobData_task [simp]: "Task_ID (Job_Task waitingJobData) = 1"
  by (simp add: waitingJobData_def sampleTask_def)

lemma admit_waiting:
  "provider p = Some LocalExecutorProvider_NewExecutor \<Longrightarrow> admitJob [] waitingJobData p = enqueue waitingJob p"
  by (simp add: admitJob_def newExecutor_def LocalExecutorProvider_NewExecutor_def waitingJob_def Let_def)
    (simp add: waitingJobData_def sampleTask_def)

text \<open>What the loops see of a process: the queue, the map, the goroutines and the answer.\<close>

definition looksLike ::
  "RunnerProcess \<Rightarrow> job list \<Rightarrow> (ident \<times> jref) list \<Rightarrow> (jref \<times> job) list \<Rightarrow> job option \<Rightarrow> (JobData list \<times> AcceptPhase) option \<Rightarrow> bool" where
  "looksLike s q r g h a \<longleftrightarrow>
     jobQueue (rp_pool s) = q \<and> runningJobs (rp_pool s) = r \<and> goroutines (rp_pool s) = g \<and>
     rp_hand s = h \<and> rp_answer s = map_option (\<lambda>(ds, phase). ([], ds, phase)) a \<and>
     nextJob (rp_pool s) = length g \<and> provider (rp_pool s) = Some LocalExecutorProvider_NewExecutor"

definition reaches ::
  "ident \<Rightarrow> job list \<Rightarrow> (ident \<times> jref) list \<Rightarrow> (jref \<times> job) list \<Rightarrow> job option \<Rightarrow> (JobData list \<times> AcceptPhase) option \<Rightarrow> bool" where
  "reaches i q r g h a \<longleftrightarrow>
     (\<exists>s. runner_reachable i (sampleConfig False) s \<and> looksLike s q r g h a)"

lemma reach_step:
  assumes "reaches i q r g h a" and "\<And>s. looksLike s q r g h a \<Longrightarrow> looksLike (f s) q' r' g' h' a'"
    and "\<And>s. looksLike s q r g h a \<Longrightarrow> runner_step s (f s)"
    and "\<not> ((case h of None \<Rightarrow> False | Some t \<Rightarrow> job_taskID t = i) \<and>
            (case a of Some (d # ds, phase) \<Rightarrow> phase \<noteq> Unseen \<and> Task_ID (Job_Task d) = i | _ \<Rightarrow> False))"
  shows "reaches i q' r' g' h' a'"
proof -
  obtain s where s: "runner_reachable i (sampleConfig False) s" "looksLike s q r g h a"
    using assms(1) unfolding reaches_def by blast
  have "\<not> (moving i s \<and> deciding i s)"
    using s(2) assms(4) by (auto simp: looksLike_def moving_def deciding_iff split: option.splits)
  then have "runner_reachable i (sampleConfig False) (f s)" using rr_step [OF s(1)] assms(3) [OF s(2)] by blast
  then show ?thesis using assms(2) [OF s(2)] unfolding reaches_def by blast
qed

lemmas reach_queue = reach_step [where f = queueHold, OF _ _ rs_queue]
lemmas reach_accept = reach_step [where f = acceptHold, OF _ _ rs_accept]

lemma reaches_idle: "reaches i [] [] [] None None"
proof -
  have "looksLike (newProcess (sampleConfig False) (\<lambda>_. idleJob) 100) [] [] [] None None"
    by (simp add: looksLike_def newProcess_def NewJobPool_def sampleConfig_def newExecutorProvider_def resolveExecutorType_def)
  then show ?thesis unfolding reaches_def using rr_init by blast
qed

lemma reaches_offer: "reaches i q r g h None \<Longrightarrow> reaches i q r g h (Some ([waitingJobData], Unseen))"
  by (erule reach_step [where f = offer]) (auto simp: looksLike_def offer_def intro: rs_answer)

lemma reaches_take:
  "reaches i (t # q) r g None a \<Longrightarrow> reaches i q r g (Some t) a"
  by (erule reach_queue)
    (auto simp: looksLike_def queueHold_def dequeue_def)

lemma reaches_start:
  "reaches i q r g (Some waitingJob) None \<Longrightarrow> reaches i q (AList.update 1 (length g) r) (g @ [(length g, waitingJob)]) None None"
  by (erule reach_queue)
    (auto simp: looksLike_def queueHold_def startJob_def addRunningJob_def Executor_SetLogger_def Let_def)

lemma reaches_done: "reaches i q r g h (Some ([], Unseen)) \<Longrightarrow> reaches i q r g h None"
  by (erule reach_accept) (auto simp: looksLike_def acceptHold_def split: option.splits)

text \<open>A job that is in neither place is admitted by three holds; one that is running is skipped by the first.\<close>

lemma reaches_skip:
  "reaches i q r g None (Some ([waitingJobData], Unseen)) \<Longrightarrow> map_of r 1 \<noteq> None \<Longrightarrow> reaches i q r g None (Some ([], Unseen))"
  by (erule reach_accept)
    (auto simp: looksLike_def acceptHold_def getRunningJob_def Let_def)

lemma reaches_admit:
  assumes "reaches i q r g h (Some ([waitingJobData], Unseen))" and "map_of r 1 = None" and "1 \<notin> job_taskID ` set q"
    and "h \<noteq> None \<Longrightarrow> i \<noteq> 1"
  shows "reaches i (q @ [waitingJob]) r g h (Some ([], Unseen))"
proof -
  have "reaches i q r g h (Some ([waitingJobData], NotRunning))"
    using assms by (elim reach_accept)
      (auto simp: looksLike_def acceptHold_def getRunningJob_def Let_def)
  then have "reaches i q r g h (Some ([waitingJobData], NotQueued))"
    using assms(3,4) by (elim reach_accept)
      (auto simp: looksLike_def acceptHold_def existsInQueue_def Let_def split: option.splits)
  then show ?thesis
    using assms(4) by (elim reach_accept)
      (auto simp: looksLike_def acceptHold_def admit_waiting enqueue_def Let_def split: option.splits)
qed

lemma reaches_waiting: "reaches i [waitingJob] [] [] None None"
  using reaches_done [OF reaches_admit [OF reaches_offer [OF reaches_idle]]] by simp

theorem runner_holds_task_once_witness:
  "\<exists>s. runner_reachable 1 (sampleConfig False) s \<and> heldTasks s = [1] \<and> rp_answer s = Some ([], [], Unseen) \<and>
     count_list (heldTasks s) 1 \<le> 1"
proof -
  have "reaches 1 [] [(1, 0)] [(0, waitingJob)] None None"
    using reaches_start [OF reaches_take [OF reaches_waiting]] by simp
  then have "reaches 1 [] [(1, 0)] [(0, waitingJob)] None (Some ([], Unseen))"
    by (intro reaches_skip reaches_offer) simp_all
  then obtain s where s: "runner_reachable 1 (sampleConfig False) s"
      "looksLike s [] [(1, 0)] [(0, waitingJob)] None (Some ([], Unseen))"
    unfolding reaches_def by blast
  then have "heldTasks s = [1]" "rp_answer s = Some ([], [], Unseen)"
    by (simp_all add: looksLike_def heldTasks_def)
  then show ?thesis using s(1) runner_holds_task_once [OF s(1)] by blast
qed

text \<open>
  Without the restriction the task is started twice: the loop takes it from the queue, the poll sees it in neither
  place and queues it again, and both are entered. (The run is reachable with the restriction on another task.)
\<close>

lemma dequeue_window_runs_twice:
  "\<exists>s. runner_reachable 2 (sampleConfig False) s \<and> map (job_taskID \<circ> snd) (goroutines (rp_pool s)) = [1, 1] \<and>
     length (runningJobs (rp_pool s)) = 1"
proof -
  have "reaches 2 [waitingJob] [] [] (Some waitingJob) None"
    using reaches_done [OF reaches_admit [OF reaches_offer [OF reaches_take [OF reaches_waiting [of 2]]]]] by simp
  then have "reaches 2 [waitingJob] [(1, 0)] [(0, waitingJob)] None None"
    using reaches_start by fastforce
  then have "reaches 2 [] [(1, 1)] [(0, waitingJob), (1, waitingJob)] None None"
    using reaches_start [OF reaches_take] by fastforce
  then show ?thesis unfolding reaches_def looksLike_def by force
qed

end
