(* ===== verification/Secret_Properties.thy ===== *)
theory Secret_Properties
  imports Access_Keys
begin

text \<open>
  Properties of stored secrets: what was serialized is read back, secret files are read from the secrets directory only,
  the survey secrets of a task live as long as they should, and rekeying keeps every secret.
\<close>

subsection \<open>Round trip of a key\<close>

text \<open>The JSON codec reads what it wrote, and an encoded struct is not blank.\<close>

definition jsonOK :: "KeyEnv \<Rightarrow> bool" where
  "jsonOK env \<longleftrightarrow>
     (\<forall>k. ke_unmarshalSsh env (ke_marshalSsh env k) = Inr k \<and> trimSpace (ke_marshalSsh env k) \<noteq> []) \<and>
     (\<forall>k. ke_unmarshalLogin env (ke_marshalLogin env k) = Inr k \<and> trimSpace (ke_marshalLogin env k) \<noteq> [])"

text \<open>The part of a key that is secret, by its type.\<close>

definition secretPart :: "AccessKey \<Rightarrow> string \<times> LoginPassword option \<times> SshKey option" where
  "secretPart key =
     (if Key_Type key = AccessKeyString then (Key_String key, None, None)
      else if Key_Type key = AccessKeySSH then ([], None, Some (Key_SshKey key))
      else if Key_Type key = AccessKeyLoginPassword then ([], Some (Key_LoginPassword key), None)
      else ([], None, None))"

lemma Local_SerializeSecret_Some:
  assumes "Local_SerializeSecret env key = Inr key'" and "plaintextOf env key = Inr (Some p)"
  shows "\<exists>stored. EncryptAccessSecret (ke_lib env) (ke_nonce env) (ke_conf env) p = Inr stored \<and>
    key' = key\<lparr>Key_Secret := Some stored\<rparr>"
  using assms by (auto simp: Local_SerializeSecret_def split: sum.splits)

lemma Local_roundtrip:
  assumes "cryptoOK (ke_lib env) (ke_nonce env)" and "activeKey (ke_lib env) (ke_conf env) m"
    and "Local_SerializeSecret env key = Inr key'" and "plaintextOf env key = Inr (Some p)"
    and "ke_lib env' = ke_lib env" and "holdsKey (ke_lib env) (ke_conf env') m"
    and "Key_Secret row = Key_Secret key'" and "Key_SourceStorageType row = None"
  shows "Local_DeserializeSecret env' row = Inr p"
proof -
  obtain stored where s: "EncryptAccessSecret (ke_lib env) (ke_nonce env) (ke_conf env) p = Inr stored"
    "key' = key\<lparr>Key_Secret := Some stored\<rparr>"
    using Local_SerializeSecret_Some [OF assms(3,4)] by blast
  have "DecryptAccessSecret (ke_lib env) (ke_conf env') stored = Inr p"
    using rotation(1) [OF assms(1,2) s(1) assms(6)] .
  with encrypted_last [OF assms(2) s(1)] assms(5,7,8) s(2) show ?thesis
    by (simp add: Local_DeserializeSecret_def Local_deserialize_def openStored_def)
qed

lemma unmarshal_plaintext:
  assumes "jsonOK env" and "plaintextOf env key = Inr (Some p)" and "Key_Type row = Key_Type key"
  shows "\<exists>k. unmarshalAppropriateField env row p = Inr k \<and> secretPart k = secretPart key \<and>
    (keyCarriesSecret (Key_Type row) \<longrightarrow> trimSpace p \<noteq> [])"
proof -
  consider "Key_Type key = AccessKeyString" | "Key_Type key = AccessKeySSH" | "Key_Type key = AccessKeyLoginPassword"
    using assms(2) by (auto simp: plaintextOf_def split: if_splits)
  then show ?thesis
  proof cases
    case 1
    with assms show ?thesis
      by (intro exI [of _ "row\<lparr>Key_String := p\<rparr>"])
         (auto simp: plaintextOf_def unmarshalAppropriateField_def secretPart_def keyCarriesSecret_def split: if_splits)
  next
    case 2
    with assms show ?thesis
      by (intro exI [of _ "row\<lparr>Key_SshKey := Key_SshKey key\<rparr>"])
         (auto simp: plaintextOf_def unmarshalAppropriateField_def secretPart_def jsonOK_def Let_def split: if_splits)
  next
    case 3
    with assms show ?thesis
      by (intro exI [of _ "row\<lparr>Key_LoginPassword := Key_LoginPassword key\<rparr>"])
         (auto simp: plaintextOf_def unmarshalAppropriateField_def secretPart_def jsonOK_def Let_def split: if_splits)
  qed
qed

text \<open>C31. A secret survives storage and key rotation. When the service has serialized a key with a secret (text,
  SSH key or login) under the active encryption key, then from the row that was stored, under any later
  configuration that still holds the encryption key, and before the key expires, the service reads back a key
  with exactly that secret.\<close>

theorem stored_secret_is_read_back:
  assumes "cryptoOK (ke_lib env) (ke_nonce env)" and "activeKey (ke_lib env) (ke_conf env) m" and "jsonOK env"
    and "Key_SourceStorageType key = None" and "SerializeSecret env key d = Some (Inr key')"
    and "plaintextOf env key = Inr (Some p)" and "holdsKey (ke_lib env) conf' m"
    and "case Key_ExpireAt key of None \<Rightarrow> True | Some e \<Rightarrow> at \<le> e"
  shows "\<exists>k. DeserializeSecret (env\<lparr>ke_conf := conf'\<rparr>) at (clearPlain key') d' = Some (Inr k) \<and> secretPart k = secretPart key"
proof -
  let ?env = "env\<lparr>ke_conf := conf'\<rparr>" and ?row = "clearPlain key'"
  have ser: "Local_SerializeSecret env key = Inr key'"
    using assms(4,5) by (auto simp: SerializeSecret_def getDeserializer_def split: option.splits)
  obtain stored where k': "key' = key\<lparr>Key_Secret := Some stored\<rparr>"
    using Local_SerializeSecret_Some [OF ser assms(6)] by blast
  have row: "Key_SourceStorageType ?row = None" "Key_Type ?row = Key_Type key" "Key_ExpireAt ?row = Key_ExpireAt key"
    "Key_Secret ?row = Key_Secret key'"
    using assms(4) by (simp_all add: k' clearPlain_def)
  have open': "Local_DeserializeSecret ?env ?row = Inr p"
    by (rule Local_roundtrip [OF assms(1,2) ser assms(6)]) (use assms(7) row in simp_all)
  have "jsonOK ?env" "plaintextOf ?env key = Inr (Some p)"
    using assms(3,6) by (simp_all add: jsonOK_def plaintextOf_def Let_def cong: if_cong)
  from unmarshal_plaintext [OF this row(2)] obtain k where k: "unmarshalAppropriateField ?env ?row p = Inr k"
    "secretPart k = secretPart key" "keyCarriesSecret (Key_Type ?row) \<longrightarrow> trimSpace p \<noteq> []" by blast
  then show ?thesis
    using assms(8) open' row by (auto simp: DeserializeSecret_def getDeserializer_def split: option.splits)
qed

text \<open>A codec of string triples for the sample: two lengths in unary, then the strings.\<close>

definition pack :: "string \<Rightarrow> string \<Rightarrow> string \<Rightarrow> string" where
  "pack a b c = CHR ''{'' # replicate (length a) CHR ''x'' @ CHR '','' # replicate (length b) CHR ''x'' @ CHR '','' # a @ b @ c"

definition unpack :: "string \<Rightarrow> string \<times> string \<times> string" where
  "unpack s =
     (let r = tl s; n = length (takeWhile (\<lambda>c. c = CHR ''x'') r); r1 = drop (Suc n) r;
          m = length (takeWhile (\<lambda>c. c = CHR ''x'') r1); r2 = drop (Suc m) r1
      in (take n r2, take m (drop n r2), drop m (drop n r2)))"

lemma unpack_pack: "unpack (pack a b c) = (a, b, c)"
proof -
  have t: "takeWhile (\<lambda>c. c = CHR ''x'') (replicate n CHR ''x'' @ CHR '','' # r) = replicate n CHR ''x''" for n r
    by (induction n) simp_all
  show ?thesis by (simp add: unpack_def pack_def Let_def t)
qed

lemma trimSpace_pack: "trimSpace (pack a b c) \<noteq> []"
proof -
  have "trimSpace (CHR ''{'' # s) \<noteq> []" for s
    by (simp add: trimSpace_def isSpace_def dropWhile_eq_Nil_conv) 
  then show ?thesis by (simp add: pack_def)
qed

definition sampleKeyEnv :: KeyEnv where
  "sampleKeyEnv =
     \<lparr>ke_lib = sampleLib, ke_conf = sampleKeyConfig, ke_nonce = replicate 12 CHR ''n'', ke_getenv = (\<lambda>_. []),
      ke_readFile = (\<lambda>_. Inl ErrNotFound), ke_secretsPath = ''/run/secrets'',
      ke_marshalSsh = (\<lambda>k. pack (Ssh_Login k) (Ssh_Passphrase k) (Ssh_PrivateKey k)),
      ke_unmarshalSsh = (\<lambda>s. case unpack s of (a, b, c) \<Rightarrow> Inr \<lparr>Ssh_Login = a, Ssh_Passphrase = b, Ssh_PrivateKey = c\<rparr>),
      ke_marshalLogin = (\<lambda>k. pack (LP_Login k) [] (LP_Password k)),
      ke_unmarshalLogin = (\<lambda>s. case unpack s of (a, _, c) \<Rightarrow> Inr \<lparr>LP_Login = a, LP_Password = c\<rparr>)\<rparr>"

lemma sample_json: "jsonOK sampleKeyEnv"
  by (simp add: jsonOK_def sampleKeyEnv_def unpack_pack trimSpace_pack)

lemma sample_env [simp]:
  "ke_lib sampleKeyEnv = sampleLib" "ke_nonce sampleKeyEnv = replicate 12 CHR ''n''" "ke_conf sampleKeyEnv = sampleKeyConfig"
  by (simp_all add: sampleKeyEnv_def)

definition loginKey :: AccessKey where
  "loginKey = zeroAccessKey\<lparr>Key_Name := ''git'', Key_Type := AccessKeyLoginPassword, Key_ProjectID := Some 1,
     Key_LoginPassword := \<lparr>LP_Login = ''me'', LP_Password = ''pw''\<rparr>\<rparr>"

definition emptyKeyDb :: KeyDb where
  "emptyKeyDb = \<lparr>tbl_access_key = [], tbl_secret_storage = [], tbl_project_id = [1], tbl_task_row = [], next_key_id = 1,
     key_fault = False, key_collation = id, key_rank = (\<lambda>_ _. 0)\<rparr>"

theorem stored_secret_is_read_back_witness:
  "\<exists>key' k. SerializeSecret sampleKeyEnv loginKey emptyKeyDb = Some (Inr key') \<and>
     DeserializeSecret sampleKeyEnv 5 (clearPlain key') emptyKeyDb = Some (Inr k) \<and>
     Key_LoginPassword k = \<lparr>LP_Login = ''me'', LP_Password = ''pw''\<rparr>"
proof -
  have p: "plaintextOf sampleKeyEnv loginKey = Inr (Some (pack ''me'' [] ''pw''))"
    by (simp add: plaintextOf_def loginKey_def sampleKeyEnv_def zeroAccessKey_def)
  obtain key' where ser: "SerializeSecret sampleKeyEnv loginKey emptyKeyDb = Some (Inr key')" "Key_Type key' = AccessKeyLoginPassword"
    using sample_encrypts [of "pack ''me'' [] ''pw''"] p
    by (auto simp: SerializeSecret_def getDeserializer_def AccessKey_Validate_def Local_SerializeSecret_def loginKey_def zeroAccessKey_def)
  have s: "Key_SourceStorageType loginKey = None" "Key_ExpireAt loginKey = None" "Key_Type loginKey = AccessKeyLoginPassword"
    "Key_LoginPassword loginKey = \<lparr>LP_Login = ''me'', LP_Password = ''pw''\<rparr>"
    by (simp_all add: loginKey_def zeroAccessKey_def)
  have env: "sampleKeyEnv\<lparr>ke_conf := sampleKeyConfig\<rparr> = sampleKeyEnv" by (simp add: sampleKeyEnv_def)
  obtain k where k: "DeserializeSecret sampleKeyEnv 5 (clearPlain key') emptyKeyDb = Some (Inr k)" "secretPart k = secretPart loginKey"
    using stored_secret_is_read_back [OF _ _ sample_json s(1) ser(1) p, of sampleKey sampleKeyConfig 5 emptyKeyDb] sample_crypto s
    by (auto simp: env)
  then have "Key_LoginPassword k = \<lparr>LP_Login = ''me'', LP_Password = ''pw''\<rparr>"
    using s by (auto simp: secretPart_def split: if_splits)
  with ser k show ?thesis by blast
qed

subsection \<open>Secret files\<close>

lemma dropCommon_prefix: "dropCommon b t = ([], t') \<Longrightarrow> t = b @ t'"
  by (induction b t rule: dropCommon.induct) (auto split: if_splits)

lemma joinWith_up: "joinWith slash (''..'' # xs) = ''..'' \<or> take 3 (joinWith slash (''..'' # xs)) = ''../''"
  by (cases xs) (simp_all add: slash_def)

lemma rel_inside:
  assumes "filepath_Rel base p \<noteq> ''..''" and "take 3 (filepath_Rel base p) \<noteq> ''../''"
  shows "\<exists>r. cleanSegs p = cleanSegs base @ r"
proof -
  obtain b t where bt: "dropCommon (cleanSegs base) (cleanSegs p) = (b, t)" by fastforce
  have "b = []"
  proof (rule ccontr)
    assume "b \<noteq> []"
    then obtain n where "length b = Suc n" by (cases b) auto
    then have "filepath_Rel base p = joinWith slash (''..'' # (replicate n ''..'' @ t))"
      using \<open>b \<noteq> []\<close> by (simp add: filepath_Rel_def bt)
    with joinWith_up [of "replicate n ''..'' @ t"] assms show False by simp
  qed
  with bt dropCommon_prefix show ?thesis by blast
qed

text \<open>A path below the secrets directory: its segments begin with those of the directory, and none leads up.\<close>

definition insideSecrets :: "KeyEnv \<Rightarrow> string \<Rightarrow> bool" where
  "insideSecrets env p \<longleftrightarrow>
     filepath_IsAbs p \<and> (\<exists>r. cleanSegs p = cleanSegs (filepath_Clean (ke_secretsPath env)) @ r) \<and> ''..'' \<notin> set (splitOn slash p)"

lemma fold_cleanStep:
  assumes "\<And>x. x \<in> set segs \<Longrightarrow> x \<noteq> [] \<Longrightarrow> x \<noteq> ''..'' \<Longrightarrow> P x" and "rooted \<or> P ''..''" and "\<forall>x\<in>set acc. P x"
  shows "\<forall>x\<in>set (fold (cleanStep rooted) segs acc). P x"
  using assms
proof (induction segs arbitrary: acc)
  case (Cons s segs)
  have "\<forall>x\<in>set (cleanStep rooted s acc). P x"
    using Cons.prems by (auto simp: cleanStep_def split: list.splits)
  with Cons show ?case by simp
qed simp

lemma cleanSegs_plain:
  "\<forall>x\<in>set (cleanSegs p). slash \<notin> set x \<and> x \<noteq> [] \<and> (filepath_IsAbs p \<longrightarrow> x \<noteq> ''..'')"
  unfolding cleanSegs_def set_rev
  by (rule fold_cleanStep) (auto dest: splitOn_parts simp: slash_def)

lemma Clean_absolute:
  assumes "filepath_IsAbs p"
  shows "''..'' \<notin> set (splitOn slash (filepath_Clean p))"
proof -
  have c: "filepath_Clean p = slash # joinWith slash (cleanSegs p)" using assms by (simp add: filepath_Clean_def)
  have "''..'' \<notin> set (splitOn slash (joinWith slash (cleanSegs p)))"
  proof (cases "cleanSegs p = []")
    case False
    then show ?thesis using cleanSegs_plain [of p] assms splitOn_joinWith [of "cleanSegs p" slash] by auto
  qed simp
  then show ?thesis by (simp add: c)
qed

lemma Clean_IsAbs:
  assumes "filepath_IsAbs (filepath_Clean p)"
  shows "filepath_IsAbs p"
proof (rule ccontr)
  assume rel: "\<not> filepath_IsAbs p"
  show False
  proof (cases "cleanSegs p")
    case Nil
    with rel have "filepath_Clean p = ''.''" by (simp add: filepath_Clean_def)
    with assms show ?thesis by (simp add: filepath_IsAbs_def slash_def)
  next
    case (Cons x xs)
    then have x: "slash \<notin> set x" "x \<noteq> []" using cleanSegs_plain [of p] by auto
    have "filepath_Clean p = joinWith slash (x # xs)" using rel Cons by (simp add: filepath_Clean_def)
    then have "hd (filepath_Clean p) = hd x" using x(2) by (cases xs) auto
    then show ?thesis using assms x hd_in_set [of x] by (simp add: filepath_IsAbs_def)
  qed
qed

text \<open>Secret files are read from the secrets directory only: replacing the contents of every file that is not below the
  configured directory changes nothing about what a key deserializes to.\<close>

lemma secret_files_stay_inside:
  assumes "\<And>p. insideSecrets env p \<Longrightarrow> readFile' p = ke_readFile env p"
  shows "DeserializeSecret (env\<lparr>ke_readFile := readFile'\<rparr>) at key d = DeserializeSecret env at key d"
proof -
  let ?env = "env\<lparr>ke_readFile := readFile'\<rparr>"
  have "readSecretFile ?env src = readSecretFile env src" for src
  proof (cases "filepath_IsAbs (filepath_Clean src) \<and>
      filepath_Rel (filepath_Clean (ke_secretsPath env)) (filepath_Clean src) \<noteq> ''..'' \<and>
      take 3 (filepath_Rel (filepath_Clean (ke_secretsPath env)) (filepath_Clean src)) \<noteq> ''../''")
    case True
    then have "insideSecrets env (filepath_Clean src)"
      using rel_inside Clean_absolute [OF Clean_IsAbs] by (simp add: insideSecrets_def)
    with assms show ?thesis by (simp add: readSecretFile_def Let_def)
  qed (auto simp: readSecretFile_def Let_def)
  then have "Local_DeserializeSecret ?env key = Local_DeserializeSecret env key"
    by (simp add: Local_DeserializeSecret_def Local_deserialize_def openStored_def cong: if_cong split: option.split)
  moreover have "unmarshalAppropriateField ?env = unmarshalAppropriateField env"
    by (simp add: fun_eq_iff unmarshalAppropriateField_def)
  ultimately show ?thesis by (simp only: DeserializeSecret_def)
qed

lemma sample_paths:
  "cleanSegs ''/etc/shadow'' = [''etc'', ''shadow'']" "cleanSegs (filepath_Clean ''/run/secrets'') = [''run'', ''secrets'']"
  by code_simp+

subsection \<open>Survey secrets\<close>

definition surveyKey :: "ident \<Rightarrow> ident \<Rightarrow> string \<Rightarrow> go_time \<Rightarrow> AccessKey" where
  "surveyKey p t secrets expireAt =
     zeroAccessKey\<lparr>Key_Name := ''task-'' @ itoa t @ ''-survey-secrets'', Key_Type := AccessKeyString,
       Key_ProjectID := Some p, Key_Owner := AccessKeyTaskSecret, Key_TaskID := Some t,
       Key_ExpireAt := Some expireAt, Key_String := secrets, Key_OverrideSecret := True\<rparr>"

lemma surveyKey_fields [simp]:
  "Key_Type (surveyKey p t s e) = AccessKeyString" "Key_ProjectID (surveyKey p t s e) = Some p"
  "Key_Owner (surveyKey p t s e) = AccessKeyTaskSecret" "Key_TaskID (surveyKey p t s e) = Some t"
  "Key_ExpireAt (surveyKey p t s e) = Some e" "Key_String (surveyKey p t s e) = s"
  "Key_SourceStorageType (surveyKey p t s e) = None" "Key_Name (surveyKey p t s e) \<noteq> []"
  by (simp_all add: surveyKey_def zeroAccessKey_def)

lemma Local_SerializeSecret_form: "Local_SerializeSecret env key = Inr key' \<Longrightarrow> \<exists>x. key' = key\<lparr>Key_Secret := x\<rparr>"
  by (auto simp: Local_SerializeSecret_def split: sum.splits option.splits)

lemma CreateTaskSurveySecrets_row:
  assumes "CreateTaskSurveySecrets env p t s e d = Some (Inr d')"
  shows "\<exists>key1 row. Local_SerializeSecret env (surveyKey p t s e) = Inr key1 \<and> tbl_access_key d' = tbl_access_key d @ [row] \<and>
    Key_Secret row = Key_Secret key1 \<and> Key_Type row = AccessKeyString \<and> Key_SourceStorageType row = None \<and>
    Key_ExpireAt row = Some e \<and> isTaskKey p t row \<and> \<not> key_fault d' \<and> \<not> key_fault d"
proof -
  have "SerializeSecret env (surveyKey p t s e) d = Some (Local_SerializeSecret env (surveyKey p t s e))"
    by (simp add: SerializeSecret_def getDeserializer_def AccessKey_Validate_def)
  with assms obtain key1 k2 where k: "Local_SerializeSecret env (surveyKey p t s e) = Inr key1"
    "CreateAccessKey key1 d = Inr (k2, d')"
    unfolding CreateTaskSurveySecrets_def Let_def surveyKey_def [symmetric] by (cases "Local_SerializeSecret env (surveyKey p t s e)"; cases "CreateAccessKey (projr (Local_SerializeSecret env (surveyKey p t s e))) d") auto
  obtain x where x: "key1 = (surveyKey p t s e)\<lparr>Key_Secret := x\<rparr>" using Local_SerializeSecret_form [OF k(1)] by blast
  from k(2) show ?thesis
    by (auto simp: k(1) x CreateAccessKey_def Let_def clearPlain_def isTaskKey_def ofProject_def split: if_splits)
qed

text \<open>What the service reads from a row with survey secrets.\<close>

lemma survey_row_read:
  assumes "cryptoOK (ke_lib env) (ke_nonce env)" and "activeKey (ke_lib env) (ke_conf env) m"
    and "holdsKey (ke_lib env) conf' m" and "Local_SerializeSecret env (surveyKey p t s e) = Inr key1"
    and "Key_Secret row = Key_Secret key1" and "Key_Type row = AccessKeyString" and "Key_SourceStorageType row = None"
    and "Key_ExpireAt row = Some e"
  shows "map_option (map_sum id Key_String) (DeserializeSecret (env\<lparr>ke_conf := conf'\<rparr>) at row d) =
    Some (if at > e then Inl ErrAccessKeyExpired else Inr s)"
proof -
  have "Local_DeserializeSecret (env\<lparr>ke_conf := conf'\<rparr>) row = Inr s"
  proof (cases "s = []")
    case True
    then have "Key_Secret row = None" using assms(4,5) by (auto simp: Local_SerializeSecret_def plaintextOf_def)
    with True assms(7) show ?thesis by (simp add: Local_DeserializeSecret_def Local_deserialize_def openStored_def)
  next
    case False
    then have "plaintextOf env (surveyKey p t s e) = Inr (Some s)" by (simp add: plaintextOf_def)
    from Local_roundtrip [OF assms(1,2,4) this, of "env\<lparr>ke_conf := conf'\<rparr>" row] assms(3,5,7) show ?thesis by simp
  qed
  with assms(6-8) show ?thesis
    by (simp add: DeserializeSecret_def getDeserializer_def keyCarriesSecret_def unmarshalAppropriateField_def)
qed

text \<open>The life of the survey secrets of a task: what was stored for the task is what is read for it, until it expires
  and then only an error is; once deleted, nothing is read, and the other keys are as they were.\<close>

lemma survey_secrets_life:
  assumes "cryptoOK (ke_lib env) (ke_nonce env)" and "activeKey (ke_lib env) (ke_conf env) m"
    and "holdsKey (ke_lib env) conf' m" and "GetTaskAccessKey p t d = Inl ErrNotFound"
    and "CreateTaskSurveySecrets env p t s e d = Some (Inr d')" and "DeleteTaskSurveySecrets p t d' = Inr d''"
  shows "GetTaskSurveySecrets (env\<lparr>ke_conf := conf'\<rparr>) at p t d' = Some (if at > e then Inl ErrAccessKeyExpired else Inr s) \<and>
    GetTaskSurveySecrets (env\<lparr>ke_conf := conf'\<rparr>) at p t d'' = Some (Inr []) \<and> tbl_access_key d'' = tbl_access_key d"
proof -
  from CreateTaskSurveySecrets_row [OF assms(5)] obtain key1 row where
    r: "Local_SerializeSecret env (surveyKey p t s e) = Inr key1" "tbl_access_key d' = tbl_access_key d @ [row]"
      "Key_Secret row = Key_Secret key1" "Key_Type row = AccessKeyString" "Key_SourceStorageType row = None"
      "Key_ExpireAt row = Some e" "isTaskKey p t row" "\<not> key_fault d'" "\<not> key_fault d" by blast
  have none: "\<forall>k\<in>set (tbl_access_key d). \<not> isTaskKey p t k"
    using assms(4) r(9) by (auto simp: GetTaskAccessKey_def find_None_iff split: option.splits)
  have g: "GetTaskAccessKey p t d' = Inr row"
  proof -
    have "find (isTaskKey p t) (xs @ [row]) = Some row" if "\<forall>k\<in>set xs. \<not> isTaskKey p t k" for xs
      using that r(7) by (induction xs) auto
    with none r(2,8) show ?thesis by (simp add: GetTaskAccessKey_def)
  qed
  have d'': "d'' = d'\<lparr>tbl_access_key := tbl_access_key d\<rparr>"
    using assms(6) r(2,7,8) none by (auto simp: DeleteTaskSurveySecrets_def DeleteTaskAccessKeys_def filter_id_conv)
  have "GetTaskAccessKey p t d'' = Inl ErrNotFound"
    using none r(8) by (auto simp: d'' GetTaskAccessKey_def find_None_iff split: option.splits)
  with survey_row_read [OF assms(1-3) r(1,3,4,5,6)] g d'' show ?thesis by (simp add: GetTaskSurveySecrets_def)
qed

text \<open>Cleaning up expired keys never makes a task run without its secrets: if the task that owns an expired key has no
  finished row, then after the clean-up reading the secrets still gives the error that stops the task.\<close>

lemma expired_secrets_fail_loudly:
  assumes "GetTaskAccessKey p t d = Inr key" and "Key_ExpireAt key = Some e" and "e < at"
    and "\<And>row. row \<in> set (tbl_task_row d) \<Longrightarrow> Task_ID row = t \<Longrightarrow> Task_ProjectID row = p \<Longrightarrow> \<not> IsFinished (Task_Status row)"
    and "DeleteExpiredTaskAccessKeys at d = Inr d'"
  shows "GetTaskSurveySecrets env at p t d' = Some (Inl ErrAccessKeyExpired)"
proof -
  have f: "\<not> key_fault d" "find (isTaskKey p t) (tbl_access_key d) = Some key"
    using assms(1) by (auto simp: GetTaskAccessKey_def split: if_splits option.splits)
  have k: "isTaskKey p t key" using f(2) by (auto simp: find_Some_iff)
  define keep where "keep k = (\<not> (Key_Owner k = AccessKeyTaskSecret \<and>
      (case Key_ExpireAt k of None \<Rightarrow> False | Some e \<Rightarrow> e < at) \<and>
      (case Key_TaskID k of None \<Rightarrow> True
       | Some t \<Rightarrow> list_ex (\<lambda>row. Task_ID row = t \<and> Key_ProjectID k = Some (Task_ProjectID row) \<and>
                             IsFinished (Task_Status row)) (tbl_task_row d))))" for k :: AccessKey
  have d': "d' = d\<lparr>tbl_access_key := filter keep (tbl_access_key d)\<rparr>"
    using assms(5) f(1) by (simp add: DeleteExpiredTaskAccessKeys_def keep_def [abs_def])
  have "keep key" using k assms(4) by (auto simp: keep_def isTaskKey_def ofProject_def list_ex_iff)
  have "find (isTaskKey p t) (filter keep xs) = Some key" if "find (isTaskKey p t) xs = Some key" for xs
    using that \<open>keep key\<close> by (induction xs) (auto split: if_splits)
  then have "GetTaskAccessKey p t d' = Inr key" using f by (simp add: GetTaskAccessKey_def d')
  then show ?thesis using assms(2,3) by (simp add: GetTaskSurveySecrets_def DeserializeSecret_def)
qed

subsection \<open>Rekeying\<close>

text \<open>The row that rekeying makes of a row.\<close>

definition rekeyRow :: "KeyEnv \<Rightarrow> string \<Rightarrow> AccessKey \<Rightarrow> AccessKey" where
  "rekeyRow env oldKey key =
     (if Key_SourceStorageType key \<noteq> None then key
      else case (if oldKey = [] then Local_DeserializeSecret env key else Local_DeserializeSecret2 env key oldKey) of
        Inl err \<Rightarrow> key
      | Inr secret \<Rightarrow>
          (case unmarshalAppropriateField env key secret of
             Inl err \<Rightarrow> key
           | Inr key1 \<Rightarrow>
               (case Local_SerializeSecret env (key1\<lparr>Key_OverrideSecret := True\<rparr>) of
                  Inl err \<Rightarrow> key
                | Inr key2 \<Rightarrow> updateKeyRow key2 key)))"

lemma unmarshal_same:
  "unmarshalAppropriateField env key s = Inr key1 \<Longrightarrow>
    Key_ID key1 = Key_ID key \<and> Key_ProjectID key1 = Key_ProjectID key \<and> Key_SourceStorageType key1 = Key_SourceStorageType key \<and> Key_Name key1 = Key_Name key"
  by (cases "ke_unmarshalSsh env s"; cases "ke_unmarshalLogin env s")
     (auto simp: unmarshalAppropriateField_def split: if_splits)

lemma rekeyRow_fields:
  "Key_ID (rekeyRow env oldKey key) = Key_ID key" "Key_ProjectID (rekeyRow env oldKey key) = Key_ProjectID key"
  "Key_Name (rekeyRow env oldKey key) = Key_Name key"
  by (auto simp: rekeyRow_def updateKeyRow_def Let_def split: sum.splits dest!: unmarshal_same Local_SerializeSecret_form)

lemma UpdateAccessKey_never_missing: "UpdateAccessKey key d \<noteq> Inl ErrNotFound"
  by (auto simp: UpdateAccessKey_def AccessKey_Validate_def keyError_def split: option.splits)

lemma rekeyKey_row:
  assumes "rekeyKey env oldKey key d = (None, d')" and "distinct (map Key_ID (tbl_access_key d))"
    and "key \<in> set (tbl_access_key d)" and "Key_ProjectID key \<noteq> None"
  shows "d' = d\<lparr>tbl_access_key := map (\<lambda>row. if row = key then rekeyRow env oldKey row else row) (tbl_access_key d)\<rparr>"
proof (cases "Key_SourceStorageType key")
  case (Some x)
  with assms(1) have "d' = d" "rekeyRow env oldKey key = key" by (simp_all add: rekeyKey_def rekeyRow_def)
  moreover from this have "map (\<lambda>row. if row = key then rekeyRow env oldKey row else row) (tbl_access_key d) = tbl_access_key d"
    by (intro map_idI) auto
  ultimately show ?thesis by simp
next
  case None
  with assms(1) obtain secret key1 key2 where
    s: "(if oldKey = [] then Local_DeserializeSecret env key else Local_DeserializeSecret2 env key oldKey) = Inr secret"
      "unmarshalAppropriateField env key secret = Inr key1"
      "Local_SerializeSecret env (key1\<lparr>Key_OverrideSecret := True\<rparr>) = Inr key2" "UpdateAccessKey key2 d = Inr d'"
    by (auto simp: rekeyKey_def UpdateAccessKey_never_missing split: sum.splits if_splits)
  obtain x where k2: "key2 = key1\<lparr>Key_OverrideSecret := True, Key_Secret := x\<rparr>"
    using Local_SerializeSecret_form [OF s(3)] by auto
  note u = unmarshal_same [OF s(2)]
  have row: "rekeyRow env oldKey key = updateKeyRow key2 key" using None s(1-3) by (simp add: rekeyRow_def)
  have "(Key_ID r = Key_ID key2 \<and> Key_ProjectID key2 \<noteq> None \<and> Key_ProjectID r = Key_ProjectID key2) \<longleftrightarrow> r = key"
    if "r \<in> set (tbl_access_key d)" for r
    using that assms(2-4) u by (auto simp: k2 distinct_map dest: inj_onD)
  with s(4) row show ?thesis
    by (auto simp: UpdateAccessKey_def split: option.splits if_splits intro!: map_cong)
qed

text \<open>The table after some of its rows were rekeyed.\<close>

definition rekeyed :: "KeyEnv \<Rightarrow> string \<Rightarrow> (AccessKey \<Rightarrow> bool) \<Rightarrow> AccessKey list \<Rightarrow> AccessKey list" where
  "rekeyed env oldKey P = map (\<lambda>row. if P row then rekeyRow env oldKey row else row)"

lemma rekeyed_IDs [simp]: "map Key_ID (rekeyed env oldKey P rows) = map Key_ID rows"
  by (simp add: rekeyed_def rekeyRow_fields)

text \<open>Two passes over disjoint sets of rows, when the second is described by what it sees.\<close>

lemma rekeyed_twice:
  assumes "\<And>row. row \<in> set rows \<Longrightarrow> P row \<Longrightarrow> \<not> Q (rekeyRow env oldKey row) \<and> R row"
    and "\<And>row. row \<in> set rows \<Longrightarrow> \<not> P row \<Longrightarrow> Q row \<longleftrightarrow> R row"
  shows "rekeyed env oldKey Q (rekeyed env oldKey P rows) = rekeyed env oldKey R rows"
  unfolding rekeyed_def using assms by (auto simp: comp_def intro!: map_cong)

lemma rekeyKeys_rows:
  assumes "rekeyKeys env oldKey keys d = (None, d')" and "distinct (map Key_ID (tbl_access_key d))"
    and "set keys \<subseteq> set (tbl_access_key d)" and "distinct keys" and "\<forall>k\<in>set keys. Key_ProjectID k \<noteq> None"
  shows "d' = d\<lparr>tbl_access_key := rekeyed env oldKey (\<lambda>row. row \<in> set keys) (tbl_access_key d)\<rparr>"
  using assms
proof (induction keys arbitrary: d)
  case Nil
  then show ?case by (simp add: rekeyed_def)
next
  case (Cons key keys)
  from Cons.prems(1) obtain d1 where 1: "rekeyKey env oldKey key d = (None, d1)" "rekeyKeys env oldKey keys d1 = (None, d')"
    by (auto split: prod.splits option.splits)
  have d1: "d1 = d\<lparr>tbl_access_key := rekeyed env oldKey (\<lambda>row. row = key) (tbl_access_key d)\<rparr>"
    using rekeyKey_row [OF 1(1)] Cons.prems by (simp add: rekeyed_def)
  have inj: "inj_on Key_ID (set (tbl_access_key d))" using Cons.prems(2) by (simp add: distinct_map)
  have sub: "set keys \<subseteq> set (tbl_access_key d1)"
    using Cons.prems(3,4) by (force simp: d1 rekeyed_def)
  have "d' = d1\<lparr>tbl_access_key := rekeyed env oldKey (\<lambda>row. row \<in> set keys) (tbl_access_key d1)\<rparr>"
    using Cons.prems sub by (intro Cons.IH [OF 1(2)]) (simp_all add: d1)
  moreover have "rekeyed env oldKey (\<lambda>row. row \<in> set keys) (rekeyed env oldKey (\<lambda>row. row = key) (tbl_access_key d)) =
      rekeyed env oldKey (\<lambda>row. row \<in> set (key # keys)) (tbl_access_key d)"
  proof (rule rekeyed_twice)
    fix row assume row: "row \<in> set (tbl_access_key d)" "row = key"
    have "rekeyRow env oldKey row \<notin> set keys"
    proof
      assume "rekeyRow env oldKey row \<in> set keys"
      moreover from this have "rekeyRow env oldKey row = row"
        using Cons.prems(3) row(1) inj rekeyRow_fields(1) by (metis inj_onD set_subset_Cons subsetD)
      ultimately show False using row(2) Cons.prems(4) by simp
    qed
    then show "rekeyRow env oldKey row \<notin> set keys \<and> row \<in> set (key # keys)" using row by simp
  qed simp
  ultimately show ?case by (simp add: d1)
qed

lemma drop_Suc_page: "set (drop (i * n) xs) = set (take n (drop (i * n) xs)) \<union> set (drop (Suc i * n) xs)"
proof -
  have "drop (i * n) xs = take n (drop (i * n) xs) @ drop (Suc i * n) xs"
    by (simp add: drop_drop [symmetric] add.commute del: drop_drop)
  then show ?thesis by (metis set_append)
qed

lemma page_disjoint: "distinct xs \<Longrightarrow> set (take n (drop (i * n) xs)) \<inter> set (drop (Suc i * n) xs) = {}"
proof -
  assume "distinct xs"
  then have "distinct (drop (i * n) xs)" by simp
  moreover have "drop (i * n) xs = take n (drop (i * n) xs) @ drop (Suc i * n) xs"
    by (simp add: drop_drop [symmetric] add.commute del: drop_drop)
  ultimately show ?thesis by (metis distinct_append)
qed

text \<open>
  The pages of a project do not shift while its rows are rekeyed, when they fit into one page or the names fix their
  order.
\<close>

definition steadyPages :: "KeyDb \<Rightarrow> ident \<Rightarrow> bool" where
  "steadyPages d p \<longleftrightarrow>
     (let keys = filter (ofProject p) (tbl_access_key d) in
      length keys \<le> RekeyBatchSize \<or> distinct (map (\<lambda>k. key_collation d (Key_Name k)) keys))"

lemma filter_rekeyed:
  "filter (ofProject p) (rekeyed env oldKey P rows) =
    map (\<lambda>row. if P row then rekeyRow env oldKey row else row) (filter (ofProject p) rows)"
proof -
  have "ofProject p (if P row then rekeyRow env oldKey row else row) = ofProject p row" for row
    by (simp add: ofProject_def rekeyRow_fields)
  then show ?thesis by (simp add: rekeyed_def filter_map comp_def)
qed

lemma steadyPages_rekeyed:
  "steadyPages d p \<Longrightarrow> steadyPages (d\<lparr>tbl_access_key := rekeyed env oldKey P (tbl_access_key d)\<rparr>) p"
proof -
  have "(\<lambda>k. key_collation d (Key_Name k)) \<circ> (\<lambda>row. if P row then rekeyRow env oldKey row else row) =
      (\<lambda>k. key_collation d (Key_Name k))"
    by (auto simp: rekeyRow_fields)
  then show "steadyPages d p \<Longrightarrow> steadyPages (d\<lparr>tbl_access_key := rekeyed env oldKey P (tbl_access_key d)\<rparr>) p"
    by (simp add: steadyPages_def filter_rekeyed Let_def)
qed

text \<open>Rows whose names are distinct have one order by name, whatever is changed beside the names.\<close>

lemma orderByName_map:
  assumes "distinct (map (\<lambda>k. key_collation d (Key_Name k)) rows)" and "\<And>k. Key_Name (f k) = Key_Name k"
  shows "orderByName (d\<lparr>tbl_access_key := t\<rparr>) (map f rows) = map f (orderByName d rows)"
proof -
  let ?name = "\<lambda>k. key_collation d (Key_Name k)"
  have inj: "inj_on ?name (set (map f rows))"
    using assms by (auto simp: distinct_map inj_on_def)
  have "sorted (map ?name (map f (orderByName d rows)))"
    by (simp add: orderByName_def comp_def assms(2))
  then show ?thesis
    unfolding orderByName_def [of "d\<lparr>tbl_access_key := t\<rparr>"]
    using inj by (intro sort_key_inj_key_eq) (simp_all add: comp_def)
qed

lemma rekeyProject_rows:
  assumes "rekeyProject env oldKey p i d = (None, d')" and "distinct (map Key_ID (tbl_access_key d))" and "steadyPages d p"
  shows "d' = d\<lparr>tbl_access_key := rekeyed env oldKey
    (\<lambda>row. row \<in> set (drop (i * RekeyBatchSize) (orderByName d (filter (ofProject p) (tbl_access_key d))))) (tbl_access_key d)\<rparr>"
  using assms
proof (induction env oldKey p i d rule: rekeyProject.induct)
  case (1 env oldKey p i d)
  let ?F = "filter (ofProject p) (tbl_access_key d)" and ?n = "RekeyBatchSize"
  let ?S = "orderByName d ?F"
  let ?keys = "take ?n (drop (i * ?n) ?S)"
  have page: "GetAccessKeysPage p ?n (i * ?n) d = Inr ?keys"
    using 1(2) by (auto simp: rekeyProject.simps [of env oldKey p i d] GetAccessKeysPage_def split: if_splits)
  have dS: "distinct ?S" using 1(3) by (simp add: distinct_map)
  show ?case
  proof (cases "?keys = []")
    case True
    then have "d' = d" "drop (i * ?n) ?S = []"
      using 1(2) page by (simp_all add: rekeyProject.simps [of env oldKey p i d] RekeyBatchSize_def)
    then show ?thesis by (simp add: rekeyed_def)
  next
    case False
    then obtain d1 where d1: "rekeyKeys env oldKey ?keys d = (None, d1)" "rekeyProject env oldKey p (Suc i) d1 = (None, d')"
      using 1(2) page by (auto simp: rekeyProject.simps [of env oldKey p i d] split: prod.splits option.splits)
    have "set ?keys \<subseteq> set ?S" by (meson set_drop_subset set_take_subset subset_trans)
    then have sub: "set ?keys \<subseteq> set ?F" by simp
    have e1: "d1 = d\<lparr>tbl_access_key := rekeyed env oldKey (\<lambda>row. row \<in> set ?keys) (tbl_access_key d)\<rparr>"
      by (rule rekeyKeys_rows [OF d1(1) 1(3)]) (use sub dS in \<open>auto simp: ofProject_def distinct_take\<close>)
    let ?upd = "\<lambda>row. if row \<in> set ?keys then rekeyRow env oldKey row else row"
    let ?S1 = "orderByName d1 (filter (ofProject p) (tbl_access_key d1))"
    have F1: "filter (ofProject p) (tbl_access_key d1) = map ?upd ?F"
      unfolding e1 by (simp add: filter_rekeyed)
    have later: "drop (Suc i * ?n) ?S1 = drop (Suc i * ?n) ?S"
    proof (cases "length ?F \<le> ?n")
      case True
      then show ?thesis by (simp add: F1 del: mult_Suc) (simp add: F1)
    next
      case False
      then have "distinct (map (\<lambda>k. key_collation d (Key_Name k)) ?F)" using 1(4) by (simp add: steadyPages_def Let_def)
      from orderByName_map [OF this, of ?upd "tbl_access_key d1"] have "?S1 = map ?upd ?S"
        unfolding F1 using e1 by (simp add: rekeyRow_fields)
      then show ?thesis
        unfolding \<open>?S1 = map ?upd ?S\<close> drop_map
        by (intro map_idI) (use page_disjoint [OF dS, of ?n i] in auto)
    qed
    have "d' = d1\<lparr>tbl_access_key := rekeyed env oldKey
        (\<lambda>row. row \<in> set (drop (Suc i * ?n) ?S)) (tbl_access_key d1)\<rparr>"
      using 1(1) [OF page False d1(1) [symmetric] refl d1(2)] 1(3) steadyPages_rekeyed [OF 1(4)] unfolding later by (simp add: e1)
    moreover have "rekeyed env oldKey (\<lambda>row. row \<in> set (drop (Suc i * ?n) ?S)) (rekeyed env oldKey (\<lambda>row. row \<in> set ?keys) (tbl_access_key d)) =
        rekeyed env oldKey (\<lambda>row. row \<in> set (drop (i * ?n) ?S)) (tbl_access_key d)"
    proof (rule rekeyed_twice)
      fix row assume row: "row \<in> set (tbl_access_key d)" "row \<in> set ?keys"
      have "rekeyRow env oldKey row \<notin> set (drop (Suc i * ?n) ?S)"
      proof
        assume a: "rekeyRow env oldKey row \<in> set (drop (Suc i * ?n) ?S)"
        then have "rekeyRow env oldKey row \<in> set (tbl_access_key d)" by (auto dest: in_set_dropD)
        then have "rekeyRow env oldKey row = row"
          using row(1) 1(3) rekeyRow_fields(1) by (auto simp: distinct_map dest: inj_onD)
        with a row(2) page_disjoint [OF dS, of ?n i] show False by auto
      qed
      then show "rekeyRow env oldKey row \<notin> set (drop (Suc i * ?n) ?S) \<and> row \<in> set (drop (i * ?n) ?S)"
        using row(2) in_set_takeD by fast
    qed (use drop_Suc_page [of i ?n ?S] in blast)
    ultimately show ?thesis by (simp add: e1)
  qed
qed

lemma rekeyProjects_rows:
  assumes "rekeyProjects env oldKey ps d = (None, d')" and "distinct (map Key_ID (tbl_access_key d))" and "distinct ps"
    and "\<forall>p\<in>set ps. steadyPages d p"
  shows "d' = d\<lparr>tbl_access_key := rekeyed env oldKey (\<lambda>row. \<exists>p\<in>set ps. ofProject p row) (tbl_access_key d)\<rparr>"
  using assms
proof (induction ps arbitrary: d)
  case Nil
  then show ?case by (simp add: rekeyed_def)
next
  case (Cons p ps)
  from Cons.prems(1) obtain d1 where d1: "rekeyProject env oldKey p 0 d = (None, d1)" "rekeyProjects env oldKey ps d1 = (None, d')"
    by (auto split: prod.splits option.splits)
  have e1: "d1 = d\<lparr>tbl_access_key := rekeyed env oldKey (ofProject p) (tbl_access_key d)\<rparr>"
    using rekeyProject_rows [OF d1(1) Cons.prems(2)] Cons.prems(4) by (auto simp: rekeyed_def intro!: map_cong)
  have "d' = d1\<lparr>tbl_access_key := rekeyed env oldKey (\<lambda>row. \<exists>p\<in>set ps. ofProject p row) (tbl_access_key d1)\<rparr>"
    by (rule Cons.IH [OF d1(2)]) (use Cons.prems in \<open>simp_all add: e1 steadyPages_rekeyed\<close>)
  moreover have "rekeyed env oldKey (\<lambda>row. \<exists>p\<in>set ps. ofProject p row) (rekeyed env oldKey (ofProject p) (tbl_access_key d)) =
      rekeyed env oldKey (\<lambda>row. \<exists>p\<in>set (p # ps). ofProject p row) (tbl_access_key d)"
    using Cons.prems(3) by (intro rekeyed_twice) (auto simp: ofProject_def rekeyRow_fields)
  ultimately show ?case by (simp add: e1)
qed

lemma rekeyRow_reads:
  assumes "cryptoOK (ke_lib env) (ke_nonce env)" and "activeKey (ke_lib env) (ke_conf env) m" and "newGCM m = Inr raw"
    and "jsonOK env" and "Key_SourceStorageType row = None"
    and "(if oldKey = [] then Local_DeserializeSecret env row else Local_DeserializeSecret2 env row oldKey) = Inr s"
    and "unmarshalAppropriateField env row s = Inr k" and "plaintextOf env k = Inr (Some p)"
  shows "\<exists>stored s' k'. Key_Secret (rekeyRow env oldKey row) = Some stored \<and> SecretKeyID stored = keyID (ke_lib env) m \<and>
    Local_DeserializeSecret env (rekeyRow env oldKey row) = Inr s' \<and>
    unmarshalAppropriateField env (rekeyRow env oldKey row) s' = Inr k' \<and> secretPart k' = secretPart k"
proof -
  obtain stored where st: "EncryptAccessSecret (ke_lib env) (ke_nonce env) (ke_conf env) p = Inr stored"
    using valid_key_encrypts [OF assms(2,3)] by blast
  let ?k = "k\<lparr>Key_OverrideSecret := True\<rparr>"
  have pk: "plaintextOf env ?k = Inr (Some p)"
    using assms(8) by (simp add: plaintextOf_def Let_def cong: if_cong)
  then have ser: "Local_SerializeSecret env ?k = Inr (?k\<lparr>Key_Secret := Some stored\<rparr>)"
    using st by (simp add: Local_SerializeSecret_def)
  have "Key_Type k = Key_Type row \<and> Key_SourceStorageType k = None"
    using assms(5,7) by (cases "ke_unmarshalSsh env s"; cases "ke_unmarshalLogin env s")
      (auto simp: unmarshalAppropriateField_def split: if_splits)
  moreover have "rekeyRow env oldKey row = updateKeyRow (?k\<lparr>Key_Secret := Some stored\<rparr>) row"
    using assms(5-7) ser by (simp add: rekeyRow_def)
  ultimately have row: "Key_Secret (rekeyRow env oldKey row) = Some stored" "Key_Type (rekeyRow env oldKey row) = Key_Type ?k"
    "Key_SourceStorageType (rekeyRow env oldKey row) = None"
    by (simp_all add: updateKeyRow_def Let_def)
  have "Local_DeserializeSecret env (rekeyRow env oldKey row) = Inr p"
    by (rule Local_roundtrip [OF assms(1,2) ser pk]) (use row assms(2) in \<open>simp_all add: activeKey_def\<close>)
  moreover have "SecretKeyID stored = keyID (ke_lib env) m"
    by (rule rotation(2) [OF assms(1,2) st, of "ke_conf env"]) (use assms(2) in \<open>simp add: activeKey_def\<close>)
  moreover have "secretPart ?k = secretPart k" by (simp add: secretPart_def)
  ultimately show ?thesis using unmarshal_plaintext [OF assms(4) pk row(2)] row(1) by auto
qed

text \<open>C30. Rekeying keeps every secret. When the rekeying of all projects succeeds, no row is added or lost; the rows
  whose secret is kept elsewhere (in a storage, a file or a variable) and those of no listed project are unchanged; and
  every row whose secret was readable with the old key is now encrypted under the active key and read with the active
  configuration to the same secret. Each project with more keys than one page holds (100) must have names that the
  database sorts apart: the pages are taken by \<^verbatim>\<open>LIMIT\<close> and \<^verbatim>\<open>OFFSET\<close> over an order by name, so that among equal names
  a key may move to a page that was already read. The cipher and the JSON codec are those of the hypotheses.\<close>

theorem rekey_keeps_secrets:
  assumes "cryptoOK (ke_lib env) (ke_nonce env)" and "activeKey (ke_lib env) (ke_conf env) m" and "newGCM m = Inr raw"
    and "jsonOK env" and "RekeyAccessKeys env oldKey d = (None, d')"
    and "distinct (map Key_ID (tbl_access_key d))" and "distinct (tbl_project_id d)" and "row \<in> set (tbl_access_key d)"
    and "\<forall>p\<in>set (tbl_project_id d). length (filter (ofProject p) (tbl_access_key d)) > RekeyBatchSize \<longrightarrow>
      distinct (map (\<lambda>k. key_collation d (Key_Name k)) (filter (ofProject p) (tbl_access_key d)))"
  shows "map Key_ID (tbl_access_key d') = map Key_ID (tbl_access_key d) \<and>
    (Key_SourceStorageType row \<noteq> None \<or> (\<forall>p\<in>set (tbl_project_id d). \<not> ofProject p row) \<longrightarrow> row \<in> set (tbl_access_key d')) \<and>
    (\<forall>p s k q. Key_SourceStorageType row = None \<and> p \<in> set (tbl_project_id d) \<and> ofProject p row \<and>
       (if oldKey = [] then Local_DeserializeSecret env row else Local_DeserializeSecret2 env row oldKey) = Inr s \<and>
       unmarshalAppropriateField env row s = Inr k \<and> plaintextOf env k = Inr (Some q) \<longrightarrow>
       (\<exists>row'\<in>set (tbl_access_key d'). \<exists>stored s' k'. Key_ID row' = Key_ID row \<and> Key_Secret row' = Some stored \<and>
          SecretKeyID stored = keyID (ke_lib env) m \<and> Local_DeserializeSecret env row' = Inr s' \<and>
          unmarshalAppropriateField env row' s' = Inr k' \<and> secretPart k' = secretPart k))"
    (is "?ids \<and> ?kept \<and> (\<forall>p s k q. ?pre p s k q \<longrightarrow> ?post k)")
proof -
  let ?P = "\<lambda>row. \<exists>p\<in>set (tbl_project_id d). ofProject p row"
  have "rekeyProjects env oldKey (tbl_project_id d) d = (None, d')"
    using assms(5) by (auto simp: RekeyAccessKeys_def split: if_splits)
  moreover have "\<forall>p\<in>set (tbl_project_id d). steadyPages d p"
    using assms(9) by (auto simp: steadyPages_def Let_def not_less)
  ultimately have rows: "tbl_access_key d' = rekeyed env oldKey ?P (tbl_access_key d)"
    using rekeyProjects_rows assms(6,7) by fastforce
  then have new: "(if ?P row then rekeyRow env oldKey row else row) \<in> set (tbl_access_key d')"
    using assms(8) unfolding rekeyed_def by (simp only: set_map) (rule imageI)
  have ?ids by (simp add: rows)
  moreover have ?kept using new by (auto simp: rekeyRow_def split: if_splits)
  moreover have "?post k" if "?pre p s k q" for p s k q
  proof
    show "rekeyRow env oldKey row \<in> set (tbl_access_key d')" using new that by (auto split: if_splits)
    show "\<exists>stored s' k'. Key_ID (rekeyRow env oldKey row) = Key_ID row \<and> Key_Secret (rekeyRow env oldKey row) = Some stored \<and>
          SecretKeyID stored = keyID (ke_lib env) m \<and> Local_DeserializeSecret env (rekeyRow env oldKey row) = Inr s' \<and>
          unmarshalAppropriateField env (rekeyRow env oldKey row) s' = Inr k' \<and> secretPart k' = secretPart k"
      using rekeyRow_reads [OF assms(1-4), of row oldKey s k q] that by (simp add: rekeyRow_fields)
  qed
  ultimately show ?thesis by blast
qed

text \<open>
  Equal names: between two pages (of one row here) an update may move a key that was not read yet to the page that was
  read, and then no page has it.
\<close>

lemma equal_names_skip_a_key:
  fixes key :: AccessKey
  defines "key \<equiv> zeroAccessKey\<lparr>Key_ID := 1, Key_Name := ''deploy'', Key_ProjectID := Some 1\<rparr>"
  shows "\<exists>d d1 key1. tbl_access_key d = [key, key\<lparr>Key_ID := 2\<rparr>] \<and> GetAccessKeysPage 1 1 0 d = Inr [key] \<and>
    UpdateAccessKey (key\<lparr>Key_OverrideSecret := True, Key_Secret := Some ''new''\<rparr>) d = Inr d1 \<and>
    GetAccessKeysPage 1 1 1 d1 = Inr [key1] \<and> Key_ID key1 = 1"
proof -
  let ?d = "emptyKeyDb\<lparr>tbl_access_key := [key, key\<lparr>Key_ID := 2\<rparr>],
    key_rank := (\<lambda>rows i. if Key_Secret (hd rows) = None then nat i else nat (9 - i))\<rparr>"
  let ?d1 = "?d\<lparr>tbl_access_key := [key\<lparr>Key_Secret := Some ''new''\<rparr>, key\<lparr>Key_ID := 2\<rparr>]\<rparr>"
  have "GetAccessKeysPage 1 1 0 ?d = Inr [key]" "GetAccessKeysPage 1 1 1 ?d1 = Inr [key\<lparr>Key_Secret := Some ''new''\<rparr>]"
    by (simp_all add: key_def zeroAccessKey_def GetAccessKeysPage_def orderByName_def ofProject_def emptyKeyDb_def)
  moreover have "UpdateAccessKey (key\<lparr>Key_OverrideSecret := True, Key_Secret := Some ''new''\<rparr>) ?d = Inr ?d1"
    by (simp add: key_def zeroAccessKey_def UpdateAccessKey_def AccessKey_Validate_def updateKeyRow_def emptyKeyDb_def Let_def)
  ultimately show ?thesis by (intro exI [of _ ?d] exI [of _ ?d1]) (simp add: key_def)
qed

text \<open>A project with one SSH key of the oldest format, stored without encryption.\<close>

definition oldSshKey :: AccessKey where
  "oldSshKey = zeroAccessKey\<lparr>Key_ID := 4, Key_Name := ''deploy'', Key_Type := AccessKeySSH, Key_ProjectID := Some 1,
     Key_Secret := Some (''PRIVATE'' @ [CHR 0x0A])\<rparr>"

lemma oldSshKey_reads:
  "Local_DeserializeSecret sampleKeyEnv oldSshKey = Inr (pack [] [] (''PRIVATE'' @ [CHR 0x0A]))"
  "unmarshalAppropriateField sampleKeyEnv oldSshKey (pack [] [] (''PRIVATE'' @ [CHR 0x0A])) =
     Inr (oldSshKey\<lparr>Key_SshKey := \<lparr>Ssh_Login = [], Ssh_Passphrase = [], Ssh_PrivateKey = ''PRIVATE'' @ [CHR 0x0A]\<rparr>\<rparr>)"
  by (simp_all add: Local_DeserializeSecret_def Local_deserialize_def openStored_def unmarshalAppropriateField_def
      oldSshKey_def zeroAccessKey_def sampleKeyEnv_def unpack_pack)

theorem rekey_keeps_secrets_witness:
  "\<exists>d'. RekeyAccessKeys sampleKeyEnv [] (emptyKeyDb\<lparr>tbl_access_key := [oldSshKey]\<rparr>) = (None, d') \<and>
     (\<exists>row'\<in>set (tbl_access_key d'). \<exists>stored s' k'. Key_ID row' = 4 \<and> Key_Secret row' = Some stored \<and>
        SecretKeyID stored = keyID sampleLib sampleKey \<and> Local_DeserializeSecret sampleKeyEnv row' = Inr s' \<and>
        unmarshalAppropriateField sampleKeyEnv row' s' = Inr k' \<and> Ssh_PrivateKey (Key_SshKey k') = ''PRIVATE'' @ [CHR 0x0A])"
proof -
  let ?d = "emptyKeyDb\<lparr>tbl_access_key := [oldSshKey]\<rparr>" and ?pk = "''PRIVATE'' @ [CHR 0x0A]"
  let ?k = "oldSshKey\<lparr>Key_SshKey := \<lparr>Ssh_Login = [], Ssh_Passphrase = [], Ssh_PrivateKey = ?pk\<rparr>\<rparr>"
  have old: "Key_SourceStorageType oldSshKey = None" "Key_ID oldSshKey = 4" "Key_Type oldSshKey = AccessKeySSH"
    "Key_ProjectID oldSshKey = Some 1" "Key_Name oldSshKey = ''deploy''"
    by (simp_all add: oldSshKey_def zeroAccessKey_def)
  have plain: "plaintextOf sampleKeyEnv ?k = Inr (Some (pack [] [] ?pk))"
    "plaintextOf sampleKeyEnv (?k\<lparr>Key_OverrideSecret := True\<rparr>) = Inr (Some (pack [] [] ?pk))"
    by (simp_all add: plaintextOf_def sampleKeyEnv_def old)
  obtain stored where st: "EncryptAccessSecret sampleLib (replicate 12 CHR ''n'') sampleKeyConfig (pack [] [] ?pk) = Inr stored"
    using sample_encrypts by blast
  obtain d1 where d1: "rekeyKey sampleKeyEnv [] oldSshKey ?d = (None, d1)" "tbl_access_key d1 = [rekeyRow sampleKeyEnv [] oldSshKey]"
    "key_fault d1 = False"
    using oldSshKey_reads plain(2) st
    by (simp add: rekeyKey_def rekeyRow_def old Local_SerializeSecret_def UpdateAccessKey_def AccessKey_Validate_def emptyKeyDb_def)
  then have "RekeyAccessKeys sampleKeyEnv [] ?d = (None, d1)"
    by (simp add: RekeyAccessKeys_def rekeyProject.simps GetAccessKeysPage_def orderByName_def RekeyBatchSize_def emptyKeyDb_def ofProject_def old
        rekeyRow_fields)
  moreover note rekey_keeps_secrets [OF _ _ sample_key_valid sample_json this, of oldSshKey]
  ultimately show ?thesis
    using oldSshKey_reads plain(1) sample_crypto old by (auto simp: emptyKeyDb_def ofProject_def secretPart_def RekeyBatchSize_def split: if_splits)
qed

end
