(* ===== verification/Migration.thy ===== *)
theory Migration
  imports Build_Version Db_Model
begin

text \<open>
  Schema migrations: the ordered list of versions and the upgrade and rollback loops of
  \<^verbatim>\<open>db/Migration.go\<close>, over the migration table of \<^verbatim>\<open>db/sql/migration.go\<close>. What a script does to the
  schema is not modelled; it either succeeds, in one transaction with the row of the table that records
  it, or fails and leaves everything as it was. \<^const>\<open>None\<close> is the end of the process, by a panic or by \<^verbatim>\<open>log.Fatal\<close>.
\<close>

subsection \<open>Versions\<close>

definition initScripts :: "string list" where
  "initScripts =
     [''0.0.0'', ''1.0.0'', ''1.2.0'', ''1.3.0'', ''1.4.0'', ''1.5.0'', ''1.6.0'', ''1.7.0'',
      ''1.8.0'', ''1.9.0'', ''2.2.1'', ''2.3.0'', ''2.3.1'', ''2.3.2'', ''2.4.0'', ''2.5.0'',
      ''2.5.2'', ''2.7.1'', ''2.7.4'', ''2.7.6'', ''2.7.8'', ''2.7.9'', ''2.7.10'', ''2.7.12'',
      ''2.7.13'', ''2.8.0'', ''2.8.1'', ''2.8.7'', ''2.8.8'', ''2.8.20'', ''2.8.25'', ''2.8.26'',
      ''2.8.36'', ''2.8.38'', ''2.8.39'', ''2.8.40'', ''2.8.42'', ''2.8.51'', ''2.8.57'',
      ''2.8.58'', ''2.8.91'', ''2.9.6'', ''2.9.46'', ''2.9.60'', ''2.9.61'', ''2.9.62'',
      ''2.9.70'', ''2.9.97'', ''2.9.100'', ''2.10.12'', ''2.10.15'', ''2.10.16'', ''2.10.24'',
      ''2.10.26'', ''2.10.28'', ''2.10.33'', ''2.10.46'', ''2.11.5'', ''2.12.0'', ''2.12.3'',
      ''2.12.4'', ''2.12.5'', ''2.12.15'', ''2.13.0'', ''2.14.0'', ''2.14.1'', ''2.14.5'',
      ''2.14.7'', ''2.14.12'', ''2.15.0'', ''2.15.1'']"

definition commonScripts :: "string list" where
  "commonScripts =
     [''2.15.2'', ''2.15.3'', ''2.15.4'', ''2.16.0'', ''2.16.1'', ''2.16.2'', ''2.16.3'',
      ''2.16.8'', ''2.16.50'', ''2.17.0'', ''2.17.1'', ''2.17.2'', ''2.17.15'', ''2.17.16'',
      ''2.17.17'', ''2.18.1'', ''2.18.2'', ''2.18.4'', ''2.18.5'', ''2.18.6'', ''2.18.7'',
      ''2.18.15'', ''2.19.2'', ''2.19.11'', ''2.19.12'', ''2.19.14'', ''2.20.0'', ''2.20.1'']"

definition GetMigrations :: "string \<Rightarrow> string list" where
  "GetMigrations dialect =
     (if dialect = ''sqlite'' then [''2.15.1.sqlite''] else initScripts) @ commonScripts"

definition HumanoidVersion :: "string \<Rightarrow> string" where
  "HumanoidVersion version = CHR ''v'' # version"

definition Migration_Validate :: "string \<Rightarrow> go_error option" where
  "Migration_Validate version =
     (if version = [] then Some (ErrOther ''migration version is empty'') else None)"

record MigrationVersion =
  Major :: int
  Minor :: int
  Patch :: int

definition MaxInt :: int where
  "MaxInt = 2 ^ 63 - 1"

definition ParseVersion :: "string \<Rightarrow> go_error + MigrationVersion" where
  "ParseVersion version =
     (let parts = splitOn CHR ''.'' version in
      if length parts < 2 then Inl (ErrOther (''invalid migration version format '' @ version))
      else case Atoi (parts ! 0) of
        None \<Rightarrow> Inl (ErrOther (''invalid migration version major part '' @ parts ! 0))
      | Some major \<Rightarrow>
          (case Atoi (parts ! 1) of
             None \<Rightarrow> Inl (ErrOther (''invalid migration version minor part '' @ parts ! 1))
           | Some minor \<Rightarrow>
               if length parts < 3 then Inr \<lparr>Major = major, Minor = minor, Patch = MaxInt\<rparr>
               else (case Atoi (parts ! 2) of
                       None \<Rightarrow> Inl (ErrOther (''invalid migration version patch part '' @ parts ! 2))
                     | Some patch \<Rightarrow> Inr \<lparr>Major = major, Minor = minor, Patch = patch\<rparr>)))"

definition MigrationVersion_Compare :: "MigrationVersion \<Rightarrow> MigrationVersion \<Rightarrow> int" where
  "MigrationVersion_Compare v w =
     (if Major v < Major w then -1 else if Major v > Major w then 1
      else if Minor v < Minor w then -1 else if Minor v > Minor w then 1
      else if Patch v < Patch w then -1 else if Patch v > Patch w then 1
      else 0)"

text \<open>Comparing two migrations panics (\<^const>\<open>None\<close>) when one of the versions can not be parsed.\<close>

definition Migration_Compare :: "string \<Rightarrow> string \<Rightarrow> int option" where
  "Migration_Compare m w =
     (case (ParseVersion m, ParseVersion w) of
        (Inr v, Inr u) \<Rightarrow> Some (MigrationVersion_Compare v u)
      | _ \<Rightarrow> None)"

subsection \<open>The migration table\<close>

text \<open>
  The versions for which \<^verbatim>\<open>migrations/\<close> has a script \<^verbatim>\<open>.err.sql\<close>. Every listed version has a script \<^verbatim>\<open>.sql\<close>.
\<close>

definition undoScripts :: "string list" where
  "undoScripts =
     [''2.14.0'', ''2.14.1'', ''2.14.12'', ''2.15.0'', ''2.15.1'', ''2.15.2'', ''2.15.3'', ''2.15.4'', ''2.16.0'',
      ''2.16.1'', ''2.16.2'', ''2.16.3'', ''2.16.8'', ''2.16.50'', ''2.17.0'', ''2.17.1'', ''2.17.2'', ''2.17.15'',
      ''2.17.16'', ''2.17.17'', ''2.18.1'', ''2.18.2'', ''2.18.4'', ''2.18.5'', ''2.18.6'', ''2.18.7'', ''2.18.15'',
      ''2.19.2'', ''2.19.11'', ''2.19.12'', ''2.19.14'', ''2.20.0'', ''2.20.1'']"

text \<open>
  What can fail: the queries, the start of a transaction, switching the foreign keys off, a statement of a script
  (fatal when applying), the Go code before and after a script or the commit.
\<close>

record MigrationTable =
  tbl_dialect :: string
  rows :: "string list"
  queryFails :: bool
  beginFails :: bool
  pragmaFails :: bool
  scriptFails :: "string \<Rightarrow> bool"
  applyFails :: "string \<Rightarrow> bool"
  undoFails :: "string \<Rightarrow> bool"

definition IsMigrationApplied :: "string \<Rightarrow> MigrationTable \<Rightarrow> go_error + bool" where
  "IsMigrationApplied version d = (if queryFails d then Inl sqlErr else Inr (version \<in> set (rows d)))"

definition sqliteNeedsFkOff :: "string \<Rightarrow> string \<Rightarrow> bool" where
  "sqliteNeedsFkOff dialect version \<longleftrightarrow> dialect = ''sqlite'' \<and> version = ''2.19.14''"

definition ApplyMigration :: "string \<Rightarrow> MigrationTable \<Rightarrow> (go_error option \<times> MigrationTable) option" where
  "ApplyMigration version d =
     (if queryFails d \<or> sqliteNeedsFkOff (tbl_dialect d) version \<and> pragmaFails d \<or> beginFails d then Some (Some sqlErr, d)
      else if scriptFails d version then None
      else if applyFails d version then Some (Some sqlErr, d)
      else Some (None, d\<lparr>rows := rows d @ [version]\<rparr>))"

text \<open>The errors of an undo are only logged, but a transaction that does not start and a missing script panic.\<close>

definition TryRollbackMigration :: "string \<Rightarrow> MigrationTable \<Rightarrow> MigrationTable option" where
  "TryRollbackMigration version d =
     (if sqliteNeedsFkOff (tbl_dialect d) version \<and> pragmaFails d then None
      else if beginFails d then None
      else if version \<notin> set undoScripts then None
      else if undoFails d version then Some d
      else Some (d\<lparr>rows := filter (\<lambda>v. v \<noteq> version) (rows d)\<rparr>))"

subsection \<open>Upgrading and rolling back\<close>

fun migrateLoop :: "string option \<Rightarrow> string list \<Rightarrow> MigrationTable \<Rightarrow> (go_error option \<times> MigrationTable) option" where
  "migrateLoop target [] d = Some (None, d)"
| "migrateLoop target (version # rest) d =
     (case (case target of None \<Rightarrow> Some False | Some t \<Rightarrow> map_option (\<lambda>c. c > 0) (Migration_Compare version t)) of
        None \<Rightarrow> None
      | Some True \<Rightarrow> Some (None, d)
      | Some False \<Rightarrow>
          (case IsMigrationApplied version d of
             Inl err \<Rightarrow> Some (Some err, d)
           | Inr True \<Rightarrow> migrateLoop target rest d
           | Inr False \<Rightarrow>
               (case ApplyMigration version d of
                  None \<Rightarrow> None
                | Some (Some err, d1) \<Rightarrow> map_option (\<lambda>d2. (Some err, d2)) (TryRollbackMigration version d1)
                | Some (None, d1) \<Rightarrow> migrateLoop target rest d1)))"

definition Migrate :: "string option \<Rightarrow> MigrationTable \<Rightarrow> (go_error option \<times> MigrationTable) option" where
  "Migrate targetVersion d = migrateLoop targetVersion (GetMigrations (tbl_dialect d)) d"

fun rollbackLoop :: "string \<Rightarrow> string list \<Rightarrow> MigrationTable \<Rightarrow> (go_error option \<times> MigrationTable) option" where
  "rollbackLoop target [] d = Some (None, d)"
| "rollbackLoop target (version # rest) d =
     (case Migration_Compare version target of
        None \<Rightarrow> None
      | Some c \<Rightarrow>
          if c \<le> 0 then Some (None, d)
          else (case IsMigrationApplied version d of
                  Inl err \<Rightarrow> Some (Some err, d)
                | Inr False \<Rightarrow> rollbackLoop target rest d
                | Inr True \<Rightarrow> Option.bind (TryRollbackMigration version d) (rollbackLoop target rest)))"

definition Rollback :: "string \<Rightarrow> MigrationTable \<Rightarrow> (go_error option \<times> MigrationTable) option" where
  "Rollback targetVersion d = rollbackLoop targetVersion (rev (GetMigrations (tbl_dialect d))) d"

subsection \<open>The order of the versions\<close>

definition versionOf :: "string \<Rightarrow> MigrationVersion" where
  "versionOf m = (case ParseVersion m of Inr v \<Rightarrow> v | Inl _ \<Rightarrow> \<lparr>Major = 0, Minor = 0, Patch = 0\<rparr>)"

definition parses :: "string \<Rightarrow> bool" where
  "parses m \<longleftrightarrow> (case ParseVersion m of Inr _ \<Rightarrow> True | Inl _ \<Rightarrow> False)"

definition older :: "string \<Rightarrow> string \<Rightarrow> bool" where
  "older a b \<longleftrightarrow> MigrationVersion_Compare (versionOf a) (versionOf b) < 0"

lemma Migration_Compare_parses:
  "parses a \<Longrightarrow> parses b \<Longrightarrow> Migration_Compare a b = Some (MigrationVersion_Compare (versionOf a) (versionOf b))"
  by (auto simp: parses_def Migration_Compare_def versionOf_def split: sum.splits)

lemma compare_flip: "MigrationVersion_Compare a b = - MigrationVersion_Compare b a"
  by (auto simp: MigrationVersion_Compare_def)

lemma compare_less:
  "MigrationVersion_Compare a b < 0 \<longleftrightarrow>
     Major a < Major b \<or> (Major a = Major b \<and> (Minor a < Minor b \<or> (Minor a = Minor b \<and> Patch a < Patch b)))"
  by (auto simp: MigrationVersion_Compare_def)

lemma older_trans: "older a b \<Longrightarrow> older b c \<Longrightarrow> older a c"
  by (auto simp: older_def compare_less)

lemma older_irrefl: "\<not> older a a"
  by (simp add: older_def compare_less)

lemma older_compare_trans:
  "older a b \<Longrightarrow> MigrationVersion_Compare (versionOf a) t > 0 \<Longrightarrow> MigrationVersion_Compare (versionOf b) t > 0"
  using compare_flip [of "versionOf a" t] compare_flip [of "versionOf b" t]
  by (auto simp: older_def compare_less)

fun adjacentOlder :: "string list \<Rightarrow> bool" where
  "adjacentOlder (a # b # rest) = (older a b \<and> adjacentOlder (b # rest))"
| "adjacentOlder _ = True"

lemma adjacent_sorted: "adjacentOlder vs \<Longrightarrow> sorted_wrt older vs"
proof (induction vs rule: adjacentOlder.induct)
  case (1 a b rest)
  then have "sorted_wrt older (b # rest)" "older a b" by simp_all
  then show ?case by (auto intro: older_trans)
qed simp_all

lemma migrations_sorted: "sorted_wrt older (GetMigrations dialect)"
proof (cases "dialect = ''sqlite''")
  case True
  have "adjacentOlder (GetMigrations ''sqlite'')" by code_simp
  with True show ?thesis by (simp add: adjacent_sorted)
next
  case False
  have "adjacentOlder (initScripts @ commonScripts)" by code_simp
  with False show ?thesis by (simp add: GetMigrations_def adjacent_sorted)
qed

lemma migrations_parse: "list_all parses (GetMigrations dialect)"
proof (cases "dialect = ''sqlite''")
  case True
  have "list_all parses (GetMigrations ''sqlite'')" by code_simp
  with True show ?thesis by simp
next
  case False
  have "list_all parses (initScripts @ commonScripts)" by code_simp
  with False show ?thesis by (simp add: GetMigrations_def)
qed


lemma sorted_older_distinct: "sorted_wrt older vs \<Longrightarrow> distinct vs"
  by (induction vs) (auto simp: older_irrefl)

subsection \<open>The loops\<close>

definition databaseWorks :: "MigrationTable \<Rightarrow> bool" where
  "databaseWorks d \<longleftrightarrow> \<not> queryFails d \<and> \<not> beginFails d \<and> \<not> pragmaFails d"

definition upTo :: "string option \<Rightarrow> string \<Rightarrow> bool" where
  "upTo target v =
     (case target of
        None \<Rightarrow> True
      | Some t \<Rightarrow> MigrationVersion_Compare (versionOf v) (versionOf t) \<le> 0)"

lemma upTo_mono: "older a b \<Longrightarrow> \<not> upTo target a \<Longrightarrow> \<not> upTo target b"
  using older_compare_trans by (auto simp: upTo_def not_le split: option.splits)

lemma target_test:
  assumes "parses v" and "\<And>t. target = Some t \<Longrightarrow> parses t"
  shows "(case target of None \<Rightarrow> Some False | Some t \<Rightarrow> map_option (\<lambda>c. c > 0) (Migration_Compare v t)) =
    Some (\<not> upTo target v)"
  using assms by (auto simp: upTo_def Migration_Compare_parses not_le split: option.splits)

lemma migrateLoop_ok:
  assumes "sorted_wrt older vs" and "list_all parses vs" and "\<And>t. target = Some t \<Longrightarrow> parses t"
    and "databaseWorks d" and "\<forall>v\<in>set vs. \<not> scriptFails d v \<and> \<not> applyFails d v"
  shows "migrateLoop target vs d =
    Some (None, d\<lparr>rows := rows d @ filter (\<lambda>v. upTo target v \<and> v \<notin> set (rows d)) vs\<rparr>)"
  using assms
proof (induction vs arbitrary: d)
  case (Cons v vs)
  have nin: "v \<notin> set vs" using Cons.prems(1) older_irrefl by auto
  have test: "(case target of None \<Rightarrow> Some False | Some t \<Rightarrow> map_option (\<lambda>c. c > 0) (Migration_Compare v t)) =
      Some (\<not> upTo target v)"
    using Cons.prems(2,3) by (intro target_test) simp_all
  show ?case
  proof (cases "upTo target v")
    case False
    then have "filter (\<lambda>v. upTo target v \<and> v \<notin> set (rows d)) vs = []"
      using Cons.prems(1) upTo_mono by (auto simp: filter_empty_conv)
    with False test show ?thesis by simp
  next
    case True
    show ?thesis
    proof (cases "v \<in> set (rows d)")
      case True
      with \<open>upTo target v\<close> test Cons show ?thesis by (simp add: IsMigrationApplied_def databaseWorks_def)
    next
      case False
      let ?d = "d\<lparr>rows := rows d @ [v]\<rparr>"
      have "filter (\<lambda>x. upTo target x \<and> x \<notin> set (rows ?d)) vs =
          filter (\<lambda>x. upTo target x \<and> x \<notin> set (rows d)) vs"
        using nin by (intro filter_cong) auto
      with \<open>upTo target v\<close> False test Cons.prems Cons.IH [of ?d] show ?thesis
        by (simp add: IsMigrationApplied_def ApplyMigration_def databaseWorks_def)
    qed
  qed
qed simp

text \<open>The migrations of the list that are applied and newer than the target.\<close>

definition newerApplied :: "string \<Rightarrow> string list \<Rightarrow> MigrationTable \<Rightarrow> string set" where
  "newerApplied t vs d = {v \<in> set vs. v \<in> set (rows d) \<and> \<not> upTo (Some t) v}"

lemma rollbackLoop_ok:
  assumes "sorted_wrt (\<lambda>a b. older b a) vs" and "list_all parses vs" and "parses t"
    and "databaseWorks d" and "\<forall>v\<in>newerApplied t vs d. \<not> undoFails d v"
  shows "rollbackLoop t vs d =
    (if newerApplied t vs d \<subseteq> set undoScripts
     then Some (None, d\<lparr>rows := filter (\<lambda>v. v \<notin> newerApplied t vs d) (rows d)\<rparr>) else None)"
  using assms
proof (induction vs arbitrary: d)
  case Nil
  then show ?case by (simp add: newerApplied_def)
next
  case (Cons v vs)
  have cmp: "Migration_Compare v t = Some (MigrationVersion_Compare (versionOf v) (versionOf t))"
    using Cons.prems(2,3) by (simp add: Migration_Compare_parses)
  have nin: "v \<notin> set vs" using Cons.prems(1) older_irrefl by auto
  show ?case
  proof (cases "upTo (Some t) v")
    case True
    have "upTo (Some t) x" if "x \<in> set vs" for x
      using Cons.prems(1) that True upTo_mono [of x v "Some t"] by auto
    with True have "newerApplied t (v # vs) d = {}" by (auto simp: newerApplied_def)
    with True cmp show ?thesis by (simp add: upTo_def)
  next
    case newer: False
    show ?thesis
    proof (cases "v \<in> set (rows d)")
      case False
      then have "newerApplied t (v # vs) d = newerApplied t vs d" by (auto simp: newerApplied_def)
      then show ?thesis
        using False newer cmp Cons.prems Cons.IH [of d] by (simp add: upTo_def IsMigrationApplied_def databaseWorks_def)
    next
      case True
      let ?d = "d\<lparr>rows := filter (\<lambda>x. x \<noteq> v) (rows d)\<rparr>"
      have na: "newerApplied t (v # vs) d = insert v (newerApplied t vs ?d)"
        using True newer nin by (auto simp: newerApplied_def)
      have step: "rollbackLoop t (v # vs) d = (if v \<in> set undoScripts then rollbackLoop t vs ?d else None)"
        using True newer cmp Cons.prems(4,5) na
        by (simp add: upTo_def IsMigrationApplied_def TryRollbackMigration_def databaseWorks_def)
      have "rollbackLoop t vs ?d =
          (if newerApplied t vs ?d \<subseteq> set undoScripts
           then Some (None, ?d\<lparr>rows := filter (\<lambda>x. x \<notin> newerApplied t vs ?d) (rows ?d)\<rparr>) else None)"
        by (rule Cons.IH) (use Cons.prems na in \<open>simp_all add: databaseWorks_def\<close>)
      moreover have "filter (\<lambda>x. x \<notin> newerApplied t vs ?d) (rows ?d) = filter (\<lambda>x. x \<notin> newerApplied t (v # vs) d) (rows d)"
        unfolding na by (auto intro: filter_cong)
      ultimately show ?thesis unfolding step na by auto
    qed
  qed
qed

subsection \<open>Properties\<close>

text \<open>For every dialect the migrations are listed in strictly increasing order of their versions, and
  every listed version can be parsed, so that comparing two of them never panics.\<close>

lemma migrations_in_order:
  "sorted_wrt older (GetMigrations dialect) \<and> list_all parses (GetMigrations dialect)"
  using migrations_sorted migrations_parse by blast

text \<open>When no script fails, upgrading to a target version applies, in order, exactly the missing
  migrations up to the target; upgrading again then applies nothing.\<close>

lemma migrate_applies_missing:
  assumes "\<And>t. target = Some t \<Longrightarrow> parses t" and "databaseWorks d"
    and "\<forall>v\<in>set (GetMigrations (tbl_dialect d)). \<not> scriptFails d v \<and> \<not> applyFails d v"
  shows "\<exists>d'. Migrate target d = Some (None, d') \<and>
    d' = d\<lparr>rows := rows d @ filter (\<lambda>v. upTo target v \<and> v \<notin> set (rows d)) (GetMigrations (tbl_dialect d))\<rparr> \<and>
    Migrate target d' = Some (None, d')"
proof -
  let ?ms = "GetMigrations (tbl_dialect d)"
  let ?new = "filter (\<lambda>v. upTo target v \<and> v \<notin> set (rows d)) ?ms"
  let ?d = "d\<lparr>rows := rows d @ ?new\<rparr>"
  note loop = migrateLoop_ok [OF migrations_sorted migrations_parse, of target]
  have works: "databaseWorks ?d" using assms(2) by (simp add: databaseWorks_def)
  have "Migrate target d = Some (None, ?d)"
    unfolding Migrate_def by (rule loop) (use assms in simp_all)
  moreover have "Migrate target ?d =
      Some (None, ?d\<lparr>rows := rows ?d @ filter (\<lambda>v. upTo target v \<and> v \<notin> set (rows ?d)) ?ms\<rparr>)"
    unfolding Migrate_def using loop [of ?d "tbl_dialect ?d"] assms works by simp
  moreover have "filter (\<lambda>v. upTo target v \<and> v \<notin> set (rows ?d)) ?ms = []"
    by (auto simp: filter_empty_conv)
  ultimately show ?thesis by (intro exI [of _ ?d]) simp
qed

definition freshTable :: MigrationTable where
  "freshTable = \<lparr>tbl_dialect = ''sqlite'', rows = [], queryFails = False, beginFails = False, pragmaFails = False,
     scriptFails = (\<lambda>_. False), applyFails = (\<lambda>_. False), undoFails = (\<lambda>_. False)\<rparr>"

text \<open>C40. Rolling back undoes an upgrade. Suppose no migration newer than the version \<open>t\<close> is applied yet, and that the
  database works and no script, neither of a migration nor of an undo, fails. When the database was upgraded
  completely and is then rolled back to \<open>t\<close>, the rollback either leaves exactly the table of an upgrade to \<open>t\<close> only,
  when every listed migration newer than \<open>t\<close> has an undo script, or ends in a panic, when one of them has none (as
  the older migrations of MySQL and PostgreSQL).\<close>

theorem rollback_undoes_migrate:
  assumes "parses t" and "databaseWorks d"
    and "\<forall>v\<in>set (GetMigrations (tbl_dialect d)). \<not> scriptFails d v \<and> \<not> applyFails d v \<and> \<not> undoFails d v"
    and "\<forall>v\<in>set (GetMigrations (tbl_dialect d)) \<inter> set (rows d). upTo (Some t) v"
    and "Migrate None d = Some (None, full)"
  shows "Rollback t full =
    (if \<forall>v\<in>set (GetMigrations (tbl_dialect d)). \<not> upTo (Some t) v \<longrightarrow> v \<in> set undoScripts
     then Migrate (Some t) d else None)"
proof -
  let ?ms = "GetMigrations (tbl_dialect d)"
  have "Migrate None d = Some (None, d\<lparr>rows := rows d @ filter (\<lambda>v. v \<notin> set (rows d)) ?ms\<rparr>)"
    using migrate_applies_missing [of None d] assms(2,3) by (simp add: upTo_def)
  with assms(5) have full: "full = d\<lparr>rows := rows d @ filter (\<lambda>v. v \<notin> set (rows d)) ?ms\<rparr>" by simp
  have m: "Migrate (Some t) d =
      Some (None, d\<lparr>rows := rows d @ filter (\<lambda>v. upTo (Some t) v \<and> v \<notin> set (rows d)) ?ms\<rparr>)"
    using migrate_applies_missing [of "Some t" d] assms(1-3) by auto
  have newer: "newerApplied t (rev ?ms) full = {v \<in> set ?ms. \<not> upTo (Some t) v}"
    by (auto simp: newerApplied_def full)
  have "sorted_wrt (\<lambda>a b. older b a) (rev ?ms)"
    using migrations_sorted by (simp add: sorted_wrt_rev)
  then have "rollbackLoop t (rev ?ms) full =
      (if newerApplied t (rev ?ms) full \<subseteq> set undoScripts
       then Some (None, full\<lparr>rows := filter (\<lambda>v. v \<notin> newerApplied t (rev ?ms) full) (rows full)\<rparr>) else None)"
    by (rule rollbackLoop_ok) (use assms migrations_parse in \<open>auto simp: full databaseWorks_def newerApplied_def\<close>)
  moreover have dialect: "tbl_dialect full = tbl_dialect d" by (simp add: full)
  moreover have "newerApplied t (rev ?ms) full \<subseteq> set undoScripts \<longleftrightarrow>
      (\<forall>v\<in>set ?ms. \<not> upTo (Some t) v \<longrightarrow> v \<in> set undoScripts)"
    unfolding newer by blast
  ultimately have undone: "Rollback t full =
      (if \<forall>v\<in>set ?ms. \<not> upTo (Some t) v \<longrightarrow> v \<in> set undoScripts
       then Some (None, full\<lparr>rows := filter (\<lambda>v. v \<notin> newerApplied t (rev ?ms) full) (rows full)\<rparr>) else None)"
    unfolding Rollback_def dialect by (simp only:)
  have left: "filter (\<lambda>v. v \<notin> newerApplied t (rev ?ms) full) (rows full) =
      rows d @ filter (\<lambda>v. upTo (Some t) v \<and> v \<notin> set (rows d)) ?ms"
  proof -
    have "filter (\<lambda>v. \<not> (v \<in> set ?ms \<and> \<not> upTo (Some t) v)) (rows d) = rows d"
      using assms(4) by (intro filter_True) auto
    moreover have "filter (\<lambda>v. \<not> (v \<in> set ?ms \<and> \<not> upTo (Some t) v)) (filter (\<lambda>v. v \<notin> set (rows d)) ?ms) =
        filter (\<lambda>v. upTo (Some t) v \<and> v \<notin> set (rows d)) ?ms"
      by (auto intro: filter_cong)
    ultimately show ?thesis unfolding newer by (simp add: full)
  qed
  have "full\<lparr>rows := rs\<rparr> = d\<lparr>rows := rs\<rparr>" for rs by (simp add: full)
  then show ?thesis unfolding undone left m by (simp only:)
qed

theorem rollback_undoes_migrate_witness:
  "\<exists>full. Migrate None freshTable = Some (None, full) \<and> Rollback ''2.15.3'' full = Migrate (Some ''2.15.3'') freshTable \<and>
     (\<exists>up. Migrate (Some ''2.15.3'') freshTable = Some (None, up))"
proof -
  have p: "parses ''2.15.3''" by code_simp
  have works: "databaseWorks freshTable" by (simp add: databaseWorks_def freshTable_def)
  have fine: "\<forall>v\<in>set (GetMigrations (tbl_dialect freshTable)).
      \<not> scriptFails freshTable v \<and> \<not> applyFails freshTable v \<and> \<not> undoFails freshTable v"
    "\<forall>v\<in>set (GetMigrations (tbl_dialect freshTable)) \<inter> set (rows freshTable). upTo (Some ''2.15.3'') v"
    by (simp_all add: freshTable_def)
  have undo: "\<forall>v\<in>set (GetMigrations (tbl_dialect freshTable)). \<not> upTo (Some ''2.15.3'') v \<longrightarrow> v \<in> set undoScripts"
  proof -
    have "list_all (\<lambda>v. upTo (Some ''2.15.3'') v \<or> v \<in> set undoScripts) (GetMigrations ''sqlite'')" by code_simp
    then show ?thesis by (auto simp: freshTable_def list_all_iff)
  qed
  obtain full where f: "Migrate None freshTable = Some (None, full)"
    using migrate_applies_missing [of None freshTable] works fine(1) by auto
  obtain up where "Migrate (Some ''2.15.3'') freshTable = Some (None, up)"
    using migrate_applies_missing [of "Some ''2.15.3''" freshTable] works fine(1) p by auto
  with rollback_undoes_migrate [OF p works fine f] undo f show ?thesis by auto
qed

end
