(* ===== verification/Permissions.thy ===== *)
theory Permissions
  imports Db_Model "HOL-Library.Word"
begin

unbundle bit_operations_syntax

text \<open>
  Project roles and their permissions, \<^verbatim>\<open>db/ProjectUser.go\<close> and \<^verbatim>\<open>db/Role.go\<close>. A permission is a set of
  bits of a 64-bit integer; roles are strings, four of which are built in.
\<close>

type_synonym ProjectUserPermission = "64 word"

abbreviation (input) ProjectOwner :: string where "ProjectOwner \<equiv> ''owner''"
abbreviation (input) ProjectManager :: string where "ProjectManager \<equiv> ''manager''"
abbreviation (input) ProjectTaskRunner :: string where "ProjectTaskRunner \<equiv> ''task_runner''"
abbreviation (input) ProjectGuest :: string where "ProjectGuest \<equiv> ''guest''"

definition CanRunProjectTasks :: ProjectUserPermission where
  "CanRunProjectTasks = push_bit 0 1"

definition CanUpdateProject :: ProjectUserPermission where
  "CanUpdateProject = push_bit 1 1"

definition CanManageProjectResources :: ProjectUserPermission where
  "CanManageProjectResources = push_bit 2 1"

definition CanManageProjectUsers :: ProjectUserPermission where
  "CanManageProjectUsers = push_bit 3 1"

definition rolePermissions :: "(string \<times> ProjectUserPermission) list" where
  "rolePermissions =
     [(ProjectOwner, CanRunProjectTasks OR CanManageProjectResources OR CanUpdateProject OR CanManageProjectUsers),
      (ProjectManager, CanRunProjectTasks OR CanManageProjectResources),
      (ProjectTaskRunner, CanRunProjectTasks),
      (ProjectGuest, 0)]"

definition Role_IsValid :: "string \<Rightarrow> bool" where
  "Role_IsValid r \<longleftrightarrow> map_of rolePermissions r \<noteq> None"

text \<open>Indexing a Go map with a missing key gives the zero value.\<close>

definition GetPermissions :: "string \<Rightarrow> ProjectUserPermission" where
  "GetPermissions r = (case map_of rolePermissions r of Some p \<Rightarrow> p | None \<Rightarrow> 0)"

definition Can :: "string \<Rightarrow> ProjectUserPermission \<Rightarrow> bool" where
  "Can r permissions \<longleftrightarrow> GetPermissions r AND permissions = permissions"

record Role =
  Role_Slug :: string
  Role_Name :: string
  Role_Permissions :: ProjectUserPermission
  Role_ProjectID :: "ident option"

definition ValidateRole :: "Role \<Rightarrow> go_error option" where
  "ValidateRole role =
     (if Role_Name role = [] then Some (ValidationError ''Role name cannot be empty'')
      else if Role_Slug role = [] then Some (ValidationError ''Role slug cannot be empty'')
      else if Role_IsValid (Role_Slug role)
      then Some (ValidationError (''Role slug is reserved and cannot be used: '' @ Role_Slug role))
      else None)"

lemma Can_bits: "Can r p \<longleftrightarrow> (\<forall>i<64. bit p i \<longrightarrow> bit (GetPermissions r) i)"
  unfolding Can_def by (auto simp: bit_eq_iff bit_and_iff dest: bit_imp_le_length)

lemma GetPermissions_simps:
  "GetPermissions ProjectOwner = 15" "GetPermissions ProjectManager = 5"
  "GetPermissions ProjectTaskRunner = 1" "GetPermissions ProjectGuest = 0"
  by code_simp+

subsection \<open>Properties\<close>

text \<open>A role can do a combination of things exactly when it can do each of them: asking for several
  permissions at once is the conjunction of asking for each.\<close>

lemma can_combined: "Can r (p OR q) \<longleftrightarrow> Can r p \<and> Can r q"
  unfolding Can_bits by (auto simp: bit_or_iff)

text \<open>The built-in roles form a chain: what a guest may do a task runner may, what a task runner
  may do a manager may, and what a manager may do an owner may. A role that is not built in can do
  nothing through this table, only an owner can change the project or its users, and a custom role that
  passes validation can not take the name of a built-in one.\<close>

lemma roles_form_chain:
  "(Can ProjectGuest p \<longrightarrow> Can ProjectTaskRunner p) \<and> (Can ProjectTaskRunner p \<longrightarrow> Can ProjectManager p) \<and>
   (Can ProjectManager p \<longrightarrow> Can ProjectOwner p) \<and>
   (Can r CanManageProjectUsers \<longleftrightarrow> r = ProjectOwner) \<and> (Can r CanUpdateProject \<longleftrightarrow> r = ProjectOwner) \<and>
   (\<not> Role_IsValid r \<and> Can r p \<longrightarrow> p = 0) \<and>
   (ValidateRole role = None \<longrightarrow> \<not> Role_IsValid (Role_Slug role))"
proof -
  have mono: "Can a p \<Longrightarrow> GetPermissions a AND GetPermissions b = GetPermissions a \<Longrightarrow> Can b p" for a b
    unfolding Can_def by (metis and.assoc and.commute)
  have "Can ProjectGuest p \<Longrightarrow> Can ProjectTaskRunner p" "Can ProjectTaskRunner p \<Longrightarrow> Can ProjectManager p"
    "Can ProjectManager p \<Longrightarrow> Can ProjectOwner p"
    by (rule mono, assumption, simp add: GetPermissions_simps)+
  moreover have "Can r CanManageProjectUsers \<longleftrightarrow> r = ProjectOwner" "Can r CanUpdateProject \<longleftrightarrow> r = ProjectOwner"
  proof -
    have other: "r \<notin> {ProjectOwner, ProjectManager, ProjectTaskRunner, ProjectGuest} \<Longrightarrow> GetPermissions r = 0"
      by (simp add: GetPermissions_def rolePermissions_def)
    have vals: "CanManageProjectUsers = 8" "CanUpdateProject = 2" by code_simp+
    show "Can r CanManageProjectUsers \<longleftrightarrow> r = ProjectOwner" "Can r CanUpdateProject \<longleftrightarrow> r = ProjectOwner"
      using other unfolding Can_def vals
      by (cases "r \<in> {ProjectOwner, ProjectManager, ProjectTaskRunner, ProjectGuest}";
          auto simp: GetPermissions_simps)+
  qed
  moreover have "\<not> Role_IsValid r \<Longrightarrow> Can r p \<Longrightarrow> p = 0"
    by (simp add: Role_IsValid_def GetPermissions_def Can_def)
  moreover have "ValidateRole role = None \<Longrightarrow> \<not> Role_IsValid (Role_Slug role)"
    by (auto simp: ValidateRole_def split: if_splits)
  ultimately show ?thesis by blast
qed

end
