(* ===== verification/Executor_Host.thy ===== *)
theory Executor_Host
  imports Executor_Args
begin

text \<open>
  The machine on which the local executor works: files, processes, key agents and git, and the operations on
  repositories of \<^verbatim>\<open>db_lib/GitRepository.go\<close> and \<^verbatim>\<open>db_lib/CmdGitClient.go\<close>, with the installation of access keys
  (\<^verbatim>\<open>pkg/ssh/agent.go\<close>, \<^verbatim>\<open>services/server/access_key_installation_svc.go\<close>). Every contact with the machine is an
  effect that is appended to a trace; whether it fails and what it prints is an arbitrary function of the
  trace so far, so a statement about all machines covers every sequence of failures.
\<close>

subsection \<open>Effects\<close>

text \<open>
  A command of \<^verbatim>\<open>os/exec\<close>, with the answers that are typed at its prompts. It is run by the git client (\<open>Git\<close>) or
  by the application of a template (\<open>Process\<close>).
\<close>

record Cmd =
  cmd_Path :: string
  cmd_Args :: "string list"
  cmd_Dir :: string
  cmd_Env :: "string list"
  cmd_Inputs :: "(string \<times> string) list"

datatype exec_effect =
    ReportStatus TaskStatus
  | ReportCommit string string
  | EnsureDir string
  | Chown string
  | StatPath string
  | RemoveAll string
  | RemoveFile string
  | WriteFile string string
  | ReadFile string
  | LockRepo string
  | UnlockRepo string
  | StartAgent string
  | CloseAgent string
  | Sleep int
  | Git Cmd
  | Process Cmd

text \<open>The arguments, environment and prompt answers that \<^verbatim>\<open>Prepare\<close> leaves for the run.\<close>

record Prepared =
  prep_Env :: "string list"
  prep_Args :: stages
  prep_Inputs :: "(string \<times> string) list"

text \<open>
  The state: the executor, what it prepared, the two fields that the Terraform application changes, and the
  trace. The functions of the trace are the machine: which effects fail, what they print, which status the
  server has last set, whether it has asked to kill the job, and the clock and the tables from which a secret
  is read at that point.
\<close>

record Host =
  h_exec :: RunningExecutor
  h_prepared :: "Prepared option"
  h_backend :: string
  h_noChanges :: bool
  h_trace :: "exec_effect list"
  h_fails :: "exec_effect list \<Rightarrow> exec_effect \<Rightarrow> go_error option"
  h_output :: "exec_effect list \<Rightarrow> exec_effect \<Rightarrow> string"
  h_random :: "nat \<Rightarrow> string"
  h_status :: "exec_effect list \<Rightarrow> TaskStatus"
  h_killed :: "exec_effect list \<Rightarrow> bool"
  h_now :: "exec_effect list \<Rightarrow> go_time"
  h_keyDb :: "exec_effect list \<Rightarrow> KeyDb"

subsection \<open>Actions\<close>

text \<open>An action may panic or never return (both \<^const>\<open>None\<close>), return an error, or return a value.\<close>

type_synonym 'a action = "Host \<Rightarrow> ((go_error + 'a) \<times> Host) option"

definition return :: "'a \<Rightarrow> 'a action" where
  "return a h = Some (Inr a, h)"

definition throw :: "go_error \<Rightarrow> 'a action" where
  "throw err h = Some (Inl err, h)"

definition panicA :: "'a action" where
  "panicA h = None"

definition liftRes :: "go_error + 'a \<Rightarrow> 'a action" where
  "liftRes r h = Some (r, h)"

definition liftOpt :: "(go_error + 'a) option \<Rightarrow> 'a action" where
  "liftOpt r h = map_option (\<lambda>res. (res, h)) r"

definition seqA :: "'a action \<Rightarrow> ('a \<Rightarrow> 'b action) \<Rightarrow> 'b action" where
  "seqA m f h =
     (case m h of
        None \<Rightarrow> None
      | Some (Inl err, h1) \<Rightarrow> Some (Inl err, h1)
      | Some (Inr a, h1) \<Rightarrow> f a h1)"

text \<open>Running an action for its result or its error, never stopping at the error.\<close>

definition tryA :: "'a action \<Rightarrow> (go_error + 'a) action" where
  "tryA m h = (case m h of None \<Rightarrow> None | Some (r, h1) \<Rightarrow> Some (Inr r, h1))"

text \<open>\<^verbatim>\<open>defer\<close>: the second action runs after the first whatever its result, which is kept.\<close>

definition deferA :: "unit action \<Rightarrow> 'a action \<Rightarrow> 'a action" where
  "deferA cleanup m h =
     (case m h of
        None \<Rightarrow> None
      | Some (r, h1) \<Rightarrow> (case cleanup h1 of None \<Rightarrow> None | Some (_, h2) \<Rightarrow> Some (r, h2)))"

definition perform :: "exec_effect \<Rightarrow> unit action" where
  "perform e h =
     (let h1 = h\<lparr>h_trace := h_trace h @ [e]\<rparr>
      in case h_fails h (h_trace h) e of None \<Rightarrow> Some (Inr (), h1) | Some err \<Rightarrow> Some (Inl err, h1))"

text \<open>An effect whose error is dropped.\<close>

definition ignoring :: "exec_effect \<Rightarrow> unit action" where
  "ignoring e h = Some (Inr (), h\<lparr>h_trace := h_trace h @ [e]\<rparr>)"

text \<open>An effect with output.\<close>

definition performOut :: "exec_effect \<Rightarrow> string action" where
  "performOut e h =
     (let h1 = h\<lparr>h_trace := h_trace h @ [e]\<rparr>
      in case h_fails h (h_trace h) e of
           None \<Rightarrow> Some (Inr (h_output h (h_trace h) e), h1)
         | Some err \<Rightarrow> Some (Inl err, h1))"

definition getExec :: "RunningExecutor action" where
  "getExec h = Some (Inr (h_exec h), h)"

definition modExec :: "(RunningExecutor \<Rightarrow> RunningExecutor) \<Rightarrow> unit action" where
  "modExec f h = Some (Inr (), h\<lparr>h_exec := f (h_exec h)\<rparr>)"

fun eachA :: "('a \<Rightarrow> unit action) \<Rightarrow> 'a list \<Rightarrow> unit action" where
  "eachA f [] = return ()"
| "eachA f (x # xs) = seqA (f x) (\<lambda>_. eachA f xs)"

definition whenA :: "bool \<Rightarrow> unit action \<Rightarrow> unit action" where
  "whenA b m = (if b then m else return ())"

subsection \<open>Access keys\<close>

datatype AccessKeyRole = RoleAnsibleUser | RoleAnsibleBecomeUser | RoleAnsiblePasswordVault | RoleGit

definition socketFile :: "ExecEnv \<Rightarrow> AccessKey \<Rightarrow> string \<Rightarrow> string" where
  "socketFile x key random =
     (let name = ''ssh-agent-'' @ itoa (Key_ID key) @ ''-'' @ random @ ''.sock''
      in path_Join [case Key_ProjectID key of None \<Rightarrow> x_TmpPath x | Some p \<Rightarrow> GetProjectTmpDir x p, name])"

text \<open>
  \<^verbatim>\<open>StartSSHAgent\<close>: reading the key and listening on the socket fail together here. An agent that did not
  start holds nothing, so a failed installation is represented by its error alone.
\<close>

definition StartSSHAgent :: "ExecEnv \<Rightarrow> AccessKey \<Rightarrow> AccessKeyInstallation action" where
  "StartSSHAgent x key h =
     (let socket = socketFile x key (h_random h (length (h_trace h)))
      in seqA (perform (StartAgent socket))
           (\<lambda>_. return (noInstallation\<lparr>Inst_Socket := Some socket, Inst_Login := Ssh_Login (Key_SshKey key)\<rparr>)) h)"

definition passwordInstallation :: "AccessKey \<Rightarrow> AccessKeyInstallation" where
  "passwordInstallation key =
     noInstallation\<lparr>Inst_Login := LP_Login (Key_LoginPassword key), Inst_Password := LP_Password (Key_LoginPassword key)\<rparr>"

definition KeyInstaller_Install :: "ExecEnv \<Rightarrow> AccessKey \<Rightarrow> AccessKeyRole \<Rightarrow> AccessKeyInstallation action" where
  "KeyInstaller_Install x key usage =
     (case usage of
        RoleGit \<Rightarrow> (if Key_Type key = ''ssh'' then StartSSHAgent x key else return noInstallation)
      | RoleAnsiblePasswordVault \<Rightarrow>
          (if Key_Type key = ''login_password''
           then return (noInstallation\<lparr>Inst_Password := LP_Password (Key_LoginPassword key)\<rparr>)
           else throw (ErrOther ''access key type not supported for ansible password vault''))
      | RoleAnsibleBecomeUser \<Rightarrow>
          (if Key_Type key \<noteq> ''login_password''
           then throw (ErrOther ''access key type not supported for ansible become user'')
           else return (passwordInstallation key))
      | RoleAnsibleUser \<Rightarrow>
          (if Key_Type key = ''ssh'' then StartSSHAgent x key
           else if Key_Type key = ''login_password'' then return (passwordInstallation key)
           else if Key_Type key = ''none'' then return noInstallation
           else throw (ErrOther ''access key type not supported for ansible user'')))"

text \<open>
  The server decrypts a key before it installs it and accepts a key without secret for every use. A key that is
  stored in the environment is read from the environment of the process.
\<close>

definition deserializeKey :: "ExecEnv \<Rightarrow> AccessKey \<Rightarrow> AccessKey action" where
  "deserializeKey x key h =
     map_option (\<lambda>r. (r, h))
       (DeserializeSecret ((x_keys x)\<lparr>ke_getenv := x_getenv x\<rparr>) (h_now h (h_trace h)) key (h_keyDb h (h_trace h)))"

definition Service_Install :: "ExecEnv \<Rightarrow> AccessKey \<Rightarrow> AccessKeyRole \<Rightarrow> AccessKeyInstallation action" where
  "Service_Install x key usage =
     (if Key_Type key = ''none'' then return noInstallation
      else seqA (deserializeKey x key) (\<lambda>key1. KeyInstaller_Install x key1 usage))"

definition Install :: "ExecEnv \<Rightarrow> AccessKey \<Rightarrow> AccessKeyRole \<Rightarrow> AccessKeyInstallation action" where
  "Install x = (if x_OnRunner x then KeyInstaller_Install x else Service_Install x)"

lemma unmarshalAppropriateField_type: "unmarshalAppropriateField env k s = Inr k1 \<Longrightarrow> Key_Type k1 = Key_Type k"
  by (auto simp: unmarshalAppropriateField_def map_sum_def split: if_splits sum.splits)

lemma DeserializeSecret_type: "DeserializeSecret env clock k d = Some (Inr k1) \<Longrightarrow> Key_Type k1 = Key_Type k"
  by (auto simp: DeserializeSecret_def map_sum_def dest: unmarshalAppropriateField_type
      split: if_splits option.splits sum.splits prod.splits)

text \<open>Reading the secret panics for a key of an external storage that belongs to no project.\<close>

definition addressed :: "AccessKey \<Rightarrow> bool" where
  "addressed k \<longleftrightarrow> (Key_SourceStorageType k = Some ''vault'' \<longrightarrow> Key_ProjectID k \<noteq> None)"

lemma DeserializeSecret_defined: "addressed k \<Longrightarrow> DeserializeSecret env clock k d \<noteq> None"
  by (auto simp: addressed_def DeserializeSecret_def getDeserializer_def split: option.splits sum.splits)

text \<open>The keys that a run of the executor installs: of its inventory, of the repositories and of the vaults.\<close>

definition runKeys :: "RunningExecutor \<Rightarrow> AccessKey list" where
  "runKeys t =
     [Inventory_SSHKey (ex_Inventory t), Inventory_BecomeKey (ex_Inventory t), Repository_SSHKey (ex_Repository t)] @
     (case Inventory_Repository (ex_Inventory t) of None \<Rightarrow> [] | Some r \<Rightarrow> [Repository_SSHKey r]) @
     concat (map (\<lambda>v. case TVault_Vault v of None \<Rightarrow> [] | Some k \<Rightarrow> [k]) (Template_Vaults (ex_Template t)))"

lemma runKeys_update [simp]:
  "runKeys (t\<lparr>ex_sshKey := i\<rparr>) = runKeys t" "runKeys (t\<lparr>ex_becomeKey := i\<rparr>) = runKeys t"
  "runKeys (t\<lparr>ex_vaultFiles := vs\<rparr>) = runKeys t" "runKeys (t\<lparr>ex_Task := task\<rparr>) = runKeys t"
  "runKeys (t\<lparr>ex_Repository := (ex_Repository t)\<lparr>Repository_GitBranch := b\<rparr>\<rparr>) = runKeys t"
  by (simp_all add: runKeys_def)

lemma runKeys_member:
  "Inventory_SSHKey (ex_Inventory t) \<in> set (runKeys t)"
  "Inventory_BecomeKey (ex_Inventory t) \<in> set (runKeys t)"
  "Repository_SSHKey (ex_Repository t) \<in> set (runKeys t)"
  "Inventory_Repository (ex_Inventory t) = Some r \<Longrightarrow> Repository_SSHKey r \<in> set (runKeys t)"
  "v \<in> set (Template_Vaults (ex_Template t)) \<Longrightarrow> TVault_Vault v = Some k \<Longrightarrow> k \<in> set (runKeys t)"
  by (force simp: runKeys_def)+

text \<open>An installation fails before it touches the machine, installs nothing, or installs a key of the same type.\<close>

lemma Install_elim:
  assumes "Install x k usage h = Some (r, h')"
  obtains (failed) err where "r = Inl err" "h' = h"
  | (nothing) "r = Inr noInstallation" "h' = h"
  | (installed) k1 where "Key_Type k1 = Key_Type k" "KeyInstaller_Install x k1 usage h = Some (r, h')"
  using assms
  by (auto simp: Install_def Service_Install_def deserializeKey_def seqA_def return_def
      dest: DeserializeSecret_type split: if_splits option.splits sum.splits)

definition Destroy :: "AccessKeyInstallation \<Rightarrow> unit action" where
  "Destroy inst = (case Inst_Socket inst of None \<Rightarrow> return () | Some socket \<Rightarrow> ignoring (CloseAgent socket))"

subsection \<open>Environment variables of commands\<close>

definition getHomeDir :: "ExecEnv \<Rightarrow> Repository \<Rightarrow> string" where
  "getHomeDir x r =
     (if x_HomeDirMode x = ''project_home'' then GetProjectTmpDir x (Repository_ProjectID r)
      else if x_HomeDirMode x = ''template_dir'' \<or> x_HomeDirMode x = ''user_home'' then x_getenv x ''HOME''
      else [])"

definition getEnvironmentVars :: "ExecEnv \<Rightarrow> string list" where
  "getEnvironmentVars x =
     [assignment ''PATH'' (x_getenv x ''PATH'')] @
     map (\<lambda>e. assignment e (x_getenv x e)) (filter (\<lambda>e. x_getenv x e \<noteq> []) (x_ForwardedEnvVars x)) @
     map (\<lambda>(k, v). assignment k v) (x_EnvVars x)"

text \<open>\<^const>\<open>None\<close> is the panic on an unknown option.\<close>

definition gitHostKeyCheckingOpts :: "ExecEnv \<Rightarrow> string option" where
  "gitHostKeyCheckingOpts x =
     (if x_StrictHostKeyChecking x = ''yes''
      then Some (''-o StrictHostKeyChecking=yes -o UserKnownHostsFile='' @ x_KnownHostsFile x)
      else if x_StrictHostKeyChecking x = ''no''
      then Some ''-o StrictHostKeyChecking=no -o UserKnownHostsFile=/dev/null''
      else if x_StrictHostKeyChecking x = ''accept-new''
      then Some (''-o StrictHostKeyChecking=accept-new -o UserKnownHostsFile='' @ x_KnownHostsFile x)
      else None)"

definition GetGitEnv :: "ExecEnv \<Rightarrow> AccessKeyInstallation \<Rightarrow> string list option" where
  "GetGitEnv x inst =
     (case Inst_Socket inst of
        None \<Rightarrow> Some [assignment ''GIT_TERMINAL_PROMPT'' ''0'']
      | Some socket \<Rightarrow>
          map_option (\<lambda>opts.
              [assignment ''GIT_TERMINAL_PROMPT'' ''0'', assignment ''SSH_AUTH_SOCK'' socket,
               assignment ''GIT_SSH_COMMAND''
                 (''ssh '' @ opts @ (if x_SshConfigPath x \<noteq> [] then '' -F '' @ x_SshConfigPath x else []))])
            (gitHostKeyCheckingOpts x))"

subsection \<open>The git client\<close>

text \<open>
  A working copy: a repository, the template whose copy it is, and for an inventory its own directory name.
  Repositories are handled by the command line client, the default of the configuration.
\<close>

record GitRepository =
  git_TmpDirName :: string
  git_TemplateID :: ident
  git_Repository :: Repository

definition git_FullPath :: "ExecEnv \<Rightarrow> GitRepository \<Rightarrow> string" where
  "git_FullPath x r =
     (if git_TmpDirName r \<noteq> []
      then path_Join [GetProjectTmpDir x (Repository_ProjectID (git_Repository r)), git_TmpDirName r]
      else GetFullPath x (git_Repository r) (git_TemplateID r))"

datatype GitRepositoryDirType = GitRepositoryTmpPath | GitRepositoryFullPath

definition gitDir :: "ExecEnv \<Rightarrow> GitRepository \<Rightarrow> GitRepositoryDirType \<Rightarrow> string" where
  "gitDir x r target =
     (case target of
        GitRepositoryTmpPath \<Rightarrow> GetProjectTmpDir x (Repository_ProjectID (git_Repository r))
      | GitRepositoryFullPath \<Rightarrow> git_FullPath x r)"

text \<open>The directory for temporary files is created when it is missing; if that fails, the error is only logged.\<close>

definition git_makeCmd ::
  "ExecEnv \<Rightarrow> GitRepository \<Rightarrow> GitRepositoryDirType \<Rightarrow> AccessKeyInstallation \<Rightarrow> string list \<Rightarrow> Cmd action" where
  "git_makeCmd x r target inst args =
     (case GetGitEnv x inst of
        None \<Rightarrow> panicA
      | Some env \<Rightarrow>
          seqA (case target of
                  GitRepositoryTmpPath \<Rightarrow> ignoring (EnsureDir (gitDir x r target))
                | GitRepositoryFullPath \<Rightarrow> return ())
            (\<lambda>_. return \<lparr>cmd_Path = ''git'', cmd_Args = args, cmd_Dir = gitDir x r target,
                           cmd_Env = getEnvironmentVars x @ env, cmd_Inputs = []\<rparr>))"

text \<open>Every command runs with the key of the repository installed.\<close>

definition git_run :: "ExecEnv \<Rightarrow> GitRepository \<Rightarrow> GitRepositoryDirType \<Rightarrow> string list \<Rightarrow> unit action" where
  "git_run x r target args =
     seqA (Install x (Repository_SSHKey (git_Repository r)) RoleGit) (\<lambda>inst.
       deferA (Destroy inst)
         (seqA (git_makeCmd x r target inst args) (\<lambda>cmd. perform (Git cmd))))"

definition trimOutput :: "string \<Rightarrow> string" where
  "trimOutput s =
     (let blank = (\<lambda>c. c = CHR '' '' \<or> c = CHR 0x0A) in rev (dropWhile blank (rev (dropWhile blank s))))"

definition git_output :: "ExecEnv \<Rightarrow> GitRepository \<Rightarrow> GitRepositoryDirType \<Rightarrow> string list \<Rightarrow> string action" where
  "git_output x r target args =
     seqA (Install x (Repository_SSHKey (git_Repository r)) RoleGit) (\<lambda>inst.
       deferA (Destroy inst)
         (seqA (git_makeCmd x r target inst args) (\<lambda>cmd.
           seqA (performOut (Git cmd)) (\<lambda>out. return (trimOutput out)))))"

text \<open>\<^const>\<open>None\<close> of \<^const>\<open>GetGitURL\<close> is its panic.\<close>

definition git_Clone :: "ExecEnv \<Rightarrow> GitRepository \<Rightarrow> unit action" where
  "git_Clone x r =
     (let repo = git_Repository r;
          dirName = (if git_TmpDirName r = [] then GetDirName repo (git_TemplateID r) else git_TmpDirName r)
      in seqA (perform (EnsureDir (git_FullPath x r))) (\<lambda>_.
         seqA (perform (Chown (git_FullPath x r))) (\<lambda>_.
           case GetGitURL False repo of
             None \<Rightarrow> panicA
           | Some url \<Rightarrow>
               git_run x r GitRepositoryTmpPath
                 [''clone'', ''--recursive'', ''--branch'', Repository_GitBranch repo, ''--end-of-options'', url, dirName])))"

definition git_Pull :: "ExecEnv \<Rightarrow> GitRepository \<Rightarrow> unit action" where
  "git_Pull x r =
     seqA (git_run x r GitRepositoryFullPath
             [''pull'', ''origin'', ''--end-of-options'', Repository_GitBranch (git_Repository r)])
       (\<lambda>_. git_run x r GitRepositoryFullPath [''submodule'', ''update'', ''--init'', ''--recursive''])"

definition git_Checkout :: "ExecEnv \<Rightarrow> GitRepository \<Rightarrow> string \<Rightarrow> unit action" where
  "git_Checkout x r target = git_run x r GitRepositoryFullPath [''checkout'', ''--end-of-options'', target]"

definition git_CanBePulled :: "ExecEnv \<Rightarrow> GitRepository \<Rightarrow> bool action" where
  "git_CanBePulled x r =
     seqA (tryA (seqA (git_run x r GitRepositoryFullPath [''fetch''])
                   (\<lambda>_. git_run x r GitRepositoryFullPath
                           [''merge-base'', ''--is-ancestor'', ''HEAD'', ''origin/'' @ Repository_GitBranch (git_Repository r)])))
       (\<lambda>res. return (case res of Inl _ \<Rightarrow> False | Inr _ \<Rightarrow> True))"

definition git_GetLastCommitMessage :: "ExecEnv \<Rightarrow> GitRepository \<Rightarrow> string action" where
  "git_GetLastCommitMessage x r =
     seqA (git_output x r GitRepositoryFullPath [''show-branch'', ''--no-name'', ''HEAD''])
       (\<lambda>msg. return (truncateCommitMessage msg))"

definition git_GetLastCommitHash :: "ExecEnv \<Rightarrow> GitRepository \<Rightarrow> string action" where
  "git_GetLastCommitHash x r = git_output x r GitRepositoryFullPath [''rev-parse'', ''HEAD'']"

definition git_GetLastRemoteCommitHash :: "ExecEnv \<Rightarrow> GitRepository \<Rightarrow> string action" where
  "git_GetLastRemoteCommitHash x r =
     (case GetGitURL False (git_Repository r) of
        None \<Rightarrow> panicA
      | Some url \<Rightarrow>
          seqA (git_output x r GitRepositoryTmpPath
                  [''ls-remote'', ''--end-of-options'', url, Repository_GitBranch (git_Repository r)]) (\<lambda>out.
            (let hash = takeWhile (\<lambda>c. c \<noteq> CHR 0x09 \<and> c \<noteq> CHR '' '') out in
             if length hash = length out then throw (ErrOther ''can't retreave remote commit hash'') else return hash)))"

definition getRepositoryBranchNames :: "string list \<Rightarrow> string list" where
  "getRepositoryBranchNames branches =
     concat (map (\<lambda>branch.
        (let parts = splitOn CHR 0x09 branch in
         if length parts < 2 then []
         else let refPath = trimSpace (parts ! 1) in
              if take 11 refPath = ''refs/heads/'' then [drop 11 refPath] else [])) branches)"

definition git_GetRemoteBranches :: "ExecEnv \<Rightarrow> GitRepository \<Rightarrow> string list action" where
  "git_GetRemoteBranches x r =
     (case GetGitURL False (git_Repository r) of
        None \<Rightarrow> panicA
      | Some url \<Rightarrow>
          seqA (git_output x r GitRepositoryTmpPath [''ls-remote'', ''--heads'', ''--end-of-options'', url]) (\<lambda>out.
            return (if out = [] then [] else getRepositoryBranchNames (splitOn CHR 0x0A out))))"

subsection \<open>Retries\<close>

text \<open>Durations are nanoseconds in 64 bits.\<close>

definition gitRetryDelay :: int where
  "gitRetryDelay = 1000000000"

definition gitRetryMaxDelay :: int where
  "gitRetryMaxDelay = 60 * 1000000000"

text \<open>The doubling loop; the first argument is the number of rounds that are left.\<close>

fun gitRetryLoop :: "nat \<Rightarrow> int \<Rightarrow> int" where
  "gitRetryLoop 0 delay = delay"
| "gitRetryLoop (Suc n) delay = (if delay < gitRetryMaxDelay then gitRetryLoop n (wrap64 (delay * 2)) else delay)"

definition gitRetryDelayFor :: "int \<Rightarrow> nat \<Rightarrow> int" where
  "gitRetryDelayFor base attempt =
     (let delay = gitRetryLoop (attempt - 1) base in if delay > gitRetryMaxDelay then gitRetryMaxDelay else delay)"

text \<open>The loop over the attempts; the first argument is the number of attempts after this one.\<close>

fun retryLoop :: "nat \<Rightarrow> nat \<Rightarrow> unit action \<Rightarrow> unit action" where
  "retryLoop 0 attempt operation = operation"
| "retryLoop (Suc n) attempt operation =
     seqA (tryA operation) (\<lambda>res.
       case res of
         Inr _ \<Rightarrow> return ()
       | Inl _ \<Rightarrow>
           seqA (ignoring (Sleep (gitRetryDelayFor gitRetryDelay attempt)))
             (\<lambda>_. retryLoop n (Suc attempt) operation))"

definition retry :: "ExecEnv \<Rightarrow> unit action \<Rightarrow> unit action" where
  "retry x operation = retryLoop (nat (max 1 (x_GitAttempts x)) - 1) 1 operation"

text \<open>A failed clone is removed before the next attempt.\<close>

definition repo_Clone :: "ExecEnv \<Rightarrow> GitRepository \<Rightarrow> unit action" where
  "repo_Clone x r =
     retry x (seqA (tryA (git_Clone x r)) (\<lambda>res.
       case res of
         Inr _ \<Rightarrow> return ()
       | Inl err \<Rightarrow> seqA (ignoring (RemoveAll (git_FullPath x r))) (\<lambda>_. throw err)))"

definition repo_Pull :: "ExecEnv \<Rightarrow> GitRepository \<Rightarrow> unit action" where
  "repo_Pull x r = retry x (git_Pull x r)"

definition ValidateRepo :: "ExecEnv \<Rightarrow> GitRepository \<Rightarrow> unit action" where
  "ValidateRepo x r = perform (StatPath (git_FullPath x r))"

end
