(* ===== verification/Executor_Workspace.thy ===== *)
theory Executor_Workspace
  imports Executor_Host
begin

text \<open>
  The first phases of the local executor: preparation of the working copy, the inventory and the vault
  passwords (\<^verbatim>\<open>services/tasks/local_executor.go\<close>, \<^verbatim>\<open>local_executor_inventory.go\<close>). The operations that work on the
  same directory from several tasks take the lock of that directory.
\<close>

definition setStatus :: "TaskStatus \<Rightarrow> unit action" where
  "setStatus s = ignoring (ReportStatus s)"

definition bothA :: "unit action \<Rightarrow> 'a action \<Rightarrow> 'a action" where
  "bothA m m1 = seqA m (\<lambda>_. m1)"

definition ErrNotExist :: go_error where
  "ErrNotExist = ErrOther ''file does not exist''"

subsection \<open>The working copy\<close>

definition executorRepo :: "RunningExecutor \<Rightarrow> GitRepository" where
  "executorRepo t =
     \<lparr>git_TmpDirName = [], git_TemplateID = Template_ID (ex_Template t), git_Repository = ex_Repository t\<rparr>"

text \<open>The working copy is removed and cloned again.\<close>

definition cloneAfresh :: "ExecEnv \<Rightarrow> GitRepository \<Rightarrow> unit action" where
  "cloneAfresh x r = bothA (perform (RemoveAll (git_FullPath x r))) (repo_Clone x r)"

text \<open>A working copy that can be pulled is pulled; in every other case, also when the pull fails, it is cloned afresh.\<close>

definition pullOrClone :: "ExecEnv \<Rightarrow> GitRepository \<Rightarrow> unit action" where
  "pullOrClone x r =
     seqA (git_CanBePulled x r) (\<lambda>can.
       if can
       then seqA (tryA (repo_Pull x r)) (\<lambda>res. case res of Inr _ \<Rightarrow> return () | Inl _ \<Rightarrow> cloneAfresh x r)
       else cloneAfresh x r)"

definition updateRepository :: "ExecEnv \<Rightarrow> unit action" where
  "updateRepository x =
     seqA getExec (\<lambda>t.
       let r = executorRepo t in
       seqA (tryA (ValidateRepo x r)) (\<lambda>res.
         case res of
           Inl err \<Rightarrow> if err \<noteq> ErrNotExist then cloneAfresh x r else repo_Clone x r
         | Inr _ \<Rightarrow> pullOrClone x r))"

definition SetCommit :: "string \<Rightarrow> string \<Rightarrow> unit action" where
  "SetCommit hash message =
     bothA (modExec (\<lambda>t. t\<lparr>ex_Task := (ex_Task t)\<lparr>Task_CommitHash := Some hash, Task_CommitMessage := message\<rparr>\<rparr>))
       (ignoring (ReportCommit hash message))"

text \<open>A failure to read the commit message is only logged.\<close>

definition checkoutRepository :: "ExecEnv \<Rightarrow> unit action" where
  "checkoutRepository x =
     seqA getExec (\<lambda>t.
       let r = executorRepo t in
       bothA (ValidateRepo x r)
         (case Task_CommitHash (ex_Task t) of
            Some hash \<Rightarrow> git_Checkout x r hash
          | None \<Rightarrow>
              seqA (git_GetLastCommitHash x r) (\<lambda>hash.
              seqA (tryA (git_GetLastCommitMessage x r)) (\<lambda>message.
                SetCommit hash (case message of Inl _ \<Rightarrow> [] | Inr m \<Rightarrow> m)))))"

text \<open>Blocking on the lock is not a failure: the effect marks the moment at which the lock is taken.\<close>

definition withLock :: "string \<Rightarrow> unit action \<Rightarrow> unit action" where
  "withLock key m = bothA (ignoring (LockRepo key)) (deferA (ignoring (UnlockRepo key)) m)"

definition updateAndCheckoutRepository :: "ExecEnv \<Rightarrow> unit action" where
  "updateAndCheckoutRepository x =
     seqA getExec (\<lambda>t.
       withLock (GetFullPath x (ex_Repository t) (Template_ID (ex_Template t)))
         (bothA (updateRepository x) (checkoutRepository x)))"

subsection \<open>The inventory\<close>

definition inventoryRepo :: "RunningExecutor \<Rightarrow> Repository \<Rightarrow> GitRepository" where
  "inventoryRepo t r =
     \<lparr>git_TmpDirName = tmpInventoryFilename t, git_TemplateID = 0, git_Repository = r\<rparr>"

definition cloneInventoryRepo :: "ExecEnv \<Rightarrow> unit action" where
  "cloneInventoryRepo x =
     seqA getExec (\<lambda>t.
       case Inventory_Repository (ex_Inventory t) of
         None \<Rightarrow> return ()
       | Some repository \<Rightarrow>
           if GetType repository = RepositoryLocal then return ()
           else let r = inventoryRepo t repository in withLock (git_FullPath x r) (pullOrClone x r))"

definition installStaticInventory :: "ExecEnv \<Rightarrow> unit action" where
  "installStaticInventory x =
     seqA getExec (\<lambda>t. perform (WriteFile (tmpInventoryFullPath x t) (Inventory_Inventory (ex_Inventory t))))"

text \<open>\<^verbatim>\<open>Install\<close> returns the empty installation with an error, and the assignment stores it.\<close>

definition installInto ::
  "ExecEnv \<Rightarrow> AccessKey \<Rightarrow> AccessKeyRole \<Rightarrow> (AccessKeyInstallation \<Rightarrow> RunningExecutor \<Rightarrow> RunningExecutor) \<Rightarrow> unit action" where
  "installInto x key usage store =
     seqA (tryA (Install x key usage)) (\<lambda>res.
       case res of
         Inr inst \<Rightarrow> modExec (store inst)
       | Inl err \<Rightarrow> bothA (modExec (store noInstallation)) (throw err))"

definition installInventory :: "ExecEnv \<Rightarrow> unit action" where
  "installInventory x =
     seqA getExec (\<lambda>t.
       let v = ex_Inventory t in
       bothA (whenA (Inventory_SSHKeyID v \<noteq> None)
                (installInto x (Inventory_SSHKey v) RoleAnsibleUser (\<lambda>i e. e\<lparr>ex_sshKey := i\<rparr>)))
      (bothA (whenA (Inventory_BecomeKeyID v \<noteq> None)
                (installInto x (Inventory_BecomeKey v) RoleAnsibleBecomeUser (\<lambda>i e. e\<lparr>ex_becomeKey := i\<rparr>)))
        (if Inventory_Type v = InventoryFile then cloneInventoryRepo x
         else if IsStatic (Inventory_Type v) then installStaticInventory x
         else return ())))"

definition destroyInventoryFile :: "ExecEnv \<Rightarrow> unit action" where
  "destroyInventoryFile x =
     seqA getExec (\<lambda>t. whenA (IsStatic (Inventory_Type (ex_Inventory t))) (ignoring (RemoveFile (tmpInventoryFullPath x t))))"

definition destroyKeys :: "unit action" where
  "destroyKeys =
     seqA getExec (\<lambda>t.
       bothA (Destroy (ex_sshKey t))
      (bothA (Destroy (ex_becomeKey t)) (eachA (\<lambda>v. Destroy (snd v)) (ex_vaultFiles t))))"

subsection \<open>Vault passwords\<close>

abbreviation (input) TemplateVaultPassword :: string where "TemplateVaultPassword \<equiv> ''password''"
abbreviation (input) TemplateVaultScript :: string where "TemplateVaultScript \<equiv> ''script''"

text \<open>A password vault whose key is missing is the dereference of a nil pointer.\<close>

definition installVault :: "ExecEnv \<Rightarrow> TemplateVault \<Rightarrow> unit action" where
  "installVault x vault =
     seqA (if TVault_Type vault = TemplateVaultPassword
           then (case TVault_Vault vault of
                   None \<Rightarrow> panicA
                 | Some key \<Rightarrow> Install x key RoleAnsiblePasswordVault)
           else return noInstallation) (\<lambda>inst.
       let inst1 = (if TVault_Type vault = TemplateVaultScript
                    then (case TVault_Script vault of Some s \<Rightarrow> inst\<lparr>Inst_Script := s\<rparr> | None \<Rightarrow> inst)
                    else inst);
           name = (case TVault_Name vault of Some n \<Rightarrow> n | None \<Rightarrow> ''default'')
       in modExec (\<lambda>t. t\<lparr>ex_vaultFiles := AList.update name inst1 (ex_vaultFiles t)\<rparr>))"

definition installVaultKeyFiles :: "ExecEnv \<Rightarrow> unit action" where
  "installVaultKeyFiles x =
     bothA (modExec (\<lambda>t. t\<lparr>ex_vaultFiles := []\<rparr>))
       (seqA getExec (\<lambda>t. eachA (installVault x) (Template_Vaults (ex_Template t))))"

end
