(* ===== verification/Executor_Apps.thy ===== *)
theory Executor_Apps
  imports Executor_Workspace
begin

text \<open>
  The applications that the local executor drives: \<^verbatim>\<open>db_lib/AnsibleApp.go\<close>, \<^verbatim>\<open>AnsiblePlaybook.go\<close>,
  \<^verbatim>\<open>TerraformApp.go\<close>, \<^verbatim>\<open>ShellApp.go\<close> and \<^verbatim>\<open>LocalApp.go\<close>. Each has a step that installs requirements, a run and a
  step that clears its files. The callback that records the process and the dialog over the standard input
  of \<^verbatim>\<open>terraform init\<close> are left out.
\<close>

subsection \<open>Ansible\<close>

definition ansible_makeCmd :: "ExecEnv \<Rightarrow> RunningExecutor \<Rightarrow> string \<Rightarrow> string list \<Rightarrow> string list \<Rightarrow> Cmd" where
  "ansible_makeCmd x t command args environmentVars =
     (let r = ex_Repository t; templateID = Template_ID (ex_Template t); dir = GetFullPath x r templateID in
      \<lparr>cmd_Path = command, cmd_Args = args, cmd_Dir = dir,
       cmd_Env = [''PYTHONUNBUFFERED=1'', ''ANSIBLE_FORCE_COLOR=True'', ''ANSIBLE_HOST_KEY_CHECKING=False''] @
         getEnvironmentVars x @ [assignment ''HOME'' (getHomeDir x r), assignment ''PWD'' dir] @
         (if x_HomeDirMode x = ''template_dir''
          then [assignment ''ANSIBLE_HOME'' (path_Join [GetHomePath x r templateID, ''.ansible''])] else []) @
         environmentVars,
       cmd_Inputs = []\<rparr>)"

definition RunGalaxy :: "ExecEnv \<Rightarrow> string list \<Rightarrow> string list \<Rightarrow> unit action" where
  "RunGalaxy x args environmentVars =
     seqA getExec (\<lambda>t. perform (Process (ansible_makeCmd x t ''ansible-galaxy'' args environmentVars)))"

definition RunPlaybook :: "ExecEnv \<Rightarrow> string list \<Rightarrow> string list \<Rightarrow> (string \<times> string) list \<Rightarrow> unit action" where
  "RunPlaybook x args environmentVars inputs =
     seqA getExec (\<lambda>t.
       perform (Process (ansible_makeCmd x t ''ansible-playbook'' args environmentVars\<lparr>cmd_Inputs := inputs\<rparr>)))"

text \<open>Both parameters are nil for templates of other applications, which never get here.\<close>

definition skipGalaxyInstall :: "Template \<Rightarrow> Task \<Rightarrow> bool" where
  "skipGalaxyInstall tpl task =
     (if boolField AnsibleTemplateParams ''allow_override_skip_galaxy_install'' (Template_TaskParams tpl)
      then boolField AnsibleTaskParams ''skip_galaxy_install'' (Task_Params task)
      else boolField AnsibleTemplateParams ''skip_galaxy_install'' (Template_TaskParams tpl))"

definition getMD5Hash :: "ExecEnv \<Rightarrow> string \<Rightarrow> string action" where
  "getMD5Hash x file = seqA (performOut (ReadFile file)) (\<lambda>content. return (x_md5 x content))"

definition hasRequirementsChanges :: "ExecEnv \<Rightarrow> string \<Rightarrow> string \<Rightarrow> bool action" where
  "hasRequirementsChanges x requirementsFile hashFile =
     seqA (tryA (performOut (ReadFile hashFile))) (\<lambda>old.
       case old of
         Inl _ \<Rightarrow> return True
       | Inr oldHash \<Rightarrow>
           seqA (tryA (getMD5Hash x requirementsFile)) (\<lambda>new.
             return (case new of Inl _ \<Rightarrow> True | Inr newHash \<Rightarrow> oldHash \<noteq> newHash)))"

definition writeMD5Hash :: "ExecEnv \<Rightarrow> string \<Rightarrow> string \<Rightarrow> unit action" where
  "writeMD5Hash x requirementsFile hashFile =
     seqA (getMD5Hash x requirementsFile) (\<lambda>hash. perform (WriteFile hashFile hash))"

definition requirementsHashFilePath :: "ExecEnv \<Rightarrow> RunningExecutor \<Rightarrow> string \<Rightarrow> string \<Rightarrow> string" where
  "requirementsHashFilePath x t requirementsType requirementsFile =
     path_Join [GetInternalPath x (ex_Repository t) (Template_ID (ex_Template t)),
                ''requirements_'' @ x_md5 x requirementsFile @ ''_'' @ requirementsType @ ''.md5'']"

definition installGalaxyRequirementsFile :: "ExecEnv \<Rightarrow> string list \<Rightarrow> string \<Rightarrow> string \<Rightarrow> unit action" where
  "installGalaxyRequirementsFile x environmentVars requirementsType requirementsFile =
     seqA getExec (\<lambda>t.
       let hashFile = requirementsHashFilePath x t requirementsType requirementsFile in
       seqA (tryA (perform (StatPath requirementsFile))) (\<lambda>res.
         case res of
           Inl _ \<Rightarrow> return ()
         | Inr _ \<Rightarrow>
             seqA (hasRequirementsChanges x requirementsFile hashFile) (\<lambda>changed.
               whenA changed
                 (bothA (RunGalaxy x [requirementsType, ''install'', ''-r'', requirementsFile, ''--force''] environmentVars)
                 (bothA (perform (EnsureDir (GetInternalPath x (ex_Repository t) (Template_ID (ex_Template t)))))
                    (writeMD5Hash x requirementsFile hashFile))))))"

definition path_Dir :: "string \<Rightarrow> string" where
  "path_Dir p = path_Clean (rev (dropWhile (\<lambda>c. c \<noteq> CHR ''/'') (rev p)))"

definition getRepoPath :: "ExecEnv \<Rightarrow> RunningExecutor \<Rightarrow> string" where
  "getRepoPath x t = GetFullPath x (ex_Repository t) (Template_ID (ex_Template t))"

definition GetPlaybookDir :: "ExecEnv \<Rightarrow> RunningExecutor \<Rightarrow> string" where
  "GetPlaybookDir x t = path_Dir (path_Join [getRepoPath x t, Template_Playbook (ex_Template t)])"

text \<open>The places of a requirements file of one type, in the order in which they are tried.\<close>

definition requirementsFiles :: "ExecEnv \<Rightarrow> RunningExecutor \<Rightarrow> string \<Rightarrow> string list" where
  "requirementsFiles x t dir =
     [path_Join [GetPlaybookDir x t, dir, ''requirements.yml''], path_Join [GetPlaybookDir x t, ''requirements.yml''],
      path_Join [getRepoPath x t, dir, ''requirements.yml''], path_Join [getRepoPath x t, ''requirements.yml'']]"

definition installCollectionsRequirements :: "ExecEnv \<Rightarrow> string list \<Rightarrow> unit action" where
  "installCollectionsRequirements x environmentVars =
     seqA getExec (\<lambda>t.
       eachA (installGalaxyRequirementsFile x environmentVars ''collection'') (requirementsFiles x t ''collections''))"

definition installRolesRequirements :: "ExecEnv \<Rightarrow> string list \<Rightarrow> unit action" where
  "installRolesRequirements x environmentVars =
     seqA getExec (\<lambda>t.
       eachA (installGalaxyRequirementsFile x environmentVars ''role'') (requirementsFiles x t ''roles''))"

definition ansible_InstallRequirements :: "ExecEnv \<Rightarrow> string list \<Rightarrow> unit action" where
  "ansible_InstallRequirements x environmentVars =
     seqA getExec (\<lambda>t.
       whenA (\<not> skipGalaxyInstall (ex_Template t) (ex_Task t))
         (bothA (installCollectionsRequirements x environmentVars) (installRolesRequirements x environmentVars)))"

text \<open>The arguments of one stage; a missing key of a Go map is the nil slice.\<close>

definition stageArgs :: "stages \<Rightarrow> string \<Rightarrow> string list" where
  "stageArgs m stage = (case map_of m stage of Some as \<Rightarrow> as | None \<Rightarrow> [])"

definition ansible_Run :: "ExecEnv \<Rightarrow> Prepared \<Rightarrow> unit action" where
  "ansible_Run x p = RunPlaybook x (stageArgs (prep_Args p) ''default'') (prep_Env p) (prep_Inputs p)"

subsection \<open>Scripts\<close>

definition shell_makeCmd :: "ExecEnv \<Rightarrow> RunningExecutor \<Rightarrow> string \<Rightarrow> string list \<Rightarrow> string list \<Rightarrow> Cmd" where
  "shell_makeCmd x t command args environmentVars =
     \<lparr>cmd_Path = command, cmd_Args = args, cmd_Dir = getRepoPath x t,
      cmd_Env = getEnvironmentVars x @
        [assignment ''HOME'' (getHomeDir x (ex_Repository t)), assignment ''PWD'' (getRepoPath x t)] @ environmentVars,
      cmd_Inputs = []\<rparr>"

definition makeShellCmd :: "ExecEnv \<Rightarrow> RunningExecutor \<Rightarrow> string list \<Rightarrow> string list \<Rightarrow> Cmd" where
  "makeShellCmd x t args environmentVars =
     (let app = Template_App (ex_Template t);
          builtin = (if app = ''bash'' then ''bash'' else if app = ''python'' then ''python3''
                     else if app = ''powershell'' then ''powershell'' else app);
          command = (if x_AppPath x app \<noteq> [] then x_AppPath x app else builtin);
          appArgs = (case x_AppArgs x app of
                       Some as \<Rightarrow> as
                     | None \<Rightarrow> if app = ''powershell'' then [''-File''] else [])
      in shell_makeCmd x t command (appArgs @ args) environmentVars)"

definition ErrWaitDelay :: go_error where
  "ErrWaitDelay = ErrOther ''exec: WaitDelay expired before I/O complete''"

text \<open>Output that does not end in time after the process has ended is not an error.\<close>

definition shell_Run :: "ExecEnv \<Rightarrow> Prepared \<Rightarrow> unit action" where
  "shell_Run x p =
     seqA getExec (\<lambda>t.
     seqA (tryA (perform (Process (makeShellCmd x t (stageArgs (prep_Args p) ''default'') (prep_Env p))))) (\<lambda>res.
       case res of
         Inr _ \<Rightarrow> return ()
       | Inl err \<Rightarrow> if err = ErrWaitDelay then return () else throw err))"

subsection \<open>Terraform\<close>

definition tf_FullPath :: "ExecEnv \<Rightarrow> RunningExecutor \<Rightarrow> string" where
  "tf_FullPath x t =
     (let playbook = Template_Playbook (ex_Template t) in
      path_Join [getRepoPath x t, if take 1 playbook = ''/'' then drop 1 playbook else playbook])"

definition hasTfPath :: "string list \<Rightarrow> bool" where
  "hasTfPath args = list_ex (\<lambda>a. a = ''--tf-path'' \<or> take 10 a = ''--tf-path='') args"

definition tf_makeCmd :: "ExecEnv \<Rightarrow> RunningExecutor \<Rightarrow> string list \<Rightarrow> string list \<Rightarrow> Cmd" where
  "tf_makeCmd x t args0 environmentVars =
     (let name = Template_App (ex_Template t);
          command = (if x_AppPath x name \<noteq> [] then x_AppPath x name else name);
          args1 = (case x_AppArgs x name of Some as \<Rightarrow> as @ args0 | None \<Rightarrow> args0);
          args = (if name = AppTerragrunt \<and> \<not> hasTfPath args1 then args1 @ [''--tf-path=terraform''] else args1)
      in \<lparr>cmd_Path = command, cmd_Args = args, cmd_Dir = tf_FullPath x t,
          cmd_Env = getEnvironmentVars x @
            [assignment ''HOME'' (getHomeDir x (ex_Repository t)), assignment ''PWD'' (tf_FullPath x t)] @ environmentVars,
          cmd_Inputs = []\<rparr>)"

definition tfTaskParam :: "RunningExecutor \<Rightarrow> string \<Rightarrow> bool" where
  "tfTaskParam t name = boolField TerraformTaskParams name (Task_Params (ex_Task t))"

definition tfTemplateParam :: "RunningExecutor \<Rightarrow> string \<Rightarrow> bool" where
  "tfTemplateParam t name = boolField TerraformTemplateParams name (Template_TaskParams (ex_Template t))"

definition tf_init :: "ExecEnv \<Rightarrow> string list \<Rightarrow> string list \<Rightarrow> unit action" where
  "tf_init x environmentVars extraArgs =
     seqA getExec (\<lambda>t.
     seqA (Install x (Inventory_SSHKey (ex_Inventory t)) RoleGit) (\<lambda>inst.
       deferA (Destroy inst)
         (case GetGitEnv x inst of
            None \<Rightarrow> panicA
          | Some gitEnv \<Rightarrow>
              (let args = [''init'', ''-lock=false''] @ (if tfTaskParam t ''upgrade'' then [''-upgrade''] else []) @
                          (if tfTaskParam t ''reconfigure'' then [''-reconfigure''] else [''-migrate-state'']) @ extraArgs
               in perform (Process (tf_makeCmd x t args (environmentVars @ gitEnv)))))))"

definition isWorkspacesSupported :: "ExecEnv \<Rightarrow> string list \<Rightarrow> bool action" where
  "isWorkspacesSupported x environmentVars =
     seqA getExec (\<lambda>t.
     seqA (tryA (perform (Process (tf_makeCmd x t [''workspace'', ''list''] environmentVars)))) (\<lambda>res.
       return (case res of Inl _ \<Rightarrow> False | Inr _ \<Rightarrow> True)))"

definition selectWorkspace :: "ExecEnv \<Rightarrow> string \<Rightarrow> string list \<Rightarrow> unit action" where
  "selectWorkspace x workspace environmentVars =
     seqA getExec (\<lambda>t.
       let args = [''workspace'', ''select'', ''-or-create=true'', workspace];
           args1 = (if Template_App (ex_Template t) = AppTerragrunt
                    then [''run'', ''--tf-path=terraform'', ''--''] @ args else args)
       in perform (Process (tf_makeCmd x t args1 environmentVars)))"

definition backendConfig :: string where
  "backendConfig = ''terraform {'' @ CHR 0x0A # ''  backend '' @ CHR 0x22 # ''http'' @ CHR 0x22 # '' {'' @
     CHR 0x0A # ''  }'' @ CHR 0x0A # ''}'' @ [CHR 0x0A]"

definition setBackend :: "string \<Rightarrow> unit action" where
  "setBackend name h = Some (Inr (), h\<lparr>h_backend := name\<rparr>)"

definition InstallRequirementsWithInitArgs :: "ExecEnv \<Rightarrow> string list \<Rightarrow> string list \<Rightarrow> unit action" where
  "InstallRequirementsWithInitArgs x environmentVars initArgs =
     seqA getExec (\<lambda>t.
       let configured = stringField TerraformTemplateParams ''backend_filename'' (Template_TaskParams (ex_Template t));
           backend = (if configured \<noteq> [] then configured else ''backend.tf'');
           workspace = (if Inventory_Inventory (ex_Inventory t) \<noteq> []
                        then Inventory_Inventory (ex_Inventory t) else ''default'')
       in bothA (whenA (tfTemplateParam t ''override_backend'')
                  (bothA (setBackend backend) (perform (WriteFile (path_Join [tf_FullPath x t, backend]) backendConfig))))
         (bothA (tf_init x environmentVars initArgs)
         (seqA (isWorkspacesSupported x environmentVars) (\<lambda>supported.
            whenA supported (selectWorkspace x workspace environmentVars)))))"

definition tf_Clear :: "ExecEnv \<Rightarrow> unit action" where
  "tf_Clear x h =
     (if h_backend h = [] then return () h
      else ignoring (RemoveFile (path_Join [tf_FullPath x (h_exec h), h_backend h])) h)"

text \<open>The listener on the log notes a plan without changes.\<close>

definition containsStr :: "string \<Rightarrow> string \<Rightarrow> bool" where
  "containsStr pat s = list_ex (\<lambda>i. take (length pat) (drop i s) = pat) [0..<Suc (length s)]"

definition noteChanges :: "string \<Rightarrow> unit action" where
  "noteChanges out h = Some (Inr (), if containsStr ''No changes.'' out then h\<lparr>h_noChanges := True\<rparr> else h)"

definition tf_Plan :: "ExecEnv \<Rightarrow> string list \<Rightarrow> string list \<Rightarrow> unit action" where
  "tf_Plan x args environmentVars =
     seqA getExec (\<lambda>t.
     seqA (performOut (Process (tf_makeCmd x t ([''plan'', ''-lock=false''] @ args) environmentVars))) noteChanges)"

definition tf_Apply :: "ExecEnv \<Rightarrow> string list \<Rightarrow> string list \<Rightarrow> unit action" where
  "tf_Apply x args environmentVars =
     seqA getExec (\<lambda>t.
       perform (Process (tf_makeCmd x t ([''apply'', ''-auto-approve'', ''-lock=false''] @ args) environmentVars)))"

text \<open>The arguments of the two stages, as the branches of the code choose them.\<close>

definition planArgsOf :: "stages \<Rightarrow> string list" where
  "planArgsOf m =
     (case map_of m ''plan'' of
        Some as \<Rightarrow> as
      | None \<Rightarrow> (case map_of m ''apply'' of
                   Some _ \<Rightarrow> []
                 | None \<Rightarrow> (case map_of m ''default'' of Some as \<Rightarrow> as | None \<Rightarrow> [])))"

definition applyArgsOf :: "stages \<Rightarrow> string list" where
  "applyArgsOf m =
     (case map_of m ''apply'' of
        Some as \<Rightarrow> as
      | None \<Rightarrow> (case map_of m ''default'' of Some as \<Rightarrow> as | None \<Rightarrow> []))"

text \<open>The loop that waits for the decision of the user: every three seconds the status is read.\<close>

definition decided :: "TaskStatus \<Rightarrow> bool" where
  "decided s \<longleftrightarrow> IsFinished s \<or> s = TaskConfirmed \<or> s = TaskRejected \<or> s = TaskStoppingStatus"

partial_function (option) awaitDecision :: "TaskStatus action" where
  "awaitDecision h =
     (let h1 = h\<lparr>h_trace := h_trace h @ [Sleep (3 * 1000000000)]\<rparr>; s = h_status h1 (h_trace h1)
      in if decided s then Some (Inr s, h1) else awaitDecision h1)"

definition getNoChanges :: "bool action" where
  "getNoChanges h = Some (Inr (h_noChanges h), h)"

definition tf_Run :: "ExecEnv \<Rightarrow> Prepared \<Rightarrow> unit action" where
  "tf_Run x p =
     seqA getExec (\<lambda>t.
     let apply = tf_Apply x (applyArgsOf (prep_Args p)) (prep_Env p) in
     bothA (tf_Plan x (planArgsOf (prep_Args p)) (prep_Env p))
     (seqA getNoChanges (\<lambda>noChanges.
       if noChanges \<or> tfTaskParam t ''plan'' then setStatus TaskSuccessStatus
       else if tfTemplateParam t ''auto_approve'' \<or>
               tfTemplateParam t ''allow_auto_approve'' \<and> tfTaskParam t ''auto_approve''
       then bothA (setStatus TaskRunningStatus) apply
       else bothA (setStatus TaskWaitingConfirmation)
              (seqA awaitDecision (\<lambda>s.
                 if s = TaskRejected then setStatus TaskFailStatus
                 else if s = TaskConfirmed then bothA (setStatus TaskRunningStatus) apply
                 else return ())))))"

subsection \<open>The application of a template\<close>

definition app_Run :: "ExecEnv \<Rightarrow> Prepared \<Rightarrow> unit action" where
  "app_Run x p =
     seqA getExec (\<lambda>t.
       if Template_App (ex_Template t) = AppAnsible then ansible_Run x p
       else if IsTerraform (Template_App (ex_Template t)) then tf_Run x p
       else shell_Run x p)"

definition app_Clear :: "ExecEnv \<Rightarrow> unit action" where
  "app_Clear x =
     seqA getExec (\<lambda>t. whenA (IsTerraform (Template_App (ex_Template t))) (tf_Clear x))"

definition InstallRequirements :: "ExecEnv \<Rightarrow> string list \<Rightarrow> unit action" where
  "InstallRequirements x environmentVars =
     seqA getExec (\<lambda>t.
       if Template_App (ex_Template t) = AppAnsible then ansible_InstallRequirements x environmentVars
       else if IsTerraform (Template_App (ex_Template t)) then InstallRequirementsWithInitArgs x environmentVars []
       else return ())"

end
