(* ===== verification/Executor_Run.thy ===== *)
theory Executor_Run
  imports Executor_Apps
begin

text \<open>
  The run of a task by the local executor: \<^verbatim>\<open>Prepare\<close>, \<^verbatim>\<open>Run\<close> and \<^verbatim>\<open>Cleanup\<close> of \<^verbatim>\<open>services/tasks/local_executor.go\<close>,
  composed of the phases of the theories before.
\<close>

subsection \<open>Preparation\<close>

text \<open>The steps before and after the application installs its requirements are the same for all applications.\<close>

definition findRepository :: "ExecEnv \<Rightarrow> unit action" where
  "findRepository x =
     seqA getExec (\<lambda>t.
       if GetType (ex_Repository t) = RepositoryLocal
       then (case GetGitURL True (ex_Repository t) of
               None \<Rightarrow> panicA
             | Some localPath \<Rightarrow> perform (StatPath localPath))
       else updateAndCheckoutRepository x)"

definition makeDirectories :: "ExecEnv \<Rightarrow> unit action" where
  "makeDirectories x =
     seqA getExec (\<lambda>t.
       let home = GetHomePath x (ex_Repository t) (Template_ID (ex_Template t)) in
       bothA (perform (EnsureDir (GetProjectTmpDir x (Template_ProjectID (ex_Template t)))))
         (whenA (x_HomeDirMode x \<noteq> ''project_home'')
            (bothA (perform (EnsureDir home)) (perform (Chown home)))))"

definition resolveBranch :: "RunningExecutor \<Rightarrow> RunningExecutor" where
  "resolveBranch t =
     t\<lparr>ex_Repository := (ex_Repository t)\<lparr>Repository_GitBranch :=
         resolveGitBranch (Repository_GitBranch (ex_Repository t)) (ex_Template t) (ex_Task t)\<rparr>\<rparr>"

definition prepareSteps :: "ExecEnv \<Rightarrow> unit action \<Rightarrow> unit action" where
  "prepareSteps x install =
     bothA (makeDirectories x)
    (bothA (modExec resolveBranch)
    (bothA (findRepository x)
    (bothA (installInventory x)
    (bothA install
       (installVaultKeyFiles x)))))"

definition prepareRun :: "ExecEnv \<Rightarrow> string list \<Rightarrow> unit action" where
  "prepareRun x environmentVars = prepareSteps x (InstallRequirements x environmentVars)"

definition prepareRunTerraform :: "ExecEnv \<Rightarrow> string list \<Rightarrow> string list \<Rightarrow> unit action" where
  "prepareRunTerraform x environmentVars initArgs =
     prepareSteps x (InstallRequirementsWithInitArgs x environmentVars initArgs)"

definition getTemplateParams :: "Template \<Rightarrow> unit action" where
  "getTemplateParams tpl =
     (case unmarshalStruct
             (if Template_App tpl = AppAnsible then AnsibleTemplateParams
              else if IsTerraform (Template_App tpl) then TerraformTemplateParams else [])
             (Template_TaskParams tpl) of
        Some err \<Rightarrow> throw err
      | None \<Rightarrow> return ())"

definition getParams :: "Template \<Rightarrow> Task \<Rightarrow> unit action" where
  "getParams tpl task =
     (case unmarshalStruct
             (if Template_App tpl = AppAnsible then AnsibleTaskParams
              else if IsTerraform (Template_App tpl) then TerraformTaskParams else [])
             (Task_Params task) of
        Some err \<Rightarrow> throw err
      | None \<Rightarrow> return ())"

definition GetPublicHost :: "ExecEnv \<Rightarrow> string" where
  "GetPublicHost x =
     (let port0 = (if x_Port x = [] then ''3000'' else x_Port x);
          port = (if take 1 port0 = '':'' then drop 1 port0 else port0)
      in if x_WebHost x = [] then ''http://localhost:'' @ port else x_WebHost x)"

definition GetPublicAliasURL :: "ExecEnv \<Rightarrow> string \<Rightarrow> string \<Rightarrow> string" where
  "GetPublicAliasURL x scope taskAlias =
     (let host = GetPublicHost x;
          host1 = (if host \<noteq> [] \<and> last host = CHR ''/'' then host else host @ ''/'')
      in host1 @ ''api/'' @ scope @ ''/'' @ taskAlias)"

text \<open>The variables that tell a build or deployment its version.\<close>

definition versionVars :: "Template \<Rightarrow> Task \<Rightarrow> string option \<Rightarrow> string list" where
  "versionVars tpl task incomingVersion =
     (if Template_Type tpl \<noteq> TemplateTask
      then [assignment ''ALDIS_TASK_TYPE'' (Template_Type tpl)] @
           (case incomingVersion of None \<Rightarrow> [] | Some v \<Rightarrow> [assignment ''ALDIS_TASK_INCOMING_VERSION'' v]) @
           (if Template_Type tpl = TemplateBuild
            then (case Task_Version task of None \<Rightarrow> [] | Some v \<Rightarrow> [assignment ''ALDIS_TASK_TARGET_VERSION'' v])
            else [])
      else [])"

definition checkPlaybooks :: "unit action" where
  "checkPlaybooks =
     seqA getExec (\<lambda>t.
       case ValidatePlaybookPath (Template_Playbook (ex_Template t)) ''template'' of
         Some err \<Rightarrow> throw err
       | None \<Rightarrow>
           (case ValidatePlaybookPath (Task_Playbook (ex_Task t)) ''task'' of
              Some err \<Rightarrow> throw err
            | None \<Rightarrow> return ()))"

text \<open>The arguments by stage and the prompt answers; the working environment is prepared on the way.\<close>

definition prepareArgs ::
  "ExecEnv \<Rightarrow> string list \<Rightarrow> string \<Rightarrow> string option \<Rightarrow> (stages \<times> (string \<times> string) list) action" where
  "prepareArgs x env username incomingVersion =
     seqA getExec (\<lambda>t.
       if IsTerraform (Template_App (ex_Template t))
       then seqA (liftOpt (getTerraformArgs x t username incomingVersion)) (\<lambda>argsMap.
              bothA (prepareRunTerraform x env (stageArgs argsMap ''init'')) (return (argsMap, [])))
       else bothA (prepareRun x env)
              (seqA getExec (\<lambda>t1.
                 if Template_App (ex_Template t1) = AppAnsible
                 then seqA (liftOpt (getPlaybookArgs x t1 username incomingVersion))
                        (\<lambda>(args, inputs). return ([(''default'', args)], inputs))
                 else seqA (liftOpt (getShellArgs x t1 username incomingVersion))
                        (\<lambda>args. return ([(''default'', args)], [])))))"

text \<open>The variables that are known only when everything is in place.\<close>

definition finalEnv ::
  "ExecEnv \<Rightarrow> RunningExecutor \<Rightarrow> string \<Rightarrow> string option \<Rightarrow> string list option" where
  "finalEnv x t username incomingVersion =
     (let tpl = ex_Template t; v = ex_Inventory t;
          details = (if Template_App tpl = AppAnsible \<or> IsTerraform (Template_App tpl) then []
                     else getShellEnvironmentExtraENV x t username incomingVersion)
      in if Key_Type (Inventory_SSHKey v) = ''ssh'' \<and> Inventory_SSHKeyID v \<noteq> None
         then map_option (\<lambda>socket.
                details @ [assignment ''SSH_AUTH_SOCK'' socket] @ versionVars tpl (ex_Task t) incomingVersion)
              (Inst_Socket (ex_sshKey t))
         else Some (details @ versionVars tpl (ex_Task t) incomingVersion))"

definition setPrepared :: "Prepared \<Rightarrow> unit action" where
  "setPrepared p h = Some (Inr (), h\<lparr>h_prepared := Some p\<rparr>)"

definition getPrepared :: "Prepared option action" where
  "getPrepared h = Some (Inr (h_prepared h), h)"

definition prepareOnce :: "ExecEnv \<Rightarrow> string \<Rightarrow> string option \<Rightarrow> string \<Rightarrow> unit action" where
  "prepareOnce x username incomingVersion taskAlias =
     bothA (setStatus TaskRunningStatus)
    (bothA checkPlaybooks
    (seqA getExec (\<lambda>t.
     seqA (liftRes (getEnvironmentENV x t)) (\<lambda>env.
     seqA (liftOpt (getSurveyEnvVars x t)) (\<lambda>survey.
     bothA (getTemplateParams (ex_Template t))
    (bothA (getParams (ex_Template t) (ex_Task t))
      (let env1 = env @ survey @
             (if IsTerraform (Template_App (ex_Template t)) \<and> taskAlias \<noteq> []
              then [assignment ''TF_HTTP_ADDRESS'' (GetPublicAliasURL x ''terraform'' taskAlias)] else [])
       in seqA (prepareArgs x env1 username incomingVersion) (\<lambda>(argsMap, inputs).
          seqA getExec (\<lambda>t1.
            case finalEnv x t1 username incomingVersion of
              None \<Rightarrow> panicA
            | Some env2 \<Rightarrow>
                setPrepared \<lparr>prep_Env = env1 @ env2, prep_Args = argsMap, prep_Inputs = inputs\<rparr>)))))))))"

definition Prepare :: "ExecEnv \<Rightarrow> string \<Rightarrow> string option \<Rightarrow> string \<Rightarrow> unit action" where
  "Prepare x username incomingVersion taskAlias =
     seqA getPrepared (\<lambda>p. if p \<noteq> None then return () else prepareOnce x username incomingVersion taskAlias)"

subsection \<open>Run and cleanup\<close>

definition Cleanup :: "ExecEnv \<Rightarrow> unit action" where
  "Cleanup x = bothA destroyKeys (bothA (destroyInventoryFile x) (app_Clear x))"

definition getKilled :: "bool action" where
  "getKilled h = Some (Inr (h_killed h (h_trace h)), h)"

definition executor_Run :: "ExecEnv \<Rightarrow> string \<Rightarrow> string option \<Rightarrow> string \<Rightarrow> unit action" where
  "executor_Run x username incomingVersion taskAlias =
     deferA (Cleanup x)
       (bothA (Prepare x username incomingVersion taskAlias)
         (seqA getKilled (\<lambda>killed.
            if killed then setStatus TaskStoppedStatus
            else seqA getPrepared (\<lambda>p. case p of None \<Rightarrow> panicA | Some prep \<Rightarrow> app_Run x prep))))"

end
