(* ===== verification/Executor_Logic.thy ===== *)
theory Executor_Logic
  imports Executor_Run
begin

text \<open>
  Reasoning about the actions of the local executor. The locale \<open>steady_state\<close> states what an indexed
  invariant of the machine has to satisfy to be kept by every phase of a run; the locale \<open>executor_view\<close> states
  when a change of the executor cannot be noticed by a run. Both are proved once for the whole executor and
  interpreted for the locks of the repositories, for the key agents and for the overrides of a task.
\<close>

subsection \<open>Indexed invariants\<close>

definition keeps :: "(Host \<Rightarrow> bool) \<Rightarrow> 'a action \<Rightarrow> bool" where
  "keeps P m \<longleftrightarrow> (\<forall>h r h'. P h \<longrightarrow> m h = Some (r, h') \<longrightarrow> P h')"

named_theorems keeps_intro

lemma keepsD: "keeps P m \<Longrightarrow> P h \<Longrightarrow> m h = Some (r, h') \<Longrightarrow> P h'"
  unfolding keeps_def by blast

lemma keeps_pure [keeps_intro]:
  "keeps P (return a)" "keeps P (throw err)" "keeps P panicA" "keeps P (liftRes r1)" "keeps P (liftOpt r2)"
  "keeps P getExec" "keeps P getNoChanges" "keeps P getPrepared" "keeps P getKilled" "keeps P (deserializeKey x k)"
  by (auto simp: keeps_def return_def throw_def panicA_def liftRes_def liftOpt_def getExec_def getNoChanges_def
      getPrepared_def getKilled_def deserializeKey_def)

lemma keeps_seqA [keeps_intro]: "keeps P m \<Longrightarrow> (\<And>a. keeps P (f a)) \<Longrightarrow> keeps P (seqA m f)"
proof -
  assume m: "keeps P m" and f: "\<And>a. keeps P (f a)"
  have "P h'" if h: "P h" and d: "seqA m f h = Some (r, h')" for h r h'
  proof -
    obtain s h1 where s: "m h = Some (s, h1)" using d by (cases "m h") (auto simp: seqA_def)
    have h1: "P h1" by (rule keepsD [OF m h s])
    show ?thesis
    proof (cases s)
      case (Inl err) then show ?thesis using d s h1 by (simp add: seqA_def)
    next
      case (Inr a)
      then have "f a h1 = Some (r, h')" using d s by (simp add: seqA_def)
      then show ?thesis by (rule keepsD [OF f h1])
    qed
  qed
  then show ?thesis unfolding keeps_def by blast
qed

lemma keeps_bothA [keeps_intro]: "keeps P m \<Longrightarrow> keeps P m1 \<Longrightarrow> keeps P (bothA m m1)"
  unfolding bothA_def by (rule keeps_seqA)

lemma keeps_tryA [keeps_intro]: "keeps P m \<Longrightarrow> keeps P (tryA m)"
  unfolding keeps_def tryA_def by (auto split: option.splits prod.splits)

lemma keeps_deferA [keeps_intro]: "keeps P m \<Longrightarrow> keeps P c \<Longrightarrow> keeps P (deferA c m)"
proof -
  assume m: "keeps P m" and c: "keeps P c"
  have "P h'" if h: "P h" and d: "deferA c m h = Some (r, h')" for h r h'
  proof -
    obtain s h1 where s: "m h = Some (s, h1)" using d by (cases "m h") (auto simp: deferA_def)
    obtain u where "c h1 = Some (u, h')" using d s by (cases "c h1") (auto simp: deferA_def)
    then show ?thesis using keepsD [OF c keepsD [OF m h s]] by blast
  qed
  then show ?thesis unfolding keeps_def by blast
qed

lemma keeps_eachA [keeps_intro]: "(\<And>a. keeps P (f a)) \<Longrightarrow> keeps P (eachA f xs)"
  by (induction xs) (auto intro: keeps_intro)

lemma keeps_whenA [keeps_intro]: "keeps P m \<Longrightarrow> keeps P (whenA b m)"
  by (auto simp: whenA_def intro: keeps_intro)

lemma keeps_if [keeps_intro]: "(b \<Longrightarrow> keeps P m) \<Longrightarrow> (\<not> b \<Longrightarrow> keeps P m1) \<Longrightarrow> keeps P (if b then m else m1)"
  by simp

lemma keeps_case_option [keeps_intro]:
  "(z = None \<Longrightarrow> keeps P m) \<Longrightarrow> (\<And>a. z = Some a \<Longrightarrow> keeps P (f a)) \<Longrightarrow> keeps P (case z of None \<Rightarrow> m | Some a \<Rightarrow> f a)"
  by (cases z) auto

lemma keeps_case_sum [keeps_intro]:
  "(\<And>a. z = Inl a \<Longrightarrow> keeps P (f a)) \<Longrightarrow> (\<And>b. z = Inr b \<Longrightarrow> keeps P (g b)) \<Longrightarrow> keeps P (case z of Inl a \<Rightarrow> f a | Inr b \<Rightarrow> g b)"
  by (cases z) auto

lemma keeps_case_prod [keeps_intro]: "(\<And>a b. z = (a, b) \<Longrightarrow> keeps P (f a b)) \<Longrightarrow> keeps P (case z of (a, b) \<Rightarrow> f a b)"
  by (cases z) auto

lemma keeps_Let [keeps_intro]: "(\<And>a. a = z \<Longrightarrow> keeps P (f a)) \<Longrightarrow> keeps P (let a = z in f a)"
  by simp

lemma keeps_retryLoop [keeps_intro]:
  "keeps P m \<Longrightarrow> (\<And>d. keeps P (ignoring (Sleep d))) \<Longrightarrow> keeps P (retryLoop n attempt m)"
  by (induction n arbitrary: attempt) (auto intro!: keeps_intro)

text \<open>A transition from one invariant to a weaker one, which an action may make at any point, also when it fails.\<close>

definition moves :: "(Host \<Rightarrow> bool) \<Rightarrow> (Host \<Rightarrow> bool) \<Rightarrow> 'a action \<Rightarrow> bool" where
  "moves P Q m \<longleftrightarrow> (\<forall>h r h'. P h \<longrightarrow> m h = Some (r, h') \<longrightarrow> Q h')"

lemma movesD: "moves P Q m \<Longrightarrow> P h \<Longrightarrow> m h = Some (r, h') \<Longrightarrow> Q h'"
  unfolding moves_def by blast

lemma moves_keeps: "keeps P m \<Longrightarrow> (\<And>h. P h \<Longrightarrow> Q h) \<Longrightarrow> moves P Q m"
  unfolding moves_def keeps_def by blast

lemma moves_seqA:
  assumes m: "moves P Q m" and f: "\<And>a. moves Q S (f a)" and QS: "\<And>h. Q h \<Longrightarrow> S h"
  shows "moves P S (seqA m f)"
proof -
  have "S h'" if h: "P h" and d: "seqA m f h = Some (r, h')" for h r h'
  proof -
    obtain s h1 where s: "m h = Some (s, h1)" using d by (cases "m h") (auto simp: seqA_def)
    have h1: "Q h1" by (rule movesD [OF m h s])
    show ?thesis
    proof (cases s)
      case (Inl err) then show ?thesis using d s QS [OF h1] by (simp add: seqA_def)
    next
      case (Inr a)
      then have "f a h1 = Some (r, h')" using d s by (simp add: seqA_def)
      then show ?thesis by (rule movesD [OF f h1])
    qed
  qed
  then show ?thesis unfolding moves_def by blast
qed

lemma moves_bothA:
  "moves P Q m \<Longrightarrow> moves Q S m1 \<Longrightarrow> (\<And>h. Q h \<Longrightarrow> S h) \<Longrightarrow> moves P S (bothA m m1)"
  unfolding bothA_def by (rule moves_seqA)

lemma moves_first: "keeps P m \<Longrightarrow> (\<And>a. moves P Q (f a)) \<Longrightarrow> (\<And>h. P h \<Longrightarrow> Q h) \<Longrightarrow> moves P Q (seqA m f)"
  by (rule moves_seqA [of P P]) (auto intro: moves_keeps)

lemma moves_first_bothA: "keeps P m \<Longrightarrow> moves P Q m1 \<Longrightarrow> (\<And>h. P h \<Longrightarrow> Q h) \<Longrightarrow> moves P Q (bothA m m1)"
  unfolding bothA_def by (rule moves_first)

lemma moves_last_bothA: "moves P Q m \<Longrightarrow> keeps Q m1 \<Longrightarrow> moves P Q (bothA m m1)"
  by (rule moves_bothA) (auto intro: moves_keeps)

lemma moves_last: "moves P Q m \<Longrightarrow> (\<And>a. keeps Q (f a)) \<Longrightarrow> moves P Q (seqA m f)"
  by (rule moves_seqA) (auto intro: moves_keeps)

lemma moves_deferA:
  assumes m: "moves P Q m" and c: "moves Q S c"
  shows "moves P S (deferA c m)"
proof -
  have "S h'" if h: "P h" and d: "deferA c m h = Some (r, h')" for h r h'
  proof -
    obtain s h1 where s: "m h = Some (s, h1)" using d by (cases "m h") (auto simp: deferA_def)
    obtain u where u: "c h1 = Some (u, h')" using d s by (cases "c h1") (auto simp: deferA_def)
    show ?thesis by (rule movesD [OF c movesD [OF m h s] u])
  qed
  then show ?thesis unfolding moves_def by blast
qed

text \<open>
  The contract of an indexed invariant of the trace. Quiet effects do not disturb it. Starting and closing a
  key agent move it to the index \<open>started\<close> and back, taking and releasing a lock to \<open>locked\<close> and back. A command
  of git needs an index that allows it, and a lock is taken in indices of \<open>free\<close> only. The user's key is
  installed once for the whole run: storing it moves the invariant to the index \<open>later\<close>, and destroying it to \<open>final\<close>.
\<close>

fun quiet :: "exec_effect \<Rightarrow> bool" where
  "quiet (StartAgent _) = False"
| "quiet (LockRepo _) = False"
| "quiet (UnlockRepo _) = False"
| "quiet (Git _) = False"
| "quiet _ = True"

definition addEffect :: "exec_effect \<Rightarrow> Host \<Rightarrow> Host" where
  "addEffect e h = h\<lparr>h_trace := h_trace h @ [e]\<rparr>"

text \<open>The command works in the directory: it is run there, or it clones a repository into it.\<close>

definition worksIn :: "string \<Rightarrow> Cmd \<Rightarrow> bool" where
  "worksIn dir c \<longleftrightarrow>
     cmd_Dir c = dir \<or>
     cmd_Args c \<noteq> [] \<and> hd (cmd_Args c) = ''clone'' \<and> path_Join [cmd_Dir c, last (cmd_Args c)] = dir"

text \<open>What the executor uses of its repository and never changes.\<close>

definition place :: "ExecEnv \<Rightarrow> RunningExecutor \<Rightarrow> string \<times> string" where
  "place x t = (GetFullPath x (ex_Repository t) (Template_ID (ex_Template t)), GetType (ex_Repository t))"

locale steady_state =
  fixes I :: "'v \<Rightarrow> Host \<Rightarrow> bool" and free :: "'v \<Rightarrow> bool" and fresh :: "'v \<Rightarrow> bool" and gitOk :: "'v \<Rightarrow> Cmd \<Rightarrow> bool"
    and locked :: "string \<Rightarrow> 'v \<Rightarrow> 'v" and started :: "string \<Rightarrow> 'v \<Rightarrow> 'v"
    and later :: "'v \<Rightarrow> 'v" and final :: "'v \<Rightarrow> 'v"
  assumes exec_irrelevant: "ex_sshKey t = ex_sshKey (h_exec h) \<Longrightarrow> I v h \<Longrightarrow> I v (h\<lparr>h_exec := t\<rparr>)"
    and fields_irrelevant:
      "I v h \<Longrightarrow> I v (h\<lparr>h_backend := b\<rparr>)" "I v h \<Longrightarrow> I v (h\<lparr>h_noChanges := c\<rparr>)" "I v h \<Longrightarrow> I v (h\<lparr>h_prepared := q\<rparr>)"
    and quiet: "I v h \<Longrightarrow> quiet e \<Longrightarrow> I v (addEffect e h)"
    and git: "I v h \<Longrightarrow> gitOk v cmd \<Longrightarrow> I v (addEffect (Git cmd) h)"
    and lock: "free v \<Longrightarrow> I v h \<Longrightarrow> I (locked k v) (addEffect (LockRepo k) h)"
    and unlock: "free v \<Longrightarrow> I (locked k v) h \<Longrightarrow> I v (addEffect (UnlockRepo k) h)"
    and locked_git: "worksIn k cmd \<Longrightarrow> gitOk (locked k v) cmd"
    and start: "I v h \<Longrightarrow> h_fails h (h_trace h) (StartAgent s) = None \<Longrightarrow> I (started s v) (addEffect (StartAgent s) h)"
    and start_failed: "I v h \<Longrightarrow> h_fails h (h_trace h) (StartAgent s) = Some err \<Longrightarrow> I v (addEffect (StartAgent s) h)"
    and close: "I (started s v) h \<Longrightarrow> I v (addEffect (CloseAgent s) h)"
    and started_git: "gitOk v cmd \<Longrightarrow> gitOk (started s v) cmd"
    and store:
      "fresh v \<Longrightarrow> I (started s v) h \<Longrightarrow> Inst_Socket i = Some s \<Longrightarrow> I (later v) (h\<lparr>h_exec := (h_exec h)\<lparr>ex_sshKey := i\<rparr>\<rparr>)"
      "fresh v \<Longrightarrow> I v h \<Longrightarrow> Inst_Socket i = None \<Longrightarrow> I (later v) (h\<lparr>h_exec := (h_exec h)\<lparr>ex_sshKey := i\<rparr>\<rparr>)"
    and later: "I v h \<Longrightarrow> I (later v) h" "free v \<Longrightarrow> free (later v)"
    and destroy:
      "I (later v) h \<Longrightarrow> Inst_Socket (ex_sshKey (h_exec h)) = Some s \<Longrightarrow> I (final v) (addEffect (CloseAgent s) h)"
      "I (later v) h \<Longrightarrow> Inst_Socket (ex_sshKey (h_exec h)) = None \<Longrightarrow> I (final v) h"
begin

text \<open>The invariant together with the place of the repository.\<close>

definition J :: "ExecEnv \<Rightarrow> string \<times> string \<Rightarrow> 'v \<Rightarrow> Host \<Rightarrow> bool" where
  "J x p v h \<longleftrightarrow> I v h \<and> place x (h_exec h) = p"

lemma keeps_modExec:
  "(\<And>t. ex_sshKey (f t) = ex_sshKey t \<and> place x (f t) = place x t) \<Longrightarrow> keeps (J x p v) (modExec f)"
  by (auto simp: keeps_def modExec_def J_def intro: exec_irrelevant)

lemma keeps_fields: "keeps (J x p v) (setBackend b)" "keeps (J x p v) (noteChanges s)" "keeps (J x p v) (setPrepared q)"
  by (auto simp: keeps_def setBackend_def noteChanges_def setPrepared_def J_def intro: fields_irrelevant)

lemma moves_effect:
  assumes "\<And>h. I v h \<Longrightarrow> I w (addEffect e h)"
  shows "moves (J x p v) (J x p w) (perform e)" "moves (J x p v) (J x p w) (ignoring e)"
    "moves (J x p v) (J x p w) (performOut e)"
  using assms
  by (auto simp: moves_def perform_def ignoring_def performOut_def Let_def J_def addEffect_def split: option.splits)

lemma keeps_moves: "keeps P m \<longleftrightarrow> moves P P m"
  by (simp add: keeps_def moves_def)

lemma keeps_effect:
  "quiet e \<Longrightarrow> keeps (J x p v) (perform e)" "quiet e \<Longrightarrow> keeps (J x p v) (ignoring e)"
  "quiet e \<Longrightarrow> keeps (J x p v) (performOut e)"
  "gitOk v cmd \<Longrightarrow> keeps (J x p v) (perform (Git cmd))" "gitOk v cmd \<Longrightarrow> keeps (J x p v) (performOut (Git cmd))"
  unfolding keeps_moves by (auto intro!: moves_effect quiet git)

lemma keeps_getExec:
  assumes "\<And>t. place x t = p \<Longrightarrow> keeps (J x p v) (f t)"
  shows "keeps (J x p v) (seqA getExec f)"
  using assms by (auto simp: keeps_def seqA_def getExec_def J_def)

lemmas steady = keeps_intro keeps_modExec keeps_fields keeps_effect quiet.simps

lemma keeps_withLock:
  assumes "free v" and "keeps (J x p (locked k v)) m"
  shows "keeps (J x p v) (withLock k m)"
proof -
  show ?thesis
    unfolding withLock_def keeps_def
  proof (intro allI impI)
    fix h r h'
    assume h: "J x p v h" and r: "bothA (ignoring (LockRepo k)) (deferA (ignoring (UnlockRepo k)) m) h = Some (r, h')"
    have "J x p (locked k v) (addEffect (LockRepo k) h)"
      using h lock [OF assms(1)] by (simp add: J_def) (simp add: addEffect_def)
    moreover have "deferA (ignoring (UnlockRepo k)) m (addEffect (LockRepo k) h) = Some (r, h')"
      using r by (simp add: bothA_def seqA_def ignoring_def addEffect_def)
    moreover have "moves (J x p (locked k v)) (J x p v) (deferA (ignoring (UnlockRepo k)) m)"
      using assms(2) by (intro moves_deferA [OF _ moves_effect(2) [OF unlock [OF assms(1)]]]) (simp add: keeps_moves)
    ultimately show "J x p v h'" using movesD by metis
  qed
qed

text \<open>An installed key is either without an agent or has started one.\<close>

lemma Install_cases:
  assumes "Install x1 sk usage h = Some (r, h')" and "J x p v h"
  obtains (none) "J x p v h'" and "\<And>inst. r = Inr inst \<Longrightarrow> Inst_Socket inst = None"
  | (agent) s inst where "r = Inr inst" "Inst_Socket inst = Some s" "J x p (started s v) h'"
proof -
  have agent1: thesis if r: "StartSSHAgent x1 key h = Some (r, h')" for key
  proof -
    define s where "s = socketFile x1 key (h_random h (length (h_trace h)))"
    have place: "place x (h_exec (addEffect e h)) = p" for e using assms(2) by (simp add: J_def addEffect_def)
    have I: "I v h" using assms(2) by (simp add: J_def)
    show thesis
    proof (cases "h_fails h (h_trace h) (StartAgent s)")
      case None
      then have "r = Inr (noInstallation\<lparr>Inst_Socket := Some s, Inst_Login := Ssh_Login (Key_SshKey key)\<rparr>)"
        and "h' = addEffect (StartAgent s) h"
        using r by (auto simp: StartSSHAgent_def Let_def s_def [symmetric] seqA_def perform_def return_def addEffect_def)
      then show thesis using agent [of _ s] start [OF I None] place by (simp add: J_def)
    next
      case (Some err)
      then have "r = Inl err" and "h' = addEffect (StartAgent s) h"
        using r by (auto simp: StartSSHAgent_def Let_def s_def [symmetric] seqA_def perform_def return_def addEffect_def)
      then show thesis using none start_failed [OF I Some] place by (simp add: J_def)
    qed
  qed
  show thesis
    using assms(1)
  proof (cases rule: Install_elim)
    case (installed k1)
    then show thesis
      using assms(2) none agent1
      by (auto simp: KeyInstaller_Install_def return_def throw_def noInstallation_def passwordInstallation_def
          split: if_splits AccessKeyRole.splits)
  qed (use assms(2) none in \<open>auto simp: noInstallation_def\<close>)
qed

lemma Install_password:
  assumes "usage = RoleAnsiblePasswordVault \<or> usage = RoleAnsibleBecomeUser"
  shows "keeps (J x p v) (Install x1 sk usage)"
  using assms by (auto simp: Install_def KeyInstaller_Install_def Service_Install_def intro!: steady)

text \<open>A key that is installed for one operation.\<close>

lemma keeps_key:
  assumes "\<And>inst. keeps (J x p v) (m inst)" and "\<And>s inst. keeps (J x p (started s v)) (m inst)"
  shows "keeps (J x p v) (seqA (Install x1 sk usage) (\<lambda>inst. deferA (Destroy inst) (m inst)))"
  unfolding keeps_def
proof (intro allI impI)
  fix h r h'
  assume h: "J x p v h" and d: "seqA (Install x1 sk usage) (\<lambda>inst. deferA (Destroy inst) (m inst)) h = Some (r, h')"
  obtain r1 h1 where i: "Install x1 sk usage h = Some (r1, h1)" using d by (cases "Install x1 sk usage h") (auto simp: seqA_def)
  have rest: "deferA (Destroy inst) (m inst) h1 = Some (r, h')" if "r1 = Inr inst" for inst
    using d i that by (simp add: seqA_def)
  show "J x p v h'"
    using i h
  proof (cases rule: Install_cases)
    case none
    show ?thesis
    proof (cases r1)
      case (Inl err) then show ?thesis using d i none(1) by (simp add: seqA_def)
    next
      case (Inr inst)
      then have "Destroy inst = return ()" using none(2) by (simp add: Destroy_def)
      then show ?thesis
        using keepsD [OF keeps_deferA [OF assms(1) keeps_pure(1)] none(1)] rest [OF Inr] by metis
    qed
  next
    case (agent s inst)
    then have "Destroy inst = ignoring (CloseAgent s)" by (simp add: Destroy_def)
    moreover have "moves (J x p (started s v)) (J x p v) (deferA (ignoring (CloseAgent s)) (m inst))"
      using assms(2) by (intro moves_deferA [OF _ moves_effect(2) [OF close]]) (simp add: keeps_moves)
    ultimately show ?thesis using movesD agent(3) rest [OF agent(1)] by metis
  qed
qed

lemma keeps_setStatus: "keeps (J x p v) (setStatus s)"
  by (auto simp: setStatus_def intro!: steady)

lemma keeps_Destroy: "keeps (J x p v) (Destroy inst)"
  by (auto simp: Destroy_def intro!: steady)

lemma keeps_makeCmd: "keeps (J x p v) (git_makeCmd x1 r target inst args)"
  by (auto simp: git_makeCmd_def intro!: steady split: GitRepositoryDirType.split)

text \<open>The command that the client makes.\<close>

lemma makeCmd_Inr:
  "git_makeCmd x1 r target inst args h = Some (Inr c, h') \<Longrightarrow> cmd_Dir c = gitDir x1 r target \<and> cmd_Args c = args"
  by (auto simp: git_makeCmd_def seqA_def ignoring_def return_def panicA_def split: option.splits GitRepositoryDirType.splits)

lemma keeps_seqA_makeCmd:
  assumes "\<And>c. cmd_Dir c = gitDir x1 r target \<and> cmd_Args c = args \<Longrightarrow> keeps (J x p v) (f c)"
  shows "keeps (J x p v) (seqA (git_makeCmd x1 r target inst args) f)"
  unfolding keeps_def
proof (intro allI impI)
  fix h res h'
  assume h: "J x p v h" and d: "seqA (git_makeCmd x1 r target inst args) f h = Some (res, h')"
  obtain r1 h1 where m: "git_makeCmd x1 r target inst args h = Some (r1, h1)"
    using d by (cases "git_makeCmd x1 r target inst args h") (auto simp: seqA_def)
  have h1: "J x p v h1" by (rule keepsD [OF keeps_makeCmd h m])
  show "J x p v h'"
  proof (cases r1)
    case (Inl err) then show ?thesis using d m h1 by (simp add: seqA_def)
  next
    case (Inr c)
    then have "f c h1 = Some (res, h')" using d m by (simp add: seqA_def)
    then show ?thesis using keepsD [OF assms h1] makeCmd_Inr m Inr by blast
  qed
qed

definition covers :: "'v \<Rightarrow> string \<Rightarrow> bool" where
  "covers v dir \<longleftrightarrow> (\<forall>c. worksIn dir c \<longrightarrow> gitOk v c)"

lemma covers_started: "covers v dir \<Longrightarrow> covers (started s v) dir"
  by (simp add: covers_def started_git)

lemma covers_locked: "covers (locked k v) k"
  by (simp add: covers_def locked_git)

lemma keeps_git_run:
  assumes "covers v dir" and "\<And>c. cmd_Dir c = gitDir x1 r target \<and> cmd_Args c = args \<Longrightarrow> worksIn dir c"
  shows "keeps (J x p v) (git_run x1 r target args)" "keeps (J x p v) (git_output x1 r target args)"
proof -
  have ok: "gitOk w c" if "covers w dir" "cmd_Dir c = gitDir x1 r target \<and> cmd_Args c = args" for w c
    using that assms(2) by (auto simp: covers_def)
  have run: "keeps (J x p w) (seqA (git_makeCmd x1 r target inst args) (\<lambda>cmd. perform (Git cmd)))" if "covers w dir" for w inst
    by (rule keeps_seqA_makeCmd) (intro keeps_effect ok that)
  show "keeps (J x p v) (git_run x1 r target args)"
    unfolding git_run_def by (intro keeps_key run assms(1) covers_started)
  have runs_output: "keeps (J x p w) (seqA (git_makeCmd x1 r target inst args)
          (\<lambda>cmd. seqA (performOut (Git cmd)) (\<lambda>out. return (trimOutput out))))" if "covers w dir" for w inst
    by (rule keeps_seqA_makeCmd) (intro keeps_seqA keeps_pure keeps_effect ok that)
  show "keeps (J x p v) (git_output x1 r target args)"
    unfolding git_output_def by (intro keeps_key runs_output assms(1) covers_started)
qed

lemma keeps_git_full:
  assumes "covers v (git_FullPath x1 r)"
  shows "keeps (J x p v) (git_run x1 r GitRepositoryFullPath args)"
    "keeps (J x p v) (git_output x1 r GitRepositoryFullPath args)"
  by (auto intro!: keeps_git_run [OF assms] simp: worksIn_def gitDir_def)

text \<open>A repository that is not local is cloned into its directory under the directory of the project.\<close>

definition cloneable :: "GitRepository \<Rightarrow> bool" where
  "cloneable r \<longleftrightarrow> git_TmpDirName r \<noteq> [] \<or> GetType (git_Repository r) \<noteq> RepositoryLocal"

lemma keeps_git_Clone:
  assumes "covers v (git_FullPath x1 r)" and "cloneable r"
  shows "keeps (J x p v) (git_Clone x1 r)"
proof -
  have "worksIn (git_FullPath x1 r) c"
    if "cmd_Dir c = gitDir x1 r GitRepositoryTmpPath \<and>
        cmd_Args c = [''clone'', ''--recursive'', ''--branch'', b, ''--end-of-options'', url,
                      if git_TmpDirName r = [] then GetDirName (git_Repository r) (git_TemplateID r) else git_TmpDirName r]"
    for c b url
    using that assms(2) by (auto simp: worksIn_def gitDir_def git_FullPath_def GetFullPath_def cloneable_def)
  then show ?thesis
    unfolding git_Clone_def Let_def by (intro steady keeps_git_run [OF assms(1)]) simp_all
qed

lemma keeps_git_operations:
  assumes "covers v (git_FullPath x1 r)"
  shows "keeps (J x p v) (git_Pull x1 r)" "keeps (J x p v) (git_Checkout x1 r target)"
    "keeps (J x p v) (git_CanBePulled x1 r)" "keeps (J x p v) (git_GetLastCommitMessage x1 r)"
    "keeps (J x p v) (git_GetLastCommitHash x1 r)" "keeps (J x p v) (ValidateRepo x1 r)"
  by (auto simp: git_Pull_def git_Checkout_def git_CanBePulled_def git_GetLastCommitMessage_def
      git_GetLastCommitHash_def ValidateRepo_def intro!: steady keeps_git_full [OF assms])

lemma keeps_repo:
  assumes "covers v (git_FullPath x1 r)" and "cloneable r"
  shows "keeps (J x p v) (repo_Clone x1 r)" "keeps (J x p v) (repo_Pull x1 r)"
    "keeps (J x p v) (cloneAfresh x1 r)"
  by (auto simp: repo_Clone_def repo_Pull_def cloneAfresh_def retry_def
      intro!: steady keeps_git_operations [OF assms(1)] keeps_git_Clone [OF assms])

lemma keeps_pullOrClone:
  assumes "covers v (git_FullPath x1 r)" and "cloneable r"
  shows "keeps (J x p v) (pullOrClone x1 r)"
  by (auto simp: pullOrClone_def intro!: steady keeps_git_operations [OF assms(1)] keeps_repo [OF assms])

lemma executorRepo_place:
  assumes "place x t = (dir, ty)" and "ty \<noteq> RepositoryLocal"
  shows "git_FullPath x (executorRepo t) = dir" and "cloneable (executorRepo t)"
  using assms by (auto simp: place_def executorRepo_def git_FullPath_def cloneable_def)

lemma keeps_updateRepository:
  assumes v: "covers v dir" and ty: "ty \<noteq> RepositoryLocal"
  shows "keeps (J x (dir, ty) v) (updateRepository x)" "keeps (J x (dir, ty) v) (checkoutRepository x)"
proof -
  have repo: "covers v (git_FullPath x (executorRepo t))" "cloneable (executorRepo t)" if "place x t = (dir, ty)" for t
    using executorRepo_place [OF that ty] v by simp_all
  show "keeps (J x (dir, ty) v) (updateRepository x)"
    unfolding updateRepository_def
    by (rule keeps_getExec) (auto intro!: steady keeps_repo keeps_pullOrClone keeps_git_operations repo)
  show "keeps (J x (dir, ty) v) (checkoutRepository x)"
    unfolding checkoutRepository_def
    by (rule keeps_getExec) (auto simp: SetCommit_def place_def intro!: steady keeps_git_operations repo)
qed

lemma keeps_findRepository: "free v \<Longrightarrow> keeps (J x p v) (findRepository x)"
proof -
  assume free: "free v"
  obtain dir ty where p: "p = (dir, ty)" by (cases p)
  have lockd: "keeps (J x (dir, ty) v) (updateAndCheckoutRepository x)" if "ty \<noteq> RepositoryLocal"
    unfolding updateAndCheckoutRepository_def
  proof (rule keeps_getExec)
    fix t assume "place x t = (dir, ty)"
    then have "GetFullPath x (ex_Repository t) (Template_ID (ex_Template t)) = dir" by (simp add: place_def)
    then show "keeps (J x (dir, ty) v) (withLock (GetFullPath x (ex_Repository t) (Template_ID (ex_Template t)))
                  (bothA (updateRepository x) (checkoutRepository x)))"
      by (simp, intro keeps_withLock free keeps_bothA keeps_updateRepository covers_locked that)
  qed
  show ?thesis
    unfolding findRepository_def p
  proof (rule keeps_getExec)
    fix t assume t: "place x t = (dir, ty)"
    then have ty: "GetType (ex_Repository t) = ty" by (simp add: place_def)
    show "keeps (J x (dir, ty) v)
        (if GetType (ex_Repository t) = RepositoryLocal
         then (case GetGitURL True (ex_Repository t) of None \<Rightarrow> panicA | Some localPath \<Rightarrow> perform (StatPath localPath))
         else updateAndCheckoutRepository x)"
      using lockd by (auto simp: ty intro!: steady)
  qed
qed

lemma keeps_cloneInventoryRepo: "free v \<Longrightarrow> keeps (J x p v) (cloneInventoryRepo x1)"
  unfolding cloneInventoryRepo_def Let_def
  by (intro steady keeps_withLock keeps_pullOrClone)
    (auto simp: covers_locked cloneable_def inventoryRepo_def tmpInventoryFilename_def GetDirName_def getDirNamePrefix_def
      split: option.splits)

lemma keeps_makeDirectories: "keeps (J x p v) (makeDirectories x)"
  by (auto simp: makeDirectories_def intro!: steady)

text \<open>The applications.\<close>

lemma keeps_galaxy: "keeps (J x p v) (installGalaxyRequirementsFile x1 env ty file)"
  by (auto simp: installGalaxyRequirementsFile_def hasRequirementsChanges_def writeMD5Hash_def getMD5Hash_def
      RunGalaxy_def intro!: steady)

lemma keeps_ansible: "keeps (J x p v) (ansible_InstallRequirements x1 env)" "keeps (J x p v) (ansible_Run x1 prep)"
  by (auto simp: ansible_InstallRequirements_def installCollectionsRequirements_def installRolesRequirements_def
      ansible_Run_def RunPlaybook_def intro!: steady keeps_galaxy)

lemma keeps_tf_init: "keeps (J x p v) (tf_init x1 env extra)"
  unfolding tf_init_def Let_def by (intro keeps_seqA keeps_pure(6) keeps_key) (auto intro!: steady)

lemma keeps_terraform: "keeps (J x p v) (InstallRequirementsWithInitArgs x1 env initArgs)"
  by (auto simp: InstallRequirementsWithInitArgs_def isWorkspacesSupported_def selectWorkspace_def
      intro!: steady keeps_tf_init)

lemma keeps_InstallRequirements: "keeps (J x p v) (InstallRequirements x1 env)"
  by (auto simp: InstallRequirements_def intro!: steady keeps_ansible keeps_terraform)

lemma keeps_awaitDecision: "keeps (J x p v) awaitDecision"
proof -
  have "J x p v h \<longrightarrow> J x p v (snd y)" if aw: "awaitDecision h = Some y" for h y
  proof (rule awaitDecision.raw_induct [OF _ aw])
    fix aw :: "TaskStatus action" and h y
    assume IH: "\<And>h y. aw h = Some y \<Longrightarrow> J x p v h \<longrightarrow> J x p v (snd y)"
      and step: "(let h1 = h\<lparr>h_trace := h_trace h @ [Sleep (3 * 1000000000)]\<rparr>; s = h_status h1 (h_trace h1)
                  in if decided s then Some (Inr s, h1) else aw h1) = Some y"
    have "J x p v h \<Longrightarrow> J x p v (h\<lparr>h_trace := h_trace h @ [Sleep (3 * 1000000000)]\<rparr>)"
      using quiet [of v h "Sleep (3 * 1000000000)"] by (simp add: J_def addEffect_def)
    then show "J x p v h \<longrightarrow> J x p v (snd y)"
      using step IH by (auto simp: Let_def split: if_splits)
  qed
  then show ?thesis by (auto simp: keeps_def)
qed

lemma keeps_tf_Clear: "keeps (J x p v) (tf_Clear x1)"
proof -
  have "J x p v h \<Longrightarrow> J x p v (h\<lparr>h_trace := h_trace h @ [RemoveFile f]\<rparr>)" for h f
    using quiet [of v h "RemoveFile f"] by (simp add: J_def addEffect_def)
  then show ?thesis by (auto simp: keeps_def tf_Clear_def return_def ignoring_def)
qed

lemma keeps_app: "keeps (J x p v) (app_Run x1 prep)" "keeps (J x p v) (app_Clear x1)" "keeps (J x p v) (destroyInventoryFile x1)"
  by (auto simp: app_Run_def shell_Run_def tf_Run_def tf_Plan_def tf_Apply_def app_Clear_def destroyInventoryFile_def
      intro!: steady keeps_setStatus keeps_ansible keeps_awaitDecision keeps_tf_Clear)

text \<open>Keys and vaults.\<close>

lemma keeps_vaults: "keeps (J x p v) (installVaultKeyFiles x1)"
  by (auto simp: installVaultKeyFiles_def installVault_def place_def intro!: steady Install_password)

lemma keeps_becomeKey:
  "keeps (J x p v) (installInto x1 k RoleAnsibleBecomeUser (\<lambda>i e. e\<lparr>ex_becomeKey := i\<rparr>))"
  by (auto simp: installInto_def place_def intro!: steady Install_password)

lemma J_later: "J x p v h \<Longrightarrow> J x p (later v) h"
  by (simp add: J_def later(1))

lemma moves_userKey:
  assumes "fresh v"
  shows "moves (J x p v) (J x p (later v)) (installInto x1 k RoleAnsibleUser (\<lambda>i e. e\<lparr>ex_sshKey := i\<rparr>))"
  unfolding moves_def
proof (intro allI impI)
  fix h res h'
  assume h: "J x p v h" and d: "installInto x1 k RoleAnsibleUser (\<lambda>i e. e\<lparr>ex_sshKey := i\<rparr>) h = Some (res, h')"
  obtain r1 h1 where i: "Install x1 k RoleAnsibleUser h = Some (r1, h1)"
    using d by (cases "Install x1 k RoleAnsibleUser h") (auto simp: installInto_def seqA_def tryA_def)
  define inst where "inst = (case r1 of Inl _ \<Rightarrow> noInstallation | Inr a \<Rightarrow> a)"
  have h': "h' = h1\<lparr>h_exec := (h_exec h1)\<lparr>ex_sshKey := inst\<rparr>\<rparr>"
    using d i
    by (auto simp: installInto_def seqA_def tryA_def bothA_def modExec_def throw_def inst_def split: sum.splits)
  have place: "place x (h_exec h') = place x (h_exec h1)" by (simp add: h' place_def)
  show "J x p (later v) h'"
    using i h
  proof (cases rule: Install_cases)
    case none
    have "Inst_Socket inst = None" using none(2) by (auto simp: inst_def noInstallation_def split: sum.splits)
    then show ?thesis using none(1) store(2) [OF assms] place by (simp add: J_def h')
  next
    case (agent s a)
    then have "Inst_Socket inst = Some s" by (simp add: inst_def)
    then show ?thesis using agent(3) store(1) [OF assms, of s h1 inst] place by (simp add: J_def h')
  qed
qed

lemma moves_installInventory:
  assumes "free v" "fresh v"
  shows "moves (J x p v) (J x p (later v)) (installInventory x1)"
proof -
  have rest: "keeps (J x p (later v)) (if ty then cloneInventoryRepo x1 else if ty1 then installStaticInventory x1 else return ())"
    for ty ty1
    by (cases ty; cases ty1)
      (auto simp: installStaticInventory_def intro!: steady keeps_cloneInventoryRepo later(2) assms(1))
  have user: "moves (J x p v) (J x p (later v)) (whenA b (installInto x1 k RoleAnsibleUser (\<lambda>i e. e\<lparr>ex_sshKey := i\<rparr>)))" for b k
    by (cases b) (auto simp: whenA_def moves_userKey [OF assms(2)] intro!: moves_keeps keeps_pure J_later)
  show ?thesis
    unfolding installInventory_def Let_def
    by (intro moves_first moves_last_bothA user keeps_intro keeps_becomeKey rest J_later)
qed

text \<open>The phases of a run.\<close>

lemma moves_prepareSteps:
  assumes "free v" "fresh v" and install: "keeps (J x p (later v)) install"
  shows "moves (J x p v) (J x p (later v)) (prepareSteps x install)"
proof -
  have branch: "keeps (J x p v) (modExec resolveBranch)"
    by (rule keeps_modExec) (auto simp: resolveBranch_def place_def GetFullPath_def GetType_def GetDirName_def
        getDirNamePrefix_def Let_def)
  show ?thesis
    unfolding prepareSteps_def
    by (intro moves_first_bothA keeps_makeDirectories branch keeps_findRepository assms(1,2) J_later moves_last_bothA
        moves_installInventory keeps_bothA install keeps_vaults)
qed

lemma keeps_params:
  "keeps (J x p v) (getTemplateParams tpl)" "keeps (J x p v) (getParams tpl task)" "keeps (J x p v) checkPlaybooks"
  by (auto simp: getTemplateParams_def getParams_def checkPlaybooks_def intro!: steady)

lemma moves_prepareArgs:
  assumes "free v" "fresh v"
  shows "moves (J x p v) (J x p (later v)) (prepareArgs x env username incomingVersion)"
proof -
  have tf: "moves (J x p v) (J x p (later v)) (bothA (prepareRunTerraform x env as) (return z))"
    for as and z :: "stages \<times> (string \<times> string) list"
    unfolding prepareRunTerraform_def
    by (intro moves_last_bothA moves_prepareSteps assms keeps_terraform keeps_pure)
  have run: "moves (J x p v) (J x p (later v)) (bothA (prepareRun x env) m)"
    if "keeps (J x p (later v)) m" for m :: "(stages \<times> (string \<times> string) list) action"
    unfolding prepareRun_def by (intro moves_last_bothA moves_prepareSteps assms keeps_InstallRequirements that)
  have cases: "moves P Q (if b then m else m1)" if "moves P Q m" "moves P Q m1"
    for b P Q and m m1 :: "(stages \<times> (string \<times> string) list) action"
    using that by simp
  show ?thesis
    unfolding prepareArgs_def
    by (intro moves_first cases tf run keeps_pure J_later keeps_intro)
qed

lemma moves_Prepare:
  assumes "free v" "fresh v"
  shows "moves (J x p v) (J x p (later v)) (Prepare x username incomingVersion taskAlias)"
proof -
  have last: "keeps (J x p (later v)) (case z of (argsMap, inputs) \<Rightarrow> seqA getExec (\<lambda>t1.
                case finalEnv x t1 username incomingVersion of None \<Rightarrow> panicA
                | Some env2 \<Rightarrow> setPrepared \<lparr>prep_Env = env1 @ env2, prep_Args = argsMap, prep_Inputs = inputs\<rparr>))" for z env1
    by (intro keeps_intro keeps_fields)
  have once: "moves (J x p v) (J x p (later v)) (if q \<noteq> None then return () else m)"
    if "moves (J x p v) (J x p (later v)) m" for q :: "Prepared option" and m
    using that by (cases q) (auto intro: moves_keeps keeps_pure J_later)
  show ?thesis
    unfolding Prepare_def prepareOnce_def Let_def
    by (intro once moves_first moves_first_bothA keeps_pure keeps_setStatus keeps_params J_later
        moves_last [OF moves_prepareArgs [OF assms] last])
qed

lemma moves_destroyKeys: "moves (J x p (later v)) (J x p (final v)) destroyKeys"
proof -
  have rest: "keeps (J x p (final v)) (bothA (Destroy (ex_becomeKey t)) (eachA (\<lambda>u. Destroy (snd u)) (ex_vaultFiles t)))" for t
    by (intro keeps_intro keeps_Destroy)
  show ?thesis
    unfolding moves_def
  proof (intro allI impI)
    fix h r h'
    assume h: "J x p (later v) h" and d: "destroyKeys h = Some (r, h')"
    let ?t = "h_exec h"
    let ?rest = "bothA (Destroy (ex_becomeKey ?t)) (eachA (\<lambda>u. Destroy (snd u)) (ex_vaultFiles ?t))"
    show "J x p (final v) h'"
    proof (cases "Inst_Socket (ex_sshKey ?t)")
      case None
      then have "?rest h = Some (r, h')"
        using d by (simp add: destroyKeys_def seqA_def getExec_def bothA_def Destroy_def [of "ex_sshKey ?t"] return_def)
      moreover have "J x p (final v) h" using destroy(2) None h by (simp add: J_def)
      ultimately show ?thesis using keepsD [OF rest] by blast
    next
      case (Some s)
      then have "?rest (addEffect (CloseAgent s) h) = Some (r, h')"
        using d by (simp add: destroyKeys_def seqA_def getExec_def bothA_def Destroy_def [of "ex_sshKey ?t"]
            ignoring_def addEffect_def)
      moreover have "J x p (final v) (addEffect (CloseAgent s) h)"
        using destroy(1) Some h by (simp add: J_def) (simp add: addEffect_def)
      ultimately show ?thesis using keepsD [OF rest] by metis
    qed
  qed
qed

theorem moves_Run:
  assumes "free v" "fresh v"
  shows "moves (J x p v) (J x p (final v)) (executor_Run x username incomingVersion taskAlias)"
proof -
  have cleanup: "moves (J x p (later v)) (J x p (final v)) (Cleanup x)"
    unfolding Cleanup_def by (intro moves_last_bothA moves_destroyKeys keeps_intro keeps_app)
  show ?thesis
    unfolding executor_Run_def
    by (rule moves_deferA [OF moves_last_bothA [OF moves_Prepare [OF assms]] cleanup])
      (intro keeps_intro keeps_setStatus keeps_app)
qed

lemma Run_invariant:
  assumes "free v" "fresh v" "I v h" "executor_Run x username incomingVersion taskAlias h = Some (r, h')"
  shows "I (final v) h'"
  using movesD [OF moves_Run [OF assms(1,2), of x "place x (h_exec h)"] _ assms(4)] assms(3) by (simp add: J_def)

end

end
