(* ===== verification/Executor_Total.thy ===== *)
theory Executor_Total
  imports Executor_Run
begin

text \<open>
  Which runs of the local executor return. An action of the model is \<^const>\<open>None\<close> when the code panics or never
  ends. The predicate \<open>returns\<close> says that an action returns, with a value or an error, and keeps what the later
  phases rely on; it is proved for every phase of a run that does not wait for a user.
\<close>

subsection \<open>Actions that return\<close>

definition returns :: "(Host \<Rightarrow> bool) \<Rightarrow> 'a action \<Rightarrow> bool" where
  "returns P m \<longleftrightarrow> (\<forall>h. P h \<longrightarrow> (\<exists>r h'. m h = Some (r, h') \<and> P h'))"

named_theorems total_intro

lemma totalE:
  assumes "returns P m" and "P h"
  obtains r h' where "m h = Some (r, h')" and "P h'"
  using assms unfolding returns_def by blast

lemma total_pure [total_intro]:
  "returns P (return a)" "returns P (throw err)" "returns P (liftRes r1)" "returns P (liftOpt (Some r2))"
  "returns P getExec" "returns P getPrepared" "returns P getKilled"
  by (auto simp: returns_def return_def throw_def liftRes_def liftOpt_def getExec_def getPrepared_def getKilled_def)

lemma total_seqA [total_intro]: "returns P m \<Longrightarrow> (\<And>a. returns P (f a)) \<Longrightarrow> returns P (seqA m f)"
proof -
  assume m: "returns P m" and f: "\<And>a. returns P (f a)"
  have "\<exists>r h'. seqA m f h = Some (r, h') \<and> P h'" if h: "P h" for h
  proof -
    obtain s h1 where s: "m h = Some (s, h1)" "P h1" using totalE [OF m h] by metis
    show ?thesis
    proof (cases s)
      case (Inl err) then show ?thesis using s by (simp add: seqA_def)
    next
      case (Inr a)
      obtain r h' where "f a h1 = Some (r, h')" "P h'" using totalE [OF f s(2)] by metis
      then show ?thesis using s Inr by (simp add: seqA_def)
    qed
  qed
  then show ?thesis unfolding returns_def by blast
qed

lemma total_bothA [total_intro]: "returns P m \<Longrightarrow> returns P m1 \<Longrightarrow> returns P (bothA m m1)"
  unfolding bothA_def by (rule total_seqA)

lemma total_tryA [total_intro]: "returns P m \<Longrightarrow> returns P (tryA m)"
  unfolding returns_def tryA_def by fastforce

lemma returns_deferA [total_intro]: "returns P m \<Longrightarrow> returns P c \<Longrightarrow> returns P (deferA c m)"
proof -
  assume m: "returns P m" and c: "returns P c"
  have "\<exists>r h'. deferA c m h = Some (r, h') \<and> P h'" if h: "P h" for h
  proof -
    obtain r h1 where r: "m h = Some (r, h1)" "P h1" using totalE [OF m h] by metis
    obtain u h2 where u: "c h1 = Some (u, h2)" "P h2" using totalE [OF c r(2)] by metis
    show ?thesis using r u by (simp add: deferA_def)
  qed
  then show ?thesis unfolding returns_def by blast
qed

lemma total_eachA [total_intro]: "(\<And>a. a \<in> set xs \<Longrightarrow> returns P (f a)) \<Longrightarrow> returns P (eachA f xs)"
  by (induction xs) (auto intro: total_intro)

lemma total_if [total_intro]: "(b \<Longrightarrow> returns P m) \<Longrightarrow> (\<not> b \<Longrightarrow> returns P m1) \<Longrightarrow> returns P (if b then m else m1)"
  by simp

lemma total_whenA [total_intro]: "(b \<Longrightarrow> returns P m) \<Longrightarrow> returns P (whenA b m)"
  by (auto simp: whenA_def intro: total_intro)

lemma total_case_option [total_intro]:
  "(z = None \<Longrightarrow> returns P m) \<Longrightarrow> (\<And>a. z = Some a \<Longrightarrow> returns P (f a)) \<Longrightarrow> returns P (case z of None \<Rightarrow> m | Some a \<Rightarrow> f a)"
  by (cases z) auto

lemma total_case_sum [total_intro]:
  "(\<And>a. z = Inl a \<Longrightarrow> returns P (f a)) \<Longrightarrow> (\<And>b. z = Inr b \<Longrightarrow> returns P (g b)) \<Longrightarrow> returns P (case z of Inl a \<Rightarrow> f a | Inr b \<Rightarrow> g b)"
  by (cases z) auto

lemma total_case_prod [total_intro]: "(\<And>a b. z = (a, b) \<Longrightarrow> returns P (f a b)) \<Longrightarrow> returns P (case z of (a, b) \<Rightarrow> f a b)"
  by (cases z) auto

lemma total_Let [total_intro]: "(\<And>a. a = z \<Longrightarrow> returns P (f a)) \<Longrightarrow> returns P (let a = z in f a)"
  by simp

lemma total_liftOpt [total_intro]: "z \<noteq> None \<Longrightarrow> returns P (liftOpt z)"
  by (auto intro: total_intro)

lemma total_retryLoop [total_intro]:
  "returns P m \<Longrightarrow> (\<And>d. returns P (ignoring (Sleep d))) \<Longrightarrow> returns P (retryLoop n attempt m)"
  by (induction n arbitrary: attempt) (auto intro!: total_intro)

text \<open>An action after which, if it succeeds, more is known.\<close>

definition establishes :: "(Host \<Rightarrow> bool) \<Rightarrow> (Host \<Rightarrow> bool) \<Rightarrow> 'a action \<Rightarrow> bool" where
  "establishes P Q m \<longleftrightarrow> (\<forall>h. P h \<longrightarrow> (\<exists>r h'. m h = Some (r, h') \<and> P h' \<and> ((\<exists>a. r = Inr a) \<longrightarrow> Q h')))"

lemma total_establishes: "establishes P Q m \<Longrightarrow> returns P m"
  unfolding establishes_def returns_def by blast

lemma establishes_seqA:
  assumes m: "establishes P Q m" and f: "\<And>a. returns Q (f a)" and QP: "\<And>h. Q h \<Longrightarrow> P h"
  shows "establishes P Q (seqA m f)"
proof -
  have "\<exists>r h'. seqA m f h = Some (r, h') \<and> P h' \<and> ((\<exists>a. r = Inr a) \<longrightarrow> Q h')" if h: "P h" for h
  proof -
    obtain s h1 where s: "m h = Some (s, h1)" "P h1" "(\<exists>a. s = Inr a) \<longrightarrow> Q h1" using m h unfolding establishes_def by blast
    show ?thesis
    proof (cases s)
      case (Inl err) then show ?thesis using s by (simp add: seqA_def)
    next
      case (Inr a)
      then have "Q h1" using s by blast
      then obtain r h' where "f a h1 = Some (r, h')" "Q h'" using totalE [OF f] by metis
      then show ?thesis using s Inr QP by (simp add: seqA_def)
    qed
  qed
  then show ?thesis unfolding establishes_def by blast
qed

lemma establishes_bothA:
  "establishes P Q m \<Longrightarrow> returns Q m1 \<Longrightarrow> (\<And>h. Q h \<Longrightarrow> P h) \<Longrightarrow> establishes P Q (bothA m m1)"
  unfolding bothA_def by (rule establishes_seqA)

lemma establishes_first:
  assumes m: "returns P m" and f: "\<And>a. establishes P Q (f a)"
  shows "establishes P Q (seqA m f)"
proof -
  have "\<exists>r h'. seqA m f h = Some (r, h') \<and> P h' \<and> ((\<exists>a. r = Inr a) \<longrightarrow> Q h')" if h: "P h" for h
  proof -
    obtain s h1 where s: "m h = Some (s, h1)" "P h1" using totalE [OF m h] by metis
    show ?thesis
      using s f unfolding establishes_def by (cases s) (auto simp: seqA_def)
  qed
  then show ?thesis unfolding establishes_def by blast
qed

lemma establishes_first_bothA: "returns P m \<Longrightarrow> establishes P Q m1 \<Longrightarrow> establishes P Q (bothA m m1)"
  unfolding bothA_def by (rule establishes_first)

lemma total_after:
  assumes "establishes P Q m" "\<And>a. returns Q (f a)" "\<And>h. Q h \<Longrightarrow> P h"
  shows "returns P (seqA m f)"
  by (rule total_establishes [OF establishes_seqA [OF assms]])

subsection \<open>The phases of a run\<close>

text \<open>
  The conditions: the options of SSH are known, the application is not of Terraform, every vault with a password
  has its key, a key of an external storage belongs to a project, and the JSON of the environment is not \<^verbatim>\<open>null\<close>.
  After the inventory is installed, the agent of the user's key is there if the key is an SSH key.
\<close>

definition runnable :: "ExecEnv \<Rightarrow> RunningExecutor \<Rightarrow> bool" where
  "runnable x t \<longleftrightarrow>
     gitHostKeyCheckingOpts x \<noteq> None \<and>
     \<not> IsTerraform (Template_App (ex_Template t)) \<and>
     (\<forall>v \<in> set (Template_Vaults (ex_Template t)). TVault_Type v = ''password'' \<longrightarrow> TVault_Vault v \<noteq> None) \<and>
     (\<forall>k \<in> set (runKeys t). addressed k) \<and>
     x_UnmarshalMap x (Environment_JSON (ex_Environment t)) \<noteq> Some None"

definition needsAgent :: "RunningExecutor \<Rightarrow> bool" where
  "needsAgent t \<longleftrightarrow> Key_Type (Inventory_SSHKey (ex_Inventory t)) = ''ssh'' \<and> Inventory_SSHKeyID (ex_Inventory t) \<noteq> None"

definition ready :: "ExecEnv \<Rightarrow> bool \<Rightarrow> Host \<Rightarrow> bool" where
  "ready x installed h \<longleftrightarrow>
     runnable x (h_exec h) \<and> (installed \<longrightarrow> needsAgent (h_exec h) \<longrightarrow> Inst_Socket (ex_sshKey (h_exec h)) \<noteq> None)"

lemma ready_weaken: "ready x b h \<Longrightarrow> ready x False h"
  by (simp add: ready_def)

lemma returns_effect [total_intro]:
  "returns (ready x b) (perform e)" "returns (ready x b) (ignoring e)" "returns (ready x b) (performOut e)"
  "returns (ready x b) (setPrepared p)"
  by (auto simp: returns_def perform_def ignoring_def performOut_def setPrepared_def ready_def Let_def split: option.splits)

lemma returns_getExec:
  assumes "\<And>t. runnable x t \<Longrightarrow> returns (ready x b) (f t)"
  shows "returns (ready x b) (seqA getExec f)"
  using assms by (auto simp: returns_def seqA_def getExec_def ready_def)

lemma returns_modExec [total_intro]:
  assumes "\<And>t. ex_sshKey (f t) = ex_sshKey t \<and> ex_Template (f t) = ex_Template t \<and> ex_Inventory (f t) = ex_Inventory t \<and>
             ex_Environment (f t) = ex_Environment t \<and> runKeys (f t) = runKeys t"
  shows "returns (ready x b) (modExec f)"
  using assms by (auto simp: returns_def modExec_def ready_def runnable_def needsAgent_def)

lemma GetGitURL_defined: "GetGitURL secure r \<noteq> None"
  by (auto simp: GetGitURL_def GetType_def Let_def split: option.splits if_splits)

lemma GetGitEnv_defined: "gitHostKeyCheckingOpts x \<noteq> None \<Longrightarrow> GetGitEnv x inst \<noteq> None"
  by (auto simp: GetGitEnv_def split: option.splits)

lemma returns_KeyInstaller [total_intro]: "returns (ready x b) (KeyInstaller_Install x1 k usage)"
  by (auto simp: KeyInstaller_Install_def StartSSHAgent_def returns_def Let_def perform_def seqA_def return_def
      throw_def ready_def split: AccessKeyRole.splits option.splits if_splits)

lemma returns_Install: "addressed k \<Longrightarrow> returns (ready x b) (Install x1 k usage)"
proof -
  assume "addressed k"
  then have "returns (ready x b) (deserializeKey x1 k)"
    using DeserializeSecret_defined by (fastforce simp: returns_def deserializeKey_def)
  then show ?thesis by (auto simp: Install_def Service_Install_def intro!: total_intro)
qed

lemma returns_Destroy [total_intro]: "returns (ready x b) (Destroy inst)"
  by (auto simp: Destroy_def intro!: total_intro)

lemma returns_setStatus [total_intro]: "returns (ready x b) (setStatus s)"
  by (auto simp: setStatus_def intro!: total_intro)

lemma returns_git_run:
  assumes "gitHostKeyCheckingOpts x \<noteq> None" "addressed (Repository_SSHKey (git_Repository r))"
  shows "returns (ready x b) (git_run x r target args)" "returns (ready x b) (git_output x r target args)"
  by (auto simp: GetGitEnv_defined [OF assms(1)] git_run_def git_output_def git_makeCmd_def
      intro!: total_intro returns_Install [OF assms(2)] split: GitRepositoryDirType.split)

lemma returns_git:
  assumes "gitHostKeyCheckingOpts x \<noteq> None" "addressed (Repository_SSHKey (git_Repository r))"
  shows "returns (ready x b) (git_Clone x r)" "returns (ready x b) (git_Pull x r)"
    "returns (ready x b) (git_Checkout x r target)" "returns (ready x b) (git_CanBePulled x r)"
    "returns (ready x b) (git_GetLastCommitMessage x r)" "returns (ready x b) (git_GetLastCommitHash x r)"
    "returns (ready x b) (ValidateRepo x r)"
  by (auto simp: GetGitURL_defined git_Clone_def git_Pull_def git_Checkout_def git_CanBePulled_def git_GetLastCommitMessage_def
      git_GetLastCommitHash_def ValidateRepo_def intro!: total_intro returns_git_run [OF assms])

lemma returns_repo:
  assumes "gitHostKeyCheckingOpts x \<noteq> None" "addressed (Repository_SSHKey (git_Repository r))"
  shows "returns (ready x b) (repo_Clone x r)" "returns (ready x b) (repo_Pull x r)" "returns (ready x b) (cloneAfresh x r)"
    "returns (ready x b) (pullOrClone x r)"
  by (auto simp: repo_Clone_def repo_Pull_def cloneAfresh_def pullOrClone_def retry_def intro!: total_intro returns_git [OF assms])

lemma runnable_repo: "runnable x t \<Longrightarrow> addressed (Repository_SSHKey (git_Repository (executorRepo t)))"
  by (simp add: runnable_def executorRepo_def runKeys_member)

lemma runnable_inventoryRepo:
  "runnable x t \<Longrightarrow> Inventory_Repository (ex_Inventory t) = Some r \<Longrightarrow>
    addressed (Repository_SSHKey (git_Repository (inventoryRepo t r)))"
  by (simp add: runnable_def inventoryRepo_def runKeys_member)

lemma returns_updateRepository:
  assumes "gitHostKeyCheckingOpts x \<noteq> None"
  shows "returns (ready x b) (updateRepository x)" "returns (ready x b) (checkoutRepository x)"
proof -
  show "returns (ready x b) (updateRepository x)"
    unfolding updateRepository_def
    by (rule returns_getExec, drule runnable_repo) (auto intro!: total_intro returns_git [OF assms] returns_repo [OF assms])
  show "returns (ready x b) (checkoutRepository x)"
    unfolding checkoutRepository_def
    by (rule returns_getExec, drule runnable_repo) (auto simp: SetCommit_def intro!: total_intro returns_git [OF assms])
qed

lemma returns_locked:
  assumes "gitHostKeyCheckingOpts x \<noteq> None"
  shows "returns (ready x b) (updateAndCheckoutRepository x)" "returns (ready x b) (cloneInventoryRepo x)"
proof -
  show "returns (ready x b) (updateAndCheckoutRepository x)"
    by (auto simp: updateAndCheckoutRepository_def withLock_def intro!: total_intro returns_updateRepository [OF assms])
  show "returns (ready x b) (cloneInventoryRepo x)"
    unfolding cloneInventoryRepo_def withLock_def
    by (rule returns_getExec) (auto intro!: total_intro returns_repo [OF assms] dest: runnable_inventoryRepo)
qed

lemma returns_findRepository:
  assumes "gitHostKeyCheckingOpts x \<noteq> None"
  shows "returns (ready x b) (findRepository x)"
  by (auto simp: GetGitURL_defined findRepository_def intro!: total_intro returns_locked [OF assms])

lemma returns_makeDirectories: "returns (ready x b) (makeDirectories x)"
  by (auto simp: makeDirectories_def intro!: total_intro)

lemma returns_galaxy: "returns (ready x b) (installGalaxyRequirementsFile x1 env ty f)"
  by (auto simp: installGalaxyRequirementsFile_def hasRequirementsChanges_def writeMD5Hash_def getMD5Hash_def
      RunGalaxy_def intro!: total_intro)

lemma returns_InstallRequirements: "returns (ready x b) (InstallRequirements x env)"
  unfolding InstallRequirements_def
  by (rule returns_getExec)
    (auto simp: runnable_def ansible_InstallRequirements_def installCollectionsRequirements_def
      installRolesRequirements_def intro!: total_intro returns_galaxy)

lemma returns_vault:
  assumes "TVault_Type v = ''password'' \<longrightarrow> TVault_Vault v \<noteq> None" "\<And>k. TVault_Vault v = Some k \<Longrightarrow> addressed k"
  shows "returns (ready x b) (installVault x v)"
proof (cases "TVault_Type v = ''password''")
  case True
  then obtain k where k: "TVault_Vault v = Some k" using assms(1) by auto
  then show ?thesis
    using True returns_Install [OF assms(2) [OF k]] unfolding installVault_def by (auto intro!: total_intro)
next
  case False
  then show ?thesis unfolding installVault_def by (auto intro!: total_intro)
qed

lemma returns_vaults: "returns (ready x b) (installVaultKeyFiles x)"
  unfolding installVaultKeyFiles_def
  by (intro total_bothA returns_modExec returns_getExec total_eachA returns_vault)
    (auto simp: runnable_def dest: runKeys_member(5))

text \<open>Installing the inventory makes the agent available.\<close>

lemma Install_agent:
  assumes "Install x k RoleAnsibleUser h = Some (Inr inst, h')" and "Key_Type k = ''ssh''"
  shows "Inst_Socket inst \<noteq> None"
proof -
  have "\<not> (Install x k RoleAnsibleUser h = Some (Inr noInstallation, h))"
    using assms(2)
    by (auto simp: Install_def Service_Install_def KeyInstaller_Install_def StartSSHAgent_def deserializeKey_def Let_def
        seqA_def perform_def return_def noInstallation_def
        dest!: DeserializeSecret_type split: option.splits sum.splits prod.splits if_splits)
  with assms show ?thesis
    by (auto elim!: Install_elim simp: KeyInstaller_Install_def StartSSHAgent_def Let_def seqA_def perform_def
        return_def split: option.splits)
qed

lemma Install_exec: "Install x k usage h = Some (r, h1) \<Longrightarrow> h_exec h1 = h_exec h"
  by (erule Install_elim)
    (auto simp: KeyInstaller_Install_def StartSSHAgent_def Let_def seqA_def perform_def return_def throw_def
      split: AccessKeyRole.splits option.splits if_splits)

lemma bothA_Inr: "m h = Some (Inr a, h1) \<Longrightarrow> bothA m m1 h = m1 h1"
  by (simp add: bothA_def seqA_def)

lemma establishes_userKey:
  "establishes (ready x False) (ready x True)
     (seqA getExec (\<lambda>t. bothA (whenA (Inventory_SSHKeyID (ex_Inventory t) \<noteq> None)
        (installInto x (Inventory_SSHKey (ex_Inventory t)) RoleAnsibleUser (\<lambda>i e. e\<lparr>ex_sshKey := i\<rparr>))) (rest t)))"
  if rest: "\<And>t. runnable x t \<Longrightarrow> returns (ready x True) (rest t)"
  unfolding establishes_def
proof (intro allI impI)
  fix h
  assume h: "ready x False h"
  let ?v = "ex_Inventory (h_exec h)"
  let ?key = "whenA (Inventory_SSHKeyID ?v \<noteq> None)
        (installInto x (Inventory_SSHKey ?v) RoleAnsibleUser (\<lambda>i e. e\<lparr>ex_sshKey := i\<rparr>))"
  let ?m = "seqA getExec (\<lambda>t. bothA (whenA (Inventory_SSHKeyID (ex_Inventory t) \<noteq> None)
        (installInto x (Inventory_SSHKey (ex_Inventory t)) RoleAnsibleUser (\<lambda>i e. e\<lparr>ex_sshKey := i\<rparr>))) (rest t))"
  have whole: "?m h = bothA ?key (rest (h_exec h)) h" by (simp add: seqA_def getExec_def)
  have finish: "\<exists>r h'. ?m h = Some (r, h') \<and> ready x False h' \<and> ((\<exists>a. r = Inr a) \<longrightarrow> ready x True h')"
    if k: "?key h = Some (Inr (), h1)" "ready x True h1" for h1
  proof -
    obtain r h' where "rest (h_exec h) h1 = Some (r, h')" "ready x True h'" using totalE [OF rest k(2)] h by (metis ready_def)
    moreover have "?m h = rest (h_exec h) h1" by (rule trans [OF whole bothA_Inr [where m = ?key, OF k(1)]])
    ultimately have "?m h = Some (r, h') \<and> ready x False h' \<and> ready x True h'"
      using ready_weaken by simp
    then show ?thesis by blast
  qed
  let ?goal = "\<lambda>r h'. ?m h = Some (r, h') \<and> ready x False h' \<and> ((\<exists>a. r = Inr a) \<longrightarrow> ready x True h')"
  show "\<exists>r h'. ?goal r h'"
  proof (cases "Inventory_SSHKeyID ?v")
    case None
    then have "?key h = Some (Inr (), h)" "ready x True h"
      using h by (simp_all add: whenA_def return_def ready_def needsAgent_def)
    then show ?thesis by (rule finish)
  next
    case (Some i)
    obtain r1 h1 where i: "Install x (Inventory_SSHKey ?v) RoleAnsibleUser h = Some (r1, h1)" "ready x False h1"
      using totalE [OF returns_Install h] h by (metis ready_def runnable_def runKeys_member(1))
    have same: "h_exec h1 = h_exec h" by (rule Install_exec [OF i(1)])
    have run: "runnable x ((h_exec h)\<lparr>ex_sshKey := k\<rparr>)" "needsAgent ((h_exec h)\<lparr>ex_sshKey := k\<rparr>) = needsAgent (h_exec h)" for k
      using h by (simp_all add: ready_def runnable_def needsAgent_def)
    show ?thesis
    proof (cases r1)
      case (Inl err)
      then have "?goal (Inl err) (h1\<lparr>h_exec := (h_exec h1)\<lparr>ex_sshKey := noInstallation\<rparr>\<rparr>)"
        using Some i run by (simp add: seqA_def getExec_def whenA_def installInto_def tryA_def bothA_def modExec_def
            throw_def ready_def same)
      then show ?thesis by blast
    next
      case (Inr inst)
      have "needsAgent (h_exec h) \<Longrightarrow> Inst_Socket inst \<noteq> None"
        using Install_agent [OF i(1) [unfolded Inr]] by (auto simp: needsAgent_def ready_def runnable_def)
      then have "?key h = Some (Inr (), h1\<lparr>h_exec := (h_exec h1)\<lparr>ex_sshKey := inst\<rparr>\<rparr>)"
        "ready x True (h1\<lparr>h_exec := (h_exec h1)\<lparr>ex_sshKey := inst\<rparr>\<rparr>)"
        using Some i run Inr by (simp_all add: seqA_def whenA_def installInto_def tryA_def modExec_def ready_def same)
      then show ?thesis by (rule finish)
    qed
  qed
qed

lemma returns_becomeKey:
  "addressed k \<Longrightarrow> returns (ready x b) (installInto x k RoleAnsibleBecomeUser (\<lambda>i e. e\<lparr>ex_becomeKey := i\<rparr>))"
  by (auto simp: installInto_def intro!: total_intro returns_Install)

lemma establishes_installInventory:
  assumes "gitHostKeyCheckingOpts x \<noteq> None"
  shows "establishes (ready x False) (ready x True) (installInventory x)"
  unfolding installInventory_def Let_def
proof (rule establishes_userKey)
  fix t
  assume "runnable x t"
  then have "addressed (Inventory_BecomeKey (ex_Inventory t))" by (simp add: runnable_def runKeys_member)
  then show "returns (ready x True)
     (bothA (whenA (Inventory_BecomeKeyID (ex_Inventory t) \<noteq> None)
        (installInto x (Inventory_BecomeKey (ex_Inventory t)) RoleAnsibleBecomeUser (\<lambda>i e. e\<lparr>ex_becomeKey := i\<rparr>)))
       (if Inventory_Type (ex_Inventory t) = InventoryFile then cloneInventoryRepo x
        else if IsStatic (Inventory_Type (ex_Inventory t)) then installStaticInventory x else return ()))"
    by (intro total_intro returns_becomeKey returns_locked assms) (auto simp: installStaticInventory_def intro!: total_intro)
qed

subsection \<open>Variables\<close>

text \<open>The variables can be read when the JSON of the environment is not \<^verbatim>\<open>null\<close>.\<close>

lemma readVars_defined:
  "x_UnmarshalMap x env \<noteq> Some None \<Longrightarrow> \<exists>r. readVars x env secret = Some r \<and> r \<noteq> Inr None"
  by (auto simp: readVars_def copyInto_def split: option.splits if_splits)

lemma extraVars_defined:
  "runnable x t \<Longrightarrow> getEnvironmentExtraVars x t u iv \<noteq> None"
  using readVars_defined [of x "Environment_JSON (ex_Environment t)" "ex_Secret t"]
  by (auto simp: getEnvironmentExtraVars_def runnable_def split: option.splits sum.splits)

lemma surveyVars_defined: "runnable x t \<Longrightarrow> getSurveyEnvVars x t \<noteq> None"
  using readVars_defined [of x "Environment_JSON (ex_Environment t)" "ex_Secret t"]
  by (auto simp: getSurveyEnvVars_def runnable_def)

lemma shellArgs_defined: "runnable x t \<Longrightarrow> getShellArgs x t u iv \<noteq> None"
  using extraVars_defined [of x t u iv] by (auto simp: getShellArgs_def split: option.splits sum.splits prod.splits)

lemma playbookArgs_defined: "runnable x t \<Longrightarrow> getPlaybookArgs x t u iv \<noteq> None"
  using extraVars_defined [of x t u iv]
  by (auto simp: getPlaybookArgs_def getEnvironmentExtraVarsJSON_def Let_def split: option.splits sum.splits prod.splits)

subsection \<open>The run\<close>

lemma establishes_prepareRun:
  assumes "gitHostKeyCheckingOpts x \<noteq> None"
  shows "establishes (ready x False) (ready x True) (prepareRun x env)"
  unfolding prepareRun_def prepareSteps_def
  by (intro establishes_first_bothA returns_makeDirectories returns_modExec returns_findRepository assms
      establishes_bothA establishes_installInventory total_bothA returns_InstallRequirements returns_vaults ready_weaken)
    (simp_all add: resolveBranch_def)

lemma returns_ansibleArgs:
  "returns (ready x True) (seqA getExec (\<lambda>t1.
     if Template_App (ex_Template t1) = AppAnsible
     then seqA (liftOpt (getPlaybookArgs x t1 u iv)) (\<lambda>(args, inputs). return ([(''default'', args)], inputs))
     else seqA (liftOpt (getShellArgs x t1 u iv)) (\<lambda>args. return ([(''default'', args)], []))))"
  by (rule returns_getExec) (auto intro!: total_intro dest: shellArgs_defined playbookArgs_defined)

text \<open>The application is known from the start, so the branch of Terraform is never taken.\<close>

lemma establishes_getExec:
  assumes "\<And>t. runnable x t \<Longrightarrow> establishes (ready x False) Q (f t)"
  shows "establishes (ready x False) Q (seqA getExec f)"
  using assms by (auto simp: establishes_def seqA_def getExec_def ready_def)

lemma establishes_prepareArgs:
  assumes "gitHostKeyCheckingOpts x \<noteq> None"
  shows "establishes (ready x False) (ready x True) (prepareArgs x env u iv)"
  unfolding prepareArgs_def
proof (rule establishes_getExec)
  fix t assume "runnable x t"
  then have "\<not> IsTerraform (Template_App (ex_Template t))" by (simp add: runnable_def)
  then show "establishes (ready x False) (ready x True)
     (if IsTerraform (Template_App (ex_Template t))
      then seqA (liftOpt (getTerraformArgs x t u iv)) (\<lambda>argsMap.
             bothA (prepareRunTerraform x env (stageArgs argsMap ''init'')) (return (argsMap, [])))
      else bothA (prepareRun x env) (seqA getExec (\<lambda>t1.
             if Template_App (ex_Template t1) = AppAnsible
             then seqA (liftOpt (getPlaybookArgs x t1 u iv)) (\<lambda>(args, inputs). return ([(''default'', args)], inputs))
             else seqA (liftOpt (getShellArgs x t1 u iv)) (\<lambda>args. return ([(''default'', args)], [])))))"
    using establishes_bothA [OF establishes_prepareRun [OF assms] returns_ansibleArgs ready_weaken] by simp
qed

definition prepared :: "ExecEnv \<Rightarrow> Host \<Rightarrow> bool" where
  "prepared x h \<longleftrightarrow> ready x False h \<and> h_prepared h \<noteq> None"

lemma establishes_finish:
  "establishes (ready x True) (prepared x) (seqA getExec (\<lambda>t1.
     case finalEnv x t1 u iv of None \<Rightarrow> panicA | Some env2 \<Rightarrow> setPrepared (p env2)))"
proof -
  have "\<exists>r h'. (case finalEnv x (h_exec h) u iv of None \<Rightarrow> panicA | Some env2 \<Rightarrow> setPrepared (p env2)) h = Some (r, h') \<and>
               ready x True h' \<and> prepared x h'" if "ready x True h" for h
    using that
    by (cases "Inst_Socket (ex_sshKey (h_exec h))")
      (auto simp: finalEnv_def Let_def ready_def needsAgent_def setPrepared_def prepared_def)
  then show ?thesis by (fastforce simp: establishes_def seqA_def getExec_def)
qed

lemma establishes_then:
  assumes m: "establishes P R m" and f: "\<And>a. establishes R Q (f a)" and RP: "\<And>h. R h \<Longrightarrow> P h"
  shows "establishes P Q (seqA m f)"
proof -
  have "\<exists>r h'. seqA m f h = Some (r, h') \<and> P h' \<and> ((\<exists>a. r = Inr a) \<longrightarrow> Q h')" if h: "P h" for h
  proof -
    obtain s h1 where s: "m h = Some (s, h1)" "P h1" "(\<exists>a. s = Inr a) \<longrightarrow> R h1" using m h unfolding establishes_def by blast
    show ?thesis
    proof (cases s)
      case (Inl err) then show ?thesis using s by (simp add: seqA_def)
    next
      case (Inr a)
      then obtain r h' where "f a h1 = Some (r, h')" "R h'" "(\<exists>b. r = Inr b) \<longrightarrow> Q h'"
        using s f unfolding establishes_def by blast
      then show ?thesis using s Inr RP by (simp add: seqA_def)
    qed
  qed
  then show ?thesis unfolding establishes_def by blast
qed

lemma establishes_case_prod: "(\<And>a b. establishes P Q (f a b)) \<Longrightarrow> establishes P Q (case z of (a, b) \<Rightarrow> f a b)"
  by (cases z) auto

lemma returns_params:
  "returns (ready x b) (getTemplateParams tpl)" "returns (ready x b) (getParams tpl task)" "returns (ready x b) checkPlaybooks"
  by (auto simp: getTemplateParams_def getParams_def checkPlaybooks_def intro!: total_intro)

lemma establishes_Prepare:
  assumes "gitHostKeyCheckingOpts x \<noteq> None"
  shows "establishes (ready x False) (prepared x) (Prepare x u iv al)"
proof -
  have steps: "establishes (ready x False) (prepared x)
      (seqA (prepareArgs x env u iv) (\<lambda>(argsMap, inputs). seqA getExec (\<lambda>t1.
         case finalEnv x t1 u iv of None \<Rightarrow> panicA
         | Some env2 \<Rightarrow> setPrepared \<lparr>prep_Env = env @ env2, prep_Args = argsMap, prep_Inputs = inputs\<rparr>)))" for env
    by (intro establishes_then [OF establishes_prepareArgs [OF assms]] establishes_case_prod establishes_finish ready_weaken)
  have "\<exists>r h'. Prepare x u iv al h = Some (r, h') \<and> ready x False h' \<and> ((\<exists>a. r = Inr a) \<longrightarrow> prepared x h')"
    if h: "ready x False h" for h
  proof (cases "h_prepared h")
    case (Some p)
    then have "Prepare x u iv al h = Some (Inr (), h)"
      by (simp add: Prepare_def seqA_def [of getPrepared] getPrepared_def return_def)
    then show ?thesis using h Some by (auto simp: prepared_def)
  next
    case None
    have "establishes (ready x False) (prepared x) (prepareOnce x u iv al)"
      unfolding prepareOnce_def Let_def
      apply (rule establishes_first_bothA [OF returns_setStatus], rule establishes_first_bothA [OF returns_params(3)])
      apply (rule establishes_getExec, rule establishes_first [OF total_pure(3)])
      apply (rule establishes_first [OF total_liftOpt], erule surveyVars_defined)
      apply (rule establishes_first_bothA [OF returns_params(1)], rule establishes_first_bothA [OF returns_params(2)])
      apply (rule steps)
      done
    moreover have "Prepare x u iv al h = prepareOnce x u iv al h"
      using None by (simp add: Prepare_def seqA_def getPrepared_def)
    ultimately show ?thesis using h unfolding establishes_def by simp
  qed
  then show ?thesis unfolding establishes_def by blast
qed

lemma returns_app_Run: "returns (ready x b) (app_Run x1 p)"
  unfolding app_Run_def
  by (rule returns_getExec)
    (auto simp: runnable_def ansible_Run_def RunPlaybook_def shell_Run_def intro!: total_intro)

lemma returns_Cleanup: "returns (ready x b) (Cleanup x1)"
  unfolding Cleanup_def destroyKeys_def destroyInventoryFile_def app_Clear_def
  by (intro total_bothA total_seqA returns_getExec) (auto simp: runnable_def intro!: total_intro)

lemma Run_returns_ready:
  assumes "ready x False h"
  shows "\<exists>r h'. executor_Run x u iv al h = Some (r, h') \<and> ready x False h'"
proof -
  let ?rest = "seqA getKilled (\<lambda>killed. if killed then setStatus TaskStoppedStatus
                 else seqA getPrepared (\<lambda>p. case p of None \<Rightarrow> panicA | Some prep \<Rightarrow> app_Run x prep))"
  have opts: "gitHostKeyCheckingOpts x \<noteq> None" using assms by (simp add: ready_def runnable_def)
  have rest: "\<exists>r h2. ?rest h1 = Some (r, h2) \<and> ready x False h2" if h1: "prepared x h1" for h1
  proof -
    obtain p where p: "h_prepared h1 = Some p" and h: "ready x False h1" using h1 by (auto simp: prepared_def)
    show ?thesis
    proof (cases "h_killed h1 (h_trace h1)")
      case True
      then show ?thesis using totalE [OF returns_setStatus h] by (simp add: seqA_def getKilled_def) metis
    next
      case False
      then show ?thesis using totalE [OF returns_app_Run h] p by (simp add: seqA_def getKilled_def getPrepared_def) metis
    qed
  qed
  have "\<exists>r h'. bothA (Prepare x u iv al) ?rest h = Some (r, h') \<and> ready x False h'"
  proof -
    obtain s h1 where s: "Prepare x u iv al h = Some (s, h1)" "ready x False h1" "(\<exists>a. s = Inr a) \<longrightarrow> prepared x h1"
      using establishes_Prepare [OF opts] assms unfolding establishes_def by blast
    show ?thesis
    proof (cases s)
      case (Inl err) then show ?thesis using s by (simp add: bothA_def seqA_def [of "Prepare x u iv al"])
    next
      case (Inr a)
      then have "bothA (Prepare x u iv al) ?rest h = ?rest h1" using s by (simp add: bothA_Inr [where m = "Prepare x u iv al"])
      then show ?thesis using rest s(3) Inr by simp
    qed
  qed
  then obtain r h1 where r: "bothA (Prepare x u iv al) ?rest h = Some (r, h1)" "ready x False h1" by blast
  obtain c h2 where c: "Cleanup x h1 = Some (c, h2)" "ready x False h2" using totalE [OF returns_Cleanup r(2)] by metis
  show ?thesis
    unfolding executor_Run_def using r c by (simp add: deferA_def [of "Cleanup x"])
qed

end
