(* ===== verification/Executor_Sample.thy ===== *)
theory Executor_Sample
  imports Executor_Run
begin

text \<open>
  A small concrete machine for the witnesses: an Ansible template with a repository that is reached over SSH
  and a static inventory whose user has an SSH key. Commands never fail, the files of requirements do not
  exist, and the codec of JSON knows a few documents.
\<close>

definition sampleMap :: "string \<Rightarrow> MapStringAny option option" where
  "sampleMap s = (if s = ''E'' then Some (Some [(''region'', JString ''eu''), (''size'', JNumber 3)]) else Some (Some []))"

definition sampleStrMap :: "string \<Rightarrow> (string \<times> string) list option" where
  "sampleStrMap s = Some []"

definition sampleStrings :: "string \<Rightarrow> string list option" where
  "sampleStrings s = (if s = ''A'' then Some [''-v''] else if s = ''I'' then None else Some [])"

definition sampleStages :: "string \<Rightarrow> (string \<times> string list) list option" where
  "sampleStages s = (if s = ''I'' then Some [(''init'', [''-lock=true''])] else None)"

definition sampleMarshal :: "json \<Rightarrow> string" where
  "sampleMarshal j = ''{}''"

definition samplePrintable :: "nat \<Rightarrow> bool" where
  "samplePrintable c \<longleftrightarrow> 0x20 \<le> c"

definition sampleMd5 :: "string \<Rightarrow> string" where
  "sampleMd5 s = ''d41d''"

definition sampleAppPath :: "string \<Rightarrow> string" where
  "sampleAppPath s = []"

definition sampleAppArgs :: "string \<Rightarrow> string list option" where
  "sampleAppArgs s = None"

definition sampleGetenv :: "string \<Rightarrow> string" where
  "sampleGetenv n =
     (if n = ''PATH'' then ''/bin'' else if n = ''HOME'' then ''/root''
      else if n = ''ALDIS_DB_PASS'' then ''secret'' else [])"

definition sampleExecKeys :: KeyEnv where
  "sampleExecKeys =
     \<lparr>ke_lib = sampleLib, ke_conf = sampleKeyConfig, ke_nonce = replicate 12 CHR ''n'', ke_getenv = sampleGetenv,
      ke_readFile = (\<lambda>_. Inl ErrNotFound), ke_secretsPath = ''/run/secrets'',
      ke_marshalSsh = Ssh_PrivateKey,
      ke_unmarshalSsh = (\<lambda>s. Inr \<lparr>Ssh_Login = [], Ssh_Passphrase = [], Ssh_PrivateKey = s\<rparr>),
      ke_marshalLogin = LP_Password,
      ke_unmarshalLogin = (\<lambda>s. Inr \<lparr>LP_Login = [], LP_Password = s\<rparr>)\<rparr>"

definition sampleExecKeyDb :: "exec_effect list \<Rightarrow> KeyDb" where
  "sampleExecKeyDb es =
     \<lparr>tbl_access_key = [], tbl_secret_storage = [], tbl_project_id = [1], tbl_task_row = [], next_key_id = 1,
      key_fault = False, key_collation = id, key_rank = (\<lambda>_ _. 0)\<rparr>"

definition sampleExecTime :: "exec_effect list \<Rightarrow> go_time" where
  "sampleExecTime es = int (length es)"

definition sampleExecEnv :: ExecEnv where
  "sampleExecEnv =
     \<lparr>x_UnmarshalMap = sampleMap, x_UnmarshalStrMap = sampleStrMap, x_UnmarshalStrings = sampleStrings,
      x_UnmarshalStages = sampleStages, x_Marshal = sampleMarshal, x_isPrint = samplePrintable, x_md5 = sampleMd5,
      x_WebHost = [], x_Port = '':3000'', x_TmpPath = ''/tmp/aldis'', x_HomeDirMode = ''template_dir'',
      x_GitAttempts = 3, x_AppPath = sampleAppPath, x_AppArgs = sampleAppArgs, x_getenv = sampleGetenv,
      x_ForwardedEnvVars = [''LANG''], x_EnvVars = [], x_StrictHostKeyChecking = ''no'', x_KnownHostsFile = [],
      x_SshConfigPath = [], x_OnRunner = True, x_keys = sampleExecKeys\<rparr>"

definition execKey :: AccessKey where
  "execKey = zeroAccessKey\<lparr>Key_ID := 3, Key_Type := ''ssh'', Key_ProjectID := Some 1\<rparr>"

definition execTemplate :: Template where
  "execTemplate = zeroTemplate\<lparr>Template_ID := 10, Template_ProjectID := 1, Template_RepositoryID := 5,
     Template_App := AppAnsible, Template_Playbook := ''site.yml'',
     Template_TaskParams := Some [(''skip_galaxy_install'', JBool True)]\<rparr>"

definition execRepository :: Repository where
  "execRepository = zeroRepository\<lparr>Repository_ID := 5, Repository_ProjectID := 1,
     Repository_GitURL := ''git@host:r.git'', Repository_GitBranch := ''main'', Repository_SSHKey := execKey\<rparr>"

definition execInventory :: Inventory where
  "execInventory = zeroInventory\<lparr>Inventory_ID := 4, Inventory_Type := ''static'', Inventory_Inventory := ''localhost'',
     Inventory_SSHKeyID := Some 3, Inventory_SSHKey := execKey\<rparr>"

definition execTask :: Task where
  "execTask = zeroTask\<lparr>Task_ID := 1, Task_TemplateID := 10, Task_ProjectID := 1\<rparr>"

definition execExecutor :: RunningExecutor where
  "execExecutor =
     \<lparr>ex_Task = execTask, ex_Template = execTemplate, ex_Inventory = execInventory, ex_Repository = execRepository,
      ex_Environment = \<lparr>Environment_ID = 0, Environment_Name = [], Environment_ProjectID = 1, Environment_JSON = [],
        Environment_ENV = None, Environment_Secrets = []\<rparr>,
      ex_Secret = [], ex_JWT = [], ex_killed = False,
      ex_sshKey = noInstallation, ex_becomeKey = noInstallation, ex_vaultFiles = []\<rparr>"

definition isRequirements :: "string \<Rightarrow> bool" where
  "isRequirements p \<longleftrightarrow> rev (take 16 (rev p)) = ''requirements.yml''"

definition sampleFails :: "exec_effect list \<Rightarrow> exec_effect \<Rightarrow> go_error option" where
  "sampleFails es e = (case e of StatPath p \<Rightarrow> if isRequirements p then Some ErrNotExist else None | _ \<Rightarrow> None)"

definition sampleOutput :: "exec_effect list \<Rightarrow> exec_effect \<Rightarrow> string" where
  "sampleOutput es e = ''abc''"

definition sampleStatus :: "exec_effect list \<Rightarrow> TaskStatus" where
  "sampleStatus es = TaskConfirmed"

definition sampleKilled :: "exec_effect list \<Rightarrow> bool" where
  "sampleKilled es = False"

definition execHost :: Host where
  "execHost =
     \<lparr>h_exec = execExecutor, h_prepared = None, h_backend = [], h_noChanges = False, h_trace = [],
      h_fails = sampleFails, h_output = sampleOutput, h_random = natDigits,
      h_status = sampleStatus, h_killed = sampleKilled, h_now = sampleExecTime, h_keyDb = sampleExecKeyDb\<rparr>"

end
