(* ===== verification/Executor_Resources.thy ===== *)
theory Executor_Resources
  imports Executor_Logic Executor_Total Executor_Sample
begin

text \<open>
  The two resources that a run of the local executor takes: the locks of the working copies and the key
  agents. Both are interpretations of \<open>steady_state\<close>.
\<close>

subsection \<open>Locks\<close>

text \<open>
  The automaton of the lock: \<open>Some (Some k)\<close> when the lock of the directory \<open>k\<close> is held, \<open>Some None\<close> when no lock is held
  and \<open>None\<close> after a violation: a second lock is taken while one is held, a lock is released that is not held, or a
  command of the git client works outside the directory whose lock is held.
\<close>

definition lockStep :: "string option option \<Rightarrow> exec_effect \<Rightarrow> string option option" where
  "lockStep st e =
     (case st of
        None \<Rightarrow> None
      | Some held \<Rightarrow>
          (case e of
             LockRepo k \<Rightarrow> if held = None then Some (Some k) else None
           | UnlockRepo k \<Rightarrow> if held = Some k then Some None else None
           | Git c \<Rightarrow> (case held of None \<Rightarrow> None | Some k \<Rightarrow> if worksIn k c then Some held else None)
           | _ \<Rightarrow> Some held))"

definition lockState :: "exec_effect list \<Rightarrow> string option option" where
  "lockState es = foldl lockStep (Some None) es"

lemma lockState_snoc: "lockState (es @ [e]) = lockStep (lockState es) e"
  by (simp add: lockState_def)

interpretation locks: steady_state
  "\<lambda>v h. lockState (h_trace h) = Some v" "\<lambda>v. v = None" "\<lambda>_. True"
  "\<lambda>v c. case v of None \<Rightarrow> False | Some k \<Rightarrow> worksIn k c" "\<lambda>k _. Some k" "\<lambda>_ v. v" "\<lambda>v. v" "\<lambda>v. v"
proof (unfold_locales, goal_cases)
  case (5 v h e)
  then show ?case by (cases e) (simp_all add: addEffect_def lockState_snoc lockStep_def)
qed (auto simp: addEffect_def lockState_snoc lockStep_def split: option.splits)

text \<open>C6. The git commands of a run are disciplined: starting without a lock, a run of the local executor, however its
  commands fail, takes one repository lock at a time, runs every command of the git client inside the directory
  whose lock it holds (or clones into it), and has released every lock when it returns. So runs that share the locks
  cannot deadlock on them.\<close>
theorem Run_lock_discipline:
  assumes "executor_Run x username incomingVersion taskAlias h = Some (r, h')" and "lockState (h_trace h) = Some None"
  shows "lockState (h_trace h') = Some None"
  using locks.Run_invariant [OF _ _ assms(2,1)] by simp

lemma sample_ready: "ready sampleExecEnv False execHost"
  by (simp add: ready_def runnable_def gitHostKeyCheckingOpts_def sampleExecEnv_def execHost_def execExecutor_def
      execTemplate_def zeroTemplate_def IsTerraform_def sampleMap_def runKeys_def addressed_def execInventory_def
      zeroInventory_def execRepository_def execKey_def zeroAccessKey_def)

theorem Run_lock_discipline_witness:
  "\<exists>r h'. executor_Run sampleExecEnv ''admin'' None [] execHost = Some (r, h') \<and> lockState (h_trace h') = Some None"
proof -
  obtain r h' where run: "executor_Run sampleExecEnv ''admin'' None [] execHost = Some (r, h')"
    using Run_returns_ready [OF sample_ready] by blast
  have "lockState (h_trace execHost) = Some None" by (simp add: execHost_def lockState_def)
  then show ?thesis using Run_lock_discipline [OF run] run by blast
qed

subsection \<open>Key agents\<close>

text \<open>The agents that were started without failure and are not closed.\<close>

fun agentsFrom ::
  "(exec_effect list \<Rightarrow> exec_effect \<Rightarrow> go_error option) \<Rightarrow> exec_effect list \<Rightarrow> exec_effect list \<Rightarrow> string set \<Rightarrow> string set" where
  "agentsFrom fails before [] open = open"
| "agentsFrom fails before (e # es) open =
     agentsFrom fails (before @ [e]) es
       (case e of
          StartAgent s \<Rightarrow> if fails before e = None then insert s open else open
        | CloseAgent s \<Rightarrow> open - {s}
        | _ \<Rightarrow> open)"

definition openAgents :: "Host \<Rightarrow> string set" where
  "openAgents h = agentsFrom (h_fails h) [] (h_trace h) {}"

lemma agentsFrom_snoc:
  "agentsFrom fails before (es @ [e]) open =
     (case e of
        StartAgent s \<Rightarrow>
          if fails (before @ es) e = None then insert s (agentsFrom fails before es open) else agentsFrom fails before es open
      | CloseAgent s \<Rightarrow> agentsFrom fails before es open - {s}
      | _ \<Rightarrow> agentsFrom fails before es open)"
  by (induction es arbitrary: before "open") (auto split: exec_effect.splits)

lemma openAgents_addEffect:
  "openAgents (addEffect e h) =
     (case e of
        StartAgent s \<Rightarrow> if h_fails h (h_trace h) e = None then insert s (openAgents h) else openAgents h
      | CloseAgent s \<Rightarrow> openAgents h - {s}
      | _ \<Rightarrow> openAgents h)"
  by (simp add: openAgents_def addEffect_def agentsFrom_snoc split: exec_effect.split)

text \<open>The user's key is not yet installed, installed, or destroyed.\<close>

datatype keyPhase = KeyAbsent | KeyHeld | KeyGone

definition heldAgent :: "Host \<Rightarrow> string set" where
  "heldAgent h = set_option (Inst_Socket (ex_sshKey (h_exec h)))"

definition agentsWithin :: "string set \<times> keyPhase \<Rightarrow> Host \<Rightarrow> bool" where
  "agentsWithin v h =
     (case snd v of
        KeyAbsent \<Rightarrow> openAgents h \<subseteq> fst v \<and> heldAgent h = {}
      | KeyHeld \<Rightarrow> openAgents h \<subseteq> fst v \<union> heldAgent h
      | KeyGone \<Rightarrow> openAgents h \<subseteq> fst v)"

lemma openAgents_fields:
  "openAgents (h\<lparr>h_exec := t\<rparr>) = openAgents h" "openAgents (h\<lparr>h_backend := b\<rparr>) = openAgents h"
  "openAgents (h\<lparr>h_noChanges := c\<rparr>) = openAgents h" "openAgents (h\<lparr>h_prepared := q\<rparr>) = openAgents h"
  by (simp_all add: openAgents_def)

lemma heldAgent_fields:
  "heldAgent (h\<lparr>h_exec := t\<rparr>) = set_option (Inst_Socket (ex_sshKey t))" "heldAgent (h\<lparr>h_backend := b\<rparr>) = heldAgent h"
  "heldAgent (h\<lparr>h_noChanges := c\<rparr>) = heldAgent h" "heldAgent (h\<lparr>h_prepared := q\<rparr>) = heldAgent h"
  "heldAgent (addEffect e h) = heldAgent h"
  by (simp_all add: heldAgent_def addEffect_def)

lemma exec_addEffect: "h_exec (addEffect e h) = h_exec h"
  by (simp add: addEffect_def)

lemmas agent_simps = exec_addEffect agentsWithin_def openAgents_fields heldAgent_fields openAgents_addEffect

interpretation agents: steady_state
  agentsWithin "\<lambda>_. True" "\<lambda>v. snd v = KeyAbsent" "\<lambda>_ _. True" "\<lambda>_ v. v" "\<lambda>s v. (insert s (fst v), snd v)"
  "\<lambda>v. (fst v, KeyHeld)" "\<lambda>v. (fst v, KeyGone)"
proof (unfold_locales, goal_cases)
  case (5 v h e)
  then show ?case by (cases e; cases "snd v") (auto simp: agent_simps)
next
  case (1 t h v)
  then show ?case by (cases "snd v") (auto simp: agent_simps heldAgent_def)
qed (auto simp: agent_simps heldAgent_def split: keyPhase.splits)

text \<open>C26. No key agent outlives the run: however its commands fail, and whether it returns a value or an error, a run
  of the local executor that starts without an installed user key has closed every SSH agent it has started.\<close>
theorem Run_closes_agents:
  assumes "executor_Run x username incomingVersion taskAlias h = Some (r, h')"
    and "Inst_Socket (ex_sshKey (h_exec h)) = None"
  shows "openAgents h' \<subseteq> openAgents h"
  using agents.Run_invariant [of "(openAgents h, KeyAbsent)", OF _ _ _ assms(1)] assms(2)
  by (simp add: agentsWithin_def heldAgent_def)

theorem Run_closes_agents_witness:
  "\<exists>r h'. executor_Run sampleExecEnv ''admin'' None [] execHost = Some (r, h') \<and> openAgents h' = {}"
proof -
  obtain r h' where run: "executor_Run sampleExecEnv ''admin'' None [] execHost = Some (r, h')"
    using Run_returns_ready [OF sample_ready] by blast
  have "Inst_Socket (ex_sshKey (h_exec execHost)) = None" "openAgents execHost = {}"
    by (simp_all add: execHost_def execExecutor_def noInstallation_def openAgents_def)
  then show ?thesis using Run_closes_agents [OF run] run by auto
qed

text \<open>C25. A run of Ansible or of a script always returns: for every machine, every task and every sequence of failures,
  the run ends with success or with an error and never panics, provided that the option for SSH host keys is one
  of the three known ones, every vault with a password has its key, every key that is kept in an external storage belongs to a project, and
  the JSON of the environment is not \<^verbatim>\<open>null\<close>.\<close>
theorem Run_returns:
  assumes "runnable x (h_exec h)"
  shows "\<exists>r h'. executor_Run x username incomingVersion taskAlias h = Some (r, h')"
  using Run_returns_ready [of x h username incomingVersion taskAlias] assms by (auto simp: ready_def)

theorem Run_returns_witness:
  "\<exists>r h'. executor_Run sampleExecEnv ''admin'' None [] execHost = Some (r, h')"
  by (rule Run_returns) (use sample_ready in \<open>simp add: ready_def\<close>)

end
