(* ===== verification/Executor_Views.thy ===== *)
theory Executor_Views
  imports Executor_Resources
begin

text \<open>
  Overrides of a task that its template does not permit. The locale \<open>executor_view\<close> states when a change of the
  task cannot be noticed by the code that computes arguments and parameters; then a whole run on the changed
  task makes the same effects. It is interpreted for the arguments and the branch of a task.
\<close>

subsection \<open>Actions that commute with a view\<close>

definition onExec :: "(RunningExecutor \<Rightarrow> RunningExecutor) \<Rightarrow> Host \<Rightarrow> Host" where
  "onExec N h = h\<lparr>h_exec := N (h_exec h)\<rparr>"

definition blind :: "(RunningExecutor \<Rightarrow> RunningExecutor) \<Rightarrow> 'a action \<Rightarrow> bool" where
  "blind N m \<longleftrightarrow> (\<forall>h. m (onExec N h) = map_option (map_prod id (onExec N)) (m h))"

named_theorems blind_intro

lemma onExec_fields [simp]:
  "h_exec (onExec N h) = N (h_exec h)" "h_trace (onExec N h) = h_trace h" "h_fails (onExec N h) = h_fails h"
  "h_output (onExec N h) = h_output h" "h_random (onExec N h) = h_random h" "h_status (onExec N h) = h_status h"
  "h_killed (onExec N h) = h_killed h" "h_prepared (onExec N h) = h_prepared h" "h_backend (onExec N h) = h_backend h"
  "h_noChanges (onExec N h) = h_noChanges h" "h_now (onExec N h) = h_now h" "h_keyDb (onExec N h) = h_keyDb h"
  by (simp_all add: onExec_def)

lemma blind_pure [blind_intro]:
  "blind N (return a)" "blind N (throw err)" "blind N panicA" "blind N (liftRes r1)" "blind N (liftOpt r2)"
  "blind N getNoChanges" "blind N getPrepared" "blind N getKilled" "blind N (perform e)" "blind N (ignoring e)"
  "blind N (performOut e)" "blind N (setBackend s)" "blind N (noteChanges s)" "blind N (setPrepared p)"
  "blind N (deserializeKey x k)"
  by (auto simp: blind_def onExec_def return_def throw_def panicA_def liftRes_def liftOpt_def getNoChanges_def
      getPrepared_def getKilled_def perform_def ignoring_def performOut_def setBackend_def noteChanges_def
      setPrepared_def deserializeKey_def option.map_comp comp_def Let_def split: option.split)

lemma blind_seqA [blind_intro]: "blind N m \<Longrightarrow> (\<And>a. blind N (f a)) \<Longrightarrow> blind N (seqA m f)"
proof -
  assume m: "blind N m" and f: "\<And>a. blind N (f a)"
  have "seqA m f (onExec N h) = map_option (map_prod id (onExec N)) (seqA m f h)" for h
  proof (cases "m h")
    case None
    then show ?thesis using m by (simp add: blind_def seqA_def)
  next
    case (Some z)
    obtain r h1 where z: "z = (r, h1)" by (cases z)
    then show ?thesis using Some m f by (cases r) (simp_all add: blind_def seqA_def)
  qed
  then show ?thesis by (simp add: blind_def)
qed

lemma blind_getExec:
  assumes "\<And>t. f (N t) = f t" and "\<And>t. blind N (f t)"
  shows "blind N (seqA getExec f)"
  using assms by (simp add: blind_def seqA_def getExec_def)

lemma blind_modExec: "(\<And>t. g (N t) = N (g t)) \<Longrightarrow> blind N (modExec g)"
  by (simp add: blind_def modExec_def onExec_def)

lemma blind_bothA [blind_intro]: "blind N m \<Longrightarrow> blind N m1 \<Longrightarrow> blind N (bothA m m1)"
  unfolding bothA_def by (rule blind_seqA)

lemma blind_tryA [blind_intro]: "blind N m \<Longrightarrow> blind N (tryA m)"
  by (auto simp: blind_def tryA_def split: option.splits prod.splits)

lemma blind_deferA [blind_intro]: "blind N m \<Longrightarrow> blind N c \<Longrightarrow> blind N (deferA c m)"
proof -
  assume m: "blind N m" and c: "blind N c"
  have "deferA c m (onExec N h) = map_option (map_prod id (onExec N)) (deferA c m h)" for h
  proof (cases "m h")
    case None
    then show ?thesis using m by (simp add: blind_def deferA_def)
  next
    case (Some z)
    obtain r h1 where z: "z = (r, h1)" by (cases z)
    have "c (onExec N h1) = map_option (map_prod id (onExec N)) (c h1)" using c by (simp add: blind_def)
    then show ?thesis using Some m z by (cases "c h1") (auto simp: blind_def deferA_def)
  qed
  then show ?thesis by (simp add: blind_def)
qed

lemma blind_eachA [blind_intro]: "(\<And>a. blind N (f a)) \<Longrightarrow> blind N (eachA f xs)"
  by (induction xs) (auto intro: blind_intro)

lemma blind_whenA [blind_intro]: "blind N m \<Longrightarrow> blind N (whenA b m)"
  by (auto simp: whenA_def intro: blind_intro)

lemma blind_if [blind_intro]: "blind N m \<Longrightarrow> blind N m1 \<Longrightarrow> blind N (if b then m else m1)"
  by simp

lemma blind_case_option [blind_intro]:
  "blind N m \<Longrightarrow> (\<And>a. blind N (f a)) \<Longrightarrow> blind N (case z of None \<Rightarrow> m | Some a \<Rightarrow> f a)"
  by (cases z) auto

lemma blind_case_sum [blind_intro]:
  "(\<And>a. blind N (f a)) \<Longrightarrow> (\<And>b. blind N (g b)) \<Longrightarrow> blind N (case z of Inl a \<Rightarrow> f a | Inr b \<Rightarrow> g b)"
  by (cases z) auto

lemma blind_case_prod [blind_intro]: "(\<And>a b. blind N (f a b)) \<Longrightarrow> blind N (case z of (a, b) \<Rightarrow> f a b)"
  by (cases z) auto

lemma blind_Let [blind_intro]: "(\<And>a. blind N (f a)) \<Longrightarrow> blind N (let a = z in f a)"
  by simp

lemma blind_retryLoop [blind_intro]: "blind N m \<Longrightarrow> blind N (retryLoop n attempt m)"
  by (induction n arbitrary: attempt) (auto intro!: blind_intro)

lemma blind_setStatus [blind_intro]: "blind N (setStatus s)"
  by (auto simp: setStatus_def intro!: blind_intro)

lemma blind_StartSSHAgent [blind_intro]: "blind N (StartSSHAgent x k)"
  by (auto simp: blind_def StartSSHAgent_def Let_def seqA_def perform_def return_def onExec_def split: option.splits)

lemma blind_Install [blind_intro]: "blind N (Install x k usage)"
  by (auto simp: Install_def KeyInstaller_Install_def Service_Install_def
      intro!: blind_intro split: AccessKeyRole.splits sum.splits)

lemma blind_Destroy [blind_intro]: "blind N (Destroy inst)"
  by (auto simp: Destroy_def intro!: blind_intro)

lemma blind_git_run [blind_intro]: "blind N (git_run x r target args)" "blind N (git_output x r target args)"
  by (auto simp: git_run_def git_output_def git_makeCmd_def intro!: blind_intro split: GitRepositoryDirType.split)

lemma blind_git [blind_intro]:
  "blind N (git_Clone x r)" "blind N (git_Pull x r)" "blind N (git_Checkout x r target)" "blind N (git_CanBePulled x r)"
  "blind N (git_GetLastCommitMessage x r)" "blind N (git_GetLastCommitHash x r)" "blind N (ValidateRepo x r)"
  by (auto simp: git_Clone_def git_Pull_def git_Checkout_def git_CanBePulled_def git_GetLastCommitMessage_def
      git_GetLastCommitHash_def ValidateRepo_def intro!: blind_intro)

lemma blind_repo [blind_intro]:
  "blind N (repo_Clone x r)" "blind N (repo_Pull x r)" "blind N (cloneAfresh x r)" "blind N (pullOrClone x r)"
  by (auto simp: repo_Clone_def repo_Pull_def cloneAfresh_def pullOrClone_def retry_def intro!: blind_intro)

lemma blind_withLock [blind_intro]: "blind N m \<Longrightarrow> blind N (withLock k m)"
  by (auto simp: withLock_def intro!: blind_intro)

text \<open>Waiting for a decision depends on the trace and the status alone and extends the trace.\<close>

lemma awaitDecision_frame:
  assumes "awaitDecision g = Some y" and "h_trace h = h_trace g" and "h_status h = h_status g"
  shows "awaitDecision h = Some (fst y, h\<lparr>h_trace := h_trace (snd y)\<rparr>)"
proof -
  have "\<forall>h. h_trace h = h_trace g \<longrightarrow> h_status h = h_status g \<longrightarrow>
          awaitDecision h = Some (fst y, h\<lparr>h_trace := h_trace (snd y)\<rparr>)"
  proof (rule awaitDecision.raw_induct [OF _ assms(1)])
    fix aw :: "TaskStatus action" and g y
    assume IH: "\<And>g y. aw g = Some y \<Longrightarrow> \<forall>h. h_trace h = h_trace g \<longrightarrow> h_status h = h_status g \<longrightarrow>
                  awaitDecision h = Some (fst y, h\<lparr>h_trace := h_trace (snd y)\<rparr>)"
      and step: "(let h1 = g\<lparr>h_trace := h_trace g @ [Sleep (3 * 1000000000)]\<rparr>; s = h_status h1 (h_trace h1)
                  in if decided s then Some (Inr s, h1) else aw h1) = Some y"
    let ?g1 = "g\<lparr>h_trace := h_trace g @ [Sleep (3 * 1000000000)]\<rparr>"
    show "\<forall>h. h_trace h = h_trace g \<longrightarrow> h_status h = h_status g \<longrightarrow>
            awaitDecision h = Some (fst y, h\<lparr>h_trace := h_trace (snd y)\<rparr>)"
    proof (intro allI impI)
      fix h :: Host
      assume h: "h_trace h = h_trace g" "h_status h = h_status g"
      let ?h1 = "h\<lparr>h_trace := h_trace g @ [Sleep (3 * 1000000000)]\<rparr>"
      show "awaitDecision h = Some (fst y, h\<lparr>h_trace := h_trace (snd y)\<rparr>)"
      proof (cases "decided (h_status g (h_trace g @ [Sleep (3 * 1000000000)]))")
        case True
        then show ?thesis using step h by (subst awaitDecision.simps) (auto simp: Let_def)
      next
        case False
        then have "aw ?g1 = Some y" using step by (simp add: Let_def)
        then have "awaitDecision ?h1 = Some (fst y, ?h1\<lparr>h_trace := h_trace (snd y)\<rparr>)"
          using IH h(2) by simp
        then show ?thesis using False h by (subst awaitDecision.simps) (simp add: Let_def)
      qed
    qed
  qed
  then show ?thesis using assms(2,3) by blast
qed

lemma blind_awaitDecision [blind_intro]: "blind N awaitDecision"
  unfolding blind_def
proof
  fix h
  show "awaitDecision (onExec N h) = map_option (map_prod id (onExec N)) (awaitDecision h)"
  proof (cases "awaitDecision h")
    case None
    have "awaitDecision (onExec N h) = None"
    proof (rule ccontr)
      assume "awaitDecision (onExec N h) \<noteq> None"
      then obtain y where "awaitDecision (onExec N h) = Some y" by blast
      then have "awaitDecision h \<noteq> None" using awaitDecision_frame [of "onExec N h" y h] by simp
      then show False using None by simp
    qed
    then show ?thesis using None by simp
  next
    case (Some y)
    have "snd y = h\<lparr>h_trace := h_trace (snd y)\<rparr>" using awaitDecision_frame [OF Some, of h] Some by (metis option.inject snd_conv)
    then have "onExec N (snd y) = (onExec N h)\<lparr>h_trace := h_trace (snd y)\<rparr>" by (metis Host.surjective Host.update_convs(1,5) Host.select_convs(1) onExec_def)
    then show ?thesis using awaitDecision_frame [OF Some, of "onExec N h"] Some by (cases y) simp
  qed
qed

subsection \<open>Views of the task\<close>

text \<open>
  A view changes the task of the executor in a way that depends on its template. The laws say that it leaves
  alone what names the task, and that arguments, parameters and the branch come out the same.
\<close>

definition viewTask :: "(Template \<Rightarrow> Task \<Rightarrow> Task) \<Rightarrow> RunningExecutor \<Rightarrow> RunningExecutor" where
  "viewTask F t = t\<lparr>ex_Task := F (ex_Template t) (ex_Task t)\<rparr>"

locale executor_view =
  fixes F :: "Template \<Rightarrow> Task \<Rightarrow> Task"
  assumes commit: "Task_CommitHash (F tpl task) = Task_CommitHash task"
    and setCommit:
      "F tpl (task\<lparr>Task_CommitHash := c, Task_CommitMessage := m\<rparr>) =
         (F tpl task)\<lparr>Task_CommitHash := c, Task_CommitMessage := m\<rparr>"
    and playbook: "Task_Playbook (F tpl task) = Task_Playbook task"
    and version: "Task_Version (F tpl task) = Task_Version task"
    and branch: "resolveGitBranch b tpl (F tpl task) = resolveGitBranch b tpl task"
    and params: "Task_Params (F tpl task) = Task_Params task"
    and details: "getTaskDetails x (viewTask F t) u iv = getTaskDetails x t u iv"
    and arguments:
      "getCLIArgs x (viewTask F t) = getCLIArgs x t" "getCLIArgsMap x (viewTask F t) = getCLIArgsMap x t"
begin

abbreviation V where "V \<equiv> viewTask F"

lemma view_fields [simp]:
  "ex_Template (V t) = ex_Template t" "ex_Inventory (V t) = ex_Inventory t" "ex_Repository (V t) = ex_Repository t"
  "ex_Environment (V t) = ex_Environment t" "ex_Secret (V t) = ex_Secret t" "ex_JWT (V t) = ex_JWT t"
  "ex_sshKey (V t) = ex_sshKey t" "ex_becomeKey (V t) = ex_becomeKey t" "ex_vaultFiles (V t) = ex_vaultFiles t"
  "ex_Task (V t) = F (ex_Template t) (ex_Task t)"
  by (simp_all add: viewTask_def)

lemmas view_simps = commit playbook version branch params details arguments

lemma extraVars: "getEnvironmentExtraVars x (V t) u iv = getEnvironmentExtraVars x t u iv"
  by (simp add: getEnvironmentExtraVars_def view_simps cong: option.case_cong sum.case_cong)

lemma secrets: "secretVars (V t) = secretVars t"
  by (simp add: secretVars_def)

lemmas case_congs = option.case_cong sum.case_cong prod.case_cong if_cong

lemma argument_functions:
  "getEnvironmentExtraVarsJSON x (V t) u iv = getEnvironmentExtraVarsJSON x t u iv"
  "getShellArgs x (V t) u iv = getShellArgs x t u iv"
  "getTerraformArgs x (V t) u iv = getTerraformArgs x t u iv"
  "getEnvironmentENV x (V t) = getEnvironmentENV x t"
  "getSurveyEnvVars x (V t) = getSurveyEnvVars x t"
  "getShellEnvironmentExtraENV x (V t) u iv = getShellEnvironmentExtraENV x t u iv"
  by (simp_all add: getEnvironmentExtraVarsJSON_def getShellArgs_def getTerraformArgs_def getEnvironmentENV_def
      getSurveyEnvVars_def getShellEnvironmentExtraENV_def secrets extraVars view_simps cong: case_congs)

lemma inventory_functions:
  "tmpInventoryFullPath x (V t) = tmpInventoryFullPath x t" "tmpInventoryFilename (V t) = tmpInventoryFilename t"
  "inventoryFilename x (V t) = inventoryFilename x t" "userArgs (V t) = userArgs t" "becomeArgs (V t) = becomeArgs t"
  "inventoryRepo (V t) = inventoryRepo t" "executorRepo (V t) = executorRepo t"
  by (simp_all add: tmpInventoryFullPath_def tmpInventoryFilename_def inventoryFilename_def userArgs_def becomeArgs_def
      inventoryRepo_def executorRepo_def Let_def fun_eq_iff cong: case_congs)

lemma playbookArgs: "getPlaybookArgs x (V t) u iv = getPlaybookArgs x t u iv"
  by (simp add: getPlaybookArgs_def Let_def argument_functions inventory_functions secrets view_simps debugArgs_def
      overridden_def cong: case_congs)

lemma command_functions:
  "ansible_makeCmd x (V t) c as env = ansible_makeCmd x t c as env" "getRepoPath x (V t) = getRepoPath x t"
  "requirementsHashFilePath x (V t) ty f = requirementsHashFilePath x t ty f"
  "requirementsFiles x (V t) dir = requirementsFiles x t dir" "makeShellCmd x (V t) as env = makeShellCmd x t as env"
  "tf_FullPath x (V t) = tf_FullPath x t" "tf_makeCmd x (V t) as env = tf_makeCmd x t as env"
  "tfTaskParam (V t) n = tfTaskParam t n" "tfTemplateParam (V t) n = tfTemplateParam t n"
  "skipGalaxyInstall tpl (F tpl task) = skipGalaxyInstall tpl task"
  "finalEnv x (V t) u iv = finalEnv x t u iv"
  by (simp_all add: ansible_makeCmd_def getRepoPath_def requirementsHashFilePath_def requirementsFiles_def GetPlaybookDir_def
      makeShellCmd_def shell_makeCmd_def tf_FullPath_def tf_makeCmd_def tfTaskParam_def tfTemplateParam_def
      skipGalaxyInstall_def finalEnv_def versionVars_def argument_functions view_simps Let_def fun_eq_iff cong: case_congs)

lemmas view_eqs = view_fields view_simps extraVars secrets argument_functions inventory_functions playbookArgs command_functions

lemma blind_modFields [blind_intro]:
  "blind V (modExec (\<lambda>t. t\<lparr>ex_sshKey := i\<rparr>))" "blind V (modExec (\<lambda>t. t\<lparr>ex_becomeKey := i\<rparr>))"
  "blind V (modExec (\<lambda>t. t\<lparr>ex_vaultFiles := v\<rparr>))" "blind V (modExec (\<lambda>t. t\<lparr>ex_vaultFiles := g (ex_vaultFiles t)\<rparr>))"
  "blind V (modExec resolveBranch)" "blind V (SetCommit hash message)"
  by (auto simp: viewTask_def resolveBranch_def branch SetCommit_def setCommit intro!: blind_modExec blind_intro)

lemma blind_updateRepository [blind_intro]: "blind V (updateRepository x)"
  unfolding updateRepository_def Let_def
  by (rule blind_getExec) (auto simp: view_eqs intro!: blind_intro cong: case_congs)

lemma blind_checkoutRepository [blind_intro]: "blind V (checkoutRepository x)"
  unfolding checkoutRepository_def Let_def
  by (rule blind_getExec) (auto simp: view_eqs intro!: blind_intro cong: case_congs)

lemma blind_updateAndCheckoutRepository [blind_intro]: "blind V (updateAndCheckoutRepository x)"
  unfolding updateAndCheckoutRepository_def Let_def
  by (rule blind_getExec) (auto simp: view_eqs intro!: blind_intro cong: case_congs)

lemma blind_cloneInventoryRepo [blind_intro]: "blind V (cloneInventoryRepo x)"
  unfolding cloneInventoryRepo_def Let_def
  by (rule blind_getExec) (auto simp: view_eqs intro!: blind_intro cong: case_congs)

lemma blind_findRepository [blind_intro]: "blind V (findRepository x)"
  unfolding findRepository_def Let_def
  by (rule blind_getExec) (auto simp: view_eqs intro!: blind_intro cong: case_congs)

lemma blind_makeDirectories [blind_intro]: "blind V (makeDirectories x)"
  unfolding makeDirectories_def Let_def
  by (rule blind_getExec) (auto simp: view_eqs intro!: blind_intro cong: case_congs)

lemma blind_installStaticInventory [blind_intro]: "blind V (installStaticInventory x)"
  unfolding installStaticInventory_def Let_def
  by (rule blind_getExec) (auto simp: view_eqs intro!: blind_intro cong: case_congs)

lemma blind_destroyInventoryFile [blind_intro]: "blind V (destroyInventoryFile x)"
  unfolding destroyInventoryFile_def Let_def
  by (rule blind_getExec) (auto simp: view_eqs intro!: blind_intro cong: case_congs)

lemma blind_destroyKeys [blind_intro]: "blind V destroyKeys"
  unfolding destroyKeys_def
  by (rule blind_getExec) (auto simp: view_eqs intro!: blind_intro)

lemma blind_keys [blind_intro]:
  "blind V (installInto x k usage (\<lambda>i t. t\<lparr>ex_sshKey := i\<rparr>))" "blind V (installInto x k usage (\<lambda>i t. t\<lparr>ex_becomeKey := i\<rparr>))"
  "blind V (installVault x v)"
  by (auto simp: installInto_def installVault_def Let_def intro!: blind_intro)

lemma blind_installInventory [blind_intro]: "blind V (installInventory x)"
  unfolding installInventory_def Let_def
  by (rule blind_getExec) (auto simp: view_eqs intro!: blind_intro)

lemma blind_installVaultKeyFiles [blind_intro]: "blind V (installVaultKeyFiles x)"
  unfolding installVaultKeyFiles_def
  by (intro blind_intro blind_getExec) (auto simp: view_eqs intro!: blind_intro)

lemma blind_RunGalaxy [blind_intro]: "blind V (RunGalaxy x as env)"
  unfolding RunGalaxy_def Let_def
  by (rule blind_getExec) (auto simp: view_eqs intro!: blind_intro cong: case_congs)

lemma blind_RunPlaybook [blind_intro]: "blind V (RunPlaybook x as env ins)"
  unfolding RunPlaybook_def Let_def
  by (rule blind_getExec) (auto simp: view_eqs intro!: blind_intro cong: case_congs)

lemma blind_hash [blind_intro]: "blind V (hasRequirementsChanges x f g)" "blind V (writeMD5Hash x f g)"
  by (auto simp: hasRequirementsChanges_def writeMD5Hash_def getMD5Hash_def intro!: blind_intro)

lemma blind_installGalaxyRequirementsFile [blind_intro]: "blind V (installGalaxyRequirementsFile x env ty f)"
  unfolding installGalaxyRequirementsFile_def Let_def
  by (rule blind_getExec) (auto simp: view_eqs intro!: blind_intro cong: case_congs)

lemma blind_installCollectionsRequirements [blind_intro]: "blind V (installCollectionsRequirements x env)"
  unfolding installCollectionsRequirements_def Let_def
  by (rule blind_getExec) (auto simp: view_eqs intro!: blind_intro cong: case_congs)

lemma blind_installRolesRequirements [blind_intro]: "blind V (installRolesRequirements x env)"
  unfolding installRolesRequirements_def Let_def
  by (rule blind_getExec) (auto simp: view_eqs intro!: blind_intro cong: case_congs)

lemma blind_ansible_InstallRequirements [blind_intro]: "blind V (ansible_InstallRequirements x env)"
  unfolding ansible_InstallRequirements_def Let_def
  by (rule blind_getExec) (auto simp: view_eqs intro!: blind_intro cong: case_congs)

lemma blind_ansible_Run [blind_intro]: "blind V (ansible_Run x p)"
  unfolding ansible_Run_def by (rule blind_RunPlaybook)

lemma blind_shell_Run [blind_intro]: "blind V (shell_Run x p)"
  unfolding shell_Run_def Let_def
  by (rule blind_getExec) (auto simp: view_eqs intro!: blind_intro cong: case_congs)

lemma blind_tf_init [blind_intro]: "blind V (tf_init x env as)"
  unfolding tf_init_def Let_def
  by (rule blind_getExec) (auto simp: view_eqs intro!: blind_intro cong: case_congs)

lemma blind_isWorkspacesSupported [blind_intro]: "blind V (isWorkspacesSupported x env)"
  unfolding isWorkspacesSupported_def Let_def
  by (rule blind_getExec) (auto simp: view_eqs intro!: blind_intro cong: case_congs)

lemma blind_selectWorkspace [blind_intro]: "blind V (selectWorkspace x w env)"
  unfolding selectWorkspace_def Let_def
  by (rule blind_getExec) (auto simp: view_eqs intro!: blind_intro cong: case_congs)

lemma blind_InstallRequirementsWithInitArgs [blind_intro]: "blind V (InstallRequirementsWithInitArgs x env as)"
  unfolding InstallRequirementsWithInitArgs_def Let_def
  by (rule blind_getExec) (auto simp: view_eqs intro!: blind_intro cong: case_congs)

lemma blind_tf_Plan [blind_intro]: "blind V (tf_Plan x as env)"
  unfolding tf_Plan_def Let_def
  by (rule blind_getExec) (auto simp: view_eqs intro!: blind_intro cong: case_congs)

lemma blind_tf_Apply [blind_intro]: "blind V (tf_Apply x as env)"
  unfolding tf_Apply_def Let_def
  by (rule blind_getExec) (auto simp: view_eqs intro!: blind_intro cong: case_congs)

lemma blind_tf_Run [blind_intro]: "blind V (tf_Run x p)"
  unfolding tf_Run_def Let_def
  by (rule blind_getExec) (auto simp: view_eqs intro!: blind_intro cong: case_congs)

lemma blind_tf_Clear [blind_intro]: "blind V (tf_Clear x)"
  by (auto simp: blind_def tf_Clear_def return_def ignoring_def view_eqs onExec_def)

lemma blind_app_Run [blind_intro]: "blind V (app_Run x p)"
  unfolding app_Run_def Let_def
  by (rule blind_getExec) (auto simp: view_eqs intro!: blind_intro cong: case_congs)

lemma blind_app_Clear [blind_intro]: "blind V (app_Clear x)"
  unfolding app_Clear_def Let_def
  by (rule blind_getExec) (auto simp: view_eqs intro!: blind_intro cong: case_congs)

lemma blind_InstallRequirements [blind_intro]: "blind V (InstallRequirements x env)"
  unfolding InstallRequirements_def Let_def
  by (rule blind_getExec) (auto simp: view_eqs intro!: blind_intro cong: case_congs)

lemma blind_prepareSteps [blind_intro]: "blind V m \<Longrightarrow> blind V (prepareSteps x m)"
  by (auto simp: prepareSteps_def intro!: blind_intro)

lemma blind_prepareRun [blind_intro]: "blind V (prepareRun x env)" "blind V (prepareRunTerraform x env as)"
  by (auto simp: prepareRun_def prepareRunTerraform_def intro!: blind_intro)

lemma blind_params [blind_intro]: "blind V (getTemplateParams tpl)" "blind V (getParams tpl task)"
  by (auto simp: getTemplateParams_def getParams_def intro!: blind_intro)

lemma getParams_view: "getParams tpl (F tpl1 task) = getParams tpl task"
  by (simp add: getParams_def view_eqs)

lemma blind_checkPlaybooks [blind_intro]: "blind V checkPlaybooks"
  unfolding checkPlaybooks_def
  by (rule blind_getExec) (auto simp: view_eqs intro!: blind_intro cong: case_congs)

lemma blind_prepareArgs [blind_intro]: "blind V (prepareArgs x env u iv)"
proof -
  have args: "blind V (seqA getExec (\<lambda>t1. if Template_App (ex_Template t1) = AppAnsible
      then seqA (liftOpt (getPlaybookArgs x t1 u iv)) (\<lambda>(args, inputs). return ([(''default'', args)], inputs))
      else seqA (liftOpt (getShellArgs x t1 u iv)) (\<lambda>args. return ([(''default'', args)], []))))"
    by (rule blind_getExec) (auto simp: view_eqs intro!: blind_intro)
  show ?thesis
    unfolding prepareArgs_def
    by (rule blind_getExec) (auto simp: view_eqs intro!: blind_intro args)
qed

lemma blind_prepareOnce [blind_intro]: "blind V (prepareOnce x u iv al)"
proof -
  have last: "blind V (seqA getExec (\<lambda>t1. case finalEnv x t1 u iv of None \<Rightarrow> panicA | Some env2 \<Rightarrow> setPrepared (p env2)))" for p
    by (rule blind_getExec) (auto simp: view_eqs intro!: blind_intro)
  show ?thesis
    unfolding prepareOnce_def Let_def
    apply (intro blind_bothA blind_setStatus blind_checkPlaybooks)
    apply (rule blind_getExec)
     apply (simp only: view_eqs getParams_view)
    apply (rule blind_seqA [OF blind_pure(4)], rule blind_seqA [OF blind_pure(5)])
    apply (intro blind_bothA blind_params, rule blind_seqA [OF blind_prepareArgs])
    apply (intro blind_case_prod last)
    done
qed

lemma blind_Prepare [blind_intro]: "blind V (Prepare x u iv al)"
  by (auto simp: Prepare_def intro!: blind_intro)

lemma blind_Run: "blind V (executor_Run x u iv al)"
  by (auto simp: executor_Run_def Cleanup_def intro!: blind_intro)

text \<open>A run on the changed task returns the same, with the same effects.\<close>

lemma Run_same:
  "map_option (\<lambda>(r, h'). (r, h_trace h')) (executor_Run x u iv al (onExec V h)) =
   map_option (\<lambda>(r, h'). (r, h_trace h')) (executor_Run x u iv al h)"
  using blind_Run [of x u iv al] by (cases "executor_Run x u iv al h") (auto simp: blind_def)

end

subsection \<open>Arguments and branch of a task\<close>

text \<open>Other arguments and another branch, where the template does not permit the task to override them.\<close>

definition overrideArgsBranch :: "string option \<Rightarrow> string option \<Rightarrow> Template \<Rightarrow> Task \<Rightarrow> Task" where
  "overrideArgsBranch args branch tpl task =
     task\<lparr>Task_Arguments := (if Template_AllowOverrideArgsInTask tpl then Task_Arguments task else args),
          Task_GitBranch := (if Template_AllowOverrideBranchInTask tpl then Task_GitBranch task else branch)\<rparr>"

interpretation args_branch: executor_view "overrideArgsBranch args branch" for args branch
  by unfold_locales
    (auto simp: overrideArgsBranch_def viewTask_def resolveGitBranch_def getTaskDetails_def GetUrl_def getCLIArgs_def
      getCLIArgsMap_def Let_def cong: option.case_cong sum.case_cong)

text \<open>C7. Overrides need the permission of the template: replace the arguments of a task by any others where its template
  does not let tasks override arguments, and its branch by any other where the template does not let tasks override
  branches. The run returns the same result and makes the same effects: the same git commands, the same files, the
  same command lines with the same environment.\<close>
theorem Run_ignores_overrides:
  "map_option (\<lambda>(r, h'). (r, h_trace h'))
     (executor_Run x username incomingVersion taskAlias (onExec (viewTask (overrideArgsBranch args branch)) h)) =
   map_option (\<lambda>(r, h'). (r, h_trace h')) (executor_Run x username incomingVersion taskAlias h)"
  by (rule args_branch.Run_same)

end
