(* ===== verification/Executor_Environment.thy ===== *)
theory Executor_Environment
  imports Executor_Views
begin

text \<open>
  The environment of the server. Of the environment of its own process the executor reads \<^verbatim>\<open>PATH\<close>, \<^verbatim>\<open>HOME\<close>, the
  variables that the configuration forwards and, when a key is stored in the environment, the variable that the
  key names; a run is the same for two processes that agree on these. A function that installs no key does not
  depend on the rest at all and is equal for both; for the others a simulation is proved, which holds as long as
  the keys of the executor are the ones it started with.
\<close>

named_theorems env_simps

text \<open>The configuration with another environment of the process, but for the variables that the executor reads and the given ones.\<close>

definition withEnv :: "string list \<Rightarrow> (string \<Rightarrow> string) \<Rightarrow> ExecEnv \<Rightarrow> ExecEnv" where
  "withEnv N g x =
     x\<lparr>x_getenv := (\<lambda>n. if n \<in> set ([''PATH'', ''HOME''] @ x_ForwardedEnvVars x @ N) then x_getenv x n else g n)\<rparr>"

lemma formatVarValue_env [env_simps]: "formatVarValue (withEnv N g x) = formatVarValue x"
proof
  fix j show "formatVarValue (withEnv N g x) j = formatVarValue x j" by (cases j) (simp_all add: withEnv_def)
qed

lemma config_env [env_simps]:
  "x_UnmarshalMap (withEnv N g x) = x_UnmarshalMap x"
  "x_UnmarshalStrMap (withEnv N g x) = x_UnmarshalStrMap x"
  "x_UnmarshalStrings (withEnv N g x) = x_UnmarshalStrings x"
  "x_UnmarshalStages (withEnv N g x) = x_UnmarshalStages x"
  "x_Marshal (withEnv N g x) = x_Marshal x"
  "x_isPrint (withEnv N g x) = x_isPrint x"
  "x_md5 (withEnv N g x) = x_md5 x"
  "x_WebHost (withEnv N g x) = x_WebHost x"
  "x_Port (withEnv N g x) = x_Port x"
  "x_TmpPath (withEnv N g x) = x_TmpPath x"
  "x_HomeDirMode (withEnv N g x) = x_HomeDirMode x"
  "x_GitAttempts (withEnv N g x) = x_GitAttempts x"
  "x_AppPath (withEnv N g x) = x_AppPath x"
  "x_AppArgs (withEnv N g x) = x_AppArgs x"
  "x_ForwardedEnvVars (withEnv N g x) = x_ForwardedEnvVars x"
  "x_EnvVars (withEnv N g x) = x_EnvVars x"
  "x_StrictHostKeyChecking (withEnv N g x) = x_StrictHostKeyChecking x"
  "x_KnownHostsFile (withEnv N g x) = x_KnownHostsFile x"
  "x_SshConfigPath (withEnv N g x) = x_SshConfigPath x"
  "x_OnRunner (withEnv N g x) = x_OnRunner x"
  "x_keys (withEnv N g x) = x_keys x"
  by (simp_all add: withEnv_def)

lemma env_GetUrl [env_simps]: "GetUrl (withEnv N g x) = GetUrl x"
  by (((rule ext)+)?, unfold GetUrl_def env_simps, rule refl)

lemma env_readVars [env_simps]: "readVars (withEnv N g x) = readVars x"
  by (((rule ext)+)?, unfold readVars_def env_simps, rule refl)

lemma env_getEnvironmentENV [env_simps]: "getEnvironmentENV (withEnv N g x) = getEnvironmentENV x"
  by (((rule ext)+)?, unfold getEnvironmentENV_def env_simps, rule refl)

lemma env_getCLIArgs [env_simps]: "getCLIArgs (withEnv N g x) = getCLIArgs x"
  by (((rule ext)+)?, unfold getCLIArgs_def env_simps, rule refl)

lemma env_convertArgsJSONIfArray [env_simps]: "convertArgsJSONIfArray (withEnv N g x) = convertArgsJSONIfArray x"
  by (((rule ext)+)?, unfold convertArgsJSONIfArray_def env_simps, rule refl)

lemma env_GetProjectTmpDir [env_simps]: "GetProjectTmpDir (withEnv N g x) = GetProjectTmpDir x"
  by (((rule ext)+)?, unfold GetProjectTmpDir_def env_simps, rule refl)

lemma env_gitHostKeyCheckingOpts [env_simps]: "gitHostKeyCheckingOpts (withEnv N g x) = gitHostKeyCheckingOpts x"
  by (((rule ext)+)?, unfold gitHostKeyCheckingOpts_def env_simps, rule refl)

lemma env_retry [env_simps]: "retry (withEnv N g x) = retry x"
  by (((rule ext)+)?, unfold retry_def env_simps, rule refl)

lemma env_getMD5Hash [env_simps]: "getMD5Hash (withEnv N g x) = getMD5Hash x"
  by (((rule ext)+)?, unfold getMD5Hash_def env_simps, rule refl)

lemma env_GetPublicHost [env_simps]: "GetPublicHost (withEnv N g x) = GetPublicHost x"
  by (((rule ext)+)?, unfold GetPublicHost_def env_simps, rule refl)

lemma env_getTaskDetails [env_simps]: "getTaskDetails (withEnv N g x) = getTaskDetails x"
  by (((rule ext)+)?, unfold getTaskDetails_def env_simps, rule refl)

lemma env_getSurveyEnvVars [env_simps]: "getSurveyEnvVars (withEnv N g x) = getSurveyEnvVars x"
  by (((rule ext)+)?, unfold getSurveyEnvVars_def env_simps, rule refl)

lemma env_getCLIArgsMap [env_simps]: "getCLIArgsMap (withEnv N g x) = getCLIArgsMap x"
  by (((rule ext)+)?, unfold getCLIArgsMap_def env_simps, rule refl)

lemma env_varAssignments [env_simps]: "varAssignments (withEnv N g x) = varAssignments x"
  by (((rule ext)+)?, unfold varAssignments_def env_simps, rule refl)

lemma env_GetHomePath [env_simps]: "GetHomePath (withEnv N g x) = GetHomePath x"
  by (((rule ext)+)?, unfold GetHomePath_def env_simps, rule refl)

lemma env_GetInternalPath [env_simps]: "GetInternalPath (withEnv N g x) = GetInternalPath x"
  by (((rule ext)+)?, unfold GetInternalPath_def env_simps, rule refl)

lemma env_GetFullPath [env_simps]: "GetFullPath (withEnv N g x) = GetFullPath x"
  by (((rule ext)+)?, unfold GetFullPath_def env_simps, rule refl)

lemma env_tmpInventoryFullPath [env_simps]: "tmpInventoryFullPath (withEnv N g x) = tmpInventoryFullPath x"
  by (((rule ext)+)?, unfold tmpInventoryFullPath_def env_simps, rule refl)

lemma env_socketFile [env_simps]: "socketFile (withEnv N g x) = socketFile x"
  by (((rule ext)+)?, unfold socketFile_def env_simps, rule refl)

lemma env_GetGitEnv [env_simps]: "GetGitEnv (withEnv N g x) = GetGitEnv x"
  by (((rule ext)+)?, unfold GetGitEnv_def env_simps, rule refl)

lemma env_hasRequirementsChanges [env_simps]: "hasRequirementsChanges (withEnv N g x) = hasRequirementsChanges x"
  by (((rule ext)+)?, unfold hasRequirementsChanges_def env_simps, rule refl)

lemma env_writeMD5Hash [env_simps]: "writeMD5Hash (withEnv N g x) = writeMD5Hash x"
  by (((rule ext)+)?, unfold writeMD5Hash_def env_simps, rule refl)

lemma env_GetPublicAliasURL [env_simps]: "GetPublicAliasURL (withEnv N g x) = GetPublicAliasURL x"
  by (((rule ext)+)?, unfold GetPublicAliasURL_def env_simps, rule refl)

lemma env_getEnvironmentExtraVars [env_simps]: "getEnvironmentExtraVars (withEnv N g x) = getEnvironmentExtraVars x"
  by (((rule ext)+)?, unfold getEnvironmentExtraVars_def env_simps, rule refl)

lemma env_getShellEnvironmentExtraENV [env_simps]: "getShellEnvironmentExtraENV (withEnv N g x) = getShellEnvironmentExtraENV x"
  by (((rule ext)+)?, unfold getShellEnvironmentExtraENV_def env_simps, rule refl)

lemma env_inventoryFilename [env_simps]: "inventoryFilename (withEnv N g x) = inventoryFilename x"
  by (((rule ext)+)?, unfold inventoryFilename_def env_simps, rule refl)

lemma env_StartSSHAgent [env_simps]: "StartSSHAgent (withEnv N g x) = StartSSHAgent x"
  by (((rule ext)+)?, unfold StartSSHAgent_def env_simps, rule refl)

lemma env_git_FullPath [env_simps]: "git_FullPath (withEnv N g x) = git_FullPath x"
  by (((rule ext)+)?, unfold git_FullPath_def env_simps, rule refl)

lemma env_installStaticInventory [env_simps]: "installStaticInventory (withEnv N g x) = installStaticInventory x"
  by (((rule ext)+)?, unfold installStaticInventory_def env_simps, rule refl)

lemma env_destroyInventoryFile [env_simps]: "destroyInventoryFile (withEnv N g x) = destroyInventoryFile x"
  by (((rule ext)+)?, unfold destroyInventoryFile_def env_simps, rule refl)

lemma env_requirementsHashFilePath [env_simps]: "requirementsHashFilePath (withEnv N g x) = requirementsHashFilePath x"
  by (((rule ext)+)?, unfold requirementsHashFilePath_def env_simps, rule refl)

lemma env_getRepoPath [env_simps]: "getRepoPath (withEnv N g x) = getRepoPath x"
  by (((rule ext)+)?, unfold getRepoPath_def env_simps, rule refl)

lemma env_makeDirectories [env_simps]: "makeDirectories (withEnv N g x) = makeDirectories x"
  by (((rule ext)+)?, unfold makeDirectories_def env_simps, rule refl)

lemma process_env [env_simps]:
  "getHomeDir (withEnv N g x) = getHomeDir x" "getEnvironmentVars (withEnv N g x) = getEnvironmentVars x"
proof -
  have P: "x_getenv (withEnv N g x) n = x_getenv x n" if "n \<in> set ([''PATH'', ''HOME''] @ x_ForwardedEnvVars x @ N)" for n
    using that unfolding withEnv_def by (simp del: set_append)
  have path: "x_getenv (withEnv N g x) ''PATH'' = x_getenv x ''PATH''" by (rule P) simp
  have home: "x_getenv (withEnv N g x) ''HOME'' = x_getenv x ''HOME''" by (rule P) simp
  have forwarded: "filter (\<lambda>e. x_getenv (withEnv N g x) e \<noteq> []) (x_ForwardedEnvVars x) =
                   filter (\<lambda>e. x_getenv x e \<noteq> []) (x_ForwardedEnvVars x)"
    by (rule filter_cong [OF refl]) (subst P, simp_all)
  have assigned: "map (\<lambda>e. assignment e (x_getenv (withEnv N g x) e)) (filter q (x_ForwardedEnvVars x)) =
                  map (\<lambda>e. assignment e (x_getenv x e)) (filter q (x_ForwardedEnvVars x))" for q
    by (rule map_cong [OF refl]) (subst P, simp_all)
  show "getHomeDir (withEnv N g x) = getHomeDir x"
    by (rule ext) (simp only: getHomeDir_def env_simps home)
  show "getEnvironmentVars (withEnv N g x) = getEnvironmentVars x"
    by (simp only: getEnvironmentVars_def env_simps path forwarded assigned)
qed

lemma env_ansible_makeCmd [env_simps]: "ansible_makeCmd (withEnv N g x) = ansible_makeCmd x"
  by (((rule ext)+)?, unfold ansible_makeCmd_def env_simps, rule refl)

lemma env_getEnvironmentExtraVarsJSON [env_simps]: "getEnvironmentExtraVarsJSON (withEnv N g x) = getEnvironmentExtraVarsJSON x"
  by (((rule ext)+)?, unfold getEnvironmentExtraVarsJSON_def env_simps, rule refl)

lemma env_getShellArgs [env_simps]: "getShellArgs (withEnv N g x) = getShellArgs x"
  by (((rule ext)+)?, unfold getShellArgs_def env_simps, rule refl)

lemma env_getTerraformArgs [env_simps]: "getTerraformArgs (withEnv N g x) = getTerraformArgs x"
  by (((rule ext)+)?, unfold getTerraformArgs_def env_simps, rule refl)

lemma env_KeyInstaller_Install [env_simps]: "KeyInstaller_Install (withEnv N g x) = KeyInstaller_Install x"
  by (((rule ext)+)?, unfold KeyInstaller_Install_def env_simps, rule refl)

lemma env_gitDir [env_simps]: "gitDir (withEnv N g x) = gitDir x"
  by (((rule ext)+)?, unfold gitDir_def env_simps, rule refl)

lemma env_ValidateRepo [env_simps]: "ValidateRepo (withEnv N g x) = ValidateRepo x"
  by (((rule ext)+)?, unfold ValidateRepo_def env_simps, rule refl)

lemma env_GetPlaybookDir [env_simps]: "GetPlaybookDir (withEnv N g x) = GetPlaybookDir x"
  by (((rule ext)+)?, unfold GetPlaybookDir_def env_simps, rule refl)

lemma env_tf_FullPath [env_simps]: "tf_FullPath (withEnv N g x) = tf_FullPath x"
  by (((rule ext)+)?, unfold tf_FullPath_def env_simps, rule refl)

lemma env_finalEnv [env_simps]: "finalEnv (withEnv N g x) = finalEnv x"
  by (((rule ext)+)?, unfold finalEnv_def env_simps, rule refl)

lemma env_RunGalaxy [env_simps]: "RunGalaxy (withEnv N g x) = RunGalaxy x"
  by (((rule ext)+)?, unfold RunGalaxy_def env_simps, rule refl)

lemma env_RunPlaybook [env_simps]: "RunPlaybook (withEnv N g x) = RunPlaybook x"
  by (((rule ext)+)?, unfold RunPlaybook_def env_simps, rule refl)

lemma env_shell_makeCmd [env_simps]: "shell_makeCmd (withEnv N g x) = shell_makeCmd x"
  by (((rule ext)+)?, unfold shell_makeCmd_def env_simps, rule refl)

lemma env_getPlaybookArgs [env_simps]: "getPlaybookArgs (withEnv N g x) = getPlaybookArgs x"
  by (((rule ext)+)?, unfold getPlaybookArgs_def env_simps, rule refl)

lemma env_requirementsFiles [env_simps]: "requirementsFiles (withEnv N g x) = requirementsFiles x"
  by (((rule ext)+)?, unfold requirementsFiles_def env_simps, rule refl)

lemma env_tf_Clear [env_simps]: "tf_Clear (withEnv N g x) = tf_Clear x"
  by (((rule ext)+)?, unfold tf_Clear_def env_simps, rule refl)

lemma env_git_makeCmd [env_simps]: "git_makeCmd (withEnv N g x) = git_makeCmd x"
  by (((rule ext)+)?, unfold git_makeCmd_def env_simps, rule refl)

lemma env_installGalaxyRequirementsFile [env_simps]: "installGalaxyRequirementsFile (withEnv N g x) = installGalaxyRequirementsFile x"
  by (((rule ext)+)?, unfold installGalaxyRequirementsFile_def env_simps, rule refl)

lemma env_ansible_Run [env_simps]: "ansible_Run (withEnv N g x) = ansible_Run x"
  by (((rule ext)+)?, unfold ansible_Run_def env_simps, rule refl)

lemma env_makeShellCmd [env_simps]: "makeShellCmd (withEnv N g x) = makeShellCmd x"
  by (((rule ext)+)?, unfold makeShellCmd_def env_simps, rule refl)

lemma env_tf_makeCmd [env_simps]: "tf_makeCmd (withEnv N g x) = tf_makeCmd x"
  by (((rule ext)+)?, unfold tf_makeCmd_def env_simps, rule refl)

lemma env_app_Clear [env_simps]: "app_Clear (withEnv N g x) = app_Clear x"
  by (((rule ext)+)?, unfold app_Clear_def env_simps, rule refl)

lemma env_installCollectionsRequirements [env_simps]: "installCollectionsRequirements (withEnv N g x) = installCollectionsRequirements x"
  by (((rule ext)+)?, unfold installCollectionsRequirements_def env_simps, rule refl)

lemma env_installRolesRequirements [env_simps]: "installRolesRequirements (withEnv N g x) = installRolesRequirements x"
  by (((rule ext)+)?, unfold installRolesRequirements_def env_simps, rule refl)

lemma env_shell_Run [env_simps]: "shell_Run (withEnv N g x) = shell_Run x"
  by (((rule ext)+)?, unfold shell_Run_def env_simps, rule refl)

lemma env_isWorkspacesSupported [env_simps]: "isWorkspacesSupported (withEnv N g x) = isWorkspacesSupported x"
  by (((rule ext)+)?, unfold isWorkspacesSupported_def env_simps, rule refl)

lemma env_selectWorkspace [env_simps]: "selectWorkspace (withEnv N g x) = selectWorkspace x"
  by (((rule ext)+)?, unfold selectWorkspace_def env_simps, rule refl)

lemma env_tf_Plan [env_simps]: "tf_Plan (withEnv N g x) = tf_Plan x"
  by (((rule ext)+)?, unfold tf_Plan_def env_simps, rule refl)

lemma env_tf_Apply [env_simps]: "tf_Apply (withEnv N g x) = tf_Apply x"
  by (((rule ext)+)?, unfold tf_Apply_def env_simps, rule refl)

lemma env_Cleanup [env_simps]: "Cleanup (withEnv N g x) = Cleanup x"
  by (((rule ext)+)?, unfold Cleanup_def env_simps, rule refl)

lemma env_ansible_InstallRequirements [env_simps]: "ansible_InstallRequirements (withEnv N g x) = ansible_InstallRequirements x"
  by (((rule ext)+)?, unfold ansible_InstallRequirements_def env_simps, rule refl)

lemma env_tf_Run [env_simps]: "tf_Run (withEnv N g x) = tf_Run x"
  by (((rule ext)+)?, unfold tf_Run_def env_simps, rule refl)

lemma env_app_Run [env_simps]: "app_Run (withEnv N g x) = app_Run x"
  by (((rule ext)+)?, unfold app_Run_def env_simps, rule refl)

subsection \<open>Keys in the environment\<close>

text \<open>The variable from which the secret of a key is read.\<close>

definition keyVariables :: "AccessKey \<Rightarrow> string list" where
  "keyVariables k =
     (if Key_SourceStorageType k = Some StorageEnv
      then (case Key_SourceStorageKey k of None \<Rightarrow> [] | Some n \<Rightarrow> [n]) else [])"

lemma env_deserializeKey:
  assumes "set (keyVariables k) \<subseteq> set N"
  shows "deserializeKey (withEnv N g x) k = deserializeKey x k"
proof -
  define e1 where "e1 = (x_keys x)\<lparr>ke_getenv := x_getenv x\<rparr>"
  define e2 where "e2 = e1\<lparr>ke_getenv := x_getenv (withEnv N g x)\<rparr>"
  have fields: "ke_readFile e2 = ke_readFile e1" "ke_secretsPath e2 = ke_secretsPath e1" "ke_lib e2 = ke_lib e1"
    "ke_conf e2 = ke_conf e1" "ke_marshalSsh e2 = ke_marshalSsh e1" "ke_unmarshalSsh e2 = ke_unmarshalSsh e1"
    "ke_unmarshalLogin e2 = ke_unmarshalLogin e1"
    by (simp_all add: e2_def)
  have stored: "readSecretFile e2 = readSecretFile e1" "openStored e2 = openStored e1"
    unfolding readSecretFile_def openStored_def fields by (rule refl)+
  have read: "ke_getenv e2 n = ke_getenv e1 n" if "n \<in> set N" for n
    using that by (simp add: e1_def e2_def withEnv_def)
  have var: "ke_getenv e2 n = ke_getenv e1 n"
    if "Key_SourceStorageType k = Some StorageEnv" "Key_SourceStorageKey k = Some n" for n
    using assms that by (intro read) (simp add: keyVariables_def)
  have local: "Local_DeserializeSecret e2 k = Local_DeserializeSecret e1 k"
    unfolding Local_DeserializeSecret_def Local_deserialize_def stored fields
    by (cases "Key_SourceStorageType k"; cases "Key_SourceStorageKey k") (simp_all add: var)
  have field: "unmarshalAppropriateField e2 k = unmarshalAppropriateField e1 k"
    unfolding unmarshalAppropriateField_def fields by (rule refl)
  have "DeserializeSecret e2 clock k d = DeserializeSecret e1 clock k d" for clock d
    unfolding DeserializeSecret_def local field by (rule refl)
  then show ?thesis
    by (intro ext) (simp add: deserializeKey_def env_simps e1_def e2_def)
qed

lemma env_Install:
  "set (keyVariables k) \<subseteq> set N \<Longrightarrow> Install (withEnv N g x) k usage = Install x k usage"
  by (simp add: Install_def Service_Install_def env_simps env_deserializeKey)

subsection \<open>The simulation\<close>

text \<open>The keys of the executor are read from the given variables only; two actions are the same as long as this holds.\<close>

definition keysWithin :: "string list \<Rightarrow> RunningExecutor \<Rightarrow> bool" where
  "keysWithin N t \<longleftrightarrow> (\<forall>k \<in> set (runKeys t). set (keyVariables k) \<subseteq> set N)"

definition agrees :: "string list \<Rightarrow> 'a action \<Rightarrow> 'a action \<Rightarrow> bool" where
  "agrees N m1 m \<longleftrightarrow>
     (\<forall>h. keysWithin N (h_exec h) \<longrightarrow> m1 h = m h \<and> (\<forall>r h'. m h = Some (r, h') \<longrightarrow> keysWithin N (h_exec h')))"

named_theorems agrees_intro

lemma agreesD:
  "agrees N m1 m \<Longrightarrow> keysWithin N (h_exec h) \<Longrightarrow> m1 h = m h"
  "agrees N m1 m \<Longrightarrow> keysWithin N (h_exec h) \<Longrightarrow> m h = Some (r, h') \<Longrightarrow> keysWithin N (h_exec h')"
  unfolding agrees_def by blast+

lemma agrees_pure [agrees_intro]:
  "agrees N (return a) (return a)" "agrees N (throw err) (throw err)" "agrees N panicA panicA"
  "agrees N (liftRes r1) (liftRes r1)" "agrees N (liftOpt r2) (liftOpt r2)" "agrees N getNoChanges getNoChanges"
  "agrees N getPrepared getPrepared" "agrees N getKilled getKilled" "agrees N (perform e) (perform e)"
  "agrees N (ignoring e) (ignoring e)" "agrees N (performOut e) (performOut e)" "agrees N (setBackend s) (setBackend s)"
  "agrees N (noteChanges s) (noteChanges s)" "agrees N (setPrepared p) (setPrepared p)"
  "agrees N (setStatus st) (setStatus st)" "agrees N (deserializeKey x k) (deserializeKey x k)"
  "agrees N (StartSSHAgent x k) (StartSSHAgent x k)" "agrees N (tf_Clear x) (tf_Clear x)"
  by (auto simp: agrees_def return_def throw_def panicA_def liftRes_def liftOpt_def getNoChanges_def getPrepared_def
      getKilled_def perform_def ignoring_def performOut_def setBackend_def noteChanges_def setPrepared_def
      setStatus_def deserializeKey_def StartSSHAgent_def seqA_def tf_Clear_def Let_def split: option.splits if_splits)

lemma agrees_getExec [agrees_intro]:
  "(\<And>t. keysWithin N t \<Longrightarrow> agrees N (f1 t) (f t)) \<Longrightarrow> agrees N (seqA getExec f1) (seqA getExec f)"
  by (simp add: agrees_def seqA_def getExec_def)

lemma agrees_modExec [agrees_intro]: "(\<And>t. runKeys (f t) = runKeys t) \<Longrightarrow> agrees N (modExec f) (modExec f)"
  by (simp add: agrees_def modExec_def keysWithin_def)

lemma agrees_seqA [agrees_intro]: "agrees N m1 m \<Longrightarrow> (\<And>a. agrees N (f1 a) (f a)) \<Longrightarrow> agrees N (seqA m1 f1) (seqA m f)"
proof -
  assume m: "agrees N m1 m" and f: "\<And>a. agrees N (f1 a) (f a)"
  have "seqA m1 f1 h = seqA m f h \<and> (\<forall>r h'. seqA m f h = Some (r, h') \<longrightarrow> keysWithin N (h_exec h'))"
    if h: "keysWithin N (h_exec h)" for h
  proof (cases "m h")
    case None
    then show ?thesis using agreesD(1) [OF m h] by (simp add: seqA_def)
  next
    case (Some z)
    obtain s h1 where z: "z = (s, h1)" by (cases z)
    have h1: "keysWithin N (h_exec h1)" using agreesD(2) [OF m h] Some z by blast
    have m1: "m1 h = Some (s, h1)" using agreesD(1) [OF m h] Some z by simp
    show ?thesis
    proof (cases s)
      case (Inl err) then show ?thesis using Some z m1 h1 by (simp add: seqA_def)
    next
      case (Inr a)
      then show ?thesis using Some z m1 agreesD [OF f h1] by (simp add: seqA_def)
    qed
  qed
  then show ?thesis unfolding agrees_def by blast
qed

lemma agrees_bothA [agrees_intro]: "agrees N m1 m \<Longrightarrow> agrees N k1 k \<Longrightarrow> agrees N (bothA m1 k1) (bothA m k)"
  unfolding bothA_def by (rule agrees_seqA)

lemma agrees_tryA [agrees_intro]: "agrees N m1 m \<Longrightarrow> agrees N (tryA m1) (tryA m)"
  by (auto simp: agrees_def tryA_def split: option.splits prod.splits)

lemma agrees_deferA [agrees_intro]: "agrees N m1 m \<Longrightarrow> agrees N c1 c \<Longrightarrow> agrees N (deferA c1 m1) (deferA c m)"
proof -
  assume m: "agrees N m1 m" and c: "agrees N c1 c"
  have "deferA c1 m1 h = deferA c m h \<and> (\<forall>r h'. deferA c m h = Some (r, h') \<longrightarrow> keysWithin N (h_exec h'))"
    if h: "keysWithin N (h_exec h)" for h
  proof (cases "m h")
    case None
    then show ?thesis using agreesD(1) [OF m h] by (simp add: deferA_def)
  next
    case (Some z)
    obtain s h1 where z: "z = (s, h1)" by (cases z)
    have h1: "keysWithin N (h_exec h1)" using agreesD(2) [OF m h] Some z by blast
    then show ?thesis
      using Some z agreesD(1) [OF m h] agreesD [OF c h1] by (auto simp: deferA_def split: option.splits)
  qed
  then show ?thesis unfolding agrees_def by blast
qed

lemma agrees_eachA [agrees_intro]:
  "(\<And>a. a \<in> set xs \<Longrightarrow> agrees N (f1 a) (f a)) \<Longrightarrow> agrees N (eachA f1 xs) (eachA f xs)"
  by (induction xs) (auto intro: agrees_intro)

lemma agrees_whenA [agrees_intro]: "agrees N m1 m \<Longrightarrow> agrees N (whenA b m1) (whenA b m)"
  by (auto simp: whenA_def intro: agrees_intro)

lemma agrees_if [agrees_intro]:
  "agrees N m1 m \<Longrightarrow> agrees N k1 k \<Longrightarrow> agrees N (if b then m1 else k1) (if b then m else k)"
  by simp

lemma agrees_case_option [agrees_intro]:
  "agrees N m1 m \<Longrightarrow> (\<And>a. z = Some a \<Longrightarrow> agrees N (f1 a) (f a)) \<Longrightarrow>
    agrees N (case z of None \<Rightarrow> m1 | Some a \<Rightarrow> f1 a) (case z of None \<Rightarrow> m | Some a \<Rightarrow> f a)"
  by (cases z) auto

lemma agrees_case_sum [agrees_intro]:
  "(\<And>a. agrees N (f1 a) (f a)) \<Longrightarrow> (\<And>b. agrees N (g1 b) (g b)) \<Longrightarrow>
    agrees N (case z of Inl a \<Rightarrow> f1 a | Inr b \<Rightarrow> g1 b) (case z of Inl a \<Rightarrow> f a | Inr b \<Rightarrow> g b)"
  by (cases z) auto

lemma agrees_case_prod [agrees_intro]:
  "(\<And>a b. agrees N (f1 a b) (f a b)) \<Longrightarrow> agrees N (case z of (a, b) \<Rightarrow> f1 a b) (case z of (a, b) \<Rightarrow> f a b)"
  by (cases z) auto

lemma agrees_retryLoop [agrees_intro]: "agrees N m1 m \<Longrightarrow> agrees N (retryLoop n attempt m1) (retryLoop n attempt m)"
  by (induction n arbitrary: attempt) (auto intro!: agrees_intro)

lemma agrees_awaitDecision [agrees_intro]: "agrees N awaitDecision awaitDecision"
proof -
  have "keysWithin N (h_exec h) \<longrightarrow> keysWithin N (h_exec (snd y))" if aw: "awaitDecision h = Some y" for h y
    by (rule awaitDecision.raw_induct [OF _ aw]) (auto simp: Let_def split: if_splits)
  then show ?thesis by (auto simp: agrees_def)
qed

lemma agrees_KeyInstaller [agrees_intro]: "agrees N (KeyInstaller_Install x k usage) (KeyInstaller_Install x k usage)"
  by (auto simp: KeyInstaller_Install_def intro!: agrees_intro split: AccessKeyRole.splits)

lemma agrees_Destroy [agrees_intro]: "agrees N (Destroy inst) (Destroy inst)"
  by (auto simp: Destroy_def intro!: agrees_intro)

lemma agrees_Install:
  assumes "set (keyVariables k) \<subseteq> set N"
  shows "agrees N (Install (withEnv N g x) k usage) (Install x k usage)"
  unfolding env_Install [OF assms] by (auto simp: Install_def Service_Install_def intro!: agrees_intro)

lemma agrees_makeCmd [agrees_intro]: "agrees N (git_makeCmd x r target inst args) (git_makeCmd x r target inst args)"
  by (auto simp: git_makeCmd_def intro!: agrees_intro split: GitRepositoryDirType.split)

lemma agrees_git_run:
  assumes "set (keyVariables (Repository_SSHKey (git_Repository r))) \<subseteq> set N"
  shows "agrees N (git_run (withEnv N g x) r target args) (git_run x r target args)"
    "agrees N (git_output (withEnv N g x) r target args) (git_output x r target args)"
  unfolding git_run_def git_output_def env_simps by (intro agrees_intro agrees_Install assms)+

lemma agrees_git:
  assumes "set (keyVariables (Repository_SSHKey (git_Repository r))) \<subseteq> set N"
  shows "agrees N (git_Clone (withEnv N g x) r) (git_Clone x r)" "agrees N (git_Pull (withEnv N g x) r) (git_Pull x r)"
    "agrees N (git_Checkout (withEnv N g x) r target) (git_Checkout x r target)"
    "agrees N (git_CanBePulled (withEnv N g x) r) (git_CanBePulled x r)"
    "agrees N (git_GetLastCommitMessage (withEnv N g x) r) (git_GetLastCommitMessage x r)"
    "agrees N (git_GetLastCommitHash (withEnv N g x) r) (git_GetLastCommitHash x r)"
    "agrees N (ValidateRepo x r) (ValidateRepo x r)"
  unfolding git_Clone_def git_Pull_def git_Checkout_def git_CanBePulled_def git_GetLastCommitMessage_def
    git_GetLastCommitHash_def ValidateRepo_def Let_def env_simps
  by (intro agrees_intro agrees_git_run assms)+

lemma agrees_repo:
  assumes "set (keyVariables (Repository_SSHKey (git_Repository r))) \<subseteq> set N"
  shows "agrees N (repo_Clone (withEnv N g x) r) (repo_Clone x r)" "agrees N (repo_Pull (withEnv N g x) r) (repo_Pull x r)"
    "agrees N (cloneAfresh (withEnv N g x) r) (cloneAfresh x r)" "agrees N (pullOrClone (withEnv N g x) r) (pullOrClone x r)"
  unfolding repo_Clone_def repo_Pull_def cloneAfresh_def pullOrClone_def retry_def env_simps
  by (intro agrees_intro agrees_git assms)+

lemma keysWithin_repo:
  "keysWithin N t \<Longrightarrow> set (keyVariables (Repository_SSHKey (git_Repository (executorRepo t)))) \<subseteq> set N"
  "keysWithin N t \<Longrightarrow> Inventory_Repository (ex_Inventory t) = Some r \<Longrightarrow>
     set (keyVariables (Repository_SSHKey (git_Repository (inventoryRepo t r)))) \<subseteq> set N"
  by (simp_all add: keysWithin_def executorRepo_def inventoryRepo_def runKeys_member)

lemma keysWithin_inventory:
  "keysWithin N t \<Longrightarrow> set (keyVariables (Inventory_SSHKey (ex_Inventory t))) \<subseteq> set N"
  "keysWithin N t \<Longrightarrow> set (keyVariables (Inventory_BecomeKey (ex_Inventory t))) \<subseteq> set N"
  "keysWithin N t \<Longrightarrow> v \<in> set (Template_Vaults (ex_Template t)) \<Longrightarrow> TVault_Vault v = Some k \<Longrightarrow>
     set (keyVariables k) \<subseteq> set N"
  unfolding keysWithin_def using runKeys_member by blast+

lemma agrees_SetCommit [agrees_intro]: "agrees N (SetCommit hash message) (SetCommit hash message)"
  unfolding SetCommit_def by (intro agrees_intro) simp

lemma agrees_working_copy [agrees_intro]:
  "agrees N (updateRepository (withEnv N g x)) (updateRepository x)"
  "agrees N (checkoutRepository (withEnv N g x)) (checkoutRepository x)"
  unfolding updateRepository_def checkoutRepository_def Let_def env_simps
  by (rule agrees_getExec, intro agrees_intro agrees_git agrees_repo, simp_all add: keysWithin_repo)+

lemma agrees_findRepository [agrees_intro]: "agrees N (findRepository (withEnv N g x)) (findRepository x)"
  unfolding findRepository_def updateAndCheckoutRepository_def withLock_def env_simps by (intro agrees_intro)

lemma agrees_cloneInventoryRepo [agrees_intro]: "agrees N (cloneInventoryRepo (withEnv N g x)) (cloneInventoryRepo x)"
  unfolding cloneInventoryRepo_def withLock_def Let_def env_simps
  by (rule agrees_getExec, intro agrees_intro agrees_repo keysWithin_repo)

lemma agrees_installInto:
  assumes "set (keyVariables k) \<subseteq> set N" and "\<And>i t. runKeys (f i t) = runKeys t"
  shows "agrees N (installInto (withEnv N g x) k usage f) (installInto x k usage f)"
  unfolding installInto_def by (intro agrees_intro agrees_Install assms)

lemma agrees_installInventory [agrees_intro]: "agrees N (installInventory (withEnv N g x)) (installInventory x)"
  unfolding installInventory_def installStaticInventory_def Let_def env_simps
  by (intro agrees_intro agrees_installInto keysWithin_inventory) simp_all

lemma agrees_vaults [agrees_intro]: "agrees N (installVaultKeyFiles (withEnv N g x)) (installVaultKeyFiles x)"
proof -
  have "agrees N (installVault (withEnv N g x) v) (installVault x v)"
    if "keysWithin N t" "v \<in> set (Template_Vaults (ex_Template t))" for t v
    unfolding installVault_def Let_def
    by (intro agrees_intro agrees_Install keysWithin_inventory(3) [OF that]) simp_all
  then show ?thesis
    unfolding installVaultKeyFiles_def by (intro agrees_intro) simp_all
qed

text \<open>The applications.\<close>

lemma agrees_galaxy [agrees_intro]:
  "agrees N (installGalaxyRequirementsFile x env ty file) (installGalaxyRequirementsFile x env ty file)"
  unfolding installGalaxyRequirementsFile_def hasRequirementsChanges_def writeMD5Hash_def getMD5Hash_def RunGalaxy_def Let_def
  by (intro agrees_intro)

lemma agrees_ansible [agrees_intro]:
  "agrees N (ansible_InstallRequirements x env) (ansible_InstallRequirements x env)"
  unfolding ansible_InstallRequirements_def installCollectionsRequirements_def installRolesRequirements_def Let_def
  by (intro agrees_intro)

lemma agrees_tf_init [agrees_intro]: "agrees N (tf_init (withEnv N g x) env extra) (tf_init x env extra)"
  unfolding tf_init_def Let_def env_simps by (intro agrees_intro agrees_Install keysWithin_inventory)

lemma agrees_terraform [agrees_intro]:
  "agrees N (InstallRequirementsWithInitArgs (withEnv N g x) env initArgs) (InstallRequirementsWithInitArgs x env initArgs)"
  unfolding InstallRequirementsWithInitArgs_def isWorkspacesSupported_def selectWorkspace_def Let_def env_simps
  by (intro agrees_intro)

lemma agrees_InstallRequirements [agrees_intro]:
  "agrees N (InstallRequirements (withEnv N g x) env) (InstallRequirements x env)"
  unfolding InstallRequirements_def env_simps by (intro agrees_intro)

lemma agrees_app_Run [agrees_intro]: "agrees N (app_Run x prep) (app_Run x prep)"
  unfolding app_Run_def ansible_Run_def RunPlaybook_def shell_Run_def tf_Run_def tf_Plan_def tf_Apply_def Let_def
  by (intro agrees_intro)

text \<open>The phases of a run.\<close>

lemma agrees_prepareSteps [agrees_intro]:
  "agrees N install1 install \<Longrightarrow> agrees N (prepareSteps (withEnv N g x) install1) (prepareSteps x install)"
  unfolding prepareSteps_def makeDirectories_def Let_def env_simps
  by (intro agrees_intro) (simp_all add: resolveBranch_def)

lemma agrees_prepareArgs [agrees_intro]: "agrees N (prepareArgs (withEnv N g x) env u iv) (prepareArgs x env u iv)"
  unfolding prepareArgs_def prepareRun_def prepareRunTerraform_def env_simps by (intro agrees_intro)

lemma agrees_params [agrees_intro]:
  "agrees N (getTemplateParams tpl) (getTemplateParams tpl)" "agrees N (getParams tpl task) (getParams tpl task)"
  "agrees N checkPlaybooks checkPlaybooks"
  unfolding getTemplateParams_def getParams_def checkPlaybooks_def by (intro agrees_intro)+

lemma agrees_Prepare [agrees_intro]: "agrees N (Prepare (withEnv N g x) u iv al) (Prepare x u iv al)"
  unfolding Prepare_def prepareOnce_def Let_def env_simps by (intro agrees_intro)

lemma agrees_Cleanup [agrees_intro]: "agrees N (Cleanup x) (Cleanup x)"
  unfolding Cleanup_def destroyKeys_def destroyInventoryFile_def app_Clear_def by (intro agrees_intro)

lemma agrees_Run: "agrees N (executor_Run (withEnv N g x) u iv al) (executor_Run x u iv al)"
  unfolding executor_Run_def env_simps by (intro agrees_intro)

text \<open>The variables of its process that a run reads.\<close>

definition readVariables :: "ExecEnv \<Rightarrow> RunningExecutor \<Rightarrow> string list" where
  "readVariables x t = [''PATH'', ''HOME''] @ x_ForwardedEnvVars x @ concat (map keyVariables (runKeys t))"

text \<open>C8. The environment of the server does not leak: whatever other variables are set in the environment of the Aldis
  process (database passwords, encryption keys, tokens), a run returns the same and makes the same effects, with the
  same arguments and environment for every command and the same keys installed, as long as \<^verbatim>\<open>PATH\<close>, \<^verbatim>\<open>HOME\<close>, the variables
  that the configuration forwards and the variables in which keys of the task are stored (keys whose source is the
  environment) are the same.\<close>
theorem Run_environment_isolated:
  assumes "\<And>n. n \<in> set (readVariables x (h_exec h)) \<Longrightarrow> g n = x_getenv x n"
  shows "executor_Run (x\<lparr>x_getenv := g\<rparr>) username incomingVersion taskAlias h =
         executor_Run x username incomingVersion taskAlias h"
proof -
  let ?N = "concat (map keyVariables (runKeys (h_exec h)))"
  have "(\<lambda>n. if n \<in> set ([''PATH'', ''HOME''] @ x_ForwardedEnvVars x @ ?N) then x_getenv x n else g n) = g"
    using assms by (intro ext) (simp add: readVariables_def)
  then have "withEnv ?N g x = x\<lparr>x_getenv := g\<rparr>" by (simp only: withEnv_def)
  moreover have "keysWithin ?N (h_exec h)" by (auto simp: keysWithin_def)
  ultimately show ?thesis using agreesD(1) [OF agrees_Run] by metis
qed

text \<open>A server on which the key of the repository is stored in a variable.\<close>

definition envKey :: AccessKey where
  "envKey = execKey\<lparr>Key_SourceStorageType := Some ''env'', Key_SourceStorageKey := Some ''GIT_KEY''\<rparr>"

theorem Run_environment_isolated_witness:
  "executor_Run (sampleExecEnv\<lparr>x_OnRunner := False, x_getenv := sampleGetenv(''ALDIS_DB_PASS'' := ''other'')\<rparr>) ''admin'' None []
     (execHost\<lparr>h_exec := execExecutor\<lparr>ex_Repository := execRepository\<lparr>Repository_SSHKey := envKey\<rparr>\<rparr>\<rparr>) =
   executor_Run (sampleExecEnv\<lparr>x_OnRunner := False\<rparr>) ''admin'' None []
     (execHost\<lparr>h_exec := execExecutor\<lparr>ex_Repository := execRepository\<lparr>Repository_SSHKey := envKey\<rparr>\<rparr>\<rparr>) \<and>
   x_getenv sampleExecEnv ''ALDIS_DB_PASS'' = ''secret'' \<and>
   ''GIT_KEY'' \<in> set (readVariables sampleExecEnv (execExecutor\<lparr>ex_Repository := execRepository\<lparr>Repository_SSHKey := envKey\<rparr>\<rparr>))"
proof -
  let ?t = "execExecutor\<lparr>ex_Repository := execRepository\<lparr>Repository_SSHKey := envKey\<rparr>\<rparr>"
  let ?x = "sampleExecEnv\<lparr>x_OnRunner := False\<rparr>"
  have vars: "set (readVariables ?x ?t) \<subseteq> {''PATH'', ''HOME'', ''LANG'', ''GIT_KEY''}"
    "''GIT_KEY'' \<in> set (readVariables sampleExecEnv ?t)"
    by (simp_all add: readVariables_def runKeys_def keyVariables_def envKey_def execKey_def execExecutor_def
        execInventory_def execTemplate_def execRepository_def zeroInventory_def zeroTemplate_def zeroAccessKey_def sampleExecEnv_def)
  have "executor_Run (?x\<lparr>x_getenv := sampleGetenv(''ALDIS_DB_PASS'' := ''other'')\<rparr>) ''admin'' None [] (execHost\<lparr>h_exec := ?t\<rparr>) =
        executor_Run ?x ''admin'' None [] (execHost\<lparr>h_exec := ?t\<rparr>)"
    by (rule Run_environment_isolated) (use vars(1) in \<open>auto simp: sampleExecEnv_def sampleGetenv_def\<close>)
  then show ?thesis using vars(2) by (simp add: sampleExecEnv_def sampleGetenv_def)
qed

end
