(* ===== verification/Executor_Properties.thy ===== *)
theory Executor_Properties
  imports Executor_Environment
begin

text \<open>
  What the local executor hands to the applications: Terraform's two stages, the survey variables, the words of
  the shell, and the delays between attempts of git.
\<close>

subsection \<open>Terraform\<close>

text \<open>The processes among some effects.\<close>

definition processes :: "exec_effect list \<Rightarrow> Cmd list" where
  "processes es = concat (map (\<lambda>e. case e of Process c \<Rightarrow> [c] | _ \<Rightarrow> []) es)"

lemma processes_append [simp]: "processes (es @ es') = processes es @ processes es'"
  by (simp add: processes_def)

definition planCmd :: "ExecEnv \<Rightarrow> RunningExecutor \<Rightarrow> Prepared \<Rightarrow> Cmd" where
  "planCmd x t p = tf_makeCmd x t ([''plan'', ''-lock=false''] @ planArgsOf (prep_Args p)) (prep_Env p)"

definition applyCmd :: "ExecEnv \<Rightarrow> RunningExecutor \<Rightarrow> Prepared \<Rightarrow> Cmd" where
  "applyCmd x t p = tf_makeCmd x t ([''apply'', ''-auto-approve'', ''-lock=false''] @ applyArgsOf (prep_Args p)) (prep_Env p)"

text \<open>Waiting ends at the first status that is a decision.\<close>

lemma awaitDecision_result:
  assumes "awaitDecision h = Some y"
  shows "\<exists>n. snd y = h\<lparr>h_trace := h_trace h @ replicate n (Sleep 3000000000)\<rparr> \<and>
             (\<exists>s. fst y = Inr s \<and> s = h_status h (h_trace (snd y)) \<and> decided s)"
proof (rule awaitDecision.raw_induct [OF _ assms])
  fix aw :: "TaskStatus action" and h y
  assume IH: "\<And>h y. aw h = Some y \<Longrightarrow>
      \<exists>n. snd y = h\<lparr>h_trace := h_trace h @ replicate n (Sleep 3000000000)\<rparr> \<and>
          (\<exists>s. fst y = Inr s \<and> s = h_status h (h_trace (snd y)) \<and> decided s)"
    and step: "(let h1 = h\<lparr>h_trace := h_trace h @ [Sleep (3 * 1000000000)]\<rparr>; s = h_status h1 (h_trace h1)
                in if decided s then Some (Inr s, h1) else aw h1) = Some y"
  let ?h1 = "h\<lparr>h_trace := h_trace h @ [Sleep 3000000000]\<rparr>"
  show "\<exists>n. snd y = h\<lparr>h_trace := h_trace h @ replicate n (Sleep 3000000000)\<rparr> \<and>
          (\<exists>s. fst y = Inr s \<and> s = h_status h (h_trace (snd y)) \<and> decided s)"
  proof (cases "decided (h_status h (h_trace h @ [Sleep 3000000000]))")
    case True
    then have "y = (Inr (h_status h (h_trace h @ [Sleep 3000000000])), ?h1)" using step by (simp add: Let_def)
    then show ?thesis using True by (intro exI [of _ 1]) simp
  next
    case False
    then have "aw ?h1 = Some y" using step by (simp add: Let_def)
    from IH [OF this] obtain n where n: "snd y = ?h1\<lparr>h_trace := h_trace ?h1 @ replicate n (Sleep 3000000000)\<rparr>"
      "\<exists>s. fst y = Inr s \<and> s = h_status ?h1 (h_trace (snd y)) \<and> decided s" by blast
    then show ?thesis by (intro exI [of _ "Suc n"]) simp
  qed
qed

lemma processes_sleeps [simp]: "processes (replicate n (Sleep d)) = []"
  by (induction n) (simp_all add: processes_def)

text \<open>The part of the run after the plan.\<close>

definition afterPlan :: "ExecEnv \<Rightarrow> RunningExecutor \<Rightarrow> Prepared \<Rightarrow> unit action" where
  "afterPlan x t p =
     seqA getNoChanges (\<lambda>noChanges.
       if noChanges \<or> tfTaskParam t ''plan'' then setStatus TaskSuccessStatus
       else if tfTemplateParam t ''auto_approve'' \<or>
               tfTemplateParam t ''allow_auto_approve'' \<and> tfTaskParam t ''auto_approve''
       then bothA (setStatus TaskRunningStatus) (tf_Apply x (applyArgsOf (prep_Args p)) (prep_Env p))
       else bothA (setStatus TaskWaitingConfirmation)
              (seqA awaitDecision (\<lambda>s.
                 if s = TaskRejected then setStatus TaskFailStatus
                 else if s = TaskConfirmed
                 then bothA (setStatus TaskRunningStatus) (tf_Apply x (applyArgsOf (prep_Args p)) (prep_Env p))
                 else return ())))"

lemma tf_Plan_value:
  "tf_Plan x as env h =
     (let plan = Process (tf_makeCmd x (h_exec h) ([''plan'', ''-lock=false''] @ as) env);
          h1 = h\<lparr>h_trace := h_trace h @ [plan]\<rparr>
      in case h_fails h (h_trace h) plan of
           Some err \<Rightarrow> Some (Inl err, h1)
         | None \<Rightarrow> Some (Inr (), if containsStr ''No changes.'' (h_output h (h_trace h) plan)
                              then h1\<lparr>h_noChanges := True\<rparr> else h1))"
  by (simp add: tf_Plan_def Let_def seqA_def getExec_def performOut_def noteChanges_def split: option.split)

lemma tf_Run_parts:
  "tf_Run x p h = bothA (tf_Plan x (planArgsOf (prep_Args p)) (prep_Env p)) (afterPlan x (h_exec h) p) h"
  unfolding tf_Run_def afterPlan_def Let_def by (simp add: seqA_def [of getExec] getExec_def)

lemma tf_Run_steps:
  "tf_Run x p h =
     (let plan = Process (planCmd x (h_exec h) p); h1 = h\<lparr>h_trace := h_trace h @ [plan]\<rparr>
      in case h_fails h (h_trace h) plan of
           Some err \<Rightarrow> Some (Inl err, h1)
         | None \<Rightarrow> afterPlan x (h_exec h) p
             (if containsStr ''No changes.'' (h_output h (h_trace h) plan) then h1\<lparr>h_noChanges := True\<rparr> else h1))"
  unfolding tf_Run_parts planCmd_def Let_def
  by (cases "h_fails h (h_trace h) (Process (planCmd x (h_exec h) p))")
    (simp_all add: bothA_def seqA_def tf_Plan_value Let_def planCmd_def)

lemma tf_Apply_effect:
  "tf_Apply x (applyArgsOf (prep_Args p)) (prep_Env p) h = Some (r, h') \<Longrightarrow>
     h_trace h' = h_trace h @ [Process (applyCmd x (h_exec h) p)]"
  by (auto simp: tf_Apply_def seqA_def getExec_def perform_def applyCmd_def Let_def split: option.splits)

lemma afterPlan_effects:
  assumes "afterPlan x t p h = Some (r, h')" and "h_exec h = t"
  shows "\<exists>es. h_trace h' = h_trace h @ es \<and>
    (processes es = [] \<or>
     processes es = [applyCmd x t p] \<and> \<not> h_noChanges h \<and> \<not> tfTaskParam t ''plan'' \<and>
     (tfTemplateParam t ''auto_approve'' \<or> tfTemplateParam t ''allow_auto_approve'' \<and> tfTaskParam t ''auto_approve'' \<or>
      (\<exists>n. h_status h (h_trace h @ [ReportStatus TaskWaitingConfirmation] @ replicate n (Sleep 3000000000)) = TaskConfirmed)))"
proof -
  let ?auto = "tfTemplateParam t ''auto_approve'' \<or> tfTemplateParam t ''allow_auto_approve'' \<and> tfTaskParam t ''auto_approve''"
  let ?apply = "bothA (setStatus TaskRunningStatus) (tf_Apply x (applyArgsOf (prep_Args p)) (prep_Env p))"
  have status: "setStatus s g = Some (Inr (), g\<lparr>h_trace := h_trace g @ [ReportStatus s]\<rparr>)" for s g
    by (simp add: setStatus_def ignoring_def)
  have apply': "\<exists>es. h_trace h' = h_trace g @ es \<and> processes es = [applyCmd x t p]"
    if a: "?apply g = Some (r, h')" and t: "h_exec g = t" for g
  proof -
    have "tf_Apply x (applyArgsOf (prep_Args p)) (prep_Env p) (g\<lparr>h_trace := h_trace g @ [ReportStatus TaskRunningStatus]\<rparr>) = Some (r, h')"
      using a by (simp add: bothA_def seqA_def status)
    from tf_Apply_effect [OF this] t show ?thesis by (auto simp: processes_def)
  qed
  show ?thesis
  proof (cases "h_noChanges h \<or> tfTaskParam t ''plan''")
    case True
    then have "h' = h\<lparr>h_trace := h_trace h @ [ReportStatus TaskSuccessStatus]\<rparr>"
      using assms(1) by (auto simp: afterPlan_def seqA_def getNoChanges_def status)
    then show ?thesis by (auto simp: processes_def)
  next
    case False
    show ?thesis
    proof (cases ?auto)
      case True
      then have "?apply h = Some (r, h')" using assms(1) False by (simp add: afterPlan_def seqA_def getNoChanges_def)
      from apply' [OF this assms(2)] show ?thesis using True False by blast
    next
      case no: False
      let ?h1 = "h\<lparr>h_trace := h_trace h @ [ReportStatus TaskWaitingConfirmation]\<rparr>"
      obtain y where y: "awaitDecision ?h1 = Some y"
        using assms(1) False no by (cases "awaitDecision ?h1") (auto simp: afterPlan_def seqA_def getNoChanges_def bothA_def status)
      obtain n s where n: "snd y = ?h1\<lparr>h_trace := h_trace ?h1 @ replicate n (Sleep 3000000000)\<rparr>"
        and s: "fst y = Inr s" "s = h_status ?h1 (h_trace (snd y))"
        using awaitDecision_result [OF y] by blast
      define h2 where "h2 = snd y"
      have rest: "(if s = TaskRejected then setStatus TaskFailStatus else if s = TaskConfirmed then ?apply else return ()) h2 = Some (r, h')"
        using assms(1) False no y s(1) unfolding h2_def
        by (cases y) (simp add: afterPlan_def seqA_def [of getNoChanges] getNoChanges_def bothA_def [of "setStatus TaskWaitingConfirmation"]
            seqA_def [of "setStatus TaskWaitingConfirmation"] seqA_def [of awaitDecision] status)
      have h2: "h_exec h2 = t" "h_trace h2 = h_trace h @ [ReportStatus TaskWaitingConfirmation] @ replicate n (Sleep 3000000000)"
        using n assms(2) by (simp_all add: h2_def)
      show ?thesis
      proof (cases "s = TaskConfirmed")
        case True
        then obtain es where "h_trace h' = h_trace h2 @ es" "processes es = [applyCmd x t p]"
          using rest apply' [of h2] h2(1) by auto
        moreover have "h_status h (h_trace h @ [ReportStatus TaskWaitingConfirmation] @ replicate n (Sleep 3000000000)) = TaskConfirmed"
          using s(2) True n by simp
        moreover have "processes ([ReportStatus TaskWaitingConfirmation] @ replicate n (Sleep 3000000000) @ es) = processes es"
          by (simp add: processes_def)
        ultimately show ?thesis using h2(2) False
          by (intro exI [of _ "[ReportStatus TaskWaitingConfirmation] @ replicate n (Sleep 3000000000) @ es"]) auto
      next
        case no': False
        then obtain es where "h_trace h' = h_trace h2 @ es" "processes es = []"
          using rest by (cases "s = TaskRejected") (auto simp: status return_def processes_def)
        then show ?thesis using h2(2)
          by (intro exI [of _ "[ReportStatus TaskWaitingConfirmation] @ replicate n (Sleep 3000000000) @ es"])
            (auto simp: processes_def)
      qed
    qed
  qed
qed

text \<open>C5. Terraform applies a plan only with approval. A run of the application starts the plan and, after it, at most the
  apply command; it starts apply only when the plan succeeded and found changes, the task is not for the plan only,
  and either the run is approved automatically - by the template, or by the task where the template allows it -
  or the status that the executor read last was the confirmation of a user.\<close>
theorem tf_apply_needs_approval:
  assumes "tf_Run x p h = Some (r, h')"
  shows "\<exists>es. h_trace h' = h_trace h @ es \<and>
    (processes es = [planCmd x (h_exec h) p] \<or>
     processes es = [planCmd x (h_exec h) p, applyCmd x (h_exec h) p] \<and>
     h_fails h (h_trace h) (Process (planCmd x (h_exec h) p)) = None \<and>
     \<not> containsStr ''No changes.'' (h_output h (h_trace h) (Process (planCmd x (h_exec h) p))) \<and>
     \<not> tfTaskParam (h_exec h) ''plan'' \<and>
     (tfTemplateParam (h_exec h) ''auto_approve'' \<or>
      tfTemplateParam (h_exec h) ''allow_auto_approve'' \<and> tfTaskParam (h_exec h) ''auto_approve'' \<or>
      (\<exists>n. h_status h (h_trace h @ [Process (planCmd x (h_exec h) p), ReportStatus TaskWaitingConfirmation] @
                         replicate n (Sleep 3000000000)) = TaskConfirmed)))"
proof -
  let ?plan = "Process (planCmd x (h_exec h) p)"
  let ?h1 = "h\<lparr>h_trace := h_trace h @ [?plan]\<rparr>"
  show ?thesis
  proof (cases "h_fails h (h_trace h) ?plan")
    case (Some err)
    then have "h' = ?h1" using assms by (simp add: tf_Run_steps Let_def)
    then show ?thesis by (intro exI [of _ "[?plan]"]) (simp add: processes_def)
  next
    case None
    let ?found = "containsStr ''No changes.'' (h_output h (h_trace h) ?plan)"
    have "afterPlan x (h_exec h) p (if ?found then ?h1\<lparr>h_noChanges := True\<rparr> else ?h1) = Some (r, h')"
      using assms None by (simp add: tf_Run_steps Let_def)
    from afterPlan_effects [OF this] obtain es where es: "h_trace h' = h_trace h @ [?plan] @ es"
      "processes es = [] \<or> processes es = [applyCmd x (h_exec h) p] \<and> \<not> ?found \<and> \<not> tfTaskParam (h_exec h) ''plan'' \<and>
        (tfTemplateParam (h_exec h) ''auto_approve'' \<or>
         tfTemplateParam (h_exec h) ''allow_auto_approve'' \<and> tfTaskParam (h_exec h) ''auto_approve'' \<or>
         (\<exists>n. h_status h (h_trace h @ [?plan, ReportStatus TaskWaitingConfirmation] @ replicate n (Sleep 3000000000)) =
              TaskConfirmed))"
      by (cases ?found) auto
    have "processes ([?plan] @ es) = planCmd x (h_exec h) p # processes es" by (simp add: processes_def)
    then show ?thesis using es None by (intro exI [of _ "[?plan] @ es"]) auto
  qed
qed

text \<open>A Terraform template on the sample machine, whose user confirms.\<close>

definition tfHost :: Host where
  "tfHost = execHost\<lparr>h_exec := execExecutor\<lparr>ex_Template := execTemplate\<lparr>Template_App := AppTerraform\<rparr>\<rparr>\<rparr>"

definition tfPrepared :: Prepared where
  "tfPrepared = \<lparr>prep_Env = [], prep_Args = [(''default'', [''-no-color''])], prep_Inputs = []\<rparr>"

lemma tfHost_returns: "tf_Run sampleExecEnv tfPrepared tfHost \<noteq> None"
proof -
  have applied: "\<exists>a b. bothA (setStatus s) (tf_Apply x as env) h = Some (a, b)" for s x as env h
    by (simp add: bothA_def seqA_def setStatus_def ignoring_def tf_Apply_def getExec_def perform_def Let_def split: option.split)
  have out: "containsStr ''No changes.'' ''abc'' = False" by code_simp
  have fails: "h_fails tfHost es e = sampleFails es e" "h_output tfHost es e = ''abc''" for es e
    by (simp_all add: tfHost_def execHost_def sampleOutput_def)
  have await: "awaitDecision h = Some (Inr TaskConfirmed, h\<lparr>h_trace := h_trace h @ [Sleep 3000000000]\<rparr>)"
    if "h_status h = sampleStatus" for h
    using that by (subst awaitDecision.simps) (simp add: Let_def sampleStatus_def decided_def)
  have flags: "h_noChanges tfHost = False" "tfTaskParam (h_exec tfHost) n = False" "tfTemplateParam (h_exec tfHost) n = False" for n
    by (auto simp: tfHost_def execHost_def execExecutor_def execTemplate_def execTask_def zeroTask_def tfTaskParam_def
        tfTemplateParam_def boolField_def fieldFor_def TerraformTemplateParams_def toUpper_def)
  show ?thesis
    by (simp add: tf_Run_steps Let_def fails sampleFails_def out afterPlan_def seqA_def bothA_def getNoChanges_def flags
        setStatus_def ignoring_def await tf_Apply_def getExec_def perform_def)
      (simp add: tfHost_def execHost_def sampleFails_def await applied)
qed

theorem tf_apply_needs_approval_witness:
  "\<exists>r h' es. tf_Run sampleExecEnv tfPrepared tfHost = Some (r, h') \<and> h_trace h' = h_trace tfHost @ es \<and>
     planCmd sampleExecEnv (h_exec tfHost) tfPrepared \<in> set (processes es)"
proof -
  obtain r h' where run: "tf_Run sampleExecEnv tfPrepared tfHost = Some (r, h')" using tfHost_returns by fastforce
  show ?thesis using tf_apply_needs_approval [OF run] run by fastforce
qed

text \<open>The arguments of the two stages.\<close>

lemma map_of_stages:
  "map_of (map (\<lambda>(stage, as). (stage, if stage = ''init'' then as else f as)) m) s =
     map_option (\<lambda>as. if s = ''init'' then as else f as) (map_of m s)"
  by (induction m) auto

text \<open>The approved plan is what is applied: when the arguments of the template and of the task are lists, or name no
  stage but the default one, plan and apply get the same arguments: \<^verbatim>\<open>-destroy\<close> for a destroy task, the arguments,
  every variable and every secret.\<close>
lemma tf_stages_agree:
  assumes "getCLIArgsMap x t = Inr (tplArgs, taskArgs)" and "getTerraformArgs x t username incomingVersion = Some (Inr m)"
    and "getEnvironmentExtraVars x t username incomingVersion = Some (Inr vars)"
    and "map fst tplArgs = [''default'']" and "\<forall>s \<in> set (map fst taskArgs). s = ''default''"
  shows "planArgsOf m = applyArgsOf m \<and>
         (\<exists>as. planArgsOf m =
            (if boolField TerraformTaskParams ''destroy'' (Task_Params (ex_Task t)) then [''-destroy''] else []) @ as @
            withVar (varAssignments x vars) @ withVar (secretVars t))"
proof -
  let ?d = "if boolField TerraformTaskParams ''destroy'' (Task_Params (ex_Task t)) then [''-destroy''] else []"
  let ?f = "\<lambda>as. ?d @ as @ withVar (varAssignments x vars) @ withVar (secretVars t)"
  obtain as where tpl: "tplArgs = [(''default'', as)]" using assms(4) by (cases tplArgs) auto
  have fold: "\<exists>bs. fold (\<lambda>(stage, as) m. AList.update stage ((case map_of m stage of Some old \<Rightarrow> old | None \<Rightarrow> []) @ as) m) task
                [(''default'', as)] = [(''default'', bs)]" if "\<forall>s \<in> set (map fst task). s = ''default''" for task as
    using that by (induction task arbitrary: as) auto
  obtain bs where merged: "mergeStages tplArgs taskArgs = [(''default'', bs)]"
    using fold [OF assms(5), of as] by (auto simp: mergeStages_def tpl)
  have "m = map (\<lambda>(stage, as). (stage, if stage = ''init'' then as else ?f as)) [(''default'', bs)]"
    using assms(1,2,3) merged by (auto simp: getTerraformArgs_def Let_def split: option.splits)
  then have "m = [(''default'', ?f bs)]" by simp
  then show ?thesis by (auto simp: planArgsOf_def applyArgsOf_def)
qed

text \<open>Arguments for the init stage alone lose everything else: when the arguments of a template name the stage \<^verbatim>\<open>init\<close> and no
  other, plan and apply run without any argument, so a destroy task is not a destroy (its plan and apply lack
  \<^verbatim>\<open>-destroy\<close>) and neither variables nor secrets reach them.\<close>
lemma tf_init_stage_loses_arguments:
  assumes "getCLIArgsMap x t = Inr ([(''init'', as)], [])" and "getTerraformArgs x t username incomingVersion = Some (Inr m)"
  shows "planArgsOf m = [] \<and> applyArgsOf m = [] \<and> stageArgs m ''init'' = as"
proof -
  obtain vars where "getEnvironmentExtraVars x t username incomingVersion = Some (Inr vars)"
    using assms(2) by (auto simp: getTerraformArgs_def split: option.splits sum.splits)
  then have "m = [(''init'', as)]"
    using assms by (auto simp: getTerraformArgs_def mergeStages_def Let_def split: option.splits)
  then show ?thesis by (simp add: planArgsOf_def applyArgsOf_def stageArgs_def)
qed

text \<open>The sample machine with a Terraform template whose arguments are a list, or are for the init stage.\<close>

definition stagedExecutor :: "string \<Rightarrow> RunningExecutor" where
  "stagedExecutor args =
     execExecutor\<lparr>ex_Template := execTemplate\<lparr>Template_App := AppTerraform, Template_Arguments := Some args\<rparr>\<rparr>"

lemma stagedExecutor_args:
  "getCLIArgsMap sampleExecEnv (stagedExecutor ''A'') = Inr ([(''default'', [''-v''])], [])"
  "getCLIArgsMap sampleExecEnv (stagedExecutor ''I'') = Inr ([(''init'', [''-lock=true''])], [])"
  by (simp_all add: getCLIArgsMap_def convertArgsJSONIfArray_def stagedExecutor_def execTemplate_def zeroTemplate_def
      sampleExecEnv_def sampleStrings_def sampleStages_def)

lemma staged_extraVars:
  "\<exists>vars. getEnvironmentExtraVars sampleExecEnv (stagedExecutor args) ''admin'' None = Some (Inr vars)"
  by (simp add: getEnvironmentExtraVars_def readVars_def stagedExecutor_def execExecutor_def)

lemma staged_terraformArgs:
  assumes "getCLIArgsMap sampleExecEnv (stagedExecutor args) = Inr z"
  shows "\<exists>m. getTerraformArgs sampleExecEnv (stagedExecutor args) ''admin'' None = Some (Inr m)"
  using staged_extraVars [of args] assms
  by (cases z) (auto simp: getTerraformArgs_def Let_def stagedExecutor_def execExecutor_def execTask_def zeroTask_def
      unmarshalStruct_def split: option.splits sum.splits)

subsection \<open>Survey variables\<close>

lemma map_of_delete_all:
  "map_of (fold AList.delete ns m) k = (if k \<in> set ns then None else map_of m k)"
proof (induction ns arbitrary: m)
  case (Cons n ns)
  then show ?case by (auto simp: AList.delete_conv' AList.map_of_delete)
qed simp

text \<open>Every variable reaches the task through one channel. A variable that the environment or the secret answers of
  the survey define is exported to the process under its name when its survey target is the environment, and is then
  kept out of the extra variables; otherwise it is an extra variable with its value unchanged.\<close>
lemma survey_variable_delivered_once:
  assumes "readVars x (Environment_JSON (ex_Environment t)) (ex_Secret t) = Some (Inr (Some vars))"
    and "map_of vars name = Some val" and "name \<noteq> ''aldis_vars''"
  shows "\<exists>env extra. getSurveyEnvVars x t = Some (Inr env) \<and>
           getEnvironmentExtraVars x t username incomingVersion = Some (Inr extra) \<and>
           (if name \<in> set (envNames (ex_Template t))
            then assignment name (formatVarValue x val) \<in> set env \<and> map_of extra name = None
            else map_of extra name = Some val)"
proof -
  let ?env = "concat (map (\<lambda>n. case map_of vars n of None \<Rightarrow> [] | Some v \<Rightarrow> [assignment n (formatVarValue x v)])
                (envNames (ex_Template t)))"
  have env: "getSurveyEnvVars x t = Some (Inr ?env)" by (simp add: getSurveyEnvVars_def assms(1))
  have mem: "assignment name (formatVarValue x val) \<in> set ?env" if "name \<in> set (envNames (ex_Template t))"
    using that assms(2) by force
  obtain extra where extra: "getEnvironmentExtraVars x t username incomingVersion = Some (Inr extra)"
    "map_of extra name = (if name \<in> set (envNames (ex_Template t)) then None else map_of vars name)"
    using assms(3) by (simp add: getEnvironmentExtraVars_def assms(1) update_conv' map_of_delete_all)
  show ?thesis using env mem extra assms(2) by auto
qed

subsection \<open>Words of the shell\<close>

text \<open>
  A reference reader for the arguments of a command of a POSIX shell. Blanks separate words; quotes belong to the
  word in which they stand, so that a pair of quotes alone is the empty word. Between single quotes all characters
  stand for themselves, between double quotes all but \<open>$\<close>, the backquote and the backslash. Outside quotes a character
  that ends the command, redirects it, starts a comment or is expanded is no part of a word (section 2.2 of the
  standard, and the braces and \<open>!\<close> of other shells); every other character stands for itself. The text of a command has
  no NUL byte.
\<close>

definition shellSpecial :: "char \<Rightarrow> bool" where
  "shellSpecial c \<longleftrightarrow> c \<in> set ([CHR 0x0A, CHR 0x0D, CHR 0x5C, CHR 0x60] @ ''|&;<>()$*?[]#~{}!^'')"

definition shellBlank :: "char \<Rightarrow> bool" where
  "shellBlank c \<longleftrightarrow> c = CHR '' '' \<or> c = CHR 0x09"

datatype quoteMode = Bare | Single | Double

definition wordSoFar :: "string option \<Rightarrow> string" where
  "wordSoFar cur = (case cur of None \<Rightarrow> [] | Some w \<Rightarrow> w)"

fun readWords :: "quoteMode \<Rightarrow> string option \<Rightarrow> string \<Rightarrow> string list option" where
  "readWords Bare cur [] = Some (case cur of None \<Rightarrow> [] | Some w \<Rightarrow> [w])"
| "readWords Single cur [] = None"
| "readWords Double cur [] = None"
| "readWords Bare cur (c # cs) =
     (if c = CHR 0x00 \<or> shellSpecial c then None
      else if c = CHR 0x27 then readWords Single (Some (wordSoFar cur)) cs
      else if c = CHR 0x22 then readWords Double (Some (wordSoFar cur)) cs
      else if shellBlank c
      then (case cur of
              None \<Rightarrow> readWords Bare None cs
            | Some w \<Rightarrow> map_option ((#) w) (readWords Bare None cs))
      else readWords Bare (Some (wordSoFar cur @ [c])) cs)"
| "readWords Single cur (c # cs) =
     (if c = CHR 0x00 then None
      else if c = CHR 0x27 then readWords Bare cur cs
      else readWords Single (Some (wordSoFar cur @ [c])) cs)"
| "readWords Double cur (c # cs) =
     (if c \<in> {CHR 0x00, CHR 0x24, CHR 0x60, CHR 0x5C} then None
      else if c = CHR 0x22 then readWords Bare cur cs
      else readWords Double (Some (wordSoFar cur @ [c])) cs)"

lemma shellSafe_plain:
  assumes "shellSafe c"
  shows "c \<noteq> CHR 0x00 \<and> \<not> shellSpecial c \<and> c \<noteq> CHR 0x27 \<and> c \<noteq> CHR 0x22 \<and> \<not> shellBlank c"
  using assms unfolding shellSafe_def shellSpecial_def shellBlank_def by auto

lemma readWords_safe: "list_all shellSafe s \<Longrightarrow> readWords Bare (Some w) s = Some [w @ s]"
proof (induction s arbitrary: w)
  case (Cons c cs)
  then show ?case using shellSafe_plain [of c] by (simp add: wordSoFar_def)
qed simp

lemma readWords_quoted:
  "CHR 0x00 \<notin> set s \<Longrightarrow> readWords Single (Some w) (concat (map quoteChar s) @ [CHR 0x27]) = Some [w @ s]"
proof (induction s arbitrary: w)
  case (Cons c cs)
  then show ?case by (cases "c = CHR 0x27") (auto simp: quoteChar_def wordSoFar_def shellSpecial_def)
qed (simp add: wordSoFar_def)

text \<open>C34. Quoting a word for the shell loses nothing and injects nothing: a POSIX shell reads the quoted form of any
  string without a NUL byte as exactly one word, the string itself.\<close>
theorem ShellQuote_roundtrip:
  assumes "CHR 0x00 \<notin> set s"
  shows "readWords Bare None (ShellQuote s) = Some [s]"
proof (cases "list_all shellSafe s")
  case True
  show ?thesis
  proof (cases s)
    case Nil
    then show ?thesis by (simp add: ShellQuote_def wordSoFar_def shellSpecial_def)
  next
    case (Cons c cs)
    then show ?thesis
      using True shellSafe_plain [of c] readWords_safe [of cs "[c]"] by (simp add: ShellQuote_def wordSoFar_def)
  qed
next
  case False
  then have "ShellQuote s = CHR 0x27 # concat (map quoteChar s) @ [CHR 0x27]" by (auto simp: ShellQuote_def)
  then show ?thesis
    using readWords_quoted [OF assms, of "[]"] by (simp add: wordSoFar_def shellSpecial_def)
qed

theorem ShellQuote_roundtrip_witness:
  "readWords Bare None (ShellQuote ''rm -rf /; $(id)'') = Some [''rm -rf /; $(id)''] \<and>
   readWords Bare None ''rm -rf /; $(id)'' = None"
proof (rule conjI, rule ShellQuote_roundtrip)
  show "readWords Bare None ''rm -rf /; $(id)'' = None" by code_simp
qed simp

subsection \<open>Delays between attempts\<close>

lemma gitRetryLoop_closed:
  assumes "0 \<le> delay"
  shows "min gitRetryMaxDelay (gitRetryLoop n delay) = min gitRetryMaxDelay (delay * 2 ^ n)"
  using assms
proof (induction n arbitrary: delay)
  case (Suc n)
  show ?case
  proof (cases "delay < gitRetryMaxDelay")
    case True
    then have "wrap64 (delay * 2) = delay * 2"
      using Suc.prems by (intro wrap64_id) (auto simp: gitRetryMaxDelay_def inInt64_def)
    then show ?thesis using Suc.IH [of "delay * 2"] Suc.prems True by (simp add: mult.assoc mult.commute)
  next
    case False
    have "(1::int) \<le> 2 ^ Suc n" by (rule one_le_power) simp
    then have "delay * 1 \<le> delay * 2 ^ Suc n" using Suc.prems by (rule mult_left_mono)
    then show ?thesis using False by simp
  qed
qed simp

text \<open>C36. The delay before an attempt is the base doubled once per attempt made, capped: the loop computes
  \<open>min max (base * 2 ^ (attempt - 1))\<close>, for every number of attempts, and the 64 bits of a duration never wrap around,
  so no delay is negative.\<close>
theorem gitRetryDelayFor_capped:
  assumes "0 \<le> base" and "1 \<le> attempt"
  shows "gitRetryDelayFor base attempt = min gitRetryMaxDelay (base * 2 ^ (attempt - 1)) \<and> 0 \<le> gitRetryDelayFor base attempt"
proof -
  have "gitRetryDelayFor base attempt = min gitRetryMaxDelay (gitRetryLoop (attempt - 1) base)"
    by (auto simp: gitRetryDelayFor_def Let_def)
  then show ?thesis using gitRetryLoop_closed [OF assms(1), of "attempt - 1"] assms(1) by (simp add: gitRetryMaxDelay_def)
qed

theorem gitRetryDelayFor_capped_witness:
  "gitRetryDelayFor gitRetryDelay 70 = 60000000000"
  using gitRetryDelayFor_capped [of gitRetryDelay 70] by (simp add: gitRetryDelay_def gitRetryMaxDelay_def)

text \<open>A survey variable with the environment as its target, on the sample machine.\<close>

definition surveyExecutor :: RunningExecutor where
  "surveyExecutor = execExecutor\<lparr>
     ex_Template := execTemplate\<lparr>Template_SurveyVars :=
       [\<lparr>Survey_Name = ''region'', Survey_Type = [], Survey_Target = ''env'', Survey_Values = [],
         Survey_DefaultValue = None\<rparr>]\<rparr>,
     ex_Environment := (ex_Environment execExecutor)\<lparr>Environment_JSON := ''E''\<rparr>\<rparr>"

subsection \<open>Parameters of Ansible\<close>

text \<open>The parameters of an Ansible task override nothing without permission: if the template permits no override of
  limit, tags, skipped tags and debugging, two tasks that differ in their parameters get the same command line, as long
  as both ask for the same of \<^verbatim>\<open>--diff\<close> and \<^verbatim>\<open>--check\<close>.\<close>
lemma ansible_params_need_permission:
  assumes "\<And>allow. allow \<in> {''allow_override_limit'', ''allow_override_tags'', ''allow_override_skip_tags'', ''allow_debug''} \<Longrightarrow>
             \<not> boolField AnsibleTemplateParams allow (Template_TaskParams (ex_Template t))"
    and "\<And>name. name \<in> {''diff'', ''dry_run''} \<Longrightarrow>
             boolField AnsibleTaskParams name params = boolField AnsibleTaskParams name (Task_Params (ex_Task t))"
    and "unmarshalStruct AnsibleTaskParams params = None" and "unmarshalStruct AnsibleTaskParams (Task_Params (ex_Task t)) = None"
  shows "getPlaybookArgs x (t\<lparr>ex_Task := (ex_Task t)\<lparr>Task_Params := params\<rparr>\<rparr>) username incomingVersion =
         getPlaybookArgs x t username incomingVersion"
proof -
  let ?t = "t\<lparr>ex_Task := (ex_Task t)\<lparr>Task_Params := params\<rparr>\<rparr>"
  have same: "inventoryFilename x ?t = inventoryFilename x t" "userArgs ?t = userArgs t" "becomeArgs ?t = becomeArgs t"
    "getEnvironmentExtraVarsJSON x ?t username incomingVersion = getEnvironmentExtraVarsJSON x t username incomingVersion"
    "getCLIArgs x ?t = getCLIArgs x t" "secretVars ?t = secretVars t"
    by (simp_all add: inventoryFilename_def tmpInventoryFullPath_def tmpInventoryFilename_def userArgs_def becomeArgs_def
        getEnvironmentExtraVarsJSON_def getEnvironmentExtraVars_def getTaskDetails_def GetUrl_def getCLIArgs_def
        secretVars_def Let_def cong: option.case_cong sum.case_cong)
  show ?thesis
    by (simp add: getPlaybookArgs_def same debugArgs_def overridden_def assms Let_def
        cong: option.case_cong sum.case_cong prod.case_cong if_cong)
qed

subsection \<open>Playbooks and keys\<close>

lemma bothA_Inl: "m h = Some (Inl err, h1) \<Longrightarrow> bothA m m1 h = Some (Inl err, h1)"
  by (simp add: bothA_def seqA_def)

text \<open>C35. A playbook outside the repository is never run: if the playbook of the template or of the task escapes the repository,
  a run ends with an error, and all it does is to report the status and to remove the inventory file it would have
  written. No command is started, nothing is cloned and no key is installed.\<close>
theorem escaping_playbook_has_no_effect:
  assumes "ValidatePlaybookPath (Template_Playbook (ex_Template (h_exec h))) ''template'' \<noteq> None \<or>
           ValidatePlaybookPath (Task_Playbook (ex_Task (h_exec h))) ''task'' \<noteq> None"
    and "h_prepared h = None" and "h_backend h = []"
    and "ex_sshKey (h_exec h) = noInstallation" and "ex_becomeKey (h_exec h) = noInstallation" and "ex_vaultFiles (h_exec h) = []"
  shows "\<exists>err es h'. executor_Run x username incomingVersion taskAlias h = Some (Inl err, h') \<and>
           h_trace h' = h_trace h @ ReportStatus TaskRunningStatus # es \<and>
           set es \<subseteq> {RemoveFile (tmpInventoryFullPath x (h_exec h))}"
proof -
  let ?h1 = "h\<lparr>h_trace := h_trace h @ [ReportStatus TaskRunningStatus]\<rparr>"
  obtain err where check: "checkPlaybooks ?h1 = Some (Inl err, ?h1)"
    using assms(1)
    by (cases "ValidatePlaybookPath (Template_Playbook (ex_Template (h_exec h))) ''template''";
        cases "ValidatePlaybookPath (Task_Playbook (ex_Task (h_exec h))) ''task''")
      (auto simp: checkPlaybooks_def seqA_def getExec_def throw_def)
  have prep: "Prepare x username incomingVersion taskAlias h = Some (Inl err, ?h1)"
  proof -
    have "setStatus TaskRunningStatus h = Some (Inr (), ?h1)" by (simp add: setStatus_def ignoring_def)
    moreover have "Prepare x username incomingVersion taskAlias h = prepareOnce x username incomingVersion taskAlias h"
      using assms(2) by (simp add: Prepare_def seqA_def getPrepared_def)
    ultimately show ?thesis
      using check by (simp only: prepareOnce_def bothA_Inr [where m = "setStatus TaskRunningStatus"] bothA_Inl)
  qed
  have cleanup: "Cleanup x ?h1 = Some (Inr (), if IsStatic (Inventory_Type (ex_Inventory (h_exec h)))
          then ?h1\<lparr>h_trace := h_trace ?h1 @ [RemoveFile (tmpInventoryFullPath x (h_exec h))]\<rparr> else ?h1)"
    using assms(3-6)
    by (simp add: Cleanup_def destroyKeys_def destroyInventoryFile_def app_Clear_def tf_Clear_def bothA_def seqA_def
        getExec_def Destroy_def noInstallation_def return_def whenA_def ignoring_def)
  show ?thesis
    unfolding executor_Run_def deferA_def bothA_Inl [where m = "Prepare x username incomingVersion taskAlias", OF prep] by (simp add: cleanup)
qed

theorem escaping_playbook_has_no_effect_witness:
  "\<exists>err h'. executor_Run sampleExecEnv ''admin'' None []
       (execHost\<lparr>h_exec := execExecutor\<lparr>ex_Task := execTask\<lparr>Task_Playbook := ''../x.yml''\<rparr>\<rparr>\<rparr>) = Some (Inl err, h')"
proof -
  have "ValidatePlaybookPath ''../x.yml'' ''task'' \<noteq> None" by code_simp
  then show ?thesis
    using escaping_playbook_has_no_effect
      [of "execHost\<lparr>h_exec := execExecutor\<lparr>ex_Task := execTask\<lparr>Task_Playbook := ''../x.yml''\<rparr>\<rparr>\<rparr>"
        sampleExecEnv "''admin''" None "[]"]
    by (simp add: execHost_def execExecutor_def) blast
qed

text \<open>A become key without a secret is accepted by the server and refused by a runner.\<close>

lemma become_key_none_differs:
  assumes "Key_Type k = ''none''"
  shows "Install x k RoleAnsibleBecomeUser h =
    (if x_OnRunner x then Some (Inl (ErrOther ''access key type not supported for ansible become user''), h)
     else Some (Inr noInstallation, h))"
  using assms by (simp add: Install_def KeyInstaller_Install_def Service_Install_def return_def throw_def)

text \<open>A large number of a survey is exported with an exponent.\<close>

lemma large_number_exponent: "formatVarValue x (JNumber 1000000) = ''1e+06''"
proof -
  have digits: "digitChar (Suc 0) = CHR 0x31" "digitChar 0 = CHR 0x30"
    "digitChar (Suc (Suc (Suc (Suc (Suc (Suc 0)))))) = CHR 0x36" by code_simp+
  have "natDigits 1000000 = ''1000000''" by (simp add: natDigits.simps digits)
  then have "formatFloat 1000000 = ''1e+06''" by (simp add: formatFloat_def natDigits.simps digits)
  then show ?thesis by simp
qed

end
