(* ===== verification/Api_Store.thy ===== *)
theory Api_Store
  imports Runner_Api Permissions Access_Keys
begin

text \<open>
  The tables behind the API for users: accounts, second factors, sessions, tokens, members of projects, roles
  and external identities (\<^verbatim>\<open>db/User.go\<close>, \<^verbatim>\<open>db/Session.go\<close>, \<^verbatim>\<open>db/APIToken.go\<close>, \<^verbatim>\<open>db/ProjectUser.go\<close>, \<^verbatim>\<open>db/Role.go\<close>,
  \<^verbatim>\<open>db/UserExternalIdentity.go\<close>) with their queries (\<^verbatim>\<open>db/sql/user.go\<close>, \<^verbatim>\<open>db/sql/session.go\<close>, \<^verbatim>\<open>db/sql/role.go\<close>,
  \<^verbatim>\<open>db/sql/external_identity.go\<close>). As in \<^verbatim>\<open>Db_Model\<close>, a table is a list of rows and every query may fail; the task
  pool with its own tables is a component of the state. Unique columns and cascading deletes follow the
  migrations under \<^verbatim>\<open>db/sql/migrations\<close>.
\<close>

subsection \<open>Rows\<close>

record UserTotp =
  Totp_ID :: ident
  Totp_UserID :: ident
  Totp_URL :: string
  Totp_RecoveryHash :: string
  Totp_RecoveryCode :: string

text \<open>The field \<^verbatim>\<open>Totp\<close> is no column: \<^verbatim>\<open>GetUser\<close> fills it.\<close>

record Account = User +
  User_Name :: string
  User_Email :: string
  User_Password :: string
  User_External :: bool
  User_Alert :: bool
  User_Pro :: bool
  User_Totp :: "UserTotp option"

record UserWithPwd = Account +
  User_Pwd :: string

datatype SessionVerificationMethod = SessionVerificationNone | SessionVerificationTotp | SessionVerificationEmail

record Session =
  Session_ID :: ident
  Session_UserID :: ident
  Session_LastActive :: go_time
  Session_Expired :: bool
  Session_VerificationMethod :: SessionVerificationMethod
  Session_Verified :: bool

record APIToken =
  Token_ID :: string
  Token_Created :: go_time
  Token_Expired :: bool
  Token_ExpiresAt :: "go_time option"
  Token_UserID :: ident
  Token_Name :: string

record ProjectUser =
  PU_ProjectID :: ident
  PU_UserID :: ident
  PU_Role :: string

record TemplateRolePerm =
  TRP_TemplateID :: ident
  TRP_ProjectID :: ident
  TRP_RoleSlug :: string
  TRP_Permissions :: ProjectUserPermission

record UserExternalIdentity =
  Ident_UserID :: ident
  Ident_Type :: string
  Ident_Provider :: string
  Ident_ExternalUID :: string

definition ValidateUser :: "'a Account_scheme \<Rightarrow> go_error option" where
  "ValidateUser u =
     (if User_Username u = [] then Some (ValidationError ''Username cannot be empty'')
      else if User_Email u = [] then Some (ValidationError ''Email cannot be empty'')
      else if User_Name u = [] then Some (ValidationError ''Name cannot be empty'')
      else None)"

definition IsVerified :: "Session \<Rightarrow> bool" where
  "IsVerified s \<longleftrightarrow> Session_VerificationMethod s = SessionVerificationNone \<or> Session_Verified s"

definition IsExpiredAt :: "APIToken \<Rightarrow> go_time \<Rightarrow> bool" where
  "IsExpiredAt t at \<longleftrightarrow> Token_Expired t \<or> (case Token_ExpiresAt t of None \<Rightarrow> False | Some e \<Rightarrow> \<not> e > at)"

subsection \<open>State\<close>

datatype api_call =
    S_User | S_Totp | S_EmailOtp | S_CreateUser | S_DeleteUser | S_UpdateUser | S_SetUserPassword | S_GetUsers
  | S_AddTotp | S_DeleteTotp | S_GetSession | S_CreateSession | S_ExpireSession | S_VerifySession | S_TouchSession
  | S_GetAPIToken | S_CreateAPIToken | S_DeleteAPIToken | S_GetAPITokens
  | S_GetProjectUser | S_CreateProjectUser | S_UpdateProjectUser | S_DeleteProjectUser | S_GetProjectUsers
  | S_Role | S_TemplateRole | S_CreateProject | S_UpdateProject | S_DeleteProject | S_GetProjects
  | S_GetIdentity | S_GetIdentities | S_CreateIdentity | S_DeleteIdentity | S_DeleteTask | S_DeleteOutputs | S_DeleteOptions | S_Object

text \<open>
  \<open>a_next\<close> is above every identifier that was given out; \<open>a_pool\<close> is the task pool with its tables, \<open>a_keys\<close> the
  keys and secret storages. \<open>a_sessionFK\<close>: do the sessions reference the accounts, as they do on SQLite
  (\<^verbatim>\<open>migrations/v2.19.14.sql\<close>), and not on MySQL and PostgreSQL. Of schedules, views and integrations \<open>a_object\<close> keeps the table, the project and the ID.
\<close>

record Api =
  a_user :: "Account list"
  a_totp :: "UserTotp list"
  a_session :: "Session list"
  a_sessionFK :: bool
  a_token :: "APIToken list"
  a_projectUser :: "ProjectUser list"
  a_role :: "Role list"
  a_templateRole :: "TemplateRolePerm list"
  a_identity :: "UserExternalIdentity list"
  a_next :: ident
  a_faults :: "api_call \<Rightarrow> bool"
  a_pool :: World
  a_keys :: KeyDb
  a_object :: "(string \<times> ident \<times> ident) list"

definition a_now :: "Api \<Rightarrow> go_time" where
  "a_now d = now (a_pool d)"

text \<open>\<open>pick\<close> reads one row, \<open>change\<close> writes.\<close>

definition pick :: "api_call \<Rightarrow> ('r \<Rightarrow> bool) \<Rightarrow> (Api \<Rightarrow> 'r list) \<Rightarrow> Api \<Rightarrow> go_error + 'r" where
  "pick q P tbl d =
     (if a_faults d q then Inl sqlErr
      else case find P (tbl d) of None \<Rightarrow> Inl ErrNotFound | Some r \<Rightarrow> Inr r)"

definition change :: "api_call \<Rightarrow> (Api \<Rightarrow> Api) \<Rightarrow> Api \<Rightarrow> go_error + Api" where
  "change q f d = (if a_faults d q then Inl sqlErr else Inr (f d))"

text \<open>
  The pool reads accounts and members too, with the joins of its own queries: what it sees follows every write.
\<close>

definition syncPool :: "Api \<Rightarrow> Api" where
  "syncPool d =
     (let w = a_pool d;
          db1 = (db w)\<lparr>tbl_user := map User.truncate (a_user d),
                        tbl_projectUser :=
                          concat (map (\<lambda>p. map (\<lambda>u. (PU_ProjectID p, User.truncate u))
                                             (filter (\<lambda>u. User_ID u = PU_UserID p) (a_user d))) (a_projectUser d))\<rparr>
      in d\<lparr>a_pool := w\<lparr>db := db1\<rparr>\<rparr>)"

definition changeUsers :: "api_call \<Rightarrow> (Api \<Rightarrow> Api) \<Rightarrow> Api \<Rightarrow> go_error + Api" where
  "changeUsers q f = change q (\<lambda>d. syncPool (f d))"

subsection \<open>Accounts\<close>

text \<open>
  The second factor is read with a query of its own. The code stores the error of that query in the variable
  that the next query (for the code sent by mail) overwrites, so only the error of the last query counts.
\<close>

definition withTotp :: "Api \<Rightarrow> Account \<Rightarrow> go_error + Account" where
  "withTotp d u =
     (let totp = (case pick S_Totp (\<lambda>t. Totp_UserID t = User_ID u) a_totp d of Inl _ \<Rightarrow> None | Inr t \<Rightarrow> Some t)
      in if a_faults d S_EmailOtp then Inl sqlErr else Inr (u\<lparr>User_Totp := totp\<rparr>))"

definition q_GetUser :: "ident \<Rightarrow> Api \<Rightarrow> go_error + Account" where
  "q_GetUser userID d =
     (case pick S_User (\<lambda>u. User_ID u = userID) a_user d of Inl err \<Rightarrow> Inl err | Inr u \<Rightarrow> withTotp d u)"

definition q_GetUserByLoginOrEmail :: "string \<Rightarrow> string \<Rightarrow> Api \<Rightarrow> go_error + Account" where
  "q_GetUserByLoginOrEmail login email d =
     (case pick S_User (\<lambda>u. User_Email u = email \<or> User_Username u = login) a_user d of
        Inl err \<Rightarrow> Inl err | Inr u \<Rightarrow> withTotp d u)"

text \<open>The escapes of a \<^verbatim>\<open>LIKE\<close> prefix make it an ordinary prefix.\<close>

definition q_GetUsers :: "string \<Rightarrow> Api \<Rightarrow> go_error + Account list" where
  "q_GetUsers filt d =
     (if a_faults d S_GetUsers then Inl sqlErr
      else Inr (filter (\<lambda>u. take (length filt) (User_Username u) = filt) (a_user d)))"

definition sameNames :: "Account \<Rightarrow> Account \<Rightarrow> bool" where
  "sameNames u v \<longleftrightarrow> User_Username u = User_Username v \<or> User_Email u = User_Email v"

definition insertUser :: "Account \<Rightarrow> Api \<Rightarrow> (go_error + Account) \<times> Api" where
  "insertUser u d =
     (if a_faults d S_CreateUser \<or> (\<exists>v \<in> set (a_user d). sameNames u v) then (Inl sqlErr, d)
      else let u1 = u\<lparr>User_ID := a_next d, User_Totp := None\<rparr>
           in (Inr u1, syncPool (d\<lparr>a_user := a_user d @ [u1], a_next := a_next d + 1\<rparr>)))"

definition q_CreateUserWithoutPassword :: "Account \<Rightarrow> Api \<Rightarrow> (go_error + Account) \<times> Api" where
  "q_CreateUserWithoutPassword u d =
     (case ValidateUser u of Some err \<Rightarrow> (Inl err, d) | None \<Rightarrow> insertUser (u\<lparr>User_Password := []\<rparr>) d)"

definition q_CreateUser :: "(string \<Rightarrow> go_error + string) \<Rightarrow> UserWithPwd \<Rightarrow> Api \<Rightarrow> (go_error + Account) \<times> Api" where
  "q_CreateUser hash u d =
     (case ValidateUser u of
        Some err \<Rightarrow> (Inl err, d)
      | None \<Rightarrow> (case hash (User_Pwd u) of
                  Inl err \<Rightarrow> (Inl err, d)
                | Inr h \<Rightarrow> insertUser ((Account.truncate u)\<lparr>User_Password := h\<rparr>) d))"

text \<open>The rows that reference an account are deleted with it; its sessions stay where they do not reference it.\<close>

definition q_DeleteUser :: "ident \<Rightarrow> Api \<Rightarrow> go_error + Api" where
  "q_DeleteUser userID =
     changeUsers S_DeleteUser (\<lambda>d. d\<lparr>a_user := filter (\<lambda>u. User_ID u \<noteq> userID) (a_user d),
       a_session := filter (\<lambda>s. \<not> a_sessionFK d \<or> Session_UserID s \<noteq> userID) (a_session d),
       a_totp := filter (\<lambda>t. Totp_UserID t \<noteq> userID) (a_totp d),
       a_token := filter (\<lambda>t. Token_UserID t \<noteq> userID) (a_token d),
       a_projectUser := filter (\<lambda>p. PU_UserID p \<noteq> userID) (a_projectUser d),
       a_identity := filter (\<lambda>i. Ident_UserID i \<noteq> userID) (a_identity d)\<rparr>)"

text \<open>\<^verbatim>\<open>UpdateUser\<close> writes the password too when one is given; \<^verbatim>\<open>external\<close> is never written.\<close>

definition writeUser :: "Account \<Rightarrow> Account \<Rightarrow> Account" where
  "writeUser u row =
     row\<lparr>User_Name := User_Name u, User_Username := User_Username u, User_Email := User_Email u,
         User_Alert := User_Alert u, User_Admin := User_Admin u, User_Pro := User_Pro u\<rparr>"

definition q_UpdateUser :: "(string \<Rightarrow> go_error + string) \<Rightarrow> UserWithPwd \<Rightarrow> Api \<Rightarrow> go_error + Api" where
  "q_UpdateUser hash u d =
     (let v = Account.truncate u;
          write = (\<lambda>f. if (\<exists>row \<in> set (a_user d). User_ID row \<noteq> User_ID v \<and> sameNames v row) then Inl sqlErr
                        else changeUsers S_UpdateUser (\<lambda>d. d\<lparr>a_user :=
                               map (\<lambda>row. if User_ID row = User_ID v then f (writeUser v row) else row) (a_user d)\<rparr>) d)
      in if User_Pwd u \<noteq> []
         then (case hash (User_Pwd u) of
                 Inl err \<Rightarrow> Inl err
               | Inr h \<Rightarrow> write (\<lambda>row. row\<lparr>User_Password := h\<rparr>))
         else write (\<lambda>row. row))"

definition q_SetUserPassword :: "(string \<Rightarrow> go_error + string) \<Rightarrow> ident \<Rightarrow> string \<Rightarrow> Api \<Rightarrow> go_error + Api" where
  "q_SetUserPassword hash userID password d =
     (case hash password of
        Inl err \<Rightarrow> Inl err
      | Inr h \<Rightarrow> change S_SetUserPassword (\<lambda>d. d\<lparr>a_user :=
          map (\<lambda>row. if User_ID row = userID then row\<lparr>User_Password := h\<rparr> else row) (a_user d)\<rparr>) d)"

text \<open>A user has at most one second factor (\<^verbatim>\<open>unique (user_id)\<close>), and must exist.\<close>

definition q_AddTotpVerification :: "ident \<Rightarrow> string \<Rightarrow> string \<Rightarrow> Api \<Rightarrow> (go_error + UserTotp) \<times> Api" where
  "q_AddTotpVerification userID url recoveryHash d =
     (if a_faults d S_AddTotp \<or> (\<exists>t \<in> set (a_totp d). Totp_UserID t = userID) \<or> userID \<notin> User_ID ` set (a_user d)
      then (Inl sqlErr, d)
      else let t = \<lparr>Totp_ID = a_next d, Totp_UserID = userID, Totp_URL = url, Totp_RecoveryHash = recoveryHash,
                    Totp_RecoveryCode = []\<rparr>
           in (Inr t, d\<lparr>a_totp := a_totp d @ [t], a_next := a_next d + 1\<rparr>))"

definition q_DeleteTotpVerification :: "ident \<Rightarrow> ident \<Rightarrow> Api \<Rightarrow> go_error + Api" where
  "q_DeleteTotpVerification userID totpID =
     change S_DeleteTotp (\<lambda>d. d\<lparr>a_totp := filter (\<lambda>t. \<not> (Totp_UserID t = userID \<and> Totp_ID t = totpID)) (a_totp d)\<rparr>)"

subsection \<open>Sessions and tokens\<close>

definition q_GetSession :: "ident \<Rightarrow> ident \<Rightarrow> Api \<Rightarrow> go_error + Session" where
  "q_GetSession userID sessionID =
     pick S_GetSession (\<lambda>s. Session_ID s = sessionID \<and> Session_UserID s = userID \<and> \<not> Session_Expired s) a_session"

definition q_CreateSession :: "Session \<Rightarrow> Api \<Rightarrow> (go_error + Session) \<times> Api" where
  "q_CreateSession s d =
     (if a_faults d S_CreateSession \<or>
         a_sessionFK d \<and> \<not> list_ex (\<lambda>u. User_ID u = Session_UserID s) (a_user d) then (Inl sqlErr, d)
      else let s1 = s\<lparr>Session_ID := a_next d\<rparr>
           in (Inr s1, d\<lparr>a_session := a_session d @ [s1], a_next := a_next d + 1\<rparr>))"

definition updateSession :: "api_call \<Rightarrow> (Session \<Rightarrow> Session) \<Rightarrow> ident \<Rightarrow> ident \<Rightarrow> Api \<Rightarrow> go_error + Api" where
  "updateSession q f userID sessionID =
     change q (\<lambda>d. d\<lparr>a_session :=
       map (\<lambda>s. if Session_ID s = sessionID \<and> Session_UserID s = userID then f s else s) (a_session d)\<rparr>)"

definition q_ExpireSession :: "ident \<Rightarrow> ident \<Rightarrow> Api \<Rightarrow> go_error + Api" where
  "q_ExpireSession = updateSession S_ExpireSession (\<lambda>s. s\<lparr>Session_Expired := True\<rparr>)"

definition q_VerifySession :: "ident \<Rightarrow> ident \<Rightarrow> Api \<Rightarrow> go_error + Api" where
  "q_VerifySession = updateSession S_VerifySession (\<lambda>s. s\<lparr>Session_Verified := True\<rparr>)"

definition q_TouchSession :: "ident \<Rightarrow> ident \<Rightarrow> Api \<Rightarrow> go_error + Api" where
  "q_TouchSession userID sessionID d =
     updateSession S_TouchSession (\<lambda>s. s\<lparr>Session_LastActive := a_now d\<rparr>) userID sessionID d"

definition q_GetAPIToken :: "string \<Rightarrow> Api \<Rightarrow> go_error + APIToken" where
  "q_GetAPIToken tokenID = pick S_GetAPIToken (\<lambda>t. Token_ID t = tokenID \<and> \<not> Token_Expired t) a_token"

definition q_CreateAPIToken :: "APIToken \<Rightarrow> Api \<Rightarrow> (go_error + APIToken) \<times> Api" where
  "q_CreateAPIToken t d =
     (if a_faults d S_CreateAPIToken \<or> Token_ID t \<in> Token_ID ` set (a_token d) \<or>
         Token_UserID t \<notin> User_ID ` set (a_user d) then (Inl sqlErr, d)
      else let t1 = t\<lparr>Token_Created := a_now d\<rparr> in (Inr t1, d\<lparr>a_token := a_token d @ [t1]\<rparr>))"

definition q_GetAPITokens :: "ident \<Rightarrow> Api \<Rightarrow> go_error + APIToken list" where
  "q_GetAPITokens userID d =
     (if a_faults d S_GetAPITokens then Inl sqlErr
      else Inr (rev (sort_key Token_Created (rev (filter (\<lambda>t. Token_UserID t = userID) (a_token d))))))"

text \<open>The pattern \<^verbatim>\<open>^[a-zA-Z0-9-_=]{8,}$\<close>; a final \<^verbatim>\<open>$\<close> matches at the very end of the text only.\<close>

definition tokenChar :: "char \<Rightarrow> bool" where
  "tokenChar c \<longleftrightarrow>
     c \<in> set ''abcdefghijklmnopqrstuvwxyzABCDEFGHIJKLMNOPQRSTUVWXYZ0123456789-_=''"

definition validateAPIToken :: "string \<Rightarrow> go_error option" where
  "validateAPIToken token =
     (if 8 \<le> length token \<and> list_all tokenChar token then None else Some (ErrOther ''invalid token format''))"

text \<open>
  The SQL operator \<^verbatim>\<open>LIKE\<close> on a pattern \<open>p%\<close>, where an underscore in \<open>p\<close> stands for any character. Case matters, as
  in PostgreSQL.
\<close>

fun likePrefix :: "string \<Rightarrow> string \<Rightarrow> bool" where
  "likePrefix [] s = True"
| "likePrefix (p # ps) [] = False"
| "likePrefix (p # ps) (c # cs) \<longleftrightarrow> (p = CHR ''_'' \<or> p = c) \<and> likePrefix ps cs"

definition q_DeleteAPIToken :: "ident \<Rightarrow> string \<Rightarrow> Api \<Rightarrow> go_error + Api" where
  "q_DeleteAPIToken userID tokenPrefix d =
     (case validateAPIToken tokenPrefix of
        Some err \<Rightarrow> Inl err
      | None \<Rightarrow> change S_DeleteAPIToken (\<lambda>d. d\<lparr>a_token :=
                  filter (\<lambda>t. \<not> (likePrefix tokenPrefix (Token_ID t) \<and> Token_UserID t = userID)) (a_token d)\<rparr>) d)"

subsection \<open>Members of projects, roles\<close>

definition q_GetProjectUser :: "ident \<Rightarrow> ident \<Rightarrow> Api \<Rightarrow> go_error + ProjectUser" where
  "q_GetProjectUser projectID userID =
     pick S_GetProjectUser (\<lambda>p. PU_ProjectID p = projectID \<and> PU_UserID p = userID) a_projectUser"

text \<open>The pair of project and user is unique, and both must exist.\<close>

definition q_CreateProjectUser :: "ProjectUser \<Rightarrow> Api \<Rightarrow> go_error + Api" where
  "q_CreateProjectUser p d =
     (if (\<exists>v \<in> set (a_projectUser d). PU_ProjectID v = PU_ProjectID p \<and> PU_UserID v = PU_UserID p) \<or>
         PU_UserID p \<notin> User_ID ` set (a_user d) \<or>
         PU_ProjectID p \<notin> Project_ID ` set (tbl_project (db (a_pool d)))
      then Inl sqlErr
      else changeUsers S_CreateProjectUser (\<lambda>d. d\<lparr>a_projectUser := a_projectUser d @ [p]\<rparr>) d)"

definition q_UpdateProjectUser :: "ProjectUser \<Rightarrow> Api \<Rightarrow> go_error + Api" where
  "q_UpdateProjectUser p =
     changeUsers S_UpdateProjectUser (\<lambda>d. d\<lparr>a_projectUser :=
       map (\<lambda>v. if PU_UserID v = PU_UserID p \<and> PU_ProjectID v = PU_ProjectID p then v\<lparr>PU_Role := PU_Role p\<rparr> else v)
         (a_projectUser d)\<rparr>)"

definition q_DeleteProjectUser :: "ident \<Rightarrow> ident \<Rightarrow> Api \<Rightarrow> go_error + Api" where
  "q_DeleteProjectUser projectID userID =
     changeUsers S_DeleteProjectUser (\<lambda>d. d\<lparr>a_projectUser :=
       filter (\<lambda>v. \<not> (PU_UserID v = userID \<and> PU_ProjectID v = projectID)) (a_projectUser d)\<rparr>)"

text \<open>The two lists come in the order of the tables; the code sorts them by name.\<close>

definition q_GetProjectUsers :: "ident \<Rightarrow> Api \<Rightarrow> go_error + (Account \<times> string) list" where
  "q_GetProjectUsers projectID d =
     (if a_faults d S_GetProjectUsers then Inl sqlErr
      else Inr (concat (map (\<lambda>p. map (\<lambda>u. (u, PU_Role p)) (filter (\<lambda>u. User_ID u = PU_UserID p) (a_user d)))
                         (filter (\<lambda>p. PU_ProjectID p = projectID) (a_projectUser d)))))"

definition q_GetProjects :: "ident option \<Rightarrow> Api \<Rightarrow> go_error + Project list" where
  "q_GetProjects userID d =
     (if a_faults d S_GetProjects then Inl sqlErr
      else Inr (take 200 (filter (\<lambda>p. case userID of
                              None \<Rightarrow> True
                            | Some i \<Rightarrow> \<exists>m \<in> set (a_projectUser d). PU_ProjectID m = Project_ID p \<and> PU_UserID m = i)
                  (tbl_project (db (a_pool d))))))"

definition q_UpdateProject :: "Project \<Rightarrow> Api \<Rightarrow> go_error + Api" where
  "q_UpdateProject p =
     change S_UpdateProject (\<lambda>d. d\<lparr>a_pool := (a_pool d)\<lparr>db := (db (a_pool d))\<lparr>tbl_project :=
       map (\<lambda>v. if Project_ID v = Project_ID p
                then v\<lparr>Project_Alert := Project_Alert p, Project_AlertChat := Project_AlertChat p,
                       Project_MaxParallelTasks := Project_MaxParallelTasks p\<rparr> else v)
         (tbl_project (db (a_pool d)))\<rparr>\<rparr>\<rparr>)"

text \<open>The output goes first; an error of the second statement leaves the task without its output.\<close>

definition q_DeleteTaskWithOutputs :: "ident \<Rightarrow> ident \<Rightarrow> Api \<Rightarrow> go_error option \<times> Api" where
  "q_DeleteTaskWithOutputs projectID taskID d =
     (let write = (\<lambda>f d. d\<lparr>a_pool := (a_pool d)\<lparr>db := f (db (a_pool d))\<rparr>\<rparr>)
      in case db_GetTask projectID taskID (db (a_pool d)) of
           Inl err \<Rightarrow> (Some err, d)
         | Inr _ \<Rightarrow>
             if a_faults d S_DeleteOutputs then (Some sqlErr, d)
             else let d1 = write (\<lambda>b. b\<lparr>tbl_output := filter (\<lambda>x. Output_TaskID x \<noteq> taskID) (tbl_output b)\<rparr>) d
                  in if a_faults d S_DeleteTask then (Some sqlErr, d1)
                     else (None, write (\<lambda>b. b\<lparr>tbl_task := filter (\<lambda>t. Task_ID t \<noteq> taskID) (tbl_task b)\<rparr>) d1))"

text \<open>One page of the tasks of a template or a project: newest first, below the cursor when there is one.\<close>

definition q_TasksPage :: "ident \<Rightarrow> ident option \<Rightarrow> nat \<Rightarrow> ident \<Rightarrow> Api \<Rightarrow> go_error + Task list" where
  "q_TasksPage projectID templateID cnt beforeID d =
     (case getTasks Q_GetProjectTasks projectID templateID [] 0 (db (a_pool d)) of
        Inl err \<Rightarrow> Inl err
      | Inr rows \<Rightarrow>
          (let older = (if beforeID > 0 then filter (\<lambda>t. Task_ID t < beforeID) rows else rows)
           in Inr (if cnt > 0 then take cnt older else older)))"

text \<open>Rows of the event log of the database.\<close>

definition q_CreateEvent :: "ident \<Rightarrow> ident \<Rightarrow> ident \<Rightarrow> string \<Rightarrow> Api \<Rightarrow> Api" where
  "q_CreateEvent userID projectID objectID desc d =
     (case CreateEvent \<lparr>Event_UserID = (if userID > 0 then Some userID else None), Event_ProjectID = projectID,
                        Event_ObjectID = objectID, Event_Description = desc\<rparr> (db (a_pool d)) of
        Inl _ \<Rightarrow> d
      | Inr b \<Rightarrow> d\<lparr>a_pool := (a_pool d)\<lparr>db := b\<rparr>\<rparr>)"

definition q_GetProjectOrGlobalRoleBySlug :: "ident \<Rightarrow> string \<Rightarrow> Api \<Rightarrow> go_error + Role" where
  "q_GetProjectOrGlobalRoleBySlug projectID slug =
     pick S_Role (\<lambda>r. Role_Slug r = slug \<and> (Role_ProjectID r = Some projectID \<or> Role_ProjectID r = None)) a_role"

text \<open>
  The permissions of a member on a template: those of a built-in role and those that the template gives to the
  role. The permissions of a custom role itself are not part of it.
\<close>

definition templateRolePerm :: "ident \<Rightarrow> ident \<Rightarrow> string \<Rightarrow> Api \<Rightarrow> go_error + ProjectUserPermission" where
  "templateRolePerm projectID templateID slug d =
     (case pick S_TemplateRole
             (\<lambda>t. TRP_ProjectID t = projectID \<and> TRP_TemplateID t = templateID \<and> TRP_RoleSlug t = slug) a_templateRole d of
        Inl ErrNotFound \<Rightarrow> Inr 0
      | Inl err \<Rightarrow> Inl err
      | Inr t \<Rightarrow> Inr (TRP_Permissions t))"

definition q_GetTemplatePermission :: "ident \<Rightarrow> ident \<Rightarrow> ident \<Rightarrow> Api \<Rightarrow> go_error + ProjectUserPermission" where
  "q_GetTemplatePermission projectID templateID userID d =
     (case q_GetProjectUser projectID userID d of
        Inl ErrNotFound \<Rightarrow> Inr 0
      | Inl err \<Rightarrow> Inl err
      | Inr pu \<Rightarrow>
          (let perm = GetPermissions (PU_Role pu);
               more = (\<lambda>slug. map_sum id (\<lambda>p. perm OR p) (templateRolePerm projectID templateID slug d))
           in if Role_IsValid (PU_Role pu) then more (PU_Role pu)
              else case q_GetProjectOrGlobalRoleBySlug (PU_ProjectID pu) (PU_Role pu) d of
                     Inl ErrNotFound \<Rightarrow> Inr perm
                   | Inl err \<Rightarrow> Inl err
                   | Inr role \<Rightarrow> more (Role_Slug role)))"

subsection \<open>External identities\<close>

abbreviation (input) IdentityTypeLdap :: string where "IdentityTypeLdap \<equiv> ''ldap''"
abbreviation (input) IdentityTypeOidc :: string where "IdentityTypeOidc \<equiv> ''oidc''"

definition q_GetExternalIdentity :: "string \<Rightarrow> string \<Rightarrow> string \<Rightarrow> Api \<Rightarrow> go_error + UserExternalIdentity" where
  "q_GetExternalIdentity idType provider externalUID =
     pick S_GetIdentity
       (\<lambda>i. Ident_Type i = idType \<and> Ident_Provider i = provider \<and> Ident_ExternalUID i = externalUID) a_identity"

definition q_GetUserExternalIdentities :: "ident \<Rightarrow> Api \<Rightarrow> go_error + UserExternalIdentity list" where
  "q_GetUserExternalIdentities userID d =
     (if a_faults d S_GetIdentities then Inl sqlErr
      else Inr (filter (\<lambda>i. Ident_UserID i = userID) (a_identity d)))"

text \<open>Type, provider and external ID are unique together, and the account must exist.\<close>

definition q_CreateExternalIdentity :: "UserExternalIdentity \<Rightarrow> Api \<Rightarrow> go_error + Api" where
  "q_CreateExternalIdentity i0 d =
     (let i = (if Ident_Type i0 = [] then i0\<lparr>Ident_Type := IdentityTypeOidc\<rparr> else i0)
      in if (\<exists>v \<in> set (a_identity d). Ident_Type v = Ident_Type i \<and> Ident_Provider v = Ident_Provider i \<and>
               Ident_ExternalUID v = Ident_ExternalUID i) \<or> Ident_UserID i \<notin> User_ID ` set (a_user d)
         then Inl sqlErr
         else change S_CreateIdentity (\<lambda>d. d\<lparr>a_identity := a_identity d @ [i]\<rparr>) d)"

definition q_DeleteExternalIdentity :: "ident \<Rightarrow> string \<Rightarrow> string \<Rightarrow> Api \<Rightarrow> go_error + Api" where
  "q_DeleteExternalIdentity userID idType provider =
     change S_DeleteIdentity (\<lambda>d. d\<lparr>a_identity :=
       filter (\<lambda>i. \<not> (Ident_UserID i = userID \<and> Ident_Type i = idType \<and> Ident_Provider i = provider)) (a_identity d)\<rparr>)"

end
