(* ===== verification/Api_Access.thy ===== *)
theory Api_Access
  imports Api_Store
begin

text \<open>
  Who may do what through the API for users: sessions, tokens, the protection against cross-site requests and the
  middlewares that check roles (\<^verbatim>\<open>api/auth.go\<close>, \<^verbatim>\<open>api/projects/project.go\<close>, \<^verbatim>\<open>api/projects/tasks.go\<close>, \<^verbatim>\<open>api/users.go\<close>,
  \<^verbatim>\<open>api/projects/users.go\<close> and the object middlewares next to it). A middleware looks at the request and the context
  that earlier ones left and either answers or passes a context on.
\<close>

subsection \<open>Requests, answers and the environment\<close>

record LdapMappings =
  Mappings_DN :: string
  Mappings_Mail :: string
  Mappings_UID :: string
  Mappings_CN :: string

record LdapProvider =
  Ldap_Server :: string
  Ldap_NeedTLS :: bool
  Ldap_TLSSkipVerify :: bool
  Ldap_BindDN :: string
  Ldap_BindPassword :: string
  Ldap_SearchDN :: string
  Ldap_SearchFilter :: string
  Ldap_Mappings :: "LdapMappings option"
  Ldap_Order :: int

record OidcProvider =
  Oidc_UsernameClaim :: string
  Oidc_NameClaim :: string
  Oidc_EmailClaim :: string
  Oidc_ReturnViaState :: bool
  Oidc_RequireVerifiedEmail :: bool

text \<open>The values of a claim that the code looks at, and the state that travels through the identity provider.\<close>

datatype claim = ClaimString string | ClaimBool bool | ClaimOther

type_synonym claims = "(string \<times> claim) list"

record oAuthState =
  Oauth_Csrf :: string
  Oauth_Return :: string
  Oauth_Link :: bool

record UserInfo =
  Info_Subject :: string
  Info_Profile :: string
  Info_Email :: string
  Info_Claims :: "go_error + claims"

text \<open>An entry that a search in the directory finds: its name and its attributes.\<close>

type_synonym ldapEntry = "string \<times> (string \<times> string list) list"

text \<open>Of the URL the request keeps the variables of the matched route, of the body its text.\<close>

record Request =
  rq_Method :: string
  rq_Host :: string
  rq_URLPath :: string
  rq_Authorization :: string
  rq_Origin :: string
  rq_Referer :: string
  rq_Cookie :: "string option"
  rq_OauthCookie :: "string option"
  rq_Vars :: "(string \<times> string) list"
  rq_Query :: "string \<Rightarrow> string"
  rq_Body :: string
  rq_RunnerToken :: string
  rq_BasicAuth :: "(string \<times> string) option"
  rq_XHR :: bool

datatype payload =
    P_Account Account
  | P_Accounts "Account list"
  | P_Names "(ident \<times> string \<times> string) list"
  | P_Members "(ident \<times> string \<times> string \<times> string) list"
  | P_Token APIToken
  | P_Tokens "APIToken list"
  | P_Totp UserTotp
  | P_Identities "UserExternalIdentity list"
  | P_Task Task
  | P_Tasks "Task list" "bool option"
  | P_Project Project
  | P_Projects "Project list"
  | P_Role string ProjectUserPermission
  | P_Me Account bool bool
  | P_Image

record Response =
  rs_Status :: int
  rs_Error :: string
  rs_Body :: "payload option"
  rs_SetCookie :: "string option"
  rs_Location :: "string option"

definition status :: "int \<Rightarrow> Response" where
  "status code = \<lparr>rs_Status = code, rs_Error = [], rs_Body = None, rs_SetCookie = None, rs_Location = None\<rparr>"

definition WriteErrorStatus :: "string \<Rightarrow> int \<Rightarrow> Response" where
  "WriteErrorStatus err code = (status code)\<lparr>rs_Error := err\<rparr>"

definition WriteJSON :: "int \<Rightarrow> payload \<Rightarrow> Response" where
  "WriteJSON code out = (status code)\<lparr>rs_Body := Some out\<rparr>"

definition answerError :: "go_error \<Rightarrow> Response" where
  "answerError err = (case (WriteError err :: unit http) of HttpError code msg \<Rightarrow> WriteErrorStatus msg code | _ \<Rightarrow> status 204)"

text \<open>
  The environment: cookie codec, URL parser, JSON decoders of the bodies, bcrypt, TOTP, the services behind
  interfaces and the configuration.
\<close>

record ApiEnv =
  e_pool :: PoolEnv
  e_DecodeCookie :: "string \<Rightarrow> (ident option \<times> ident option) option"
  e_EncodeCookie :: "ident \<Rightarrow> ident \<Rightarrow> go_error + string"
  e_UrlHost :: "string \<Rightarrow> string option"
  e_WebHost :: "string option"
  e_MetricsEnabled :: bool
  e_MetricsUsername :: string
  e_MetricsPassword :: string
  e_BindTask :: "string \<Rightarrow> Task option"
  e_BindUser :: "string \<Rightarrow> UserWithPwd option"
  e_BindPassword :: "string \<Rightarrow> (string \<times> string) option"
  e_BindMember :: "string \<Rightarrow> (ident \<times> string) option"
  e_BindRole :: "string \<Rightarrow> string option"
  e_BindForce :: "string \<Rightarrow> bool option"
  e_BindProject :: "string \<Rightarrow> Project option"
  e_BindText :: "string \<Rightarrow> string option"
  e_BindToken :: "string \<Rightarrow> (string \<times> go_time option) option"
  e_BindLogin :: "string \<Rightarrow> (string \<times> string \<times> string \<times> string) option"
  e_BindLdapLink :: "string \<Rightarrow> (string \<times> string \<times> string) option"
  e_HashPassword :: "string \<Rightarrow> go_error + string"
  e_ComparePassword :: "string \<Rightarrow> string \<Rightarrow> bool"
  e_TotpEnabled :: bool
  e_TotpAllowRecovery :: bool
  e_TotpKey :: "string \<Rightarrow> string option"
  e_TotpValid :: "string \<Rightarrow> string \<Rightarrow> go_time \<Rightarrow> bool"
  e_TotpGenerate :: "string \<Rightarrow> go_error + string"
  e_RecoveryCode :: "go_error + string \<times> string"
  e_RandomToken :: string
  e_RandomName :: string
  e_CanAddProUser :: "go_error + bool"
  e_NonAdminCanCreateProject :: bool
  e_GetWorkflow :: "ident \<Rightarrow> ident \<Rightarrow> go_error option"
  e_GetWorkflowRun :: "ident \<Rightarrow> ident \<Rightarrow> ident \<Rightarrow> go_error option"
  e_HasActiveSubscription :: bool
  e_TotpImage :: "string \<Rightarrow> go_error option"
  e_VerifyRecoveryCode :: "string \<Rightarrow> string \<Rightarrow> bool"
  e_PasswordLoginDisable :: bool
  e_EmailMatching :: string
  e_LdapEnable :: bool
  e_LdapLegacy :: LdapProvider
  e_LdapProviders :: "(string \<times> LdapProvider) list"
  e_ldap_Dial :: "string \<Rightarrow> bool \<Rightarrow> bool \<Rightarrow> go_error option"
  e_ldap_Bind :: "nat \<Rightarrow> string \<Rightarrow> string \<Rightarrow> string \<Rightarrow> go_error option"
  e_ldap_Search :: "string \<Rightarrow> string \<Rightarrow> string \<Rightarrow> string list \<Rightarrow> go_error + ldapEntry list"
  e_EscapeFilter :: "string \<Rightarrow> string"
  e_Sprintf :: "string \<Rightarrow> string \<Rightarrow> string"
  e_Template :: "string \<Rightarrow> claims \<Rightarrow> string option"
  e_OidcProviders :: "(string \<times> OidcProvider) list"
  e_oidc_Init :: "string \<Rightarrow> string \<Rightarrow> go_error option"
  e_oidc_Exchange :: "string \<Rightarrow> string \<Rightarrow> go_error + string option"
  e_oidc_Verify :: "string \<Rightarrow> string \<Rightarrow> go_error + string \<times> (go_error + claims)"
  e_oidc_UserInfo :: "string \<Rightarrow> go_error + UserInfo"
  e_DecodeState :: "string \<Rightarrow> oAuthState option"
  e_EncodeState :: "oAuthState \<Rightarrow> string"
  e_AuthCodeURL :: "string \<Rightarrow> string \<Rightarrow> string"
  e_WebHostURL :: string
  e_JoinPath :: "string \<Rightarrow> string \<Rightarrow> go_error + string"

text \<open>The values that the middlewares leave in the context of a request.\<close>

record Ctx =
  cx_user :: "Account option"
  cx_project :: "Project option"
  cx_role :: "string option"
  cx_permissions :: "ProjectUserPermission option"
  cx_task :: "Task option"
  cx_template :: "Template option"
  cx_projectUser :: "Account option"
  cx_target :: "Account option"
  cx_object :: "(string \<times> ident) list"
  cx_status :: "int option"

definition emptyCtx :: Ctx where
  "emptyCtx = \<lparr>cx_user = None, cx_project = None, cx_role = None, cx_permissions = None, cx_task = None,
     cx_template = None, cx_projectUser = None, cx_target = None, cx_object = [], cx_status = None\<rparr>"

datatype answer = Answered Response | Passed Ctx

type_synonym step = "(answer \<times> Api) option"

abbreviation (input) refuse :: "Response \<Rightarrow> Api \<Rightarrow> step" where
  "refuse r d \<equiv> Some (Answered r, d)"

abbreviation (input) pass :: "Ctx \<Rightarrow> Api \<Rightarrow> step" where
  "pass c d \<equiv> Some (Passed c, d)"

subsection \<open>Parameters\<close>

definition GetIntParam :: "string \<Rightarrow> Request \<Rightarrow> Response + ident" where
  "GetIntParam name r =
     (case Atoi (case map_of (rq_Vars r) name of None \<Rightarrow> [] | Some s \<Rightarrow> s) of
        None \<Rightarrow> Inl (if rq_XHR r then status 400 else status 302)
      | Some n \<Rightarrow> Inr n)"

definition GetStrParam :: "string \<Rightarrow> Request \<Rightarrow> Response + string" where
  "GetStrParam name r =
     (case map_of (rq_Vars r) name of
        None \<Rightarrow> Inl (if rq_XHR r then status 400 else status 302)
      | Some s \<Rightarrow> Inr s)"

subsection \<open>Strings of headers\<close>

definition toLowerChar :: "char \<Rightarrow> char" where
  "toLowerChar c = (let n = of_char c :: nat in if 65 \<le> n \<and> n \<le> 90 then char_of (n + 32) else c)"

definition toLower :: "string \<Rightarrow> string" where
  "toLower s = map toLowerChar s"

text \<open>\<^verbatim>\<open>strings.Replace(s, old, "", 1)\<close> for a non-empty \<open>old\<close>, and whether \<open>old\<close> occurs.\<close>

fun removeInfix :: "string \<Rightarrow> string \<Rightarrow> string option" where
  "removeInfix old [] = None"
| "removeInfix old (c # cs) =
     (if take (length old) (c # cs) = old then Some (drop (length old) (c # cs))
      else map_option ((#) c) (removeInfix old cs))"

definition occurs :: "string \<Rightarrow> string \<Rightarrow> bool" where
  "occurs old s \<longleftrightarrow> removeInfix old s \<noteq> None"

subsection \<open>Sessions\<close>

definition sessionLifetime :: int where
  "sessionLifetime = 7 * 24 * 3600 * 1000000000"

text \<open>A session that was not used for a week is expired on sight; that this may fail does not concern the user.\<close>

definition getSession :: "ApiEnv \<Rightarrow> Request \<Rightarrow> Api \<Rightarrow> Session option \<times> Api" where
  "getSession e r d =
     (case Option.bind (rq_Cookie r) (e_DecodeCookie e) of
        Some (Some userID, Some sessionID) \<Rightarrow>
          (case q_GetSession userID sessionID d of
             Inl _ \<Rightarrow> (None, d)
           | Inr session \<Rightarrow>
               if a_now d - Session_LastActive session > sessionLifetime
               then (None, case q_ExpireSession userID sessionID d of Inl _ \<Rightarrow> d | Inr d1 \<Rightarrow> d1)
               else (Some session, d))
      | _ \<Rightarrow> (None, d))"

definition loadUser :: "ident \<Rightarrow> Ctx \<Rightarrow> Api \<Rightarrow> step" where
  "loadUser userID c d =
     (case q_GetUser userID d of
        Inl _ \<Rightarrow> refuse (status 401) d
      | Inr user \<Rightarrow> pass (c\<lparr>cx_user := Some user\<rparr>) d)"

definition bearer :: "Request \<Rightarrow> bool" where
  "bearer r \<longleftrightarrow> occurs ''bearer'' (toLower (rq_Authorization r))"

definition bearerToken :: "Request \<Rightarrow> string" where
  "bearerToken r =
     (let h = toLower (rq_Authorization r) in case removeInfix ''bearer '' h of None \<Rightarrow> h | Some t \<Rightarrow> t)"

definition notVerified :: "Session \<Rightarrow> Response" where
  "notVerified session =
     (case Session_VerificationMethod session of
        SessionVerificationEmail \<Rightarrow> WriteErrorStatus ''EMAIL_OTP_REQUIRED'' 401
      | SessionVerificationTotp \<Rightarrow> WriteErrorStatus ''TOTP_REQUIRED'' 401
      | SessionVerificationNone \<Rightarrow> WriteErrorStatus ''SESSION_NOT_VERIFIED'' 401)"

definition authenticationHandler :: "ApiEnv \<Rightarrow> Request \<Rightarrow> Ctx \<Rightarrow> Api \<Rightarrow> step" where
  "authenticationHandler e r c d =
     (if bearer r
      then (case q_GetAPIToken (bearerToken r) d of
              Inl _ \<Rightarrow> refuse (status 401) d
            | Inr token \<Rightarrow>
                if IsExpiredAt token (a_now d) then refuse (status 401) d else loadUser (Token_UserID token) c d)
      else (case getSession e r d of
              (None, d1) \<Rightarrow> refuse (status 401) d1
            | (Some session, d1) \<Rightarrow>
                if \<not> IsVerified session then refuse (notVerified session) d1
                else (case q_TouchSession (Session_UserID session) (Session_ID session) d1 of
                        Inl _ \<Rightarrow> refuse (status 401) d1
                      | Inr d2 \<Rightarrow> loadUser (Session_UserID session) c d2)))"

subsection \<open>Cross-site requests\<close>

definition isStateChangingMethod :: "string \<Rightarrow> bool" where
  "isStateChangingMethod m \<longleftrightarrow> m \<in> {''POST'', ''PUT'', ''PATCH'', ''DELETE''}"

fun firstHost :: "ApiEnv \<Rightarrow> string list \<Rightarrow> string option" where
  "firstHost e [] = None"
| "firstHost e (v # vs) =
     (if v = [] then firstHost e vs
      else case e_UrlHost e v of
             None \<Rightarrow> firstHost e vs
           | Some host \<Rightarrow> if host = [] then firstHost e vs else Some host)"

definition requestOriginHost :: "ApiEnv \<Rightarrow> Request \<Rightarrow> string option" where
  "requestOriginHost e r = firstHost e [rq_Origin r, rq_Referer r]"

definition isSameOriginHost :: "ApiEnv \<Rightarrow> string \<Rightarrow> Request \<Rightarrow> bool" where
  "isSameOriginHost e host r \<longleftrightarrow> host = rq_Host r \<or> e_WebHost e = Some host"

definition csrfProtectionMiddleware :: "ApiEnv \<Rightarrow> Request \<Rightarrow> Ctx \<Rightarrow> Api \<Rightarrow> step" where
  "csrfProtectionMiddleware e r c d =
     (if \<not> isStateChangingMethod (rq_Method r) then pass c d
      else if bearer r then pass c d
      else case requestOriginHost e r of
             Some origin \<Rightarrow>
               if \<not> isSameOriginHost e origin r then refuse (WriteErrorStatus ''CROSS_ORIGIN_REQUEST_BLOCKED'' 403) d
               else pass c d
           | None \<Rightarrow> pass c d)"

subsection \<open>Roles\<close>

text \<open>A context value that is missing is a failed type assertion, a panic.\<close>

definition adminMiddleware :: "Ctx \<Rightarrow> Api \<Rightarrow> step" where
  "adminMiddleware c d =
     (case cx_user c of
        None \<Rightarrow> None
      | Some user \<Rightarrow> if \<not> User_Admin user then refuse (status 403) d else pass c d)"

text \<open>
  The role and the permissions of a member: built-in roles have those of the code; a custom role is looked up. An
  administrator needs no row.
\<close>

definition rolePerms :: "ident \<Rightarrow> string \<Rightarrow> Api \<Rightarrow> go_error + string \<times> ProjectUserPermission" where
  "rolePerms projectID roleSlug d =
     (if Role_IsValid roleSlug then Inr (roleSlug, GetPermissions roleSlug)
      else case q_GetProjectOrGlobalRoleBySlug projectID roleSlug d of
             Inr role \<Rightarrow> Inr (Role_Slug role, Role_Permissions role)
           | Inl ErrNotFound \<Rightarrow> Inr (roleSlug, GetPermissions roleSlug)
           | Inl err \<Rightarrow> Inl err)"

definition templatePerms :: "Request \<Rightarrow> ident \<Rightarrow> ident \<Rightarrow> Api \<Rightarrow> Response + ProjectUserPermission" where
  "templatePerms r projectID userID d =
     (if map_of (rq_Vars r) ''template_id'' = None then Inr 0
      else case GetIntParam ''template_id'' r of
             Inl resp \<Rightarrow> Inl resp
           | Inr templateID \<Rightarrow> map_sum answerError id (q_GetTemplatePermission projectID templateID userID d))"

definition memberRole :: "ident \<Rightarrow> Account \<Rightarrow> Api \<Rightarrow> go_error + string" where
  "memberRole projectID user d =
     (case q_GetProjectUser projectID (User_ID user) d of
        Inl err \<Rightarrow> if User_Admin user then Inr [] else Inl err
      | Inr projectUser \<Rightarrow> Inr (PU_Role projectUser))"

definition ProjectMiddleware :: "Request \<Rightarrow> Ctx \<Rightarrow> Api \<Rightarrow> step" where
  "ProjectMiddleware r c d =
     (case cx_user c of
        None \<Rightarrow> None
      | Some user \<Rightarrow>
          (case GetIntParam ''project_id'' r of
             Inl resp \<Rightarrow> refuse resp d
           | Inr projectID \<Rightarrow>
               (case memberRole projectID user d of
                  Inl err \<Rightarrow> refuse (answerError err) d
                | Inr roleSlug \<Rightarrow>
                    (case GetProject projectID (db (a_pool d)) of
                       Inl err \<Rightarrow> refuse (answerError err) d
                     | Inr project \<Rightarrow>
                         (case rolePerms projectID roleSlug d of
                            Inl err \<Rightarrow> refuse (answerError err) d
                          | Inr (slug, permissions) \<Rightarrow>
                              (case templatePerms r (Project_ID project) (User_ID user) d of
                                 Inl resp \<Rightarrow> refuse resp d
                               | Inr perm \<Rightarrow>
                                   pass (c\<lparr>cx_role := Some slug, cx_permissions := Some (permissions OR perm),
                                           cx_project := Some project\<rparr>) d))))))"

definition GetMustCanMiddleware :: "ProjectUserPermission \<Rightarrow> Request \<Rightarrow> Ctx \<Rightarrow> Api \<Rightarrow> step" where
  "GetMustCanMiddleware permissions r c d =
     (case (cx_user c, cx_permissions c) of
        (Some me, Some userPerms) \<Rightarrow>
          (let can = (userPerms AND permissions = permissions)
           in if \<not> User_Admin me \<and> rq_Method r \<noteq> ''GET'' \<and> rq_Method r \<noteq> ''HEAD'' \<and> \<not> can
              then refuse (status 403) d else pass c d)
      | _ \<Rightarrow> None)"

subsection \<open>Tasks\<close>

definition NewTaskMiddleware :: "ApiEnv \<Rightarrow> Request \<Rightarrow> Ctx \<Rightarrow> Api \<Rightarrow> step" where
  "NewTaskMiddleware e r c d =
     (case e_BindTask e (rq_Body r) of
        None \<Rightarrow> refuse (status 400) d
      | Some task \<Rightarrow> pass (c\<lparr>cx_task := Some task\<rparr>) d)"

definition GetTaskMiddleware :: "Request \<Rightarrow> Ctx \<Rightarrow> Api \<Rightarrow> step" where
  "GetTaskMiddleware r c d =
     (case cx_project c of
        None \<Rightarrow> None
      | Some project \<Rightarrow>
          (case GetIntParam ''task_id'' r of
             Inl resp \<Rightarrow> refuse resp d
           | Inr taskID \<Rightarrow>
               (case db_GetTask (Project_ID project) taskID (db (a_pool d)) of
                  Inl _ \<Rightarrow> refuse (status 400) d
                | Inr task \<Rightarrow> pass (c\<lparr>cx_task := Some task\<rparr>) d)))"

text \<open>
  When the permissions on the template can not be read, status 400 is written but the request goes on, with the
  permissions it had.
\<close>

definition GetTaskPermissionsMiddleware :: "Ctx \<Rightarrow> Api \<Rightarrow> step" where
  "GetTaskPermissionsMiddleware c d =
     (case (cx_project c, cx_user c, cx_task c, cx_permissions c) of
        (Some project, Some user, Some task, Some permissions) \<Rightarrow>
          (case q_GetTemplatePermission (Project_ID project) (Task_TemplateID task) (User_ID user) d of
             Inl _ \<Rightarrow> pass (c\<lparr>cx_status := Some 400\<rparr>) d
           | Inr perm \<Rightarrow> pass (c\<lparr>cx_permissions := Some (permissions OR perm)\<rparr>) d)
      | _ \<Rightarrow> None)"

subsection \<open>Users\<close>

definition UserMiddleware :: "Request \<Rightarrow> Ctx \<Rightarrow> Api \<Rightarrow> step" where
  "UserMiddleware r c d =
     (case cx_project c of
        None \<Rightarrow> None
      | Some project \<Rightarrow>
          (case GetIntParam ''user_id'' r of
             Inl resp \<Rightarrow> refuse resp d
           | Inr userID \<Rightarrow>
               (case q_GetProjectUser (Project_ID project) userID d of
                  Inl err \<Rightarrow> refuse (answerError err) d
                | Inr _ \<Rightarrow>
                    (case q_GetUser userID d of
                       Inl err \<Rightarrow> refuse (answerError err) d
                     | Inr user \<Rightarrow> pass (c\<lparr>cx_projectUser := Some user\<rparr>) d))))"

definition zeroAccount :: Account where
  "zeroAccount = \<lparr>User_ID = 0, User_Username = [], User_Admin = False, User_Name = [], User_Email = [],
     User_Password = [], User_External = False, User_Alert = False, User_Pro = False, User_Totp = None\<rparr>"

text \<open>Both middlewares load the account of the path; one hides it from others, the other refuses them.\<close>

definition withTarget :: "Request \<Rightarrow> (Account \<Rightarrow> Account \<Rightarrow> Response + Account) \<Rightarrow> Ctx \<Rightarrow> Api \<Rightarrow> step" where
  "withTarget r decide c d =
     (case GetIntParam ''user_id'' r of
        Inl resp \<Rightarrow> refuse resp d
      | Inr userID \<Rightarrow>
          (case q_GetUser userID d of
             Inl err \<Rightarrow> refuse (answerError err) d
           | Inr user \<Rightarrow>
               (case cx_user c of
                  None \<Rightarrow> None
                | Some editor \<Rightarrow>
                    (case decide editor user of
                       Inl resp \<Rightarrow> refuse resp d
                     | Inr shown \<Rightarrow> pass (c\<lparr>cx_target := Some shown\<rparr>) d))))"

definition ReadonlyUserMiddleware :: "Request \<Rightarrow> Ctx \<Rightarrow> Api \<Rightarrow> step" where
  "ReadonlyUserMiddleware r =
     withTarget r (\<lambda>editor user.
       Inr (if \<not> User_Admin editor \<and> User_ID editor \<noteq> User_ID user
            then zeroAccount\<lparr>User_ID := User_ID user, User_Username := User_Username user, User_Name := User_Name user\<rparr>
            else user))"

definition GetUserMiddleware :: "Request \<Rightarrow> Ctx \<Rightarrow> Api \<Rightarrow> step" where
  "GetUserMiddleware r =
     withTarget r (\<lambda>editor user.
       if \<not> User_Admin editor \<and> User_ID editor \<noteq> User_ID user then Inl (status 401) else Inr user)"

subsection \<open>Objects of a project\<close>

definition found :: "go_error + 'o \<Rightarrow> Response + 'o" where
  "found res = map_sum answerError id res"

definition objectMiddleware ::
  "string \<Rightarrow> string \<Rightarrow> (ident \<Rightarrow> ident \<Rightarrow> Api \<Rightarrow> Response + 'o) \<Rightarrow> Request \<Rightarrow> Ctx \<Rightarrow> Api \<Rightarrow> step" where
  "objectMiddleware kind param get r c d =
     (case cx_project c of
        None \<Rightarrow> None
      | Some project \<Rightarrow>
          (case GetIntParam param r of
             Inl resp \<Rightarrow> refuse resp d
           | Inr i \<Rightarrow>
               (case get (Project_ID project) i d of
                  Inl resp \<Rightarrow> refuse resp d
                | Inr _ \<Rightarrow> pass (c\<lparr>cx_object := (kind, i) # cx_object c\<rparr>) d)))"

definition q_GetObject :: "string \<Rightarrow> ident \<Rightarrow> ident \<Rightarrow> Api \<Rightarrow> go_error + string \<times> ident \<times> ident" where
  "q_GetObject kind projectID i = pick S_Object (\<lambda>ob. ob = (kind, projectID, i)) a_object"

definition RepositoryMiddleware :: "Request \<Rightarrow> Ctx \<Rightarrow> Api \<Rightarrow> step" where
  "RepositoryMiddleware =
     objectMiddleware ''repository'' ''repository_id'' (\<lambda>p i d. found (GetRepository p i (db (a_pool d))))"

definition q_GetInventory :: "ident \<Rightarrow> ident \<Rightarrow> Api \<Rightarrow> go_error + Inventory" where
  "q_GetInventory projectID inventoryID d =
     (if a_faults d S_Object then Inl sqlErr
      else case find (\<lambda>v. Inventory_ProjectID v = projectID \<and> Inventory_ID v = inventoryID) (tbl_inventory (db (a_pool d))) of
             None \<Rightarrow> Inl ErrNotFound | Some v \<Rightarrow> Inr v)"

definition InventoryMiddleware :: "Request \<Rightarrow> Ctx \<Rightarrow> Api \<Rightarrow> step" where
  "InventoryMiddleware = objectMiddleware ''inventory'' ''inventory_id'' (\<lambda>p i d. found (q_GetInventory p i d))"

definition EnvironmentMiddleware :: "ApiEnv \<Rightarrow> Request \<Rightarrow> Ctx \<Rightarrow> Api \<Rightarrow> step" where
  "EnvironmentMiddleware e =
     objectMiddleware ''environment'' ''environment_id''
       (\<lambda>p i d. found (case GetEnvironment p i (db (a_pool d)) of
                         Inl err \<Rightarrow> Inl err
                       | Inr v \<Rightarrow> svc_FillEnvironmentSecrets (e_pool e) v))"

definition TemplatesMiddleware :: "Request \<Rightarrow> Ctx \<Rightarrow> Api \<Rightarrow> step" where
  "TemplatesMiddleware r c d =
     (case cx_project c of
        None \<Rightarrow> None
      | Some project \<Rightarrow>
          (case GetIntParam ''template_id'' r of
             Inl resp \<Rightarrow> refuse resp d
           | Inr templateID \<Rightarrow>
               (case GetTemplate (Project_ID project) templateID (db (a_pool d)) of
                  Inl err \<Rightarrow> refuse (answerError err) d
                | Inr template \<Rightarrow> pass (c\<lparr>cx_template := Some template\<rparr>) d)))"

definition SchedulesMiddleware :: "Request \<Rightarrow> Ctx \<Rightarrow> Api \<Rightarrow> step" where
  "SchedulesMiddleware = objectMiddleware ''schedule'' ''schedule_id'' (\<lambda>p i d. found (q_GetObject ''schedule'' p i d))"

definition ViewMiddleware :: "Request \<Rightarrow> Ctx \<Rightarrow> Api \<Rightarrow> step" where
  "ViewMiddleware = objectMiddleware ''view'' ''view_id'' (\<lambda>p i d. found (q_GetObject ''view'' p i d))"

text \<open>The keys of survey secrets can not be reached as keys of the project.\<close>

definition KeyMiddleware :: "Request \<Rightarrow> Ctx \<Rightarrow> Api \<Rightarrow> step" where
  "KeyMiddleware =
     objectMiddleware ''key'' ''key_id''
       (\<lambda>p i d. found (case GetAccessKey p i (a_keys d) of
                         Inl err \<Rightarrow> Inl err
                       | Inr key \<Rightarrow> if Key_Owner key = AccessKeyTaskSecret then Inl ErrNotFound else Inr key))"

text \<open>A storage without its key is not found: every kind of storage needs one.\<close>

definition SecretStorageMiddleware :: "Request \<Rightarrow> Ctx \<Rightarrow> Api \<Rightarrow> step" where
  "SecretStorageMiddleware =
     objectMiddleware ''storage'' ''storage_id''
       (\<lambda>p i d. case GetSecretStorage p i (a_keys d) of
                  Inl err \<Rightarrow> Inl (answerError err)
                | Inr storage \<Rightarrow>
                    if filter (\<lambda>k. Key_StorageID k = Some i \<and> Key_ProjectID k = Some p \<and>
                                   Key_Owner k = ''vault'') (tbl_access_key (a_keys d)) = []
                    then Inl (WriteErrorStatus ''Access key not found'' 404) else Inr storage)"

text \<open>The integration is looked up in the project of the path; a wrong ID is noticed by the query only.\<close>

definition IntegrationMiddleware :: "Request \<Rightarrow> Ctx \<Rightarrow> Api \<Rightarrow> step" where
  "IntegrationMiddleware r c d =
     (case GetIntParam ''project_id'' r of
        Inl resp \<Rightarrow> refuse resp d
      | Inr projectID \<Rightarrow>
          (let (i, c1) = (case GetIntParam ''integration_id'' r of
                            Inl resp \<Rightarrow> (0, c\<lparr>cx_status := Some (rs_Status resp)\<rparr>) | Inr n \<Rightarrow> (n, c))
           in case q_GetObject ''integration'' projectID i d of
                Inl err \<Rightarrow> refuse (answerError err) d
              | Inr _ \<Rightarrow> pass (c1\<lparr>cx_object := (''integration'', i) # cx_object c1\<rparr>) d))"

definition WorkflowsMiddleware :: "ApiEnv \<Rightarrow> Request \<Rightarrow> Ctx \<Rightarrow> Api \<Rightarrow> step" where
  "WorkflowsMiddleware e =
     objectMiddleware ''workflow'' ''workflow_id''
       (\<lambda>p i d. found (case e_GetWorkflow e p i of Some err \<Rightarrow> Inl err | None \<Rightarrow> Inr i))"

definition WorkflowRunsMiddleware :: "ApiEnv \<Rightarrow> Request \<Rightarrow> Ctx \<Rightarrow> Api \<Rightarrow> step" where
  "WorkflowRunsMiddleware e r c d =
     (case map_of (cx_object c) ''workflow'' of
        None \<Rightarrow> None
      | Some w \<Rightarrow>
          objectMiddleware ''workflow_run'' ''run_id''
            (\<lambda>p i d. found (case e_GetWorkflowRun e p w i of Some err \<Rightarrow> Inl err | None \<Rightarrow> Inr i)) r c d)"

text \<open>The middleware of the runners of the whole installation.\<close>

definition globalRunnerMiddleware :: "Request \<Rightarrow> Ctx \<Rightarrow> Api \<Rightarrow> step" where
  "globalRunnerMiddleware r c d =
     (case GetIntParam ''runner_id'' r of
        Inl resp \<Rightarrow> refuse resp d
      | Inr i \<Rightarrow>
          (case GetGlobalRunner i (db (a_pool d)) of
             Inl _ \<Rightarrow> refuse (WriteErrorStatus ''Runner not found'' 404) d
           | Inr _ \<Rightarrow> pass (c\<lparr>cx_object := (''runner'', i) # cx_object c\<rparr>) d))"

subsection \<open>Other middlewares\<close>

definition metricsAuthMiddleware :: "ApiEnv \<Rightarrow> Request \<Rightarrow> Ctx \<Rightarrow> Api \<Rightarrow> step" where
  "metricsAuthMiddleware e r c d =
     (let ok = (rq_BasicAuth r \<noteq> None);
          (reqUser, reqPass) = (case rq_BasicAuth r of None \<Rightarrow> ([], []) | Some p \<Rightarrow> p)
      in if \<not> e_MetricsEnabled e \<or> e_MetricsUsername e = [] \<or> e_MetricsPassword e = [] \<or> \<not> ok \<or>
            reqUser \<noteq> e_MetricsUsername e \<or> reqPass \<noteq> e_MetricsPassword e
         then refuse (WriteErrorStatus ''Unauthorized'' 401) d else pass c d)"

definition appMiddleware :: "Request \<Rightarrow> Ctx \<Rightarrow> Api \<Rightarrow> step" where
  "appMiddleware r c d =
     (case GetStrParam ''app_id'' r of Inl resp \<Rightarrow> refuse resp d | Inr _ \<Rightarrow> pass c d)"

text \<open>A bad ID of a task is answered with status 400, yet the handler runs, for task 0.\<close>

definition TaskMiddleware :: "Request \<Rightarrow> Ctx \<Rightarrow> Api \<Rightarrow> step" where
  "TaskMiddleware r c d =
     (case GetIntParam ''task_id'' r of
        Inl resp \<Rightarrow> pass (c\<lparr>cx_status := Some (rs_Status resp), cx_object := (''task'', 0) # cx_object c\<rparr>) d
      | Inr i \<Rightarrow> pass (c\<lparr>cx_object := (''task'', i) # cx_object c\<rparr>) d)"

text \<open>The middleware of remote runners in front of a handler of this API.\<close>

definition runnerAuth :: "Request \<Rightarrow> Ctx \<Rightarrow> Api \<Rightarrow> step" where
  "runnerAuth r c d =
     (case RunnerMiddleware (rq_RunnerToken r) (\<lambda>runner w. Some (OkJSON runner, w)) (a_pool d) of
        Some (OkJSON runner, _) \<Rightarrow> pass (c\<lparr>cx_object := (''runner'', Runner_ID runner) # cx_object c\<rparr>) d
      | Some (HttpError code msg, _) \<Rightarrow> refuse (WriteErrorStatus msg code) d
      | _ \<Rightarrow> None)"

end
