(* ===== verification/Api_Routes.thy ===== *)
theory Api_Routes
  imports Api_Access
begin

text \<open>
  The routing table of the server, \<^verbatim>\<open>api/router.go\<close>: every sub-router with the middlewares in front of it, every
  route in the order of registration, the choice of a route for a request and the run of its middlewares. Paths are
  those after the prefix of the installation.
\<close>

subsection \<open>Middlewares by name\<close>

text \<open>
  \<open>M_Plain\<close> stands for middlewares that only set headers or pass the request on: \<^verbatim>\<open>StoreMiddleware\<close>,
  \<^verbatim>\<open>JSONMiddleware\<close>, \<^verbatim>\<open>plainTextMiddleware\<close> and the middlewares of the edition without paid features.
\<close>

datatype Middleware =
    M_Plain | M_Csrf | M_Authentication | M_Metrics | M_Runner | M_Admin | M_Project
  | M_MustCan ProjectUserPermission | M_NewTask | M_GetTask | M_TaskPermissions | M_ProjectUser
  | M_ReadonlyUser | M_GetUser | M_Repository | M_Inventory | M_Environment | M_Templates | M_Schedules | M_View
  | M_Key | M_SecretStorage | M_Integration | M_Workflows | M_WorkflowRuns | M_GlobalRunner | M_TaskID | M_App

primrec middleware :: "ApiEnv \<Rightarrow> Middleware \<Rightarrow> Request \<Rightarrow> Ctx \<Rightarrow> Api \<Rightarrow> step" where
  "middleware e M_Plain r c d = pass c d"
| "middleware e M_Csrf r c d = csrfProtectionMiddleware e r c d"
| "middleware e M_Authentication r c d = authenticationHandler e r c d"
| "middleware e M_Metrics r c d = metricsAuthMiddleware e r c d"
| "middleware e M_Runner r c d = runnerAuth r c d"
| "middleware e M_Admin r c d = adminMiddleware c d"
| "middleware e M_Project r c d = ProjectMiddleware r c d"
| "middleware e (M_MustCan permissions) r c d = GetMustCanMiddleware permissions r c d"
| "middleware e M_NewTask r c d = NewTaskMiddleware e r c d"
| "middleware e M_GetTask r c d = GetTaskMiddleware r c d"
| "middleware e M_TaskPermissions r c d = GetTaskPermissionsMiddleware c d"
| "middleware e M_ProjectUser r c d = UserMiddleware r c d"
| "middleware e M_ReadonlyUser r c d = ReadonlyUserMiddleware r c d"
| "middleware e M_GetUser r c d = GetUserMiddleware r c d"
| "middleware e M_Repository r c d = RepositoryMiddleware r c d"
| "middleware e M_Inventory r c d = InventoryMiddleware r c d"
| "middleware e M_Environment r c d = EnvironmentMiddleware e r c d"
| "middleware e M_Templates r c d = TemplatesMiddleware r c d"
| "middleware e M_Schedules r c d = SchedulesMiddleware r c d"
| "middleware e M_View r c d = ViewMiddleware r c d"
| "middleware e M_Key r c d = KeyMiddleware r c d"
| "middleware e M_SecretStorage r c d = SecretStorageMiddleware r c d"
| "middleware e M_Integration r c d = IntegrationMiddleware r c d"
| "middleware e M_Workflows r c d = WorkflowsMiddleware e r c d"
| "middleware e M_WorkflowRuns r c d = WorkflowRunsMiddleware e r c d"
| "middleware e M_GlobalRunner r c d = globalRunnerMiddleware r c d"
| "middleware e M_TaskID r c d = TaskMiddleware r c d"
| "middleware e M_App r c d = appMiddleware r c d"

text \<open>The middlewares of the outer router come first.\<close>

fun runChain :: "ApiEnv \<Rightarrow> Request \<Rightarrow> Middleware list \<Rightarrow> Ctx \<Rightarrow> Api \<Rightarrow> step" where
  "runChain e r [] c d = pass c d"
| "runChain e r (m # ms) c d =
     (case middleware e m r c d of
        Some (Passed c1, d1) \<Rightarrow> runChain e r ms c1 d1
      | res \<Rightarrow> res)"

subsection \<open>Sub-routers\<close>

definition pingRouter :: "Middleware list" where
  "pingRouter = [M_Plain]"

definition metricsRouter :: "Middleware list" where
  "metricsRouter = [M_Metrics]"

definition publicAPIRouter :: "Middleware list" where
  "publicAPIRouter = [M_Plain, M_Plain]"

definition internalAPI :: "Middleware list" where
  "internalAPI = publicAPIRouter"

definition runnersAPI :: "Middleware list" where
  "runnersAPI = internalAPI @ [M_Runner]"

definition publicWebHookRouter :: "Middleware list" where
  "publicWebHookRouter = [M_Plain, M_Plain]"

definition terraformWebhookRouter :: "Middleware list" where
  "terraformWebhookRouter = publicWebHookRouter @ [M_Plain]"

definition authenticatedWS :: "Middleware list" where
  "authenticatedWS = [M_Plain, M_Authentication]"

definition authenticatedAPI :: "Middleware list" where
  "authenticatedAPI = [M_Csrf, M_Plain, M_Plain, M_Authentication]"

definition tokenAPI :: "Middleware list" where
  "tokenAPI = authenticatedAPI"

definition adminAPI :: "Middleware list" where
  "adminAPI = authenticatedAPI @ [M_Admin]"

definition globalRunnersAPI :: "Middleware list" where
  "globalRunnersAPI = adminAPI @ [M_GlobalRunner]"

definition rolesAPI :: "Middleware list" where
  "rolesAPI = adminAPI"

definition appsAPI :: "Middleware list" where
  "appsAPI = adminAPI @ [M_App]"

definition tasksAPI :: "Middleware list" where
  "tasksAPI = adminAPI @ [M_TaskID]"

definition userUserAPI :: "Middleware list" where
  "userUserAPI = authenticatedAPI @ [M_ReadonlyUser]"

definition userAPI :: "Middleware list" where
  "userAPI = authenticatedAPI @ [M_GetUser]"

definition userPasswordAPI :: "Middleware list" where
  "userPasswordAPI = authenticatedAPI @ [M_GetUser]"

definition projectGet :: "Middleware list" where
  "projectGet = authenticatedAPI @ [M_Project]"

definition projectTaskStart :: "Middleware list" where
  "projectTaskStart = authenticatedAPI @ [M_Project, M_NewTask, M_TaskPermissions, M_MustCan CanRunProjectTasks]"

definition projectTaskStop :: "Middleware list" where
  "projectTaskStop = authenticatedAPI @ [M_Project, M_GetTask, M_TaskPermissions, M_MustCan CanRunProjectTasks]"

definition projectUserAPI :: "Middleware list" where
  "projectUserAPI = authenticatedAPI @ [M_Project, M_MustCan CanManageProjectResources]"

definition projectRunnersAPI :: "Middleware list" where
  "projectRunnersAPI = projectUserAPI @ [M_Plain]"

definition projectRolesAPI :: "Middleware list" where
  "projectRolesAPI = projectUserAPI"

definition projectAdminAPI :: "Middleware list" where
  "projectAdminAPI = authenticatedAPI @ [M_Project, M_MustCan CanUpdateProject]"

definition meAPI :: "Middleware list" where
  "meAPI = authenticatedAPI @ [M_Project]"

definition cacheAPI :: "Middleware list" where
  "cacheAPI = authenticatedAPI @ [M_Project]"

definition projectAdminUsersAPI :: "Middleware list" where
  "projectAdminUsersAPI = authenticatedAPI @ [M_Project, M_MustCan CanManageProjectUsers]"

definition projectUserManagement :: "Middleware list" where
  "projectUserManagement = projectAdminUsersAPI @ [M_ProjectUser]"

definition projectKeyManagement :: "Middleware list" where
  "projectKeyManagement = projectUserAPI @ [M_Key]"

definition projectSecretStorageManagement :: "Middleware list" where
  "projectSecretStorageManagement = projectUserAPI @ [M_SecretStorage]"

definition projectRepoManagement :: "Middleware list" where
  "projectRepoManagement = projectUserAPI @ [M_Repository]"

definition projectInventoryManagement :: "Middleware list" where
  "projectInventoryManagement = projectUserAPI @ [M_Inventory]"

definition projectEnvManagement :: "Middleware list" where
  "projectEnvManagement = projectUserAPI @ [M_Environment]"

definition projectTmplManagement :: "Middleware list" where
  "projectTmplManagement = projectUserAPI @ [M_Templates]"

definition projectTmplInvManagement :: "Middleware list" where
  "projectTmplInvManagement = projectTmplManagement @ [M_Inventory]"

definition projectWorkflowManagement :: "Middleware list" where
  "projectWorkflowManagement = projectUserAPI @ [M_Workflows]"

definition projectWorkflowRunAPI :: "Middleware list" where
  "projectWorkflowRunAPI = authenticatedAPI @ [M_Project, M_Workflows, M_MustCan CanRunProjectTasks]"

definition projectWorkflowRunManagement :: "Middleware list" where
  "projectWorkflowRunManagement = projectWorkflowRunAPI @ [M_WorkflowRuns]"

definition projectTaskManagement :: "Middleware list" where
  "projectTaskManagement = projectUserAPI @ [M_GetTask]"

definition projectScheduleManagement :: "Middleware list" where
  "projectScheduleManagement = projectUserAPI @ [M_Schedules]"

definition projectViewManagement :: "Middleware list" where
  "projectViewManagement = projectUserAPI @ [M_View]"

definition projectIntegrationsAliasAPI :: "Middleware list" where
  "projectIntegrationsAliasAPI = projectUserAPI @ [M_Project]"

definition projectIntegrationsAPI :: "Middleware list" where
  "projectIntegrationsAPI = projectUserAPI @ [M_Project, M_Integration]"

subsection \<open>Routes\<close>

record Route =
  rt_Methods :: "string list"
  rt_Path :: string
  rt_Chain :: "Middleware list"
  rt_Handler :: string

definition route :: "string list \<Rightarrow> string \<Rightarrow> Middleware list \<Rightarrow> string \<Rightarrow> Route" where
  "route methods path chain handler =
     \<lparr>rt_Methods = methods, rt_Path = path, rt_Chain = chain, rt_Handler = handler\<rparr>"

text \<open>Routes that ask for no session.\<close>

definition publicRoutes :: "Route list" where
  "publicRoutes =
     [route [''GET'', ''HEAD''] ''/.well-known/jwks.json'' [] ''jwksController.GetJWKS'',
      route [''GET'', ''HEAD''] ''/api/ping'' pingRouter ''pongHandler'',
      route [''GET'', ''HEAD''] ''/api/metrics'' metricsRouter ''appMetrics'',
      route [''GET'', ''POST''] ''/api/auth/login'' publicAPIRouter ''login'',
      route [''POST''] ''/api/auth/verify'' publicAPIRouter ''verifySession'',
      route [''POST''] ''/api/auth/recovery'' publicAPIRouter ''recoverySession'',
      route [''POST''] ''/api/auth/logout'' publicAPIRouter ''logout'',
      route [''GET'', ''POST''] ''/api/auth/oidc/{provider}/login'' publicAPIRouter ''oidcLogin'',
      route [''GET''] ''/api/auth/oidc/{provider}/redirect'' publicAPIRouter ''oidcRedirect'',
      route [''GET''] ''/api/auth/oidc/{provider}/redirect/{redirect_path:.*}'' publicAPIRouter ''oidcRedirect'',
      route [''POST''] ''/api/internal/runners'' internalAPI ''runners.RegisterRunner'',
      route [''GET'', ''HEAD''] ''/api/internal/runners'' runnersAPI ''runnerController.GetRunner'',
      route [''PUT''] ''/api/internal/runners'' runnersAPI ''runnerController.UpdateRunner'',
      route [''DELETE''] ''/api/internal/runners'' runnersAPI ''runners.UnregisterRunner'',
      route [''POST'', ''GET'', ''OPTIONS''] ''/api/integrations/{integration_alias}'' publicWebHookRouter ''integrationController.ReceiveIntegration'',
      route [''GET''] ''/api/terraform/{alias}'' terraformWebhookRouter ''terraformController.GetTerraformState'',
      route [''POST''] ''/api/terraform/{alias}'' terraformWebhookRouter ''terraformController.AddTerraformState'',
      route [''LOCK''] ''/api/terraform/{alias}'' terraformWebhookRouter ''terraformController.LockTerraformState'',
      route [''UNLOCK''] ''/api/terraform/{alias}'' terraformWebhookRouter ''terraformController.UnlockTerraformState'']"

text \<open>The routes of every user.\<close>

definition accountRoutes :: "Route list" where
  "accountRoutes =
     [route [''GET'', ''HEAD''] ''/api/ws'' authenticatedWS ''sockets.Handler'',
      route [''GET'', ''HEAD''] ''/api/info'' authenticatedAPI ''systemInfoController.GetSystemInfo'',
      route [''POST''] ''/api/subscription'' authenticatedAPI ''subscriptionController.Activate'',
      route [''POST''] ''/api/subscription/refresh'' authenticatedAPI ''subscriptionController.Refresh'',
      route [''GET''] ''/api/subscription'' authenticatedAPI ''subscriptionController.GetSubscription'',
      route [''DELETE''] ''/api/subscription'' authenticatedAPI ''subscriptionController.Delete'',
      route [''GET'', ''HEAD''] ''/api/projects'' authenticatedAPI ''projects.GetProjects'',
      route [''POST''] ''/api/projects'' authenticatedAPI ''projectsController.AddProject'',
      route [''POST''] ''/api/projects/restore'' authenticatedAPI ''backupController.Restore'',
      route [''GET'', ''HEAD''] ''/api/events'' authenticatedAPI ''getAllEvents'',
      route [''GET'', ''HEAD''] ''/api/events/last'' authenticatedAPI ''getLastEvents'',
      route [''GET'', ''HEAD''] ''/api/users'' authenticatedAPI ''usersController.GetUsers'',
      route [''POST''] ''/api/users'' authenticatedAPI ''usersController.AddUser'',
      route [''GET'', ''HEAD''] ''/api/user'' authenticatedAPI ''userController.GetUser'',
      route [''GET'', ''HEAD''] ''/api/apps'' authenticatedAPI ''getApps'',
      route [''GET'', ''HEAD''] ''/api/user/tokens'' tokenAPI ''getAPITokens'',
      route [''POST''] ''/api/user/tokens'' tokenAPI ''createAPIToken'',
      route [''DELETE''] ''/api/user/tokens/{token_id}'' tokenAPI ''deleteAPIToken'',
      route [''GET'', ''HEAD''] ''/api/user/options'' tokenAPI ''getUserOptions'',
      route [''POST''] ''/api/user/options'' tokenAPI ''setUserOption'',
      route [''POST''] ''/api/user/identities/ldap'' tokenAPI ''linkLdapIdentity'']"

text \<open>The routes of administrators.\<close>

definition adminRoutes :: "Route list" where
  "adminRoutes =
     [route [''GET'', ''HEAD''] ''/api/options'' adminAPI ''getOptions'',
      route [''POST''] ''/api/options'' adminAPI ''setOption'',
      route [''GET'', ''HEAD''] ''/api/admin/info'' adminAPI ''getAdminInfo'',
      route [''GET'', ''HEAD''] ''/api/cluster'' adminAPI ''getClusterStatus'',
      route [''GET'', ''HEAD''] ''/api/cluster/tasks'' adminAPI ''getClusterTasks'',
      route [''DELETE''] ''/api/cluster/tasks'' adminAPI ''clearClusterTasks'',
      route [''GET'', ''HEAD''] ''/api/runners'' adminAPI ''globalRunnerController.GetRunners'',
      route [''POST'', ''HEAD''] ''/api/runners'' adminAPI ''globalRunnerController.AddRunner'',
      route [''GET'', ''HEAD''] ''/api/runner_tags'' adminAPI ''globalRunnerController.GetRunnerTags'',
      route [''GET'', ''HEAD''] ''/api/roles'' adminAPI ''rolesController.GetRoles'',
      route [''POST'', ''HEAD''] ''/api/roles'' adminAPI ''rolesController.AddRole'',
      route [''DELETE'', ''HEAD''] ''/api/cache'' adminAPI ''clearCache'',
      route [''GET'', ''HEAD''] ''/api/runners/{runner_id}'' globalRunnersAPI ''globalRunnerController.GetRunner'',
      route [''PUT'', ''POST''] ''/api/runners/{runner_id}'' globalRunnersAPI ''globalRunnerController.UpdateRunner'',
      route [''POST''] ''/api/runners/{runner_id}/active'' globalRunnersAPI ''globalRunnerController.SetRunnerActive'',
      route [''POST''] ''/api/runners/{runner_id}/registration-token'' globalRunnersAPI ''globalRunnerController.RegenerateRegistrationToken'',
      route [''DELETE''] ''/api/runners/{runner_id}'' globalRunnersAPI ''globalRunnerController.DeleteRunner'',
      route [''DELETE''] ''/api/runners/{runner_id}/cache'' globalRunnersAPI ''globalRunnerController.ClearRunnerCache'',
      route [''GET'', ''HEAD''] ''/api/roles/{role_slug}'' rolesAPI ''rolesController.GetGlobalRole'',
      route [''PUT'', ''POST''] ''/api/roles/{role_slug}'' rolesAPI ''rolesController.UpdateRole'',
      route [''DELETE''] ''/api/roles/{role_slug}'' rolesAPI ''rolesController.DeleteRole'',
      route [''GET'', ''HEAD''] ''/api/apps/{app_id}'' appsAPI ''getApp'',
      route [''PUT'', ''POST''] ''/api/apps/{app_id}'' appsAPI ''setApp'',
      route [''POST''] ''/api/apps/{app_id}/active'' appsAPI ''setAppActive'',
      route [''DELETE''] ''/api/apps/{app_id}'' appsAPI ''deleteApp'',
      route [''GET'', ''HEAD''] ''/api/tasks'' adminAPI ''tasks.GetTasks'',
      route [''GET'', ''HEAD''] ''/api/tasks/{task_id}'' tasksAPI ''tasks.GetTasks'',
      route [''DELETE''] ''/api/tasks/{task_id}'' tasksAPI ''tasks.DeleteTask'']"

text \<open>The routes of one account.\<close>

definition userRoutes :: "Route list" where
  "userRoutes =
     [route [''GET'', ''HEAD''] ''/api/users/{user_id}'' userUserAPI ''userController.GetUser'',
      route [''PUT''] ''/api/users/{user_id}'' userAPI ''usersController.UpdateUser'',
      route [''DELETE''] ''/api/users/{user_id}'' userAPI ''usersController.DeleteUser'',
      route [''POST''] ''/api/users/{user_id}/password'' userPasswordAPI ''usersController.UpdateUserPassword'',
      route [''POST''] ''/api/users/{user_id}/2fas/totp'' userPasswordAPI ''usersController.EnableTotp'',
      route [''GET''] ''/api/users/{user_id}/2fas/totp/{totp_id}/qr'' userPasswordAPI ''usersController.TotpQr'',
      route [''DELETE''] ''/api/users/{user_id}/2fas/totp/{totp_id}'' userPasswordAPI ''usersController.DisableTotp'',
      route [''GET'', ''HEAD''] ''/api/users/{user_id}/identities'' userPasswordAPI ''usersController.GetUserIdentities'',
      route [''DELETE''] ''/api/users/{user_id}/identities/{type}/{provider}'' userPasswordAPI ''usersController.DeleteUserIdentity'']"

text \<open>Starting and controlling tasks.\<close>

definition taskRoutes :: "Route list" where
  "taskRoutes =
     [route [''GET'', ''HEAD''] ''/api/project/{project_id}'' projectGet ''projects.GetProject'',
      route [''POST''] ''/api/project/{project_id}/tasks'' projectTaskStart ''taskController.AddTask'',
      route [''POST''] ''/api/project/{project_id}/tasks/{task_id}/stop'' projectTaskStop ''taskController.StopTask'',
      route [''POST''] ''/api/project/{project_id}/tasks/{task_id}/confirm'' projectTaskStop ''taskController.ConfirmTask'',
      route [''POST''] ''/api/project/{project_id}/tasks/{task_id}/reject'' projectTaskStop ''taskController.RejectTask'']"

text \<open>The collections of a project.\<close>

definition projectRoutes :: "Route list" where
  "projectRoutes =
     [route [''GET'', ''HEAD''] ''/api/project/{project_id}/role'' projectUserAPI ''projects.GetUserRole'',
      route [''GET'', ''HEAD''] ''/api/project/{project_id}/events'' projectUserAPI ''getAllEvents'',
      route [''GET'', ''HEAD''] ''/api/project/{project_id}/events/last'' projectUserAPI ''getLastEvents'',
      route [''GET'', ''HEAD''] ''/api/project/{project_id}/users'' projectUserAPI ''projects.GetUsers'',
      route [''GET'', ''HEAD''] ''/api/project/{project_id}/keys'' projectUserAPI ''projects.GetKeys'',
      route [''POST''] ''/api/project/{project_id}/keys'' projectUserAPI ''keyController.AddKey'',
      route [''GET'', ''HEAD''] ''/api/project/{project_id}/secret_storages'' projectUserAPI ''secretStorageController.GetSecretStorages'',
      route [''POST''] ''/api/project/{project_id}/secret_storages'' projectUserAPI ''secretStorageController.Add'',
      route [''GET'', ''HEAD''] ''/api/project/{project_id}/repositories'' projectUserAPI ''projects.GetRepositories'',
      route [''POST''] ''/api/project/{project_id}/repositories'' projectUserAPI ''projects.AddRepository'',
      route [''GET'', ''HEAD''] ''/api/project/{project_id}/inventory'' projectUserAPI ''projects.GetInventory'',
      route [''POST''] ''/api/project/{project_id}/inventory'' projectUserAPI ''projects.AddInventory'',
      route [''GET'', ''HEAD''] ''/api/project/{project_id}/environment'' projectUserAPI ''projects.GetEnvironment'',
      route [''POST''] ''/api/project/{project_id}/environment'' projectUserAPI ''environmentController.AddEnvironment'',
      route [''GET'', ''HEAD''] ''/api/project/{project_id}/tasks'' projectUserAPI ''taskController.GetAllTasks'',
      route [''GET'', ''HEAD''] ''/api/project/{project_id}/tasks/last'' projectUserAPI ''taskController.GetLastTasks'',
      route [''GET'', ''HEAD''] ''/api/project/{project_id}/stats'' projectUserAPI ''taskController.GetTaskStats'',
      route [''GET'', ''HEAD''] ''/api/project/{project_id}/templates'' projectUserAPI ''projects.GetTemplates'',
      route [''POST''] ''/api/project/{project_id}/templates'' projectUserAPI ''projects.AddTemplate'',
      route [''GET'', ''HEAD''] ''/api/project/{project_id}/workflows'' projectUserAPI ''workflowController.GetWorkflows'',
      route [''POST''] ''/api/project/{project_id}/workflows'' projectUserAPI ''workflowController.AddWorkflow'',
      route [''GET'', ''HEAD''] ''/api/project/{project_id}/schedules'' projectUserAPI ''projects.GetProjectSchedules'',
      route [''POST''] ''/api/project/{project_id}/schedules'' projectUserAPI ''projects.AddSchedule'',
      route [''POST''] ''/api/project/{project_id}/schedules/validate'' projectUserAPI ''projects.ValidateScheduleCronFormat'',
      route [''GET'', ''HEAD''] ''/api/project/{project_id}/views'' projectUserAPI ''projects.GetViews'',
      route [''POST''] ''/api/project/{project_id}/views'' projectUserAPI ''projects.AddView'',
      route [''POST''] ''/api/project/{project_id}/views/positions'' projectUserAPI ''projects.SetViewPositions'',
      route [''GET'', ''HEAD''] ''/api/project/{project_id}/integrations'' projectUserAPI ''projects.GetIntegrations'',
      route [''POST''] ''/api/project/{project_id}/integrations'' projectUserAPI ''projects.AddIntegration'',
      route [''GET'', ''HEAD''] ''/api/project/{project_id}/backup'' projectUserAPI ''backupController.GetBackup'',
      route [''POST''] ''/api/project/{project_id}/notifications/test'' projectUserAPI ''projectController.SendTestNotification'',
      route [''GET'', ''HEAD''] ''/api/project/{project_id}/runners'' projectUserAPI ''projectRunnerController.GetRunners'',
      route [''POST''] ''/api/project/{project_id}/runners'' projectUserAPI ''projectRunnerController.AddRunner'',
      route [''GET'', ''HEAD''] ''/api/project/{project_id}/runner_tags'' projectUserAPI ''projectRunnerController.GetRunnerTags'',
      route [''GET'', ''HEAD''] ''/api/project/{project_id}/runners/{runner_id}'' projectRunnersAPI ''projectRunnerController.GetRunner'',
      route [''PUT'', ''POST''] ''/api/project/{project_id}/runners/{runner_id}'' projectRunnersAPI ''projectRunnerController.UpdateRunner'',
      route [''POST''] ''/api/project/{project_id}/runners/{runner_id}/active'' projectRunnersAPI ''projectRunnerController.SetRunnerActive'',
      route [''POST''] ''/api/project/{project_id}/runners/{runner_id}/registration-token'' projectRunnersAPI ''projectRunnerController.RegenerateRegistrationToken'',
      route [''DELETE''] ''/api/project/{project_id}/runners/{runner_id}'' projectRunnersAPI ''projectRunnerController.DeleteRunner'',
      route [''DELETE''] ''/api/project/{project_id}/runners/{runner_id}/cache'' projectRunnersAPI ''projectRunnerController.ClearRunnerCache'',
      route [''GET'', ''HEAD''] ''/api/project/{project_id}/roles'' projectUserAPI ''rolesController.GetProjectRoles'',
      route [''GET'', ''HEAD''] ''/api/project/{project_id}/roles/all'' projectUserAPI ''rolesController.GetProjectAndGlobalRoles'',
      route [''POST''] ''/api/project/{project_id}/roles'' projectUserAPI ''rolesController.AddProjectRole'',
      route [''GET'', ''HEAD''] ''/api/project/{project_id}/roles/{role_slug}'' projectRolesAPI ''rolesController.GetProjectRole'',
      route [''PUT'', ''POST''] ''/api/project/{project_id}/roles/{role_slug}'' projectRolesAPI ''rolesController.UpdateProjectRole'',
      route [''DELETE''] ''/api/project/{project_id}/roles/{role_slug}'' projectRolesAPI ''rolesController.DeleteProjectRole'']"

text \<open>The project itself and its members.\<close>

definition memberRoutes :: "Route list" where
  "memberRoutes =
     [route [''PUT''] ''/api/project/{project_id}'' projectAdminAPI ''projectController.UpdateProject'',
      route [''DELETE''] ''/api/project/{project_id}'' projectAdminAPI ''projectController.DeleteProject'',
      route [''DELETE''] ''/api/project/{project_id}/me'' meAPI ''projects.LeftProject'',
      route [''DELETE''] ''/api/project/{project_id}/cache'' cacheAPI ''projects.ClearCache'',
      route [''POST''] ''/api/project/{project_id}/users'' projectAdminUsersAPI ''projects.AddUser'',
      route [''GET'', ''HEAD''] ''/api/project/{project_id}/users/{user_id}'' projectUserManagement ''projects.GetUsers'',
      route [''PUT''] ''/api/project/{project_id}/users/{user_id}'' projectUserManagement ''projects.UpdateUser'',
      route [''DELETE''] ''/api/project/{project_id}/users/{user_id}'' projectUserManagement ''projects.RemoveUser'']"

text \<open>Keys, storages, repositories, inventories and environments.\<close>

definition objectRoutes :: "Route list" where
  "objectRoutes =
     [route [''GET'', ''HEAD''] ''/api/project/{project_id}/keys/{key_id}'' projectKeyManagement ''projects.GetKeys'',
      route [''GET'', ''HEAD''] ''/api/project/{project_id}/keys/{key_id}/refs'' projectKeyManagement ''projects.GetKeyRefs'',
      route [''PUT''] ''/api/project/{project_id}/keys/{key_id}'' projectKeyManagement ''keyController.UpdateKey'',
      route [''DELETE''] ''/api/project/{project_id}/keys/{key_id}'' projectKeyManagement ''keyController.RemoveKey'',
      route [''GET'', ''HEAD''] ''/api/project/{project_id}/secret_storages/{storage_id}'' projectSecretStorageManagement ''secretStorageController.GetSecretStorage'',
      route [''GET'', ''HEAD''] ''/api/project/{project_id}/secret_storages/{storage_id}/refs'' projectSecretStorageManagement ''secretStorageController.GetRefs'',
      route [''PUT''] ''/api/project/{project_id}/secret_storages/{storage_id}'' projectSecretStorageManagement ''secretStorageController.Update'',
      route [''DELETE''] ''/api/project/{project_id}/secret_storages/{storage_id}'' projectSecretStorageManagement ''secretStorageController.Remove'',
      route [''POST''] ''/api/project/{project_id}/secret_storages/{storage_id}/sync'' projectSecretStorageManagement ''secretStorageController.SyncSecrets'',
      route [''GET'', ''HEAD''] ''/api/project/{project_id}/repositories/{repository_id}'' projectRepoManagement ''projects.GetRepositories'',
      route [''GET'', ''HEAD''] ''/api/project/{project_id}/repositories/{repository_id}/refs'' projectRepoManagement ''projects.GetRepositoryRefs'',
      route [''PUT''] ''/api/project/{project_id}/repositories/{repository_id}'' projectRepoManagement ''projects.UpdateRepository'',
      route [''DELETE''] ''/api/project/{project_id}/repositories/{repository_id}'' projectRepoManagement ''projects.RemoveRepository'',
      route [''GET'', ''HEAD''] ''/api/project/{project_id}/repositories/{repository_id}/branches'' projectRepoManagement ''repositoryController.GetRepositoryBranches'',
      route [''GET'', ''HEAD''] ''/api/project/{project_id}/repositories/{repository_id}/playbooks'' projectRepoManagement ''repositoryController.GetRepositoryPlaybooks'',
      route [''GET'', ''HEAD''] ''/api/project/{project_id}/inventory/{inventory_id}'' projectInventoryManagement ''projects.GetInventory'',
      route [''GET'', ''HEAD''] ''/api/project/{project_id}/inventory/{inventory_id}/refs'' projectInventoryManagement ''projects.GetInventoryRefs'',
      route [''PUT''] ''/api/project/{project_id}/inventory/{inventory_id}'' projectInventoryManagement ''projects.UpdateInventory'',
      route [''DELETE''] ''/api/project/{project_id}/inventory/{inventory_id}'' projectInventoryManagement ''projects.RemoveInventory'',
      route [''GET'', ''HEAD''] ''/api/project/{project_id}/inventory/{inventory_id}/terraform/aliases'' projectInventoryManagement ''terraformInventoryController.GetTerraformInventoryAliases'',
      route [''POST''] ''/api/project/{project_id}/inventory/{inventory_id}/terraform/aliases'' projectInventoryManagement ''terraformInventoryController.AddTerraformInventoryAlias'',
      route [''GET''] ''/api/project/{project_id}/inventory/{inventory_id}/terraform/aliases/{alias_id}'' projectInventoryManagement ''terraformInventoryController.GetTerraformInventoryAlias'',
      route [''DELETE''] ''/api/project/{project_id}/inventory/{inventory_id}/terraform/aliases/{alias_id}'' projectInventoryManagement ''terraformInventoryController.DeleteTerraformInventoryAlias'',
      route [''PUT''] ''/api/project/{project_id}/inventory/{inventory_id}/terraform/aliases/{alias_id}'' projectInventoryManagement ''terraformInventoryController.SetTerraformInventoryAliasAccessKey'',
      route [''GET'', ''HEAD''] ''/api/project/{project_id}/inventory/{inventory_id}/terraform/states'' projectInventoryManagement ''terraformInventoryController.GetTerraformInventoryStates'',
      route [''GET'', ''HEAD''] ''/api/project/{project_id}/inventory/{inventory_id}/terraform/states/latest'' projectInventoryManagement ''terraformInventoryController.GetTerraformInventoryLatestState'',
      route [''GET''] ''/api/project/{project_id}/inventory/{inventory_id}/terraform/states/{state_id}'' projectInventoryManagement ''terraformInventoryController.GetTerraformInventoryState'',
      route [''DELETE''] ''/api/project/{project_id}/inventory/{inventory_id}/terraform/states/{state_id}'' projectInventoryManagement ''terraformInventoryController.DeleteTerraformInventoryState'']"

text \<open>Templates.\<close>

definition templateRoutes :: "Route list" where
  "templateRoutes =
     [route [''GET'', ''HEAD''] ''/api/project/{project_id}/environment/{environment_id}'' projectEnvManagement ''projects.GetEnvironment'',
      route [''GET'', ''HEAD''] ''/api/project/{project_id}/environment/{environment_id}/refs'' projectEnvManagement ''projects.GetEnvironmentRefs'',
      route [''PUT''] ''/api/project/{project_id}/environment/{environment_id}'' projectEnvManagement ''environmentController.UpdateEnvironment'',
      route [''DELETE''] ''/api/project/{project_id}/environment/{environment_id}'' projectEnvManagement ''environmentController.RemoveEnvironment'',
      route [''POST''] ''/api/project/{project_id}/environment/{environment_id}/sync'' projectEnvManagement ''environmentController.SyncEnvironment'',
      route [''PUT''] ''/api/project/{project_id}/templates/{template_id}'' projectTmplManagement ''projects.UpdateTemplate'',
      route [''PUT''] ''/api/project/{project_id}/templates/{template_id}/description'' projectTmplManagement ''projects.UpdateTemplateDescription'',
      route [''DELETE''] ''/api/project/{project_id}/templates/{template_id}'' projectTmplManagement ''projects.RemoveTemplate'',
      route [''GET''] ''/api/project/{project_id}/templates/{template_id}'' projectTmplManagement ''projects.GetTemplate'',
      route [''GET'', ''HEAD''] ''/api/project/{project_id}/templates/{template_id}/refs'' projectTmplManagement ''projects.GetTemplateRefs'',
      route [''GET''] ''/api/project/{project_id}/templates/{template_id}/tasks'' projectTmplManagement ''taskController.GetAllTasks'',
      route [''GET''] ''/api/project/{project_id}/templates/{template_id}/tasks/last'' projectTmplManagement ''taskController.GetLastTasks'',
      route [''GET''] ''/api/project/{project_id}/templates/{template_id}/schedules'' projectTmplManagement ''projects.GetTemplateSchedules'',
      route [''GET''] ''/api/project/{project_id}/templates/{template_id}/stats'' projectTmplManagement ''taskController.GetTaskStats'',
      route [''POST''] ''/api/project/{project_id}/templates/{template_id}/stop_all_tasks'' projectTmplManagement ''taskController.StopAllTasks'',
      route [''GET''] ''/api/project/{project_id}/templates/{template_id}/perms'' projectTmplManagement ''templateController.GetTemplatePerms'',
      route [''POST''] ''/api/project/{project_id}/templates/{template_id}/perms'' projectTmplManagement ''templateController.AddTemplatePerm'',
      route [''GET''] ''/api/project/{project_id}/templates/{template_id}/perms/{perm_id}'' projectTmplManagement ''templateController.GetTemplatePerm'',
      route [''PUT''] ''/api/project/{project_id}/templates/{template_id}/perms/{perm_id}'' projectTmplManagement ''templateController.UpdateTemplatePerm'',
      route [''DELETE''] ''/api/project/{project_id}/templates/{template_id}/perms/{perm_id}'' projectTmplManagement ''templateController.DeleteTemplatePerm'',
      route [''POST''] ''/api/project/{project_id}/templates/{template_id}/inventory/{inventory_id}/set_default'' projectTmplInvManagement ''projects.SetTemplateInventory'',
      route [''POST''] ''/api/project/{project_id}/templates/{template_id}/inventory/{inventory_id}/attach'' projectTmplInvManagement ''projects.AttachInventory'',
      route [''POST''] ''/api/project/{project_id}/templates/{template_id}/inventory/{inventory_id}/detach'' projectTmplInvManagement ''projects.DetachInventory'']"

text \<open>Workflows.\<close>

definition workflowRoutes :: "Route list" where
  "workflowRoutes =
     [route [''PUT''] ''/api/project/{project_id}/workflows/{workflow_id}'' projectWorkflowManagement ''workflowController.UpdateWorkflow'',
      route [''DELETE''] ''/api/project/{project_id}/workflows/{workflow_id}'' projectWorkflowManagement ''workflowController.RemoveWorkflow'',
      route [''GET''] ''/api/project/{project_id}/workflows/{workflow_id}'' projectWorkflowManagement ''workflowController.GetWorkflow'',
      route [''POST''] ''/api/project/{project_id}/workflows/{workflow_id}/run'' projectWorkflowRunAPI ''workflowController.RunWorkflow'',
      route [''GET'', ''HEAD''] ''/api/project/{project_id}/workflows/{workflow_id}/runs'' projectWorkflowRunAPI ''workflowController.GetWorkflowRuns'',
      route [''GET'', ''HEAD''] ''/api/project/{project_id}/workflows/{workflow_id}/runs/{run_id}'' projectWorkflowRunManagement ''workflowController.GetWorkflowRun'',
      route [''POST''] ''/api/project/{project_id}/workflows/{workflow_id}/runs/{run_id}/stop'' projectWorkflowRunManagement ''workflowController.StopWorkflowRun'',
      route [''GET'', ''HEAD''] ''/api/project/{project_id}/workflows/{workflow_id}/runs/{run_id}/artifacts'' projectWorkflowRunManagement ''workflowController.GetWorkflowRunArtifacts'',
      route [''GET'', ''HEAD''] ''/api/project/{project_id}/workflows/{workflow_id}/runs/{run_id}/approvals'' projectWorkflowRunManagement ''workflowController.GetWorkflowApprovals'',
      route [''POST''] ''/api/project/{project_id}/workflows/{workflow_id}/runs/{run_id}/approvals/{node_id}'' projectWorkflowRunManagement ''workflowController.ResolveWorkflowApproval'']"

text \<open>Task history, schedules and views.\<close>

definition historyRoutes :: "Route list" where
  "historyRoutes =
     [route [''GET'', ''HEAD''] ''/api/project/{project_id}/tasks/{task_id}/output'' projectTaskManagement ''taskController.GetTaskOutput'',
      route [''GET'', ''HEAD''] ''/api/project/{project_id}/tasks/{task_id}/raw_output'' projectTaskManagement ''taskController.GetTaskRawOutput'',
      route [''GET'', ''HEAD''] ''/api/project/{project_id}/tasks/{task_id}'' projectTaskManagement ''taskController.GetTask'',
      route [''DELETE''] ''/api/project/{project_id}/tasks/{task_id}'' projectTaskManagement ''taskController.RemoveTask'',
      route [''GET'', ''HEAD''] ''/api/project/{project_id}/tasks/{task_id}/stages'' projectTaskManagement ''taskController.GetTaskStages'',
      route [''GET'', ''HEAD''] ''/api/project/{project_id}/tasks/{task_id}/ansible/hosts'' projectTaskManagement ''taskController.GetAnsibleTaskHosts'',
      route [''GET'', ''HEAD''] ''/api/project/{project_id}/tasks/{task_id}/ansible/errors'' projectTaskManagement ''taskController.GetAnsibleTaskErrors'',
      route [''GET'', ''HEAD''] ''/api/project/{project_id}/schedules/{schedule_id}'' projectScheduleManagement ''projects.GetSchedule'',
      route [''PUT''] ''/api/project/{project_id}/schedules/{schedule_id}'' projectScheduleManagement ''projects.UpdateSchedule'',
      route [''PUT''] ''/api/project/{project_id}/schedules/{schedule_id}/active'' projectScheduleManagement ''projects.SetScheduleActive'',
      route [''DELETE''] ''/api/project/{project_id}/schedules/{schedule_id}'' projectScheduleManagement ''projects.RemoveSchedule'',
      route [''GET'', ''HEAD''] ''/api/project/{project_id}/views/{view_id}'' projectViewManagement ''projects.GetViews'',
      route [''PUT''] ''/api/project/{project_id}/views/{view_id}'' projectViewManagement ''projects.UpdateView'',
      route [''DELETE''] ''/api/project/{project_id}/views/{view_id}'' projectViewManagement ''projects.RemoveView'',
      route [''GET'', ''HEAD''] ''/api/project/{project_id}/views/{view_id}/templates'' projectViewManagement ''projects.GetViewTemplates'']"

text \<open>Integrations.\<close>

definition integrationRoutes :: "Route list" where
  "integrationRoutes =
     [route [''GET'', ''HEAD''] ''/api/project/{project_id}/integrations/aliases'' projectIntegrationsAliasAPI ''projects.GetIntegrationAlias'',
      route [''POST''] ''/api/project/{project_id}/integrations/aliases'' projectIntegrationsAliasAPI ''projects.AddIntegrationAlias'',
      route [''DELETE''] ''/api/project/{project_id}/integrations/aliases/{alias_id}'' projectIntegrationsAliasAPI ''projects.RemoveIntegrationAlias'',
      route [''PUT''] ''/api/project/{project_id}/integrations/{integration_id}'' projectIntegrationsAPI ''projects.UpdateIntegration'',
      route [''DELETE''] ''/api/project/{project_id}/integrations/{integration_id}'' projectIntegrationsAPI ''projects.DeleteIntegration'',
      route [''GET''] ''/api/project/{project_id}/integrations/{integration_id}'' projectIntegrationsAPI ''projects.GetIntegration'',
      route [''GET'', ''HEAD''] ''/api/project/{project_id}/integrations/{integration_id}/refs'' projectIntegrationsAPI ''projects.GetIntegrationRefs'',
      route [''GET'', ''HEAD''] ''/api/project/{project_id}/integrations/{integration_id}/matchers'' projectIntegrationsAPI ''projects.GetIntegrationMatchers'',
      route [''POST''] ''/api/project/{project_id}/integrations/{integration_id}/matchers'' projectIntegrationsAPI ''projects.AddIntegrationMatcher'',
      route [''GET'', ''HEAD''] ''/api/project/{project_id}/integrations/{integration_id}/values'' projectIntegrationsAPI ''projects.GetIntegrationExtractValues'',
      route [''POST''] ''/api/project/{project_id}/integrations/{integration_id}/values'' projectIntegrationsAPI ''projects.AddIntegrationExtractValue'',
      route [''GET'', ''HEAD''] ''/api/project/{project_id}/integrations/{integration_id}/aliases'' projectIntegrationsAPI ''projects.GetIntegrationAlias'',
      route [''POST''] ''/api/project/{project_id}/integrations/{integration_id}/aliases'' projectIntegrationsAPI ''projects.AddIntegrationAlias'',
      route [''DELETE''] ''/api/project/{project_id}/integrations/{integration_id}/aliases/{alias_id}'' projectIntegrationsAPI ''projects.RemoveIntegrationAlias'',
      route [''GET'', ''HEAD''] ''/api/project/{project_id}/integrations/{integration_id}/matchers/{matcher_id}'' projectIntegrationsAPI ''projects.GetIntegrationMatcher'',
      route [''PUT''] ''/api/project/{project_id}/integrations/{integration_id}/matchers/{matcher_id}'' projectIntegrationsAPI ''projects.UpdateIntegrationMatcher'',
      route [''DELETE''] ''/api/project/{project_id}/integrations/{integration_id}/matchers/{matcher_id}'' projectIntegrationsAPI ''projects.DeleteIntegrationMatcher'',
      route [''GET'', ''HEAD''] ''/api/project/{project_id}/integrations/{integration_id}/matchers/{matcher_id}/refs'' projectIntegrationsAPI ''projects.GetIntegrationMatcherRefs'',
      route [''GET'', ''HEAD''] ''/api/project/{project_id}/integrations/{integration_id}/values/{value_id}'' projectIntegrationsAPI ''projects.GetIntegrationExtractValue'',
      route [''PUT''] ''/api/project/{project_id}/integrations/{integration_id}/values/{value_id}'' projectIntegrationsAPI ''projects.UpdateIntegrationExtractValue'',
      route [''DELETE''] ''/api/project/{project_id}/integrations/{integration_id}/values/{value_id}'' projectIntegrationsAPI ''projects.DeleteIntegrationExtractValue'',
      route [''GET''] ''/api/project/{project_id}/integrations/{integration_id}/values/{value_id}/refs'' projectIntegrationsAPI ''projects.GetIntegrationExtractValueRefs'']"

text \<open>All routes, in the order of their registration.\<close>

definition routeTable :: "Route list" where
  "routeTable =
     publicRoutes @ accountRoutes @ adminRoutes @ userRoutes @ taskRoutes @ projectRoutes @ memberRoutes @
     objectRoutes @ templateRoutes @ workflowRoutes @ historyRoutes @ integrationRoutes"

subsection \<open>The choice of a route\<close>

text \<open>
  A variable \<open>{name}\<close> of a path matches one non-empty segment, \<open>{name:.*}\<close> all of the rest. The first route whose
  path and methods fit takes the request.
\<close>

definition splitPath :: "string \<Rightarrow> string list" where
  "splitPath = splitOn (CHR ''/'')"

definition joinPath :: "string list \<Rightarrow> string" where
  "joinPath = joinWith (CHR ''/'')"

definition restVar :: "string \<Rightarrow> string option" where
  "restVar t =
     (if t \<noteq> [] \<and> hd t = CHR ''{'' \<and> drop (length t - 4) t = '':.*}'' then Some (butlast (tl (take (length t - 3) t)))
      else None)"

definition segmentVar :: "string \<Rightarrow> string option" where
  "segmentVar t = (if t \<noteq> [] \<and> hd t = CHR ''{'' then Some (butlast (tl t)) else None)"

fun matchSegments :: "string list \<Rightarrow> string list \<Rightarrow> (string \<times> string) list option" where
  "matchSegments [] [] = Some []"
| "matchSegments [] (s # ss) = None"
| "matchSegments (t # ts) [] = None"
| "matchSegments (t # ts) (s # ss) =
     (case restVar t of
        Some v \<Rightarrow> Some [(v, joinPath (s # ss))]
      | None \<Rightarrow>
          (case segmentVar t of
             Some v \<Rightarrow> if s = [] then None else map_option ((#) (v, s)) (matchSegments ts ss)
           | None \<Rightarrow> if t = s then matchSegments ts ss else None))"

fun findRoute :: "Route list \<Rightarrow> string \<Rightarrow> string \<Rightarrow> (Route \<times> (string \<times> string) list) option" where
  "findRoute [] m path = None"
| "findRoute (rt # rts) m path =
     (case matchSegments (splitPath (rt_Path rt)) (splitPath path) of
        Some vars \<Rightarrow> if m \<in> set (rt_Methods rt) then Some (rt, vars) else findRoute rts m path
      | None \<Rightarrow> findRoute rts m path)"

text \<open>
  The whole way of a request to its handler: the handler's name with the context it runs in, or the answer of the
  middleware that refused. A request without a route does not reach the API.
\<close>

datatype reached = Refused Response | Reached string Request Ctx | NoRoute

definition reach :: "ApiEnv \<Rightarrow> string \<Rightarrow> Request \<Rightarrow> Api \<Rightarrow> (reached \<times> Api) option" where
  "reach e path r d =
     (case findRoute routeTable (rq_Method r) path of
        None \<Rightarrow> Some (NoRoute, d)
      | Some (rt, vars) \<Rightarrow>
          (let r1 = r\<lparr>rq_Vars := vars\<rparr>
           in case runChain e r1 (rt_Chain rt) emptyCtx d of
                None \<Rightarrow> None
              | Some (Answered resp, d1) \<Rightarrow> Some (Refused resp, d1)
              | Some (Passed c, d1) \<Rightarrow> Some (Reached (rt_Handler rt) r1 c, d1)))"

end
