(* ===== verification/Api_Handlers.thy ===== *)
theory Api_Handlers
  imports Api_Routes
begin

text \<open>
  Handlers of projects, their members and their tasks: \<^verbatim>\<open>api/projects/users.go\<close>, \<^verbatim>\<open>api/projects/project.go\<close>,
  \<^verbatim>\<open>api/projects/projects.go\<close>, \<^verbatim>\<open>api/projects/tasks.go\<close> and \<^verbatim>\<open>api/tasks/tasks.go\<close>. A handler gives its answer
  and the state it leaves; \<^const>\<open>None\<close> is a panic, for instance on a value that no middleware put into the context.
\<close>

type_synonym handler = "ApiEnv \<Rightarrow> Request \<Rightarrow> Ctx \<Rightarrow> Api \<Rightarrow> (Response \<times> Api) option"

abbreviation (input) reply :: "Response \<Rightarrow> Api \<Rightarrow> (Response \<times> Api) option" where
  "reply resp d \<equiv> Some (resp, d)"

text \<open>The end of most writing handlers: an error is shown, success has no body.\<close>

definition noContent :: "go_error + Api \<Rightarrow> (Api \<Rightarrow> Api) \<Rightarrow> Api \<Rightarrow> (Response \<times> Api) option" where
  "noContent res after d =
     (case res of Inl err \<Rightarrow> reply (answerError err) d | Inr d1 \<Rightarrow> reply (status 204) (after d1))"

definition withProject :: "Ctx \<Rightarrow> (Account \<Rightarrow> Project \<Rightarrow> (Response \<times> Api) option) \<Rightarrow> (Response \<times> Api) option" where
  "withProject c f = (case (cx_user c, cx_project c) of (Some user, Some project) \<Rightarrow> f user project | _ \<Rightarrow> None)"

subsection \<open>Members of a project\<close>

text \<open>\<^verbatim>\<open>EventLog\<close>: that the row or the log file can not be written does not concern the request.\<close>

definition EventLog :: "ident \<Rightarrow> ident \<Rightarrow> ident \<Rightarrow> string \<Rightarrow> Api \<Rightarrow> Api" where
  "EventLog userID projectID objectID desc = q_CreateEvent userID projectID objectID desc"

definition members_GetUsers :: handler where
  "members_GetUsers e r c d =
     (case cx_projectUser c of
        Some user \<Rightarrow> reply (WriteJSON 200 (P_Account user)) d
      | None \<Rightarrow>
          (case cx_project c of
             None \<Rightarrow> None
           | Some project \<Rightarrow>
               (case q_GetProjectUsers (Project_ID project) d of
                  Inl err \<Rightarrow> reply (answerError err) d
                | Inr users \<Rightarrow>
                    reply (WriteJSON 200 (P_Members
                      (map (\<lambda>(u, role). (User_ID u, User_Username u, User_Name u, role)) users))) d)))"

definition knownRole :: "ident \<Rightarrow> string \<Rightarrow> Api \<Rightarrow> bool" where
  "knownRole projectID role d \<longleftrightarrow>
     Role_IsValid role \<or> (case q_GetProjectOrGlobalRoleBySlug projectID role d of Inl _ \<Rightarrow> False | Inr _ \<Rightarrow> True)"

definition members_AddUser :: handler where
  "members_AddUser e r c d =
     withProject c (\<lambda>me project.
       case e_BindMember e (rq_Body r) of
         None \<Rightarrow> reply (status 400) d
       | Some (userID, role) \<Rightarrow>
           if \<not> knownRole (Project_ID project) role d then reply (status 400) d
           else case q_CreateProjectUser \<lparr>PU_ProjectID = Project_ID project, PU_UserID = userID, PU_Role = role\<rparr> d of
                  Inl _ \<Rightarrow> reply (status 409) d
                | Inr d1 \<Rightarrow>
                    reply (status 204) (EventLog (User_ID me) (Project_ID project) userID
                      (''User ID '' @ itoa userID @ '' added to team'') d1))"

definition removeUser :: "Account \<Rightarrow> handler" where
  "removeUser targetUser e r c d =
     withProject c (\<lambda>me project.
       case cx_role c of
         None \<Rightarrow> None
       | Some myRole \<Rightarrow>
           if \<not> User_Admin me \<and> User_ID targetUser = User_ID me \<and> myRole = ProjectOwner
           then reply (answerError (ErrOther ''owner can not left the project'')) d
           else noContent (q_DeleteProjectUser (Project_ID project) (User_ID targetUser) d)
                  (EventLog (User_ID me) (Project_ID project) (User_ID targetUser)
                     (''User ID '' @ itoa (User_ID targetUser) @ '' removed from team'')) d)"

definition LeftProject :: handler where
  "LeftProject e r c d = (case cx_user c of None \<Rightarrow> None | Some me \<Rightarrow> removeUser me e r c d)"

definition RemoveUser :: handler where
  "RemoveUser e r c d =
     (case cx_projectUser c of None \<Rightarrow> None | Some targetUser \<Rightarrow> removeUser targetUser e r c d)"

text \<open>The role that the check of the owner reads is the one of the requester.\<close>

definition members_UpdateUser :: handler where
  "members_UpdateUser e r c d =
     withProject c (\<lambda>me project.
       case (cx_projectUser c, cx_role c) of
         (Some targetUser, Some role) \<Rightarrow>
           if \<not> User_Admin me \<and> User_ID targetUser = User_ID me \<and> role = ProjectOwner
           then reply (answerError (ErrOther ''owner can not change his role in the project'')) d
           else (case e_BindRole e (rq_Body r) of
                   None \<Rightarrow> reply (status 400) d
                 | Some newRole \<Rightarrow>
                     if \<not> knownRole (Project_ID project) newRole d then reply (status 400) d
                     else noContent
                            (q_UpdateProjectUser \<lparr>PU_ProjectID = Project_ID project, PU_UserID = User_ID targetUser,
                               PU_Role = newRole\<rparr> d)
                            (EventLog (User_ID me) (Project_ID project) (User_ID targetUser)
                               (''Changed role for User ID '' @ itoa (User_ID targetUser))) d)
       | _ \<Rightarrow> None)"

subsection \<open>The project\<close>

definition GetProjects :: handler where
  "GetProjects e r c d =
     (case cx_user c of
        None \<Rightarrow> None
      | Some user \<Rightarrow>
          (case q_GetProjects (if User_Admin user then None else Some (User_ID user)) d of
             Inl err \<Rightarrow> reply (answerError err) d
           | Inr ps \<Rightarrow> reply (WriteJSON 200 (P_Projects ps)) d))"

definition handle_GetProject :: handler where
  "handle_GetProject e r c d =
     (case cx_project c of None \<Rightarrow> None | Some project \<Rightarrow> reply (WriteJSON 200 (P_Project project)) d)"

definition GetUserRole :: handler where
  "GetUserRole e r c d =
     (case (cx_role c, cx_permissions c) of
        (Some role, Some permissions) \<Rightarrow> reply (WriteJSON 200 (P_Role role permissions)) d
      | _ \<Rightarrow> None)"

definition UpdateProject :: handler where
  "UpdateProject e r c d =
     (case cx_project c of
        None \<Rightarrow> None
      | Some project \<Rightarrow>
          (case e_BindProject e (rq_Body r) of
             None \<Rightarrow> reply (status 400) d
           | Some body \<Rightarrow>
               if Project_ID body \<noteq> Project_ID project
               then reply (WriteErrorStatus ''Project ID in body and URL must be the same'' 400) d
               else noContent (q_UpdateProject body d) (\<lambda>d. d) d))"

subsection \<open>Tasks\<close>

text \<open>Calls of the pool work on its part of the state.\<close>

definition inPool :: "Api \<Rightarrow> World \<Rightarrow> Api" where
  "inPool d w = d\<lparr>a_pool := w\<rparr>"

definition poolResult :: "Api \<Rightarrow> result option \<Rightarrow> (Response \<times> Api) option" where
  "poolResult d res =
     map_option (\<lambda>(err, w). (case err of None \<Rightarrow> status 204 | Some x \<Rightarrow> answerError x, inPool d w)) res"

definition withTask ::
  "Ctx \<Rightarrow> (Account \<Rightarrow> Project \<Rightarrow> Task \<Rightarrow> (Response \<times> Api) option) \<Rightarrow> (Response \<times> Api) option" where
  "withTask c f =
     (case (cx_user c, cx_project c, cx_task c) of
        (Some user, Some project, Some task) \<Rightarrow> f user project task | _ \<Rightarrow> None)"

definition handle_AddTask :: handler where
  "handle_AddTask e r c d =
     withTask c (\<lambda>user project taskObj.
       case GetTemplate (Project_ID project) (Task_TemplateID taskObj) (db (a_pool d)) of
         Inl err \<Rightarrow> reply (answerError err) d
       | Inr tpl \<Rightarrow>
           (case AddTask (e_pool e) taskObj (Some (User_ID user)) (User_Username user) (Project_ID project)
                   (NeedTaskAlias (Template_App tpl)) (a_pool d) of
              None \<Rightarrow> None
            | Some ((_, Some err), w) \<Rightarrow> reply (answerError err) (inPool d w)
            | Some ((newTask, None), w) \<Rightarrow> reply (WriteJSON 201 (P_Task newTask)) (inPool d w)))"

definition ofSameProject ::
  "Ctx \<Rightarrow> (Task \<Rightarrow> (Response \<times> Api) option) \<Rightarrow> Api \<Rightarrow> (Response \<times> Api) option" where
  "ofSameProject c f d =
     withTask c (\<lambda>_ project targetTask.
       if Task_ProjectID targetTask \<noteq> Project_ID project then reply (status 400) d else f targetTask)"

definition handle_ConfirmTask :: handler where
  "handle_ConfirmTask e r c d = ofSameProject c (\<lambda>t. poolResult d (ConfirmTask (e_pool e) t (a_pool d))) d"

definition handle_RejectTask :: handler where
  "handle_RejectTask e r c d = ofSameProject c (\<lambda>t. poolResult d (RejectTask (e_pool e) t (a_pool d))) d"

definition handle_StopTask :: handler where
  "handle_StopTask e r c d =
     ofSameProject c (\<lambda>t. case e_BindForce e (rq_Body r) of
                        None \<Rightarrow> reply (status 400) d
                      | Some force \<Rightarrow> poolResult d (StopTask (e_pool e) t force (a_pool d))) d"

definition RemoveTask :: handler where
  "RemoveTask e r c d =
     withTask c (\<lambda>editor project targetTask.
       case GetTask (e_pool e) (Task_ID targetTask) (a_pool d) of
         None \<Rightarrow> None
       | Some (Inl err, w) \<Rightarrow> reply (answerError err) (inPool d w)
       | Some (Inr (Some _), w) \<Rightarrow> reply (status 400) (inPool d w)
       | Some (Inr None, w) \<Rightarrow>
           if \<not> User_Admin editor then reply (status 401) (inPool d w)
           else (case q_DeleteTaskWithOutputs (Project_ID project) (Task_ID targetTask) (inPool d w) of
                   (Some _, d1) \<Rightarrow> reply (status 400) d1
                 | (None, d1) \<Rightarrow> reply (status 204) d1))"

definition StopAllTasks :: handler where
  "StopAllTasks e r c d =
     (case (cx_project c, cx_template c) of
        (Some project, Some tpl) \<Rightarrow>
          (case e_BindForce e (rq_Body r) of
             None \<Rightarrow> reply (WriteErrorStatus ''Not allowed'' 400) d
           | Some force \<Rightarrow>
               map_option (\<lambda>w. (status 204, inPool d w))
                 (StopTasksByTemplate (e_pool e) (Project_ID project) (Template_ID tpl) force (a_pool d)))
      | _ \<Rightarrow> None)"

subsection \<open>Lists of tasks\<close>

definition maxTasksPageSize :: int where
  "maxTasksPageSize = 200"

text \<open>A positive number in the query, or nothing; an empty parameter is one that is not there.\<close>

definition positiveParam :: "string \<Rightarrow> int option" where
  "positiveParam str = (case Atoi str of None \<Rightarrow> None | Some v \<Rightarrow> if v > 0 then Some v else None)"

definition parseTasksPageParams :: "(string \<Rightarrow> string) \<Rightarrow> nat \<times> ident \<times> nat" where
  "parseTasksPageParams query =
     (let asked = (if query ''count'' \<noteq> [] then positiveParam (query ''count'')
                   else if query ''limit'' \<noteq> [] then positiveParam (query ''limit'') else None);
          pageSize0 = (case asked of None \<Rightarrow> maxTasksPageSize | Some v \<Rightarrow> v);
          pageSize = (if pageSize0 > maxTasksPageSize then maxTasksPageSize else pageSize0);
          before = (if query ''before'' \<noteq> [] then positiveParam (query ''before'') else None)
      in (nat (pageSize + 1), (case before of None \<Rightarrow> 0 | Some v \<Rightarrow> v), nat pageSize))"

definition writeTasksList :: "nat \<Rightarrow> ident \<Rightarrow> nat \<Rightarrow> Ctx \<Rightarrow> Api \<Rightarrow> (Response \<times> Api) option" where
  "writeTasksList cnt before pageSize c d =
     (case cx_project c of
        None \<Rightarrow> None
      | Some project \<Rightarrow>
          (case (case cx_template c of
                   Some tpl \<Rightarrow> q_TasksPage (Template_ProjectID tpl) (Some (Template_ID tpl)) cnt before d
                 | None \<Rightarrow> q_TasksPage (Project_ID project) None cnt before d) of
             Inl _ \<Rightarrow> reply (status 400) d
           | Inr taskList \<Rightarrow>
               if pageSize > 0
               then reply (WriteJSON 200 (P_Tasks (take pageSize taskList) (Some (length taskList > pageSize)))) d
               else reply (WriteJSON 200 (P_Tasks taskList None)) d))"

definition GetAllTasks :: handler where
  "GetAllTasks e r c d = writeTasksList 1000 0 0 c d"

definition GetLastTasks :: handler where
  "GetLastTasks e r c d =
     (let (cnt, before, pageSize) = parseTasksPageParams (rq_Query r) in writeTasksList cnt before pageSize c d)"

subsection \<open>The tasks of the pool, for administrators\<close>

text \<open>A queue slot that holds no task is a nil dereference.\<close>

definition findQueued :: "World \<Rightarrow> ident \<Rightarrow> tref option option" where
  "findQueued w taskID =
     (case find (\<lambda>q. case q of None \<Rightarrow> True | Some r \<Rightarrow> idof w r = taskID) (QueueRange (state w)) of
        None \<Rightarrow> Some None
      | Some None \<Rightarrow> None
      | Some (Some r) \<Rightarrow> Some (Some r))"

definition DeleteTask :: handler where
  "DeleteTask e r c d =
     (case map_of (cx_object c) ''task'' of
        None \<Rightarrow> None
      | Some taskID \<Rightarrow>
          (case findQueued (a_pool d) taskID of
             None \<Rightarrow> None
           | Some queued \<Rightarrow>
               (case (case queued of
                        Some t \<Rightarrow> Some t
                      | None \<Rightarrow> find (\<lambda>t. idof (a_pool d) t = taskID) (RunningRange (state (a_pool d)))) of
                  None \<Rightarrow> reply (status 204) d
                | Some t \<Rightarrow>
                    (case StopTask (e_pool e) (TR_Task (heap (a_pool d) t)) False (a_pool d) of
                       None \<Rightarrow> None
                     | Some (Some err, w) \<Rightarrow> reply (WriteErrorStatus (errorString err) 500) (inPool d w)
                     | Some (None, w) \<Rightarrow> reply (status 204) (inPool d w)))))"

end
