(* ===== verification/Api_Accounts.thy ===== *)
theory Api_Accounts
  imports Api_Handlers
begin

text \<open>
  Handlers of accounts: \<^verbatim>\<open>api/users.go\<close> (accounts, passwords, second factors, external identities) and the tokens
  of \<^verbatim>\<open>api/user.go\<close>. User options are not part of the state; their deletion with an account only logs its errors.
\<close>

definition withUser :: "Ctx \<Rightarrow> (Account \<Rightarrow> (Response \<times> Api) option) \<Rightarrow> (Response \<times> Api) option" where
  "withUser c f = (case cx_user c of None \<Rightarrow> None | Some me \<Rightarrow> f me)"

definition onTarget ::
  "Ctx \<Rightarrow> (Account \<Rightarrow> Account \<Rightarrow> (Response \<times> Api) option) \<Rightarrow> (Response \<times> Api) option" where
  "onTarget c f =
     (case (cx_user c, cx_target c) of (Some editor, Some user) \<Rightarrow> f editor user | _ \<Rightarrow> None)"

text \<open>Answers that hide the error.\<close>

definition orStatus :: "Response \<Rightarrow> go_error + Api \<Rightarrow> Api \<Rightarrow> (Response \<times> Api) option" where
  "orStatus failed res d =
     (case res of Inl _ \<Rightarrow> reply failed d | Inr d1 \<Rightarrow> reply (status 204) d1)"

subsection \<open>Accounts\<close>

definition users_GetUsers :: handler where
  "users_GetUsers e r c d =
     withUser c (\<lambda>currentUser.
       case q_GetUsers (rq_Query r ''s'') d of
         Inl _ \<Rightarrow> None
       | Inr users \<Rightarrow>
           if User_Admin currentUser then reply (WriteJSON 200 (P_Accounts users)) d
           else reply (WriteJSON 200 (P_Names (map (\<lambda>u. (User_ID u, User_Username u, User_Name u)) users))) d)"

text \<open>Whether one more paying user is allowed; the refusal otherwise.\<close>

definition proLimit :: "ApiEnv \<Rightarrow> bool \<Rightarrow> Response option" where
  "proLimit e pro =
     (if \<not> pro then None
      else case e_CanAddProUser e of
             Inl _ \<Rightarrow> Some (status 500)
           | Inr ok \<Rightarrow>
               if \<not> ok
               then Some (WriteErrorStatus ''You have reached the limit of Pro users for your subscription.'' 403)
               else None)"

definition users_AddUser :: handler where
  "users_AddUser e r c d =
     (case e_BindUser e (rq_Body r) of
        None \<Rightarrow> reply (status 400) d
      | Some user \<Rightarrow>
          withUser c (\<lambda>editor.
            if \<not> User_Admin editor then reply (status 401) d
            else case proLimit e (User_Pro user) of
                   Some resp \<Rightarrow> reply resp d
                 | None \<Rightarrow>
                     (case (if User_External user then q_CreateUserWithoutPassword (Account.truncate user) d
                            else q_CreateUser (e_HashPassword e) user d) of
                        (Inl _, d1) \<Rightarrow> reply (status 400) d1
                      | (Inr newUser, d1) \<Rightarrow> reply (WriteJSON 201 (P_Account newUser)) d1)))"

definition users_UpdateUser :: handler where
  "users_UpdateUser e r c d =
     onTarget c (\<lambda>editor targetUser.
       case e_BindUser e (rq_Body r) of
         None \<Rightarrow> reply (status 400) d
       | Some user \<Rightarrow>
           if \<not> User_Admin editor \<and> User_Pro user \<and> \<not> User_Pro targetUser then reply (status 401) d
           else case proLimit e (User_Pro user) of
                  Some resp \<Rightarrow> reply resp d
                | None \<Rightarrow>
                    if \<not> User_Admin editor \<and> User_ID editor \<noteq> User_ID targetUser then reply (status 401) d
                    else if User_ID editor = User_ID targetUser \<and> User_Admin targetUser \<noteq> User_Admin user
                    then reply (status 401) d
                    else if User_External targetUser \<and> User_Username targetUser \<noteq> User_Username user
                    then reply (status 400) d
                    else orStatus (status 400)
                           (q_UpdateUser (e_HashPassword e) (user\<lparr>User_ID := User_ID targetUser\<rparr>) d) d)"

definition UpdateUserPassword :: handler where
  "UpdateUserPassword e r c d =
     onTarget c (\<lambda>editor user.
       if \<not> User_Admin editor \<and> User_ID editor \<noteq> User_ID user then reply (status 401) d
       else if User_External user then reply (status 400) d
       else case e_BindPassword e (rq_Body r) of
              None \<Rightarrow> reply (status 400) d
            | Some (pwd, currentPwd) \<Rightarrow>
                if User_ID editor = User_ID user \<and> \<not> e_ComparePassword e (User_Password user) currentPwd
                then reply (WriteErrorStatus ''Current password is incorrect'' 400) d
                else orStatus (status 500) (q_SetUserPassword (e_HashPassword e) (User_ID user) pwd d) d)"

definition DeleteUser :: handler where
  "DeleteUser e r c d =
     onTarget c (\<lambda>editor user.
       if \<not> User_Admin editor \<and> User_ID editor \<noteq> User_ID user then reply (status 401) d
       else orStatus (status 500) (q_DeleteUser (User_ID user) d) d)"

definition user_GetUser :: handler where
  "user_GetUser e r c d =
     (case cx_target c of
        Some u \<Rightarrow> reply (WriteJSON 200 (P_Account u)) d
      | None \<Rightarrow>
          withUser c (\<lambda>me.
            let canCreate = (User_Admin me \<or> e_NonAdminCanCreateProject e);
                active = e_HasActiveSubscription e
            in reply (WriteJSON 200 (P_Me (if \<not> active then me\<lparr>User_Pro := False\<rparr> else me) canCreate active)) d))"

subsection \<open>External identities\<close>

definition GetUserIdentities :: handler where
  "GetUserIdentities e r c d =
     (case cx_target c of
        None \<Rightarrow> None
      | Some user \<Rightarrow>
          (case q_GetUserExternalIdentities (User_ID user) d of
             Inl _ \<Rightarrow> reply (WriteErrorStatus ''Failed to get identities'' 500) d
           | Inr identities \<Rightarrow> reply (WriteJSON 200 (P_Identities identities)) d))"

definition routeVar :: "string \<Rightarrow> Request \<Rightarrow> string" where
  "routeVar name r = (case map_of (rq_Vars r) name of None \<Rightarrow> [] | Some s \<Rightarrow> s)"

text \<open>An external account keeps its last identity: without one it could not be entered any more.\<close>

definition DeleteUserIdentity :: handler where
  "DeleteUserIdentity e r c d =
     (case cx_target c of
        None \<Rightarrow> None
      | Some user \<Rightarrow>
          (let idType = routeVar ''type'' r; provider = routeVar ''provider'' r
           in if idType \<noteq> IdentityTypeLdap \<and> idType \<noteq> IdentityTypeOidc
              then reply (WriteErrorStatus ''Invalid identity type'' 400) d
              else case q_GetUserExternalIdentities (User_ID user) d of
                     Inl _ \<Rightarrow> reply (WriteErrorStatus ''Failed to delete identity'' 500) d
                   | Inr identities \<Rightarrow>
                       (let targetExists = list_ex (\<lambda>i. Ident_Type i = idType \<and> Ident_Provider i = provider) identities
                        in if User_External user \<and> targetExists \<and> length identities \<le> 1
                           then reply (WriteErrorStatus ''cannot unlink the last external identity'' 409) d
                           else orStatus (WriteErrorStatus ''Failed to delete identity'' 500)
                                  (q_DeleteExternalIdentity (User_ID user) idType provider d) d)))"

subsection \<open>The second factor\<close>

definition TotpQr :: handler where
  "TotpQr e r c d =
     (case cx_target c of
        None \<Rightarrow> None
      | Some user \<Rightarrow>
          (case User_Totp user of
             None \<Rightarrow> reply (WriteErrorStatus ''TOTP not enabled'' 404) d
           | Some t \<Rightarrow>
               (case e_TotpImage e (Totp_URL t) of
                  Some err \<Rightarrow> reply (answerError err) d
                | None \<Rightarrow> reply (WriteJSON 200 P_Image) d)))"

definition EnableTotp :: handler where
  "EnableTotp e r c d =
     (case cx_target c of
        None \<Rightarrow> None
      | Some user \<Rightarrow>
          if \<not> e_TotpEnabled e then reply (WriteErrorStatus ''TOTP not enabled'' 400) d
          else if User_Totp user \<noteq> None then reply (WriteErrorStatus ''TOTP already enabled'' 400) d
          else (case e_TotpGenerate e (User_Email user) of
                  Inl _ \<Rightarrow> reply (WriteErrorStatus ''Error generating key'' 500) d
                | Inr url \<Rightarrow>
                    (case (if e_TotpAllowRecovery e then e_RecoveryCode e else Inr ([], [])) of
                       Inl err \<Rightarrow> reply (answerError err) d
                     | Inr (code, hash) \<Rightarrow>
                         (case q_AddTotpVerification (User_ID user) url hash d of
                            (Inl err, d1) \<Rightarrow> reply (answerError err) d1
                          | (Inr t, d1) \<Rightarrow> reply (WriteJSON 200 (P_Totp (t\<lparr>Totp_RecoveryCode := code\<rparr>))) d1))))"

definition DisableTotp :: handler where
  "DisableTotp e r c d =
     (case cx_target c of
        None \<Rightarrow> None
      | Some user \<Rightarrow>
          (case User_Totp user of
             None \<Rightarrow> reply (WriteErrorStatus ''TOTP not enabled'' 400) d
           | Some _ \<Rightarrow>
               (case GetIntParam ''totp_id'' r of
                  Inl resp \<Rightarrow> reply resp d
                | Inr totpID \<Rightarrow> noContent (q_DeleteTotpVerification (User_ID user) totpID d) (\<lambda>d. d) d)))"

subsection \<open>Tokens\<close>

definition getAPITokens :: handler where
  "getAPITokens e r c d =
     withUser c (\<lambda>user.
       case q_GetAPITokens (User_ID user) d of
         Inl _ \<Rightarrow> reply (status 500) d
       | Inr tokens \<Rightarrow>
           reply (WriteJSON 200 (P_Tokens
             (map (\<lambda>t. if length (Token_ID t) \<ge> 8 then t\<lparr>Token_ID := take 8 (Token_ID t)\<rparr> else t) tokens))) d)"

text \<open>Without a body the token has no name and does not expire.\<close>

definition createAPIToken :: handler where
  "createAPIToken e r c d =
     withUser c (\<lambda>user.
       case (if rq_Body r = [] then Some ([], None) else e_BindToken e (rq_Body r)) of
         None \<Rightarrow> reply (status 400) d
       | Some (name, expiresAt) \<Rightarrow>
           if (case expiresAt of None \<Rightarrow> False | Some x \<Rightarrow> \<not> x > a_now d) then reply (status 400) d
           else case q_CreateAPIToken
                       \<lparr>Token_ID = toLower (e_RandomToken e), Token_Created = 0, Token_Expired = False,
                        Token_ExpiresAt = expiresAt, Token_UserID = User_ID user, Token_Name = name\<rparr> d of
                  (Inl _, d1) \<Rightarrow> None
                | (Inr token, d1) \<Rightarrow> reply (WriteJSON 201 (P_Token token)) d1)"

definition deleteAPIToken :: handler where
  "deleteAPIToken e r c d =
     withUser c (\<lambda>user. noContent (q_DeleteAPIToken (User_ID user) (routeVar ''token_id'' r) d) (\<lambda>d. d) d)"

end
