(* ===== verification/Api_Login.thy ===== *)
theory Api_Login
  imports Api_Accounts
begin

text \<open>
  Signing in, \<^verbatim>\<open>api/login.go\<close>, \<^verbatim>\<open>api/login_identity.go\<close>, the second step of \<^verbatim>\<open>api/auth.go\<close> and the linking of
  accounts of \<^verbatim>\<open>api/user.go\<close>: passwords, LDAP directories, OIDC providers and the external identities they lead to.
  The LDAP connection, the exchange with an OIDC provider, templates, cookies and hashes are parameters.
\<close>

subsection \<open>Claims\<close>

record claimResult =
  claim_sub :: string
  claim_username :: string
  claim_name :: string
  claim_email :: string
  claim_emailVerified :: bool

definition noClaims :: claimResult where
  "noClaims = \<lparr>claim_sub = [], claim_username = [], claim_name = [], claim_email = [], claim_emailVerified = False\<rparr>"

text \<open>The value of the claim and whether it is there.\<close>

definition emailVerifiedClaim :: "claims \<Rightarrow> bool \<times> bool" where
  "emailVerifiedClaim cl =
     (case map_of cl ''email_verified'' of
        Some (ClaimBool v) \<Rightarrow> (v, True)
      | Some (ClaimString v) \<Rightarrow> (v = ''true'', True)
      | _ \<Rightarrow> (False, False))"

definition resolveEmailVerified :: "claims \<Rightarrow> OidcProvider \<Rightarrow> bool" where
  "resolveEmailVerified cl provider =
     (let (value, present) = emailVerifiedClaim cl
      in if Oidc_RequireVerifiedEmail provider then present \<and> value
         else if present then value else True)"

fun parseAlternatives :: "ApiEnv \<Rightarrow> string list \<Rightarrow> claims \<Rightarrow> string option" where
  "parseAlternatives e [] cl = None"
| "parseAlternatives e (s0 # ss) cl =
     (let s = trimSpace s0
      in if s = [] then parseAlternatives e ss cl
         else if occurs ''{{'' s
         then (case e_Template e s cl of None \<Rightarrow> None | Some res \<Rightarrow> if res = [] then None else Some res)
         else case map_of cl s of
                Some (ClaimString res) \<Rightarrow> if res \<noteq> [] then Some res else parseAlternatives e ss cl
              | _ \<Rightarrow> parseAlternatives e ss cl)"

definition parseClaim :: "ApiEnv \<Rightarrow> string \<Rightarrow> claims \<Rightarrow> string option" where
  "parseClaim e str cl = parseAlternatives e (splitOn (CHR ''|'') str) cl"

text \<open>Only the email must be there; the order of the arguments is that of the fields of a provider.\<close>

definition parseClaims :: "ApiEnv \<Rightarrow> claims \<Rightarrow> string \<Rightarrow> string \<Rightarrow> string \<Rightarrow> go_error + claimResult" where
  "parseClaims e cl emailClaim usernameClaim nameClaim =
     (case parseClaim e emailClaim cl of
        None \<Rightarrow> Inl (ErrOther ''claim missing or has bad format'')
      | Some email \<Rightarrow>
          Inr (noClaims\<lparr>claim_email := email,
            claim_username := (case parseClaim e usernameClaim cl of None \<Rightarrow> e_RandomName e | Some u \<Rightarrow> u),
            claim_name := (case parseClaim e nameClaim cl of None \<Rightarrow> ''Anonymous'' | Some n \<Rightarrow> n)\<rparr>))"

definition claimOidc :: "ApiEnv \<Rightarrow> string \<Rightarrow> go_error + claims \<Rightarrow> OidcProvider \<Rightarrow> go_error + claimResult" where
  "claimOidc e subject got provider =
     (case got of
        Inl err \<Rightarrow> Inl err
      | Inr cl \<Rightarrow>
          map_sum id (\<lambda>res. res\<lparr>claim_sub := subject, claim_emailVerified := resolveEmailVerified cl provider\<rparr>)
            (parseClaims e cl (Oidc_EmailClaim provider) (Oidc_UsernameClaim provider) (Oidc_NameClaim provider)))"

definition oidcEmailVerified :: "UserInfo \<Rightarrow> OidcProvider \<Rightarrow> bool" where
  "oidcEmailVerified info provider =
     (case Info_Claims info of Inl _ \<Rightarrow> False | Inr cl \<Rightarrow> resolveEmailVerified cl provider)"

subsection \<open>LDAP directories\<close>

definition GetMappings :: "LdapProvider \<Rightarrow> LdapMappings" where
  "GetMappings p =
     (case Ldap_Mappings p of
        Some m \<Rightarrow> m
      | None \<Rightarrow> \<lparr>Mappings_DN = ''dn'', Mappings_Mail = ''mail'', Mappings_UID = ''uid'', Mappings_CN = ''cn''\<rparr>)"

text \<open>Lexicographic order of strings of bytes.\<close>

fun stringLess :: "string \<Rightarrow> string \<Rightarrow> bool" where
  "stringLess [] s \<longleftrightarrow> s \<noteq> []"
| "stringLess (c # cs) [] \<longleftrightarrow> False"
| "stringLess (c # cs) (x # xs) \<longleftrightarrow>
     (of_char c :: nat) < of_char x \<or> c = x \<and> stringLess cs xs"

definition entryLess :: "string \<times> LdapProvider \<Rightarrow> string \<times> LdapProvider \<Rightarrow> bool" where
  "entryLess a b \<longleftrightarrow>
     (if Ldap_Order (snd a) \<noteq> Ldap_Order (snd b) then Ldap_Order (snd a) < Ldap_Order (snd b)
      else stringLess (fst a) (fst b))"

fun insertEntry :: "string \<times> LdapProvider \<Rightarrow> (string \<times> LdapProvider) list \<Rightarrow> (string \<times> LdapProvider) list" where
  "insertEntry a [] = [a]"
| "insertEntry a (b # bs) = (if entryLess b a then b # insertEntry a bs else a # b # bs)"

definition ActiveLdapProviders :: "ApiEnv \<Rightarrow> (string \<times> LdapProvider) list" where
  "ActiveLdapProviders e =
     (if e_LdapEnable e then [(''ldap'', e_LdapLegacy e)] else []) @
     foldr insertEntry (filter (\<lambda>(i, _). i \<noteq> ''ldap'') (e_LdapProviders e)) []"

definition GetLdapProvider :: "ApiEnv \<Rightarrow> string \<Rightarrow> LdapProvider option" where
  "GetLdapProvider e i = map_of (ActiveLdapProviders e) i"

text \<open>The first value of an attribute, as a claim.\<close>

definition convertEntryToMap :: "(string \<times> string list) list \<Rightarrow> claims" where
  "convertEntryToMap attrs = rev (concat (map (\<lambda>(n, vs). case vs of [] \<Rightarrow> [] | v # _ \<Rightarrow> [(n, ClaimString v)]) attrs))"

definition ldapAccount :: "claimResult \<Rightarrow> Account" where
  "ldapAccount cl =
     zeroAccount\<lparr>User_Username := toLower (claim_username cl), User_Name := claim_name cl,
       User_Email := claim_email cl, User_External := True\<rparr>"

text \<open>
  The search user looks the name up, the entry that was found is bound with the password, and the search user
  reads the entry's attributes. No entry at first is no error. The first argument of \<open>e_ldap_Bind\<close> counts the binds
  of the connection.
\<close>

definition readLDAPUser :: "ApiEnv \<Rightarrow> LdapProvider \<Rightarrow> string \<Rightarrow> string \<Rightarrow> go_error + (Account \<times> string) option" where
  "readLDAPUser e p filt userDN =
     (let m = GetMappings p
      in case e_ldap_Bind e 2 (Ldap_Server p) (Ldap_BindDN p) (Ldap_BindPassword p) of
           Some err \<Rightarrow> Inl err
         | None \<Rightarrow>
             (case e_ldap_Search e (Ldap_Server p) (Ldap_SearchDN p) filt
                     [Mappings_DN m, Mappings_Mail m, Mappings_UID m, Mappings_CN m] of
                Inl err \<Rightarrow> Inl err
              | Inr [] \<Rightarrow> Inl (ErrOther ''ldap search returned no entries'')
              | Inr ((_, attrs) # _) \<Rightarrow>
                  (case parseClaims e (convertEntryToMap attrs) (Mappings_Mail m) (Mappings_UID m) (Mappings_CN m) of
                     Inl err \<Rightarrow> Inl err
                   | Inr cl \<Rightarrow>
                       (case ValidateUser (ldapAccount cl) of
                          Some err \<Rightarrow> Inl err
                        | None \<Rightarrow> Inr (Some (ldapAccount cl, userDN))))))"

definition tryFindLDAPUser ::
  "ApiEnv \<Rightarrow> LdapProvider \<Rightarrow> string \<Rightarrow> string \<Rightarrow> go_error + (Account \<times> string) option" where
  "tryFindLDAPUser e p username password =
     (case e_ldap_Dial e (Ldap_Server p) (Ldap_NeedTLS p) (Ldap_TLSSkipVerify p) of
        Some err \<Rightarrow> Inl err
      | None \<Rightarrow>
          (case e_ldap_Bind e 0 (Ldap_Server p) (Ldap_BindDN p) (Ldap_BindPassword p) of
             Some err \<Rightarrow> Inl err
           | None \<Rightarrow>
               (let filt = e_Sprintf e (Ldap_SearchFilter p) (e_EscapeFilter e username)
                in case e_ldap_Search e (Ldap_Server p) (Ldap_SearchDN p) filt [Mappings_DN (GetMappings p)] of
                     Inl err \<Rightarrow> Inl err
                   | Inr [] \<Rightarrow> Inr None
                   | Inr (_ # _ # _) \<Rightarrow> Inl (ErrOther ''too many entries returned'')
                   | Inr [(userDN, _)] \<Rightarrow>
                       (case e_ldap_Bind e 1 (Ldap_Server p) userDN password of
                          Some err \<Rightarrow> Inl err
                        | None \<Rightarrow> readLDAPUser e p filt userDN))))"

subsection \<open>External identities\<close>

record externalUserProfile =
  prof_Type :: string
  prof_Provider :: string
  prof_ExternalUID :: string
  prof_Username :: string
  prof_Name :: string
  prof_Email :: string
  prof_MatchByUsername :: bool
  prof_EmailVerified :: bool

definition withoutPwd :: "Account \<Rightarrow> UserWithPwd" where
  "withoutPwd u = Account.extend u (UserWithPwd.fields [])"

definition syncExternalUserAttrs ::
  "ApiEnv \<Rightarrow> Account \<Rightarrow> externalUserProfile \<Rightarrow> Api \<Rightarrow> (go_error + Account) \<times> Api" where
  "syncExternalUserAttrs e user p d =
     (if \<not> User_External user then (Inr user, d)
      else let u1 = (if prof_Email p \<noteq> [] \<and> User_Email user \<noteq> prof_Email p
                     then user\<lparr>User_Email := prof_Email p\<rparr> else user);
               u2 = (if prof_Name p \<noteq> [] \<and> User_Name user \<noteq> prof_Name p then u1\<lparr>User_Name := prof_Name p\<rparr> else u1)
           in if u2 = user then (Inr user, d)
              else case q_UpdateUser (e_HashPassword e) (withoutPwd u2) d of
                     Inl err \<Rightarrow> (Inl err, d)
                   | Inr d1 \<Rightarrow> (Inr u2, d1))"

definition matchExternalUserByEmail :: "ApiEnv \<Rightarrow> externalUserProfile \<Rightarrow> Api \<Rightarrow> go_error + Account" where
  "matchExternalUserByEmail e p d =
     (if e_EmailMatching e = ''never'' then Inl ErrNotFound
      else let email = (if prof_EmailVerified p then prof_Email p else []);
               username = (if prof_MatchByUsername p then prof_Username p else [])
           in if email = [] \<and> username = [] then Inl ErrNotFound
              else case q_GetUserByLoginOrEmail username email d of
                     Inl err \<Rightarrow> Inl err
                   | Inr user \<Rightarrow>
                       if \<not> User_External user then Inl ErrNotFound
                       else if e_EmailMatching e = ''auto''
                       then (case q_GetUserExternalIdentities (User_ID user) d of
                               Inl err \<Rightarrow> Inl err
                             | Inr identities \<Rightarrow> if identities \<noteq> [] then Inl ErrNotFound else Inr user)
                       else Inr user)"

definition identityOf :: "ident \<Rightarrow> externalUserProfile \<Rightarrow> UserExternalIdentity" where
  "identityOf userID p =
     \<lparr>Ident_UserID = userID, Ident_Type = prof_Type p, Ident_Provider = prof_Provider p,
      Ident_ExternalUID = prof_ExternalUID p\<rparr>"

definition createExternalUser ::
  "ApiEnv \<Rightarrow> externalUserProfile \<Rightarrow> Api \<Rightarrow> (go_error + Account) \<times> Api" where
  "createExternalUser e p d =
     (case q_CreateUserWithoutPassword
             (zeroAccount\<lparr>User_Username := prof_Username p, User_Name := prof_Name p, User_Email := prof_Email p,
                User_External := True\<rparr>) d of
        (Inl err, d1) \<Rightarrow> (Inl err, d1)
      | (Inr user, d1) \<Rightarrow>
          (case q_CreateExternalIdentity (identityOf (User_ID user) p) d1 of
             Inr d2 \<Rightarrow> (Inr user, d2)
           | Inl err \<Rightarrow>
               (Inl err, case q_DeleteUser (User_ID user) d1 of Inl _ \<Rightarrow> d1 | Inr d2 \<Rightarrow> d2)))"

definition resolveExternalUser ::
  "ApiEnv \<Rightarrow> externalUserProfile \<Rightarrow> Api \<Rightarrow> (go_error + Account) \<times> Api" where
  "resolveExternalUser e p d =
     (if prof_ExternalUID p = [] then (Inl (ErrOther ''external identity: empty external UID''), d)
      else if prof_Type p = [] then (Inl (ErrOther ''external identity: empty type''), d)
      else case q_GetExternalIdentity (prof_Type p) (prof_Provider p) (prof_ExternalUID p) d of
             Inr identity \<Rightarrow>
               (case q_GetUser (Ident_UserID identity) d of
                  Inl err \<Rightarrow> (Inl err, d)
                | Inr user \<Rightarrow> syncExternalUserAttrs e user p d)
           | Inl ErrNotFound \<Rightarrow>
               (case matchExternalUserByEmail e p d of
                  Inr user \<Rightarrow>
                    (case q_CreateExternalIdentity (identityOf (User_ID user) p) d of
                       Inl err \<Rightarrow> (Inl err, d)
                     | Inr d1 \<Rightarrow> syncExternalUserAttrs e user p d1)
                | Inl ErrNotFound \<Rightarrow> createExternalUser e p d
                | Inl err \<Rightarrow> (Inl err, d))
           | Inl err \<Rightarrow> (Inl err, d))"

datatype linkError = LinkedToAnother | ProviderAlreadyLinked | LinkFailed go_error

definition linkExternalIdentity ::
  "ident \<Rightarrow> string \<Rightarrow> string \<Rightarrow> string \<Rightarrow> Api \<Rightarrow> linkError + Api" where
  "linkExternalIdentity userID idType provider externalUID d =
     (if externalUID = [] then Inl (LinkFailed (ErrOther ''external identity: empty external UID''))
      else case q_GetExternalIdentity idType provider externalUID d of
             Inr existing \<Rightarrow> if Ident_UserID existing = userID then Inr d else Inl LinkedToAnother
           | Inl ErrNotFound \<Rightarrow>
               (case q_GetUserExternalIdentities userID d of
                  Inl err \<Rightarrow> Inl (LinkFailed err)
                | Inr identities \<Rightarrow>
                    if list_ex (\<lambda>i. Ident_Type i = idType \<and> Ident_Provider i = provider) identities
                    then Inl ProviderAlreadyLinked
                    else map_sum LinkFailed id
                           (q_CreateExternalIdentity
                              \<lparr>Ident_UserID = userID, Ident_Type = idType, Ident_Provider = provider,
                               Ident_ExternalUID = externalUID\<rparr> d))
           | Inl err \<Rightarrow> Inl (LinkFailed err))"

text \<open>Case is ignored for ASCII letters.\<close>

definition ldapProfileMatchesAldisUser :: "Account \<Rightarrow> Account \<Rightarrow> bool" where
  "ldapProfileMatchesAldisUser ldapUser user \<longleftrightarrow>
     User_Email ldapUser \<noteq> [] \<and> toLower (User_Email ldapUser) = toLower (User_Email user) \<or>
     User_Username ldapUser \<noteq> [] \<and> toLower (User_Username ldapUser) = toLower (User_Username user)"

definition linkLdapIdentity :: handler where
  "linkLdapIdentity e r c d =
     withUser c (\<lambda>currentUser.
       case e_BindLdapLink e (rq_Body r) of
         None \<Rightarrow> reply (status 400) d
       | Some (username, password, provider0) \<Rightarrow>
           (let providerID = (if provider0 = [] then ''ldap'' else provider0)
            in case GetLdapProvider e providerID of
                 None \<Rightarrow> reply (WriteErrorStatus ''LDAP provider not found'' 400) d
               | Some provider \<Rightarrow>
                   (case tryFindLDAPUser e provider username password of
                      Inr (Some (ldapUser, userDN)) \<Rightarrow>
                        if \<not> ldapProfileMatchesAldisUser ldapUser currentUser
                        then reply (WriteErrorStatus ''LDAP directory profile does not match your account'' 403) d
                        else (case linkExternalIdentity (User_ID currentUser) IdentityTypeLdap providerID userDN d of
                                Inr d1 \<Rightarrow> reply (status 204) d1
                              | Inl LinkedToAnother \<Rightarrow>
                                  reply (WriteErrorStatus ''This LDAP account is already linked to another user.'' 409) d
                              | Inl ProviderAlreadyLinked \<Rightarrow>
                                  reply (WriteErrorStatus ''Your account already has a linked LDAP identity. Unlink it first.'' 409) d
                              | Inl (LinkFailed _) \<Rightarrow> reply (WriteErrorStatus ''Failed to link LDAP account'' 500) d)
                    | _ \<Rightarrow> reply (status 401) d)))"

subsection \<open>Sessions\<close>

text \<open>The answer carries the cookie, or the error.\<close>

definition createSession :: "ApiEnv \<Rightarrow> Account \<Rightarrow> Api \<Rightarrow> Response \<times> Api" where
  "createSession e user d =
     (let (verificationMethod, verified) =
            (if User_Totp user \<noteq> None \<and> e_TotpEnabled e then (SessionVerificationTotp, False)
             else (SessionVerificationNone, True))
      in case q_CreateSession
                \<lparr>Session_ID = 0, Session_UserID = User_ID user, Session_LastActive = a_now d, Session_Expired = False,
                 Session_VerificationMethod = verificationMethod, Session_Verified = verified\<rparr> d of
           (Inl _, d1) \<Rightarrow> (WriteErrorStatus ''Failed to create session'' 500, d1)
         | (Inr newSession, d1) \<Rightarrow>
             (case e_EncodeCookie e (User_ID user) (Session_ID newSession) of
                Inl _ \<Rightarrow> (WriteErrorStatus ''Failed to create session'' 500, d1)
              | Inr encoded \<Rightarrow> ((status 204)\<lparr>rs_SetCookie := Some encoded\<rparr>, d1)))"

definition loginByPassword :: "ApiEnv \<Rightarrow> string \<Rightarrow> string \<Rightarrow> Api \<Rightarrow> go_error + Account" where
  "loginByPassword e login password d =
     (case q_GetUserByLoginOrEmail login login d of
        Inl err \<Rightarrow> Inl err
      | Inr user \<Rightarrow>
          if User_External user then Inl ErrNotFound
          else if \<not> e_ComparePassword e (User_Password user) password then Inl ErrNotFound
          else Inr user)"

definition loginByLDAP :: "ApiEnv \<Rightarrow> Account \<Rightarrow> string \<Rightarrow> string \<Rightarrow> Api \<Rightarrow> (go_error + Account) \<times> Api" where
  "loginByLDAP e ldapUser userDN providerID d =
     resolveExternalUser e
       \<lparr>prof_Type = IdentityTypeLdap, prof_Provider = providerID, prof_ExternalUID = userDN,
        prof_Username = User_Username ldapUser, prof_Name = User_Name ldapUser, prof_Email = User_Email ldapUser,
        prof_MatchByUsername = True, prof_EmailVerified = True\<rparr> d"

text \<open>
  Who the credentials belong to; an answer when they are refused at once. Clients that do not name a method try
  the directory first.
\<close>

definition authenticate ::
  "ApiEnv \<Rightarrow> string \<Rightarrow> string \<Rightarrow> string \<Rightarrow> string \<Rightarrow> Api \<Rightarrow> (Response + (go_error + Account)) \<times> Api" where
  "authenticate e auth password method provider0 d =
     (let byPassword = (if e_PasswordLoginDisable e then (Inl (status 401), d)
                        else (Inr (loginByPassword e auth password d), d));
          byLdap = (\<lambda>ldapUser userDN providerID.
                      let (res, d1) = loginByLDAP e ldapUser userDN providerID d in (Inr res, d1))
      in if method = ''password'' then byPassword
         else if method = ''ldap''
         then (let providerID = (if provider0 = [] then ''ldap'' else provider0)
               in case GetLdapProvider e providerID of
                    None \<Rightarrow> (Inl (status 400), d)
                  | Some provider \<Rightarrow>
                      (case tryFindLDAPUser e provider auth password of
                         Inr (Some (ldapUser, userDN)) \<Rightarrow> byLdap ldapUser userDN providerID
                       | _ \<Rightarrow> (Inl (status 401), d)))
         else case GetLdapProvider e ''ldap'' of
                None \<Rightarrow> byPassword
              | Some legacy \<Rightarrow>
                  (case tryFindLDAPUser e legacy auth password of
                     Inl _ \<Rightarrow> (Inl (status 401), d)
                   | Inr None \<Rightarrow> byPassword
                   | Inr (Some (ldapUser, userDN)) \<Rightarrow> byLdap ldapUser userDN ''ldap''))"

text \<open>\<^verbatim>\<open>POST /auth/login\<close>; a \<^verbatim>\<open>GET\<close> only shows which methods are configured.\<close>

definition login :: handler where
  "login e r c d =
     (if rq_Method r = ''GET'' then reply (status 200) d
      else case e_BindLogin e (rq_Body r) of
             None \<Rightarrow> reply (status 400) d
           | Some (auth, password, method, provider) \<Rightarrow>
               (case authenticate e (toLower auth) password method provider d of
                  (Inl resp, d1) \<Rightarrow> reply resp d1
                | (Inr (Inl ErrNotFound), d1) \<Rightarrow> reply (status 401) d1
                | (Inr (Inl _), d1) \<Rightarrow> reply (status 500) d1
                | (Inr (Inr user), d1) \<Rightarrow> Some (createSession e user d1)))"

definition logout :: handler where
  "logout e r c d =
     (case getSession e r d of
        (None, d1) \<Rightarrow> reply ((status 204)\<lparr>rs_SetCookie := Some []\<rparr>) d1
      | (Some session, d1) \<Rightarrow>
          (case q_ExpireSession (Session_UserID session) (Session_ID session) d1 of
             Inl _ \<Rightarrow> reply (status 500) d1
           | Inr d2 \<Rightarrow> reply ((status 204)\<lparr>rs_SetCookie := Some []\<rparr>) d2))"

subsection \<open>The second step\<close>

text \<open>The step for codes sent by mail is refused in this edition; the answer to success has status 200.\<close>

definition verifySession :: handler where
  "verifySession e r c d0 =
     (case getSession e r d0 of
        (None, d) \<Rightarrow> reply (status 401) d
      | (Some session, d) \<Rightarrow>
          (case Session_VerificationMethod session of
             SessionVerificationEmail \<Rightarrow> reply (status 403) d
           | SessionVerificationNone \<Rightarrow> reply (status 204) d
           | SessionVerificationTotp \<Rightarrow>
               if \<not> e_TotpEnabled e then reply (WriteErrorStatus ''TOTP_DISABLED'' 403) d
               else (case e_BindText e (rq_Body r) of
                       None \<Rightarrow> reply (status 400) d
                     | Some passcode \<Rightarrow>
                         (case q_GetUser (Session_UserID session) d of
                            Inl _ \<Rightarrow> reply (status 500) d
                          | Inr user \<Rightarrow>
                              (case User_Totp user of
                                 None \<Rightarrow> reply (status 400) d
                               | Some t \<Rightarrow>
                                   (case e_TotpKey e (Totp_URL t) of
                                      None \<Rightarrow> reply (status 500) d
                                    | Some secret \<Rightarrow>
                                        if \<not> e_TotpValid e passcode secret (a_now d)
                                        then reply (WriteErrorStatus ''INVALID_PASSCODE'' 401) d
                                        else (case q_VerifySession (Session_UserID session) (Session_ID session) d of
                                                Inl err \<Rightarrow> reply (answerError err) d
                                              | Inr d1 \<Rightarrow> reply (status 200) d1)))))))"

text \<open>A recovery code can be used once: the second factor is removed before the session is verified.\<close>

definition recoverySession :: handler where
  "recoverySession e r c d0 =
     (case getSession e r d0 of
        (None, d) \<Rightarrow> reply (status 401) d
      | (Some session, d) \<Rightarrow>
          (case Session_VerificationMethod session of
             SessionVerificationNone \<Rightarrow> reply (status 204) d
           | SessionVerificationEmail \<Rightarrow> reply (status 500) d
           | SessionVerificationTotp \<Rightarrow>
               if \<not> e_TotpEnabled e \<or> \<not> e_TotpAllowRecovery e then reply (WriteErrorStatus ''TOTP_DISABLED'' 403) d
               else (case e_BindText e (rq_Body r) of
                       None \<Rightarrow> reply (status 400) d
                     | Some code \<Rightarrow>
                         (case q_GetUser (Session_UserID session) d of
                            Inl _ \<Rightarrow> reply (status 500) d
                          | Inr user \<Rightarrow>
                              (case User_Totp user of
                                 None \<Rightarrow> reply (status 400) d
                               | Some t \<Rightarrow>
                                   if \<not> e_VerifyRecoveryCode e code (Totp_RecoveryHash t)
                                   then reply (WriteErrorStatus ''INVALID_RECOVERY_CODE'' 401) d
                                   else (case q_DeleteTotpVerification (User_ID user) (Totp_ID t) d of
                                           Inl _ \<Rightarrow> reply (status 500) d
                                         | Inr d1 \<Rightarrow>
                                             (case q_VerifySession (Session_UserID session) (Session_ID session) d1 of
                                                Inl _ \<Rightarrow> reply (status 500) d1
                                              | Inr d2 \<Rightarrow> reply (status 204) d2)))))))"

end
