(* ===== verification/Api_Oidc.thy ===== *)
theory Api_Oidc
  imports Api_Login
begin

text \<open>
  Signing in and linking through an OIDC provider, \<^verbatim>\<open>oidcLogin\<close> and \<^verbatim>\<open>oidcRedirect\<close> of \<^verbatim>\<open>api/login.go\<close>. The
  provider itself (discovery, the exchange of the code, the check of tokens) is a parameter.
\<close>

subsection \<open>The way to the provider\<close>

definition redirect :: "int \<Rightarrow> string \<Rightarrow> Response" where
  "redirect code url = (status code)\<lparr>rs_Location := Some url\<rparr>"

text \<open>Linking needs a session and must not be a \<^verbatim>\<open>GET\<close>, which browsers send across sites with the cookie.\<close>

definition oidcLogin :: handler where
  "oidcLogin e r c d0 =
     (let pid = routeVar ''provider'' r
      in case map_of (e_OidcProviders e) pid of
           None \<Rightarrow> reply (WriteErrorStatus ''Unknown OIDC provider.'' 404) d0
         | Some config \<Rightarrow>
             (let linkMode = (rq_Query r ''link'' \<noteq> []);
                  wrongMethod = (linkMode \<and> rq_Method r \<noteq> ''POST'');
                  (session, d) = (if linkMode \<and> \<not> wrongMethod then getSession e r d0 else (None, d0));
                  signedIn = (case session of None \<Rightarrow> False | Some s \<Rightarrow> IsVerified s)
              in if wrongMethod
                 then reply (WriteErrorStatus ''Account linking must be initiated with a POST request.'' 405) d
                 else if linkMode \<and> \<not> signedIn
                 then reply (WriteErrorStatus ''You must be signed in to link an external account.'' 401) d
                 else let returnValue = rq_Query r ''return'';
                          returnPath = (if Oidc_ReturnViaState config then returnValue else []);
                          redirectPath = (if Oidc_ReturnViaState config then [] else returnValue)
                      in case e_oidc_Init e pid redirectPath of
                           Some _ \<Rightarrow> reply (WriteErrorStatus
                                       ''Failed to initialize OIDC provider. Contact your administrator.'' 500) d
                         | None \<Rightarrow>
                             (let newState = \<lparr>Oauth_Csrf = e_RandomToken e, Oauth_Return = returnPath,
                                           Oauth_Link = linkMode\<rparr>
                              in reply ((redirect (if rq_Method r = ''POST'' then 303 else 307)
                                           (e_AuthCodeURL e pid (e_EncodeState e newState)))
                                          \<lparr>rs_SetCookie := Some (Oauth_Csrf newState)\<rparr>) d)))"

subsection \<open>The way back\<close>

text \<open>
  The claims come from the ID token, or else from the user info. When the user info can not be read, the code
  still looks at its profile, a nil dereference. The user name, and the name without a profile, are random even
  when the claims of the user info hold them.
\<close>

definition redirectClaims :: "ApiEnv \<Rightarrow> string \<Rightarrow> OidcProvider \<Rightarrow> string option \<Rightarrow> (go_error + claimResult) option" where
  "redirectClaims e pid provider rawIDToken =
     (case (if rawIDToken = Some [] then None else rawIDToken) of
        Some raw \<Rightarrow>
          Some (case e_oidc_Verify e pid raw of
                  Inl err \<Rightarrow> Inl err
                | Inr (subject, got) \<Rightarrow> claimOidc e subject got provider)
      | None \<Rightarrow>
          (case e_oidc_UserInfo e pid of
             Inl _ \<Rightarrow> None
           | Inr info \<Rightarrow>
               (let res = (if Info_Email info = []
                           then claimOidc e (Info_Subject info) (Info_Claims info) provider
                           else Inr (noClaims\<lparr>claim_email := Info_Email info, claim_name := Info_Profile info,
                                  claim_sub := Info_Subject info,
                                  claim_emailVerified := oidcEmailVerified info provider\<rparr>));
                    rename = (\<lambda>cl. let cl1 = cl\<lparr>claim_username := e_RandomName e\<rparr>
                                    in if Info_Profile info = [] then cl1\<lparr>claim_name := ''Anonymous''\<rparr> else cl1)
                in Some (map_sum id rename res))))"

definition trimSlashes :: "string \<Rightarrow> string" where
  "trimSlashes = dropWhile (\<lambda>c. c = CHR ''/'')"

definition oidcSuccessRedirectURL :: "ApiEnv \<Rightarrow> string \<Rightarrow> go_error + string" where
  "oidcSuccessRedirectURL e path =
     (let p = CHR ''/'' # trimSlashes path
      in if e_WebHostURL e = [] then Inr p else e_JoinPath e (e_WebHostURL e) p)"

definition linkRedirect :: "ApiEnv \<Rightarrow> Request \<Rightarrow> string \<Rightarrow> claimResult \<Rightarrow> Api \<Rightarrow> (Response \<times> Api) option" where
  "linkRedirect e r pid cl d0 =
     (case getSession e r d0 of
        (None, d) \<Rightarrow> reply (WriteErrorStatus ''You must be signed in to link an external account.'' 401) d
      | (Some session, d) \<Rightarrow>
          if \<not> IsVerified session
          then reply (WriteErrorStatus ''You must be signed in to link an external account.'' 401) d
          else (case q_GetUser (Session_UserID session) d of
                  Inl _ \<Rightarrow> reply (WriteErrorStatus ''Failed to link external account.'' 500) d
                | Inr sessionUser \<Rightarrow>
                    (case linkExternalIdentity (User_ID sessionUser) IdentityTypeOidc pid (claim_sub cl) d of
                       Inl LinkedToAnother \<Rightarrow>
                         reply (WriteErrorStatus ''This external account is already linked to another user.'' 409) d
                     | Inl ProviderAlreadyLinked \<Rightarrow>
                         reply (WriteErrorStatus ''Your account already has a linked identity for this provider. Unlink it first.'' 409) d
                     | Inl (LinkFailed _) \<Rightarrow> reply (WriteErrorStatus ''Failed to link external account.'' 500) d
                     | Inr d1 \<Rightarrow>
                         reply (redirect 307 (case e_JoinPath e (e_WebHostURL e) ''/'' of Inl _ \<Rightarrow> [] | Inr u \<Rightarrow> u)) d1)))"

text \<open>
  Both headers of the answer are written when the session is created. When it can not be created the error is
  the answer.
\<close>

definition signInRedirect ::
  "ApiEnv \<Rightarrow> Request \<Rightarrow> string \<Rightarrow> OidcProvider \<Rightarrow> oAuthState \<Rightarrow> claimResult \<Rightarrow> Api \<Rightarrow> (Response \<times> Api) option" where
  "signInRedirect e r pid config stateData cl d =
     (case resolveExternalUser e
             \<lparr>prof_Type = IdentityTypeOidc, prof_Provider = pid, prof_ExternalUID = claim_sub cl,
              prof_Username = claim_username cl, prof_Name = claim_name cl, prof_Email = claim_email cl,
              prof_MatchByUsername = False, prof_EmailVerified = claim_emailVerified cl\<rparr> d of
        (Inl _, d1) \<Rightarrow>
          reply (WriteErrorStatus ''OIDC sign-in failed: could not find or create the user account. Contact your administrator.'' 500) d1
      | (Inr user, d1) \<Rightarrow>
          (let (resp, d2) = createSession e user d1;
               path = (if Oidc_ReturnViaState config then Oauth_Return stateData else routeVar ''redirect_path'' r)
           in if rs_Status resp \<noteq> 204 then reply resp d2
              else case oidcSuccessRedirectURL e path of
                     Inl _ \<Rightarrow> reply ((WriteErrorStatus ''OIDC sign-in failed: invalid redirect URL.'' 500)
                                      \<lparr>rs_SetCookie := rs_SetCookie resp\<rparr>) d2
                   | Inr url \<Rightarrow> reply ((redirect 307 url)\<lparr>rs_SetCookie := rs_SetCookie resp\<rparr>) d2))"

definition oidcRedirect :: handler where
  "oidcRedirect e r c d =
     (let pid = routeVar ''provider'' r
      in case rq_OauthCookie r of
           None \<Rightarrow> reply (WriteErrorStatus ''OIDC sign-in failed: state cookie is missing. Try signing in again.'' 400) d
         | Some oauthState \<Rightarrow>
             (case e_DecodeState e (rq_Query r ''state'') of
                None \<Rightarrow> reply (WriteErrorStatus ''OIDC sign-in failed: invalid state. Try signing in again.'' 400) d
              | Some stateData \<Rightarrow>
                  if Oauth_Csrf stateData \<noteq> oauthState
                  then reply (WriteErrorStatus ''OIDC sign-in failed: state mismatch. Try signing in again.'' 400) d
                  else (case (e_oidc_Init e pid (rq_URLPath r), map_of (e_OidcProviders e) pid) of
                     (Some _, _) \<Rightarrow> reply (WriteErrorStatus
                        ''Failed to initialize OIDC provider. Contact your administrator.'' 500) d
                   | (None, None) \<Rightarrow> reply (WriteErrorStatus ''Unknown OIDC provider.'' 404) d
                   | (None, Some provider) \<Rightarrow>
                       (case e_oidc_Exchange e pid (rq_Query r ''code'') of
                          Inl _ \<Rightarrow> reply (WriteErrorStatus ''OIDC sign-in failed: could not exchange authorization code. Contact your administrator.'' 401) d
                        | Inr rawIDToken \<Rightarrow>
                            (case redirectClaims e pid provider rawIDToken of
                               None \<Rightarrow> None
                             | Some (Inl _) \<Rightarrow> reply (WriteErrorStatus ''OIDC sign-in failed: could not read user info from the provider. Contact your administrator.'' 502) d
                             | Some (Inr cl) \<Rightarrow>
                                 if claim_sub cl = []
                                 then reply (WriteErrorStatus ''OIDC sign-in failed: the provider returned no user ID (sub claim). Contact your administrator.'' 502) d
                                 else if Oauth_Link stateData then linkRedirect e r pid cl d
                                 else signInRedirect e r pid provider stateData cl d)))))"

end
