(* ===== verification/Api_Server.thy ===== *)
theory Api_Server
  imports Api_Oidc
begin

text \<open>
  The server as a whole: the handler that a route names, behind the middlewares of its chain. The handlers that
  are not modelled are an argument, as is the front end that answers requests outside the API.
\<close>

definition handlers :: "(string \<times> handler) list" where
  "handlers =
     [(''login'', login), (''logout'', logout), (''verifySession'', verifySession),
      (''recoverySession'', recoverySession), (''oidcLogin'', oidcLogin), (''oidcRedirect'', oidcRedirect),
      (''projects.GetProjects'', GetProjects), (''projects.GetProject'', handle_GetProject),
      (''projects.GetUserRole'', GetUserRole), (''projectController.UpdateProject'', UpdateProject),
      (''projects.GetUsers'', members_GetUsers), (''projects.AddUser'', members_AddUser),
      (''projects.UpdateUser'', members_UpdateUser), (''projects.RemoveUser'', RemoveUser),
      (''projects.LeftProject'', LeftProject),
      (''taskController.AddTask'', handle_AddTask), (''taskController.StopTask'', handle_StopTask),
      (''taskController.ConfirmTask'', handle_ConfirmTask), (''taskController.RejectTask'', handle_RejectTask),
      (''taskController.RemoveTask'', RemoveTask), (''taskController.StopAllTasks'', StopAllTasks),
      (''taskController.GetAllTasks'', GetAllTasks), (''taskController.GetLastTasks'', GetLastTasks),
      (''tasks.DeleteTask'', DeleteTask),
      (''usersController.GetUsers'', users_GetUsers), (''usersController.AddUser'', users_AddUser),
      (''usersController.UpdateUser'', users_UpdateUser), (''usersController.DeleteUser'', DeleteUser),
      (''usersController.UpdateUserPassword'', UpdateUserPassword),
      (''usersController.GetUserIdentities'', GetUserIdentities),
      (''usersController.DeleteUserIdentity'', DeleteUserIdentity),
      (''usersController.EnableTotp'', EnableTotp), (''usersController.DisableTotp'', DisableTotp),
      (''usersController.TotpQr'', TotpQr), (''userController.GetUser'', user_GetUser),
      (''getAPITokens'', getAPITokens), (''createAPIToken'', createAPIToken), (''deleteAPIToken'', deleteAPIToken),
      (''linkLdapIdentity'', linkLdapIdentity)]"

definition handle :: "(string \<Rightarrow> handler) \<Rightarrow> string \<Rightarrow> handler" where
  "handle other name = (case map_of handlers name of Some h \<Rightarrow> h | None \<Rightarrow> other name)"

text \<open>The first status that is written is the one of the answer.\<close>

definition firstStatus :: "Ctx \<Rightarrow> Response \<Rightarrow> Response" where
  "firstStatus c resp = (case cx_status c of None \<Rightarrow> resp | Some code \<Rightarrow> resp\<lparr>rs_Status := code\<rparr>)"

definition pathKnown :: "string \<Rightarrow> bool" where
  "pathKnown path =
     list_ex (\<lambda>rt. matchSegments (splitPath (rt_Path rt)) (splitPath path) \<noteq> None) routeTable"

definition ServeHTTP ::
  "(string \<Rightarrow> handler) \<Rightarrow> ApiEnv \<Rightarrow> string \<Rightarrow> Request \<Rightarrow> Api \<Rightarrow> (Response \<times> Api) option" where
  "ServeHTTP other e path r d =
     (case reach e path r d of
        None \<Rightarrow> None
      | Some (NoRoute, d1) \<Rightarrow>
          if pathKnown path then reply (status 405) d1 else other ''servePublic'' e r emptyCtx d1
      | Some (Refused resp, d1) \<Rightarrow> reply resp d1
      | Some (Reached name r1 c, d1) \<Rightarrow>
          map_option (\<lambda>(resp, d2). (firstStatus c resp, d2)) (handle other name e r1 c d1))"

end
