(* ===== verification/Api_Chains.thy ===== *)
theory Api_Chains
  imports Api_Server
begin

text \<open>
  What a chain of middlewares leaves behind: who is signed in, what the others do not touch, and the invariants
  of a chain, an interface whose clients give an invariant of single middlewares and get it for whole chains.
\<close>

named_theorems chain_simps
named_theorems middleware_defs

lemmas [middleware_defs] =
  csrfProtectionMiddleware_def metricsAuthMiddleware_def runnerAuth_def adminMiddleware_def ProjectMiddleware_def
  GetMustCanMiddleware_def NewTaskMiddleware_def GetTaskMiddleware_def GetTaskPermissionsMiddleware_def
  UserMiddleware_def withTarget_def ReadonlyUserMiddleware_def GetUserMiddleware_def objectMiddleware_def
  RepositoryMiddleware_def InventoryMiddleware_def EnvironmentMiddleware_def TemplatesMiddleware_def
  SchedulesMiddleware_def ViewMiddleware_def KeyMiddleware_def SecretStorageMiddleware_def
  IntegrationMiddleware_def WorkflowsMiddleware_def WorkflowRunsMiddleware_def globalRunnerMiddleware_def
  TaskMiddleware_def appMiddleware_def Let_def

lemmas step_splits = if_splits option.splits sum.splits prod.splits http.splits

subsection \<open>Signing in\<close>

definition onlySessions :: "Api \<Rightarrow> Api \<Rightarrow> bool" where
  "onlySessions d d' \<longleftrightarrow> d' = d\<lparr>a_session := a_session d'\<rparr>"

text \<open>The request proves that it comes from the user: a token that is valid now, or a verified session in use.\<close>

definition credentials :: "ApiEnv \<Rightarrow> Request \<Rightarrow> Api \<Rightarrow> ident \<Rightarrow> bool" where
  "credentials e r d userID \<longleftrightarrow>
     (if bearer r
      then \<exists>t \<in> set (a_token d). Token_ID t = bearerToken r \<and> Token_UserID t = userID \<and> \<not> IsExpiredAt t (a_now d)
      else \<exists>s \<in> set (a_session d).
             Option.bind (rq_Cookie r) (e_DecodeCookie e) = Some (Some userID, Some (Session_ID s)) \<and>
             Session_UserID s = userID \<and> \<not> Session_Expired s \<and>
             a_now d - Session_LastActive s \<le> sessionLifetime \<and> IsVerified s)"

definition signedIn :: "ApiEnv \<Rightarrow> Request \<Rightarrow> Api \<Rightarrow> Account \<Rightarrow> bool" where
  "signedIn e r d user \<longleftrightarrow>
     credentials e r d (User_ID user) \<and> (\<exists>row \<in> set (a_user d). user = row\<lparr>User_Totp := User_Totp user\<rparr>)"

lemma onlySessions_refl [simp]: "onlySessions d d"
  by (simp add: onlySessions_def)

lemma onlySessions_frame:
  assumes "onlySessions d d'"
  shows "a_user d' = a_user d" "a_totp d' = a_totp d" "a_token d' = a_token d" "a_projectUser d' = a_projectUser d"
    "a_role d' = a_role d" "a_templateRole d' = a_templateRole d" "a_identity d' = a_identity d"
    "a_pool d' = a_pool d" "a_keys d' = a_keys d" "a_object d' = a_object d" "a_faults d' = a_faults d" "a_next d' = a_next d"
  using assms unfolding onlySessions_def by (metis Api.select_convs Api.surjective Api.update_convs(3))+

lemma pick_found: "pick q P tbl d = Inr x \<Longrightarrow> x \<in> set (tbl d) \<and> P x \<and> \<not> a_faults d q"
  by (auto simp: pick_def find_Some_iff split: if_splits option.splits)

lemma q_GetUser_found:
  assumes "q_GetUser i d = Inr u"
  shows "User_ID u = i \<and> (\<exists>row \<in> set (a_user d). u = row\<lparr>User_Totp := User_Totp u\<rparr>)"
  using assms unfolding q_GetUser_def withTotp_def Let_def
  by (auto dest!: pick_found split: sum.splits if_splits)

lemma getSession_found:
  assumes "getSession e r d = (Some s, d')"
  shows "d' = d \<and> s \<in> set (a_session d) \<and> \<not> Session_Expired s \<and> a_now d - Session_LastActive s \<le> sessionLifetime \<and>
    Option.bind (rq_Cookie r) (e_DecodeCookie e) = Some (Some (Session_UserID s), Some (Session_ID s))"
  using assms unfolding getSession_def q_GetSession_def
  by (auto dest!: pick_found split: option.splits sum.splits prod.splits if_splits)

lemma updateSession_only: "updateSession q f i j d = Inr d' \<Longrightarrow> onlySessions d d'"
  by (auto simp: updateSession_def change_def onlySessions_def split: if_splits)

lemma getSession_only: "getSession e r d = (s, d') \<Longrightarrow> onlySessions d d'"
  unfolding getSession_def q_ExpireSession_def
  by (auto split: option.splits sum.splits prod.splits if_splits dest: updateSession_only)

lemma loadUser_passed:
  assumes "loadUser i c d = Some (Passed c', d')"
  shows "d' = d \<and> (\<exists>u. c' = c\<lparr>cx_user := Some u\<rparr> \<and> User_ID u = i \<and>
    (\<exists>row \<in> set (a_user d). u = row\<lparr>User_Totp := User_Totp u\<rparr>))"
  using assms unfolding loadUser_def by (auto split: sum.splits dest!: q_GetUser_found)

lemma authenticationHandler_passed:
  assumes "authenticationHandler e r c d = Some (Passed c', d')"
  obtains u where "c' = c\<lparr>cx_user := Some u\<rparr>" "signedIn e r d u" "onlySessions d d'"
proof (cases "bearer r")
  case True
  with assms obtain t where t: "q_GetAPIToken (bearerToken r) d = Inr t" "\<not> IsExpiredAt t (a_now d)"
    "loadUser (Token_UserID t) c d = Some (Passed c', d')"
    unfolding authenticationHandler_def by (auto split: sum.splits if_splits)
  have "t \<in> set (a_token d) \<and> Token_ID t = bearerToken r"
    using pick_found [OF t(1) [unfolded q_GetAPIToken_def]] by simp
  moreover obtain u where u: "c' = c\<lparr>cx_user := Some u\<rparr>" "d' = d" "User_ID u = Token_UserID t"
    "\<exists>row \<in> set (a_user d). u = row\<lparr>User_Totp := User_Totp u\<rparr>"
    using loadUser_passed [OF t(3)] by blast
  ultimately have "signedIn e r d u" using t(2) True by (auto simp: signedIn_def credentials_def)
  with u(1,2) show ?thesis using that by simp
next
  case False
  with assms obtain s d1 d2 where s: "getSession e r d = (Some s, d1)" "IsVerified s"
    "q_TouchSession (Session_UserID s) (Session_ID s) d1 = Inr d2"
    "loadUser (Session_UserID s) c d2 = Some (Passed c', d')"
    unfolding authenticationHandler_def by (auto split: option.splits sum.splits prod.splits if_splits)
  note f = getSession_found [OF s(1)]
  have o: "onlySessions d d2" using s(3) f by (auto simp: q_TouchSession_def dest: updateSession_only)
  obtain u where u: "c' = c\<lparr>cx_user := Some u\<rparr>" "d' = d2" "User_ID u = Session_UserID s"
    "\<exists>row \<in> set (a_user d2). u = row\<lparr>User_Totp := User_Totp u\<rparr>"
    using loadUser_passed [OF s(4)] by blast
  have "signedIn e r d u"
    using u(3,4) f False s(2) onlySessions_frame(1) [OF o] by (auto simp: signedIn_def credentials_def)
  with u(1,2) o show ?thesis using that by simp
qed

subsection \<open>Chains\<close>

lemma runChain_append:
  "runChain e r (ms @ ns) c d =
     (case runChain e r ms c d of Some (Passed c1, d1) \<Rightarrow> runChain e r ns c1 d1 | res \<Rightarrow> res)"
  by (induction ms arbitrary: c d) (auto split: option.splits prod.splits answer.splits)

lemma runChain_Cons_passed:
  "runChain e r (m # ms) c d = Some (Passed c', d') \<longleftrightarrow>
     (\<exists>c1 d1. middleware e m r c d = Some (Passed c1, d1) \<and> runChain e r ms c1 d1 = Some (Passed c', d'))"
  by (auto split: option.splits prod.splits answer.splits)

text \<open>Only signing in touches the state or the user of the context.\<close>

lemma middleware_frame:
  assumes "middleware e m r c d = Some (Passed c', d')" and "m \<noteq> M_Authentication"
  shows "d' = d" and "cx_user c' = cx_user c"
  using assms by (cases m; auto simp: middleware_defs split: step_splits)+

lemma middleware_answer_frame:
  "middleware e m r c d = Some (Answered resp, d') \<Longrightarrow> m \<noteq> M_Authentication \<Longrightarrow> d' = d"
  by (cases m; auto simp: middleware_defs split: step_splits)

lemma project_frame:
  "middleware e m r c d = Some (Passed c', d') \<Longrightarrow> m \<notin> {M_Authentication, M_Project} \<Longrightarrow>
    cx_project c' = cx_project c \<and> cx_role c' = cx_role c"
  by (cases m; auto simp: middleware_defs split: step_splits)

lemma permissions_frame:
  "middleware e m r c d = Some (Passed c', d') \<Longrightarrow> m \<notin> {M_Authentication, M_Project, M_TaskPermissions} \<Longrightarrow>
    cx_permissions c' = cx_permissions c"
  by (cases m; auto simp: middleware_defs split: step_splits)

text \<open>
  The interface of an invariant: for every middleware of a set that does not sign in. Whole chains over the set
  keep it, and it holds around each of their middlewares.
\<close>

locale chain_invariant =
  fixes e :: ApiEnv and r :: Request and d :: Api and allowed :: "Middleware \<Rightarrow> bool" and I :: "Ctx \<Rightarrow> bool"
  assumes no_signing_in: "allowed m \<Longrightarrow> m \<noteq> M_Authentication"
    and kept: "allowed m \<Longrightarrow> I c \<Longrightarrow> middleware e m r c d = Some (Passed c', d) \<Longrightarrow> I c'"
begin

lemma run:
  assumes "list_all allowed ms" and "I c" and "runChain e r ms c d = Some (Passed c', d')"
  shows "I c' \<and> d' = d"
  using assms
proof (induction ms arbitrary: c)
  case (Cons m ms)
  then obtain c1 d1 where m: "middleware e m r c d = Some (Passed c1, d1)"
    and ms: "runChain e r ms c1 d1 = Some (Passed c', d')" and a: "allowed m" "list_all allowed ms"
    by (auto simp: runChain_Cons_passed simp del: runChain.simps)
  have "d1 = d" using m no_signing_in [OF a(1)] by (rule middleware_frame(1))
  with m ms a Cons.IH Cons.prems(2) kept show ?case by blast
qed simp

lemma through:
  assumes "list_all allowed ms" and "I c" and "runChain e r ms c d = Some (Passed c', d')" and "m \<in> set ms"
  obtains c1 c2 ns where "I c1" "middleware e m r c1 d = Some (Passed c2, d)" "I c2" "list_all allowed ns"
    "runChain e r ns c2 d = Some (Passed c', d)" "I c'"
proof -
  obtain ps ns where ms: "ms = ps @ m # ns" using assms(4) by (meson split_list)
  with assms(1) have a: "list_all allowed ps" "allowed m" "list_all allowed ns" by auto
  obtain c1 d1 where p: "runChain e r ps c d = Some (Passed c1, d1)"
    and q: "runChain e r (m # ns) c1 d1 = Some (Passed c', d')"
    using assms(3) unfolding ms runChain_append by (auto split: option.splits prod.splits answer.splits)
  have c1: "I c1" "d1 = d" using run [OF a(1) assms(2) p] by auto
  obtain c2 d2 where m: "middleware e m r c1 d = Some (Passed c2, d2)"
    and n: "runChain e r ns c2 d2 = Some (Passed c', d')"
    using q unfolding c1(2) by (auto simp: runChain_Cons_passed simp del: runChain.simps)
  have "d2 = d" using m no_signing_in [OF a(2)] by (rule middleware_frame(1))
  then show ?thesis using that c1 m n a kept run by metis
qed

end

subsection \<open>The chains of the routes\<close>

definition plain :: "Middleware \<Rightarrow> bool" where
  "plain m \<longleftrightarrow> m \<noteq> M_Authentication"

text \<open>The signed-in user stays.\<close>

interpretation user_stays: chain_invariant e r d plain "\<lambda>c. cx_user c = Some u" for e r d u
  by unfold_locales (auto simp: plain_def dest: middleware_frame(2))

text \<open>A chain that signs in at its start: the request passed the check of its origin, and of its user.\<close>

lemma authenticated_chain:
  assumes "runChain e r (authenticatedAPI @ ms) emptyCtx d = Some (Passed c, d')" and "list_all plain ms"
  obtains u d1 where "signedIn e r d u" "onlySessions d d1" "d' = d1" "cx_user c = Some u"
    "runChain e r ms (emptyCtx\<lparr>cx_user := Some u\<rparr>) d1 = Some (Passed c, d1)"
    "csrfProtectionMiddleware e r emptyCtx d = Some (Passed emptyCtx, d)"
proof -
  have csrf: "csrfProtectionMiddleware e r emptyCtx d = Some (Passed c1, d1) \<Longrightarrow> c1 = emptyCtx \<and> d1 = d" for c1 d1
    by (auto simp: csrfProtectionMiddleware_def split: if_splits option.splits)
  from assms(1) obtain c1 d1 where a: "authenticationHandler e r emptyCtx d = Some (Passed c1, d1)"
    and m: "runChain e r ms c1 d1 = Some (Passed c, d')"
    and o: "csrfProtectionMiddleware e r emptyCtx d = Some (Passed emptyCtx, d)"
    by (auto simp: authenticatedAPI_def dest!: csrf split: option.splits prod.splits answer.splits)
  obtain u where u: "c1 = emptyCtx\<lparr>cx_user := Some u\<rparr>" "signedIn e r d u" "onlySessions d d1"
    using authenticationHandler_passed [OF a] by metis
  have "cx_user c = Some u \<and> d' = d1"
    using user_stays.run [OF assms(2) _ m] u(1) by simp
  with u m o that show ?thesis by metis
qed

end
