(* ===== verification/Api_Table.thy ===== *)
theory Api_Table
  imports Api_Chains
begin

text \<open>
  Facts about the routing table, group by group: which routes sign in, which are of projects and what stands in
  front of them. \<open>neededPermission\<close> says what a member needs for a handler that writes.
\<close>

definition openHandlers :: "string list" where
  "openHandlers =
     [''jwksController.GetJWKS'', ''pongHandler'', ''appMetrics'', ''login'', ''verifySession'', ''recoverySession'',
      ''logout'', ''oidcLogin'', ''oidcRedirect'', ''runners.RegisterRunner'', ''runnerController.GetRunner'',
      ''runnerController.UpdateRunner'', ''runners.UnregisterRunner'', ''integrationController.ReceiveIntegration'',
      ''terraformController.GetTerraformState'', ''terraformController.AddTerraformState'',
      ''terraformController.LockTerraformState'', ''terraformController.UnlockTerraformState'']"

definition neededPermission :: "string \<Rightarrow> ProjectUserPermission option" where
  "neededPermission h =
     (if h \<in> {''projects.LeftProject'', ''projects.ClearCache''} then None
      else if h \<in> {''taskController.AddTask'', ''taskController.StopTask'', ''taskController.ConfirmTask'',
                     ''taskController.RejectTask'', ''workflowController.RunWorkflow'',
                     ''workflowController.StopWorkflowRun'', ''workflowController.ResolveWorkflowApproval''}
      then Some CanRunProjectTasks
      else if h \<in> {''projectController.UpdateProject'', ''projectController.DeleteProject''} then Some CanUpdateProject
      else if h \<in> {''projects.AddUser'', ''projects.UpdateUser'', ''projects.RemoveUser''}
      then Some CanManageProjectUsers
      else Some CanManageProjectResources)"

lemmas sub_routers =
  pingRouter_def metricsRouter_def publicAPIRouter_def internalAPI_def runnersAPI_def publicWebHookRouter_def
  terraformWebhookRouter_def authenticatedWS_def authenticatedAPI_def tokenAPI_def adminAPI_def
  globalRunnersAPI_def rolesAPI_def appsAPI_def tasksAPI_def userUserAPI_def userAPI_def userPasswordAPI_def
  projectGet_def projectTaskStart_def projectTaskStop_def projectUserAPI_def projectRunnersAPI_def
  projectRolesAPI_def projectAdminAPI_def meAPI_def cacheAPI_def projectAdminUsersAPI_def
  projectUserManagement_def projectKeyManagement_def projectSecretStorageManagement_def
  projectRepoManagement_def projectInventoryManagement_def projectEnvManagement_def projectTmplManagement_def
  projectTmplInvManagement_def projectWorkflowManagement_def projectWorkflowRunAPI_def
  projectWorkflowRunManagement_def projectTaskManagement_def projectScheduleManagement_def
  projectViewManagement_def projectIntegrationsAliasAPI_def projectIntegrationsAPI_def

subsection \<open>Routes that sign in\<close>

definition signsIn :: "Route \<Rightarrow> bool" where
  "signsIn rt \<longleftrightarrow>
     rt_Chain rt = authenticatedWS \<or>
     take 4 (rt_Chain rt) = authenticatedAPI \<and> list_all plain (drop 4 (rt_Chain rt))"

lemma open_routes: "rt \<in> set publicRoutes \<Longrightarrow> rt_Handler rt \<in> set openHandlers"
  by (auto simp: publicRoutes_def route_def openHandlers_def)

lemma account_routes: "rt \<in> set accountRoutes \<Longrightarrow> signsIn rt"
  by (auto simp: accountRoutes_def route_def signsIn_def sub_routers plain_def)

lemma user_routes: "rt \<in> set userRoutes \<Longrightarrow> signsIn rt"
  by (auto simp: userRoutes_def route_def signsIn_def sub_routers plain_def)

lemma admin_routes: "rt \<in> set adminRoutes \<Longrightarrow> signsIn rt \<and> M_Admin \<in> set (drop 4 (rt_Chain rt))"
  by (auto simp: adminRoutes_def route_def signsIn_def sub_routers plain_def)

subsection \<open>Routes of projects\<close>

definition starts :: "Middleware \<Rightarrow> Middleware list" where
  "starts m = [m, M_TaskPermissions, M_MustCan CanRunProjectTasks]"

text \<open>
  The chain signs in and loads the project first. A handler that writes has its permission in the chain, and the
  permissions on the template of a task only come into play where tasks are started, stopped or decided.
\<close>

definition guarded :: "Route \<Rightarrow> bool" where
  "guarded rt \<longleftrightarrow>
     (let ms = drop 5 (rt_Chain rt)
      in take 5 (rt_Chain rt) = authenticatedAPI @ [M_Project] \<and> list_all plain ms \<and>
         (M_TaskPermissions \<in> set ms \<longrightarrow>
            (ms = starts M_NewTask \<or> ms = starts M_GetTask) \<and> neededPermission (rt_Handler rt) = Some CanRunProjectTasks) \<and>
         (set (rt_Methods rt) \<subseteq> {''GET'', ''HEAD''} \<or>
          (case neededPermission (rt_Handler rt) of None \<Rightarrow> True | Some p \<Rightarrow> M_MustCan p \<in> set ms)))"

lemmas guarded_simps = route_def guarded_def sub_routers plain_def Let_def starts_def neededPermission_def

lemma task_routes_guarded: "list_all guarded taskRoutes"
  by (simp add: taskRoutes_def guarded_simps)

lemma project_routes_guarded: "list_all guarded projectRoutes"
  by (simp add: projectRoutes_def guarded_simps)

lemma member_routes_guarded: "list_all guarded memberRoutes"
  by (simp add: memberRoutes_def guarded_simps)

lemma object_routes_guarded: "list_all guarded objectRoutes"
  by (simp add: objectRoutes_def guarded_simps)

lemma template_routes_guarded: "list_all guarded templateRoutes"
  by (simp add: templateRoutes_def guarded_simps)

lemma workflow_routes_guarded: "list_all guarded workflowRoutes"
  by (simp add: workflowRoutes_def guarded_simps)

lemma history_routes_guarded: "list_all guarded historyRoutes"
  by (simp add: historyRoutes_def guarded_simps)

lemma integration_routes_guarded: "list_all guarded integrationRoutes"
  by (simp add: integrationRoutes_def guarded_simps)

definition projectRouteTable :: "Route list" where
  "projectRouteTable =
     taskRoutes @ projectRoutes @ memberRoutes @ objectRoutes @ templateRoutes @ workflowRoutes @ historyRoutes @
     integrationRoutes"

lemma project_route_guarded: "rt \<in> set projectRouteTable \<Longrightarrow> guarded rt"
  using task_routes_guarded project_routes_guarded member_routes_guarded object_routes_guarded
    template_routes_guarded workflow_routes_guarded history_routes_guarded integration_routes_guarded
  by (auto simp: projectRouteTable_def list_all_iff)

lemma guarded_signsIn: "guarded rt \<Longrightarrow> signsIn rt"
proof -
  assume g: "guarded rt"
  then have t: "take 5 (rt_Chain rt) = authenticatedAPI @ [M_Project]" and p: "list_all plain (drop 5 (rt_Chain rt))"
    by (simp_all add: guarded_def Let_def)
  have c: "rt_Chain rt = authenticatedAPI @ M_Project # drop 5 (rt_Chain rt)"
    using t append_take_drop_id [of 5 "rt_Chain rt"] by simp
  have "length authenticatedAPI = 4" by (simp add: authenticatedAPI_def)
  then have "take 4 (rt_Chain rt) = authenticatedAPI" "drop 4 (rt_Chain rt) = M_Project # drop 5 (rt_Chain rt)"
    by (subst c, simp)+
  with p show ?thesis by (simp add: signsIn_def plain_def)
qed

lemma table_cases:
  assumes "rt \<in> set routeTable"
  shows "rt \<in> set publicRoutes \<or> rt \<in> set accountRoutes \<or> rt \<in> set adminRoutes \<or> rt \<in> set userRoutes \<or>
    rt \<in> set projectRouteTable"
  using assms by (auto simp: routeTable_def projectRouteTable_def)

lemma table_signsIn:
  assumes "rt \<in> set routeTable" and "rt_Handler rt \<notin> set openHandlers"
  shows "signsIn rt"
  using table_cases [OF assms(1)] assms(2) open_routes account_routes user_routes admin_routes
    guarded_signsIn [OF project_route_guarded] by blast

end
