(* ===== verification/Api_Paths.thy ===== *)
theory Api_Paths
  imports Api_Table
begin

text \<open>Which routes a path below \<^verbatim>\<open>/api/project/\<close> can have: those of projects, with the ID of the path.\<close>

definition projectPath :: "string \<Rightarrow> bool" where
  "projectPath path \<longleftrightarrow> take 3 (splitPath path) = [[], ''api'', ''project'']"

definition projectTemplate :: "Route \<Rightarrow> bool" where
  "projectTemplate rt \<longleftrightarrow> take 4 (splitPath (rt_Path rt)) = [[], ''api'', ''project'', ''{project_id}'']"

lemmas path_simps = route_def projectTemplate_def splitPath_def restVar_def segmentVar_def

lemma project_templates:
  "list_all projectTemplate taskRoutes" "list_all projectTemplate projectRoutes" "list_all projectTemplate memberRoutes"
  "list_all projectTemplate objectRoutes" "list_all projectTemplate templateRoutes"
  "list_all projectTemplate workflowRoutes" "list_all projectTemplate historyRoutes"
  "list_all projectTemplate integrationRoutes"
  by (simp_all add: taskRoutes_def projectRoutes_def memberRoutes_def objectRoutes_def templateRoutes_def
      workflowRoutes_def historyRoutes_def integrationRoutes_def path_simps)

definition elsewhere :: "string list \<Rightarrow> Route \<Rightarrow> bool" where
  "elsewhere ss rt \<longleftrightarrow> matchSegments (splitPath (rt_Path rt)) ([] # ''api'' # ''project'' # ss) = None"

lemma other_templates:
  "list_all (elsewhere ss) publicRoutes" "list_all (elsewhere ss) accountRoutes"
  "list_all (elsewhere ss) adminRoutes" "list_all (elsewhere ss) userRoutes"
  by (simp_all add: publicRoutes_def accountRoutes_def adminRoutes_def userRoutes_def elsewhere_def path_simps)

lemma findRoute_found:
  assumes "findRoute rts m path = Some (rt, vars)"
  shows "rt \<in> set rts \<and> matchSegments (splitPath (rt_Path rt)) (splitPath path) = Some vars \<and> m \<in> set (rt_Methods rt)"
  using assms by (induction rts) (auto split: option.splits if_splits)

lemma findRoute_project:
  assumes "findRoute routeTable m path = Some (rt, vars)" and "projectPath path"
  shows "rt \<in> set projectRouteTable" and "map_of vars ''project_id'' = Some (splitPath path ! 3)"
proof -
  note f = findRoute_found [OF assms(1)]
  define ss where "ss = drop 3 (splitPath path)"
  have path: "splitPath path = [] # ''api'' # ''project'' # ss"
    using assms(2) append_take_drop_id [of 3 "splitPath path"] by (simp add: projectPath_def ss_def)
  have "\<not> elsewhere ss rt" using f path by (simp add: elsewhere_def)
  then show p: "rt \<in> set projectRouteTable"
    using table_cases [of rt] f other_templates [of ss] by (auto simp: list_all_iff)
  have "projectTemplate rt"
    using p project_templates by (auto simp: projectRouteTable_def list_all_iff)
  then obtain ts where ts: "splitPath (rt_Path rt) = [] # ''api'' # ''project'' # ''{project_id}'' # ts"
    using append_take_drop_id [of 4 "splitPath (rt_Path rt)"] unfolding projectTemplate_def by (metis append_Cons append_Nil)
  have "matchSegments (''{project_id}'' # ts) ss = Some vars"
    using f unfolding path ts by (simp add: restVar_def segmentVar_def)
  then show "map_of vars ''project_id'' = Some (splitPath path ! 3)"
    unfolding path by (cases ss) (auto simp: restVar_def segmentVar_def split: if_splits)
qed

text \<open>How a request reached a handler.\<close>

lemma reach_cases:
  assumes "reach e path r d = Some (Reached h r1 c, d1)"
  obtains rt vars where "findRoute routeTable (rq_Method r) path = Some (rt, vars)" "r1 = r\<lparr>rq_Vars := vars\<rparr>"
    "rt_Handler rt = h" "runChain e r1 (rt_Chain rt) emptyCtx d = Some (Passed c, d1)" "rt \<in> set routeTable"
    "rq_Method r \<in> set (rt_Methods rt)"
proof -
  from assms obtain rt vars where rt: "findRoute routeTable (rq_Method r) path = Some (rt, vars)"
    by (auto simp: reach_def split: option.splits)
  with assms findRoute_found [OF rt] that show ?thesis
    by (auto simp: reach_def Let_def split: option.splits answer.splits)
qed

lemma signedIn_vars [simp]: "signedIn e (r\<lparr>rq_Vars := vars\<rparr>) d u = signedIn e r d u"
  by (simp add: signedIn_def credentials_def bearer_def bearerToken_def)

lemma signsIn_chain:
  assumes "runChain e r (rt_Chain rt) emptyCtx d = Some (Passed c, d1)" and "signsIn rt"
  obtains u ms where "signedIn e r d u" "onlySessions d d1" "cx_user c = Some u" "list_all plain ms"
    "runChain e r ms (emptyCtx\<lparr>cx_user := Some u\<rparr>) d1 = Some (Passed c, d1)"
proof (cases "rt_Chain rt = authenticatedWS")
  case True
  have "authenticationHandler e r emptyCtx d = Some (Passed c, d1)"
    using assms(1) unfolding True
    by (auto simp: authenticatedWS_def split: option.splits prod.splits answer.splits)
  then show ?thesis using that [of _ "[]"] by (auto elim!: authenticationHandler_passed)
next
  case False
  with assms(2) have t: "take 4 (rt_Chain rt) = authenticatedAPI" and p: "list_all plain (drop 4 (rt_Chain rt))"
    by (simp_all add: signsIn_def)
  have "runChain e r (authenticatedAPI @ drop 4 (rt_Chain rt)) emptyCtx d = Some (Passed c, d1)"
    using assms(1) unfolding t [symmetric] by simp
  then show ?thesis using p that by (elim authenticated_chain) auto
qed

text \<open>A handler that is not open runs for a signed-in user.\<close>

lemma reach_signedIn:
  assumes "reach e path r d = Some (Reached h r1 c, d1)" and "h \<notin> set openHandlers"
  obtains u ms where "signedIn e r d u" "onlySessions d d1" "cx_user c = Some u" "list_all plain ms"
    "runChain e r1 ms (emptyCtx\<lparr>cx_user := Some u\<rparr>) d1 = Some (Passed c, d1)"
proof -
  obtain rt vars where rt: "rt \<in> set routeTable" "rt_Handler rt = h" "r1 = r\<lparr>rq_Vars := vars\<rparr>"
    and run: "runChain e r1 (rt_Chain rt) emptyCtx d = Some (Passed c, d1)"
    using assms(1) by (rule reach_cases)
  have "signsIn rt" using rt assms(2) by (auto intro: table_signsIn)
  with run show ?thesis by (rule signsIn_chain) (use rt(3) that in auto)
qed

end
