(* ===== verification/Api_Rights.thy ===== *)
theory Api_Rights
  imports Api_Paths
begin

text \<open>
  Who reaches a handler. The rights of a user in a project are computed from the tables alone (\<open>authority\<close>), and
  every chain of a project is shown to let only those through who have what the handler needs.
\<close>

subsection \<open>Rights by the tables\<close>

definition membership :: "Api \<Rightarrow> ident \<Rightarrow> ident \<Rightarrow> bool" where
  "membership d projectID userID \<longleftrightarrow>
     (\<exists>m \<in> set (a_projectUser d). PU_ProjectID m = projectID \<and> PU_UserID m = userID)"

definition rolePart :: "Api \<Rightarrow> ident \<Rightarrow> ident \<Rightarrow> ProjectUserPermission" where
  "rolePart d projectID userID =
     (case q_GetProjectUser projectID userID d of
        Inl _ \<Rightarrow> 0
      | Inr m \<Rightarrow> (case rolePerms projectID (PU_Role m) d of Inl _ \<Rightarrow> 0 | Inr (_, permissions) \<Rightarrow> permissions))"

definition pathPart :: "Request \<Rightarrow> Api \<Rightarrow> ident \<Rightarrow> ident \<Rightarrow> ProjectUserPermission" where
  "pathPart r d projectID userID =
     (case templatePerms r projectID userID d of Inl _ \<Rightarrow> 0 | Inr permissions \<Rightarrow> permissions)"

definition taskPart :: "Task option \<Rightarrow> Api \<Rightarrow> ident \<Rightarrow> ident \<Rightarrow> ProjectUserPermission" where
  "taskPart task d projectID userID =
     (case task of
        None \<Rightarrow> 0
      | Some t \<Rightarrow>
          (case q_GetTemplatePermission projectID (Task_TemplateID t) userID d of Inl _ \<Rightarrow> 0 | Inr permissions \<Rightarrow> permissions))"

text \<open>The role of the member, and what the templates of the path and of the task give to that role.\<close>

definition authority :: "Request \<Rightarrow> Api \<Rightarrow> ident \<Rightarrow> ident \<Rightarrow> Task option \<Rightarrow> ProjectUserPermission" where
  "authority r d projectID userID task =
     (rolePart d projectID userID OR pathPart r d projectID userID) OR taskPart task d projectID userID"

definition may :: "Request \<Rightarrow> Api \<Rightarrow> Account \<Rightarrow> Project \<Rightarrow> Task option \<Rightarrow> ProjectUserPermission \<Rightarrow> bool" where
  "may r d u p task needed \<longleftrightarrow>
     User_Admin u \<or> authority r d (Project_ID p) (User_ID u) task AND needed = needed"

lemma may_base:
  assumes "(rolePart d (Project_ID p) (User_ID u) OR pathPart r d (Project_ID p) (User_ID u)) AND needed = needed"
  shows "may r d u p task needed"
  using assms unfolding may_def authority_def by (simp add: bit_eq_iff bit_and_iff bit_or_iff) blast

text \<open>Sessions have no part in it.\<close>

lemma session_queries [chain_simps]:
  "q_GetProjectUser i j (d\<lparr>a_session := s\<rparr>) = q_GetProjectUser i j d"
  "q_GetProjectOrGlobalRoleBySlug i slug (d\<lparr>a_session := s\<rparr>) = q_GetProjectOrGlobalRoleBySlug i slug d"
  "templateRolePerm i k slug (d\<lparr>a_session := s\<rparr>) = templateRolePerm i k slug d"
  by (simp_all add: q_GetProjectUser_def q_GetProjectOrGlobalRoleBySlug_def templateRolePerm_def pick_def)

lemma session_rights [chain_simps]:
  "rolePerms i slug (d\<lparr>a_session := s\<rparr>) = rolePerms i slug d"
  "q_GetTemplatePermission i k j (d\<lparr>a_session := s\<rparr>) = q_GetTemplatePermission i k j d"
  by (simp_all add: rolePerms_def q_GetTemplatePermission_def chain_simps
      cong del: sum.case_cong_weak go_error.case_cong_weak if_weak_cong)

lemma session_parts [chain_simps]:
  "rolePart (d\<lparr>a_session := s\<rparr>) i j = rolePart d i j"
  "pathPart r (d\<lparr>a_session := s\<rparr>) i j = pathPart r d i j"
  "taskPart task (d\<lparr>a_session := s\<rparr>) i j = taskPart task d i j"
  "membership (d\<lparr>a_session := s\<rparr>) i j = membership d i j"
  by (simp_all add: rolePart_def pathPart_def taskPart_def membership_def templatePerms_def chain_simps
      cong del: sum.case_cong_weak option.case_cong_weak)

lemma may_sessions:
  assumes "onlySessions d d'"
  shows "may r d' = may r d" and "membership d' = membership d"
proof -
  obtain s where d': "d' = d\<lparr>a_session := s\<rparr>" using assms unfolding onlySessions_def by blast
  show "may r d' = may r d" "membership d' = membership d"
    by (simp_all add: d' may_def authority_def chain_simps fun_eq_iff)
qed

subsection \<open>Invariants of the chains of projects\<close>

text \<open>The project in the context is the one of the path, and the user may see it.\<close>

definition projectOK :: "Request \<Rightarrow> Api \<Rightarrow> Account \<Rightarrow> Project \<Rightarrow> bool" where
  "projectOK r d u p \<longleftrightarrow>
     GetIntParam ''project_id'' r = Inr (Project_ID p) \<and> GetProject (Project_ID p) (db (a_pool d)) = Inr p \<and>
     (User_Admin u \<or> membership d (Project_ID p) (User_ID u))"

lemma GetProject_id: "GetProject i b = Inr p \<Longrightarrow> Project_ID p = i"
  by (auto simp: GetProject_def selectOne_def find_Some_iff split: if_splits option.splits)

lemma ProjectMiddleware_passed:
  assumes "ProjectMiddleware r c d = Some (Passed c', d')" and "cx_user c = Some u"
  obtains p q slug where "c' = c\<lparr>cx_role := Some slug, cx_permissions := Some q, cx_project := Some p\<rparr>"
    "projectOK r d u p"
    "\<not> User_Admin u \<Longrightarrow> q = rolePart d (Project_ID p) (User_ID u) OR pathPart r d (Project_ID p) (User_ID u)"
proof -
  from assms obtain i roleSlug p slug q1 q2 where i: "GetIntParam ''project_id'' r = Inr i"
    and m: "memberRole i u d = Inr roleSlug" and p: "GetProject i (db (a_pool d)) = Inr p"
    and rp: "rolePerms i roleSlug d = Inr (slug, q1)" and tp: "templatePerms r (Project_ID p) (User_ID u) d = Inr q2"
    and c: "c' = c\<lparr>cx_role := Some slug, cx_permissions := Some (q1 OR q2), cx_project := Some p\<rparr>"
    unfolding ProjectMiddleware_def by (auto split: sum.splits prod.splits)
  have id: "Project_ID p = i" using p by (rule GetProject_id)
  have member: "\<exists>pu. q_GetProjectUser i (User_ID u) d = Inr pu \<and> PU_Role pu = roleSlug" if "\<not> User_Admin u"
    using m that by (auto simp: memberRole_def split: sum.splits)
  then have "\<not> User_Admin u \<Longrightarrow> membership d i (User_ID u)"
    unfolding q_GetProjectUser_def membership_def by (blast dest: pick_found)
  then have ok: "projectOK r d u p" using i p id by (auto simp: projectOK_def)
  show ?thesis
    by (rule that [OF c ok]) (use member rp tp id in \<open>auto simp: rolePart_def pathPart_def\<close>)
qed

definition inProject :: "Request \<Rightarrow> Api \<Rightarrow> Account \<Rightarrow> Ctx \<Rightarrow> bool" where
  "inProject r d u c \<longleftrightarrow>
     cx_user c = Some u \<and> (case cx_project c of None \<Rightarrow> True | Some p \<Rightarrow> projectOK r d u p)"

interpretation project_stays: chain_invariant e r d plain "inProject r d u" for e r d u
proof
  fix m c c'
  assume m: "plain m" "inProject r d u c" "middleware e m r c d = Some (Passed c', d)"
  show "inProject r d u c'"
  proof (cases "m = M_Project")
    case True
    with m show ?thesis by (auto simp: inProject_def elim: ProjectMiddleware_passed)
  next
    case False
    then show ?thesis
      using m project_frame [OF m(3)] middleware_frame(2) [OF m(3)] by (auto simp: inProject_def plain_def)
  qed
qed (simp add: plain_def)

text \<open>Without permissions on the template of a task, those in the context are of the role and the path.\<close>

definition untasked :: "Middleware \<Rightarrow> bool" where
  "untasked m \<longleftrightarrow> plain m \<and> m \<noteq> M_TaskPermissions"

definition roleRights :: "Request \<Rightarrow> Api \<Rightarrow> Account \<Rightarrow> Ctx \<Rightarrow> bool" where
  "roleRights r d u c \<longleftrightarrow>
     inProject r d u c \<and> (case cx_project c of
       None \<Rightarrow> cx_permissions c = None
     | Some p \<Rightarrow> \<not> User_Admin u \<longrightarrow>
         cx_permissions c = Some (rolePart d (Project_ID p) (User_ID u) OR pathPart r d (Project_ID p) (User_ID u)))"

interpretation rights_stay: chain_invariant e r d untasked "roleRights r d u" for e r d u
proof
  fix m c c'
  assume m: "untasked m" "roleRights r d u c" "middleware e m r c d = Some (Passed c', d)"
  have "inProject r d u c'"
    using project_stays.kept m by (auto simp: untasked_def roleRights_def)
  moreover show "roleRights r d u c'"
  proof (cases "m = M_Project")
    case True
    with m show ?thesis using \<open>inProject r d u c'\<close>
      by (auto simp: roleRights_def inProject_def elim!: ProjectMiddleware_passed)
  next
    case False
    then show ?thesis
      using m project_frame [OF m(3)] permissions_frame [OF m(3)] \<open>inProject r d u c'\<close>
      by (auto simp: roleRights_def untasked_def plain_def split: option.splits)
  qed
qed (simp add: untasked_def plain_def)

lemma roleRights_may:
  assumes "roleRights r d u c" and "GetMustCanMiddleware needed r c d = Some (Passed c', d')"
    and "rq_Method r \<noteq> ''GET''" and "rq_Method r \<noteq> ''HEAD''"
  shows "\<exists>p. cx_project c = Some p \<and> projectOK r d u p \<and> may r d u p task needed"
proof -
  have u: "cx_user c = Some u" using assms(1) by (simp add: roleRights_def inProject_def)
  obtain q where q: "cx_permissions c = Some q" "User_Admin u \<or> q AND needed = needed"
    using assms(2,3,4) u unfolding GetMustCanMiddleware_def by (auto simp: Let_def split: option.splits if_splits)
  then obtain p where p: "cx_project c = Some p" using assms(1) by (auto simp: roleRights_def split: option.splits)
  then have ok: "projectOK r d u p" using assms(1) by (simp add: roleRights_def inProject_def)
  have "may r d u p task needed"
  proof (cases "User_Admin u")
    case False
    then have "q = rolePart d (Project_ID p) (User_ID u) OR pathPart r d (Project_ID p) (User_ID u)"
      using assms(1) p q(1) by (simp add: roleRights_def)
    with q(2) False show ?thesis by (intro may_base) simp
  qed (simp add: may_def)
  with p ok show ?thesis by blast
qed

end
