(* ===== verification/Api_Tables.thy ===== *)
theory Api_Tables
  imports Api_Server
begin

text \<open>
  The well-formedness of the tables of accounts and that every query keeps it: keys are unique, identifiers are
  below the next one, and every row that refers to an account refers to one that exists.
\<close>

subsection \<open>Tables with a key\<close>

definition keyed :: "('r \<Rightarrow> 'k) \<Rightarrow> 'r list \<Rightarrow> bool" where
  "keyed k rows \<longleftrightarrow> distinct (map k rows)"

lemma keyed_append [simp]: "keyed k (rows @ [x]) \<longleftrightarrow> keyed k rows \<and> k x \<notin> k ` set rows"
  by (auto simp: keyed_def)

lemma keyed_filter [intro]: "keyed k rows \<Longrightarrow> keyed k (filter P rows)"
  by (induction rows) (auto simp: keyed_def)

lemma map_eq_image: "map f xs = map f ys \<Longrightarrow> f ` set xs = f ` set ys"
  by (metis set_map)

lemma map_changed: "(\<And>x. P x \<Longrightarrow> f (g x) = f x) \<Longrightarrow> map f (map (\<lambda>x. if P x then g x else x) xs) = map f xs"
  by (induction xs) auto

lemma keyed_changed:
  "keyed k xs \<Longrightarrow> (\<And>x. P x \<Longrightarrow> k (g x) = k x) \<Longrightarrow> keyed k (map (\<lambda>x. if P x then g x else x) xs)"
  unfolding keyed_def by (subst map_changed) auto

text \<open>One row gets a new value of a unique column that no other row has.\<close>

lemma keyed_renamed:
  assumes "keyed i xs" and "keyed f xs" and "\<And>x. x \<in> set xs \<Longrightarrow> i x \<noteq> j \<Longrightarrow> f x \<noteq> y" and "\<And>x. f (g x) = y"
  shows "keyed f (map (\<lambda>x. if i x = j then g x else x) xs)"
proof -
  define h where "h x = (if i x = j then g x else x)" for x
  have "inj_on (f \<circ> h) (set xs)"
  proof (rule inj_onI)
    fix a b assume a: "a \<in> set xs" and b: "b \<in> set xs" and eq: "(f \<circ> h) a = (f \<circ> h) b"
    have inj: "inj_on i (set xs)" "inj_on f (set xs)" using assms(1,2) by (simp_all add: keyed_def distinct_map)
    show "a = b"
    proof (cases "i a = j")
      case True
      then have "i b = j" using eq assms(3) [OF b] assms(4) by (auto simp: h_def split: if_splits)
      with True inj(1) a b show ?thesis by (metis inj_onD)
    next
      case False
      then have "i b \<noteq> j" using eq assms(3) [OF a] assms(4) by (auto simp: h_def split: if_splits)
      with False eq inj(2) a b show ?thesis by (auto simp: h_def dest: inj_onD)
    qed
  qed
  moreover have "distinct xs" using assms(1) by (simp add: keyed_def distinct_map)
  ultimately show ?thesis unfolding keyed_def h_def [symmetric] map_map by (simp add: distinct_map)
qed

definition refersTo :: "('r \<Rightarrow> ident) \<Rightarrow> 'r list \<Rightarrow> Account list \<Rightarrow> bool" where
  "refersTo f rows us \<longleftrightarrow> f ` set rows \<subseteq> User_ID ` set us"

lemma refersTo_append [simp]: "refersTo f (rows @ [x]) us \<longleftrightarrow> refersTo f rows us \<and> f x \<in> User_ID ` set us"
  by (auto simp: refersTo_def)

lemma refersTo_filter [intro]: "refersTo f rows us \<Longrightarrow> refersTo f (filter P rows) us"
  by (auto simp: refersTo_def)

lemma refersTo_more: "refersTo f rows us \<Longrightarrow> refersTo f rows (us @ vs)"
  by (auto simp: refersTo_def)

lemma refersTo_deleted:
  "refersTo f rows us \<Longrightarrow> refersTo f (filter (\<lambda>x. f x \<noteq> i) rows) (filter (\<lambda>u. User_ID u \<noteq> i) us)"
  by (auto simp: refersTo_def)

lemma refersTo_cong: "map User_ID us = map User_ID vs \<Longrightarrow> refersTo f rows us = refersTo f rows vs"
  unfolding refersTo_def by (metis map_eq_image)

lemma refersTo_changed:
  "refersTo f rows us \<Longrightarrow> (\<And>x. P x \<Longrightarrow> f (g x) = f x) \<Longrightarrow> refersTo f (map (\<lambda>x. if P x then g x else x) rows) us"
  by (auto simp: refersTo_def)

subsection \<open>The invariant\<close>

definition identityKey :: "UserExternalIdentity \<Rightarrow> string \<times> string \<times> string" where
  "identityKey i = (Ident_Type i, Ident_Provider i, Ident_ExternalUID i)"

definition memberKey :: "ProjectUser \<Rightarrow> ident \<times> ident" where
  "memberKey p = (PU_ProjectID p, PU_UserID p)"

definition below :: "ident \<Rightarrow> ('r \<Rightarrow> ident) \<Rightarrow> 'r list \<Rightarrow> bool" where
  "below n f rows \<longleftrightarrow> (\<forall>x \<in> set rows. f x < n)"

lemma below_append [simp]: "below n f (rows @ [x]) \<longleftrightarrow> below n f rows \<and> f x < n"
  by (auto simp: below_def)

lemma below_filter [intro]: "below n f rows \<Longrightarrow> below n f (filter P rows)"
  by (simp add: below_def)

lemma below_next [intro]: "below n f rows \<Longrightarrow> below (n + 1) f rows"
  by (force simp: below_def)

lemma below_image: "below n f rows \<longleftrightarrow> (\<forall>i \<in> f ` set rows. i < n)"
  by (simp add: below_def)

lemma below_cong: "map f xs = map f ys \<Longrightarrow> below n f xs = below n f ys"
  unfolding below_image by (drule map_eq_image) simp

lemma below_fresh: "below n f rows \<Longrightarrow> n \<notin> f ` set rows"
  by (auto simp: below_def)

definition accounts_ok :: "Account list \<Rightarrow> bool" where
  "accounts_ok us \<longleftrightarrow> keyed User_ID us \<and> keyed User_Username us \<and> keyed User_Email us"

definition api_ok :: "Api \<Rightarrow> bool" where
  "api_ok d \<longleftrightarrow>
     accounts_ok (a_user d) \<and> below (a_next d) User_ID (a_user d) \<and>
     keyed Session_ID (a_session d) \<and> below (a_next d) Session_ID (a_session d) \<and>
     (a_sessionFK d \<longrightarrow> refersTo Session_UserID (a_session d) (a_user d)) \<and>
     keyed Totp_UserID (a_totp d) \<and> refersTo Totp_UserID (a_totp d) (a_user d) \<and>
     keyed Token_ID (a_token d) \<and> refersTo Token_UserID (a_token d) (a_user d) \<and>
     keyed memberKey (a_projectUser d) \<and> refersTo PU_UserID (a_projectUser d) (a_user d) \<and>
     keyed identityKey (a_identity d) \<and> refersTo Ident_UserID (a_identity d) (a_user d)"

lemma syncPool_frame [simp]:
  "a_user (syncPool d) = a_user d" "a_totp (syncPool d) = a_totp d" "a_session (syncPool d) = a_session d"
  "a_token (syncPool d) = a_token d" "a_projectUser (syncPool d) = a_projectUser d"
  "a_role (syncPool d) = a_role d" "a_templateRole (syncPool d) = a_templateRole d"
  "a_identity (syncPool d) = a_identity d" "a_next (syncPool d) = a_next d" "a_faults (syncPool d) = a_faults d"
  "a_sessionFK (syncPool d) = a_sessionFK d"
  by (simp_all add: syncPool_def Let_def)

lemma api_ok_sync [simp]: "api_ok (syncPool d) = api_ok d"
  by (simp add: api_ok_def)

lemma api_ok_pool [simp]: "api_ok (inPool d w) = api_ok d" "api_ok (d\<lparr>a_pool := w\<rparr>) = api_ok d"
  by (simp_all add: api_ok_def inPool_def)

named_theorems keeps_ok

lemma change_keeps: "change q f d = Inr d' \<Longrightarrow> api_ok (f d) \<Longrightarrow> api_ok d'"
  by (auto simp: change_def split: if_splits)

lemma changeUsers_keeps: "changeUsers q f d = Inr d' \<Longrightarrow> api_ok (f d) \<Longrightarrow> api_ok d'"
  unfolding changeUsers_def by (auto intro: change_keeps)

subsection \<open>Accounts\<close>

lemma ok_insertUser [keeps_ok]:
  assumes "insertUser u d = (res, d')" and ok: "api_ok d"
  shows "api_ok d'"
proof (cases "a_faults d S_CreateUser \<or> (\<exists>v \<in> set (a_user d). sameNames u v)")
  case False
  with assms(1) have d': "d' = syncPool (d\<lparr>a_user := a_user d @ [u\<lparr>User_ID := a_next d, User_Totp := None\<rparr>],
      a_next := a_next d + 1\<rparr>)" by (simp add: insertUser_def Let_def)
  have "User_Username u \<notin> User_Username ` set (a_user d)" "User_Email u \<notin> User_Email ` set (a_user d)"
    using False by (auto simp: sameNames_def)
  with ok show ?thesis unfolding d' api_ok_sync
    by (auto simp: api_ok_def accounts_ok_def refersTo_more dest: below_fresh)
qed (use assms in \<open>simp add: insertUser_def\<close>)

lemma ok_create [keeps_ok]:
  "q_CreateUserWithoutPassword u d = (res, d') \<Longrightarrow> api_ok d \<Longrightarrow> api_ok d'"
  "q_CreateUser hash v d = (res, d') \<Longrightarrow> api_ok d \<Longrightarrow> api_ok d'"
  by (auto simp: q_CreateUserWithoutPassword_def q_CreateUser_def dest: ok_insertUser
      split: option.splits sum.splits)

lemma ok_DeleteUser [keeps_ok]:
  assumes "q_DeleteUser i d = Inr d'" and "api_ok d"
  shows "api_ok d'"
  using assms(1) unfolding q_DeleteUser_def
  by (rule changeUsers_keeps)
     (use assms(2) in \<open>auto simp: api_ok_def accounts_ok_def intro: refersTo_deleted\<close>)

lemma api_ok_users:
  assumes ok: "api_ok d" and i: "map User_ID us = map User_ID (a_user d)"
    and "keyed User_Username us" and "keyed User_Email us"
  shows "api_ok (d\<lparr>a_user := us\<rparr>)"
  using assms by (simp add: api_ok_def accounts_ok_def keyed_def refersTo_cong [OF i] below_cong [OF i])

lemma users_updated:
  assumes ok: "api_ok d" and "\<forall>row \<in> set (a_user d). User_ID row \<noteq> User_ID v \<longrightarrow> \<not> sameNames v row"
    and "\<And>row. User_ID (f row) = User_ID row" and "\<And>row. User_Username (f row) = User_Username v"
    and "\<And>row. User_Email (f row) = User_Email v"
  shows "api_ok (d\<lparr>a_user := map (\<lambda>row. if User_ID row = User_ID v then f row else row) (a_user d)\<rparr>)"
proof (rule api_ok_users [OF ok map_changed])
  have k: "keyed User_ID (a_user d)" "keyed User_Username (a_user d)" "keyed User_Email (a_user d)"
    using ok by (simp_all add: api_ok_def accounts_ok_def)
  show "keyed User_Username (map (\<lambda>row. if User_ID row = User_ID v then f row else row) (a_user d))"
    using k(1,2) by (rule keyed_renamed) (use assms(2,4) in \<open>auto simp: sameNames_def\<close>)
  show "keyed User_Email (map (\<lambda>row. if User_ID row = User_ID v then f row else row) (a_user d))"
    using k(1,3) by (rule keyed_renamed) (use assms(2,5) in \<open>auto simp: sameNames_def\<close>)
qed (rule assms(3))

lemma truncate_ID [simp]: "User_ID (Account.truncate u) = User_ID u"
  by (simp add: Account.truncate_def)

text \<open>What \<^const>\<open>q_UpdateUser\<close> writes into the row.\<close>

lemma q_UpdateUser_written:
  assumes "q_UpdateUser hash u d = Inr d'"
  obtains f where "\<forall>row \<in> set (a_user d). User_ID row \<noteq> User_ID u \<longrightarrow> \<not> sameNames (Account.truncate u) row"
    "changeUsers S_UpdateUser (\<lambda>d. d\<lparr>a_user :=
      map (\<lambda>row. if User_ID row = User_ID u then f row else row) (a_user d)\<rparr>) d = Inr d'"
    "f = writeUser (Account.truncate u) \<or> (\<exists>h. f = (\<lambda>row. (writeUser (Account.truncate u) row)\<lparr>User_Password := h\<rparr>))"
proof (cases "User_Pwd u = []")
  case True
  with assms show ?thesis
    by (intro that [of "writeUser (Account.truncate u)"])
       (auto simp: q_UpdateUser_def Let_def split: if_splits)
next
  case False
  then obtain h where "hash (User_Pwd u) = Inr h" using assms by (auto simp: q_UpdateUser_def Let_def split: sum.splits)
  with False assms show ?thesis
    by (intro that [of "\<lambda>row. (writeUser (Account.truncate u) row)\<lparr>User_Password := h\<rparr>"])
       (auto simp: q_UpdateUser_def Let_def split: if_splits)
qed

lemma ok_UpdateUser [keeps_ok]:
  assumes "q_UpdateUser hash u d = Inr d'" and ok: "api_ok d"
  shows "api_ok d'"
proof -
  obtain f where n: "\<forall>row \<in> set (a_user d). User_ID row \<noteq> User_ID u \<longrightarrow> \<not> sameNames (Account.truncate u) row"
    and c: "changeUsers S_UpdateUser (\<lambda>d. d\<lparr>a_user :=
      map (\<lambda>row. if User_ID row = User_ID u then f row else row) (a_user d)\<rparr>) d = Inr d'"
    and f: "f = writeUser (Account.truncate u) \<or> (\<exists>h. f = (\<lambda>row. (writeUser (Account.truncate u) row)\<lparr>User_Password := h\<rparr>))"
    using assms(1) by (rule q_UpdateUser_written)
  from c show ?thesis
    by (rule changeUsers_keeps)
       (rule users_updated [OF ok, of "Account.truncate u" f, unfolded truncate_ID]; use f n in \<open>auto simp: writeUser_def\<close>)
qed

lemma ok_SetUserPassword [keeps_ok]:
  assumes "q_SetUserPassword hash i p d = Inr d'" and ok: "api_ok d"
  shows "api_ok d'"
proof -
  obtain h where c: "change S_SetUserPassword (\<lambda>d. d\<lparr>a_user :=
      map (\<lambda>row. if User_ID row = i then row\<lparr>User_Password := h\<rparr> else row) (a_user d)\<rparr>) d = Inr d'"
    using assms(1) by (auto simp: q_SetUserPassword_def split: sum.splits)
  from c show ?thesis
  proof (rule change_keeps, intro api_ok_users [OF ok map_changed] keyed_changed)
    show "keyed User_Username (a_user d)" "keyed User_Email (a_user d)"
      using ok by (simp_all add: api_ok_def accounts_ok_def)
  qed simp_all
qed

subsection \<open>The other tables\<close>

lemma ok_AddTotpVerification [keeps_ok]:
  assumes "q_AddTotpVerification i url h d = (res, d')" and ok: "api_ok d"
  shows "api_ok d'"
proof (cases "d' = d")
  case False
  then have n: "i \<notin> Totp_UserID ` set (a_totp d)" "i \<in> User_ID ` set (a_user d)"
    using assms(1) by (auto simp: q_AddTotpVerification_def Let_def split: if_splits)
  from False obtain t where "Totp_UserID t = i" "d' = d\<lparr>a_totp := a_totp d @ [t], a_next := a_next d + 1\<rparr>"
    using assms(1) unfolding q_AddTotpVerification_def Let_def by (metis Pair_inject UserTotp.select_convs(2))
  with n ok show ?thesis by (auto simp: api_ok_def)
qed (use ok in simp)

lemma ok_DeleteTotpVerification [keeps_ok]:
  "q_DeleteTotpVerification i j d = Inr d' \<Longrightarrow> api_ok d \<Longrightarrow> api_ok d'"
  unfolding q_DeleteTotpVerification_def by (erule change_keeps) (auto simp: api_ok_def)

lemma ok_CreateSession [keeps_ok]:
  assumes "q_CreateSession s d = (res, d')" and "api_ok d"
  shows "api_ok d'"
proof -
  have known: "list_ex (\<lambda>u. User_ID u = i) us \<Longrightarrow> i \<in> User_ID ` set us" for i us
    by (auto simp: list_ex_iff)
  show ?thesis
    using assms unfolding q_CreateSession_def
    by (auto simp: api_ok_def Let_def dest: below_fresh known split: if_splits)
qed

lemma ok_updateSession:
  assumes "updateSession q f i j d = Inr d'" and "api_ok d" and "\<And>s. Session_ID (f s) = Session_ID s"
    and "\<And>s. Session_UserID (f s) = Session_UserID s"
  shows "api_ok d'"
proof -
  have "api_ok (d\<lparr>a_session := map (\<lambda>s. if Session_ID s = j \<and> Session_UserID s = i then f s else s) (a_session d)\<rparr>)"
    using assms(2) below_cong [OF map_changed, of _ Session_ID f, OF assms(3)] assms(3)
    by (auto simp: api_ok_def simp del: map_map intro!: keyed_changed refersTo_changed assms(4))
  then show ?thesis using assms(1) unfolding updateSession_def by (blast intro: change_keeps)
qed

lemma ok_sessions [keeps_ok]:
  "q_ExpireSession i j d = Inr d' \<Longrightarrow> api_ok d \<Longrightarrow> api_ok d'"
  "q_VerifySession i j d = Inr d' \<Longrightarrow> api_ok d \<Longrightarrow> api_ok d'"
  "q_TouchSession i j d = Inr d' \<Longrightarrow> api_ok d \<Longrightarrow> api_ok d'"
  unfolding q_ExpireSession_def q_VerifySession_def q_TouchSession_def by (erule ok_updateSession; simp)+

lemma ok_tokens [keeps_ok]:
  "q_CreateAPIToken t d = (res, d') \<Longrightarrow> api_ok d \<Longrightarrow> api_ok d'"
  "q_DeleteAPIToken i s d = Inr d' \<Longrightarrow> api_ok d \<Longrightarrow> api_ok d'"
  unfolding q_CreateAPIToken_def q_DeleteAPIToken_def change_def
  by (auto simp: api_ok_def Let_def split: if_splits option.splits)

lemma ok_CreateProjectUser [keeps_ok]:
  assumes "q_CreateProjectUser p d = Inr d'" and "api_ok d"
  shows "api_ok d'"
proof -
  have n: "memberKey p \<notin> memberKey ` set (a_projectUser d)" "PU_UserID p \<in> User_ID ` set (a_user d)"
    and c: "changeUsers S_CreateProjectUser (\<lambda>d. d\<lparr>a_projectUser := a_projectUser d @ [p]\<rparr>) d = Inr d'"
    using assms(1) by (auto simp: q_CreateProjectUser_def memberKey_def split: if_splits)
  from c show ?thesis by (rule changeUsers_keeps) (use assms(2) n in \<open>simp add: api_ok_def\<close>)
qed

lemma ok_DeleteProjectUser [keeps_ok]: "q_DeleteProjectUser i j d = Inr d' \<Longrightarrow> api_ok d \<Longrightarrow> api_ok d'"
  unfolding q_DeleteProjectUser_def by (erule changeUsers_keeps) (auto simp: api_ok_def)

lemma ok_UpdateProjectUser [keeps_ok]: "q_UpdateProjectUser p d = Inr d' \<Longrightarrow> api_ok d \<Longrightarrow> api_ok d'"
  unfolding q_UpdateProjectUser_def
  by (erule changeUsers_keeps)
     (auto simp: api_ok_def memberKey_def simp del: map_map intro!: keyed_changed refersTo_changed)

lemma ok_CreateExternalIdentity [keeps_ok]:
  assumes "q_CreateExternalIdentity i0 d = Inr d'" and "api_ok d"
  shows "api_ok d'"
proof -
  define i where "i = (if Ident_Type i0 = [] then i0\<lparr>Ident_Type := IdentityTypeOidc\<rparr> else i0)"
  have n: "identityKey i \<notin> identityKey ` set (a_identity d)" "Ident_UserID i \<in> User_ID ` set (a_user d)"
    and c: "change S_CreateIdentity (\<lambda>d. d\<lparr>a_identity := a_identity d @ [i]\<rparr>) d = Inr d'"
    using assms(1) unfolding q_CreateExternalIdentity_def i_def [symmetric] Let_def
    by (auto simp: identityKey_def split: if_splits)
  from c show ?thesis by (rule change_keeps) (use assms(2) n in \<open>simp add: api_ok_def\<close>)
qed

lemma ok_DeleteExternalIdentity [keeps_ok]: "q_DeleteExternalIdentity j t p d = Inr d' \<Longrightarrow> api_ok d \<Longrightarrow> api_ok d'"
  unfolding q_DeleteExternalIdentity_def by (erule change_keeps) (auto simp: api_ok_def)

lemma ok_UpdateProject [keeps_ok]: "q_UpdateProject p d = Inr d' \<Longrightarrow> api_ok d \<Longrightarrow> api_ok d'"
  unfolding q_UpdateProject_def by (erule change_keeps) simp

lemma ok_DeleteTaskWithOutputs [keeps_ok]: "q_DeleteTaskWithOutputs i j d = (res, d') \<Longrightarrow> api_ok d \<Longrightarrow> api_ok d'"
  unfolding q_DeleteTaskWithOutputs_def Let_def by (auto split: if_splits sum.splits)

lemma ok_CreateEvent [simp]: "api_ok (q_CreateEvent i j k desc d) = api_ok d"
  unfolding q_CreateEvent_def by (auto split: sum.splits)

end
