(* ===== verification/Api_Requests.thy ===== *)
theory Api_Requests
  imports Api_Tables Api_Chains
begin

text \<open>
  What the queries keep, every request keeps: an interface whose clients show that single queries keep an
  invariant, and get it for the middlewares, the handlers and the server. It comes in two levels, since the
  queries that create accounts, change them or let sessions in are called by six handlers only.
\<close>

definition stable :: "(Api \<Rightarrow> bool) \<Rightarrow> handler \<Rightarrow> bool" where
  "stable I h \<longleftrightarrow> (\<forall>e r c d resp d'. I d \<longrightarrow> h e r c d = Some (resp, d') \<longrightarrow> I d')"

lemma stableI: "(\<And>e r c d resp d'. I d \<Longrightarrow> h e r c d = Some (resp, d') \<Longrightarrow> I d') \<Longrightarrow> stable I h"
  by (simp add: stable_def)

lemma stableD: "stable I h \<Longrightarrow> h e r c d = Some (resp, d') \<Longrightarrow> I d \<Longrightarrow> I d'"
  by (auto simp: stable_def)

lemma map_sum_Inr [simp]: "map_sum f id x = Inr y \<longleftrightarrow> x = Inr y"
  by (cases x) auto

named_theorems handler_defs

lemmas [handler_defs] =
  noContent_def withProject_def withTask_def ofSameProject_def poolResult_def writeTasksList_def removeUser_def
  withUser_def onTarget_def orStatus_def Let_def GetLastTasks_def EventLog_def

subsection \<open>Queries that leave accounts as they are and let no session in\<close>

locale plain_queries =
  fixes I :: "Api \<Rightarrow> bool"
  assumes kept_pool [simp]: "I (d\<lparr>a_pool := w\<rparr>) = I d"
    and kept_SetUserPassword: "q_SetUserPassword h i p d = Inr d' \<Longrightarrow> I d \<Longrightarrow> I d'"
    and kept_DeleteUser: "q_DeleteUser i d = Inr d' \<Longrightarrow> I d \<Longrightarrow> I d'"
    and kept_AddTotp: "q_AddTotpVerification i u rh d = (t, d') \<Longrightarrow> I d \<Longrightarrow> I d'"
    and kept_DeleteTotp: "q_DeleteTotpVerification i j d = Inr d' \<Longrightarrow> I d \<Longrightarrow> I d'"
    and kept_ExpireSession: "q_ExpireSession i j d = Inr d' \<Longrightarrow> I d \<Longrightarrow> I d'"
    and kept_TouchSession: "q_TouchSession i j d = Inr d' \<Longrightarrow> I d \<Longrightarrow> I d'"
    and kept_CreateAPIToken: "q_CreateAPIToken tok d = (t', d') \<Longrightarrow> I d \<Longrightarrow> I d'"
    and kept_DeleteAPIToken: "q_DeleteAPIToken i s d = Inr d' \<Longrightarrow> I d \<Longrightarrow> I d'"
    and kept_CreateProjectUser: "q_CreateProjectUser pu d = Inr d' \<Longrightarrow> I d \<Longrightarrow> I d'"
    and kept_UpdateProjectUser: "q_UpdateProjectUser pu d = Inr d' \<Longrightarrow> I d \<Longrightarrow> I d'"
    and kept_DeleteProjectUser: "q_DeleteProjectUser i j d = Inr d' \<Longrightarrow> I d \<Longrightarrow> I d'"
    and kept_CreateIdentity: "q_CreateExternalIdentity idn d = Inr d' \<Longrightarrow> I d \<Longrightarrow> I d'"
    and kept_DeleteIdentity: "q_DeleteExternalIdentity i s s' d = Inr d' \<Longrightarrow> I d \<Longrightarrow> I d'"
begin

lemmas kept_plain =
  kept_SetUserPassword kept_DeleteUser kept_AddTotp kept_DeleteTotp kept_ExpireSession kept_TouchSession
  kept_CreateAPIToken kept_DeleteAPIToken kept_CreateProjectUser kept_UpdateProjectUser kept_DeleteProjectUser
  kept_CreateIdentity kept_DeleteIdentity

lemma kept_inPool [simp]: "I (inPool d w) = I d"
  by (simp add: inPool_def)

lemma kept_CreateEvent [simp]: "I (q_CreateEvent i j k s d) = I d"
  by (simp add: q_CreateEvent_def split: sum.split)

lemma kept_UpdateProject: "q_UpdateProject p d = Inr d' \<Longrightarrow> I d \<Longrightarrow> I d'"
  by (auto simp: q_UpdateProject_def change_def split: if_splits)

lemma kept_DeleteTask: "q_DeleteTaskWithOutputs i j d = (x, d') \<Longrightarrow> I d \<Longrightarrow> I d'"
  unfolding q_DeleteTaskWithOutputs_def Let_def by (auto split: if_splits sum.splits)

lemma kept_getSession:
  assumes "getSession e r d = (s, d')" and "I d" shows "I d'"
  using assms unfolding getSession_def
  by (auto split: option.splits sum.splits prod.splits if_splits dest: kept_ExpireSession)

lemma kept_authentication:
  assumes "authenticationHandler e r c d = Some (ans, d')" and "I d" shows "I d'"
  using assms unfolding authenticationHandler_def loadUser_def
  by (auto split: option.splits sum.splits prod.splits if_splits dest: kept_getSession kept_TouchSession)

lemma kept_middleware: "middleware e m r c d = Some (ans, d') \<Longrightarrow> I d \<Longrightarrow> I d'"
  by (cases "m = M_Authentication"; cases ans)
     (auto dest: kept_authentication middleware_frame(1) middleware_answer_frame)

lemma kept_chain: "runChain e r ms c d = Some (ans, d') \<Longrightarrow> I d \<Longrightarrow> I d'"
  by (induction ms arbitrary: c d) (auto split: option.splits prod.splits answer.splits dest: kept_middleware)

lemma kept_reach: "reach e path r d = Some (res, d') \<Longrightarrow> I d \<Longrightarrow> I d'"
  by (auto simp: reach_def Let_def split: option.splits prod.splits answer.splits dest: kept_chain)

subsection \<open>The handlers that only use these queries\<close>

lemma stable_projects:
  "stable I GetProjects" "stable I handle_GetProject" "stable I GetUserRole" "stable I UpdateProject"
  by (intro stableI; auto simp: GetProjects_def handle_GetProject_def GetUserRole_def UpdateProject_def handler_defs
      split: step_splits dest: kept_UpdateProject)+

lemma stable_members:
  "stable I members_GetUsers" "stable I members_AddUser" "stable I members_UpdateUser"
  "stable I RemoveUser" "stable I LeftProject"
  by (intro stableI; auto simp: members_GetUsers_def members_AddUser_def members_UpdateUser_def RemoveUser_def
      LeftProject_def handler_defs split: step_splits dest: kept_plain)+

lemma stable_tasks:
  "stable I handle_AddTask" "stable I handle_StopTask" "stable I handle_ConfirmTask" "stable I handle_RejectTask"
  "stable I StopAllTasks" "stable I GetAllTasks" "stable I GetLastTasks"
  by (intro stableI; auto simp: handle_AddTask_def handle_StopTask_def handle_ConfirmTask_def handle_RejectTask_def
      StopAllTasks_def GetAllTasks_def handler_defs split: step_splits)+

lemma stable_removal: "stable I RemoveTask" "stable I DeleteTask"
  by (intro stableI; auto simp: RemoveTask_def DeleteTask_def handler_defs split: step_splits dest!: kept_DeleteTask)+

lemma stable_accounts:
  "stable I users_GetUsers" "stable I DeleteUser" "stable I UpdateUserPassword" "stable I user_GetUser"
  "stable I GetUserIdentities" "stable I DeleteUserIdentity"
  by (intro stableI; auto simp: users_GetUsers_def DeleteUser_def UpdateUserPassword_def user_GetUser_def
      GetUserIdentities_def DeleteUserIdentity_def handler_defs split: step_splits dest: kept_plain)+

lemma stable_factors: "stable I EnableTotp" "stable I DisableTotp" "stable I TotpQr"
  by (intro stableI; auto simp: EnableTotp_def DisableTotp_def TotpQr_def handler_defs split: step_splits
      dest: kept_plain)+

lemma stable_tokens: "stable I getAPITokens" "stable I createAPIToken" "stable I deleteAPIToken"
  by (intro stableI; auto simp: getAPITokens_def createAPIToken_def deleteAPIToken_def handler_defs split: step_splits
      dest: kept_plain)+

lemma kept_link: "linkExternalIdentity i t p u d = Inr d' \<Longrightarrow> I d \<Longrightarrow> I d'"
  by (auto simp: linkExternalIdentity_def split: step_splits go_error.splits dest: kept_plain)

lemma stable_ldapLink: "stable I linkLdapIdentity"
  by (intro stableI; auto simp: linkLdapIdentity_def handler_defs split: step_splits linkError.splits
      dest: kept_link)

lemma stable_sessions: "stable I logout" "stable I oidcLogin"
  by (intro stableI; auto simp: logout_def oidcLogin_def Let_def split: step_splits dest: kept_plain kept_getSession)+

lemma stable_plain_handlers:
  "list_all (\<lambda>(name, h). name \<in> {''login'', ''verifySession'', ''recoverySession'', ''oidcRedirect'',
     ''usersController.AddUser'', ''usersController.UpdateUser''} \<or> stable I h) handlers"
  by (simp add: handlers_def stable_projects stable_members stable_tasks stable_removal stable_accounts stable_factors
      stable_tokens stable_ldapLink stable_sessions)

end

subsection \<open>All queries\<close>

locale all_queries = plain_queries +
  assumes kept_CreateUserWithoutPassword: "q_CreateUserWithoutPassword u d = (res, d') \<Longrightarrow> I d \<Longrightarrow> I d'"
    and kept_CreateUser: "q_CreateUser h v d = (res, d') \<Longrightarrow> I d \<Longrightarrow> I d'"
    and kept_UpdateUser: "q_UpdateUser h v d = Inr d' \<Longrightarrow> I d \<Longrightarrow> I d'"
    and kept_CreateSession: "q_CreateSession ses d = (sres, d') \<Longrightarrow> I d \<Longrightarrow> I d'"
    and kept_VerifySession: "q_VerifySession i j d = Inr d' \<Longrightarrow> I d \<Longrightarrow> I d'"
begin

lemma kept_sync: "syncExternalUserAttrs e user p d = (res, d') \<Longrightarrow> I d \<Longrightarrow> I d'"
  by (auto simp: syncExternalUserAttrs_def Let_def split: if_splits sum.splits dest: kept_UpdateUser)

lemma kept_createExternalUser: "createExternalUser e p d = (res, d') \<Longrightarrow> I d \<Longrightarrow> I d'"
  by (auto simp: createExternalUser_def split: prod.splits sum.splits
      dest: kept_CreateUserWithoutPassword kept_CreateIdentity kept_DeleteUser)

lemma kept_resolve: "resolveExternalUser e p d = (res, d') \<Longrightarrow> I d \<Longrightarrow> I d'"
  unfolding resolveExternalUser_def
  by (auto split: if_splits sum.splits go_error.splits
      dest: kept_sync kept_createExternalUser kept_CreateIdentity)

lemma kept_createSession: "createSession e user d = (resp, d') \<Longrightarrow> I d \<Longrightarrow> I d'"
  by (auto simp: createSession_def Let_def split: prod.splits sum.splits if_splits dest: kept_CreateSession)

lemma kept_authenticate: "authenticate e a p m pr d = (res, d') \<Longrightarrow> I d \<Longrightarrow> I d'"
  unfolding authenticate_def loginByLDAP_def Let_def
  by (auto split: if_splits sum.splits option.splits prod.splits dest: kept_resolve)

lemma stable_login: "stable I login"
  by (intro stableI; auto simp: login_def split: step_splits go_error.splits
      dest: kept_authenticate kept_createSession)

lemma stable_second_step: "stable I verifySession" "stable I recoverySession"
  by (intro stableI; auto simp: verifySession_def recoverySession_def split: step_splits SessionVerificationMethod.splits
      dest: kept_getSession kept_VerifySession kept_DeleteTotp)+

lemma stable_oidc: "stable I oidcRedirect"
proof -
  have "I d'" if "linkRedirect e r pid cl d = Some (resp, d')" "I d" for e r pid cl d resp d'
    using that by (auto simp: linkRedirect_def split: step_splits linkError.splits dest: kept_getSession kept_link)
  moreover have "I d'" if "signInRedirect e r pid cfg st cl d = Some (resp, d')" "I d" for e r pid cfg st cl d resp d'
    using that by (auto simp: signInRedirect_def Let_def split: step_splits dest: kept_resolve kept_createSession)
  ultimately show ?thesis
    by (intro stableI; auto simp: oidcRedirect_def Let_def split: step_splits)
qed

lemma stable_account_writers: "stable I users_AddUser" "stable I users_UpdateUser"
  by (intro stableI; auto simp: users_AddUser_def users_UpdateUser_def handler_defs split: step_splits
      dest: kept_CreateUserWithoutPassword kept_CreateUser kept_UpdateUser)+

lemma stable_handlers:
  assumes "(name, h) \<in> set handlers"
  shows "stable I h"
proof -
  have "list_all (\<lambda>(name, h). stable I h) handlers"
    by (simp add: handlers_def stable_projects stable_members stable_tasks stable_removal stable_accounts stable_factors
        stable_tokens stable_ldapLink stable_sessions stable_login stable_second_step stable_oidc stable_account_writers)
  then show ?thesis using assms by (auto simp: list_all_iff)
qed

end

subsection \<open>Requests of the server\<close>

text \<open>
  \<open>outside\<close> gives no answer in place of the handlers that are not modelled: a statement about the answers of
  \<open>ServeHTTP outside\<close> is one about the requests that modelled code answers.
\<close>

definition outside :: "string \<Rightarrow> handler" where
  "outside name e r c d = None"

lemma ServeHTTP_cases:
  assumes "ServeHTTP outside e path r d = Some (resp, d')"
  obtains (refused) res where "reach e path r d = Some (res, d')" "\<And>name r1 c. res \<noteq> Reached name r1 c"
    | (handled) name h r1 c d1 resp1 where "reach e path r d = Some (Reached name r1 c, d1)"
        "(name, h) \<in> set handlers" "h e r1 c d1 = Some (resp1, d')"
  using assms unfolding ServeHTTP_def handle_def outside_def
  by (auto split: option.splits prod.splits reached.splits if_splits dest!: map_of_SomeD)

context all_queries
begin

lemma kept_request:
  assumes "ServeHTTP outside e path r d = Some (resp, d')" and "I d"
  shows "I d'"
  using assms(1)
proof (cases rule: ServeHTTP_cases)
  case (refused res)
  then show ?thesis using kept_reach assms(2) by blast
next
  case (handled name h r1 c d1 resp1)
  then show ?thesis using stableD [OF stable_handlers] kept_reach assms(2) by blast
qed

end

end
