(* ===== verification/Api_Sample.thy ===== *)
theory Api_Sample
  imports Api_Requests Api_Paths Sample
begin

text \<open>
  A small installation behind the API for users: an administrator, two members of the sample project (the second
  with a second factor), their sessions and a token. The witnesses of the properties send requests to it.
\<close>

definition sampleAccount :: "ident \<Rightarrow> string \<Rightarrow> bool \<Rightarrow> Account" where
  "sampleAccount i name admin =
     zeroAccount\<lparr>User_ID := i, User_Username := name, User_Name := name, User_Email := name @ ''@x'',
       User_Password := ''secret'', User_Admin := admin\<rparr>"

definition sampleSession :: "ident \<Rightarrow> ident \<Rightarrow> SessionVerificationMethod \<Rightarrow> Session" where
  "sampleSession i userID m =
     \<lparr>Session_ID = i, Session_UserID = userID, Session_LastActive = 1000, Session_Expired = False,
      Session_VerificationMethod = m, Session_Verified = False\<rparr>"

definition sampleTotp :: UserTotp where
  "sampleTotp = \<lparr>Totp_ID = 7, Totp_UserID = 3, Totp_URL = ''otpauth'', Totp_RecoveryHash = ''hash'',
     Totp_RecoveryCode = []\<rparr>"

definition sampleKeys :: KeyDb where
  "sampleKeys = \<lparr>tbl_access_key = [], tbl_secret_storage = [], tbl_project_id = [1], tbl_task_row = [],
     next_key_id = 1, key_fault = False, key_collation = id, key_rank = (\<lambda>_ _. 0)\<rparr>"

definition sampleApi :: Api where
  "sampleApi =
     \<lparr>a_user = [sampleAccount 1 ''ann'' True, sampleAccount 2 ''bob'' False, sampleAccount 3 ''eve'' False],
      a_totp = [sampleTotp],
      a_session = [sampleSession 4 1 SessionVerificationNone, sampleSession 5 2 SessionVerificationNone,
        sampleSession 6 3 SessionVerificationTotp],
      a_sessionFK = True,
      a_token = [], a_projectUser = [\<lparr>PU_ProjectID = 1, PU_UserID = 2, PU_Role = ''task_runner''\<rparr>],
      a_role = [], a_templateRole = [], a_identity = [], a_next = 9, a_faults = (\<lambda>_. False), a_pool = emptyWorld,
      a_keys = sampleKeys, a_object = []\<rparr>"

text \<open>The cookie is the name of the user; a password is its own hash.\<close>

definition sampleCookie :: "string \<Rightarrow> (ident option \<times> ident option) option" where
  "sampleCookie s =
     (if s = ''ann'' then Some (Some 1, Some 4) else if s = ''bob'' then Some (Some 2, Some 5)
      else if s = ''eve'' then Some (Some 3, Some 6) else None)"

definition sampleLdap :: LdapProvider where
  "sampleLdap = \<lparr>Ldap_Server = [], Ldap_NeedTLS = False, Ldap_TLSSkipVerify = False, Ldap_BindDN = [],
     Ldap_BindPassword = [], Ldap_SearchDN = [], Ldap_SearchFilter = [], Ldap_Mappings = None, Ldap_Order = 0\<rparr>"

definition sampleApiEnv :: ApiEnv where
  "sampleApiEnv =
     \<lparr>e_pool = sampleEnv, e_DecodeCookie = sampleCookie, e_EncodeCookie = (\<lambda>_ _. Inr ''cookie''),
      e_UrlHost = (\<lambda>s. Some s), e_WebHost = None, e_MetricsEnabled = False, e_MetricsUsername = [],
      e_MetricsPassword = [], e_BindTask = (\<lambda>_. None),
      e_BindUser = (\<lambda>_. Some (Account.extend (sampleAccount 0 ''dan'' True) (UserWithPwd.fields ''pwd''))),
      e_BindPassword = (\<lambda>_. None), e_BindMember = (\<lambda>_. None), e_BindRole = (\<lambda>_. None),
      e_BindForce = (\<lambda>_. Some False), e_BindProject = (\<lambda>_. None), e_BindText = Some,
      e_BindToken = (\<lambda>_. None), e_BindLogin = (\<lambda>s. Some (s, ''secret'', ''password'', [])),
      e_BindLdapLink = (\<lambda>_. None), e_HashPassword = Inr, e_ComparePassword = (\<lambda>h p. h = p),
      e_TotpEnabled = True, e_TotpAllowRecovery = False, e_TotpKey = Some,
      e_TotpValid = (\<lambda>code _ _. code = ''123456''), e_TotpGenerate = (\<lambda>_. Inr ''otpauth''),
      e_RecoveryCode = Inr (''code'', ''hash''), e_RandomToken = ''token'', e_RandomName = ''name'',
      e_CanAddProUser = Inr True, e_NonAdminCanCreateProject = False, e_GetWorkflow = (\<lambda>_ _. None),
      e_GetWorkflowRun = (\<lambda>_ _ _. None), e_HasActiveSubscription = False, e_TotpImage = (\<lambda>_. None),
      e_VerifyRecoveryCode = (\<lambda>_ _. False), e_PasswordLoginDisable = False, e_EmailMatching = ''never'',
      e_LdapEnable = False, e_LdapLegacy = sampleLdap, e_LdapProviders = [], e_ldap_Dial = (\<lambda>_ _ _. None),
      e_ldap_Bind = (\<lambda>_ _ _ _. None), e_ldap_Search = (\<lambda>_ _ _ _. Inr []), e_EscapeFilter = id,
      e_Sprintf = (\<lambda>f _. f), e_Template = (\<lambda>_ _. None), e_OidcProviders = [], e_oidc_Init = (\<lambda>_ _. None),
      e_oidc_Exchange = (\<lambda>_ _. Inr None), e_oidc_Verify = (\<lambda>_ _. Inl ErrNotFound),
      e_oidc_UserInfo = (\<lambda>_. Inl ErrNotFound), e_DecodeState = (\<lambda>_. None), e_EncodeState = (\<lambda>_. []),
      e_AuthCodeURL = (\<lambda>_ _. []), e_WebHostURL = [], e_JoinPath = (\<lambda>_ _. Inr [])\<rparr>"

text \<open>A request with a cookie and a body, sent from a page of the server itself.\<close>

definition sampleRequest :: "string \<Rightarrow> string \<Rightarrow> string \<Rightarrow> Request" where
  "sampleRequest method cookie body =
     \<lparr>rq_Method = method, rq_Host = ''host'', rq_URLPath = [], rq_Authorization = [], rq_Origin = ''host'',
      rq_Referer = [], rq_Cookie = Some cookie, rq_OauthCookie = None, rq_Vars = [], rq_Query = (\<lambda>_. []),
      rq_Body = body, rq_RunnerToken = [], rq_BasicAuth = None, rq_XHR = True\<rparr>"

lemmas api_sample_defs =
  sampleApi_def sampleApiEnv_def sampleRequest_def sampleAccount_def sampleSession_def sampleTotp_def
  sampleKeys_def sampleCookie_def sampleLdap_def zeroAccount_def

lemma sample_api_ok: "api_ok sampleApi"
  by (simp add: api_ok_def accounts_ok_def keyed_def refersTo_def below_def api_sample_defs memberKey_def)

subsection \<open>Routes of the requests\<close>

lemma findRoute_append:
  "findRoute (xs @ ys) m path = (case findRoute xs m path of None \<Rightarrow> findRoute ys m path | Some x \<Rightarrow> Some x)"
  by (induction xs) (auto split: option.splits)

lemma findRoute_elsewhere:
  "list_all (elsewhere ss) rts \<Longrightarrow> splitPath path = [] # ''api'' # ''project'' # ss \<Longrightarrow> findRoute rts m path = None"
  by (induction rts) (auto simp: elsewhere_def)

lemma route_stop:
  "findRoute routeTable ''POST'' ''/api/project/1/tasks/1/stop'' =
     Some (route [''POST''] ''/api/project/{project_id}/tasks/{task_id}/stop'' projectTaskStop ''taskController.StopTask'',
       [(''project_id'', ''1''), (''task_id'', ''1'')])"
proof -
  have p: "splitPath ''/api/project/1/tasks/1/stop'' = [] # ''api'' # ''project'' # [''1'', ''tasks'', ''1'', ''stop'']"
    by (simp add: splitPath_def)
  show ?thesis
    unfolding routeTable_def findRoute_append
    by (simp add: findRoute_elsewhere [OF _ p] other_templates) (simp add: taskRoutes_def path_simps)
qed

lemma route_login:
  "findRoute routeTable ''POST'' ''/api/auth/login'' =
     Some (route [''GET'', ''POST''] ''/api/auth/login'' publicAPIRouter ''login'', [])"
  unfolding routeTable_def findRoute_append by (simp add: publicRoutes_def path_simps)

lemma route_verify:
  "findRoute routeTable ''POST'' ''/api/auth/verify'' =
     Some (route [''POST''] ''/api/auth/verify'' publicAPIRouter ''verifySession'', [])"
  unfolding routeTable_def findRoute_append by (simp add: publicRoutes_def path_simps)

lemma route_add_user:
  "findRoute routeTable ''POST'' ''/api/users'' =
     Some (route [''POST''] ''/api/users'' authenticatedAPI ''usersController.AddUser'', [])"
  unfolding routeTable_def findRoute_append by (simp add: publicRoutes_def accountRoutes_def path_simps)

lemma route_delete_task:
  "findRoute routeTable ''DELETE'' ''/api/tasks/1'' =
     Some (route [''DELETE''] ''/api/tasks/{task_id}'' tasksAPI ''tasks.DeleteTask'', [(''task_id'', ''1'')])"
  unfolding routeTable_def findRoute_append
  by (simp add: publicRoutes_def accountRoutes_def adminRoutes_def path_simps)

subsection \<open>What the requests do\<close>

text \<open>The chain of a route lets a request through, and what its handler answers; both can be evaluated.\<close>

definition passes ::
  "Middleware list \<Rightarrow> (string \<times> string) list \<Rightarrow> Request \<Rightarrow> (Ctx \<Rightarrow> bool) \<Rightarrow> bool" where
  "passes ms vars r P \<longleftrightarrow>
     (case runChain sampleApiEnv (r\<lparr>rq_Vars := vars\<rparr>) ms emptyCtx sampleApi of Some (Passed c, d1) \<Rightarrow> P c | _ \<Rightarrow> False)"

lemma passes_reach:
  assumes "findRoute routeTable (rq_Method r) path = Some (route m t ms name, vars)" and "passes ms vars r P"
  shows "\<exists>r1 c d1. reach sampleApiEnv path r sampleApi = Some (Reached name r1 c, d1) \<and> P c"
  using assms by (auto simp: passes_def reach_def route_def Let_def split: option.splits prod.splits answer.splits)

definition leaves :: "string \<Rightarrow> Middleware list \<Rightarrow> (string \<times> string) list \<Rightarrow> Request \<Rightarrow> (Api \<Rightarrow> bool) \<Rightarrow> bool" where
  "leaves name ms vars r P \<longleftrightarrow>
     (case runChain sampleApiEnv (r\<lparr>rq_Vars := vars\<rparr>) ms emptyCtx sampleApi of
        Some (Passed c, d1) \<Rightarrow>
          (case handle outside name sampleApiEnv (r\<lparr>rq_Vars := vars\<rparr>) c d1 of Some (resp, d2) \<Rightarrow> P d2 | None \<Rightarrow> False)
      | _ \<Rightarrow> False)"

lemma leaves_answer:
  assumes "findRoute routeTable (rq_Method r) path = Some (route m t ms name, vars)" and "leaves name ms vars r P"
  shows "\<exists>resp d'. ServeHTTP outside sampleApiEnv path r sampleApi = Some (resp, d') \<and> P d'"
  using assms
  by (auto simp: leaves_def ServeHTTP_def reach_def route_def Let_def split: option.splits prod.splits answer.splits)

definition stopRequest :: Request where
  "stopRequest = sampleRequest ''POST'' ''bob'' []"

lemma stop_reached:
  "\<exists>r1 c d1. reach sampleApiEnv ''/api/project/1/tasks/1/stop'' stopRequest sampleApi =
     Some (Reached ''taskController.StopTask'' r1 c, d1) \<and> cx_task c \<noteq> None"
proof (rule passes_reach)
  show "passes projectTaskStop [(''project_id'', ''1''), (''task_id'', ''1'')] stopRequest (\<lambda>c. cx_task c \<noteq> None)"
    by code_simp
qed (use route_stop in \<open>simp add: stopRequest_def sampleRequest_def\<close>)

definition deleteRequest :: Request where
  "deleteRequest = sampleRequest ''DELETE'' ''ann'' []"

lemma delete_reached:
  "\<exists>r1 c d1. reach sampleApiEnv ''/api/tasks/1'' deleteRequest sampleApi = Some (Reached ''tasks.DeleteTask'' r1 c, d1) \<and> cx_user c \<noteq> None"
proof (rule passes_reach)
  show "passes tasksAPI [(''task_id'', ''1'')] deleteRequest (\<lambda>c. cx_user c \<noteq> None)" by code_simp
qed (use route_delete_task in \<open>simp add: deleteRequest_def sampleRequest_def\<close>)

text \<open>The administrator adds one more; the user with a second factor gives a valid passcode.\<close>

definition addRequest :: Request where
  "addRequest = sampleRequest ''POST'' ''ann'' ''body''"

lemma add_answered:
  "\<exists>resp d'. ServeHTTP outside sampleApiEnv ''/api/users'' addRequest sampleApi = Some (resp, d') \<and>
     (map User_ID (a_user d') = [1, 2, 3, 9] \<and> User_Admin (last (a_user d')))"
proof (rule leaves_answer)
  show "leaves ''usersController.AddUser'' authenticatedAPI [] addRequest
      (\<lambda>d'. map User_ID (a_user d') = [1, 2, 3, 9] \<and> User_Admin (last (a_user d')))" by code_simp
qed (use route_add_user in \<open>simp add: addRequest_def sampleRequest_def\<close>)

definition verifyRequest :: Request where
  "verifyRequest = sampleRequest ''POST'' ''eve'' ''123456''"

lemma verify_answered:
  "\<exists>resp d'. ServeHTTP outside sampleApiEnv ''/api/auth/verify'' verifyRequest sampleApi = Some (resp, d') \<and>
     (sampleSession 6 3 SessionVerificationTotp)\<lparr>Session_Verified := True\<rparr> \<in> set (a_session d')"
proof (rule leaves_answer)
  show "leaves ''verifySession'' publicAPIRouter [] verifyRequest
      (\<lambda>d'. (sampleSession 6 3 SessionVerificationTotp)\<lparr>Session_Verified := True\<rparr> \<in> set (a_session d'))" by code_simp
qed (use route_verify in \<open>simp add: verifyRequest_def sampleRequest_def\<close>)

end
