(* ===== verification/Access_Properties.thy ===== *)
theory Access_Properties
  imports Api_Rights Api_Sample
begin

text \<open>
  The properties of access to the API for users: no handler without credentials, administration by administrators
  only, projects for their members, writing with the permission that the handler needs, and requests of other
  sites refused.
\<close>

text \<open>C18. Every handler outside the list of open ones runs only for a signed-in user: the request carries a bearer
  token of the user that has not expired, or the cookie of a session of the user that was verified and used
  within a week; the account exists, and nothing but sessions has changed on the way to the handler.\<close>

theorem handlers_need_credentials:
  assumes "reach e path r d = Some (Reached h r1 c, d1)" and "h \<notin> set openHandlers"
  shows "\<exists>u. cx_user c = Some u \<and> signedIn e r d u \<and> onlySessions d d1"
  by (rule reach_signedIn [OF assms]) auto

theorem handlers_need_credentials_witness:
  "\<exists>r1 c d1 u. reach sampleApiEnv ''/api/project/1/tasks/1/stop'' stopRequest sampleApi =
     Some (Reached ''taskController.StopTask'' r1 c, d1) \<and> cx_user c = Some u \<and> signedIn sampleApiEnv stopRequest sampleApi u"
proof -
  obtain r1 c d1 where r: "reach sampleApiEnv ''/api/project/1/tasks/1/stop'' stopRequest sampleApi =
     Some (Reached ''taskController.StopTask'' r1 c, d1)" using stop_reached by blast
  have "''taskController.StopTask'' \<notin> set openHandlers" by (simp add: openHandlers_def)
  from handlers_need_credentials [OF r this] r show ?thesis by blast
qed

text \<open>Who sends the sample request.\<close>

lemma bob_credentials: "credentials sampleApiEnv stopRequest sampleApi i \<Longrightarrow> i = 2"
proof -
  have "\<not> bearer stopRequest" "Option.bind (rq_Cookie stopRequest) (e_DecodeCookie sampleApiEnv) = Some (Some 2, Some 5)"
    by code_simp+
  then show "credentials sampleApiEnv stopRequest sampleApi i \<Longrightarrow> i = 2" by (auto simp: credentials_def)
qed

lemma bob_signs:
  assumes "signedIn sampleApiEnv stopRequest sampleApi u"
  shows "User_ID u = 2 \<and> \<not> User_Admin u"
proof -
  have i: "User_ID u = 2" using assms by (simp add: signedIn_def bob_credentials)
  obtain row x where "row \<in> set (a_user sampleApi)" "u = row\<lparr>User_Totp := x\<rparr>"
    using assms by (auto simp: signedIn_def)
  with i show ?thesis by (auto simp: sampleApi_def sampleAccount_def zeroAccount_def)
qed

text \<open>A project in the context stays one.\<close>

interpretation project_set: chain_invariant e r d plain "\<lambda>c. cx_project c \<noteq> None" for e r d
proof
  fix m c c'
  assume m: "plain m" "cx_project c \<noteq> None" "middleware e m r c d = Some (Passed c', d)"
  show "cx_project c' \<noteq> None"
  proof (cases "m = M_Project")
    case True
    with m show ?thesis by (auto simp: ProjectMiddleware_def split: option.splits sum.splits prod.splits)
  qed (use m project_frame [OF m(3)] in \<open>auto simp: plain_def\<close>)
qed (simp add: plain_def)

subsection \<open>Administration\<close>

definition adminHandlers :: "string list" where
  "adminHandlers =
     [''getOptions'', ''setOption'', ''getAdminInfo'', ''getClusterStatus'', ''getClusterTasks'',
      ''clearClusterTasks'', ''globalRunnerController.GetRunners'', ''globalRunnerController.AddRunner'',
      ''globalRunnerController.GetRunnerTags'', ''rolesController.GetRoles'', ''rolesController.AddRole'',
      ''clearCache'', ''globalRunnerController.GetRunner'', ''globalRunnerController.UpdateRunner'',
      ''globalRunnerController.SetRunnerActive'', ''globalRunnerController.RegenerateRegistrationToken'',
      ''globalRunnerController.DeleteRunner'', ''globalRunnerController.ClearRunnerCache'',
      ''rolesController.GetGlobalRole'', ''rolesController.UpdateRole'', ''rolesController.DeleteRole'', ''getApp'',
      ''setApp'', ''setAppActive'', ''deleteApp'', ''tasks.GetTasks'', ''tasks.DeleteTask'']"

definition ordinary :: "Route \<Rightarrow> bool" where
  "ordinary rt \<longleftrightarrow> rt_Handler rt \<notin> set adminHandlers"

lemmas ordinary_simps = route_def ordinary_def adminHandlers_def

lemma ordinary_routes:
  "list_all ordinary publicRoutes" "list_all ordinary accountRoutes" "list_all ordinary userRoutes"
  "list_all ordinary taskRoutes" "list_all ordinary projectRoutes" "list_all ordinary memberRoutes"
  "list_all ordinary objectRoutes" "list_all ordinary templateRoutes" "list_all ordinary workflowRoutes"
  "list_all ordinary historyRoutes" "list_all ordinary integrationRoutes"
  by (simp_all add: publicRoutes_def accountRoutes_def userRoutes_def taskRoutes_def projectRoutes_def
      memberRoutes_def objectRoutes_def templateRoutes_def workflowRoutes_def historyRoutes_def
      integrationRoutes_def ordinary_simps)

text \<open>C20. The handlers of administration (options, cluster, runners of the installation, global roles, caches,
  applications, tasks of the pool) run only for signed-in administrators.\<close>

theorem admin_handlers_need_admin:
  assumes "reach e path r d = Some (Reached h r1 c, d1)" and "h \<in> set adminHandlers"
  shows "\<exists>u. cx_user c = Some u \<and> signedIn e r d u \<and> User_Admin u"
proof -
  obtain rt vars where rt: "rt \<in> set routeTable" "rt_Handler rt = h" "r1 = r\<lparr>rq_Vars := vars\<rparr>"
    and run: "runChain e r1 (rt_Chain rt) emptyCtx d = Some (Passed c, d1)"
    using assms(1) by (rule reach_cases)
  have "rt \<in> set adminRoutes"
    using table_cases [OF rt(1)] ordinary_routes rt(2) assms(2)
    by (auto simp: projectRouteTable_def list_all_iff ordinary_def)
  then have a: "M_Admin \<in> set (drop 4 (rt_Chain rt))" "signsIn rt" using admin_routes by auto
  have "rt_Chain rt \<noteq> authenticatedWS" using a(1) by (auto simp: authenticatedWS_def)
  with a(2) have t: "take 4 (rt_Chain rt) = authenticatedAPI" and p: "list_all plain (drop 4 (rt_Chain rt))"
    by (simp_all add: signsIn_def)
  have "runChain e r1 (authenticatedAPI @ drop 4 (rt_Chain rt)) emptyCtx d = Some (Passed c, d1)"
    using run unfolding t [symmetric] by simp
  then obtain u where u: "signedIn e r1 d u" "cx_user c = Some u"
    and m: "runChain e r1 (drop 4 (rt_Chain rt)) (emptyCtx\<lparr>cx_user := Some u\<rparr>) d1 = Some (Passed c, d1)"
    using p by (auto elim!: authenticated_chain)
  have "User_Admin u"
    by (rule user_stays.through [OF p _ m a(1)]) (auto simp: adminMiddleware_def split: if_splits)
  with u rt(3) show ?thesis by auto
qed

theorem admin_handlers_need_admin_witness:
  "\<exists>r1 c d1 u. reach sampleApiEnv ''/api/tasks/1'' deleteRequest sampleApi =
     Some (Reached ''tasks.DeleteTask'' r1 c, d1) \<and> cx_user c = Some u \<and> User_Admin u"
proof -
  obtain r1 c d1 where r: "reach sampleApiEnv ''/api/tasks/1'' deleteRequest sampleApi =
     Some (Reached ''tasks.DeleteTask'' r1 c, d1)" using delete_reached by blast
  have "''tasks.DeleteTask'' \<in> set adminHandlers" by (simp add: adminHandlers_def)
  from admin_handlers_need_admin [OF r this] r show ?thesis by blast
qed

subsection \<open>Projects\<close>

lemma project_reach:
  assumes "reach e path r d = Some (Reached h r1 c, d1)" and "projectPath path"
  obtains rt u where "guarded rt" "rt \<in> set projectRouteTable" "rt_Handler rt = h" "rq_Method r1 \<in> set (rt_Methods rt)"
    "signedIn e r d u" "onlySessions d d1" "cx_user c = Some u" "rq_Method r1 = rq_Method r"
    "runChain e r1 (M_Project # drop 5 (rt_Chain rt)) (emptyCtx\<lparr>cx_user := Some u\<rparr>) d1 = Some (Passed c, d1)"
    "map_of (rq_Vars r1) ''project_id'' = Some (splitPath path ! 3)"
proof -
  obtain rt vars where rt: "rt \<in> set routeTable" "rt_Handler rt = h" "r1 = r\<lparr>rq_Vars := vars\<rparr>"
    and f: "findRoute routeTable (rq_Method r) path = Some (rt, vars)" "rq_Method r \<in> set (rt_Methods rt)"
    and run: "runChain e r1 (rt_Chain rt) emptyCtx d = Some (Passed c, d1)"
    using assms(1) by (rule reach_cases)
  have g: "guarded rt" using findRoute_project(1) [OF f(1) assms(2)] by (rule project_route_guarded)
  then have t: "take 5 (rt_Chain rt) = authenticatedAPI @ [M_Project]" and p: "list_all plain (drop 5 (rt_Chain rt))"
    by (simp_all add: guarded_def Let_def)
  have c: "rt_Chain rt = authenticatedAPI @ M_Project # drop 5 (rt_Chain rt)"
    using t append_take_drop_id [of 5 "rt_Chain rt"] by simp
  have "runChain e r1 (authenticatedAPI @ M_Project # drop 5 (rt_Chain rt)) emptyCtx d = Some (Passed c, d1)"
    using run c by simp
  moreover have "list_all plain (M_Project # drop 5 (rt_Chain rt))" using p by (simp add: plain_def)
  ultimately obtain u where "signedIn e r1 d u" "onlySessions d d1" "cx_user c = Some u"
    "runChain e r1 (M_Project # drop 5 (rt_Chain rt)) (emptyCtx\<lparr>cx_user := Some u\<rparr>) d1 = Some (Passed c, d1)"
    using authenticated_chain by metis
  with that [OF g findRoute_project(1) [OF f(1) assms(2)] rt(2)] f findRoute_project(2) [OF f(1) assms(2)] rt(3) show ?thesis by simp
qed

lemma project_set_after:
  assumes "runChain e r (M_Project # ms) (emptyCtx\<lparr>cx_user := Some u\<rparr>) d = Some (Passed c, d')"
    and "list_all plain (M_Project # ms)"
  shows "cx_project c \<noteq> None"
proof -
  obtain c1 d2 where m: "ProjectMiddleware r (emptyCtx\<lparr>cx_user := Some u\<rparr>) d = Some (Passed c1, d2)"
    and n: "runChain e r ms c1 d2 = Some (Passed c, d')"
    using assms(1) by (auto simp: runChain_Cons_passed simp del: runChain.simps)
  have "cx_project c1 \<noteq> None" using m by (auto elim!: ProjectMiddleware_passed)
  then show ?thesis using project_set.run [of ms c1 e r d2 c d'] assms(2) n by simp
qed

text \<open>C19. Below \<^verbatim>\<open>/api/project/\<close> every handler works on the project whose ID is in the path: it exists, and the
  signed-in user is a member of it or an administrator.\<close>

theorem project_handlers_need_membership:
  assumes "reach e path r d = Some (Reached h r1 c, d1)" and "projectPath path"
  shows "\<exists>u p. cx_user c = Some u \<and> signedIn e r d u \<and> cx_project c = Some p \<and>
    Atoi (splitPath path ! 3) = Some (Project_ID p) \<and> GetProject (Project_ID p) (db (a_pool d)) = Inr p \<and>
    (User_Admin u \<or> membership d (Project_ID p) (User_ID u))"
proof -
  obtain rt u where g: "guarded rt" and u: "signedIn e r d u" "onlySessions d d1" "cx_user c = Some u"
    and run: "runChain e r1 (M_Project # drop 5 (rt_Chain rt)) (emptyCtx\<lparr>cx_user := Some u\<rparr>) d1 = Some (Passed c, d1)"
    and i: "map_of (rq_Vars r1) ''project_id'' = Some (splitPath path ! 3)"
    using assms by (rule project_reach)
  have p: "list_all plain (M_Project # drop 5 (rt_Chain rt))"
    using g by (simp add: guarded_def Let_def plain_def)
  have "inProject r1 d1 u c" and "cx_project c \<noteq> None"
  proof -
    show "inProject r1 d1 u c"
      using project_stays.run [OF p _ run] by (simp add: inProject_def emptyCtx_def)
    show "cx_project c \<noteq> None" using run p by (rule project_set_after)
  qed
  then show ?thesis
    using u i onlySessions_frame [OF u(2)] may_sessions(2) [OF u(2)]
    by (auto simp: inProject_def projectOK_def GetIntParam_def split: option.splits)
qed

theorem project_handlers_need_membership_witness:
  "membership sampleApi 1 2"
proof -
  obtain r1 c d1 where r: "reach sampleApiEnv ''/api/project/1/tasks/1/stop'' stopRequest sampleApi =
     Some (Reached ''taskController.StopTask'' r1 c, d1)" using stop_reached by blast
  have p: "projectPath ''/api/project/1/tasks/1/stop''" by (simp add: projectPath_def splitPath_def)
  from project_handlers_need_membership [OF r p] obtain u and p :: Project where
    u: "signedIn sampleApiEnv stopRequest sampleApi u" "Atoi (splitPath ''/api/project/1/tasks/1/stop'' ! 3) = Some (Project_ID p)"
    "User_Admin u \<or> membership sampleApi (Project_ID p) (User_ID u)" by blast
  have "Atoi (splitPath ''/api/project/1/tasks/1/stop'' ! 3) = Some 1" by code_simp
  moreover have "User_ID u = 2 \<and> \<not> User_Admin u" using u(1) by (rule bob_signs)
  ultimately show ?thesis using u by auto
qed

lemma emptyCtx_start: "roleRights r d u (emptyCtx\<lparr>cx_user := Some u\<rparr>)"
  by (simp add: roleRights_def inProject_def emptyCtx_def)

text \<open>The permissions on the template of the task count where tasks are started, stopped and decided.\<close>

lemma task_chain_may:
  assumes "ProjectMiddleware r (emptyCtx\<lparr>cx_user := Some u\<rparr>) d = Some (Passed c1, d)"
    and "middleware e m r c1 d = Some (Passed c2, d)" and "m = M_NewTask \<or> m = M_GetTask"
    and "GetTaskPermissionsMiddleware c2 d = Some (Passed c3, d)"
    and "GetMustCanMiddleware needed r c3 d = Some (Passed c, d)"
    and "rq_Method r \<noteq> ''GET''" and "rq_Method r \<noteq> ''HEAD''"
  shows "\<exists>p. cx_project c = Some p \<and> may r d u p (cx_task c) needed"
proof -
  obtain p q slug where c1: "c1 = emptyCtx\<lparr>cx_user := Some u, cx_role := Some slug, cx_permissions := Some q,
      cx_project := Some p\<rparr>"
    and q: "\<not> User_Admin u \<Longrightarrow> q = rolePart d (Project_ID p) (User_ID u) OR pathPart r d (Project_ID p) (User_ID u)"
    using assms(1) by (auto elim!: ProjectMiddleware_passed)
  obtain t where c2: "c2 = c1\<lparr>cx_task := Some t\<rparr>"
    using assms(2,3) by (auto simp: middleware_defs split: step_splits)
  have c3: "cx_user c3 = Some u" "cx_project c3 = Some p" "cx_task c3 = Some t"
    "cx_permissions c3 = Some (q OR taskPart (Some t) d (Project_ID p) (User_ID u))"
    using assms(4) unfolding c2 c1 by (auto simp: GetTaskPermissionsMiddleware_def taskPart_def split: sum.splits)
  have "c = c3" and "User_Admin u \<or> (q OR taskPart (Some t) d (Project_ID p) (User_ID u)) AND needed = needed"
    using assms(5-7) c3 by (auto simp: GetMustCanMiddleware_def split: if_splits)
  with q c3 show ?thesis by (auto simp: may_def authority_def)
qed

text \<open>C13. Below \<^verbatim>\<open>/api/project/\<close> a request that is not a read reaches its handler only when the user is an
  administrator or holds the permission that the handler needs: running tasks for starting, stopping and deciding
  tasks and runs of workflows, changing the project, managing its users, and managing resources for everything else. The permission
  comes from the role in this project, or from what the template of the path or of the task gives to that role.
  Only leaving a project and clearing its cache need none.\<close>

theorem writers_need_permission:
  assumes "reach e path r d = Some (Reached h r1 c, d1)" and "projectPath path"
    and "rq_Method r \<noteq> ''GET''" and "rq_Method r \<noteq> ''HEAD''" and "neededPermission h = Some needed"
  shows "\<exists>u p. cx_user c = Some u \<and> signedIn e r d u \<and> cx_project c = Some p \<and> may r1 d u p (cx_task c) needed"
proof -
  obtain rt u where g: "guarded rt" "rt_Handler rt = h" "rq_Method r1 \<in> set (rt_Methods rt)"
    and u: "signedIn e r d u" "onlySessions d d1" "cx_user c = Some u" and rq: "rq_Method r1 = rq_Method r"
    and run: "runChain e r1 (M_Project # drop 5 (rt_Chain rt)) (emptyCtx\<lparr>cx_user := Some u\<rparr>) d1 = Some (Passed c, d1)"
    using assms(1,2) by (rule project_reach)
  define ms where "ms = drop 5 (rt_Chain rt)"
  have must: "M_MustCan needed \<in> set ms" and plain: "list_all plain ms"
    and tasked: "M_TaskPermissions \<in> set ms \<Longrightarrow> ms = starts M_NewTask \<or> ms = starts M_GetTask"
    using g rq assms(3-5) by (auto simp: guarded_def Let_def ms_def)
  note writes = assms(3,4)[folded rq]
  have "\<exists>p. cx_project c = Some p \<and> may r1 d1 u p (cx_task c) needed"
  proof (cases "M_TaskPermissions \<in> set ms")
    case True
    then obtain m where m: "ms = starts m" "m = M_NewTask \<or> m = M_GetTask" using tasked by blast
    have n: "needed = CanRunProjectTasks" using must m by (auto simp: starts_def)
    obtain c1 d2 c2 d3 c3 d4 where s: "ProjectMiddleware r1 (emptyCtx\<lparr>cx_user := Some u\<rparr>) d1 = Some (Passed c1, d2)"
      "middleware e m r1 c1 d2 = Some (Passed c2, d3)" "GetTaskPermissionsMiddleware c2 d3 = Some (Passed c3, d4)"
      "GetMustCanMiddleware needed r1 c3 d4 = Some (Passed c, d1)"
      using run unfolding ms_def [symmetric] m(1) starts_def n
      by (auto simp: runChain_Cons_passed simp del: runChain.simps(2))
    have "d2 = d1" "d3 = d2" "d4 = d3"
      using middleware_frame(1) [of e M_Project r1 _ d1] middleware_frame(1) [OF s(2)]
        middleware_frame(1) [of e M_TaskPermissions r1 c2 d3] s m(2) by auto
    then show ?thesis using task_chain_may s m(2) writes by simp
  next
    case False
    with plain have a: "list_all untasked (M_Project # ms)" by (auto simp: list_all_iff untasked_def plain_def)
    from must have "M_MustCan needed \<in> set (M_Project # ms)" by simp
    then obtain c1 c2 ns where i: "roleRights r1 d1 u c1" "middleware e (M_MustCan needed) r1 c1 d1 = Some (Passed c2, d1)"
      and c: "roleRights r1 d1 u c2" "list_all untasked ns" "runChain e r1 ns c2 d1 = Some (Passed c, d1)"
      "roleRights r1 d1 u c"
      using rights_stay.through [OF a _ run [folded ms_def]]
      by (metis (no_types, lifting) emptyCtx_start)
    obtain p where p: "cx_project c1 = Some p" "projectOK r1 d1 u p" "may r1 d1 u p (cx_task c) needed"
      using roleRights_may [OF i(1)] i(2) writes by fastforce
    have "cx_project c2 = Some p"
      using project_frame [OF i(2)] p(1) by simp
    then have "cx_project c \<noteq> None"
      using project_set.run [of ns c2 e r1 d1 c d1] c(2,3) by (auto simp: list_all_iff untasked_def)
    then obtain p' where p': "cx_project c = Some p'" by blast
    with c(4) have "projectOK r1 d1 u p'" by (simp add: roleRights_def inProject_def)
    with p(2) have "p' = p" by (auto simp: projectOK_def)
    with p' p(3) show ?thesis by blast
  qed
  with u may_sessions(1) [OF u(2)] show ?thesis by auto
qed

theorem writers_need_permission_witness:
  "\<exists>u p t needed. neededPermission ''taskController.StopTask'' = Some needed \<and> User_ID u = 2 \<and>
     may (stopRequest\<lparr>rq_Vars := [(''project_id'', ''1''), (''task_id'', ''1'')]\<rparr>) sampleApi u p t needed"
proof -
  obtain r1 c d1 where r: "reach sampleApiEnv ''/api/project/1/tasks/1/stop'' stopRequest sampleApi =
     Some (Reached ''taskController.StopTask'' r1 c, d1)" using stop_reached by blast
  have p: "projectPath ''/api/project/1/tasks/1/stop''" by (simp add: projectPath_def splitPath_def)
  obtain needed where n: "neededPermission ''taskController.StopTask'' = Some needed"
    by (auto simp: neededPermission_def)
  have "rq_Method stopRequest \<noteq> ''GET''" "rq_Method stopRequest \<noteq> ''HEAD''"
    by (simp_all add: stopRequest_def sampleRequest_def)
  from writers_need_permission [OF r p this n] obtain u and p :: Project where
    u: "signedIn sampleApiEnv stopRequest sampleApi u" "may r1 sampleApi u p (cx_task c) needed" by blast
  moreover have "r1 = stopRequest\<lparr>rq_Vars := [(''project_id'', ''1''), (''task_id'', ''1'')]\<rparr>"
    using r by (rule reach_cases) (use route_stop in \<open>auto simp: stopRequest_def sampleRequest_def\<close>)
  ultimately show ?thesis using n bob_signs [OF u(1)] by blast
qed

text \<open>A member with a built-in role has exactly that role's permissions in the project, whatever rows the roles
  table holds: a custom role that takes the name of a built-in one can not change them. Only templates can add to
  them, and only on the paths of templates.\<close>

lemma builtin_roles_not_shadowed:
  assumes "cx_user c = Some u" and "GetIntParam ''project_id'' r = Inr i"
    and "q_GetProjectUser i (User_ID u) d = Inr m" and "Role_IsValid (PU_Role m)"
    and "map_of (rq_Vars r) ''template_id'' = None" and "GetProject i (db (a_pool d)) = Inr p"
  shows "ProjectMiddleware r c (d\<lparr>a_role := anyRoles\<rparr>) =
    Some (Passed (c\<lparr>cx_role := Some (PU_Role m), cx_permissions := Some (GetPermissions (PU_Role m)), cx_project := Some p\<rparr>),
      d\<lparr>a_role := anyRoles\<rparr>)"
proof -
  have "q_GetProjectUser i (User_ID u) (d\<lparr>a_role := anyRoles\<rparr>) = q_GetProjectUser i (User_ID u) d"
    by (simp add: q_GetProjectUser_def pick_def)
  then have m: "q_GetProjectUser i (User_ID u) (d\<lparr>a_role := anyRoles\<rparr>) = Inr m" using assms(3) by simp
  show ?thesis
    using assms m by (simp add: ProjectMiddleware_def memberRole_def rolePerms_def templatePerms_def)
qed

subsection \<open>Objects\<close>

definition owned :: "Api \<Rightarrow> ident \<Rightarrow> string \<Rightarrow> ident \<Rightarrow> bool" where
  "owned d projectID kind i \<longleftrightarrow>
     (let b = db (a_pool d) in
      if kind = ''repository''
      then \<exists>x \<in> set (tbl_repository b). Repository_ProjectID x = projectID \<and> Repository_ID x = i
      else if kind = ''inventory''
      then \<exists>x \<in> set (tbl_inventory b). Inventory_ProjectID x = projectID \<and> Inventory_ID x = i
      else if kind = ''environment''
      then \<exists>x \<in> set (tbl_environment b). Environment_ProjectID x = projectID \<and> Environment_ID x = i
      else if kind = ''key''
      then \<exists>x \<in> set (tbl_access_key (a_keys d)). Key_ID x = i \<and> ofProject projectID x \<and> Key_Owner x \<noteq> AccessKeyTaskSecret
      else if kind = ''storage''
      then \<exists>x \<in> set (tbl_secret_storage (a_keys d)). Storage_ProjectID x = projectID \<and> Storage_ID x = i
      else if kind \<in> {''schedule'', ''view'', ''integration''} then (kind, projectID, i) \<in> set (a_object d)
      else True)"

lemma selectOne_found: "selectOne q P tbl b = Inr x \<Longrightarrow> x \<in> set (tbl b) \<and> P x"
  by (auto simp: selectOne_def find_Some_iff split: if_splits option.splits)

lemma owned_found:
  "GetRepository p i (db (a_pool d)) = Inr x1 \<Longrightarrow> owned d p ''repository'' i"
  "GetEnvironment p i (db (a_pool d)) = Inr x3 \<Longrightarrow> owned d p ''environment'' i"
  by (auto simp: owned_def GetRepository_def GetEnvironment_def dest!: selectOne_found)

lemma owned_inventory: "q_GetInventory p i d = Inr x \<Longrightarrow> owned d p ''inventory'' i"
  by (auto simp: owned_def q_GetInventory_def find_Some_iff split: if_splits option.splits)

lemma owned_key:
  "GetAccessKey p i (a_keys d) = Inr x \<Longrightarrow> Key_Owner x \<noteq> AccessKeyTaskSecret \<Longrightarrow> owned d p ''key'' i"
  by (auto simp: owned_def GetAccessKey_def find_Some_iff split: if_splits option.splits)

lemma owned_storage: "GetSecretStorage p i (a_keys d) = Inr x \<Longrightarrow> owned d p ''storage'' i"
  by (auto simp: owned_def GetSecretStorage_def find_Some_iff split: if_splits option.splits)

lemma owned_object:
  "q_GetObject k p i d = Inr x \<Longrightarrow> k \<in> {''schedule'', ''view'', ''integration''} \<Longrightarrow> owned d p k i"
proof -
  assume "q_GetObject k p i d = Inr x"
  then have "(k, p, i) \<in> set (a_object d)" unfolding q_GetObject_def by (blast dest: pick_found)
  then show "k \<in> {''schedule'', ''view'', ''integration''} \<Longrightarrow> owned d p k i"
    by (elim insertE emptyE; simp add: owned_def)
qed

lemma owned_other:
  "owned d p ''workflow'' i" "owned d p ''workflow_run'' i" "owned d p ''runner'' i" "owned d p ''task'' i"
  by (simp_all add: owned_def)

lemma tasks_found: "db_GetTask p i b = Inr t \<Longrightarrow> Task_ID t = i \<and> t \<in> set (tbl_task b) \<and> tplInProject b p t"
  unfolding db_GetTask_def by (drule selectOne_found) simp

lemma templates_found: "GetTemplate p i b = Inr t \<Longrightarrow> Template_ProjectID t = p \<and> t \<in> set (tbl_template b)"
  unfolding GetTemplate_def by (drule selectOne_found) simp

text \<open>Everything in the context is of project \<open>i\<close>; \<open>new\<close> tells whether the task is one that was sent.\<close>

definition isolated :: "Request \<Rightarrow> Api \<Rightarrow> ident \<Rightarrow> bool \<Rightarrow> Ctx \<Rightarrow> bool" where
  "isolated r d i new c \<longleftrightarrow>
     GetIntParam ''project_id'' r = Inr i \<and>
     (case cx_project c of None \<Rightarrow> True | Some p \<Rightarrow> Project_ID p = i) \<and>
     (\<forall>(k, j) \<in> set (cx_object c). owned d i k j) \<and>
     (case cx_template c of None \<Rightarrow> True | Some t \<Rightarrow> Template_ProjectID t = i \<and> t \<in> set (tbl_template (db (a_pool d)))) \<and>
     (case cx_projectUser c of None \<Rightarrow> True | Some v \<Rightarrow> membership d i (User_ID v)) \<and>
     (\<not> new \<longrightarrow> (case cx_task c of None \<Rightarrow> True
        | Some t \<Rightarrow> t \<in> set (tbl_task (db (a_pool d))) \<and> tplInProject (db (a_pool d)) i t))"

definition inside :: "bool \<Rightarrow> Middleware \<Rightarrow> bool" where
  "inside new m \<longleftrightarrow> plain m \<and> (m = M_NewTask \<longrightarrow> new)"

lemma found_Inr [simp]: "found res = Inr x \<longleftrightarrow> res = Inr x" "Inr x = found res \<longleftrightarrow> res = Inr x"
  by (cases res; auto simp: found_def)+

lemma member_found: "q_GetProjectUser i j d = Inr m \<Longrightarrow> membership d i j"
  unfolding q_GetProjectUser_def membership_def by (blast dest: pick_found)

lemma objectMiddleware_passed:
  assumes "objectMiddleware k param get r c d = Some (Passed c', d')"
  shows "\<exists>p i x. cx_project c = Some p \<and> get (Project_ID p) i d = Inr x \<and> c' = c\<lparr>cx_object := (k, i) # cx_object c\<rparr>"
  using assms unfolding objectMiddleware_def by (auto split: option.splits sum.splits)

lemma isolated_object:
  assumes "objectMiddleware k param get r c d = Some (Passed c', d')" and "isolated r d i new c"
    and "\<And>p j x. get p j d = Inr x \<Longrightarrow> owned d p k j"
  shows "isolated r d i new c'"
  using objectMiddleware_passed [OF assms(1)] assms(2,3) by (auto simp: isolated_def)

lemma isolated_same:
  assumes "isolated r d i new c" and "cx_project c' = cx_project c" and "cx_object c' = cx_object c"
    and "cx_template c' = cx_template c" and "cx_projectUser c' = cx_projectUser c" and "cx_task c' = cx_task c"
  shows "isolated r d i new c'"
  using assms by (simp add: isolated_def)

definition adds :: "Ctx \<Rightarrow> string \<Rightarrow> ident \<Rightarrow> Ctx \<Rightarrow> bool" where
  "adds c k j c' \<longleftrightarrow>
     cx_object c' = (k, j) # cx_object c \<and> cx_project c' = cx_project c \<and> cx_template c' = cx_template c \<and>
     cx_projectUser c' = cx_projectUser c \<and> cx_task c' = cx_task c"

lemma isolated_adds:
  assumes "isolated r d i new c" and "adds c k j c'" and "owned d i k j"
  shows "isolated r d i new c'"
  using assms by (simp add: isolated_def adds_def)

lemma runnerAuth_passed: "runnerAuth r c d = Some (Passed c', d') \<Longrightarrow> \<exists>j. adds c ''runner'' j c'"
  unfolding runnerAuth_def by (auto simp: adds_def split: option.splits http.splits)

lemma GetTaskMiddleware_passed:
  assumes "GetTaskMiddleware r c d = Some (Passed c', d')"
  shows "\<exists>p i t. cx_project c = Some p \<and> db_GetTask (Project_ID p) i (db (a_pool d)) = Inr t \<and> c' = c\<lparr>cx_task := Some t\<rparr>"
  using assms unfolding GetTaskMiddleware_def by (auto split: option.splits sum.splits)

lemma UserMiddleware_passed:
  assumes "UserMiddleware r c d = Some (Passed c', d')"
  shows "\<exists>p v m. cx_project c = Some p \<and> q_GetProjectUser (Project_ID p) (User_ID v) d = Inr m \<and>
    c' = c\<lparr>cx_projectUser := Some v\<rparr>"
  using assms unfolding UserMiddleware_def by (auto split: option.splits sum.splits dest: q_GetUser_found)

lemma TemplatesMiddleware_passed:
  assumes "TemplatesMiddleware r c d = Some (Passed c', d')"
  shows "\<exists>p i t. cx_project c = Some p \<and> GetTemplate (Project_ID p) i (db (a_pool d)) = Inr t \<and>
    c' = c\<lparr>cx_template := Some t\<rparr>"
  using assms unfolding TemplatesMiddleware_def by (auto split: option.splits sum.splits)

lemma IntegrationMiddleware_passed:
  assumes "IntegrationMiddleware r c d = Some (Passed c', d')"
  shows "\<exists>p i x. GetIntParam ''project_id'' r = Inr p \<and> q_GetObject ''integration'' p i d = Inr x \<and>
    adds c ''integration'' i c'"
  using assms unfolding IntegrationMiddleware_def by (auto simp: adds_def split: sum.splits)

lemma globalRunnerMiddleware_passed:
  "globalRunnerMiddleware r c d = Some (Passed c', d') \<Longrightarrow> \<exists>j. adds c ''runner'' j c'"
  unfolding globalRunnerMiddleware_def by (auto simp: adds_def split: sum.splits)

lemma TaskMiddleware_passed: "TaskMiddleware r c d = Some (Passed c', d') \<Longrightarrow> \<exists>j. adds c ''task'' j c'"
  unfolding TaskMiddleware_def by (auto simp: adds_def split: sum.splits)

lemma NewTaskMiddleware_passed:
  "NewTaskMiddleware e r c d = Some (Passed c', d') \<Longrightarrow> \<exists>t. c' = c\<lparr>cx_task := Some t\<rparr>"
  unfolding NewTaskMiddleware_def by (auto split: option.splits)

lemma same_parts:
  assumes "middleware e m r c d = Some (Passed c', d')"
    and "m \<in> {M_Plain, M_Csrf, M_Metrics, M_Admin, M_TaskPermissions, M_ReadonlyUser, M_GetUser, M_App} \<or> (\<exists>p. m = M_MustCan p)"
  shows "cx_project c' = cx_project c \<and> cx_object c' = cx_object c \<and> cx_template c' = cx_template c \<and>
    cx_projectUser c' = cx_projectUser c \<and> cx_task c' = cx_task c"
  using assms by (auto simp: middleware_defs split: step_splits)

lemma isolated_step:
  assumes "inside new m" and iso: "isolated r d i new c" and s: "middleware e m r c d = Some (Passed c', d)"
  shows "isolated r d i new c'"
proof (cases m)
  case M_Runner
  with s have "runnerAuth r c d = Some (Passed c', d)" by simp
  from runnerAuth_passed [OF this] iso show ?thesis using owned_other(3) isolated_adds by blast
next
  case M_Project
  then have p: "ProjectMiddleware r c d = Some (Passed c', d)" using s by simp
  then obtain u where "cx_user c = Some u" by (auto simp: ProjectMiddleware_def split: option.splits)
  with p obtain q v slug where "c' = c\<lparr>cx_role := Some slug, cx_permissions := Some q, cx_project := Some v\<rparr>"
    "projectOK r d u v" by (rule ProjectMiddleware_passed)
  then show ?thesis using iso by (auto simp: isolated_def projectOK_def)
next
  case M_NewTask
  then have new: "new" and t: "NewTaskMiddleware e r c d = Some (Passed c', d)"
    using assms by (auto simp: inside_def)
  from NewTaskMiddleware_passed [OF t] obtain t where "c' = c\<lparr>cx_task := Some t\<rparr>" by blast
  then show ?thesis using iso new by (simp add: isolated_def)
next
  case M_GetTask
  with s have "GetTaskMiddleware r c d = Some (Passed c', d)" by simp
  from GetTaskMiddleware_passed [OF this] iso show ?thesis by (auto simp: isolated_def dest: tasks_found)
next
  case M_ProjectUser
  with s have "UserMiddleware r c d = Some (Passed c', d)" by simp
  from UserMiddleware_passed [OF this] iso show ?thesis by (auto simp: isolated_def dest: member_found)
next
  case M_Templates
  with s have "TemplatesMiddleware r c d = Some (Passed c', d)" by simp
  from TemplatesMiddleware_passed [OF this] iso show ?thesis by (auto simp: isolated_def dest: templates_found)
next
  case M_Repository
  with iso s show ?thesis
    by (auto simp: RepositoryMiddleware_def elim!: isolated_object dest: owned_found)
next
  case M_Inventory
  with iso s show ?thesis by (auto simp: InventoryMiddleware_def elim!: isolated_object dest: owned_inventory)
next
  case M_Environment
  with iso s show ?thesis
    by (auto simp: EnvironmentMiddleware_def elim!: isolated_object split: sum.splits dest: owned_found)
next
  case M_Schedules
  with iso s show ?thesis by (auto simp: SchedulesMiddleware_def elim!: isolated_object dest: owned_object)
next
  case M_View
  with iso s show ?thesis by (auto simp: ViewMiddleware_def elim!: isolated_object dest: owned_object)
next
  case M_Key
  with iso s show ?thesis
    by (auto simp: KeyMiddleware_def elim!: isolated_object split: sum.splits if_splits intro: owned_key)
next
  case M_SecretStorage
  with iso s show ?thesis
    by (auto simp: SecretStorageMiddleware_def elim!: isolated_object split: sum.splits if_splits intro: owned_storage)
next
  case M_Integration
  with s have "IntegrationMiddleware r c d = Some (Passed c', d)" by simp
  then obtain p j x where j: "GetIntParam ''project_id'' r = Inr p" "q_GetObject ''integration'' p j d = Inr x"
    "adds c ''integration'' j c'" by (auto dest: IntegrationMiddleware_passed)
  have "p = i" using iso j(1) by (simp add: isolated_def)
  with owned_object [OF j(2)] have "owned d i ''integration'' j" by simp
  then show ?thesis using iso j(3) isolated_adds by blast
next
  case M_Workflows
  with iso s show ?thesis by (auto simp: WorkflowsMiddleware_def elim!: isolated_object intro: owned_other)
next
  case M_WorkflowRuns
  with iso s show ?thesis
    by (auto simp: WorkflowRunsMiddleware_def elim!: isolated_object intro: owned_other split: option.splits)
next
  case M_GlobalRunner
  with s have "globalRunnerMiddleware r c d = Some (Passed c', d)" by simp
  from globalRunnerMiddleware_passed [OF this] iso show ?thesis using owned_other(3) isolated_adds by blast
next
  case M_TaskID
  with s have "TaskMiddleware r c d = Some (Passed c', d)" by simp
  from TaskMiddleware_passed [OF this] iso show ?thesis using owned_other(4) isolated_adds by blast
qed (use assms same_parts [OF s] in \<open>auto simp: inside_def plain_def intro: isolated_same\<close>)

interpretation isolation_stays: chain_invariant e r d "inside new" "isolated r d i new" for e r d i new
  by unfold_locales (simp add: inside_def plain_def, rule isolated_step)

definition startsTasks :: "Route \<Rightarrow> bool" where
  "startsTasks rt \<longleftrightarrow> (M_NewTask \<in> set (rt_Chain rt) \<longrightarrow> rt_Handler rt = ''taskController.AddTask'')"

lemma new_tasks_routes:
  "list_all startsTasks taskRoutes" "list_all startsTasks projectRoutes" "list_all startsTasks memberRoutes"
  "list_all startsTasks objectRoutes" "list_all startsTasks templateRoutes" "list_all startsTasks workflowRoutes"
  "list_all startsTasks historyRoutes" "list_all startsTasks integrationRoutes"
  by (simp_all add: taskRoutes_def projectRoutes_def memberRoutes_def objectRoutes_def templateRoutes_def
      workflowRoutes_def historyRoutes_def integrationRoutes_def route_def startsTasks_def sub_routers)

lemma owned_sessions: "onlySessions d d1 \<Longrightarrow> owned d1 = owned d"
proof -
  assume o: "onlySessions d d1"
  note f = onlySessions_frame(8-10) [OF o]
  show "owned d1 = owned d" by (intro ext) (simp add: owned_def f)
qed

text \<open>C16. Projects are isolated: every object that the middlewares hand to a handler below \<^verbatim>\<open>/api/project/\<close> belongs
  to the project of the path. Repositories, inventories, environments, keys (never those of survey secrets),
  secret storages, schedules, views and integrations are rows of that project, a template is one of its
  templates, a user is one of its members, and a task (other than one that the request itself brings) is a task of
  one of its templates. (Nothing is said of the objects of workflows.)\<close>

theorem objects_isolated:
  assumes "reach e path r d = Some (Reached h r1 c, d1)" and "projectPath path"
  shows "\<exists>p. cx_project c = Some p \<and> Atoi (splitPath path ! 3) = Some (Project_ID p) \<and>
    (\<forall>(k, i) \<in> set (cx_object c). owned d (Project_ID p) k i) \<and>
    (\<forall>t. cx_template c = Some t \<longrightarrow> Template_ProjectID t = Project_ID p \<and> t \<in> set (tbl_template (db (a_pool d)))) \<and>
    (\<forall>v. cx_projectUser c = Some v \<longrightarrow> membership d (Project_ID p) (User_ID v)) \<and>
    (\<forall>t. cx_task c = Some t \<and> h \<noteq> ''taskController.AddTask'' \<longrightarrow>
       t \<in> set (tbl_task (db (a_pool d))) \<and> tplInProject (db (a_pool d)) (Project_ID p) t)"
proof -
  obtain rt u where g: "guarded rt" "rt \<in> set projectRouteTable" "rt_Handler rt = h" and o: "onlySessions d d1"
    and run: "runChain e r1 (M_Project # drop 5 (rt_Chain rt)) (emptyCtx\<lparr>cx_user := Some u\<rparr>) d1 = Some (Passed c, d1)"
    and i: "map_of (rq_Vars r1) ''project_id'' = Some (splitPath path ! 3)"
    using assms by (rule project_reach)
  define new where "new = (h = ''taskController.AddTask'')"
  have ms: "list_all plain (M_Project # drop 5 (rt_Chain rt))"
    using g by (simp add: guarded_def Let_def plain_def)
  have "startsTasks rt" using g(2) new_tasks_routes by (auto simp: projectRouteTable_def list_all_iff)
  then have ns: "list_all (inside new) (M_Project # drop 5 (rt_Chain rt))"
    using ms g(3) by (auto simp: list_all_iff inside_def startsTasks_def new_def dest: in_set_dropD)
  obtain p where p: "cx_project c = Some p" "GetIntParam ''project_id'' r1 = Inr (Project_ID p)"
    using project_stays.run [OF ms _ run] project_set_after [OF run ms]
    by (auto simp: inProject_def emptyCtx_def projectOK_def)
  have "isolated r1 d1 (Project_ID p) new (emptyCtx\<lparr>cx_user := Some u\<rparr>)"
    using p(2) by (simp add: isolated_def emptyCtx_def)
  then have iso: "isolated r1 d1 (Project_ID p) new c" using isolation_stays.run [OF ns _ run] by blast
  have "Atoi (splitPath path ! 3) = Some (Project_ID p)"
    using p(2) i by (auto simp: GetIntParam_def split: option.splits)
  with iso p(1) owned_sessions [OF o] may_sessions(2) [OF o] onlySessions_frame(8) [OF o] show ?thesis
    by (auto simp: isolated_def new_def)
qed

theorem objects_isolated_witness:
  "\<exists>t. t \<in> set (tbl_task (db (a_pool sampleApi))) \<and> tplInProject (db (a_pool sampleApi)) 1 t"
proof -
  obtain r1 c d1 where r: "reach sampleApiEnv ''/api/project/1/tasks/1/stop'' stopRequest sampleApi =
     Some (Reached ''taskController.StopTask'' r1 c, d1)" and t: "cx_task c \<noteq> None" using stop_reached by blast
  have p: "projectPath ''/api/project/1/tasks/1/stop''" by (simp add: projectPath_def splitPath_def)
  have "Atoi (splitPath ''/api/project/1/tasks/1/stop'' ! 3) = Some 1" by code_simp
  moreover have "''taskController.StopTask'' \<noteq> ''taskController.AddTask''" by simp
  ultimately show ?thesis using objects_isolated [OF r p] t by (metis not_None_eq option.inject)
qed

subsection \<open>Requests of other sites\<close>

definition onlyReads :: "Route \<Rightarrow> bool" where
  "onlyReads rt \<longleftrightarrow> (rt_Chain rt = authenticatedWS \<longrightarrow> rt_Methods rt = [''GET'', ''HEAD''])"

lemma socket_routes:
  "list_all onlyReads accountRoutes" "list_all onlyReads adminRoutes" "list_all onlyReads userRoutes"
  by (simp_all add: accountRoutes_def adminRoutes_def userRoutes_def route_def onlyReads_def sub_routers)

text \<open>C22. A request that changes state (by its method: \<^verbatim>\<open>POST\<close>, \<^verbatim>\<open>PUT\<close>, \<^verbatim>\<open>PATCH\<close> or \<^verbatim>\<open>DELETE\<close>) and carries no bearer
  token reaches none of the handlers that need a user when
  its \<^verbatim>\<open>Origin\<close> (or, without one, its \<^verbatim>\<open>Referer\<close>) names a host other than that of the request and that of the
  configured address: a page of another site can not use the cookie of a user.\<close>

theorem foreign_origin_refused:
  assumes "reach e path r d = Some (Reached h r1 c, d1)" and "h \<notin> set openHandlers"
    and "isStateChangingMethod (rq_Method r)" and "\<not> bearer r" and "requestOriginHost e r = Some origin"
  shows "isSameOriginHost e origin r"
proof -
  obtain rt vars where rt: "rt \<in> set routeTable" "rt_Handler rt = h" "r1 = r\<lparr>rq_Vars := vars\<rparr>"
    "rq_Method r \<in> set (rt_Methods rt)" and run: "runChain e r1 (rt_Chain rt) emptyCtx d = Some (Passed c, d1)"
    using assms(1) by (rule reach_cases)
  have "rt_Chain rt \<noteq> authenticatedWS"
  proof
    assume ws: "rt_Chain rt = authenticatedWS"
    have "rt \<notin> set projectRouteTable"
      using ws by (auto dest!: project_route_guarded simp: guarded_def Let_def authenticatedWS_def authenticatedAPI_def)
    moreover have "rt \<notin> set publicRoutes" using open_routes rt(2) assms(2) by blast
    ultimately have "onlyReads rt" using table_cases [OF rt(1)] socket_routes by (auto simp: list_all_iff)
    then show False using ws rt(4) assms(3) by (auto simp: onlyReads_def isStateChangingMethod_def)
  qed
  then have t: "take 4 (rt_Chain rt) = authenticatedAPI" and p: "list_all plain (drop 4 (rt_Chain rt))"
    using table_signsIn [OF rt(1)] rt(2) assms(2) by (simp_all add: signsIn_def)
  have "runChain e r1 (authenticatedAPI @ drop 4 (rt_Chain rt)) emptyCtx d = Some (Passed c, d1)"
    using run unfolding t [symmetric] by simp
  then have "csrfProtectionMiddleware e r1 emptyCtx d = Some (Passed emptyCtx, d)"
    using p by (auto elim!: authenticated_chain)
  then show ?thesis
    using assms(3-5) rt(3)
    by (auto simp: csrfProtectionMiddleware_def isSameOriginHost_def bearer_def requestOriginHost_def split: if_splits)
qed

theorem foreign_origin_refused_witness: "isSameOriginHost sampleApiEnv ''host'' stopRequest"
proof -
  obtain r1 c d1 where r: "reach sampleApiEnv ''/api/project/1/tasks/1/stop'' stopRequest sampleApi =
     Some (Reached ''taskController.StopTask'' r1 c, d1)" using stop_reached by blast
  show ?thesis
  proof (rule foreign_origin_refused [OF r])
    show "requestOriginHost sampleApiEnv stopRequest = Some ''host''" by code_simp
    show "isStateChangingMethod (rq_Method stopRequest)" "\<not> bearer stopRequest" by code_simp+
  qed (simp add: openHandlers_def)
qed

end
