(* ===== verification/Request_Properties.thy ===== *)
theory Request_Properties
  imports Api_Requests Api_Paths Api_Sample
begin

text \<open>
  Properties of all requests that modelled code answers: the tables of accounts stay well-formed, an account stays
  local or external, the second factor can not be skipped and rights of administrators come from administrators.
\<close>

subsection \<open>Well-formed tables\<close>

interpretation tables: all_queries api_ok
  by unfold_locales (auto intro: keeps_ok)

text \<open>
  A server in use: requests, and between them whatever else happens to its state, namely the work of the pool
  and the passing of time, changes of stored keys, other objects and roles, and databases that fail or recover.
\<close>

inductive serves :: "Api \<Rightarrow> Api \<Rightarrow> bool" for d0 :: Api where
  start: "serves d0 d0"
| request: "serves d0 d \<Longrightarrow> ServeHTTP outside e path r d = Some (resp, d') \<Longrightarrow> serves d0 d'"
| background: "serves d0 d \<Longrightarrow>
    serves d0 (d\<lparr>a_pool := w, a_keys := ks, a_object := os, a_role := rs, a_templateRole := ts, a_faults := fs\<rparr>)"

text \<open>C17. Whatever requests to the modelled handlers a server answers, with whatever errors of the database, well-formed
  tables stay well-formed: names, mails and identifiers of accounts are unique, so are tokens, sessions, second
  factors, memberships and external identities. Each token, second factor, membership and external identity belongs
  to an account that exists; a session does so where the table of sessions references the accounts, as it does on
  SQLite, while elsewhere the sessions of a deleted account stay behind.\<close>

theorem requests_keep_tables:
  assumes "api_ok d" and "serves d d'"
  shows "api_ok d'"
  using assms(2,1)
  by (induction rule: serves.induct) (auto simp: api_ok_def dest: tables.kept_request)

text \<open>An account is added.\<close>

lemma add_served: "\<exists>d'. serves sampleApi d' \<and> map User_ID (a_user d') = [1, 2, 3, 9]"
proof -
  obtain resp d' where a: "ServeHTTP outside sampleApiEnv ''/api/users'' addRequest sampleApi = Some (resp, d')"
    and i: "map User_ID (a_user d') = [1, 2, 3, 9]" using add_answered by (elim exE conjE)
  show ?thesis by (intro exI conjI, rule serves.request [OF serves.start a], rule i)
qed

theorem requests_keep_tables_witness: "\<exists>d'. map User_ID (a_user d') = [1, 2, 3, 9] \<and> api_ok d'"
proof -
  obtain d' where d': "serves sampleApi d'" and i: "map User_ID (a_user d') = [1, 2, 3, 9]"
    using add_served by (elim exE conjE)
  show ?thesis by (intro exI conjI, rule i, rule requests_keep_tables [OF sample_api_ok d'])
qed

subsection \<open>Local and external accounts\<close>

definition sameKind :: "Api \<Rightarrow> Api \<Rightarrow> bool" where
  "sameKind d0 d \<longleftrightarrow>
     below (a_next d0) User_ID (a_user d0) \<and> a_next d0 \<le> a_next d \<and>
     (\<forall>u \<in> set (a_user d0). \<forall>v \<in> set (a_user d). User_ID u = User_ID v \<longrightarrow> User_External u = User_External v)"

lemma sameKind_cong: "a_user d' = a_user d \<Longrightarrow> a_next d \<le> a_next d' \<Longrightarrow> sameKind d0 d \<Longrightarrow> sameKind d0 d'"
  by (auto simp: sameKind_def)

lemma sameKind_insert: "insertUser u d = (res, d') \<Longrightarrow> sameKind d0 d \<Longrightarrow> sameKind d0 d'"
  by (fastforce simp: insertUser_def Let_def sameKind_def below_def split: if_splits)

lemma sameKind_written:
  "sameKind d0 d \<Longrightarrow> (\<And>u. User_ID (f u) = User_ID u \<and> User_External (f u) = User_External u) \<Longrightarrow>
    sameKind d0 (d\<lparr>a_user := map (\<lambda>u. if P u then f u else u) (a_user d)\<rparr>)"
  by (auto simp: sameKind_def)

lemma sameKind_sync [simp]: "sameKind d0 (syncPool d) = sameKind d0 d"
  by (simp add: sameKind_def)

lemma changeUsers_Inr: "changeUsers q f d = Inr d' \<Longrightarrow> d' = syncPool (f d)"
  by (auto simp: changeUsers_def change_def split: if_splits)

lemma sameKind_UpdateUser: "q_UpdateUser h v d = Inr d' \<Longrightarrow> sameKind d0 d \<Longrightarrow> sameKind d0 d'"
  by (erule q_UpdateUser_written) (auto dest!: changeUsers_Inr simp: writeUser_def intro!: sameKind_written)

lemmas query_defs =
  q_SetUserPassword_def q_DeleteUser_def q_AddTotpVerification_def q_DeleteTotpVerification_def q_ExpireSession_def
  q_TouchSession_def q_VerifySession_def updateSession_def q_CreateSession_def q_CreateAPIToken_def
  q_DeleteAPIToken_def q_CreateProjectUser_def q_UpdateProjectUser_def q_DeleteProjectUser_def
  q_CreateExternalIdentity_def q_DeleteExternalIdentity_def change_def Let_def

interpretation kind: all_queries "sameKind d0" for d0
proof
  show "q_SetUserPassword h i p d = Inr d' \<Longrightarrow> sameKind d0 d \<Longrightarrow> sameKind d0 d'" for h i p d d'
    by (auto simp: q_SetUserPassword_def change_def split: sum.splits if_splits intro!: sameKind_written)
  show "q_DeleteUser i d = Inr d' \<Longrightarrow> sameKind d0 d \<Longrightarrow> sameKind d0 d'" for i d d'
    by (auto simp: q_DeleteUser_def sameKind_def dest!: changeUsers_Inr)
  show "q_CreateUserWithoutPassword u d = (res, d') \<Longrightarrow> sameKind d0 d \<Longrightarrow> sameKind d0 d'" for u d res d'
    by (auto simp: q_CreateUserWithoutPassword_def split: option.splits dest: sameKind_insert)
  show "q_CreateUser h v d = (res, d') \<Longrightarrow> sameKind d0 d \<Longrightarrow> sameKind d0 d'" for h v d res d'
    by (auto simp: q_CreateUser_def split: option.splits sum.splits dest: sameKind_insert)
  show "q_UpdateUser h v d = Inr d' \<Longrightarrow> sameKind d0 d \<Longrightarrow> sameKind d0 d'" for h v d d'
    by (rule sameKind_UpdateUser)
qed (auto simp: query_defs split: step_splits dest!: changeUsers_Inr elim!: sameKind_cong [rotated 2])

text \<open>C21. An account that is local stays local and an external one stays external, for its whole life and whatever
  requests are answered, signing in through a directory or an identity provider and the update of accounts
  included; the identifier of a deleted account does not come back as an account of the other kind.\<close>

theorem account_kind_fixed:
  assumes "api_ok d" and "serves d d'" and "u \<in> set (a_user d)" and "v \<in> set (a_user d')"
    and "User_ID u = User_ID v"
  shows "User_External u = User_External v"
proof -
  have "sameKind d d" using assms(1) by (auto simp: sameKind_def api_ok_def accounts_ok_def keyed_def distinct_map dest: inj_onD)
  with assms(2) have "sameKind d d'"
  proof (induction rule: serves.induct)
    case (request d1 e path r resp d2)
    then show ?case by (blast intro: kind.kept_request)
  qed (auto elim: sameKind_cong [rotated 2])
  with assms(3-5) show ?thesis by (auto simp: sameKind_def)
qed

theorem account_kind_fixed_witness:
  "\<exists>d' v. serves sampleApi d' \<and> v \<in> set (a_user d') \<and> User_ID v = 1 \<and> \<not> User_External v"
proof -
  obtain d' where d': "serves sampleApi d'" and i: "map User_ID (a_user d') = [1, 2, 3, 9]" using add_served by (elim exE conjE)
  from i have "1 \<in> User_ID ` set (a_user d')" by (metis list.set_intros(1) set_map)
  then obtain v where v: "v \<in> set (a_user d')" "User_ID v = 1" by (metis imageE)
  have "sampleAccount 1 ''ann'' True \<in> set (a_user sampleApi)" by (simp add: sampleApi_def)
  from account_kind_fixed [OF sample_api_ok d' this v(1)] d' v show ?thesis
    by (auto simp: sampleAccount_def zeroAccount_def)
qed

subsection \<open>The second factor\<close>

text \<open>The request gives a valid passcode for the factor, or its recovery code where these are allowed.\<close>

definition provesFactor :: "ApiEnv \<Rightarrow> Request \<Rightarrow> go_time \<Rightarrow> UserTotp \<Rightarrow> bool" where
  "provesFactor e r t0 t \<longleftrightarrow>
     (\<exists>code. e_BindText e (rq_Body r) = Some code \<and>
       ((\<exists>key. e_TotpKey e (Totp_URL t) = Some key \<and> e_TotpValid e code key t0) \<or>
        e_TotpAllowRecovery e \<and> e_VerifyRecoveryCode e code (Totp_RecoveryHash t)))"

definition letIn :: "Api \<Rightarrow> Api \<Rightarrow> Session \<Rightarrow> bool" where
  "letIn d d' s \<longleftrightarrow> s \<in> set (a_session d') \<and> IsVerified s \<and>
     \<not> (\<exists>s0 \<in> set (a_session d). Session_ID s0 = Session_ID s \<and> Session_UserID s0 = Session_UserID s \<and> IsVerified s0)"

definition factored :: "Api \<Rightarrow> ident \<Rightarrow> UserTotp \<Rightarrow> bool" where
  "factored d i t \<longleftrightarrow> t \<in> set (a_totp d) \<and> Totp_UserID t = i"

definition sessionsGuarded :: "ApiEnv \<Rightarrow> Request \<Rightarrow> Api \<Rightarrow> Api \<Rightarrow> bool" where
  "sessionsGuarded e r d d' \<longleftrightarrow>
     (\<forall>s t. letIn d d' s \<and> factored d (Session_UserID s) t \<longrightarrow> provesFactor e r (a_now d) t)"

text \<open>No session is let in at all.\<close>

definition noneLetIn :: "Api \<Rightarrow> Api \<Rightarrow> bool" where
  "noneLetIn d d' \<longleftrightarrow> (\<forall>s. \<not> letIn d d' s)"

lemma noneLetIn_guarded: "noneLetIn d d' \<Longrightarrow> sessionsGuarded e r d d'"
  by (simp add: noneLetIn_def sessionsGuarded_def)

lemma noneLetIn_cong: "a_session d' = a_session d \<Longrightarrow> noneLetIn d0 d \<Longrightarrow> noneLetIn d0 d'"
  by (simp add: noneLetIn_def letIn_def)

lemma noneLetIn_fewer: "set (a_session d') \<subseteq> set (a_session d) \<Longrightarrow> noneLetIn d0 d \<Longrightarrow> noneLetIn d0 d'"
  by (auto simp: noneLetIn_def letIn_def)

lemma noneLetIn_refl: "noneLetIn d d"
  by (auto simp: noneLetIn_def letIn_def)

lemma noneLetIn_written:
  "noneLetIn d0 d \<Longrightarrow> (\<And>s. Session_ID (f s) = Session_ID s \<and> Session_UserID (f s) = Session_UserID s \<and> IsVerified (f s) = IsVerified s) \<Longrightarrow>
    noneLetIn d0 (d\<lparr>a_session := map (\<lambda>s. if P s then f s else s) (a_session d)\<rparr>)"
  unfolding noneLetIn_def letIn_def by (auto; metis)

lemma IsVerified_cong: "IsVerified (s\<lparr>Session_Expired := b\<rparr>) = IsVerified s" "IsVerified (s\<lparr>Session_LastActive := n\<rparr>) = IsVerified s"
  by (simp_all add: IsVerified_def)

interpretation quiet: plain_queries "noneLetIn d0" for d0
proof
  show "q_ExpireSession i j d = Inr d' \<Longrightarrow> noneLetIn d0 d \<Longrightarrow> noneLetIn d0 d'" for i j d d'
    by (auto simp: q_ExpireSession_def updateSession_def change_def IsVerified_cong split: if_splits
        intro!: noneLetIn_written)
  show "q_TouchSession i j d = Inr d' \<Longrightarrow> noneLetIn d0 d \<Longrightarrow> noneLetIn d0 d'" for i j d d'
    by (auto simp: q_TouchSession_def updateSession_def change_def IsVerified_cong split: if_splits
        intro!: noneLetIn_written)
  show "q_DeleteUser i d = Inr d' \<Longrightarrow> noneLetIn d0 d \<Longrightarrow> noneLetIn d0 d'" for i d d'
    by (auto simp: q_DeleteUser_def split: if_splits dest!: changeUsers_Inr elim!: noneLetIn_fewer [rotated])
qed (auto simp: query_defs split: step_splits dest!: changeUsers_Inr elim!: noneLetIn_cong [rotated])

text \<open>Who signs in comes with the second factor that the tables have.\<close>

definition withFactor :: "Api \<Rightarrow> Account \<Rightarrow> bool" where
  "withFactor d u \<longleftrightarrow> (\<forall>t. factored d (User_ID u) t \<longrightarrow> User_Totp u \<noteq> None)"

lemma withTotp_factor:
  assumes "withTotp d u = Inr v" and "\<not> a_faults d S_Totp"
  shows "withFactor d v \<and> User_ID v = User_ID u"
  using assms by (auto simp: withTotp_def withFactor_def factored_def pick_def find_None_iff Let_def
      split: if_splits option.splits)

lemma GetUser_factor: "q_GetUser i d = Inr u \<Longrightarrow> \<not> a_faults d S_Totp \<Longrightarrow> withFactor d u"
  by (auto simp: q_GetUser_def dest: withTotp_factor split: sum.splits)

lemma GetUserByLogin_factor: "q_GetUserByLoginOrEmail l m d = Inr u \<Longrightarrow> \<not> a_faults d S_Totp \<Longrightarrow> withFactor d u"
  by (auto simp: q_GetUserByLoginOrEmail_def dest: withTotp_factor split: sum.splits)

lemma withFactor_cong: "a_totp d' = a_totp d \<Longrightarrow> withFactor d' u = withFactor d u"
  by (simp add: withFactor_def factored_def)

lemma sync_totp:
  "syncExternalUserAttrs e u p d = (Inr v, d') \<Longrightarrow> User_ID v = User_ID u \<and> User_Totp v = User_Totp u"
  by (auto simp: syncExternalUserAttrs_def Let_def split: if_splits sum.splits)

lemma sync_factor: "syncExternalUserAttrs e u p d = (Inr v, d') \<Longrightarrow> withFactor d u \<Longrightarrow> withFactor d v"
  by (auto simp: withFactor_def dest: sync_totp)

lemma insertUser_fresh:
  "insertUser u d = (Inr v, d') \<Longrightarrow> User_ID v = a_next d \<and> a_session d' = a_session d \<and> a_totp d' = a_totp d"
  by (auto simp: insertUser_def Let_def split: if_splits)

lemma CreateIdentity_frame:
  "q_CreateExternalIdentity i d = Inr d' \<Longrightarrow> a_session d' = a_session d \<and> a_totp d' = a_totp d"
  by (auto simp: q_CreateExternalIdentity_def change_def Let_def split: if_splits)

lemma create_factor:
  assumes "createExternalUser e p d = (Inr v, d')" and "api_ok d"
  shows "withFactor d v \<and> a_session d' = a_session d"
proof -
  obtain d1 where "insertUser (zeroAccount\<lparr>User_Username := prof_Username p, User_Name := prof_Name p,
      User_Email := prof_Email p, User_External := True, User_Password := []\<rparr>) d = (Inr v, d1)"
    and i: "q_CreateExternalIdentity (identityOf (User_ID v) p) d1 = Inr d'"
    using assms(1) by (auto simp: createExternalUser_def q_CreateUserWithoutPassword_def
        split: option.splits prod.splits sum.splits)
  then have v: "User_ID v = a_next d" "a_session d1 = a_session d" by (auto dest: insertUser_fresh)
  have "Totp_UserID ` set (a_totp d) \<subseteq> User_ID ` set (a_user d)" "\<forall>x \<in> set (a_user d). User_ID x < a_next d"
    using assms(2) by (simp_all add: api_ok_def refersTo_def below_def)
  then have "\<not> factored d (a_next d) t" for t unfolding factored_def by (metis image_iff order_less_irrefl subsetD)
  then show ?thesis using v CreateIdentity_frame [OF i] by (simp add: withFactor_def)
qed

lemma match_factor:
  "matchExternalUserByEmail e p d = Inr u \<Longrightarrow> \<not> a_faults d S_Totp \<Longrightarrow> withFactor d u"
  by (auto simp: matchExternalUserByEmail_def Let_def dest: GetUserByLogin_factor split: if_splits sum.splits)

text \<open>Finding or creating the account of an external user leaves the sessions alone.\<close>

lemma sync_sessions: "syncExternalUserAttrs e u p d = (res, d') \<Longrightarrow> a_session d' = a_session d"
  by (auto simp: syncExternalUserAttrs_def Let_def elim!: q_UpdateUser_written dest!: changeUsers_Inr
      split: if_splits sum.splits)

lemma create_sessions:
  "createExternalUser e p d = (res, d') \<Longrightarrow> set (a_session d') \<subseteq> set (a_session d)"
  "createExternalUser e p d = (Inr u, d') \<Longrightarrow> a_session d' = a_session d"
  by (auto simp: createExternalUser_def q_CreateUserWithoutPassword_def insertUser_def Let_def q_DeleteUser_def
      dest: CreateIdentity_frame dest!: changeUsers_Inr split: if_splits sum.splits option.splits prod.splits)

lemma resolve_cases:
  assumes "resolveExternalUser e p d = (res, d')"
  obtains (same) err where "res = Inl err" "d' = d"
    | (known) i u where "q_GetUser i d = Inr u" "syncExternalUserAttrs e u p d = (res, d')"
    | (matched) u i d1 where "matchExternalUserByEmail e p d = Inr u" "q_CreateExternalIdentity i d = Inr d1"
        "syncExternalUserAttrs e u p d1 = (res, d')"
    | (new) "createExternalUser e p d = (res, d')"
proof (cases "q_GetExternalIdentity (prof_Type p) (prof_Provider p) (prof_ExternalUID p) d")
  case identity: (Inr i)
  show ?thesis
  proof (cases "q_GetUser (Ident_UserID i) d")
    case (Inl err)
    show ?thesis using assms same by (auto simp: resolveExternalUser_def identity Inl split: if_splits)
  next
    case (Inr u)
    show ?thesis using assms same known [OF Inr]
      by (auto simp: resolveExternalUser_def identity Inr split: if_splits)
  qed
next
  case identity: (Inl err)
  show ?thesis
  proof (cases "matchExternalUserByEmail e p d")
    case (Inr u)
    with identity assms show ?thesis using same matched
      by (cases err) (auto simp: resolveExternalUser_def split: if_splits sum.splits)
  next
    case (Inl err2)
    show ?thesis using assms same new
      by (cases err; cases err2) (auto simp: resolveExternalUser_def identity Inl split: if_splits)
  qed
qed

lemma resolve_sessions:
  "resolveExternalUser e p d = (res, d') \<Longrightarrow> set (a_session d') \<subseteq> set (a_session d)"
  "resolveExternalUser e p d = (Inr u, d') \<Longrightarrow> a_session d' = a_session d"
  by (elim resolve_cases; simp add: sync_sessions create_sessions CreateIdentity_frame)+

lemma resolve_factor:
  assumes "resolveExternalUser e p d = (Inr u, d')" and "api_ok d" and "\<not> a_faults d S_Totp"
  shows "withFactor d u \<and> a_session d' = a_session d"
proof
  show "withFactor d u" using assms(1)
  proof (cases rule: resolve_cases)
    case (known i v)
    then show ?thesis using GetUser_factor assms(3) sync_factor by metis
  next
    case (matched v i d1)
    then have "withFactor d1 v" "a_totp d1 = a_totp d"
      using match_factor assms(3) CreateIdentity_frame withFactor_cong by metis+
    then show ?thesis using sync_totp [OF matched(3)] by (simp add: withFactor_def factored_def)
  qed (use create_factor assms(2) in auto)
qed (use assms(1) in \<open>rule resolve_sessions(2)\<close>)

lemma authenticate_factor:
  assumes "authenticate e a pw m pr d = (Inr (Inr u), d')" and "api_ok d" and "\<not> a_faults d S_Totp"
  shows "withFactor d u \<and> a_session d' = a_session d"
proof -
  have "withFactor d u" if "loginByPassword e a pw d = Inr u"
    using that GetUserByLogin_factor [OF _ assms(3)] by (auto simp: loginByPassword_def split: sum.splits if_splits)
  then show ?thesis
    using assms(1) resolve_factor [OF _ assms(2,3)] unfolding authenticate_def loginByLDAP_def Let_def
    by (auto split: if_splits sum.splits option.splits prod.splits list.splits)
qed

lemma createSession_guarded:
  assumes "createSession e u d1 = (resp, d')" and "a_session d1 = a_session d" and "withFactor d u" and "e_TotpEnabled e"
  shows "sessionsGuarded e r d d'"
proof -
  have "a_session d' = a_session d \<or> (\<exists>s. a_session d' = a_session d @ [s] \<and> Session_UserID s = User_ID u \<and>
      IsVerified s = (User_Totp u = None))"
    using assms(1,2,4) by (auto simp: createSession_def q_CreateSession_def IsVerified_def Let_def
        split: if_splits prod.splits sum.splits)
  then show ?thesis
    using assms(3) by (auto simp: sessionsGuarded_def letIn_def withFactor_def)
qed

lemma authenticate_sessions: "authenticate e a pw m pr d = (res, d') \<Longrightarrow> set (a_session d') \<subseteq> set (a_session d)"
  unfolding authenticate_def loginByLDAP_def Let_def
  by (auto dest: resolve_sessions(1) [THEN subsetD] split: if_splits sum.splits option.splits prod.splits)

lemma same_sessions_guarded: "set (a_session d') \<subseteq> set (a_session d) \<Longrightarrow> sessionsGuarded e r d d'"
  by (auto simp: sessionsGuarded_def letIn_def)

lemma login_guarded:
  assumes "login e r c d = Some (resp, d')" and "api_ok d" and "\<not> a_faults d S_Totp" and "e_TotpEnabled e"
  shows "sessionsGuarded e r d d'"
proof (cases "set (a_session d') \<subseteq> set (a_session d)")
  case False
  then obtain a pw m pr u d1 where "authenticate e (toLower a) pw m pr d = (Inr (Inr u), d1)"
    and c: "createSession e u d1 = (resp, d')"
    using assms(1) by (auto simp: login_def dest: authenticate_sessions [THEN subsetD]
        split: if_splits option.splits prod.splits sum.splits go_error.splits)
  with assms(2,3) have "withFactor d u" "a_session d1 = a_session d" by (auto dest!: authenticate_factor)
  with c assms(4) show ?thesis by (blast intro: createSession_guarded)
qed (rule same_sessions_guarded)

lemma GetUser_totp:
  "q_GetUser i d = Inr u \<Longrightarrow> User_Totp u = Some t \<Longrightarrow> t \<in> set (a_totp d) \<and> Totp_UserID t = i \<and> User_ID u = i"
  by (auto simp: q_GetUser_def withTotp_def Let_def dest!: pick_found split: sum.splits if_splits)

text \<open>The session that a second step verifies is of the user whose factor was checked.\<close>

lemma verified_guarded:
  assumes "q_VerifySession i j d1 = Inr d'" and "a_session d1 = a_session d" and "api_ok d"
    and "t \<in> set (a_totp d)" "Totp_UserID t = i" and "provesFactor e r (a_now d) t"
  shows "sessionsGuarded e r d d'"
  unfolding sessionsGuarded_def
proof clarify
  fix s t' assume l: "letIn d d' s" and f: "factored d (Session_UserID s) t'"
  have "Session_UserID s = i"
    using l assms(1,2) by (auto simp: q_VerifySession_def updateSession_def change_def letIn_def split: if_splits)
  with f assms(3,4,5) have "t' = t"
    by (auto simp: factored_def api_ok_def keyed_def distinct_map dest: inj_onD)
  then show "provesFactor e r (a_now d) t'" using assms(6) by simp
qed

lemma verifySession_guarded:
  assumes "verifySession e r c d = Some (resp, d')" and ok: "api_ok d"
  shows "sessionsGuarded e r d d'"
proof (cases "\<exists>d1. noneLetIn d d1 \<and> d' = d1")
  case False
  then obtain s d1 code u t key where g: "getSession e r d = (Some s, d1)"
    and u: "q_GetUser (Session_UserID s) d1 = Inr u" "User_Totp u = Some t"
    and t: "e_BindText e (rq_Body r) = Some code" "e_TotpKey e (Totp_URL t) = Some key" "e_TotpValid e code key (a_now d1)"
    and v: "q_VerifySession (Session_UserID s) (Session_ID s) d1 = Inr d'"
    using assms(1) quiet.kept_getSession [OF _ noneLetIn_refl] unfolding verifySession_def
    by (auto split: option.splits prod.splits sum.splits if_splits SessionVerificationMethod.splits)
  have d1: "d1 = d" using getSession_found [OF g] by simp
  show ?thesis
    using v ok GetUser_totp [OF u] t unfolding d1 by (intro verified_guarded [of _ _ d]) (auto simp: provesFactor_def)
qed (auto intro: noneLetIn_guarded)

lemma recoverySession_guarded:
  assumes "recoverySession e r c d = Some (resp, d')" and ok: "api_ok d"
  shows "sessionsGuarded e r d d'"
proof (cases "\<exists>d1. noneLetIn d d1 \<and> d' = d1")
  case False
  then obtain s d1 d2 code u t where g: "getSession e r d = (Some s, d1)"
    and u: "q_GetUser (Session_UserID s) d1 = Inr u" "User_Totp u = Some t"
    and t: "e_BindText e (rq_Body r) = Some code" "e_TotpAllowRecovery e" "e_VerifyRecoveryCode e code (Totp_RecoveryHash t)"
    and x: "q_DeleteTotpVerification (User_ID u) (Totp_ID t) d1 = Inr d2"
    and v: "q_VerifySession (Session_UserID s) (Session_ID s) d2 = Inr d'"
    using assms(1) quiet.kept_getSession [OF _ noneLetIn_refl] quiet.kept_DeleteTotp unfolding recoverySession_def
    by (fastforce split: option.splits prod.splits sum.splits if_splits SessionVerificationMethod.splits)
  have d1: "d1 = d" using getSession_found [OF g] by simp
  have "a_session d2 = a_session d"
    using x unfolding d1 by (auto simp: q_DeleteTotpVerification_def change_def split: if_splits)
  then show ?thesis
    using v ok GetUser_totp [OF u] t unfolding d1 by (intro verified_guarded [of _ _ d2]) (auto simp: provesFactor_def)
qed (auto intro: noneLetIn_guarded)

lemma oidcRedirect_guarded:
  assumes "oidcRedirect e r c d = Some (resp, d')" and "api_ok d" and "\<not> a_faults d S_Totp" and "e_TotpEnabled e"
  shows "sessionsGuarded e r d d'"
proof -
  have "noneLetIn d d'" if "linkRedirect e r pid cl d = Some (resp, d')" for pid cl resp
    using that quiet.kept_getSession [OF _ noneLetIn_refl] quiet.kept_link
    by (fastforce simp: linkRedirect_def split: step_splits linkError.splits)
  moreover have "sessionsGuarded e r d d'" if s: "signInRedirect e r pid cfg st cl d = Some (resp, d')" for pid cfg st cl resp
  proof (cases "set (a_session d') \<subseteq> set (a_session d)")
    case False
    then obtain p u d1 resp' where x: "resolveExternalUser e p d = (Inr u, d1)" and c: "createSession e u d1 = (resp', d')"
      using s by (auto simp: signInRedirect_def Let_def dest: resolve_sessions(1) [THEN subsetD] split: step_splits)
    from x assms(2,3) have "withFactor d u" "a_session d1 = a_session d" by (auto dest!: resolve_factor)
    with c assms(4) show ?thesis by (blast intro: createSession_guarded)
  qed (rule same_sessions_guarded)
  ultimately show ?thesis
    using assms(1) by (auto simp: oidcRedirect_def Let_def same_sessions_guarded noneLetIn_guarded split: step_splits)
qed

lemma writers_guarded:
  "users_AddUser e r c d = Some (resp, d') \<Longrightarrow> sessionsGuarded e r d d'"
  "users_UpdateUser e r c d = Some (resp, d') \<Longrightarrow> sessionsGuarded e r d d'"
  by (auto simp: users_AddUser_def users_UpdateUser_def handler_defs q_CreateUserWithoutPassword_def q_CreateUser_def
      insertUser_def intro!: same_sessions_guarded elim!: q_UpdateUser_written dest!: changeUsers_Inr split: step_splits)

subsection \<open>The way to a handler\<close>

lemma onlySessions_trans: "onlySessions d d1 \<Longrightarrow> onlySessions d1 d2 \<Longrightarrow> onlySessions d d2"
  unfolding onlySessions_def by (metis Api.surjective Api.update_convs(3))

lemma authentication_only: "authenticationHandler e r c d = Some (ans, d') \<Longrightarrow> onlySessions d d'"
  unfolding authenticationHandler_def loadUser_def
  by (auto dest: getSession_only updateSession_only simp: q_TouchSession_def
      split: if_splits option.splits sum.splits prod.splits intro: onlySessions_trans)

lemma middleware_only: "middleware e m r c d = Some (ans, d') \<Longrightarrow> onlySessions d d'"
  by (cases "m = M_Authentication"; cases ans)
     (auto dest: authentication_only middleware_frame(1) middleware_answer_frame)

lemma chain_only: "runChain e r ms c d = Some (ans, d') \<Longrightarrow> onlySessions d d'"
  by (induction ms arbitrary: c d)
     (auto split: option.splits prod.splits answer.splits dest: middleware_only intro: onlySessions_trans)

lemma reach_only: "reach e path r d = Some (res, d') \<Longrightarrow> onlySessions d d'"
  by (auto simp: reach_def Let_def split: option.splits prod.splits answer.splits dest: chain_only)

lemma reach_request: "reach e path r d = Some (Reached name r1 c, d1) \<Longrightarrow> \<exists>vars. r1 = r\<lparr>rq_Vars := vars\<rparr>"
  by (erule reach_cases) blast

lemma handlers_cases:
  assumes "(name, h) \<in> set handlers"
  obtains (plain) "name \<notin> {''login'', ''verifySession'', ''recoverySession'', ''oidcRedirect'',
      ''usersController.AddUser'', ''usersController.UpdateUser''}"
    | (login) "name = ''login''" "h = login" | (verify) "h = verifySession" | (recovery) "h = recoverySession"
    | (oidc) "h = oidcRedirect" | (add) "name = ''usersController.AddUser''" "h = users_AddUser"
    | (update) "name = ''usersController.UpdateUser''" "h = users_UpdateUser"
proof -
  have "list_all (\<lambda>(name, h). name \<notin> {''login'', ''verifySession'', ''recoverySession'', ''oidcRedirect'',
      ''usersController.AddUser'', ''usersController.UpdateUser''} \<or> name = ''login'' \<and> h = login \<or>
      h = verifySession \<or> h = recoverySession \<or> h = oidcRedirect \<or>
      name = ''usersController.AddUser'' \<and> h = users_AddUser \<or>
      name = ''usersController.UpdateUser'' \<and> h = users_UpdateUser) handlers"
    by (simp add: handlers_def)
  from this [unfolded list_all_iff, rule_format, OF assms] show ?thesis unfolding prod.case using that by argo
qed

lemma guarded_through:
  assumes "sessionsGuarded e r1 d1 d'" and "noneLetIn d d1" and "onlySessions d d1" and "\<exists>vars. r1 = r\<lparr>rq_Vars := vars\<rparr>"
  shows "sessionsGuarded e r d d'"
proof -
  have "letIn d1 d' s" if "letIn d d' s" for s using that assms(2) unfolding letIn_def noneLetIn_def by metis
  moreover have "provesFactor e r1 = provesFactor e r" using assms(4) by (auto simp: provesFactor_def fun_eq_iff)
  moreover have "factored d1 = factored d" "a_now d1 = a_now d"
    by (simp_all add: fun_eq_iff factored_def a_now_def onlySessions_frame [OF assms(3)])
  ultimately show ?thesis using assms(1) unfolding sessionsGuarded_def by auto
qed

text \<open>C14. The second factor is required. Suppose the configuration enables one-time passwords, the tables are
  well-formed, and the query for the factor of an account does not fail. Then, when an account has a second factor,
  the request to a modelled handler after which a session of the account is verified (one that was not verified
  before, or one that is new) brings a passcode that is valid for the factor at that time, or its recovery code
  where the configuration allows recovery. This holds for every way to sign in: password, directory and identity
  provider. (When the query for the factor fails, the code takes the account for one without a factor.)\<close>

theorem second_factor_required:
  assumes "ServeHTTP outside e path r d = Some (resp, d')" and "api_ok d" and "\<not> a_faults d S_Totp"
    and "e_TotpEnabled e" and "t \<in> set (a_totp d)"
    and "s \<in> set (a_session d')" and "Session_UserID s = Totp_UserID t" and "IsVerified s"
    and "\<forall>s0 \<in> set (a_session d). Session_ID s0 = Session_ID s \<longrightarrow> \<not> IsVerified s0"
  shows "provesFactor e r (a_now d) t"
proof -
  have "sessionsGuarded e r d d'" using assms(1)
  proof (cases rule: ServeHTTP_cases)
    case (refused res)
    then show ?thesis by (blast intro: noneLetIn_guarded quiet.kept_reach noneLetIn_refl)
  next
    case (handled name h r1 c d1 resp1)
    note o = reach_only [OF handled(1)]
    have ok: "api_ok d1" and n: "noneLetIn d d1"
      using handled(1) assms(2) by (blast intro: tables.kept_reach quiet.kept_reach noneLetIn_refl)+
    have f: "\<not> a_faults d1 S_Totp" using assms(3) onlySessions_frame [OF o] by simp
    have "sessionsGuarded e r1 d1 d'" using handled(2)
    proof (cases rule: handlers_cases)
      case plain
      then have "stable (noneLetIn d1) h"
        using bspec [OF quiet.stable_plain_handlers [unfolded list_all_iff] handled(2)] by simp
      from stableD [OF this handled(3)] show ?thesis by (simp add: noneLetIn_guarded noneLetIn_refl)
    next
      case login
      show ?thesis using handled(3) unfolding login(2) by (rule login_guarded) (fact ok f assms(4))+
    next
      case verify
      show ?thesis using handled(3) unfolding verify by (rule verifySession_guarded) (rule ok)
    next
      case recovery
      show ?thesis using handled(3) unfolding recovery by (rule recoverySession_guarded) (rule ok)
    next
      case oidc
      show ?thesis using handled(3) unfolding oidc by (rule oidcRedirect_guarded) (fact ok f assms(4))+
    next
      case add
      show ?thesis using handled(3) unfolding add(2) by (rule writers_guarded)
    next
      case update
      show ?thesis using handled(3) unfolding update(2) by (rule writers_guarded)
    qed
    then show ?thesis by (rule guarded_through [OF _ n o reach_request [OF handled(1)]])
  qed
  moreover have "letIn d d' s" using assms(6,8,9) by (auto simp: letIn_def)
  ultimately show ?thesis using assms(5,7) unfolding sessionsGuarded_def factored_def by metis
qed

theorem second_factor_required_witness: "provesFactor sampleApiEnv verifyRequest 2000 sampleTotp"
proof -
  obtain resp d' where a: "ServeHTTP outside sampleApiEnv ''/api/auth/verify'' verifyRequest sampleApi = Some (resp, d')"
    and s: "(sampleSession 6 3 SessionVerificationTotp)\<lparr>Session_Verified := True\<rparr> \<in> set (a_session d')"
    using verify_answered by (elim exE conjE)
  have "provesFactor sampleApiEnv verifyRequest (a_now sampleApi) sampleTotp"
    by (rule second_factor_required [OF a sample_api_ok _ _ _ s])
       (auto simp: api_sample_defs IsVerified_def)
  then show ?thesis by (simp add: a_now_def sampleApi_def emptyWorld_def)
qed

subsection \<open>Rights of administrators\<close>

definition noNewAdmin :: "Api \<Rightarrow> Api \<Rightarrow> bool" where
  "noNewAdmin d0 d \<longleftrightarrow>
     (\<forall>u \<in> set (a_user d). User_Admin u \<longrightarrow> (\<exists>v \<in> set (a_user d0). User_ID v = User_ID u \<and> User_Admin v))"

lemma noNewAdmin_refl: "noNewAdmin d d"
  by (auto simp: noNewAdmin_def)

lemma noNewAdmin_trans: "noNewAdmin d d1 \<Longrightarrow> noNewAdmin d1 d2 \<Longrightarrow> noNewAdmin d d2"
  unfolding noNewAdmin_def by metis

lemma noNewAdmin_cong: "a_user d' = a_user d \<Longrightarrow> noNewAdmin d0 d \<Longrightarrow> noNewAdmin d0 d'"
  by (simp add: noNewAdmin_def)

lemma same_users: "a_user d' = a_user d \<Longrightarrow> noNewAdmin d d'"
  by (rule noNewAdmin_cong [OF _ noNewAdmin_refl])

interpretation admins: plain_queries "noNewAdmin d0" for d0
proof
  show "q_SetUserPassword h i p d = Inr d' \<Longrightarrow> noNewAdmin d0 d \<Longrightarrow> noNewAdmin d0 d'" for h i p d d'
    by (auto simp: q_SetUserPassword_def change_def noNewAdmin_def split: sum.splits if_splits)
  show "q_DeleteUser i d = Inr d' \<Longrightarrow> noNewAdmin d0 d \<Longrightarrow> noNewAdmin d0 d'" for i d d'
    by (auto simp: q_DeleteUser_def noNewAdmin_def dest!: changeUsers_Inr)
qed (auto simp: query_defs split: step_splits dest!: changeUsers_Inr elim!: noNewAdmin_cong [rotated])

text \<open>An account as it was read has the rights of its row.\<close>

definition entitled :: "Api \<Rightarrow> Account \<Rightarrow> bool" where
  "entitled d u \<longleftrightarrow> (User_Admin u \<longrightarrow> (\<exists>row \<in> set (a_user d). User_ID row = User_ID u \<and> User_Admin row))"

lemma row_entitled: "row \<in> set (a_user d) \<Longrightarrow> u = row\<lparr>User_Totp := x\<rparr> \<Longrightarrow> entitled d u"
  by (auto simp: entitled_def)

lemma GetUser_entitled: "q_GetUser i d = Inr u \<Longrightarrow> entitled d u"
  by (drule q_GetUser_found) (auto intro: row_entitled)

lemma GetUserByLogin_entitled: "q_GetUserByLoginOrEmail l m d = Inr u \<Longrightarrow> entitled d u"
  unfolding q_GetUserByLoginOrEmail_def withTotp_def Let_def
  by (auto dest!: pick_found split: sum.splits if_splits intro: row_entitled)

lemma UpdateUser_admins:
  assumes "q_UpdateUser h v d = Inr d'" and "entitled d (Account.truncate v)"
  shows "noNewAdmin d d'"
  using assms(1)
proof (rule q_UpdateUser_written)
  fix f
  assume c: "changeUsers S_UpdateUser (\<lambda>d. d\<lparr>a_user :=
      map (\<lambda>row. if User_ID row = User_ID v then f row else row) (a_user d)\<rparr>) d = Inr d'"
    and "f = writeUser (Account.truncate v) \<or> (\<exists>h. f = (\<lambda>row. (writeUser (Account.truncate v) row)\<lparr>User_Password := h\<rparr>))"
  then have "User_ID (f row) = User_ID row" "User_Admin (f row) = User_Admin (Account.truncate v)" for row
    by (auto simp: writeUser_def)
  with assms(2) changeUsers_Inr [OF c] show ?thesis by (auto simp: noNewAdmin_def entitled_def)
qed

lemma sync_admins:
  assumes "syncExternalUserAttrs e u p d = (res, d')" and "entitled d u"
  shows "noNewAdmin d d'"
  using assms unfolding syncExternalUserAttrs_def Let_def
  by (auto split: if_splits sum.splits intro!: noNewAdmin_refl UpdateUser_admins
      simp: entitled_def withoutPwd_def Account.truncate_def Account.extend_def)

lemma insert_admins: "insertUser u d = (res, d') \<Longrightarrow> \<not> User_Admin u \<Longrightarrow> noNewAdmin d d'"
  by (auto simp: insertUser_def Let_def noNewAdmin_def split: if_splits)

lemma CreateIdentity_users: "q_CreateExternalIdentity i d = Inr d' \<Longrightarrow> a_user d' = a_user d"
  by (auto simp: q_CreateExternalIdentity_def change_def Let_def split: if_splits)

lemma create_admins:
  assumes "createExternalUser e p d = (res, d')"
  shows "noNewAdmin d d'"
proof -
  obtain r1 d1 where c: "q_CreateUserWithoutPassword (zeroAccount\<lparr>User_Username := prof_Username p,
      User_Name := prof_Name p, User_Email := prof_Email p, User_External := True\<rparr>) d = (r1, d1)" by fastforce
  then have "noNewAdmin d d1"
    by (auto simp: q_CreateUserWithoutPassword_def zeroAccount_def split: option.splits
        intro: insert_admins noNewAdmin_refl)
  with c assms show ?thesis
    by (auto simp: createExternalUser_def split: sum.splits dest: admins.kept_CreateIdentity admins.kept_DeleteUser)
qed

lemma resolve_admins: "resolveExternalUser e p d = (res, d') \<Longrightarrow> noNewAdmin d d'"
proof (elim resolve_cases)
  fix u i d1
  assume u: "matchExternalUserByEmail e p d = Inr u" and i: "q_CreateExternalIdentity i d = Inr d1"
    and s: "syncExternalUserAttrs e u p d1 = (res, d')"
  have "entitled d u"
    using u by (auto simp: matchExternalUserByEmail_def Let_def dest: GetUserByLogin_entitled split: if_splits sum.splits)
  then have "entitled d1 u" using CreateIdentity_users [OF i] by (simp add: entitled_def)
  from sync_admins [OF s this] show "noNewAdmin d d'"
    using CreateIdentity_users [OF i] by (simp add: noNewAdmin_def)
qed (auto intro: noNewAdmin_refl sync_admins GetUser_entitled create_admins)

lemma authenticate_admins: "authenticate e a pw m pr d = (res, d') \<Longrightarrow> noNewAdmin d d'"
  unfolding authenticate_def loginByLDAP_def Let_def
  by (auto dest: resolve_admins simp: noNewAdmin_refl split: if_splits sum.splits option.splits prod.splits)

lemma createSession_users: "createSession e u d = (resp, d') \<Longrightarrow> a_user d' = a_user d"
  by (auto simp: createSession_def q_CreateSession_def Let_def split: if_splits prod.splits sum.splits)

lemma createSession_admins: "createSession e u d1 = (resp, d') \<Longrightarrow> noNewAdmin d d1 \<Longrightarrow> noNewAdmin d d'"
  by (blast intro: noNewAdmin_cong createSession_users)

lemma login_admins: "login e r c d = Some (resp, d') \<Longrightarrow> noNewAdmin d d'"
  by (auto simp: login_def noNewAdmin_refl dest: authenticate_admins createSession_admins
      split: if_splits option.splits prod.splits sum.splits go_error.splits)

lemma getSession_users: "getSession e r d = (s, d') \<Longrightarrow> a_user d' = a_user d"
  by (drule getSession_only) (simp add: onlySessions_frame)

lemma second_step_users:
  "verifySession e r c d = Some (resp, d') \<Longrightarrow> a_user d' = a_user d"
  "recoverySession e r c d = Some (resp, d') \<Longrightarrow> a_user d' = a_user d"
  by (auto simp: verifySession_def recoverySession_def q_VerifySession_def updateSession_def change_def
      q_DeleteTotpVerification_def dest: getSession_users
      split: step_splits SessionVerificationMethod.splits)

lemma oidcRedirect_admins:
  assumes "oidcRedirect e r c d = Some (resp, d')"
  shows "noNewAdmin d d'"
proof -
  have "noNewAdmin d d'" if "linkRedirect e r pid cl d = Some (resp, d')" for pid cl resp
    using that admins.kept_getSession [OF _ noNewAdmin_refl] admins.kept_link
    by (fastforce simp: linkRedirect_def split: step_splits linkError.splits)
  moreover have "noNewAdmin d d'" if "signInRedirect e r pid cfg st cl d = Some (resp, d')" for pid cfg st cl resp
    using that by (auto simp: signInRedirect_def Let_def dest: resolve_admins createSession_admins split: step_splits)
  ultimately show ?thesis
    using assms by (auto simp: oidcRedirect_def Let_def noNewAdmin_refl split: step_splits)
qed

lemma AddUser_admin:
  assumes "users_AddUser e r c d = Some (resp, d')"
  shows "noNewAdmin d d' \<or> (\<exists>editor new. cx_user c = Some editor \<and> User_Admin editor \<and>
    a_user d' = a_user d @ [new] \<and> User_ID new = a_next d)"
  using assms
  by (auto simp: users_AddUser_def withUser_def q_CreateUserWithoutPassword_def q_CreateUser_def insertUser_def
      Let_def noNewAdmin_refl split: step_splits)

text \<open>Whoever is not an administrator does not change the flag, and nobody changes the own one.\<close>

lemma UpdateUser_admin:
  assumes "users_UpdateUser e r c d = Some (resp, d')" and "\<And>t. cx_target c = Some t \<Longrightarrow> entitled d t"
  shows "noNewAdmin d d' \<or> (\<exists>editor i. cx_user c = Some editor \<and> User_Admin editor \<and> User_ID editor \<noteq> i \<and>
    (\<forall>u \<in> set (a_user d'). User_ID u \<noteq> i \<longrightarrow> u \<in> set (a_user d)))"
proof (cases "d' = d")
  case False
  then obtain editor target user where c: "cx_user c = Some editor" "cx_target c = Some target"
    and own: "User_ID editor = User_ID target \<Longrightarrow> User_Admin target = User_Admin user"
    and may: "User_Admin editor \<or> User_ID editor = User_ID target"
    and q: "q_UpdateUser (e_HashPassword e) (user\<lparr>User_ID := User_ID target\<rparr>) d = Inr d'"
    using assms(1) by (auto simp: users_UpdateUser_def onTarget_def orStatus_def split: step_splits)
  show ?thesis
  proof (cases "User_ID editor = User_ID target")
    case True
    have "entitled d (Account.truncate (user\<lparr>User_ID := User_ID target\<rparr>))"
      using own [OF True] assms(2) [OF c(2)] by (simp add: entitled_def Account.truncate_def)
    with q show ?thesis by (blast intro: UpdateUser_admins)
  next
    case False
    from q obtain f where "changeUsers S_UpdateUser (\<lambda>d. d\<lparr>a_user :=
        map (\<lambda>row. if User_ID row = User_ID target then f row else row) (a_user d)\<rparr>) d = Inr d'"
      and f: "\<And>row. User_ID (f row) = User_ID row"
      by (rule q_UpdateUser_written) (auto simp: writeUser_def)
    from changeUsers_Inr [OF this(1)] f
    have "\<forall>u \<in> set (a_user d'). User_ID u \<noteq> User_ID target \<longrightarrow> u \<in> set (a_user d)" by auto
    with False c may show ?thesis by auto
  qed
qed (simp add: noNewAdmin_refl)

lemma signedIn_row:
  assumes "signedIn e r d u"
  obtains row where "row \<in> set (a_user d)" "User_ID u = User_ID row"
proof -
  obtain row x where "row \<in> set (a_user d)" "u = row\<lparr>User_Totp := x\<rparr>" using assms by (auto simp: signedIn_def)
  then show ?thesis using that by simp
qed

interpretation target_entitled: chain_invariant e r d plain "\<lambda>c. \<forall>t. cx_target c = Some t \<longrightarrow> entitled d t" for e r d
proof
  fix m c c'
  assume p: "plain m" and i: "\<forall>t. cx_target c = Some t \<longrightarrow> entitled d t" and m: "middleware e m r c d = Some (Passed c', d)"
  show "\<forall>t. cx_target c' = Some t \<longrightarrow> entitled d t"
  proof (cases "cx_target c' = cx_target c")
    case False
    with m p obtain i u where "q_GetUser i d = Inr u" "cx_target c' = Some u \<or> \<not> User_Admin (the (cx_target c'))"
      by (cases m) (auto simp: plain_def middleware_defs zeroAccount_def split: step_splits)
    then show ?thesis by (auto dest: GetUser_entitled simp: entitled_def)
  qed (use i in simp)
qed (simp add: plain_def)

text \<open>C15. Rights of administration come from administrators only: when an account has them after a request and had
  them not before (a new account included), the request came, with valid credentials, from another account that is
  an administrator. No one makes oneself an administrator, no external identity provider does.\<close>

theorem admin_rights_from_admins:
  assumes "ServeHTTP outside e path r d = Some (resp, d')" and "api_ok d"
    and "u \<in> set (a_user d')" and "User_Admin u"
    and "\<forall>v \<in> set (a_user d). User_ID v = User_ID u \<longrightarrow> \<not> User_Admin v"
  shows "\<exists>editor. signedIn e r d editor \<and> User_Admin editor \<and> User_ID editor \<noteq> User_ID u"
proof -
  have new: "\<not> noNewAdmin d d'" using assms(3-5) by (auto simp: noNewAdmin_def)
  from assms(1) show ?thesis
  proof (cases rule: ServeHTTP_cases)
    case (refused res)
    then show ?thesis using new admins.kept_reach noNewAdmin_refl by blast
  next
    case (handled name h r1 c d1 resp1)
    note o = onlySessions_frame [OF reach_only [OF handled(1)]]
    have new1: "\<not> noNewAdmin d1 d'" using new same_users [OF o(1)] noNewAdmin_trans by blast
    from handled(2) show ?thesis
    proof (cases rule: handlers_cases)
      case plain
      then have "stable (noNewAdmin d1) h"
        using bspec [OF admins.stable_plain_handlers [unfolded list_all_iff] handled(2)] by simp
      from stableD [OF this handled(3) noNewAdmin_refl] show ?thesis using new1 by simp
    next
      case add
      obtain editor a where e: "cx_user c = Some editor" "User_Admin editor"
        "a_user d' = a_user d @ [a]" "User_ID a = a_next d"
        using AddUser_admin [OF handled(3) [unfolded add(2)]] new1 o by auto
      obtain v where v: "signedIn e r d v" "cx_user c = Some v"
        using handled(1) unfolding add(1) by (rule reach_signedIn) (simp_all add: openHandlers_def)
      have "u = a" using assms(3-5) e(3) by auto
      moreover have "User_ID editor < a_next d"
        using v(2) e(1) assms(2) by (rule_tac signedIn_row [OF v(1)]) (auto simp: api_ok_def below_def)
      ultimately show ?thesis using e v by auto
    next
      case update
      obtain v ms where v: "signedIn e r d v" "cx_user c = Some v" and ms: "list_all plain ms"
        and run: "runChain e r1 ms (emptyCtx\<lparr>cx_user := Some v\<rparr>) d1 = Some (Passed c, d1)"
        using handled(1) unfolding update(1) by (rule reach_signedIn) (simp_all add: openHandlers_def)
      have "\<forall>t. cx_target c = Some t \<longrightarrow> entitled d1 t"
        using target_entitled.run [OF ms _ run] by (simp add: emptyCtx_def)
      then obtain i where t: "User_Admin v" "User_ID v \<noteq> i"
        "\<forall>u \<in> set (a_user d'). User_ID u \<noteq> i \<longrightarrow> u \<in> set (a_user d1)"
        using UpdateUser_admin [OF handled(3) [unfolded update(2)]] new1 v(2) by auto
      have "User_ID u = i" using t(3) assms(3-5) o(1) by auto
      with t v show ?thesis by auto
    qed (use handled(3) new1 in \<open>auto dest: login_admins oidcRedirect_admins second_step_users same_users\<close>)
  qed
qed

theorem admin_rights_from_admins_witness:
  "\<exists>editor. signedIn sampleApiEnv addRequest sampleApi editor \<and> User_Admin editor \<and> User_ID editor \<noteq> 9"
proof -
  obtain resp d' where a: "ServeHTTP outside sampleApiEnv ''/api/users'' addRequest sampleApi = Some (resp, d')"
    and i: "map User_ID (a_user d') = [1, 2, 3, 9]" and n: "User_Admin (last (a_user d'))"
    using add_answered by (elim exE conjE)
  from i have u: "last (a_user d') \<in> set (a_user d')" "User_ID (last (a_user d')) = 9"
    by (auto simp: Cons_eq_map_conv)
  have "\<forall>v \<in> set (a_user sampleApi). User_ID v = User_ID (last (a_user d')) \<longrightarrow> \<not> User_Admin v"
    by (simp add: u(2) api_sample_defs)
  from admin_rights_from_admins [OF a sample_api_ok u(1) n this] show ?thesis by (simp add: u(2))
qed

end
