(* ===== verification/Spec2Isabelle.thy ===== *)
theory Spec2Isabelle
  imports Pool_Properties Runner_Properties Dispatch_Properties Recovery_Properties Creation_Properties
    Output_Properties Link_Properties Key_Delivery Runner_Process Secret_Properties Migration Permissions
    Executor_Properties Access_Properties Request_Properties
begin

text \<open>
  A verification development of the task server (a web service that runs Ansible, Terraform and shell
  jobs, on its own machine or on remote runners) and of the runner process that talks to it.

  \<^bold>\<open>Parts of the program and where they are modelled.\<close>

  \<^item> \<^verbatim>\<open>pkg/task_logger\<close>: the status of a task (\<^verbatim>\<open>Task_Status\<close>).
  \<^item> \<^verbatim>\<open>db\<close>, \<^verbatim>\<open>db/sql\<close>: the rows and the queries of the pool (\<^verbatim>\<open>Db_Model\<close>), versions of builds
    (\<^verbatim>\<open>Build_Version\<close>), what is checked of tasks and templates (\<^verbatim>\<open>Validation\<close>), migrations
    (\<^verbatim>\<open>Migration\<close>), project roles (\<^verbatim>\<open>Permissions\<close>), rows and credentials of runners (\<^verbatim>\<open>Runner_Store\<close>,
    with \<^verbatim>\<open>services/server/runner_svc.go\<close>), access keys (\<^verbatim>\<open>Access_Keys\<close>).
  \<^item> \<^verbatim>\<open>util\<close>: keyring, envelopes and AES-GCM framing (\<^verbatim>\<open>Keyring\<close>).
  \<^item> \<^verbatim>\<open>services/tasks\<close>, the core: the in-memory store of waiting, running and active tasks
    (\<^verbatim>\<open>Task_State_Store\<close>), the object of one task with its status changes and its end (\<^verbatim>\<open>Task_Runner\<close>), the
    loading of what a task needs (\<^verbatim>\<open>Task_Details\<close>), the queue loop, admission, creation and the writer of the
    output (\<^verbatim>\<open>Task_Pool\<close>), finalizing, confirming and stopping (\<^verbatim>\<open>Task_Control\<close>), the choice of a runner and
    the run of a task (\<^verbatim>\<open>Runner_Dispatch\<close>), the periodic repair of lost tasks (\<^verbatim>\<open>Runner_Reconciler\<close>).
  \<^item> \<^verbatim>\<open>api/runners\<close>: the handlers that runners call (\<^verbatim>\<open>Runner_Api\<close>).
  \<^item> \<^verbatim>\<open>services/runners\<close>: the process on a runner machine (\<^verbatim>\<open>Job_Pool\<close>), and the interleaving of its loops at
    the grain of the holds of its lock (\<^verbatim>\<open>Runner_Process\<close>).
  \<^item> The local executor, \<^verbatim>\<open>services/tasks/local_executor*.go\<close> with \<^verbatim>\<open>db_lib\<close>, \<^verbatim>\<open>pkg/ssh\<close> and
    \<^verbatim>\<open>util/shell.go\<close>: arguments, variables and environments of commands (\<^verbatim>\<open>Executor_Args\<close>), installed keys,
    SSH agents and commands (\<^verbatim>\<open>Executor_Host\<close>), the git client, clones and inventories (\<^verbatim>\<open>Executor_Workspace\<close>), the
    Ansible, shell and Terraform drivers (\<^verbatim>\<open>Executor_Apps\<close>), preparation, run and cleanup (\<^verbatim>\<open>Executor_Run\<close>).
  \<^item> \<^verbatim>\<open>api\<close>, the API for users: accounts, sessions, tokens, memberships and their queries (\<^verbatim>\<open>Api_Store\<close>), requests
    and all middlewares (\<^verbatim>\<open>Api_Access\<close>), all routes of \<^verbatim>\<open>router.go\<close> with their chains (\<^verbatim>\<open>Api_Routes\<close>), handlers of
    projects, members and tasks (\<^verbatim>\<open>Api_Handlers\<close>), of accounts and tokens (\<^verbatim>\<open>Api_Accounts\<close>), sign-in by password
    and directory and the second step (\<^verbatim>\<open>Api_Login\<close>), by identity provider (\<^verbatim>\<open>Api_Oidc\<close>), and the server that
    puts them together (\<^verbatim>\<open>Api_Server\<close>).
  \<^item> \<^verbatim>\<open>services/server\<close>: encryption service, key service, survey secrets of tasks, rekeying (\<^verbatim>\<open>Access_Keys\<close>).

  \<^bold>\<open>State and steps.\<close> A Go struct is a record with the fields that the code reads or writes. The state of the
  server is \<^typ>\<open>World\<close>: a heap of task runner objects (the code shares \<^verbatim>\<open>*TaskRunner\<close> pointers between the queue,
  the maps and the goroutines, so pointers are kept as references of type \<^typ>\<open>tref\<close>), the store, the tables, the
  pending events of the pool, the records of the logger, the goroutines that were spawned, the metrics and a
  trace of visible effects. An operation is a function on worlds; its value is \<^const>\<open>None\<close> where the code
  panics (a nil pointer, a slice bound, \<^verbatim>\<open>log.Panic\<close>) or does not return; what it did before the panic, such as the
  status \<^verbatim>\<open>error\<close> that \<^verbatim>\<open>prepareError\<close> writes, is then not part of the result. The value is \<^const>\<open>Inl\<close> of an error where the
  Go function returns one. Each handler, each callback and each stretch of a goroutine between two points at
  which it blocks is one step; the relation \<^const>\<open>pool_step\<close> of \<^verbatim>\<open>Pool_System\<close> lists them and
  \<^const>\<open>reachable\<close> closes it. Steps of different goroutines interleave in every order, but the
  statements inside one step are not interleaved with others: where the code relies on no lock for that, the
  findings name the race. The runner process is \<^typ>\<open>JobPool\<close> with its own heap of running jobs, and
  \<^verbatim>\<open>Link_Properties\<close> composes it with the handlers of the server over the wire format of \<^verbatim>\<open>Runner_Api\<close>.
  \<^typ>\<open>KeyDb\<close> holds the tables that the services for secrets use. The executor runs on a \<^typ>\<open>Host\<close>: the object
  itself, the trace of its effects on files, agents, locks and processes, and the failures and outputs of commands
  as functions of the trace so far. The API works on \<^typ>\<open>Api\<close>: its tables, with the world of the pool and the
  table of keys as components, so that a handler that starts or stops a task calls the operations of the pool; a
  request goes through \<^const>\<open>findRoute\<close>, the chain of its route (\<^const>\<open>runChain\<close>) and its handler
  (\<^const>\<open>ServeHTTP\<close>), and the inductive relation \<^const>\<open>serves\<close> closes requests under everything else that may
  happen between them.

  \<^bold>\<open>Parameters.\<close> The record \<^typ>\<open>PoolEnv\<close> holds the configuration and the services that the pool calls through
  interfaces: inventories, decryption, JWT signing, workflows, git reference names, JSON of free-form objects,
  the webhook client, randomness. \<^typ>\<open>KeyEnv\<close> holds the JSON codec of keys and the file system, and
  \<^typ>\<open>CryptoLib\<close> AES-GCM and SHA-256. They are arguments of the definitions and arbitrary in the theorems,
  except where a theorem names what it needs (\<^const>\<open>cryptoOK\<close>, \<^const>\<open>jsonOK\<close>). \<^typ>\<open>ExecEnv\<close> is the
  configuration of the executor with a \<^typ>\<open>KeyEnv\<close>, so that keys that are kept in variables of the process are read
  from the environment that the commands see too; \<^typ>\<open>ApiEnv\<close> that of the API with the cookie codec, URL and JSON decoders, bcrypt,
  TOTP, the directory and the identity providers. The handlers that are not modelled are the argument \<open>other\<close> of
  \<^const>\<open>ServeHTTP\<close>; \<^const>\<open>outside\<close>, which gives no answer, restricts a statement to the requests that modelled
  handlers answer. The database fails at
  arbitrary queries (the field \<^verbatim>\<open>db_faults\<close>). Keys are listed in the order of their names as a collation compares
  them, with any order among equal names that may differ from query to query (\<^const>\<open>orderByName\<close>). What the local executor does to the world is the argument
  \<^verbatim>\<open>localRun\<close> of the run of a task.

  \<^bold>\<open>What the lemmas show.\<close>

  \<^item> \<^verbatim>\<open>Task_State_Store\<close>: the invariant of the store and what each operation does to its three parts,
    bundled as the locale \<^verbatim>\<open>task_state_store\<close> and interpreted on the in-memory store; the active map refines
    a map from projects to sets of tasks.
  \<^item> \<^verbatim>\<open>Pool_Frames\<close>, \<^verbatim>\<open>Pool_Machine\<close>, \<^verbatim>\<open>Pool_System\<close>: which operations leave the store alone, and that every
    step keeps the invariant of the pool.
  \<^item> \<^verbatim>\<open>Queue_Pass\<close>, \<^verbatim>\<open>Pool_Properties\<close>: limits, exclusive templates, order and progress of the queue.
  \<^item> \<^verbatim>\<open>Runner_Properties\<close>, \<^verbatim>\<open>Dispatch_Properties\<close>, \<^verbatim>\<open>Recovery_Properties\<close>, \<^verbatim>\<open>Creation_Properties\<close>,
    \<^verbatim>\<open>Output_Properties\<close>: status changes, choice of runners, repair, creation and output of tasks.
  \<^item> \<^verbatim>\<open>Job_Pool_Properties\<close>, \<^verbatim>\<open>Link_Properties\<close>, \<^verbatim>\<open>Key_Delivery\<close>, \<^verbatim>\<open>Runner_Process\<close>: a runner holds a task once
    unless its two loops deal with the task at the same moment, log lines arrive once,
    a task that was taken away is killed, keys reach the executor, and four places where the code fails.
  \<^item> \<^verbatim>\<open>Secret_Properties\<close>, \<^verbatim>\<open>Keyring\<close>: secrets are read back after storage, rotation and rekeying, secret files stay
    inside their directory, and survey secrets live as long as their task needs them.

  \<^item> \<^verbatim>\<open>Executor_Logic\<close>, \<^verbatim>\<open>Executor_Total\<close>: the logic of the effects of a run and its totality;
    \<^verbatim>\<open>Executor_Views\<close>, \<^verbatim>\<open>Executor_Environment\<close>, \<^verbatim>\<open>Executor_Resources\<close>, \<^verbatim>\<open>Executor_Properties\<close>: what a run does
    not look at (locales \<^verbatim>\<open>steady_state\<close> and \<^verbatim>\<open>executor_view\<close>), which variables its commands see, that locks
    and agents are released on every path, that Terraform applies only what was approved.
  \<^item> \<^verbatim>\<open>Api_Chains\<close>, \<^verbatim>\<open>Api_Table\<close>, \<^verbatim>\<open>Api_Paths\<close>, \<^verbatim>\<open>Api_Rights\<close>: invariants of chains of middlewares (locale
    \<^verbatim>\<open>chain_invariant\<close>), the table of routes, which routes a path can have, and the rights of a user;
    \<^verbatim>\<open>Access_Properties\<close>: no handler without credentials, administration by administrators, projects for
    members, writing with the permission of the handler, objects of other projects out of reach, requests of
    other sites refused.
  \<^item> \<^verbatim>\<open>Api_Tables\<close>, \<^verbatim>\<open>Api_Requests\<close>: well-formed tables, and what queries keep every request keeps (locales
    \<^verbatim>\<open>plain_queries\<close> and \<^verbatim>\<open>all_queries\<close>, interpreted on four invariants); \<^verbatim>\<open>Request_Properties\<close>: tables stay
    well-formed, accounts stay local or external, the second factor is required, rights of administrators
    come from administrators.

  \<^verbatim>\<open>Sample\<close>, \<^verbatim>\<open>Executor_Sample\<close> and \<^verbatim>\<open>Api_Sample\<close> are the small installations on which the witnesses run.

  \<^bold>\<open>Termination.\<close> Loops over lists are structural. The search for a free version, the climb from a deploy task
  to its build (\<^const>\<open>GetIncomingVersion\<close>, a \<^verbatim>\<open>partial_function\<close>, because rows may form a cycle) and the pages
  of \<^const>\<open>rekeyProject\<close> (a measure) are the loops that need an argument, and in the executor the wait for the
  decision about a Terraform plan (\<^const>\<open>awaitDecision\<close>, a \<^verbatim>\<open>partial_function\<close>, since nobody may ever decide);
  \<^verbatim>\<open>Executor_Resources.Run_returns\<close> says when a run returns. No fuel is used.

  \<^bold>\<open>Not modelled.\<close> Of the API for users: what the handlers of templates, keys, repositories, inventories,
  environments, schedules, views, integrations, roles, options and workflows do with a body (their routes and
  middlewares are modelled), creation and deletion of projects, statistics and output of tasks, web sockets, codes
  sent by mail and the front end. Of the executor: the embedded git client, pipes and pseudo terminals, the dialog
  of \<^verbatim>\<open>terraform init\<close>, the protocol of SSH agents, containers. Also rendering of mails and messages, reading of the
  configuration, SQL text (a query is its documented effect on tables), schedules, integrations, backup and export,
  the command line, the Redis store of the high-availability mode and the other parts that the source tree only
  stubs. The argument \<^verbatim>\<open>localRun\<close> of the pool is not instantiated with the model of the local executor: the two have
  states of their own.
\<close>

end
